(* ===== verification/Prelude.thy ===== *)
theory Prelude
  imports Main
begin

text \<open>
  What every component of the model shares: the errors the code raises, transactions, rows and
  tables (the part of the Django ORM the code relies on), the supply of primary keys, strings,
  dates and times. The database is a record; each component extends it by the tables it keeps.
\<close>

named_theorems table_simps
named_theorems money_simps

section \<open>Errors and results\<close>

text \<open>
  Every \<open>raise\<close> is a value. \<open>ValidationError\<close> is \<open>serializers.ValidationError(msg)\<close> and
  \<open>FieldError f msg\<close> is \<open>serializers.ValidationError({f: msg})\<close>; \<open>FieldErrors\<close> is the
  dictionary of messages a model's \<open>full_clean\<close> raises; \<open>DoesNotExist m\<close> is the lookup
  error of the model class \<open>m\<close>; \<open>IntegrityError c\<close> is the database refusing the constraint \<open>c\<close>,
  \<open>DatabaseError m\<close> an update of a row that is not there;
  \<open>InvalidUuid x\<close> is the database layer refusing \<open>x\<close> as a primary key; \<open>ErrorResponse n code\<close> is a
  view that answers with the HTTP status \<open>n\<close> and an error code instead of raising.
\<close>

datatype error =
    ValidationError string
  | FieldError string string
  | FieldErrors "(string \<times> string) list"
  | DoesNotExist string
  | IntegrityError string
  | DatabaseError string
  | SlotNotAvailable string
  | TypeError string
  | AttributeError string
  | ValueError string
  | KeyError string
  | Throttled string
  | APIException string
  | AuthenticationFailed string
  | PermissionDenied
  | InvalidUuid string
  | ErrorResponse nat string

text \<open>
  A function decorated with \<open>transaction.atomic\<close> either returns a value and the new database or
  raises, and then the database is what it was. \<open>atomic\<close> runs such a body from outside: the error
  is handed on together with the untouched database.
\<close>

definition atomic :: "('s \<Rightarrow> error + ('a \<times> 's)) \<Rightarrow> 's \<Rightarrow> (error + 'a) \<times> 's" where
  "atomic f s = (case f s of Inl e \<Rightarrow> (Inl e, s) | Inr (a, s') \<Rightarrow> (Inr a, s'))"

section \<open>Rows and tables\<close>

text \<open>
  A table is the list of its rows in insertion order, and a row is found by its primary key.
  \<open>save_row\<close> is \<open>Model.save()\<close> on an existing row: it replaces the row with the same key.
\<close>

definition find_row :: "('r \<Rightarrow> 'k) \<Rightarrow> 'k \<Rightarrow> 'r list \<Rightarrow> 'r option" where
  "find_row key k rows = List.find (\<lambda>r. key r = k) rows"

definition save_row :: "('r \<Rightarrow> 'k) \<Rightarrow> 'r \<Rightarrow> 'r list \<Rightarrow> 'r list" where
  "save_row key r rows = map (\<lambda>x. if key x = key r then r else x) rows"

definition unique_rows :: "('r \<Rightarrow> 'k) \<Rightarrow> 'r list \<Rightarrow> bool" where
  "unique_rows key rows = distinct (map key rows)"

definition count_rows :: "('r \<Rightarrow> bool) \<Rightarrow> 'r list \<Rightarrow> nat" where
  "count_rows P rows = length (filter P rows)"

definition sum_rows :: "('r \<Rightarrow> int) \<Rightarrow> ('r \<Rightarrow> bool) \<Rightarrow> 'r list \<Rightarrow> int" where
  "sum_rows f P rows = sum_list (map f (filter P rows))"

definition first_row :: "('r \<Rightarrow> bool) \<Rightarrow> 'r list \<Rightarrow> 'r option" where
  "first_row P rows = List.find P rows"

definition last_row :: "('r \<Rightarrow> bool) \<Rightarrow> 'r list \<Rightarrow> 'r option" where
  "last_row P rows = List.find P (rev rows)"

text \<open>
  \<open>order_by("-f").first()\<close>: the row with the greatest \<open>f\<close>, the latest inserted one among equals.
\<close>

fun max_row :: "('r \<Rightarrow> int) \<Rightarrow> 'r list \<Rightarrow> 'r option" where
  "max_row f [] = None"
| "max_row f (r # rs) =
     (case max_row f rs of
        None \<Rightarrow> Some r
      | Some m \<Rightarrow> if f m \<ge> f r then Some m else Some r)"

text \<open>\<open>order_by\<close> with the strict order \<open>before\<close>; rows that are equal in it keep their order.\<close>

fun insert_before :: "('r \<Rightarrow> 'r \<Rightarrow> bool) \<Rightarrow> 'r \<Rightarrow> 'r list \<Rightarrow> 'r list" where
  "insert_before before r [] = [r]"
| "insert_before before r (x # xs) =
     (if before x r then x # insert_before before r xs else r # x # xs)"

fun sort_before :: "('r \<Rightarrow> 'r \<Rightarrow> bool) \<Rightarrow> 'r list \<Rightarrow> 'r list" where
  "sort_before before [] = []"
| "sort_before before (x # xs) = insert_before before x (sort_before before xs)"

text \<open>
  The primary keys are random UUIDs in the code (\<open>common/models.py\<close>); the model draws them from
  a supply that never hands out the same key twice.
\<close>

record base_db =
  next_id :: nat

definition new_id :: "'x base_db_scheme \<Rightarrow> nat" where
  "new_id s = next_id s"

definition bump_id :: "'x base_db_scheme \<Rightarrow> 'x base_db_scheme" where
  "bump_id s = s\<lparr>next_id := Suc (next_id s)\<rparr>"

section \<open>Strings\<close>

definition digit_char :: "nat \<Rightarrow> char" where
  "digit_char d = ''0123456789'' ! d"

fun nat_str :: "nat \<Rightarrow> string" where
  "nat_str n = (if n < 10 then [digit_char n] else nat_str (n div 10) @ [digit_char (n mod 10)])"

declare nat_str.simps [simp del]

definition pad_left :: "nat \<Rightarrow> char \<Rightarrow> string \<Rightarrow> string" where
  "pad_left w c xs = replicate (w - length xs) c @ xs"

definition is_digit :: "char \<Rightarrow> bool" where
  "is_digit c = (c \<in> set ''0123456789'')"

definition digit_value :: "char \<Rightarrow> nat" where
  "digit_value c = of_char c - 48"

definition parse_nat :: "string \<Rightarrow> nat" where
  "parse_nat xs = foldl (\<lambda>a c. 10 * a + digit_value c) 0 xs"

text \<open>White space of the Latin-1 range, as \<open>str.split()\<close> and \<open>str.strip()\<close> see it.\<close>

definition is_space :: "char \<Rightarrow> bool" where
  "is_space c = (of_char c \<in> set [9, 10, 11, 12, 13, 28, 29, 30, 31, 32, 133, 160 :: nat])"

text \<open>
  Case conversion within Latin-1; the three letters whose upper case lies outside it (the sharp s, the
  micro sign and the y with diaeresis) are left alone.
\<close>

definition lower_char :: "char \<Rightarrow> char" where
  "lower_char c =
     (let n = (of_char c :: nat) in
      if (65 \<le> n \<and> n \<le> 90) \<or> (192 \<le> n \<and> n \<le> 222 \<and> n \<noteq> 215) then char_of (n + 32) else c)"

definition upper_char :: "char \<Rightarrow> char" where
  "upper_char c =
     (let n = (of_char c :: nat) in
      if (97 \<le> n \<and> n \<le> 122) \<or> (224 \<le> n \<and> n \<le> 254 \<and> n \<noteq> 247) then char_of (n - 32) else c)"

definition lower_str :: "string \<Rightarrow> string" where
  "lower_str xs = map lower_char xs"

definition upper_str :: "string \<Rightarrow> string" where
  "upper_str xs = map upper_char xs"

definition strip_str :: "string \<Rightarrow> string" where
  "strip_str xs = rev (dropWhile is_space (rev (dropWhile is_space xs)))"

definition remove_spaces :: "string \<Rightarrow> string" where
  "remove_spaces xs = filter (\<lambda>c. \<not> is_space c) xs"

fun words_aux :: "string \<Rightarrow> string \<Rightarrow> string list" where
  "words_aux w [] = (if w = [] then [] else [rev w])"
| "words_aux w (c # cs) =
     (if is_space c then (if w = [] then words_aux [] cs else rev w # words_aux [] cs)
      else words_aux (c # w) cs)"

definition split_words :: "string \<Rightarrow> string list" where
  "split_words xs = words_aux [] xs"

fun join_str :: "string \<Rightarrow> string list \<Rightarrow> string" where
  "join_str sep [] = ''''"
| "join_str sep [x] = x"
| "join_str sep (x # y # xs) = x @ sep @ join_str sep (y # xs)"

text \<open>A field of a partial update: \<open>None\<close> is a field that was not sent.\<close>

definition given :: "'a \<Rightarrow> 'a option \<Rightarrow> 'a" where
  "given old x = (case x of None \<Rightarrow> old | Some v \<Rightarrow> v)"

text \<open>\<open>a or b\<close> on strings: the first one that is not empty.\<close>

definition rstrip_slash :: "string \<Rightarrow> string" where
  "rstrip_slash x = rev (dropWhile (\<lambda>c. c = CHR ''/'') (rev x))"

definition or_str :: "string \<Rightarrow> string \<Rightarrow> string" where
  "or_str a b = (if a = '''' then b else a)"

definition nonempty_parts :: "string list \<Rightarrow> string list" where
  "nonempty_parts xs = filter (\<lambda>x. x \<noteq> '''') xs"

definition contains_str :: "string \<Rightarrow> string \<Rightarrow> bool" where
  "contains_str sub xs = list_ex (\<lambda>i. take (length sub) (drop i xs) = sub) [0..<Suc (length xs)]"

fun starts_with :: "string \<Rightarrow> string \<Rightarrow> bool" where
  "starts_with [] ys = True"
| "starts_with (x # xs) [] = False"
| "starts_with (x # xs) (y # ys) = (x = y \<and> starts_with xs ys)"

text \<open>\<open>hmac.compare_digest\<close> on two \<open>str\<close>: only ASCII strings are accepted.\<close>

definition ascii_str :: "string \<Rightarrow> bool" where
  "ascii_str xs = list_all (\<lambda>c. (of_char c :: nat) < 128) xs"

definition compare_digest :: "string \<Rightarrow> string \<Rightarrow> error + bool" where
  "compare_digest a b =
     (if ascii_str a \<and> ascii_str b then Inr (a = b)
      else Inl (TypeError ''comparing strings with non-ASCII characters is not supported''))"

text \<open>The text form of a primary key, and reading it back; other strings are not keys.\<close>

definition parse_key :: "string \<Rightarrow> nat option" where
  "parse_key xs = (if xs \<noteq> [] \<and> list_all is_digit xs then Some (parse_nat xs) else None)"

section \<open>Dates and times\<close>

text \<open>
  A \<open>date\<close> is a day number, day 0 being 1970-01-01; a \<open>time_of_day\<close> counts microseconds since
  midnight and a \<open>timestamp\<close> microseconds since the epoch (\<open>datetime\<close> resolves microseconds).
  \<open>TIME_ZONE\<close> is Asia/Kolkata, which is UTC+5:30 all year.
\<close>

type_synonym date = int
type_synonym time_of_day = int
type_synonym timestamp = int

definition hour_us :: int where
  "hour_us = 3600000000"

definition minute_us :: int where
  "minute_us = 60000000"

definition day_us :: int where
  "day_us = 86400000000"

definition zone_us :: int where
  "zone_us = 19800000000"

definition make_aware :: "date \<Rightarrow> time_of_day \<Rightarrow> timestamp" where
  "make_aware d t = d * day_us + t - zone_us"

definition localdate :: "timestamp \<Rightarrow> date" where
  "localdate now = (now + zone_us) div day_us"

definition localtime :: "timestamp \<Rightarrow> time_of_day" where
  "localtime now = (now + zone_us) mod day_us"

definition utc_date :: "timestamp \<Rightarrow> date" where
  "utc_date now = now div day_us"

text \<open>\<open>date.weekday()\<close>: Monday is 0; 1970-01-01 was a Thursday.\<close>

definition weekday :: "date \<Rightarrow> int" where
  "weekday d = (d + 3) mod 7"

text \<open>
  The proleptic Gregorian year, month and day of a day number, computed from the 400-year cycle
  that starts on 1 March of year 0 (day number -719468).
\<close>

definition civil_of :: "date \<Rightarrow> int \<times> int \<times> int" where
  "civil_of d =
     (let z = d + 719468;
          era = z div 146097;
          doe = z mod 146097;
          yoe = (doe - doe div 1460 + doe div 36524 - doe div 146096) div 365;
          doy = doe - (365 * yoe + yoe div 4 - yoe div 100);
          mp = (5 * doy + 2) div 153;
          dd = doy - (153 * mp + 2) div 5 + 1;
          m = (if mp < 10 then mp + 3 else mp - 9);
          y = yoe + era * 400
      in (if m \<le> 2 then y + 1 else y, m, dd))"

definition year_of :: "date \<Rightarrow> int" where
  "year_of d = fst (civil_of d)"

definition month_of :: "date \<Rightarrow> int" where
  "month_of d = fst (snd (civil_of d))"

definition day_of :: "date \<Rightarrow> int" where
  "day_of d = snd (snd (civil_of d))"

definition date_str :: "date \<Rightarrow> string" where
  "date_str d = pad_left 4 CHR ''0'' (nat_str (nat (year_of d))) @ ''-'' @
     pad_left 2 CHR ''0'' (nat_str (nat (month_of d))) @ ''-'' @
     pad_left 2 CHR ''0'' (nat_str (nat (day_of d)))"

text \<open>\<open>time.strftime("%H:%M")\<close>.\<close>

definition hhmm_str :: "time_of_day \<Rightarrow> string" where
  "hhmm_str t = pad_left 2 CHR ''0'' (nat_str (nat (t div hour_us))) @ '':'' @
     pad_left 2 CHR ''0'' (nat_str (nat ((t mod hour_us) div minute_us)))"

section \<open>Lemmas: numbers as text\<close>

lemma less_10_cases:
  "d < 10 \<Longrightarrow> d \<in> {0, 1, 2, 3, 4, 5, 6, 7, 8, 9 :: nat}"
  by auto

lemma digit_value_char [simp]: "d < 10 \<Longrightarrow> digit_value (digit_char d) = d"
  by (drule less_10_cases) (auto simp: digit_char_def digit_value_def nth_Cons')

lemma is_digit_char [simp]: "d < 10 \<Longrightarrow> is_digit (digit_char d)"
  by (drule less_10_cases) (auto simp: digit_char_def is_digit_def nth_Cons')

lemma nat_str_not_Nil [simp]: "nat_str n \<noteq> []"
  by (subst nat_str.simps) simp

lemma nat_str_digits: "list_all is_digit (nat_str n)"
  by (induction n rule: nat_str.induct) (subst nat_str.simps, simp)

lemma parse_nat_snoc: "parse_nat (xs @ [c]) = 10 * parse_nat xs + digit_value c"
  by (simp add: parse_nat_def)

lemma parse_nat_str [simp]: "parse_nat (nat_str n) = n"
proof (induction n rule: nat_str.induct)
  case (1 n)
  show ?case
  proof (cases "n < 10")
    case True
    then show ?thesis by (subst nat_str.simps) (simp add: parse_nat_def)
  next
    case False
    with 1 show ?thesis by (subst nat_str.simps) (simp add: parse_nat_snoc)
  qed
qed

lemma parse_key_str [simp]: "parse_key (nat_str n) = Some n"
  by (simp add: parse_key_def nat_str_digits)

lemma nat_str_inj [simp]: "nat_str m = nat_str n \<longleftrightarrow> m = n"
  by (metis parse_nat_str)

lemma parse_nat_bound: "list_all is_digit xs \<Longrightarrow> parse_nat xs < 10 ^ length xs"
proof (induction xs rule: rev_induct)
  case Nil
  then show ?case by (simp add: parse_nat_def)
next
  case (snoc c xs)
  then have "digit_value c < 10"
    by (auto simp: is_digit_def digit_value_def)
  with snoc show ?case by (simp add: parse_nat_snoc)
qed

lemma length_nat_str_le: "n < 10 ^ k \<Longrightarrow> 0 < k \<Longrightarrow> length (nat_str n) \<le> k"
proof (induction n arbitrary: k rule: nat_str.induct)
  case (1 n)
  show ?case
  proof (cases "n < 10")
    case True
    with 1 show ?thesis by (subst nat_str.simps) simp
  next
    case False
    then obtain k' where k: "k = Suc k'" and "0 < k'"
      using 1(2,3) by (cases k; cases "k - 1") auto
    then have "n div 10 < 10 ^ k'"
      using 1(2) by simp
    with 1(1) False \<open>0 < k'\<close> have "length (nat_str (n div 10)) \<le> k'"
      by blast
    with False k show ?thesis by (subst nat_str.simps) simp
  qed
qed

lemma parse_nat_pad [simp]: "parse_nat (pad_left w CHR ''0'' xs) = parse_nat xs"
proof -
  have "foldl (\<lambda>a c. 10 * a + digit_value c) 0 (replicate k CHR ''0'') = 0" for k
    by (induction k) (simp_all add: digit_value_def)
  then show ?thesis by (simp add: pad_left_def parse_nat_def)
qed

lemma length_pad_left [simp]: "length (pad_left w c xs) = max w (length xs)"
  by (simp add: pad_left_def)

section \<open>Lemmas: tables\<close>

lemma find_row_Nil [simp]: "find_row key k [] = None"
  by (simp add: find_row_def)

lemma find_row_Cons [simp]:
  "find_row key k (r # rs) = (if key r = k then Some r else find_row key k rs)"
  by (simp add: find_row_def)

lemma find_row_append:
  "find_row key k (xs @ ys) = (case find_row key k xs of None \<Rightarrow> find_row key k ys | Some r \<Rightarrow> Some r)"
  by (induction xs) auto

lemma find_row_SomeD: "find_row key k rows = Some r \<Longrightarrow> r \<in> set rows \<and> key r = k"
  by (induction rows) (auto split: if_splits)

lemma find_row_None_iff: "find_row key k rows = None \<longleftrightarrow> k \<notin> key ` set rows"
  by (induction rows) auto

lemma find_row_unique:
  "unique_rows key rows \<Longrightarrow> r \<in> set rows \<Longrightarrow> find_row key (key r) rows = Some r"
  by (induction rows) (auto simp: unique_rows_def)

lemma find_row_save_row [table_simps]:
  "find_row key k (save_row key r rows) =
     (if k = key r then map_option (\<lambda>_. r) (find_row key k rows) else find_row key k rows)"
  by (induction rows) (auto simp: save_row_def)

lemma map_key_save_row [simp]: "map key (save_row key r rows) = map key rows"
  by (induction rows) (auto simp: save_row_def)

lemma unique_rows_save_row [simp]: "unique_rows key (save_row key r rows) = unique_rows key rows"
  by (simp add: unique_rows_def)

lemma unique_rows_append [simp]:
  "unique_rows key (rows @ [r]) = (unique_rows key rows \<and> key r \<notin> key ` set rows)"
  by (auto simp: unique_rows_def)

lemma length_save_row [simp]: "length (save_row key r rows) = length rows"
  by (simp add: save_row_def)

lemma save_row_absent: "key r \<notin> key ` set rows \<Longrightarrow> save_row key r rows = rows"
  by (induction rows) (auto simp: save_row_def)

lemma set_save_row: "set (save_row key r rows) \<subseteq> insert r (set rows)"
  by (auto simp: save_row_def)

lemma in_set_save_row:
  "x \<in> set (save_row key r rows) \<longleftrightarrow>
     (x \<in> set rows \<and> key x \<noteq> key r) \<or> (x = r \<and> key r \<in> key ` set rows)"
  by (induction rows) (auto simp: save_row_def)

text \<open>The table after each row of \<open>ks\<close> has been saved as its image under \<open>g\<close>.\<close>

definition save_batch :: "('r \<Rightarrow> 'k) \<Rightarrow> ('r \<Rightarrow> 'r) \<Rightarrow> 'r list \<Rightarrow> 'r list \<Rightarrow> 'r list" where
  "save_batch key g ks rows = map (\<lambda>x. if key x \<in> key ` set ks then g x else x) rows"

lemma save_batch_Cons:
  assumes "unique_rows key rows" and "l \<in> set rows" and "key l \<notin> key ` set ks" and "\<And>x. key (g x) = key x"
  shows "save_batch key g ks (save_row key (g l) rows) = save_batch key g (l # ks) rows"
proof -
  have "x = l" if "x \<in> set rows" "key x = key l" for x
    using that assms(1,2) by (auto simp: unique_rows_def distinct_map dest: inj_onD)
  then show ?thesis using assms(3,4) by (auto simp: save_batch_def save_row_def)
qed

lemma fold_saves:
  assumes "unique_rows key rows" and "set ks \<subseteq> set rows" and "distinct (map key ks)" and "\<And>x. key (g x) = key x"
  shows "fold (\<lambda>x. save_row key (g x)) ks rows = save_batch key g ks rows"
  using assms(1-3)
proof (induction ks arbitrary: rows)
  case Nil
  then show ?case by (simp add: save_batch_def)
next
  case (Cons l ks)
  have "set ks \<subseteq> set (save_row key (g l) rows)"
  proof
    fix k assume k: "k \<in> set ks"
    then have "key k \<noteq> key l" "k \<in> set rows" using Cons.prems(2,3) by (auto simp: rev_image_eqI)
    then show "k \<in> set (save_row key (g l) rows)" by (auto simp: in_set_save_row assms(4))
  qed
  with Cons save_batch_Cons [of key rows l ks g] assms(4) show ?case by simp
qed

lemma count_rows_Nil [simp]: "count_rows P [] = 0"
  by (simp add: count_rows_def)

lemma count_rows_Cons [simp]: "count_rows P (r # rs) = (if P r then Suc (count_rows P rs) else count_rows P rs)"
  by (simp add: count_rows_def)

lemma count_rows_append [simp]: "count_rows P (xs @ ys) = count_rows P xs + count_rows P ys"
  by (simp add: count_rows_def)

lemma sum_rows_Nil [simp]: "sum_rows f P [] = 0"
  by (simp add: sum_rows_def)

lemma sum_rows_Cons [simp]: "sum_rows f P (r # rs) = (if P r then f r else 0) + sum_rows f P rs"
  by (simp add: sum_rows_def)

lemma sum_rows_append [simp]: "sum_rows f P (xs @ ys) = sum_rows f P xs + sum_rows f P ys"
  by (simp add: sum_rows_def)

lemma sum_rows_nonneg: "(\<And>r. r \<in> set rows \<Longrightarrow> P r \<Longrightarrow> 0 \<le> f r) \<Longrightarrow> 0 \<le> sum_rows f P rows"
  by (induction rows) (auto intro: add_nonneg_nonneg)

lemma sum_rows_member:
  "r \<in> set rows \<Longrightarrow> P r \<Longrightarrow> \<forall>x\<in>set rows. P x \<longrightarrow> 0 \<le> f x \<Longrightarrow> f r \<le> sum_rows f P rows"
proof (induction rows)
  case (Cons x rows)
  have "0 \<le> sum_rows f P rows" using Cons.prems(3) by (intro sum_rows_nonneg) auto
  then show ?case using Cons by auto
qed simp

lemma find_SomeD: "List.find P xs = Some x \<Longrightarrow> x \<in> set xs \<and> P x"
  by (induction xs) (auto split: if_splits)

text \<open>Saving a row changes a count, or a sum, by what the row contributed before and after.\<close>

lemma sum_rows_save_row:
  "unique_rows key rows \<Longrightarrow> find_row key (key r) rows = Some old \<Longrightarrow>
     sum_rows f P (save_row key r rows) =
       sum_rows f P rows - (if P old then f old else 0) + (if P r then f r else 0)"
proof (induction rows)
  case Nil
  then show ?case by simp
next
  case (Cons x xs)
  show ?case
  proof (cases "key x = key r")
    case True
    with Cons.prems have "x = old" and "key r \<notin> key ` set xs"
      by (auto simp: unique_rows_def)
    moreover from this have "save_row key r xs = xs"
      by (intro save_row_absent) auto
    ultimately show ?thesis
      using True by (simp add: save_row_def)
  next
    case False
    with Cons show ?thesis
      by (simp add: unique_rows_def save_row_def)
  qed
qed

lemma count_rows_as_sum: "int (count_rows P rows) = sum_rows (\<lambda>_. 1) P rows"
  by (induction rows) auto

lemma count_rows_save_row:
  assumes "unique_rows key rows" and "find_row key (key r) rows = Some old"
  shows "int (count_rows P (save_row key r rows)) =
           int (count_rows P rows) - (if P old then 1 else 0) + (if P r then 1 else 0)"
  using sum_rows_save_row [OF assms, of "\<lambda>_. 1" P] by (simp add: count_rows_as_sum)

lemma count_rows_pos: "r \<in> set rows \<Longrightarrow> P r \<Longrightarrow> 0 < count_rows P rows"
  by (induction rows) auto

lemma first_row_SomeD: "first_row P rows = Some r \<Longrightarrow> r \<in> set rows \<and> P r"
  by (auto simp: first_row_def find_Some_iff)

lemma first_row_None_iff: "first_row P rows = None \<longleftrightarrow> (\<forall>r\<in>set rows. \<not> P r)"
  by (auto simp: first_row_def find_None_iff)

lemma first_row_append:
  "first_row P (xs @ ys) = (case first_row P xs of None \<Rightarrow> first_row P ys | Some r \<Rightarrow> Some r)"
  by (induction xs) (simp_all add: first_row_def)

lemma max_row_None_iff [simp]: "max_row f rows = None \<longleftrightarrow> rows = []"
  by (cases rows) (auto split: option.splits)

lemma max_row_SomeD: "max_row f rows = Some m \<Longrightarrow> m \<in> set rows \<and> (\<forall>r\<in>set rows. f r \<le> f m)"
proof (induction rows arbitrary: m)
  case Nil
  then show ?case by simp
next
  case (Cons r rs)
  show ?case
  proof (cases "max_row f rs")
    case None
    with Cons.prems show ?thesis by simp
  next
    case (Some n)
    with Cons.IH have "n \<in> set rs \<and> (\<forall>r\<in>set rs. f r \<le> f n)" by blast
    with Cons.prems Some show ?thesis by (auto split: if_splits)
  qed
qed

lemma set_insert_before [simp]: "set (insert_before before r xs) = insert r (set xs)"
  by (induction xs) auto

lemma set_sort_before [simp]: "set (sort_before before xs) = set xs"
  by (induction xs) auto

lemma length_sort_before [simp]: "length (sort_before before xs) = length xs"
proof -
  have "length (insert_before before r ys) = Suc (length ys)" for r and ys :: "'a list"
    by (induction ys) auto
  then show ?thesis by (induction xs) auto
qed

section \<open>The interface of a table\<close>

text \<open>
  Every table of the database is used through the same four operations: all rows, the row of a
  key, saving a row and inserting one. The laws are those of a finite map with distinct keys; the
  lemmas are proved once here and inherited by each table of the model.
\<close>

locale row_table =
  fixes key :: "'r \<Rightarrow> nat"
    and rows :: "'s \<Rightarrow> 'r list"
    and get :: "nat \<Rightarrow> 's \<Rightarrow> 'r option"
    and save :: "'r \<Rightarrow> 's \<Rightarrow> 's"
    and ins :: "'r \<Rightarrow> 's \<Rightarrow> 's"
  assumes get_rows: "get k s = find_row key k (rows s)"
    and rows_save: "rows (save r s) = save_row key r (rows s)"
    and rows_ins: "rows (ins r s) = rows s @ [r]"
begin

lemma get_in_rows: "get k s = Some r \<Longrightarrow> r \<in> set (rows s) \<and> key r = k"
  unfolding get_rows by (rule find_row_SomeD)

lemma get_key: "get k s = Some r \<Longrightarrow> key r = k"
  using get_in_rows by blast

lemma get_save_same: "get (key r) s = Some old \<Longrightarrow> get (key r) (save r s) = Some r"
  by (simp add: get_rows rows_save table_simps)

lemma get_save_other: "k \<noteq> key r \<Longrightarrow> get k (save r s) = get k s"
  by (simp add: get_rows rows_save table_simps)

lemma get_ins_new: "get (key r) s = None \<Longrightarrow> get (key r) (ins r s) = Some r"
  by (simp add: get_rows rows_ins find_row_append)

lemma get_ins_old: "get k s = Some x \<Longrightarrow> get k (ins r s) = Some x"
  by (simp add: get_rows rows_ins find_row_append)

lemma get_of_row: "unique_rows key (rows s) \<Longrightarrow> r \<in> set (rows s) \<Longrightarrow> get (key r) s = Some r"
  by (simp add: get_rows find_row_unique)

lemma unique_save: "unique_rows key (rows (save r s)) = unique_rows key (rows s)"
  by (simp add: rows_save)

lemma unique_ins: "unique_rows key (rows (ins r s)) \<longleftrightarrow> unique_rows key (rows s) \<and> get (key r) s = None"
  by (auto simp: rows_ins get_rows find_row_None_iff)

lemma rows_of_save:
  "x \<in> set (rows (save r s)) \<Longrightarrow> x = r \<or> (x \<in> set (rows s) \<and> key x \<noteq> key r)"
  by (auto simp: rows_save in_set_save_row)

lemma count_save:
  assumes "unique_rows key (rows s)" and "get (key r) s = Some old"
  shows "int (count_rows P (rows (save r s))) =
           int (count_rows P (rows s)) - (if P old then 1 else 0) + (if P r then 1 else 0)"
  using assms by (simp add: get_rows rows_save count_rows_save_row)

lemma sum_save:
  assumes "unique_rows key (rows s)" and "get (key r) s = Some old"
  shows "sum_rows f P (rows (save r s)) =
           sum_rows f P (rows s) - (if P old then f old else 0) + (if P r then f r else 0)"
  using assms by (simp add: get_rows rows_save sum_rows_save_row)

lemma count_ins: "count_rows P (rows (ins r s)) = count_rows P (rows s) + (if P r then 1 else 0)"
  by (simp add: rows_ins)

lemma sum_ins: "sum_rows f P (rows (ins r s)) = sum_rows f P (rows s) + (if P r then f r else 0)"
  by (simp add: rows_ins)

end

lemma last_row_SomeD: "last_row P rows = Some r \<Longrightarrow> r \<in> set rows \<and> P r"
  by (metis first_row_def first_row_SomeD last_row_def set_rev)

lemma last_row_None_iff: "last_row P rows = None \<longleftrightarrow> (\<forall>r\<in>set rows. \<not> P r)"
  by (metis first_row_def first_row_None_iff last_row_def set_rev)

lemma first_row_save_row:
  "first_row P rows = Some r \<Longrightarrow> P r2 \<Longrightarrow> key r2 = key r \<Longrightarrow> first_row P (save_row key r2 rows) = Some r2"
  unfolding first_row_def by (induction rows) (auto simp: save_row_def split: if_splits)

text \<open>Two prefixes of one string: one is a prefix of the other.\<close>

lemma starts_with_comparable:
  "starts_with p x \<Longrightarrow> starts_with q x \<Longrightarrow> starts_with p q \<or> starts_with q p"
proof (induction p x arbitrary: q rule: starts_with.induct)
  case (3 a p b x)
  then show ?case by (cases q) auto
qed auto

lemma starts_with_append [simp]: "starts_with p (p @ x)"
  by (induction p) auto

lemma remove_spaces_id: "remove_spaces x = x \<longleftrightarrow> list_all (\<lambda>c. \<not> is_space c) x"
  by (simp add: remove_spaces_def filter_id_conv list_all_iff)

lemma is_digit_not_space: "is_digit c \<Longrightarrow> \<not> is_space c"
  by (auto simp: is_digit_def is_space_def)

lemma atomic_Inl: "f s = Inl e \<Longrightarrow> atomic f s = (Inl e, s)"
  by (simp add: atomic_def)

lemma atomic_Inr: "f s = Inr (a, s2) \<Longrightarrow> atomic f s = (Inr a, s2)"
  by (simp add: atomic_def)

text \<open>A result is an answer with a state, or an error.\<close>

lemma result_cases: "\<not> isl r \<Longrightarrow> \<exists>a s. r = Inr (a, s)"
  by (cases r) auto

text \<open>Replacing a row keeps a second column distinct when no other row has the new value.\<close>

lemma distinct_save_row:
  assumes "distinct (map f rows)" and "unique_rows key rows"
    and "\<And>x. x \<in> set rows \<Longrightarrow> key x \<noteq> key r \<Longrightarrow> f x \<noteq> f r"
  shows "distinct (map f (save_row key r rows))"
  using assms
proof (induction rows)
  case Nil
  then show ?case by (simp add: save_row_def)
next
  case (Cons x xs)
  show ?case
  proof (cases "key x = key r")
    case True
    with Cons.prems(2) have absent: "key r \<notin> key ` set xs" by (auto simp: unique_rows_def)
    have "f r \<notin> f ` set xs"
    proof
      assume "f r \<in> f ` set xs"
      then obtain y where "y \<in> set xs" "f y = f r" by force
      moreover from this absent have "key y \<noteq> key r" by (metis imageI)
      ultimately show False using Cons.prems(3) [of y] by simp
    qed
    moreover have "save_row key r (x # xs) = r # xs"
      using True save_row_absent [OF absent] by (simp add: save_row_def)
    ultimately show ?thesis using Cons.prems(1) by simp
  next
    case False
    have "distinct (map f (save_row key r xs))"
      using Cons by (auto simp: unique_rows_def)
    moreover have "f x \<notin> f ` set (save_row key r xs)"
    proof
      assume "f x \<in> f ` set (save_row key r xs)"
      then obtain y where y: "y \<in> set (save_row key r xs)" "f y = f x" by force
      with Cons.prems(3) [of x] False show False
        using Cons.prems(1) by (auto simp: in_set_save_row) (metis imageI)
    qed
    moreover have "save_row key r (x # xs) = x # save_row key r xs"
      using False by (simp add: save_row_def)
    ultimately show ?thesis by simp
  qed
qed

lemma list_all_save_row: "list_all P rows \<Longrightarrow> P r \<Longrightarrow> list_all P (save_row key r rows)"
  by (auto simp: list_all_iff in_set_save_row)

end
