(* ===== verification/Json.thy ===== *)
theory Json
  imports Prelude
begin

text \<open>
  JSON values as Python holds them, the accessors the code applies to them, and the two functions
  that remove secrets before a value is stored: \<open>redact_payload\<close> of \<open>payments/services.py\<close> and
  \<open>redact_mapping\<close> of \<open>audit/services.py\<close>. Both satisfy one contract, the locale \<open>redaction\<close>, from
  which it follows that no secret survives and that redacting again changes nothing.
\<close>

text \<open>
  \<open>PyObj t\<close> stands for any other Python object (a \<open>Decimal\<close>, a \<open>UUID\<close>, a date) whose \<open>str\<close> is
  \<open>t\<close>. A dictionary is the list of its items in insertion order.
\<close>

datatype json =
    JNull
  | JBool bool
  | JNum int
  | JStr string
  | PyObj string
  | JList "json list"
  | JObj "(string \<times> json) list"

definition int_str :: "int \<Rightarrow> string" where
  "int_str n = (if n < 0 then ''-'' else '''') @ nat_str (nat \<bar>n\<bar>)"

text \<open>\<open>bool(value)\<close>\<close>

fun truthy :: "json \<Rightarrow> bool" where
  "truthy JNull = False"
| "truthy (JBool b) = b"
| "truthy (JNum n) = (n \<noteq> 0)"
| "truthy (JStr x) = (x \<noteq> '''')"
| "truthy (PyObj x) = True"
| "truthy (JList xs) = (xs \<noteq> [])"
| "truthy (JObj kvs) = (kvs \<noteq> [])"

text \<open>
  \<open>repr\<close> of a string: single quotes unless only a double quote avoids escaping, and escapes for the
  backslash, the quote and what is not printable in the Latin-1 range.
\<close>

definition hex_digit :: "nat \<Rightarrow> char" where
  "hex_digit d = ''0123456789abcdef'' ! d"

definition repr_char :: "char \<Rightarrow> char \<Rightarrow> string" where
  "repr_char q c =
     (let n = (of_char c :: nat) in
      if n = 92 then [CHR 92, CHR 92]
      else if c = q then [CHR 92, c]
      else if n = 9 then [CHR 92, CHR ''t'']
      else if n = 10 then [CHR 92, CHR ''n'']
      else if n = 13 then [CHR 92, CHR ''r'']
      else if n < 32 \<or> (127 \<le> n \<and> n \<le> 160) \<or> n = 173
      then [CHR 92, CHR ''x'', hex_digit (n div 16), hex_digit (n mod 16)]
      else [c])"

definition repr_str :: "string \<Rightarrow> string" where
  "repr_str x =
     (let q = (if CHR 39 \<in> set x \<and> CHR 34 \<notin> set x then CHR 34 else CHR 39) in
      [q] @ concat (map (repr_char q) x) @ [q])"

fun py_repr :: "json \<Rightarrow> string" where
  "py_repr JNull = ''None''"
| "py_repr (JBool b) = (if b then ''True'' else ''False'')"
| "py_repr (JNum n) = int_str n"
| "py_repr (JStr x) = repr_str x"
| "py_repr (PyObj x) = x"
| "py_repr (JList vs) = ''['' @ join_str '', '' (map py_repr vs) @ '']''"
| "py_repr (JObj kvs) = ''{'' @ join_str '', '' (map (\<lambda>(k, v). repr_str k @ '': '' @ py_repr v) kvs) @ ''}''"

text \<open>\<open>str(value)\<close>\<close>

definition py_str :: "json \<Rightarrow> string" where
  "py_str v = (case v of JStr x \<Rightarrow> x | _ \<Rightarrow> py_repr v)"

text \<open>\<open>value.get(key, default)\<close>: only a dictionary has the method.\<close>

definition jget :: "json \<Rightarrow> string \<Rightarrow> json \<Rightarrow> error + json" where
  "jget d k v =
     (case v of
        JObj kvs \<Rightarrow> Inr (case map_of kvs k of None \<Rightarrow> d | Some x \<Rightarrow> x)
      | _ \<Rightarrow> Inl (AttributeError ''get''))"

text \<open>\<open>payload.get("payload", {}).get(kind, {}).get("entity", {})\<close>\<close>

definition webhook_entity :: "string \<Rightarrow> json \<Rightarrow> error + json" where
  "webhook_entity kind payload =
     (case jget (JObj []) ''payload'' payload of
        Inl e \<Rightarrow> Inl e
      | Inr p \<Rightarrow>
          (case jget (JObj []) kind p of
             Inl e \<Rightarrow> Inl e
           | Inr q \<Rightarrow> jget (JObj []) ''entity'' q))"

text \<open>\<open>a or b\<close> on values; \<open>{**d, k: v}\<close> on a dictionary, which only a mapping allows.\<close>

definition json_or :: "json \<Rightarrow> json \<Rightarrow> json" where
  "json_or a b = (if truthy a then a else b)"

fun set_item :: "string \<Rightarrow> 'v \<Rightarrow> (string \<times> 'v) list \<Rightarrow> (string \<times> 'v) list" where
  "set_item k v [] = [(k, v)]"
| "set_item k v ((k', v') # kvs) = (if k' = k then (k, v) # kvs else (k', v') # set_item k v kvs)"

lemma map_of_set_item: "map_of (set_item k v kvs) k2 = (if k2 = k then Some v else map_of kvs k2)"
  by (induction k v kvs rule: set_item.induct) auto

lemma set_item_same: "map_of kvs k = Some v \<Longrightarrow> set_item k v kvs = kvs"
  by (induction k v kvs rule: set_item.induct) (auto split: if_splits)

text \<open>Setting the items of a list with distinct keys: each is there afterwards, and once more changes nothing.\<close>

lemma map_of_set_items:
  "map_of (fold (\<lambda>(k, v). set_item k v) items kvs) j =
     (case map_of (rev items) j of None \<Rightarrow> map_of kvs j | Some v \<Rightarrow> Some v)"
  by (induction items arbitrary: kvs) (auto simp: map_of_set_item map_add_def split: option.split)

lemma set_items_same:
  "(\<And>k v. (k, v) \<in> set items \<Longrightarrow> map_of kvs k = Some v) \<Longrightarrow> fold (\<lambda>(k, v). set_item k v) items kvs = kvs"
  by (induction items) (auto simp: set_item_same)

lemma set_items_twice:
  assumes "distinct (map fst items)"
  shows "fold (\<lambda>(k, v). set_item k v) items (fold (\<lambda>(k, v). set_item k v) items kvs) =
    fold (\<lambda>(k, v). set_item k v) items kvs"
proof (rule set_items_same)
  fix k v
  assume "(k, v) \<in> set items"
  then have "map_of (rev items) k = Some v" using assms by (simp add: map_of_is_SomeI rev_map [symmetric])
  then show "map_of (fold (\<lambda>(k, v). set_item k v) items kvs) k = Some v" by (simp add: map_of_set_items)
qed

definition with_item :: "string \<Rightarrow> json \<Rightarrow> json \<Rightarrow> error + json" where
  "with_item k v d =
     (case d of JObj kvs \<Rightarrow> Inr (JObj (set_item k v kvs))
      | _ \<Rightarrow> Inl (TypeError ''object is not a mapping''))"

text \<open>\<open>d.get(k)\<close> on what is known to be a dictionary.\<close>

definition item :: "string \<Rightarrow> json \<Rightarrow> json" where
  "item k d = (case d of JObj kvs \<Rightarrow> (case map_of kvs k of None \<Rightarrow> JNull | Some x \<Rightarrow> x) | _ \<Rightarrow> JNull)"

section \<open>Redaction\<close>

definition payment_sensitive :: "string \<Rightarrow> bool" where
  "payment_sensitive k =
     (lower_str k \<in> set [''secret'', ''key_secret'', ''token'', ''authorization'', ''contact'', ''email''])"

fun redact_payload :: "json \<Rightarrow> json" where
  "redact_payload (JObj kvs) =
     JObj (map (\<lambda>(k, v). (k, if payment_sensitive k then JStr ''***'' else redact_payload v)) kvs)"
| "redact_payload (JList vs) = JList (map redact_payload vs)"
| "redact_payload v = v"

definition audit_sensitive :: "string \<Rightarrow> bool" where
  "audit_sensitive k =
     (lower_str k \<in> set [''authorization'', ''password'', ''refresh'', ''token'', ''id_token'',
        ''signature'', ''razorpay_signature'', ''secret'', ''key_secret''])"

fun redact_mapping :: "json \<Rightarrow> json" where
  "redact_mapping (JObj kvs) =
     JObj (map (\<lambda>(k, v). (k, if audit_sensitive k then JStr ''***'' else redact_mapping v)) kvs)"
| "redact_mapping (JList vs) = JList (map redact_mapping vs)"
| "redact_mapping (PyObj x) = JStr x"
| "redact_mapping v = v"

text \<open>A value is exposed when a sensitive key, at any depth, holds anything but the mask.\<close>

fun exposed :: "(string \<Rightarrow> bool) \<Rightarrow> json \<Rightarrow> bool" where
  "exposed sens (JObj kvs) =
     list_ex (\<lambda>(k, v). if sens k then v \<noteq> JStr ''***'' else exposed sens v) kvs"
| "exposed sens (JList vs) = list_ex (exposed sens) vs"
| "exposed sens v = False"

fun keys_at :: "json \<Rightarrow> string list" where
  "keys_at (JObj kvs) = map fst kvs"
| "keys_at v = []"

definition is_container :: "json \<Rightarrow> bool" where
  "is_container v = (case v of JList _ \<Rightarrow> True | JObj _ \<Rightarrow> True | _ \<Rightarrow> False)"

locale redaction =
  fixes sens :: "string \<Rightarrow> bool"
    and red :: "json \<Rightarrow> json"
  assumes red_obj: "red (JObj kvs) = JObj (map (\<lambda>(k, v). (k, if sens k then JStr ''***'' else red v)) kvs)"
    and red_list: "red (JList vs) = JList (map red vs)"
    and red_scalar: "\<not> is_container v \<Longrightarrow> \<not> is_container (red v) \<and> red (red v) = red v"
    and red_mask: "red (JStr x) = JStr x"
begin

lemma scalar_not_exposed: "\<not> is_container v \<Longrightarrow> \<not> exposed sens v"
  by (cases v) (auto simp: is_container_def)

lemma not_exposed: "\<not> exposed sens (red v)"
proof (induction v)
  case (JList vs)
  then show ?case by (auto simp: red_list list_ex_iff)
next
  case (JObj kvs)
  then show ?case by (auto simp: red_obj list_ex_iff split: if_splits)
qed (rule scalar_not_exposed, rule conjunct1 [OF red_scalar], simp add: is_container_def)+

lemma idempotent: "red (red v) = red v"
proof (induction v)
  case (JList vs)
  then show ?case by (simp add: red_list)
next
  case (JObj kvs)
  then show ?case by (auto simp: red_obj red_mask)
qed (rule conjunct2 [OF red_scalar], simp add: is_container_def)+

lemma keeps_keys: "keys_at (red (JObj kvs)) = keys_at (JObj kvs)"
  by (induction kvs) (auto simp: red_obj)

end

interpretation payments_red: redaction payment_sensitive redact_payload
proof
  fix v
  assume "\<not> is_container v"
  then show "\<not> is_container (redact_payload v) \<and> redact_payload (redact_payload v) = redact_payload v"
    by (cases v) (auto simp: is_container_def)
qed auto

interpretation audit_red: redaction audit_sensitive redact_mapping
proof
  fix v
  assume "\<not> is_container v"
  then show "\<not> is_container (redact_mapping v) \<and> redact_mapping (redact_mapping v) = redact_mapping v"
    by (cases v) (auto simp: is_container_def)
qed auto

end
