(* ===== verification/Audit_Log.thy ===== *)
theory Audit_Log
  imports Json
begin

text \<open>
  The audit trail, \<open>apps/audit\<close>. \<open>audit_event\<close> does not write: it registers a callback with
  \<open>transaction.on_commit\<close> that writes the row when the surrounding transaction commits. Notification
  events use the same mechanism, so the queue of callbacks, \<open>on_commit\<close>, is part of the state here
  and its entries are the two kinds of callback the program registers.
\<close>

section \<open>What callbacks carry\<close>

datatype audit_action =
    AA_BOOKING_START | AA_BOOKING_COMPLETE | AA_BOOKING_CANCEL | AA_WORK_ORDER_CLOSE
  | AA_RECORD_BALANCE | AA_PAYMENT_LINK_CREATED | AA_REFUND_CREATED | AA_REFUND_RECONCILED
  | AA_TECHNICIAN_ASSIGN | AA_TECHNICIAN_CREATED | AA_TECHNICIAN_UPDATED
  | AA_TECHNICIAN_VERIFICATION_CHANGED | AA_TECHNICIAN_AVAILABILITY_CHANGED
  | AA_TECHNICIAN_ASSIGNMENT_REMOVED | AA_TECHNICIAN_LEAVE_CREATED
  | AA_TECHNICIAN_LEAVE_APPROVED | AA_TECHNICIAN_LEAVE_REJECTED
  | AA_PAYMENT_WEBHOOK_RECEIVED | AA_PAYMENT_WEBHOOK_REJECTED | AA_PERMISSION_DENIED
  | AA_SERVICE_CREATED | AA_SERVICE_UPDATED | AA_SERVICE_DEACTIVATED | AA_SERVICE_PRICE_CHANGED
  | AA_SERVICE_IMAGE_CHANGED | AA_CATEGORY_CREATED | AA_CATEGORY_UPDATED
  | AA_CATEGORY_DEACTIVATED | AA_PACKAGE_CREATED | AA_PACKAGE_UPDATED | AA_PACKAGE_DELETED
  | AA_LEAD_CREATED | AA_LEAD_UPDATED | AA_LEAD_STATUS_CHANGED | AA_LEAD_CONVERTED
  | AA_BANNER_CREATED | AA_BANNER_UPDATED | AA_BANNER_PUBLICATION_CHANGED
  | AA_FAQ_CREATED | AA_FAQ_UPDATED | AA_REVIEW_UPDATED | AA_CUSTOMER_SUPPORT_NOTE_CREATED
  | AA_STAFF_CREATED | AA_STAFF_UPDATED

text \<open>
  What the code reads of a request: the id the middleware set, the two address headers, the agent.
\<close>

record request =
  rq_request_id :: string
  rq_forwarded_for :: "string option"
  rq_remote_addr :: "string option"
  rq_user_agent :: string

text \<open>A row of \<open>AuditLog\<close>; before it is written it has no key, and \<open>a_id\<close> is 0.\<close>

record audit_log =
  a_id :: nat
  a_actor :: "nat option"
  a_action :: audit_action
  a_resource_type :: string
  a_resource_id :: string
  a_request_id :: string
  a_ip_address :: "string option"
  a_user_agent :: string
  a_metadata :: json

datatype notification_channel = NC_SMS | NC_EMAIL | NC_WHATSAPP | NC_IN_APP | NC_PUSH

datatype notification_event =
    NE_BOOKING_RECEIVED | NE_PAYMENT_PENDING | NE_PAYMENT_SUCCESSFUL | NE_PAYMENT_FAILED
  | NE_BOOKING_CONFIRMED | NE_BOOKING_RESCHEDULED | NE_TECHNICIAN_ASSIGNED
  | NE_TECHNICIAN_CHANGED | NE_BOOKING_CANCELLED | NE_TECHNICIAN_EN_ROUTE
  | NE_TECHNICIAN_ARRIVED | NE_SERVICE_STARTED | NE_SERVICE_COMPLETED
  | NE_BALANCE_PAYMENT_PENDING | NE_BALANCE_PAYMENT_SUCCESSFUL | NE_REFUND_INITIATED
  | NE_REFUND_COMPLETED | NE_REVIEW_REQUEST

text \<open>
  A callback. \<open>CreateNotifications event recipient booking channels payload\<close> holds what the closure
  \<open>_create_and_enqueue\<close> captured; of the booking it uses the key and the number.
\<close>

datatype commit_hook =
    WriteAudit audit_log
  | CreateNotifications notification_event "nat option" "(nat \<times> string) option"
      "notification_channel list" json

record audit_db = base_db +
  audit_logs :: "audit_log list"
  on_commit :: "commit_hook list"

definition register_hook :: "commit_hook \<Rightarrow> 'x audit_db_scheme \<Rightarrow> 'x audit_db_scheme" where
  "register_hook h s = s\<lparr>on_commit := on_commit s @ [h]\<rparr>"

section \<open>\<open>audit/services.py\<close>\<close>

text \<open>\<open>forwarded_for.split(",")[0].strip()\<close>\<close>

definition first_forwarded :: "string \<Rightarrow> string" where
  "first_forwarded x = strip_str (takeWhile (\<lambda>c. c \<noteq> CHR '','') x)"

fun get_client_ip :: "request option \<Rightarrow> string option" where
  "get_client_ip None = None"
| "get_client_ip (Some rq) =
     (case rq_forwarded_for rq of
        None \<Rightarrow> rq_remote_addr rq
      | Some x \<Rightarrow> if x = '''' then rq_remote_addr rq else Some (first_forwarded x))"

text \<open>The actor is dropped unless it is an authenticated user.\<close>

definition audit_event ::
  "audit_action \<Rightarrow> string \<Rightarrow> string \<Rightarrow> nat option \<Rightarrow> request option \<Rightarrow> json \<Rightarrow>
     'x audit_db_scheme \<Rightarrow> 'x audit_db_scheme" where
  "audit_event action rtype rid actor rq metadata s =
     register_hook (WriteAudit
       \<lparr>a_id = 0, a_actor = actor, a_action = action, a_resource_type = rtype,
        a_resource_id = rid,
        a_request_id = (case rq of None \<Rightarrow> '''' | Some r \<Rightarrow> rq_request_id r),
        a_ip_address = get_client_ip rq,
        a_user_agent = (case rq of None \<Rightarrow> '''' | Some r \<Rightarrow> take 1000 (rq_user_agent r)),
        a_metadata = redact_mapping (if truthy metadata then metadata else JObj [])\<rparr>) s"

definition write_audit :: "audit_log \<Rightarrow> 'x audit_db_scheme \<Rightarrow> 'x audit_db_scheme" where
  "write_audit a s =
     bump_id (s\<lparr>audit_logs := audit_logs s @ [a\<lparr>a_id := new_id s\<rparr>]\<rparr>)"

section \<open>Lemmas\<close>

text \<open>Registering a callback leaves every table alone.\<close>

lemma register_hook_simps [simp]:
  "next_id (register_hook h s) = next_id s"
  "audit_logs (register_hook h s) = audit_logs s"
  "on_commit (register_hook h s) = on_commit s @ [h]"
  "audit_db.more (register_hook h s) = audit_db.more s"
  by (simp_all add: register_hook_def)

text \<open>Every audit row in the queue or in the table is free of secrets.\<close>

fun hook_exposes :: "commit_hook \<Rightarrow> bool" where
  "hook_exposes (WriteAudit a) = exposed audit_sensitive (a_metadata a)"
| "hook_exposes (CreateNotifications _ _ _ _ _) = False"

definition audit_clean :: "'x audit_db_scheme \<Rightarrow> bool" where
  "audit_clean s =
     (list_all (\<lambda>h. \<not> hook_exposes h) (on_commit s) \<and>
      list_all (\<lambda>a. \<not> exposed audit_sensitive (a_metadata a)) (audit_logs s))"

lemma audit_event_clean: "audit_clean s \<Longrightarrow> audit_clean (audit_event act rt rid actor rq m s)"
  by (simp add: audit_clean_def audit_event_def audit_red.not_exposed)

end
