(* ===== verification/Notifications.thy ===== *)
theory Notifications
  imports Audit_Log
begin

text \<open>
  Notifications, \<open>apps/notifications\<close>: the rows, the event that queues them for the commit of the
  surrounding transaction, the delivery through a provider, the provider's delivery callback and the
  administrator's retry, cancel and send. A provider is any function from a row to an error text or
  a provider name with a message id; the local one and the WhatsApp one are defined. \<open>commit\<close> runs the
  callbacks of a transaction in the order they were registered.
\<close>

datatype notification_status = NS_QUEUED | NS_SENT | NS_DELIVERED | NS_READ | NS_FAILED | NS_CANCELLED

record notification =
  n_id :: nat
  n_recipient :: "nat option"
  n_booking :: "nat option"
  n_event :: notification_event
  n_channel :: notification_channel
  n_status :: notification_status
  n_title :: string
  n_message :: string
  n_provider :: string
  n_provider_message_id :: string
  n_send_attempts :: nat
  n_payload :: json
  n_error_message :: string
  n_sent_at :: "timestamp option"

record notifications_db = audit_db +
  notifications :: "notification list"

definition get_notification :: "nat \<Rightarrow> 'x notifications_db_scheme \<Rightarrow> notification option" where
  "get_notification k s = find_row n_id k (notifications s)"

definition save_notification :: "notification \<Rightarrow> 'x notifications_db_scheme \<Rightarrow> 'x notifications_db_scheme" where
  "save_notification n s = s\<lparr>notifications := save_row n_id n (notifications s)\<rparr>"

definition insert_notification :: "notification \<Rightarrow> 'x notifications_db_scheme \<Rightarrow> 'x notifications_db_scheme" where
  "insert_notification n s = s\<lparr>notifications := notifications s @ [n]\<rparr>"

interpretation notification_table:
  row_table n_id notifications get_notification save_notification insert_notification
  by unfold_locales (simp_all add: get_notification_def save_notification_def insert_notification_def)

section \<open>Texts\<close>

fun title_for_event :: "notification_event \<Rightarrow> string" where
  "title_for_event NE_BOOKING_RECEIVED = ''Booking received''"
| "title_for_event NE_PAYMENT_PENDING = ''Payment pending''"
| "title_for_event NE_PAYMENT_SUCCESSFUL = ''Payment successful''"
| "title_for_event NE_PAYMENT_FAILED = ''Payment failed''"
| "title_for_event NE_BOOKING_CONFIRMED = ''Booking confirmed''"
| "title_for_event NE_BOOKING_RESCHEDULED = ''Booking rescheduled''"
| "title_for_event NE_TECHNICIAN_ASSIGNED = ''Technician assigned''"
| "title_for_event NE_TECHNICIAN_CHANGED = ''Technician changed''"
| "title_for_event NE_BOOKING_CANCELLED = ''Booking cancelled''"
| "title_for_event NE_TECHNICIAN_EN_ROUTE = ''Technician en route''"
| "title_for_event NE_TECHNICIAN_ARRIVED = ''Technician arrived''"
| "title_for_event NE_SERVICE_STARTED = ''Service started''"
| "title_for_event NE_SERVICE_COMPLETED = ''Service completed''"
| "title_for_event NE_BALANCE_PAYMENT_PENDING = ''Balance payment pending''"
| "title_for_event NE_BALANCE_PAYMENT_SUCCESSFUL = ''Balance payment successful''"
| "title_for_event NE_REFUND_INITIATED = ''Refund initiated''"
| "title_for_event NE_REFUND_COMPLETED = ''Refund completed''"
| "title_for_event NE_REVIEW_REQUEST = ''Review request''"

definition message_for_event :: "notification_event \<Rightarrow> (nat \<times> string) option \<Rightarrow> string" where
  "message_for_event event booking =
     (let bn = (case booking of None \<Rightarrow> ''your booking'' | Some (k, number) \<Rightarrow> number) in
      case event of
        NE_BOOKING_RECEIVED \<Rightarrow> ''Your booking has been received. Our Purple Squad team will contact you within 10 minutes to confirm the service and technician details.''
      | NE_PAYMENT_PENDING \<Rightarrow> bn @ '' is awaiting advance payment.''
      | NE_PAYMENT_SUCCESSFUL \<Rightarrow> ''Payment for '' @ bn @ '' was received.''
      | NE_PAYMENT_FAILED \<Rightarrow> ''Payment for '' @ bn @ '' was not completed. You can safely try again.''
      | NE_BOOKING_CONFIRMED \<Rightarrow> bn @ '' is confirmed.''
      | NE_BOOKING_RESCHEDULED \<Rightarrow> bn @ '' has been rescheduled.''
      | NE_TECHNICIAN_ASSIGNED \<Rightarrow> ''A technician has been assigned to '' @ bn @ ''.''
      | NE_TECHNICIAN_CHANGED \<Rightarrow> ''The technician for '' @ bn @ '' has been updated.''
      | NE_BOOKING_CANCELLED \<Rightarrow> bn @ '' has been cancelled.''
      | NE_TECHNICIAN_EN_ROUTE \<Rightarrow> ''Your technician is on the way for '' @ bn @ ''.''
      | NE_TECHNICIAN_ARRIVED \<Rightarrow> ''Your technician has arrived for '' @ bn @ ''.''
      | NE_SERVICE_STARTED \<Rightarrow> ''Service work has started for '' @ bn @ ''.''
      | NE_SERVICE_COMPLETED \<Rightarrow> bn @ '' has been completed.''
      | NE_BALANCE_PAYMENT_PENDING \<Rightarrow> ''Balance payment is pending for '' @ bn @ ''.''
      | NE_BALANCE_PAYMENT_SUCCESSFUL \<Rightarrow> ''Balance payment for '' @ bn @ '' was received.''
      | NE_REFUND_INITIATED \<Rightarrow> ''A refund has been initiated for '' @ bn @ ''.''
      | NE_REFUND_COMPLETED \<Rightarrow> ''A refund has been completed for '' @ bn @ ''.''
      | NE_REVIEW_REQUEST \<Rightarrow> ''Thank you for choosing Purple Squad. Please share your service experience for '' @ bn @ ''.'')"

section \<open>Delivery\<close>

type_synonym provider = "notification \<Rightarrow> string + (string \<times> string)"

definition local_provider :: provider where
  "local_provider n = Inr (''local'', ''local_'' @ nat_str (n_id n))"

text \<open>
  \<open>send_notification\<close> stores the outcome whether or not the provider failed. With \<open>raise_on_failure\<close>
  the provider's exception is raised again after the row has been saved. The provider's own name is
  \<open>pname\<close>.
\<close>

definition send_notification ::
  "string \<Rightarrow> provider \<Rightarrow> timestamp \<Rightarrow> bool \<Rightarrow> notification \<Rightarrow> 'x notifications_db_scheme \<Rightarrow>
     (error + notification) \<times> 'x notifications_db_scheme" where
  "send_notification pname provider now raise_on_failure n s =
     (let n1 = n\<lparr>n_send_attempts := n_send_attempts n + 1\<rparr> in
      case provider n1 of
        Inl exc \<Rightarrow>
          let n2 = n1\<lparr>n_status := NS_FAILED, n_provider := pname, n_error_message := exc\<rparr>;
              s2 = save_notification n2 s
          in (if raise_on_failure then (Inl (ValueError exc), s2) else (Inr n2, s2))
      | Inr (prov, msg) \<Rightarrow>
          let n2 = n1\<lparr>n_status := NS_SENT, n_provider := prov, n_provider_message_id := msg,
                      n_sent_at := Some now, n_error_message := ''''\<rparr>
          in (Inr n2, save_notification n2 s))"

text \<open>\<open>tasks.py\<close>: the body of the transaction, then the transaction.\<close>

definition deliver_notification_body ::
  "string \<Rightarrow> provider \<Rightarrow> timestamp \<Rightarrow> nat \<Rightarrow> 'x notifications_db_scheme \<Rightarrow>
     error + (notification_status \<times> 'x notifications_db_scheme)" where
  "deliver_notification_body pname provider now k s =
     (case get_notification k s of
        None \<Rightarrow> Inl (DoesNotExist ''Notification'')
      | Some n \<Rightarrow>
          if n_status n \<in> {NS_SENT, NS_DELIVERED, NS_READ, NS_CANCELLED} then Inr (n_status n, s)
          else (case send_notification pname provider now True n s of
                  (Inl e, s2) \<Rightarrow> Inl e
                | (Inr n2, s2) \<Rightarrow> Inr (n_status n2, s2)))"

definition deliver_notification ::
  "string \<Rightarrow> provider \<Rightarrow> timestamp \<Rightarrow> nat \<Rightarrow> 'x notifications_db_scheme \<Rightarrow>
     (error + notification_status) \<times> 'x notifications_db_scheme" where
  "deliver_notification pname provider now k s = atomic (deliver_notification_body pname provider now k) s"

section \<open>Events and the commit\<close>

definition emit_notification_event ::
  "notification_event \<Rightarrow> nat option \<Rightarrow> (nat \<times> string) option \<Rightarrow> notification_channel list \<Rightarrow> json \<Rightarrow>
     'x audit_db_scheme \<Rightarrow> 'x audit_db_scheme" where
  "emit_notification_event event recipient booking channels payload s =
     register_hook (CreateNotifications event recipient booking
       (if channels = [] then [NC_WHATSAPP] else channels)
       (if truthy payload then payload else JObj [])) s"

definition new_notification ::
  "notification_event \<Rightarrow> nat option \<Rightarrow> (nat \<times> string) option \<Rightarrow> json \<Rightarrow> notification_channel \<Rightarrow>
     nat \<Rightarrow> notification" where
  "new_notification event recipient booking payload channel k =
     \<lparr>n_id = k, n_recipient = recipient, n_booking = map_option fst booking, n_event = event,
      n_channel = channel, n_status = NS_QUEUED, n_title = title_for_event event,
      n_message = message_for_event event booking, n_provider = '''', n_provider_message_id = '''',
      n_send_attempts = 0, n_payload = payload, n_error_message = '''', n_sent_at = None\<rparr>"

text \<open>One round of the loop of \<open>_create_and_enqueue\<close>; whatever it raises is logged and dropped.\<close>

definition create_and_deliver ::
  "string \<Rightarrow> provider \<Rightarrow> timestamp \<Rightarrow> notification_event \<Rightarrow> nat option \<Rightarrow> (nat \<times> string) option \<Rightarrow>
     json \<Rightarrow> notification_channel \<Rightarrow> 'x notifications_db_scheme \<Rightarrow> 'x notifications_db_scheme" where
  "create_and_deliver pname provider now event recipient booking payload channel s =
     (let k = new_id s;
          s1 = bump_id (insert_notification (new_notification event recipient booking payload channel k) s)
      in snd (deliver_notification pname provider now k s1))"

fun run_hook ::
  "string \<Rightarrow> provider \<Rightarrow> timestamp \<Rightarrow> commit_hook \<Rightarrow> 'x notifications_db_scheme \<Rightarrow>
     'x notifications_db_scheme" where
  "run_hook pname provider now (WriteAudit a) s = write_audit a s"
| "run_hook pname provider now (CreateNotifications event recipient booking channels payload) s =
     fold (create_and_deliver pname provider now event recipient booking payload) channels s"

definition commit ::
  "string \<Rightarrow> provider \<Rightarrow> timestamp \<Rightarrow> 'x notifications_db_scheme \<Rightarrow> 'x notifications_db_scheme" where
  "commit pname provider now s =
     fold (run_hook pname provider now) (on_commit s) (s\<lparr>on_commit := []\<rparr>)"

section \<open>The WhatsApp provider\<close>

text \<open>
  \<open>Msg91WhatsAppNotificationProvider\<close>. The settings it reads are a record; what it reads of the
  booking is its number, the service's name, the date and the start of the slot. The HTTP request is
  the parameter \<open>post\<close>: it raises, or answers with a status code and a body that is JSON or not.
\<close>

record whatsapp_config =
  wc_auth_key :: string
  wc_number :: string
  wc_namespace :: string
  wc_language :: string
  wc_event_template :: "notification_event \<Rightarrow> string"
  wc_default_template :: string

type_synonym http_post = "json \<Rightarrow> string + (nat \<times> json option)"
type_synonym booking_info = "string \<times> string \<times> date \<times> time_of_day"

definition whatsapp_body ::
  "whatsapp_config \<Rightarrow> string \<Rightarrow> string \<Rightarrow> booking_info option \<Rightarrow> notification \<Rightarrow> json" where
  "whatsapp_body cfg template phone info n =
     (let (bn, sv, sched) =
            (case info of
               None \<Rightarrow> ('''', '''', '''')
             | Some (number, service, d, t) \<Rightarrow> (number, service, date_str d @ '' '' @ hhmm_str t));
          text = (\<lambda>v. JObj [(''type'', JStr ''text''), (''value'', JStr v)]);
          components = JObj [(''body_1'', text (or_str bn ''Purple Squad'')),
                             (''body_2'', text (or_str sv ''Service update'')),
                             (''body_3'', text (or_str sched ''Not scheduled'')),
                             (''body_4'', text (n_message n))];
          mobile = filter (\<lambda>c. c \<noteq> CHR ''+'') phone
      in JObj [(''integrated_number'', JStr (wc_number cfg)),
               (''content_type'', JStr ''template''),
               (''CRQID'', JStr (nat_str (n_id n))),
               (''payload'', JObj
                  [(''messaging_product'', JStr ''whatsapp''),
                   (''type'', JStr ''template''),
                   (''template'', JObj
                      [(''name'', JStr template),
                       (''language'', JObj [(''code'', JStr (wc_language cfg)),
                                            (''policy'', JStr ''deterministic'')]),
                       (''namespace'', JStr (wc_namespace cfg)),
                       (''to_and_components'', JList
                          [JObj [(''to'', JList [JStr mobile]), (''components'', components)]])])])])"

definition whatsapp_answer :: "notification \<Rightarrow> nat \<times> json option \<Rightarrow> string + (string \<times> string)" where
  "whatsapp_answer n resp =
     (case resp of
        (code, None) \<Rightarrow> Inl ''MSG91 returned an invalid response.''
      | (code, Some payload) \<Rightarrow>
          if code \<ge> 400 \<or> \<not> (case payload of JObj _ \<Rightarrow> True | _ \<Rightarrow> False)
          then Inl ''MSG91 rejected the WhatsApp notification.''
          else
            let kvs = (case payload of JObj kvs \<Rightarrow> kvs | _ \<Rightarrow> []);
                ty = (case map_of kvs ''type'' of None \<Rightarrow> JStr '''' | Some v \<Rightarrow> v);
                status = lower_str (py_str (case map_of kvs ''status'' of None \<Rightarrow> ty | Some v \<Rightarrow> v));
                message_id = json_or (json_or (item ''request_id'' payload) (item ''message_id'' payload))
                               (item ''requestId'' payload)
            in if status \<in> set [''error'', ''failed'', ''failure'']
                  \<or> \<not> (truthy message_id \<or> status \<in> set [''success'', ''sent'', ''accepted''])
               then Inl ''MSG91 rejected the WhatsApp notification.''
               else Inr (''msg91-whatsapp'',
                         if truthy message_id then py_str message_id else nat_str (n_id n)))"

text \<open>\<open>phone\<close> is the recipient's number, \<open>None\<close> without a recipient.\<close>

definition whatsapp_provider ::
  "http_post \<Rightarrow> whatsapp_config \<Rightarrow> (notification \<Rightarrow> string option) \<Rightarrow>
     (notification \<Rightarrow> booking_info option) \<Rightarrow> provider" where
  "whatsapp_provider post cfg phone info n =
     (if n_channel n \<noteq> NC_WHATSAPP
      then Inl ''MSG91 WhatsApp provider only supports WhatsApp notifications.''
      else
        let mobile = (case phone n of None \<Rightarrow> '''' | Some p \<Rightarrow> p);
            template = or_str (wc_event_template cfg (n_event n)) (wc_default_template cfg)
        in if mobile = '''' then Inl ''Notification recipient does not have a mobile number.''
           else if wc_auth_key cfg = '''' \<or> wc_number cfg = '''' \<or> wc_namespace cfg = '''' \<or> template = ''''
           then Inl ''MSG91 WhatsApp notifications are not fully configured.''
           else (case post (whatsapp_body cfg template mobile (info n) n) of
                   Inl exc \<Rightarrow> Inl exc
                 | Inr resp \<Rightarrow> whatsapp_answer n resp))"

section \<open>The delivery callback\<close>

definition provider_status_map :: "string \<Rightarrow> notification_status option" where
  "provider_status_map x =
     map_of [(''submitted'', NS_SENT), (''sent'', NS_SENT), (''delivered'', NS_DELIVERED),
             (''read'', NS_READ), (''failed'', NS_FAILED)] x"

text \<open>\<open>delivery_rank.get(status, 0)\<close>\<close>

fun delivery_rank :: "notification_status \<Rightarrow> nat" where
  "delivery_rank NS_SENT = 1"
| "delivery_rank NS_DELIVERED = 2"
| "delivery_rank NS_READ = 3"
| "delivery_rank _ = 0"

definition callback_status :: "notification_status option \<Rightarrow> notification_status \<Rightarrow> notification_status" where
  "callback_status mapped old =
     (case mapped of
        None \<Rightarrow> old
      | Some new \<Rightarrow>
          if new = NS_FAILED then (if old \<notin> {NS_DELIVERED, NS_READ} then new else old)
          else if delivery_rank new \<ge> delivery_rank old then new else old)"

definition provider_ids :: "json \<Rightarrow> string list" where
  "provider_ids payload =
     map (py_str)
       (filter truthy [item ''request_id'' payload, item ''message_uuid'' payload,
                       item ''campaign_request_id'' payload])"

text \<open>
  The callback's handler. The correlation id comes from the body; if it is not a primary key the
  lookup itself raises. The answer is the pair of key and status, or \<open>None\<close> when no row is found.
\<close>

definition find_callback_target ::
  "string \<Rightarrow> string list \<Rightarrow> 'x notifications_db_scheme \<Rightarrow> error + notification option" where
  "find_callback_target correlation_id ids s =
     (let by_provider = (if ids = [] then None
                         else last_row (\<lambda>n. n_provider_message_id n \<in> set ids) (notifications s))
      in if correlation_id = '''' then Inr by_provider
         else (case parse_key correlation_id of
                 None \<Rightarrow> Inl (InvalidUuid correlation_id)
               | Some k \<Rightarrow> (case get_notification k s of
                              Some n \<Rightarrow> Inr (Some n)
                            | None \<Rightarrow> Inr by_provider)))"

definition apply_callback :: "json \<Rightarrow> notification \<Rightarrow> error + notification" where
  "apply_callback payload n =
     (let status_text = lower_str (py_str
            (case payload of
               JObj kvs \<Rightarrow> (case map_of kvs ''status'' of None \<Rightarrow> JStr '''' | Some v \<Rightarrow> v)
             | _ \<Rightarrow> JStr ''''));
          ids = provider_ids payload;
          st = callback_status (provider_status_map status_text) (n_status n)
      in case with_item ''delivery_callback'' payload (n_payload n) of
           Inl e \<Rightarrow> Inl e
         | Inr pl \<Rightarrow>
             Inr (n\<lparr>n_status := st,
                    n_provider_message_id :=
                      (if ids \<noteq> [] \<and> n_provider_message_id n = '''' then hd ids
                       else n_provider_message_id n),
                    n_payload := pl,
                    n_error_message :=
                      (if st = NS_FAILED then ''MSG91 reported delivery failure.'' else '''')\<rparr>))"

definition msg91_delivery_webhook ::
  "string \<Rightarrow> string \<Rightarrow> json \<Rightarrow> 'x notifications_db_scheme \<Rightarrow>
     error + ((nat \<times> notification_status) option \<times> 'x notifications_db_scheme)" where
  "msg91_delivery_webhook expected_secret supplied_secret data s =
     (if expected_secret = '''' then Inl (ErrorResponse 403 ''Invalid webhook secret.'')
      else case compare_digest expected_secret supplied_secret of
        Inl e \<Rightarrow> Inl e
      | Inr False \<Rightarrow> Inl (ErrorResponse 403 ''Invalid webhook secret.'')
      | Inr True \<Rightarrow>
          let payload = (case data of JObj kvs \<Rightarrow> data | _ \<Rightarrow> JObj []);
              correlation = json_or (item ''CRQID'' payload) (item ''crqid'' payload);
              correlation_id = (if truthy correlation then py_str correlation else '''')
          in case find_callback_target correlation_id (provider_ids payload) s of
               Inl e \<Rightarrow> Inl e
             | Inr None \<Rightarrow> Inr (None, s)
             | Inr (Some n) \<Rightarrow>
                 (case apply_callback payload n of
                    Inl e \<Rightarrow> Inl e
                  | Inr n2 \<Rightarrow> Inr (Some (n_id n2, n_status n2), save_notification n2 s)))"

section \<open>The administrator's actions\<close>

definition retry_notification ::
  "string \<Rightarrow> provider \<Rightarrow> timestamp \<Rightarrow> nat \<Rightarrow> 'x notifications_db_scheme \<Rightarrow>
     (error + notification) \<times> 'x notifications_db_scheme" where
  "retry_notification pname provider now k s =
     (case get_notification k s of
        None \<Rightarrow> (Inl (ErrorResponse 404 ''Not found.''), s)
      | Some n \<Rightarrow>
          if n_status n \<noteq> NS_FAILED then (Inl (ErrorResponse 400 ''NOTIFICATION_NOT_FAILED''), s)
          else send_notification pname provider now False n s)"

definition cancel_notification ::
  "string \<Rightarrow> nat \<Rightarrow> 'x notifications_db_scheme \<Rightarrow> (error + notification) \<times> 'x notifications_db_scheme" where
  "cancel_notification reason k s =
     (case get_notification k s of
        None \<Rightarrow> (Inl (ErrorResponse 404 ''Not found.''), s)
      | Some n \<Rightarrow>
          if n_status n \<noteq> NS_QUEUED then (Inl (ErrorResponse 400 ''NOTIFICATION_NOT_QUEUED''), s)
          else let n2 = n\<lparr>n_status := NS_CANCELLED, n_error_message := reason\<rparr>
               in (Inr n2, save_notification n2 s))"

definition send_queued_notification ::
  "string \<Rightarrow> provider \<Rightarrow> timestamp \<Rightarrow> nat \<Rightarrow> 'x notifications_db_scheme \<Rightarrow>
     (error + notification) \<times> 'x notifications_db_scheme" where
  "send_queued_notification pname provider now k s =
     (case get_notification k s of
        None \<Rightarrow> (Inl (ErrorResponse 404 ''Not found.''), s)
      | Some n \<Rightarrow>
          if n_status n \<notin> {NS_QUEUED, NS_FAILED}
          then (Inl (ErrorResponse 400 ''NOTIFICATION_NOT_SENDABLE''), s)
          else send_notification pname provider now False n s)"

section \<open>Lemmas: what sending and running the callbacks leave alone\<close>

lemma save_notification_frame [simp]:
  "next_id (save_notification n s) = next_id s"
  "audit_logs (save_notification n s) = audit_logs s"
  "on_commit (save_notification n s) = on_commit s"
  by (simp_all add: save_notification_def)

lemma send_notification_frame:
  "audit_logs (snd (send_notification pname provider now r n s)) = audit_logs s"
  "on_commit (snd (send_notification pname provider now r n s)) = on_commit s"
  by (auto simp: send_notification_def Let_def split: sum.splits)

lemma deliver_notification_frame:
  "audit_logs (snd (deliver_notification pname provider now k s)) = audit_logs s"
  "on_commit (snd (deliver_notification pname provider now k s)) = on_commit s"
  by (auto simp: deliver_notification_def deliver_notification_body_def atomic_def send_notification_def Let_def
      split: option.splits sum.splits)

lemma create_and_deliver_frame:
  "audit_logs (create_and_deliver pname provider now ev r b p c s) = audit_logs s"
  "on_commit (create_and_deliver pname provider now ev r b p c s) = on_commit s"
  by (simp_all add: create_and_deliver_def deliver_notification_frame bump_id_def insert_notification_def Let_def)

lemma create_all_frame:
  "audit_logs (fold (create_and_deliver pname provider now ev r b p) cs s) = audit_logs s"
  "on_commit (fold (create_and_deliver pname provider now ev r b p) cs s) = on_commit s"
  by (induction cs arbitrary: s) (simp_all add: create_and_deliver_frame)

lemma run_hook_queue: "on_commit (run_hook pname provider now h s) = on_commit s"
  by (cases h) (simp_all add: create_all_frame write_audit_def bump_id_def)

lemma run_hook_clean:
  "\<not> hook_exposes h \<Longrightarrow> audit_clean s \<Longrightarrow> audit_clean (run_hook pname provider now h s)"
  by (cases h) (simp_all add: audit_clean_def create_all_frame write_audit_def bump_id_def)

lemma run_hooks_clean:
  "list_all (\<lambda>h. \<not> hook_exposes h) hs \<Longrightarrow> audit_clean s \<Longrightarrow>
     audit_clean (fold (run_hook pname provider now) hs s) \<and>
     on_commit (fold (run_hook pname provider now) hs s) = on_commit s"
  by (induction hs arbitrary: s) (simp_all add: run_hook_clean run_hook_queue)

lemma commit_clean:
  "audit_clean s \<Longrightarrow> audit_clean (commit pname provider now s) \<and> on_commit (commit pname provider now s) = []"
  using run_hooks_clean [of "on_commit s" "s\<lparr>on_commit := []\<rparr>" pname provider now]
  by (simp add: commit_def audit_clean_def)

section \<open>Properties\<close>

definition sample_notification :: "nat \<Rightarrow> notification_status \<Rightarrow> notification" where
  "sample_notification k st =
     \<lparr>n_id = k, n_recipient = Some 1, n_booking = Some 7, n_event = NE_BOOKING_CONFIRMED,
      n_channel = NC_WHATSAPP, n_status = st, n_title = ''t'', n_message = ''m'', n_provider = ''p'',
      n_provider_message_id = ''abc'', n_send_attempts = 0, n_payload = JObj [],
      n_error_message = '''', n_sent_at = None\<rparr>"

definition sample_notifications_db :: "notification list \<Rightarrow> notifications_db" where
  "sample_notifications_db ns =
     \<lparr>next_id = 100, audit_logs = [], on_commit = [], notifications = ns\<rparr>"

text \<open>C32: The audit trail never holds a secret: registering any event, with any metadata, and
  committing leaves no row, written or queued, in which a sensitive key at any depth holds anything
  but the mask; and the commit empties the queue.\<close>

theorem audit_trail_has_no_secrets:
  assumes "audit_clean s"
  shows "audit_clean (commit pname provider now (audit_event act rt rid actor rq metadata s)) \<and>
         on_commit (commit pname provider now (audit_event act rt rid actor rq metadata s)) = []"
  by (rule commit_clean) (rule audit_event_clean [OF assms])

theorem audit_trail_has_no_secrets_witness:
  "audit_clean (commit ''p'' (\<lambda>n. Inl ''down'') 0
      (audit_event AA_STAFF_CREATED ''staff'' ''1'' None None (JObj [(''password'', JStr ''x'')])
        (sample_notifications_db [])))"
  by (rule conjunct1 [OF audit_trail_has_no_secrets])
    (simp add: audit_clean_def sample_notifications_db_def)

text \<open>C31: The delivery callback acts only with the configured secret, on one notification, and
  never takes a status back: unless it records a failure the rank sent, delivered, read does not go
  down, and a delivered or read notification stays at least that. The other rows do not change.\<close>

theorem delivery_callback_monotone:
  assumes "msg91_delivery_webhook expected supplied data s = Inr (Some (k, st), s')"
  shows "expected \<noteq> '''' \<and> expected = supplied \<and>
         (\<exists>n\<in>set (notifications s). n_id n = k \<and>
            (st \<noteq> NS_FAILED \<or> n_status n \<in> {NS_DELIVERED, NS_READ} \<longrightarrow>
               delivery_rank (n_status n) \<le> delivery_rank st)) \<and>
         (\<forall>j. j \<noteq> k \<longrightarrow> get_notification j s' = get_notification j s)"
proof -
  obtain payload corr n n2 where target: "find_callback_target corr (provider_ids payload) s = Inr (Some n)"
    and upd: "apply_callback payload n = Inr n2" and k: "k = n_id n2" "st = n_status n2"
    and s': "s' = save_notification n2 s" and secret: "expected \<noteq> ''''" "expected = supplied"
    using assms by (auto simp: msg91_delivery_webhook_def compare_digest_def Let_def
        split: if_splits sum.splits option.splits bool.splits)
  have n: "n \<in> set (notifications s)"
    using target by (auto simp: find_callback_target_def Let_def split: if_splits option.splits
        dest: notification_table.get_in_rows last_row_SomeD)
  have "n_id n2 = n_id n" and "n_status n2 = callback_status (provider_status_map
      (lower_str (py_str (case payload of JObj kvs \<Rightarrow> (case map_of kvs ''status'' of None \<Rightarrow> JStr '''' | Some v \<Rightarrow> v)
             | _ \<Rightarrow> JStr '''')))) (n_status n)"
    using upd by (auto simp: apply_callback_def Let_def split: sum.splits)
  with n k s' secret show ?thesis
    by (auto simp: callback_status_def notification_table.get_save_other split: option.splits if_splits)
qed

theorem delivery_callback_monotone_witness:
  "\<exists>s'. msg91_delivery_webhook ''k'' ''k'' (JObj [(''request_id'', JStr ''abc''), (''status'', JStr ''Sent'')])
           (sample_notifications_db [sample_notification 3 NS_READ]) = Inr (Some (3, NS_READ), s') \<and>
        get_notification 4 s' = None"
proof -
  let ?p = "JObj [(''request_id'', JStr ''abc''), (''status'', JStr ''Sent'')]"
  let ?s = "sample_notifications_db [sample_notification 3 NS_READ]"
  have "\<exists>s'. msg91_delivery_webhook ''k'' ''k'' ?p ?s = Inr (Some (3, NS_READ), s')"
    by (simp add: msg91_delivery_webhook_def compare_digest_def ascii_str_def find_callback_target_def
        provider_ids_def last_row_def apply_callback_def Let_def item_def json_or_def with_item_def
        sample_notifications_db_def sample_notification_def callback_status_def provider_status_map_def
        lower_str_def lower_char_def py_str_def)
  then obtain s' where s': "msg91_delivery_webhook ''k'' ''k'' ?p ?s = Inr (Some (3, NS_READ), s')" by blast
  from delivery_callback_monotone [OF this] have "get_notification 4 s' = get_notification 4 ?s" by simp
  with s' show ?thesis
    by (simp add: get_notification_def sample_notifications_db_def sample_notification_def)
qed

text \<open>A delivery that the provider refuses is undone as a whole: the task raises, and the
  notification keeps its status and its count of attempts, so it never becomes one that the retry
  action accepts.\<close>

theorem refused_delivery_is_undone:
  assumes "get_notification k s = Some n" and "n_status n = NS_QUEUED"
    and "provider (n\<lparr>n_send_attempts := n_send_attempts n + 1\<rparr>) = Inl exc"
  shows "deliver_notification pname provider now k s = (Inl (ValueError exc), s) \<and>
         fst (retry_notification pname provider now k (snd (deliver_notification pname provider now k s))) =
           Inl (ErrorResponse 400 ''NOTIFICATION_NOT_FAILED'')"
  using assms by (simp add: deliver_notification_def deliver_notification_body_def atomic_def
      send_notification_def retry_notification_def)

theorem refused_delivery_is_undone_witness:
  "deliver_notification ''p'' (\<lambda>n. Inl ''down'') 0 3 (sample_notifications_db [sample_notification 3 NS_QUEUED]) =
     (Inl (ValueError ''down''), sample_notifications_db [sample_notification 3 NS_QUEUED])"
  by (rule conjunct1 [OF refused_delivery_is_undone [where n = "sample_notification 3 NS_QUEUED"]])
    (simp_all add: get_notification_def sample_notifications_db_def sample_notification_def)

text \<open>A delivery that the provider accepts marks the notification as sent, counts the attempt,
  and is final: delivering the same notification again, with any provider, does nothing.\<close>

theorem delivery_happens_once:
  assumes "get_notification k s = Some n" and "n_status n \<in> {NS_QUEUED, NS_FAILED}"
    and "provider (n\<lparr>n_send_attempts := n_send_attempts n + 1\<rparr>) = Inr (prov, msg)"
    and "s' = snd (deliver_notification pname provider now k s)"
  shows "fst (deliver_notification pname provider now k s) = Inr NS_SENT \<and>
         (\<exists>m. get_notification k s' = Some m \<and> n_status m = NS_SENT \<and>
              n_send_attempts m = n_send_attempts n + 1 \<and> n_provider_message_id m = msg) \<and>
         deliver_notification pname2 provider2 now2 k s' = (Inr NS_SENT, s')"
proof -
  have k: "n_id n = k" using assms(1) by (rule notification_table.get_key)
  define m where "m = n\<lparr>n_send_attempts := n_send_attempts n + 1, n_status := NS_SENT, n_provider := prov,
    n_provider_message_id := msg, n_sent_at := Some now, n_error_message := ''''\<rparr>"
  have step: "deliver_notification pname provider now k s = (Inr NS_SENT, save_notification m s)"
    using assms(1,2,3)
    by (auto simp: deliver_notification_def deliver_notification_body_def atomic_def send_notification_def m_def Let_def)
  have "get_notification k (save_notification m s) = Some m"
    using notification_table.get_save_same [of m s n] assms(1) k by (simp add: m_def)
  with step assms(4) show ?thesis
    by (simp add: deliver_notification_def deliver_notification_body_def atomic_def) (simp add: m_def)
qed

theorem delivery_happens_once_witness:
  "fst (deliver_notification ''p'' (\<lambda>n. Inr (''w'', ''id'')) 0 3
     (sample_notifications_db [sample_notification 3 NS_QUEUED])) = Inr NS_SENT"
  by (rule conjunct1 [OF delivery_happens_once [where n = "sample_notification 3 NS_QUEUED"]])
    (simp_all add: get_notification_def sample_notifications_db_def sample_notification_def)

end
