(* ===== verification/Accounts.thy ===== *)
theory Accounts
  imports Notifications
begin

text \<open>
  Accounts, \<open>apps/accounts\<close>: users and their roles, phone numbers, one-time codes, the five ways to
  log in, multi-factor login of administrators, and what a staff member may reach. The password
  hasher, the keyed hash of the one-time codes, the HTTP client and the token library's user lookup
  are parameters.
\<close>

section \<open>Tables\<close>

datatype user_role = CUSTOMER | TECHNICIAN | ADMIN | SUPER_ADMIN

text \<open>
  The password column: the empty default of a row created without a password, the marker of
  \<open>set_unusable_password\<close>, or a hash.
\<close>

datatype password = BlankPassword | UnusablePassword | Hashed string

record user =
  u_id :: nat
  u_phone :: string
  u_email :: "string option"
  u_first_name :: string
  u_last_name :: string
  u_role :: user_role
  u_verified :: bool
  u_active :: bool
  u_staff :: bool
  u_superuser :: bool
  u_password :: password
  u_groups :: "string list"

record customer_profile =
  cp_id :: nat
  cp_user :: nat
  cp_display_name :: string
  cp_alternate_phone :: string

record otp_challenge =
  oc_id :: nat
  oc_mobile :: string
  oc_channel :: string
  oc_code_hash :: string
  oc_expires_at :: "timestamp option"
  oc_sent_at :: "timestamp option"
  oc_attempts :: nat
  oc_consumed_at :: "timestamp option"

record mfa_challenge =
  mc_id :: nat
  mc_user :: nat
  mc_channel :: string
  mc_expires_at :: timestamp
  mc_consumed_at :: "timestamp option"

record support_note =
  sn_id :: nat
  sn_customer :: nat
  sn_note :: string
  sn_created_by :: "nat option"

record accounts_db = notifications_db +
  users :: "user list"
  customer_profiles :: "customer_profile list"
  otp_challenges :: "otp_challenge list"
  mfa_challenges :: "mfa_challenge list"
  support_notes :: "support_note list"

definition get_user :: "nat \<Rightarrow> 'x accounts_db_scheme \<Rightarrow> user option" where
  "get_user k s = find_row u_id k (users s)"

definition save_user :: "user \<Rightarrow> 'x accounts_db_scheme \<Rightarrow> 'x accounts_db_scheme" where
  "save_user u s = s\<lparr>users := save_row u_id u (users s)\<rparr>"

definition insert_user :: "user \<Rightarrow> 'x accounts_db_scheme \<Rightarrow> 'x accounts_db_scheme" where
  "insert_user u s = s\<lparr>users := users s @ [u]\<rparr>"

interpretation user_table: row_table u_id users get_user save_user insert_user
  by unfold_locales (simp_all add: get_user_def save_user_def insert_user_def)

definition get_challenge :: "nat \<Rightarrow> 'x accounts_db_scheme \<Rightarrow> otp_challenge option" where
  "get_challenge k s = find_row oc_id k (otp_challenges s)"

definition save_challenge :: "otp_challenge \<Rightarrow> 'x accounts_db_scheme \<Rightarrow> 'x accounts_db_scheme" where
  "save_challenge c s = s\<lparr>otp_challenges := save_row oc_id c (otp_challenges s)\<rparr>"

definition insert_challenge :: "otp_challenge \<Rightarrow> 'x accounts_db_scheme \<Rightarrow> 'x accounts_db_scheme" where
  "insert_challenge c s = s\<lparr>otp_challenges := otp_challenges s @ [c]\<rparr>"

interpretation challenge_table: row_table oc_id otp_challenges get_challenge save_challenge insert_challenge
  by unfold_locales (simp_all add: get_challenge_def save_challenge_def insert_challenge_def)

definition user_by_phone :: "string \<Rightarrow> 'x accounts_db_scheme \<Rightarrow> user option" where
  "user_by_phone phone s = first_row (\<lambda>u. u_phone u = phone) (users s)"

definition challenge_by_mobile :: "string \<Rightarrow> 'x accounts_db_scheme \<Rightarrow> otp_challenge option" where
  "challenge_by_mobile mobile s = first_row (\<lambda>c. oc_mobile c = mobile) (otp_challenges s)"

definition is_admin :: "user \<Rightarrow> bool" where
  "is_admin u = (u_role u \<in> {ADMIN, SUPER_ADMIN})"

definition has_usable_password :: "user \<Rightarrow> bool" where
  "has_usable_password u = (u_password u \<noteq> UnusablePassword)"

section \<open>Phone numbers\<close>

text \<open>The pattern \<open>^\+[1-9]\d{7,14}$\<close>, matched against the whole string.\<close>

definition e164 :: "string \<Rightarrow> bool" where
  "e164 x =
     (case x of
        c # d # ds \<Rightarrow>
          c = CHR ''+'' \<and> is_digit d \<and> d \<noteq> CHR ''0'' \<and> list_all is_digit ds \<and>
          7 \<le> length ds \<and> length ds \<le> 14
      | _ \<Rightarrow> False)"

definition normalize_phone_number :: "string \<Rightarrow> error + string" where
  "normalize_phone_number phone =
     (let value = remove_spaces phone in
      if e164 value then Inr value
      else Inl (ValidationError ''Phone number must be a verified E.164 value.''))"

definition mobile_of :: "string \<Rightarrow> string" where
  "mobile_of phone = filter (\<lambda>c. c \<noteq> CHR ''+'') phone"

text \<open>\<open>91[6-9][0-9]{9}\<close>\<close>

definition indian_mobile :: "string \<Rightarrow> bool" where
  "indian_mobile m =
     (case m of
        a # b # c # ds \<Rightarrow>
          a = CHR ''9'' \<and> b = CHR ''1'' \<and> c \<in> set ''6789'' \<and> list_all is_digit ds \<and> length ds = 9
      | _ \<Rightarrow> False)"

section \<open>One-time codes: \<open>otp/providers.py\<close>\<close>

record otp_config =
  ot_auth_key :: string
  ot_template_id :: string
  ot_number :: string
  ot_template_name :: string
  ot_namespace :: string
  ot_language :: string
  ot_expiry_minutes :: int

definition ensure_configured :: "otp_config \<Rightarrow> string \<Rightarrow> error option" where
  "ensure_configured cfg channel =
     (if ot_auth_key cfg = '''' then Some (APIException ''OTP delivery is not configured. Please contact support.'')
      else if channel = ''SMS'' \<and> ot_template_id cfg = ''''
      then Some (APIException ''SMS OTP delivery is not configured. Please contact support.'')
      else if channel = ''WHATSAPP'' \<and>
              (ot_number cfg = '''' \<or> ot_template_name cfg = '''' \<or> ot_namespace cfg = '''')
      then Some (APIException ''WhatsApp OTP delivery is not configured. Please choose SMS or contact support.'')
      else None)"

definition otp_request :: "otp_config \<Rightarrow> string \<Rightarrow> string \<Rightarrow> string \<Rightarrow> json" where
  "otp_request cfg mobile code channel =
     (if channel = ''WHATSAPP'' then
        JObj [(''integrated_number'', JStr (ot_number cfg)),
              (''content_type'', JStr ''template''),
              (''payload'', JObj
                 [(''messaging_product'', JStr ''whatsapp''),
                  (''type'', JStr ''template''),
                  (''template'', JObj
                     [(''name'', JStr (ot_template_name cfg)),
                      (''language'', JObj [(''code'', JStr (ot_language cfg)),
                                           (''policy'', JStr ''deterministic'')]),
                      (''namespace'', JStr (ot_namespace cfg)),
                      (''to_and_components'', JList
                         [JObj [(''to'', JList [JStr mobile]),
                                (''components'', JObj
                                   [(''header_1'', JObj [(''type'', JStr ''text''), (''value'', JStr code)])])]])])])]
      else
        JObj [(''template_id'', JStr (ot_template_id cfg)), (''mobile'', JStr mobile),
              (''otp'', JStr code), (''otp_expiry'', JNum (ot_expiry_minutes cfg))])"

definition otp_is_success :: "(string \<times> json) list \<Rightarrow> bool" where
  "otp_is_success kvs =
     (let field = (\<lambda>k. lower_str (py_str (case map_of kvs k of None \<Rightarrow> JStr '''' | Some v \<Rightarrow> v))) in
      field ''status'' \<in> set [''success'', ''sent'', ''accepted''] \<or>
      field ''type'' = ''success'' \<or>
      contains_str ''success'' (field ''message'') \<or>
      truthy (json_or (item ''request_id'' (JObj kvs)) (item ''message_id'' (JObj kvs))))"

text \<open>The HTTP client raises, or gives a status code and a body, which may not be JSON.\<close>

definition otp_deliver ::
  "http_post \<Rightarrow> otp_config \<Rightarrow> string \<Rightarrow> string \<Rightarrow> string \<Rightarrow> error + json" where
  "otp_deliver post cfg mobile code channel =
     (let failure = Inl (APIException ''OTP could not be sent. Please try again shortly.'') in
      case post (otp_request cfg mobile code channel) of
        Inl exc \<Rightarrow> failure
      | Inr (status, None) \<Rightarrow> failure
      | Inr (status, Some (JObj kvs)) \<Rightarrow>
          if status \<ge> 400 \<or> \<not> otp_is_success kvs then failure else Inr (JObj kvs)
      | Inr (status, Some v) \<Rightarrow> failure)"

definition otp_hash :: "(string \<Rightarrow> string) \<Rightarrow> string \<Rightarrow> string \<Rightarrow> string" where
  "otp_hash hash mobile otp = hash (mobile @ '':'' @ otp)"

definition new_challenge :: "string \<Rightarrow> nat \<Rightarrow> otp_challenge" where
  "new_challenge mobile k =
     \<lparr>oc_id = k, oc_mobile = mobile, oc_channel = ''SMS'', oc_code_hash = '''', oc_expires_at = None,
      oc_sent_at = None, oc_attempts = 0, oc_consumed_at = None\<rparr>"

definition get_or_create_challenge ::
  "string \<Rightarrow> 'x accounts_db_scheme \<Rightarrow> otp_challenge \<times> 'x accounts_db_scheme" where
  "get_or_create_challenge mobile s =
     (case challenge_by_mobile mobile s of
        Some c \<Rightarrow> (c, s)
      | None \<Rightarrow> let c = new_challenge mobile (new_id s) in (c, bump_id (insert_challenge c s)))"

text \<open>
  \<open>send_otp\<close> runs in a transaction: an error of the delivery also undoes the new row. \<open>code\<close> is the
  six-digit code drawn by \<open>secrets.randbelow\<close>.
\<close>

definition send_otp ::
  "(string \<Rightarrow> string) \<Rightarrow> http_post \<Rightarrow> otp_config \<Rightarrow> timestamp \<Rightarrow> nat \<Rightarrow> string \<Rightarrow> string \<Rightarrow>
     'x accounts_db_scheme \<Rightarrow> error + (string \<times> 'x accounts_db_scheme)" where
  "send_otp hash post cfg now code mobile channel s =
     (if \<not> indian_mobile mobile then Inl (ValidationError ''Please enter a valid Indian mobile number.'')
      else if channel \<notin> set [''SMS'', ''WHATSAPP'']
      then Inl (ValidationError ''Choose SMS or WhatsApp for OTP delivery.'')
      else case ensure_configured cfg channel of
        Some e \<Rightarrow> Inl e
      | None \<Rightarrow>
          let (c, s1) = get_or_create_challenge mobile s in
          if (case oc_sent_at c of None \<Rightarrow> False | Some t \<Rightarrow> now - t < 60 * 1000000)
          then Inl (Throttled ''Please wait before requesting another OTP.'')
          else
            let text = pad_left 6 CHR ''0'' (nat_str code) in
            case otp_deliver post cfg mobile text channel of
              Inl e \<Rightarrow> Inl e
            | Inr payload \<Rightarrow>
                let c2 = c\<lparr>oc_channel := channel, oc_code_hash := otp_hash hash mobile text,
                           oc_expires_at := Some (now + ot_expiry_minutes cfg * minute_us),
                           oc_sent_at := Some now, oc_attempts := 0, oc_consumed_at := None\<rparr>;
                    rid = json_or (item ''request_id'' payload) (item ''message_id'' payload)
                in Inr (if truthy rid then py_str rid else '''', save_challenge c2 s1))"

text \<open>
  \<open>verify_otp\<close> raises only after its transaction has committed, so the attempt is counted whether
  the code was right or wrong.
\<close>

definition challenge_open :: "timestamp \<Rightarrow> otp_challenge \<Rightarrow> bool" where
  "challenge_open now c =
     ((case oc_expires_at c of None \<Rightarrow> False | Some t \<Rightarrow> t > now) \<and>
      oc_consumed_at c = None \<and> oc_attempts c < 5)"

definition verify_otp ::
  "(string \<Rightarrow> string) \<Rightarrow> timestamp \<Rightarrow> string \<Rightarrow> string \<Rightarrow> 'x accounts_db_scheme \<Rightarrow>
     (error + unit) \<times> 'x accounts_db_scheme" where
  "verify_otp hash now mobile otp s =
     (let invalid = Inl (ValidationError ''Invalid or expired OTP. Request a new code if needed.'') in
      case challenge_by_mobile mobile s of
        None \<Rightarrow> (invalid, s)
      | Some c \<Rightarrow>
          if \<not> challenge_open now c then (invalid, s)
          else
            let c1 = c\<lparr>oc_attempts := oc_attempts c + 1\<rparr>;
                valid = (oc_code_hash c = otp_hash hash mobile otp)
            in if valid
               then (Inr (), save_challenge (c1\<lparr>oc_consumed_at := Some now, oc_code_hash := ''''\<rparr>) s)
               else (invalid, save_challenge c1 s))"

section \<open>Logging in: \<open>services.py\<close>\<close>

text \<open>
  A login answers with the user, whether the row is new, and a token pair; of the tokens the claims
  that matter are the user's key and \<open>mfa\<close>. An administrator's password login may instead answer
  with a challenge.
\<close>

record login =
  lo_user :: user
  lo_created :: bool
  lo_mfa :: bool

datatype login_answer = LoggedIn login | MfaRequired nat string int

definition login_result :: "user \<Rightarrow> bool \<Rightarrow> bool \<Rightarrow> login" where
  "login_result u created mfa = \<lparr>lo_user = u, lo_created = created, lo_mfa = mfa\<rparr>"

definition profile_of :: "nat \<Rightarrow> 'x accounts_db_scheme \<Rightarrow> customer_profile option" where
  "profile_of uid s = first_row (\<lambda>p. cp_user p = uid) (customer_profiles s)"

definition ensure_profile ::
  "nat \<Rightarrow> 'x accounts_db_scheme \<Rightarrow> customer_profile \<times> 'x accounts_db_scheme" where
  "ensure_profile uid s =
     (case profile_of uid s of
        Some p \<Rightarrow> (p, s)
      | None \<Rightarrow>
          let p = \<lparr>cp_id = new_id s, cp_user = uid, cp_display_name = '''', cp_alternate_phone = ''''\<rparr>
          in (p, bump_id (s\<lparr>customer_profiles := customer_profiles s @ [p]\<rparr>)))"

definition save_profile :: "customer_profile \<Rightarrow> 'x accounts_db_scheme \<Rightarrow> 'x accounts_db_scheme" where
  "save_profile p s = s\<lparr>customer_profiles := save_row cp_id p (customer_profiles s)\<rparr>"

definition new_user :: "string \<Rightarrow> nat \<Rightarrow> user" where
  "new_user phone k =
     \<lparr>u_id = k, u_phone = phone, u_email = None, u_first_name = '''', u_last_name = '''',
      u_role = CUSTOMER, u_verified = False, u_active = True, u_staff = False, u_superuser = False,
      u_password = BlankPassword, u_groups = []\<rparr>"

definition admin_login_message :: string where
  "admin_login_message = ''Administrator accounts must use password and MFA login.''"

text \<open>A new row created by \<open>get_or_create\<close> starts verified and without a password.\<close>

definition authenticate_verified_phone ::
  "string \<Rightarrow> 'x accounts_db_scheme \<Rightarrow> error + (login \<times> 'x accounts_db_scheme)" where
  "authenticate_verified_phone phone s =
     (case normalize_phone_number phone of
        Inl e \<Rightarrow> Inl e
      | Inr p \<Rightarrow>
          let (u, created, s1) =
                (case user_by_phone p s of
                   Some u \<Rightarrow> (u, False, s)
                 | None \<Rightarrow> let u = (new_user p (new_id s))\<lparr>u_verified := True\<rparr>
                           in (u, True, bump_id (insert_user u s)))
          in if \<not> u_active u then Inl (ValidationError ''This account is disabled.'')
             else if is_admin u then Inl (ValidationError admin_login_message)
             else
               let u2 = u\<lparr>u_verified := True\<rparr>;
                   s2 = (if u_verified u then s1 else save_user u2 s1);
                   s3 = (if u_role u = CUSTOMER then snd (ensure_profile (u_id u) s2) else s2)
               in Inr (login_result u2 created False, s3))"

text \<open>The Firebase check of the token gives the verified number, or the provider's error.\<close>

definition authenticate_with_firebase ::
  "(string \<Rightarrow> error + string) \<Rightarrow> string \<Rightarrow> 'x accounts_db_scheme \<Rightarrow>
     error + (login \<times> 'x accounts_db_scheme)" where
  "authenticate_with_firebase verify_id_token id_token s =
     (case verify_id_token id_token of
        Inl e \<Rightarrow> Inl e
      | Inr number \<Rightarrow>
          (case normalize_phone_number number of
             Inl e \<Rightarrow> Inl e
           | Inr p \<Rightarrow> authenticate_verified_phone p s))"

text \<open>
  \<open>FirebaseAdminAuthProvider.verify_id_token\<close> on an initialised library: \<open>decode\<close> is the library's
  check, which gives the claims or raises.
\<close>

definition firebase_verify_id_token ::
  "(string \<Rightarrow> json option) \<Rightarrow> string \<Rightarrow> error + string" where
  "firebase_verify_id_token decode id_token =
     (if id_token = '''' then Inl (ValidationError ''Firebase ID token is required.'')
      else case decode id_token of
        None \<Rightarrow> Inl (ValidationError ''Invalid Firebase ID token.'')
      | Some claims \<Rightarrow>
          if truthy (item ''phone_number'' claims) then Inr (py_str (item ''phone_number'' claims))
          else Inl (ValidationError ''Verified Firebase token is missing a phone number.''))"

definition send_login_otp ::
  "(string \<Rightarrow> string \<Rightarrow> 'x accounts_db_scheme \<Rightarrow> error + (string \<times> 'x accounts_db_scheme)) \<Rightarrow>
     string \<Rightarrow> string \<Rightarrow> bool \<Rightarrow> 'x accounts_db_scheme \<Rightarrow>
     error + ((string \<times> string \<times> string) \<times> 'x accounts_db_scheme)" where
  "send_login_otp send phone channel allow_admin s =
     (case normalize_phone_number phone of
        Inl e \<Rightarrow> Inl e
      | Inr p \<Rightarrow>
          if (case user_by_phone p s of None \<Rightarrow> False | Some u \<Rightarrow> is_admin u) \<and> \<not> allow_admin
          then Inl (ValidationError admin_login_message)
          else (case send (mobile_of p) channel s of
                  Inl e \<Rightarrow> Inl e
                | Inr (rid, s2) \<Rightarrow> Inr ((p, rid, channel), s2)))"

text \<open>This function is not one transaction: a counted attempt stays when the login then fails.\<close>

definition authenticate_with_otp ::
  "(string \<Rightarrow> string) \<Rightarrow> timestamp \<Rightarrow> string \<Rightarrow> string \<Rightarrow> 'x accounts_db_scheme \<Rightarrow>
     (error + login) \<times> 'x accounts_db_scheme" where
  "authenticate_with_otp hash now phone otp s =
     (case normalize_phone_number phone of
        Inl e \<Rightarrow> (Inl e, s)
      | Inr p \<Rightarrow>
          if (case user_by_phone p s of None \<Rightarrow> False | Some u \<Rightarrow> is_admin u)
          then (Inl (ValidationError admin_login_message), s)
          else (case verify_otp hash now (mobile_of p) otp s of
                  (Inl e, s1) \<Rightarrow> (Inl e, s1)
                | (Inr ok, s1) \<Rightarrow> atomic (authenticate_verified_phone p) s1))"

text \<open>\<open>str.isdigit()\<close> also holds of the superscript digits of the Latin-1 range.\<close>

definition py_isdigit :: "char \<Rightarrow> bool" where
  "py_isdigit c = (is_digit c \<or> (of_char c :: nat) \<in> {178, 179, 185})"

definition customer_access_phone :: "string \<Rightarrow> string" where
  "customer_access_phone phone =
     (let digits = filter py_isdigit phone in
      if length digits = 10 then ''+91'' @ digits else phone)"

definition authenticate_customer_access ::
  "string \<Rightarrow> string \<Rightarrow> 'x accounts_db_scheme \<Rightarrow> error + (login \<times> 'x accounts_db_scheme)" where
  "authenticate_customer_access name phone s =
     (case normalize_phone_number (customer_access_phone phone) of
        Inl e \<Rightarrow> Inl e
      | Inr p \<Rightarrow>
          let parts = split_words (strip_str name); normalized = join_str '' '' parts in
          if length normalized < 2 then Inl (FieldError ''name'' ''Enter your name.'')
          else
            let existing = user_by_phone p s in
            if (case existing of Some u \<Rightarrow> u_role u \<noteq> CUSTOMER | None \<Rightarrow> False)
            then Inl (ValidationError ''Staff accounts must use their secure login portal.'')
            else if (case existing of Some u \<Rightarrow> \<not> u_active u | None \<Rightarrow> False)
            then Inl (ValidationError ''This account is disabled.'')
            else
              let first = takeWhile (\<lambda>c. c \<noteq> CHR '' '') normalized;
                  rest = drop (length first + 1) normalized;
                  (u, s1) =
                    (case existing of
                       Some u \<Rightarrow>
                         let u2 = u\<lparr>u_first_name := first, u_last_name := rest\<rparr> in (u2, save_user u2 s)
                     | None \<Rightarrow>
                         let u2 = (new_user p (new_id s))\<lparr>u_password := UnusablePassword,
                                    u_first_name := first, u_last_name := rest\<rparr>
                         in (u2, bump_id (insert_user u2 s)));
                  (pr, s2) = ensure_profile (u_id u) s1;
                  s3 = (if cp_display_name pr \<noteq> normalized
                        then save_profile (pr\<lparr>cp_display_name := normalized\<rparr>) s2 else s2)
              in Inr (login_result u (existing = None) False, s3))"

text \<open>
  Optional profile fields: \<open>None\<close> is a field that was not sent. The password validators are
  \<open>validate\<close>, the hasher \<open>hasher\<close>.
\<close>

definition register_with_password ::
  "(string \<Rightarrow> user \<Rightarrow> error option) \<Rightarrow> (string \<Rightarrow> string) \<Rightarrow> string \<Rightarrow> string \<Rightarrow>
     string option \<Rightarrow> string option \<Rightarrow> string option option \<Rightarrow> 'x accounts_db_scheme \<Rightarrow>
     error + (login \<times> 'x accounts_db_scheme)" where
  "register_with_password validate hasher phone pw fname lname email s =
     (case normalize_phone_number phone of
        Inl e \<Rightarrow> Inl e
      | Inr p \<Rightarrow>
          let existing = user_by_phone p s in
          if (case existing of Some u \<Rightarrow> u_role u \<noteq> CUSTOMER | None \<Rightarrow> False)
          then Inl (ValidationError ''This phone number cannot create a customer account.'')
          else if (case existing of Some u \<Rightarrow> has_usable_password u | None \<Rightarrow> False)
          then Inl (ValidationError ''An account already exists for this phone number. Please login.'')
          else
            let u = (case existing of Some u \<Rightarrow> u | None \<Rightarrow> new_user p (new_id s)) in
            case validate pw u of
              Some e \<Rightarrow> Inl e
            | None \<Rightarrow>
                let u2 = u\<lparr>u_verified := True, u_active := True, u_password := Hashed (hasher pw),
                    u_first_name := (case fname of None \<Rightarrow> u_first_name u | Some x \<Rightarrow> x),
                    u_last_name := (case lname of None \<Rightarrow> u_last_name u | Some x \<Rightarrow> x),
                    u_email := (case email of None \<Rightarrow> u_email u
                                | Some x \<Rightarrow> if x = Some '''' then None else x)\<rparr>;
                    s1 = (if existing = None then bump_id (insert_user u2 s) else save_user u2 s);
                    s2 = snd (ensure_profile (u_id u2) s1)
                in Inr (login_result u2 (existing = None) False, s2))"

definition open_mfa_challenge ::
  "timestamp \<Rightarrow> int \<Rightarrow> string \<Rightarrow> nat \<Rightarrow> 'x accounts_db_scheme \<Rightarrow> mfa_challenge \<times> 'x accounts_db_scheme" where
  "open_mfa_challenge now ttl channel uid s =
     (let closed = map (\<lambda>c. if mc_user c = uid \<and> mc_consumed_at c = None
                            then c\<lparr>mc_consumed_at := Some now\<rparr> else c) (mfa_challenges s);
          c = \<lparr>mc_id = new_id s, mc_user = uid, mc_channel = channel,
               mc_expires_at = now + ttl * minute_us, mc_consumed_at = None\<rparr>
      in (c, bump_id (s\<lparr>mfa_challenges := closed @ [c]\<rparr>)))"

text \<open>
  \<open>check\<close> is the hasher's \<open>check_password\<close> on a stored password; it accepts nothing for a blank or
  unusable one.
\<close>

definition check_password :: "(string \<Rightarrow> string \<Rightarrow> bool) \<Rightarrow> string \<Rightarrow> user \<Rightarrow> bool" where
  "check_password check pw u = (case u_password u of Hashed h \<Rightarrow> check pw h | _ \<Rightarrow> False)"

definition authenticate_with_password ::
  "(string \<Rightarrow> string \<Rightarrow> bool) \<Rightarrow>
     (string \<Rightarrow> string \<Rightarrow> 'x accounts_db_scheme \<Rightarrow> error + (string \<times> 'x accounts_db_scheme)) \<Rightarrow>
     bool \<Rightarrow> int \<Rightarrow> timestamp \<Rightarrow> string \<Rightarrow> string \<Rightarrow> string \<Rightarrow> 'x accounts_db_scheme \<Rightarrow>
     error + (login_answer \<times> 'x accounts_db_scheme)" where
  "authenticate_with_password check send mfa_enabled ttl now phone pw channel s =
     (case normalize_phone_number phone of
        Inl e \<Rightarrow> Inl e
      | Inr p \<Rightarrow>
          (case user_by_phone p s of
             None \<Rightarrow> Inl (ValidationError ''Invalid phone number or password.'')
           | Some u \<Rightarrow>
               if \<not> u_active u then Inl (ValidationError ''This account is disabled.'')
               else if \<not> has_usable_password u \<or> \<not> check_password check pw u
               then Inl (ValidationError ''Invalid phone number or password.'')
               else if is_admin u \<and> mfa_enabled then
                 (case send_login_otp send (u_phone u) channel True s of
                    Inl e \<Rightarrow> Inl e
                  | Inr (r, s1) \<Rightarrow>
                      let (c, s2) = open_mfa_challenge now ttl channel (u_id u) s1
                      in Inr (MfaRequired (mc_id c) channel (ttl * 60), s2))
               else
                 let s1 = (if u_role u = CUSTOMER then snd (ensure_profile (u_id u) s) else s)
                 in Inr (LoggedIn (login_result u False (is_admin u)), s1)))"

text \<open>
  \<open>complete_admin_mfa\<close> is one transaction around the check of the code: when the code is wrong, what
  the check stored is undone with the rest.
\<close>

definition get_mfa_challenge :: "nat \<Rightarrow> 'x accounts_db_scheme \<Rightarrow> mfa_challenge option" where
  "get_mfa_challenge k s = find_row mc_id k (mfa_challenges s)"

definition save_mfa_challenge :: "mfa_challenge \<Rightarrow> 'x accounts_db_scheme \<Rightarrow> 'x accounts_db_scheme" where
  "save_mfa_challenge c s = s\<lparr>mfa_challenges := save_row mc_id c (mfa_challenges s)\<rparr>"

definition complete_admin_mfa ::
  "(string \<Rightarrow> string) \<Rightarrow> timestamp \<Rightarrow> nat \<Rightarrow> string \<Rightarrow> 'x accounts_db_scheme \<Rightarrow>
     error + (login \<times> 'x accounts_db_scheme)" where
  "complete_admin_mfa hash now cid otp s =
     (let invalid = Inl (ValidationError ''Invalid or expired MFA challenge. Start admin login again.'') in
      case get_mfa_challenge cid s of
        None \<Rightarrow> invalid
      | Some c \<Rightarrow>
          if mc_consumed_at c \<noteq> None \<or> mc_expires_at c \<le> now then invalid
          else case get_user (mc_user c) s of
            None \<Rightarrow> Inl (DoesNotExist ''User'')
          | Some u \<Rightarrow>
              if \<not> u_active u \<or> \<not> is_admin u
              then Inl (ValidationError ''This administrator account is not active.'')
              else (case verify_otp hash now (mobile_of (u_phone u)) otp s of
                      (Inl e, s1) \<Rightarrow> Inl e
                    | (Inr ok, s1) \<Rightarrow>
                        Inr (login_result u False True,
                             save_mfa_challenge (c\<lparr>mc_consumed_at := Some now\<rparr>) s1)))"

definition authenticate_dev_phone ::
  "bool \<Rightarrow> string \<Rightarrow> 'x accounts_db_scheme \<Rightarrow> error + (login \<times> 'x accounts_db_scheme)" where
  "authenticate_dev_phone debug phone s =
     (case normalize_phone_number phone of
        Inl e \<Rightarrow> Inl e
      | Inr p \<Rightarrow>
          (case user_by_phone p s of
             Some u \<Rightarrow>
               if is_admin u then
                 (if \<not> u_active u then Inl (ValidationError ''This account is disabled.'')
                  else Inr (login_result u False debug, s))
               else authenticate_verified_phone p s
           | None \<Rightarrow> authenticate_verified_phone p s))"

text \<open>
  \<open>MfaEnforcedJWTAuthentication.get_user\<close>: \<open>lookup\<close> is the token library's own \<open>get_user\<close>, and
  \<open>claim\<close> the token's \<open>mfa\<close> claim.
\<close>

definition mfa_get_user ::
  "(nat \<Rightarrow> error + user) \<Rightarrow> bool \<Rightarrow> nat \<Rightarrow> json \<Rightarrow> error + user" where
  "mfa_get_user lookup mfa_enabled uid claim =
     (case lookup uid of
        Inl e \<Rightarrow> Inl e
      | Inr u \<Rightarrow>
          if mfa_enabled \<and> is_admin u \<and> claim \<noteq> JBool True
          then Inl (AuthenticationFailed ''Administrator MFA is required.'')
          else Inr u)"

section \<open>What a staff member may reach: \<open>staff_access.py\<close>, \<open>permissions.py\<close>\<close>

type_synonym access_rule = "string \<times> string list"

definition safe_methods :: "string list" where
  "safe_methods = [''GET'', ''HEAD'', ''OPTIONS'']"

definition write_methods :: "string list" where
  "write_methods = [''GET'', ''HEAD'', ''OPTIONS'', ''POST'', ''PUT'', ''PATCH'']"

definition all_methods :: "string list" where
  "all_methods = [''GET'', ''HEAD'', ''OPTIONS'', ''POST'', ''PUT'', ''PATCH'', ''DELETE'']"

definition staff_access_profiles :: "(string \<times> access_rule list) list" where
  "staff_access_profiles =
     [(''Operations Admin'',
        [(''/api/v1/admin/dashboard/'', safe_methods),
         (''/api/v1/admin/search/'', safe_methods),
         (''/api/v1/admin/reports/'', safe_methods),
         (''/api/v1/admin/leads/'', write_methods),
         (''/api/v1/admin/customers/'', write_methods),
         (''/api/v1/admin/bookings/'', write_methods),
         (''/api/v1/admin/work-orders/'', write_methods),
         (''/api/v1/admin/notifications/'', write_methods),
         (''/api/v1/admin/technicians/'', write_methods),
         (''/api/v1/admin/technician-leaves/'', write_methods),
         (''/api/v1/admin/time-slots/'', all_methods),
         (''/api/v1/admin/schedule-closures/'', all_methods),
         (''/api/v1/admin/service-areas/'', all_methods)]),
      (''Customer Support'',
        [(''/api/v1/admin/dashboard/'', safe_methods),
         (''/api/v1/admin/search/'', safe_methods),
         (''/api/v1/admin/leads/'', write_methods),
         (''/api/v1/admin/customers/'', write_methods),
         (''/api/v1/admin/bookings/'', safe_methods),
         (''/api/v1/admin/notifications/'', write_methods)]),
      (''Catalogue Manager'',
        [(''/api/v1/admin/dashboard/'', safe_methods),
         (''/api/v1/admin/service-categories/'', all_methods),
         (''/api/v1/admin/services/'', all_methods),
         (''/api/v1/admin/packages/'', all_methods),
         (''/api/v1/admin/faqs/'', all_methods),
         (''/api/v1/admin/homepage-banners/'', all_methods)]),
      (''Finance'',
        [(''/api/v1/admin/dashboard/'', safe_methods),
         (''/api/v1/admin/reports/'', safe_methods),
         (''/api/v1/admin/bookings/'', safe_methods),
         (''/api/v1/admin/payments/'', write_methods)]),
      (''Technician Coordinator'',
        [(''/api/v1/admin/dashboard/'', safe_methods),
         (''/api/v1/admin/search/'', safe_methods),
         (''/api/v1/admin/bookings/'', write_methods),
         (''/api/v1/admin/work-orders/'', write_methods),
         (''/api/v1/admin/technicians/'', write_methods),
         (''/api/v1/admin/technician-leaves/'', write_methods),
         (''/api/v1/admin/time-slots/'', all_methods),
         (''/api/v1/admin/schedule-closures/'', all_methods)])]"

definition rules_of :: "string \<Rightarrow> access_rule list" where
  "rules_of g = (case map_of staff_access_profiles g of None \<Rightarrow> [] | Some rs \<Rightarrow> rs)"

definition staff_access_allowed :: "user \<Rightarrow> string \<Rightarrow> string \<Rightarrow> bool" where
  "staff_access_allowed u path method =
     (if \<not> u_staff u then False
      else if u_groups u = [] \<or> ''Super Admin'' \<in> set (u_groups u) then True
      else list_ex (\<lambda>g. list_ex (\<lambda>(prefix, methods).
             starts_with prefix path \<and> upper_str method \<in> set methods) (rules_of g)) (u_groups u))"

text \<open>
  \<open>IsAdminRole\<close> for an authenticated user; without one the answer is no and nothing is logged.
\<close>

definition is_admin_role ::
  "user option \<Rightarrow> request option \<Rightarrow> string \<Rightarrow> string \<Rightarrow> string \<Rightarrow> 'x audit_db_scheme \<Rightarrow>
     bool \<times> 'x audit_db_scheme" where
  "is_admin_role who rq path method view s =
     (case who of
        None \<Rightarrow> (False, s)
      | Some u \<Rightarrow>
          let allowed = (if u_role u = ADMIN then staff_access_allowed u path method
                         else u_role u = SUPER_ADMIN)
          in (allowed,
              if allowed then s
              else audit_event AA_PERMISSION_DENIED ''admin_endpoint'' view (Some (u_id u)) rq
                     (JObj [(''path'', JStr path)]) s))"

definition is_super_admin_role :: "user option \<Rightarrow> bool" where
  "is_super_admin_role who = (case who of None \<Rightarrow> False | Some u \<Rightarrow> u_role u = SUPER_ADMIN)"

definition is_technician_role :: "user option \<Rightarrow> bool" where
  "is_technician_role who = (case who of None \<Rightarrow> False | Some u \<Rightarrow> u_role u = TECHNICIAN)"

section \<open>Staff administration and profiles: \<open>serializers.py\<close>, \<open>views.py\<close>\<close>

fun role_str :: "user_role \<Rightarrow> string" where
  "role_str CUSTOMER = ''CUSTOMER''"
| "role_str TECHNICIAN = ''TECHNICIAN''"
| "role_str ADMIN = ''ADMIN''"
| "role_str SUPER_ADMIN = ''SUPER_ADMIN''"

text \<open>
  Creating a staff user. The serializer's uniqueness check on the number is the database constraint
  of the column, tested on the value as it was sent and again on the normalised one by the insert.
\<close>

definition create_staff ::
  "(string \<Rightarrow> string) \<Rightarrow> string \<Rightarrow> string \<Rightarrow> string option \<Rightarrow> string \<Rightarrow> string \<Rightarrow> user_role \<Rightarrow> string list \<Rightarrow>
     nat \<Rightarrow> request option \<Rightarrow> 'x accounts_db_scheme \<Rightarrow> error + (user \<times> 'x accounts_db_scheme)" where
  "create_staff hasher phone pw email fname lname role groups actor rq s =
     (case normalize_phone_number phone of
        Inl e \<Rightarrow> Inl e
      | Inr p \<Rightarrow>
          if role \<notin> {ADMIN, SUPER_ADMIN} then Inl (FieldError ''role'' ''is not a valid choice.'')
          else if role = ADMIN \<and> groups = []
          then Inl (FieldError ''group_ids'' ''Select at least one employee access profile.'')
          else if user_by_phone p s \<noteq> None then Inl (IntegrityError ''accounts_user.phone_number'')
          else
            let u = (new_user p (new_id s))\<lparr>u_email := (if email = Some '''' then None else email),
                      u_first_name := fname, u_last_name := lname, u_role := role,
                      u_staff := True, u_active := True, u_verified := True,
                      u_password := Hashed (hasher pw), u_groups := groups\<rparr>;
                s1 = bump_id (insert_user u s)
            in Inr (u, audit_event AA_STAFF_CREATED ''staff'' (nat_str (u_id u)) (Some actor) rq
                         (JObj [(''role'', JStr (role_str role)), (''group_ids'', JList (map JStr groups))]) s1))"

text \<open>The fields of a partial update; \<open>None\<close> is a field that was not sent.\<close>

record staff_update =
  su_email :: "string option option"
  su_first_name :: "string option"
  su_last_name :: "string option"
  su_role :: "user_role option"
  su_verified :: "bool option"
  su_active :: "bool option"
  su_staff :: "bool option"
  su_groups :: "string list option"

definition validate_staff_update :: "nat \<Rightarrow> user \<Rightarrow> staff_update \<Rightarrow> error option" where
  "validate_staff_update actor u a =
     (let role = given (u_role u) (su_role a) in
      if u_id u = actor \<and> role \<noteq> SUPER_ADMIN
      then Some (FieldError ''role'' ''You cannot remove your own super administrator role.'')
      else if u_id u = actor \<and> \<not> given (u_active u) (su_active a)
      then Some (FieldError ''is_active'' ''You cannot deactivate your own account.'')
      else if u_id u = actor \<and> \<not> given (u_staff u) (su_staff a)
      then Some (FieldError ''is_staff'' ''You cannot remove your own staff access.'')
      else if role = ADMIN \<and> su_groups a = Some []
      then Some (FieldError ''group_ids'' ''Select at least one employee access profile.'')
      else None)"

definition update_staff ::
  "nat \<Rightarrow> nat \<Rightarrow> staff_update \<Rightarrow> 'x accounts_db_scheme \<Rightarrow> error + (user \<times> 'x accounts_db_scheme)" where
  "update_staff actor k a s =
     (case get_user k s of
        None \<Rightarrow> Inl (ErrorResponse 404 ''Not found.'')
      | Some u \<Rightarrow>
          if \<not> u_staff u then Inl (ErrorResponse 404 ''Not found.'')
          else case validate_staff_update actor u a of
            Some e \<Rightarrow> Inl e
          | None \<Rightarrow>
              let u2 = u\<lparr>u_email := given (u_email u) (su_email a),
                         u_first_name := given (u_first_name u) (su_first_name a),
                         u_last_name := given (u_last_name u) (su_last_name a),
                         u_role := given (u_role u) (su_role a),
                         u_verified := given (u_verified u) (su_verified a),
                         u_active := given (u_active u) (su_active a),
                         u_staff := given (u_staff u) (su_staff a),
                         u_groups := given (u_groups u) (su_groups a)\<rparr>
              in Inr (u2, save_user u2 s))"

definition update_profile ::
  "nat \<Rightarrow> string option \<Rightarrow> string option \<Rightarrow> string option option \<Rightarrow> string option \<Rightarrow> string option \<Rightarrow>
     'x accounts_db_scheme \<Rightarrow> error + (user \<times> 'x accounts_db_scheme)" where
  "update_profile k fname lname email display alternate s =
     (case get_user k s of
        None \<Rightarrow> Inl (DoesNotExist ''User'')
      | Some u \<Rightarrow>
          let u2 = u\<lparr>u_first_name := given (u_first_name u) fname,
                     u_last_name := given (u_last_name u) lname,
                     u_email := (if email = Some (Some '''') then None else given (u_email u) email)\<rparr>;
              s1 = save_user u2 s
          in if display = None \<and> alternate = None then Inr (u2, s1)
             else let (p, s2) = ensure_profile k s1
                  in Inr (u2, save_profile (p\<lparr>cp_display_name := given (cp_display_name p) display,
                                              cp_alternate_phone := given (cp_alternate_phone p) alternate\<rparr>) s2))"

definition add_support_note ::
  "nat \<Rightarrow> string \<Rightarrow> nat \<Rightarrow> request option \<Rightarrow> 'x accounts_db_scheme \<Rightarrow>
     error + (support_note \<times> 'x accounts_db_scheme)" where
  "add_support_note k note actor rq s =
     (case get_user k s of
        None \<Rightarrow> Inl (ErrorResponse 404 ''Not found.'')
      | Some u \<Rightarrow>
          if u_role u \<noteq> CUSTOMER then Inl (ErrorResponse 404 ''Not found.'')
          else
            let n = \<lparr>sn_id = new_id s, sn_customer = k, sn_note = note, sn_created_by = Some actor\<rparr>;
                s1 = bump_id (s\<lparr>support_notes := support_notes s @ [n]\<rparr>)
            in Inr (n, audit_event AA_CUSTOMER_SUPPORT_NOTE_CREATED ''customer'' (nat_str k) (Some actor) rq
                         (JObj [(''note_id'', JStr (nat_str (sn_id n)))]) s1))"

section \<open>Lemmas\<close>

lemma challenge_by_mobile_save:
  "challenge_by_mobile mobile s = Some c \<Longrightarrow> oc_mobile c2 = mobile \<Longrightarrow> oc_id c2 = oc_id c \<Longrightarrow>
     challenge_by_mobile mobile (save_challenge c2 s) = Some c2"
  by (auto simp: challenge_by_mobile_def save_challenge_def intro!: first_row_save_row)

lemma challenge_by_mobileD: "challenge_by_mobile mobile s = Some c \<Longrightarrow> oc_mobile c = mobile"
  by (auto simp: challenge_by_mobile_def dest: first_row_SomeD)

lemma verify_otp_closed:
  "challenge_by_mobile mobile s = Some c \<Longrightarrow> \<not> challenge_open now c \<Longrightarrow>
     verify_otp hash now mobile otp s = (Inl (ValidationError ''Invalid or expired OTP. Request a new code if needed.''), s)"
  by (simp add: verify_otp_def)

lemma verify_otp_wrong:
  assumes "challenge_by_mobile mobile s = Some c" and "challenge_open now c"
    and "oc_code_hash c \<noteq> otp_hash hash mobile otp"
  shows "verify_otp hash now mobile otp s =
           (Inl (ValidationError ''Invalid or expired OTP. Request a new code if needed.''),
            save_challenge (c\<lparr>oc_attempts := oc_attempts c + 1\<rparr>) s)"
  using assms by (simp add: verify_otp_def)

text \<open>The guesses an attacker makes, each at its own time, one after the other.\<close>

fun guess_all ::
  "(string \<Rightarrow> string) \<Rightarrow> string \<Rightarrow> (timestamp \<times> string) list \<Rightarrow> 'x accounts_db_scheme \<Rightarrow> 'x accounts_db_scheme" where
  "guess_all hash mobile [] s = s"
| "guess_all hash mobile ((t, g) # gs) s = guess_all hash mobile gs (snd (verify_otp hash t mobile g s))"

text \<open>
  Wrong guesses only raise the counter: it grows by one for each guess while the challenge is open,
  and a challenge that is not open stays as it is.
\<close>

lemma guess_all_wrong:
  assumes "challenge_by_mobile mobile s = Some c" and "\<forall>g\<in>snd ` set gs. oc_code_hash c \<noteq> otp_hash hash mobile g"
  shows "\<exists>c2. challenge_by_mobile mobile (guess_all hash mobile gs s) = Some c2 \<and>
           oc_code_hash c2 = oc_code_hash c \<and> oc_attempts c \<le> oc_attempts c2 \<and>
           oc_expires_at c2 = oc_expires_at c \<and> oc_consumed_at c2 = oc_consumed_at c \<and>
           ((\<forall>t\<in>fst ` set gs. challenge_open t c) \<longrightarrow> min 5 (oc_attempts c + length gs) \<le> oc_attempts c2)"
  using assms
proof (induction gs arbitrary: s c)
  case Nil
  then show ?case by auto
next
  case (Cons tg gs)
  obtain t g where tg: "tg = (t, g)" by (cases tg)
  have wrong: "oc_code_hash c \<noteq> otp_hash hash mobile g" using Cons.prems tg by auto
  show ?case
  proof (cases "challenge_open t c")
    case False
    with Cons.prems tg have "guess_all hash mobile (tg # gs) s = guess_all hash mobile gs s"
      by (simp add: verify_otp_closed)
    with Cons.IH [OF Cons.prems(1)] Cons.prems(2) tg False show ?thesis by fastforce
  next
    case True
    let ?c = "c\<lparr>oc_attempts := oc_attempts c + 1\<rparr>"
    have step: "guess_all hash mobile (tg # gs) s = guess_all hash mobile gs (save_challenge ?c s)"
      using verify_otp_wrong [OF Cons.prems(1) True wrong] tg by simp
    have found: "challenge_by_mobile mobile (save_challenge ?c s) = Some ?c"
      using Cons.prems(1) by (intro challenge_by_mobile_save) (auto dest: challenge_by_mobileD)
    have "\<forall>x\<in>snd ` set gs. oc_code_hash ?c \<noteq> otp_hash hash mobile x" using Cons.prems(2) by simp
    from Cons.IH [OF found this] obtain c2 where c2:
      "challenge_by_mobile mobile (guess_all hash mobile gs (save_challenge ?c s)) = Some c2"
      "oc_code_hash c2 = oc_code_hash c" "oc_attempts c + 1 \<le> oc_attempts c2"
      "oc_expires_at c2 = oc_expires_at c" "oc_consumed_at c2 = oc_consumed_at c"
      "(\<forall>t\<in>fst ` set gs. challenge_open t ?c) \<longrightarrow> min 5 (oc_attempts c + 1 + length gs) \<le> oc_attempts c2"
      by auto
    have "min 5 (oc_attempts c + length (tg # gs)) \<le> oc_attempts c2"
      if opened: "\<forall>t\<in>fst ` set (tg # gs). challenge_open t c"
    proof (cases "oc_attempts c + 1 < 5")
      case True
      with opened have "\<forall>t\<in>fst ` set gs. challenge_open t ?c"
        by (auto simp: challenge_open_def)
      with c2(6) show ?thesis by simp
    next
      case False
      with c2(3) show ?thesis by simp
    qed
    with step c2 show ?thesis by (intro exI [of _ c2]) simp
  qed
qed

section \<open>Properties\<close>

definition sample_user :: "nat \<Rightarrow> user_role \<Rightarrow> string list \<Rightarrow> user" where
  "sample_user k role groups =
     \<lparr>u_id = k, u_phone = ''+919876543210'', u_email = None, u_first_name = ''A'', u_last_name = ''B'',
      u_role = role, u_verified = True, u_active = True, u_staff = (role \<in> {ADMIN, SUPER_ADMIN}),
      u_superuser = False, u_password = Hashed ''h'', u_groups = groups\<rparr>"

definition sample_challenge :: otp_challenge where
  "sample_challenge =
     \<lparr>oc_id = 9, oc_mobile = ''919876543210'', oc_channel = ''SMS'', oc_code_hash = ''919876543210:000042'',
      oc_expires_at = Some 1000, oc_sent_at = Some 0, oc_attempts = 0, oc_consumed_at = None\<rparr>"

definition sample_accounts_db :: "user list \<Rightarrow> accounts_db" where
  "sample_accounts_db us =
     \<lparr>next_id = 100, audit_logs = [], on_commit = [], notifications = [], users = us,
      customer_profiles = [], otp_challenges = [sample_challenge],
      mfa_challenges = [\<lparr>mc_id = 5, mc_user = 1, mc_channel = ''SMS'', mc_expires_at = 1000, mc_consumed_at = None\<rparr>],
      support_notes = []\<rparr>"

text \<open>Normalising a phone number either refuses it or gives a number in E.164 form that is the
  input without its white space, and normalising that again changes nothing; so two spellings that
  differ in white space are the same account.\<close>

theorem phone_normalization_canonical:
  "case normalize_phone_number x of
     Inl e \<Rightarrow> normalize_phone_number (remove_spaces x) = Inl e
   | Inr p \<Rightarrow> e164 p \<and> p = remove_spaces x \<and> normalize_phone_number p = Inr p"
  by (simp add: normalize_phone_number_def Let_def remove_spaces_def)

text \<open>C15: A one-time code works once: after it has been accepted, no code is accepted for that number
  at any time, and nothing changes, until a new code is sent.\<close>

theorem otp_single_use:
  assumes "verify_otp hash now mobile otp s = (Inr (), s')"
  shows "verify_otp hash later mobile other s' =
           (Inl (ValidationError ''Invalid or expired OTP. Request a new code if needed.''), s')"
proof -
  obtain c where c: "challenge_by_mobile mobile s = Some c"
    and s': "s' = save_challenge (c\<lparr>oc_attempts := oc_attempts c + 1, oc_consumed_at := Some now,
               oc_code_hash := ''''\<rparr>) s"
    using assms by (auto simp: verify_otp_def Let_def split: option.splits if_splits)
  have "challenge_by_mobile mobile s' = Some (c\<lparr>oc_attempts := oc_attempts c + 1,
          oc_consumed_at := Some now, oc_code_hash := ''''\<rparr>)"
    unfolding s' using c by (intro challenge_by_mobile_save) (auto dest: challenge_by_mobileD)
  then show ?thesis by (rule verify_otp_closed) (simp add: challenge_open_def)
qed

theorem otp_single_use_witness:
  "\<exists>s'. verify_otp (\<lambda>x. x) 10 ''919876543210'' ''000042'' (sample_accounts_db []) = (Inr (), s') \<and>
        snd (verify_otp (\<lambda>x. x) 11 ''919876543210'' ''000042'' s') = s'"
proof -
  have "\<exists>s'. verify_otp (\<lambda>x. x) 10 ''919876543210'' ''000042'' (sample_accounts_db []) = (Inr (), s')"
    by (simp add: verify_otp_def challenge_by_mobile_def first_row_def sample_accounts_db_def
        sample_challenge_def challenge_open_def otp_hash_def)
  then obtain s' where s': "verify_otp (\<lambda>x. x) 10 ''919876543210'' ''000042'' (sample_accounts_db []) = (Inr (), s')"
    by blast
  show ?thesis by (rule exI [of _ s']) (use s' otp_single_use [OF s', of 11 "''000042''"] in simp)
qed

text \<open>
  The other guesses: \<open>complete_admin_mfa\<close> is one transaction, so each wrong code is undone with its
  count.
\<close>

fun mfa_guess_all ::
  "(string \<Rightarrow> string) \<Rightarrow> nat \<Rightarrow> (timestamp \<times> string) list \<Rightarrow> 'x accounts_db_scheme \<Rightarrow> 'x accounts_db_scheme" where
  "mfa_guess_all hash cid [] s = s"
| "mfa_guess_all hash cid ((t, g) # gs) s =
     mfa_guess_all hash cid gs (snd (atomic (complete_admin_mfa hash t cid g) s))"

lemma mfa_guess_all_refused:
  "\<forall>(t, g)\<in>set gs. \<exists>e. complete_admin_mfa hash t cid g s = Inl e \<Longrightarrow> mfa_guess_all hash cid gs s = s"
  by (induction gs) (auto simp: atomic_Inl)

text \<open>Refused guesses of an administrator's second factor are not counted: after any number of
  them the database is unchanged, and the next attempt is answered as the first would have been. The
  limit of five attempts does not hold on this path.\<close>

theorem mfa_guesses_not_counted:
  assumes "\<forall>(t, g)\<in>set gs. \<exists>e. complete_admin_mfa hash t cid g s = Inl e"
  shows "mfa_guess_all hash cid gs s = s \<and>
         atomic (complete_admin_mfa hash now cid code) (mfa_guess_all hash cid gs s) =
           atomic (complete_admin_mfa hash now cid code) s"
  using mfa_guess_all_refused [OF assms] by simp

theorem mfa_guesses_not_counted_witness:
  "mfa_guess_all (\<lambda>x. x) 5 (map (\<lambda>i. (10, ''000000'')) [0..<6]) (sample_accounts_db [sample_user 1 ADMIN []]) =
     sample_accounts_db [sample_user 1 ADMIN []]"
  by (rule conjunct1 [OF mfa_guesses_not_counted])
    (simp add: complete_admin_mfa_def get_mfa_challenge_def get_user_def sample_accounts_db_def sample_user_def
      is_admin_def verify_otp_def mobile_of_def challenge_by_mobile_def first_row_def sample_challenge_def
      challenge_open_def otp_hash_def)

text \<open>The guesses an attacker makes at the login with a code, one request after the other.\<close>

fun login_guess_all ::
  "(string \<Rightarrow> string) \<Rightarrow> string \<Rightarrow> (timestamp \<times> string) list \<Rightarrow> 'x accounts_db_scheme \<Rightarrow> 'x accounts_db_scheme" where
  "login_guess_all hash phone [] s = s"
| "login_guess_all hash phone ((t, g) # gs) s =
     login_guess_all hash phone gs (snd (authenticate_with_otp hash t phone g s))"

lemma user_by_phone_save_challenge [simp]:
  "user_by_phone p (save_challenge c s) = user_by_phone p s"
  by (simp add: user_by_phone_def save_challenge_def)

text \<open>A refused code does to the database what the check of the code does.\<close>

lemma otp_login_refused:
  assumes "normalize_phone_number phone = Inr p" and "\<forall>u. user_by_phone p s = Some u \<longrightarrow> \<not> is_admin u"
    and "verify_otp hash t (mobile_of p) g s = (Inl e, s1)"
  shows "authenticate_with_otp hash t phone g s = (Inl e, s1)"
  using assms by (auto simp: authenticate_with_otp_def split: option.splits)

lemma verify_otp_wrong_cases:
  assumes "challenge_by_mobile mobile s = Some c" and "oc_code_hash c \<noteq> otp_hash hash mobile g"
  obtains "verify_otp hash t mobile g s =
             (Inl (ValidationError ''Invalid or expired OTP. Request a new code if needed.''), s)"
  | "verify_otp hash t mobile g s =
       (Inl (ValidationError ''Invalid or expired OTP. Request a new code if needed.''),
        save_challenge (c\<lparr>oc_attempts := oc_attempts c + 1\<rparr>) s)"
  using verify_otp_closed [OF assms(1)] verify_otp_wrong [OF assms(1) _ assms(2)] by metis

lemma login_guess_all_wrong:
  assumes "normalize_phone_number phone = Inr p" and "\<forall>u. user_by_phone p s = Some u \<longrightarrow> \<not> is_admin u"
    and "challenge_by_mobile (mobile_of p) s = Some c"
    and "\<forall>(t, g)\<in>set gs. oc_code_hash c \<noteq> otp_hash hash (mobile_of p) g"
  shows "login_guess_all hash phone gs s = guess_all hash (mobile_of p) gs s \<and>
         user_by_phone p (guess_all hash (mobile_of p) gs s) = user_by_phone p s"
  using assms(2-)
proof (induction gs arbitrary: s c)
  case (Cons tg gs)
  obtain t g where tg: "tg = (t, g)" by (cases tg)
  have wrong: "oc_code_hash c \<noteq> otp_hash hash (mobile_of p) g" using Cons.prems(3) tg by simp
  let ?c = "c\<lparr>oc_attempts := oc_attempts c + 1\<rparr>"
  show ?case
  proof (rule verify_otp_wrong_cases [OF Cons.prems(2) wrong, of t])
    assume v: "verify_otp hash t (mobile_of p) g s =
        (Inl (ValidationError ''Invalid or expired OTP. Request a new code if needed.''), s)"
    from Cons.IH [OF Cons.prems(1,2)] Cons.prems(3) otp_login_refused [OF assms(1) Cons.prems(1) v] v tg
    show ?thesis by simp
  next
    assume v: "verify_otp hash t (mobile_of p) g s =
        (Inl (ValidationError ''Invalid or expired OTP. Request a new code if needed.''), save_challenge ?c s)"
    have "challenge_by_mobile (mobile_of p) (save_challenge ?c s) = Some ?c"
      using Cons.prems(2) by (intro challenge_by_mobile_save) (auto dest: challenge_by_mobileD)
    from Cons.IH [OF _ this] Cons.prems(1,3) otp_login_refused [OF assms(1) Cons.prems(1) v] v tg
    show ?thesis by simp
  qed
qed simp

lemma login_guess_refused:
  assumes "normalize_phone_number phone = Inr p" and "\<forall>u. user_by_phone p s = Some u \<longrightarrow> \<not> is_admin u"
    and "challenge_by_mobile (mobile_of p) s = Some c"
    and "\<forall>(t, g)\<in>set gs. oc_code_hash c \<noteq> otp_hash hash (mobile_of p) g"
    and "oc_code_hash c \<noteq> otp_hash hash (mobile_of p) code"
  shows "isl (fst (authenticate_with_otp hash now phone code (login_guess_all hash phone gs s)))"
proof -
  note same = login_guess_all_wrong [OF assms(1-4)]
  have "\<forall>g\<in>snd ` set gs. oc_code_hash c \<noteq> otp_hash hash (mobile_of p) g" using assms(4) by auto
  from guess_all_wrong [OF assms(3) this] obtain c2 where
    c2: "challenge_by_mobile (mobile_of p) (guess_all hash (mobile_of p) gs s) = Some c2"
      "oc_code_hash c2 = oc_code_hash c" by blast
  obtain e s1 where "verify_otp hash now (mobile_of p) code (guess_all hash (mobile_of p) gs s) = (Inl e, s1)"
    using verify_otp_closed [OF c2(1)] verify_otp_wrong [OF c2(1)] c2(2) assms(5) by metis
  then have "authenticate_with_otp hash now phone code (guess_all hash (mobile_of p) gs s) = (Inl e, s1)"
    using same assms(2) by (intro otp_login_refused [OF assms(1)]) simp_all
  with same show ?thesis by simp
qed

text \<open>C16: On the login with a code, the code of an open challenge can be guessed at most five times:
  every wrong request is refused, and after five of them even the right code is refused at any time, by
  the check as by the login, and nothing changes any more. The second factor of the administrators is
  not covered by this bound, and the last part says so: there each request is one transaction, so any
  number of refused guesses leaves the database, and with it the count, as it was.\<close>

theorem otp_guesses_bounded:
  assumes "normalize_phone_number phone = Inr p" and "\<forall>u. user_by_phone p s = Some u \<longrightarrow> \<not> is_admin u"
    and "challenge_by_mobile (mobile_of p) s = Some c" and "length gs \<ge> 5"
    and "\<forall>(t, g)\<in>set gs. challenge_open t c \<and> oc_code_hash c \<noteq> otp_hash hash (mobile_of p) g"
  shows "(\<forall>k<length gs. isl (fst (authenticate_with_otp hash (fst (gs ! k)) phone (snd (gs ! k))
            (login_guess_all hash phone (take k gs) s)))) \<and>
         verify_otp hash now (mobile_of p) code (login_guess_all hash phone gs s) =
           (Inl (ValidationError ''Invalid or expired OTP. Request a new code if needed.''),
            login_guess_all hash phone gs s) \<and>
         authenticate_with_otp hash now phone code (login_guess_all hash phone gs s) =
           (Inl (ValidationError ''Invalid or expired OTP. Request a new code if needed.''),
            login_guess_all hash phone gs s) \<and>
         (\<forall>cid hs s0. (\<forall>(t, g)\<in>set hs. \<exists>e. complete_admin_mfa hash t cid g s0 = Inl e) \<longrightarrow>
            mfa_guess_all hash cid hs s0 = s0)"
proof -
  have wrong: "\<forall>g\<in>snd ` set gs. oc_code_hash c \<noteq> otp_hash hash (mobile_of p) g"
    and opened: "\<forall>t\<in>fst ` set gs. challenge_open t c"
    and wrong2: "\<forall>(t, g)\<in>set gs. oc_code_hash c \<noteq> otp_hash hash (mobile_of p) g"
    using assms(5) by auto
  note same = login_guess_all_wrong [OF assms(1-3) wrong2]
  from guess_all_wrong [OF assms(3) wrong] opened assms(4) obtain c2 where
    "challenge_by_mobile (mobile_of p) (guess_all hash (mobile_of p) gs s) = Some c2" "5 \<le> oc_attempts c2"
    by fastforce
  then have v: "verify_otp hash now (mobile_of p) code (login_guess_all hash phone gs s) =
      (Inl (ValidationError ''Invalid or expired OTP. Request a new code if needed.''),
       login_guess_all hash phone gs s)"
    using same by (intro verify_otp_closed) (auto simp: challenge_open_def)
  moreover have "authenticate_with_otp hash now phone code (login_guess_all hash phone gs s) =
      (Inl (ValidationError ''Invalid or expired OTP. Request a new code if needed.''),
       login_guess_all hash phone gs s)"
    using same assms(2) by (intro otp_login_refused [OF assms(1) _ v]) simp
  moreover have "isl (fst (authenticate_with_otp hash (fst (gs ! k)) phone (snd (gs ! k))
      (login_guess_all hash phone (take k gs) s)))" if "k < length gs" for k
    using wrong2 nth_mem [OF that] by (intro login_guess_refused [OF assms(1-3)]) (fastforce dest: in_set_takeD)+
  ultimately show ?thesis using mfa_guess_all_refused by blast
qed

theorem otp_guesses_bounded_witness:
  "isl (fst (authenticate_with_otp (\<lambda>x. x) 50 ''+919876543210'' ''000042''
     (login_guess_all (\<lambda>x. x) ''+919876543210'' (map (\<lambda>i. (10 + int i, nat_str i)) [0, 1, 2, 3, 4])
        (sample_accounts_db []))))"
proof -
  have "normalize_phone_number ''+919876543210'' = Inr ''+919876543210''" by code_simp
  moreover have "mobile_of ''+919876543210'' = ''919876543210''" by code_simp
  ultimately show ?thesis
    by (subst otp_guesses_bounded [where c = sample_challenge and p = "''+919876543210''", THEN conjunct2,
          THEN conjunct2, THEN conjunct1])
      (simp_all add: challenge_by_mobile_def first_row_def sample_accounts_db_def user_by_phone_def
        sample_challenge_def challenge_open_def otp_hash_def nat_str.simps digit_char_def)
qed

lemma verified_phone_not_admin:
  "authenticate_verified_phone phone s = Inr (lo, s') \<Longrightarrow> \<not> is_admin (lo_user lo) \<and> u_active (lo_user lo)"
  by (auto simp: authenticate_verified_phone_def login_result_def is_admin_def Let_def
      split: sum.splits option.splits if_splits prod.splits)

lemma otp_login_not_admin:
  assumes "authenticate_with_otp hash now phone otp s = (Inr lo, s')"
  shows "\<not> is_admin (lo_user lo)"
proof -
  obtain p where p: "normalize_phone_number phone = Inr p"
    using assms by (cases "normalize_phone_number phone") (simp_all add: authenticate_with_otp_def)
  obtain r t where v: "verify_otp hash now (mobile_of p) otp s = (r, t)" by fastforce
  from assms p v have "atomic (authenticate_verified_phone p) t = (Inr lo, s')"
    by (cases r) (auto simp: authenticate_with_otp_def split: if_splits)
  then show ?thesis
    by (cases "authenticate_verified_phone p t") (auto simp: atomic_def dest: verified_phone_not_admin)
qed

lemma customer_access_role:
  assumes "authenticate_customer_access name phone s = Inr (lo, s')"
  shows "u_role (lo_user lo) = CUSTOMER"
proof -
  obtain p where p: "normalize_phone_number (customer_access_phone phone) = Inr p"
    using assms by (cases "normalize_phone_number (customer_access_phone phone)")
      (simp_all add: authenticate_customer_access_def)
  show ?thesis
  proof (cases "user_by_phone p s")
    case None
    with assms p show ?thesis
      by (auto simp: authenticate_customer_access_def Let_def login_result_def new_user_def split: if_splits prod.splits)
  next
    case (Some u)
    with assms p show ?thesis
      by (auto simp: authenticate_customer_access_def Let_def login_result_def split: if_splits prod.splits)
  qed
qed

lemma registered_role:
  assumes "register_with_password validate hasher phone pw fname lname email s = Inr (lo, s')"
  shows "u_role (lo_user lo) = CUSTOMER"
proof -
  obtain p where p: "normalize_phone_number phone = Inr p"
    using assms by (cases "normalize_phone_number phone") (simp_all add: register_with_password_def)
  show ?thesis
  proof (cases "user_by_phone p s")
    case None
    with assms p show ?thesis
      by (cases "validate pw (new_user p (new_id s))")
        (auto simp: register_with_password_def Let_def login_result_def new_user_def)
  next
    case (Some u)
    with assms p show ?thesis
      by (cases "validate pw u") (auto simp: register_with_password_def Let_def login_result_def split: if_splits)
  qed
qed

lemma dev_login_mark:
  assumes "authenticate_dev_phone debug phone s = Inr (lo, s2)" and "is_admin (lo_user lo)"
  shows "lo_mfa lo = debug \<and> u_active (lo_user lo) \<and> s2 = s"
  using assms by (auto simp: authenticate_dev_phone_def login_result_def dest: verified_phone_not_admin
      split: sum.splits option.splits if_splits)

lemma complete_admin_mfa_Inr:
  assumes "complete_admin_mfa hash now cid otp s = Inr (lo, s2)"
  shows "lo_mfa lo \<and> \<not> lo_created lo \<and>
         (\<exists>c. get_mfa_challenge cid s = Some c \<and> mc_consumed_at c = None \<and> now < mc_expires_at c \<and>
              get_user (mc_user c) s = Some (lo_user lo) \<and>
              fst (verify_otp hash now (mobile_of (u_phone (lo_user lo))) otp s) = Inr ())"
  using assms by (auto simp: complete_admin_mfa_def login_result_def Let_def
      split: sum.splits option.splits if_splits prod.splits)

text \<open>C14: With multi-factor login switched on, an administrator gets a token with the mark of the
  second factor only by completing it: a password opens a challenge instead of a session, the code and
  Firebase logins refuse administrators, self-registration and customer access only serve customers, and
  completing takes an open challenge of that administrator and the code sent to his number. The
  development login is the one path that hands an active administrator a token without a second factor:
  its mark is the debug flag, so outside debug mode it is unmarked; and a token without the mark is
  refused for an administrator on every request.\<close>

theorem administrators_need_second_factor:
  assumes "is_admin u"
  shows "authenticate_with_password check send True ttl now phone pw channel s \<noteq> Inr (LoggedIn (login_result u c m), s1) \<and>
         authenticate_with_otp hash now phone otp s \<noteq> (Inr (login_result u c m), s2) \<and>
         authenticate_with_firebase verify token s \<noteq> Inr (login_result u c m, s3) \<and>
         authenticate_customer_access name phone s \<noteq> Inr (login_result u c m, s3) \<and>
         register_with_password validate hasher phone pw fname lname email s \<noteq> Inr (login_result u c m, s3) \<and>
         complete_admin_mfa hash now cid otp s \<noteq> Inr (login_result u c False, s3) \<and>
         (complete_admin_mfa hash now cid otp s = Inr (login_result u c m, s3) \<longrightarrow>
            (\<exists>ch. get_mfa_challenge cid s = Some ch \<and> mc_consumed_at ch = None \<and> now < mc_expires_at ch \<and>
                  get_user (mc_user ch) s = Some u \<and>
                  fst (verify_otp hash now (mobile_of (u_phone u)) otp s) = Inr ())) \<and>
         (authenticate_dev_phone debug phone s = Inr (login_result u c m, s3) \<longrightarrow> m = debug) \<and>
         (authenticate_dev_phone False phone s = Inr (login_result u c m, s3) \<longrightarrow>
            mfa_get_user lookup True uid (JBool m) \<noteq> Inr u) \<and>
         (claim \<noteq> JBool True \<longrightarrow> mfa_get_user lookup True uid claim \<noteq> Inr u)"
proof (intro conjI)
  show "authenticate_with_password check send True ttl now phone pw channel s \<noteq> Inr (LoggedIn (login_result u c m), s1)"
    using assms by (auto simp: authenticate_with_password_def login_result_def Let_def
        split: sum.splits option.splits if_splits prod.splits)
  show "authenticate_with_otp hash now phone otp s \<noteq> (Inr (login_result u c m), s2)"
    using assms otp_login_not_admin by (fastforce simp: login_result_def)
  show "authenticate_with_firebase verify token s \<noteq> Inr (login_result u c m, s3)"
    using assms verified_phone_not_admin
    by (fastforce simp: authenticate_with_firebase_def login_result_def split: sum.splits)
  show "authenticate_customer_access name phone s \<noteq> Inr (login_result u c m, s3)"
    using assms by (auto simp: login_result_def is_admin_def dest!: customer_access_role)
  show "register_with_password validate hasher phone pw fname lname email s \<noteq> Inr (login_result u c m, s3)"
    using assms by (auto simp: login_result_def is_admin_def dest!: registered_role)
  show "complete_admin_mfa hash now cid otp s \<noteq> Inr (login_result u c False, s3)"
    by (auto dest: complete_admin_mfa_Inr simp: login_result_def)
  show "complete_admin_mfa hash now cid otp s = Inr (login_result u c m, s3) \<longrightarrow>
          (\<exists>ch. get_mfa_challenge cid s = Some ch \<and> mc_consumed_at ch = None \<and> now < mc_expires_at ch \<and>
                get_user (mc_user ch) s = Some u \<and>
                fst (verify_otp hash now (mobile_of (u_phone u)) otp s) = Inr ())"
    by (auto dest: complete_admin_mfa_Inr simp: login_result_def)
  show "authenticate_dev_phone debug phone s = Inr (login_result u c m, s3) \<longrightarrow> m = debug"
    using assms dev_login_mark by (fastforce simp: login_result_def)
  show "claim \<noteq> JBool True \<longrightarrow> mfa_get_user lookup True uid claim \<noteq> Inr u"
    using assms by (auto simp: mfa_get_user_def split: sum.splits)
  show "authenticate_dev_phone False phone s = Inr (login_result u c m, s3) \<longrightarrow>
          mfa_get_user lookup True uid (JBool m) \<noteq> Inr u"
    using assms by (auto simp: login_result_def mfa_get_user_def dest!: dev_login_mark split: sum.splits)
qed

theorem administrators_need_second_factor_witness:
  "authenticate_with_otp (\<lambda>x. x) 10 ''+919876543210'' ''000042'' (sample_accounts_db []) \<noteq>
     (Inr (login_result (sample_user 1 ADMIN []) False False), sample_accounts_db [])"
  using administrators_need_second_factor [where u = "sample_user 1 ADMIN []" and s = "sample_accounts_db []"]
  by (simp add: is_admin_def sample_user_def)

definition deletable :: "string list" where
  "deletable =
     map ((@) ''/api/v1/admin/'') [''time-slots/'', ''schedule-closures/'', ''service-areas/'',
       ''service-categories/'', ''services/'', ''packages/'', ''faqs/'', ''homepage-banners/'']"

definition payment_prefix :: string where
  "payment_prefix = ''/api/v1/admin/payments/''"

lemma profile_rules:
  "list_all (\<lambda>(g, rs). list_all (\<lambda>(p, ms).
      (starts_with p payment_prefix \<or> starts_with payment_prefix p \<longrightarrow> g = ''Finance'' \<and> ''DELETE'' \<notin> set ms) \<and>
      (''DELETE'' \<in> set ms \<longrightarrow> p \<in> set deletable)) rs) staff_access_profiles"
  by (simp add: staff_access_profiles_def payment_prefix_def deletable_def safe_methods_def write_methods_def
      all_methods_def)

text \<open>What an employee profile reaches: an administrator who has profiles, none of them the super
  administrator's, reaches the payment endpoints only as Finance and never with DELETE, and deletes
  only below the catalogue and scheduling endpoints.\<close>

theorem employee_profiles_confine:
  assumes "u_role u = ADMIN" and "u_groups u \<noteq> []" and "''Super Admin'' \<notin> set (u_groups u)"
    and "fst (is_admin_role (Some u) rq path method view s)"
  shows "(starts_with payment_prefix path \<longrightarrow> ''Finance'' \<in> set (u_groups u) \<and> upper_str method \<noteq> ''DELETE'') \<and>
         (upper_str method = ''DELETE'' \<longrightarrow> list_ex (\<lambda>p. starts_with p path) deletable)"
proof -
  obtain g p ms where g: "g \<in> set (u_groups u)" and rule: "(p, ms) \<in> set (rules_of g)"
    and p: "starts_with p path" and ms: "upper_str method \<in> set ms"
    using assms by (auto simp: is_admin_role_def staff_access_allowed_def list_ex_iff Let_def split: if_splits)
  from rule obtain rs where "(g, rs) \<in> set staff_access_profiles" "(p, ms) \<in> set rs"
    by (cases "map_of staff_access_profiles g") (auto simp: rules_of_def dest: map_of_SomeD)
  with profile_rules have
    "(starts_with p payment_prefix \<or> starts_with payment_prefix p \<longrightarrow> g = ''Finance'' \<and> ''DELETE'' \<notin> set ms) \<and>
     (''DELETE'' \<in> set ms \<longrightarrow> p \<in> set deletable)"
    by (fastforce simp: list_all_iff)
  with g p ms starts_with_comparable [OF p] show ?thesis
    by (auto simp: list_ex_iff)
qed

theorem employee_profiles_confine_witness:
  "''Finance'' \<in> set (u_groups (sample_user 1 ADMIN [''Finance'']))"
  using employee_profiles_confine [of "sample_user 1 ADMIN [''Finance'']" None
      "''/api/v1/admin/payments/x''" "''get''" "''v''" "sample_accounts_db []"]
  by (simp add: is_admin_role_def staff_access_allowed_def sample_user_def rules_of_def staff_access_profiles_def
      write_methods_def upper_str_def upper_char_def payment_prefix_def Let_def)

text \<open>A super administrator without profiles who is made an ordinary administrator, in a request
  that sends no profiles, keeps access to every endpoint.\<close>

theorem demoted_super_admin_keeps_access:
  assumes "get_user k s = Some u" and "u_staff u" and "u_role u = SUPER_ADMIN" and "u_groups u = []"
    and "actor \<noteq> k"
  shows "\<exists>u2 s'. update_staff actor k
           \<lparr>su_email = None, su_first_name = None, su_last_name = None, su_role = Some ADMIN,
            su_verified = None, su_active = None, su_staff = None, su_groups = None\<rparr> s = Inr (u2, s') \<and>
         u_role u2 = ADMIN \<and> fst (is_admin_role (Some u2) rq path method view s')"
  using assms user_table.get_key [OF assms(1)]
  by (auto simp: update_staff_def validate_staff_update_def given_def is_admin_role_def staff_access_allowed_def Let_def)

theorem demoted_super_admin_keeps_access_witness:
  "\<exists>u2 s'. update_staff 2 1
           \<lparr>su_email = None, su_first_name = None, su_last_name = None, su_role = Some ADMIN,
            su_verified = None, su_active = None, su_staff = None, su_groups = None\<rparr>
           (sample_accounts_db [sample_user 1 SUPER_ADMIN []]) = Inr (u2, s') \<and>
         u_role u2 = ADMIN \<and> fst (is_admin_role (Some u2) None ''/api/v1/admin/payments/'' ''DELETE'' ''v'' s')"
  by (rule demoted_super_admin_keeps_access [where u = "sample_user 1 SUPER_ADMIN []"])
    (simp_all add: get_user_def sample_accounts_db_def sample_user_def)

end
