(* ===== verification/Decimals.thy ===== *)
theory Decimals
  imports Prelude
begin

text \<open>
  Decimal arithmetic. Python's \<open>Decimal\<close> is an integer coefficient with a number of decimal places;
  the products and quotients by 100 the code forms stay within the 28 digits of the default
  context, so they are exact, and \<open>quantize\<close> rounds half to even, the context's default. A model
  field \<open>DecimalField(decimal_places=2)\<close> is stored as its coefficient: money is a number of paise,
  a percentage a number of hundredths of a percent. The lemmas relate the two views and bound the
  rounding.
\<close>

type_synonym money = int

datatype decimal = Dec (coeff: int) (places: nat)

definition half_even :: "int \<Rightarrow> int \<Rightarrow> int" where
  "half_even n d =
     (let q = n div d; r = n mod d
      in if 2 * r < d then q
         else if 2 * r > d then q + 1
         else if even q then q else q + 1)"

definition dec_mul :: "decimal \<Rightarrow> decimal \<Rightarrow> decimal" where
  "dec_mul a b = Dec (coeff a * coeff b) (places a + places b)"

definition dec_div_100 :: "decimal \<Rightarrow> decimal" where
  "dec_div_100 a = Dec (coeff a) (places a + 2)"

definition quantize :: "nat \<Rightarrow> decimal \<Rightarrow> decimal" where
  "quantize k a =
     (if places a \<le> k then Dec (coeff a * 10 ^ (k - places a)) k
      else Dec (half_even (coeff a) (10 ^ (places a - k))) k)"

text \<open>\<open>decimal_to_paise\<close> of \<open>payments/services.py\<close>, and what it is on a stored amount.\<close>

definition decimal_to_paise :: "decimal \<Rightarrow> int" where
  "decimal_to_paise amount = coeff (quantize 0 (dec_mul amount (Dec 100 0)))"

definition amount_dec :: "money \<Rightarrow> decimal" where
  "amount_dec m = Dec m 2"

text \<open>\<open>(amount * percentage / Decimal("100.00")).quantize(Decimal("0.01"))\<close>\<close>

definition percent_of :: "money \<Rightarrow> int \<Rightarrow> money" where
  "percent_of amount pct = half_even (amount * pct) 10000"

text \<open>\<open>(amount / 2).quantize(Decimal("0.01"))\<close>\<close>

definition half_of :: "money \<Rightarrow> money" where
  "half_of amount = half_even amount 2"

text \<open>\<open>str\<close> of an amount with two decimal places.\<close>

definition money_str :: "money \<Rightarrow> string" where
  "money_str m =
     (if m < 0 then ''-'' else '''') @ nat_str (nat (\<bar>m\<bar> div 100)) @ ''.'' @
     pad_left 2 CHR ''0'' (nat_str (nat (\<bar>m\<bar> mod 100)))"

section \<open>Rounding half to even\<close>

lemma half_even_le:
  assumes "0 < d" and "n \<le> k * d"
  shows "half_even n d \<le> k"
proof -
  have n: "n = d * (n div d) + n mod d" and r: "0 \<le> n mod d" "n mod d < d"
    using assms(1) by simp_all
  show ?thesis
  proof (cases "n div d < k")
    case True
    then show ?thesis by (simp add: half_even_def Let_def)
  next
    case False
    then have "d * k \<le> d * (n div d)"
      using assms(1) by (simp add: mult_le_cancel_left)
    moreover have "k * d = d * k" by (rule mult.commute)
    ultimately have "n mod d = 0" and "d * (n div d) = d * k"
      using n r assms(2) by linarith+
    then show ?thesis using assms(1) by (simp add: half_even_def Let_def)
  qed
qed

lemma half_even_ge:
  assumes "0 < d" and "k * d \<le> n"
  shows "k \<le> half_even n d"
proof -
  have "k \<le> n div d"
    using assms by (metis div_mult_self_is_m less_int_code(1) less_irrefl nonzero_mult_div_cancel_right zdiv_mono1)
  then show ?thesis by (simp add: half_even_def Let_def)
qed

text \<open>The result is never further than half a unit from the exact quotient.\<close>

lemma half_even_error:
  assumes "0 < d"
  shows "2 * \<bar>half_even n d * d - n\<bar> \<le> d"
proof -
  have n: "(n div d) * d = n - n mod d"
    by (metis minus_mod_eq_div_mult)
  then have n1: "(n div d + 1) * d = n - n mod d + d"
    by (simp add: distrib_right)
  have r: "0 \<le> n mod d" "n mod d < d"
    using assms by simp_all
  show ?thesis
    by (simp add: half_even_def Let_def n n1) (use r in auto)
qed

lemma half_even_exact [simp]: "0 < d \<Longrightarrow> half_even (k * d) d = k"
  by (simp add: half_even_def)

lemma half_even_zero [simp]: "0 < d \<Longrightarrow> half_even 0 d = 0"
  by (simp add: half_even_def)

section \<open>Amounts\<close>

lemma percent_of_decimal:
  "quantize 2 (dec_div_100 (dec_mul (amount_dec m) (Dec pct 2))) = amount_dec (percent_of m pct)"
  by (simp add: quantize_def dec_div_100_def dec_mul_def amount_dec_def percent_of_def)

lemma decimal_to_paise_amount [simp, money_simps]: "decimal_to_paise (amount_dec m) = m"
  by (simp add: decimal_to_paise_def amount_dec_def dec_mul_def quantize_def)

lemma percent_of_bounds:
  assumes "0 \<le> m" and "0 \<le> pct" and "pct \<le> 10000"
  shows "0 \<le> percent_of m pct" and "percent_of m pct \<le> m"
proof -
  show "0 \<le> percent_of m pct"
    unfolding percent_of_def using assms by (intro half_even_ge) simp_all
  have "m * pct \<le> m * 10000"
    using assms by (intro mult_left_mono)
  then show "percent_of m pct \<le> m"
    unfolding percent_of_def by (intro half_even_le) simp_all
qed

lemma half_of_bounds: "0 \<le> m \<Longrightarrow> 0 \<le> half_of m" "0 \<le> m \<Longrightarrow> half_of m \<le> m"
  unfolding half_of_def by (intro half_even_ge; simp) (intro half_even_le; simp)

lemma half_of_split: "\<bar>half_of m - (m - half_of m)\<bar> \<le> 1"
  using half_even_error [of 2 m] by (simp add: half_of_def)

end
