(* ===== verification/Catalogue.thy ===== *)
theory Catalogue
  imports Accounts Decimals
begin

text \<open>
  The catalogue, \<open>apps/catalogue\<close>: categories, services with their prices and advance, packages of
  services. \<open>Model.save\<close> first runs \<open>full_clean\<close>, whose messages are collected in a dictionary; the
  administrator's serializers compute the advance amount from its type and value. Texts and images
  that no rule reads are left out of the rows.
\<close>

datatype advance_type = FIXED | PERCENTAGE

record category =
  ca_id :: nat
  ca_name :: string
  ca_slug :: string
  ca_order :: nat
  ca_active :: bool

text \<open>Amounts are in paise; the advance value is an amount, or a percentage in hundredths.\<close>

record service =
  sv_id :: nat
  sv_category :: nat
  sv_name :: string
  sv_slug :: string
  sv_base_price :: money
  sv_selling_price :: "money option"
  sv_advance_type :: advance_type
  sv_advance_value :: "int option"
  sv_advance_amount :: money
  sv_training_fee :: money
  sv_training_fee_per_unit :: bool
  sv_duration :: nat
  sv_featured :: bool
  sv_popular :: bool
  sv_active :: bool
  sv_order :: nat

record package =
  pk_id :: nat
  pk_name :: string
  pk_slug :: string
  pk_bundle_price :: money
  pk_valid_from :: "date option"
  pk_valid_until :: "date option"
  pk_usage_limit :: int
  pk_active :: bool

record package_item =
  pi_id :: nat
  pi_package :: nat
  pi_service :: nat
  pi_quantity :: int
  pi_order :: nat

record catalogue_db = accounts_db +
  categories :: "category list"
  services :: "service list"
  packages :: "package list"
  package_items :: "package_item list"

definition get_service :: "nat \<Rightarrow> 'x catalogue_db_scheme \<Rightarrow> service option" where
  "get_service k s = find_row sv_id k (services s)"

definition save_service_row :: "service \<Rightarrow> 'x catalogue_db_scheme \<Rightarrow> 'x catalogue_db_scheme" where
  "save_service_row v s = s\<lparr>services := save_row sv_id v (services s)\<rparr>"

definition insert_service_row :: "service \<Rightarrow> 'x catalogue_db_scheme \<Rightarrow> 'x catalogue_db_scheme" where
  "insert_service_row v s = s\<lparr>services := services s @ [v]\<rparr>"

interpretation service_table: row_table sv_id services get_service save_service_row insert_service_row
  by unfold_locales (simp_all add: get_service_def save_service_row_def insert_service_row_def)

definition get_category :: "nat \<Rightarrow> 'x catalogue_db_scheme \<Rightarrow> category option" where
  "get_category k s = find_row ca_id k (categories s)"

definition get_package :: "nat \<Rightarrow> 'x catalogue_db_scheme \<Rightarrow> package option" where
  "get_package k s = find_row pk_id k (packages s)"

section \<open>Services\<close>

definition effective_price :: "service \<Rightarrow> money" where
  "effective_price v = (case sv_selling_price v of None \<Rightarrow> sv_base_price v | Some p \<Rightarrow> p)"

definition add_error :: "bool \<Rightarrow> string \<Rightarrow> string \<Rightarrow> (string \<times> string) list \<Rightarrow> (string \<times> string) list" where
  "add_error c field msg errs = (if c then set_item field msg errs else errs)"

text \<open>\<open>Service.clean\<close>: the dictionary of messages; a later message replaces an earlier one.\<close>

definition service_clean :: "service \<Rightarrow> (string \<times> string) list" where
  "service_clean v =
     add_error (sv_advance_amount v > effective_price v)
       ''advance_amount'' ''Advance amount cannot exceed service price.''
     (add_error (sv_advance_type v = PERCENTAGE \<and>
                 (case sv_advance_value v of None \<Rightarrow> False | Some x \<Rightarrow> x > 10000))
       ''advance_payment_value'' ''Advance percentage cannot exceed 100.''
     (add_error (sv_training_fee v < 0) ''training_fee'' ''Training fee cannot be negative.''
     (add_error (case sv_advance_value v of None \<Rightarrow> False | Some x \<Rightarrow> x < 0)
       ''advance_payment_value'' ''Advance payment value cannot be negative.''
     (add_error (sv_advance_amount v < 0) ''advance_amount'' ''Advance amount cannot be negative.''
     (add_error (case sv_selling_price v of None \<Rightarrow> False | Some x \<Rightarrow> x < 0)
       ''selling_price'' ''Selling price cannot be negative.''
     (add_error (sv_base_price v < 0) ''base_price'' ''Base price cannot be negative.'' []))))))"

text \<open>\<open>full_clean\<close> also checks the unique slug, among the other rows.\<close>

definition service_full_clean :: "service \<Rightarrow> 'x catalogue_db_scheme \<Rightarrow> (string \<times> string) list" where
  "service_full_clean v s =
     add_error (list_ex (\<lambda>w. sv_slug w = sv_slug v \<and> sv_id w \<noteq> sv_id v) (services s))
       ''slug'' ''Service with this Slug already exists.'' (service_clean v)"

definition save_service :: "service \<Rightarrow> 'x catalogue_db_scheme \<Rightarrow> error + (service \<times> 'x catalogue_db_scheme)" where
  "save_service v s =
     (case service_full_clean v s of
        [] \<Rightarrow> Inr (v, if get_service (sv_id v) s = None then insert_service_row v s
                     else save_service_row v s)
      | errs \<Rightarrow> Inl (FieldErrors errs))"

text \<open>The fields an administrator sends; \<open>Some None\<close> clears a nullable one.\<close>

record service_attrs =
  at_category :: "nat option"
  at_name :: "string option"
  at_slug :: "string option"
  at_base_price :: "money option"
  at_selling_price :: "money option option"
  at_advance_type :: "advance_type option"
  at_advance_value :: "int option option"
  at_training_fee :: "money option"
  at_training_fee_per_unit :: "bool option"
  at_duration :: "nat option"
  at_featured :: "bool option"
  at_popular :: "bool option"
  at_active :: "bool option"
  at_order :: "nat option"

text \<open>
  What \<open>validate\<close> and \<open>_with_synced_advance\<close> both read: the price, the type and the value after the
  update. Without an instance the price may be missing, the type is \<open>FIXED\<close> and the value 0.
\<close>

definition attr_base_price :: "service option \<Rightarrow> service_attrs \<Rightarrow> money option" where
  "attr_base_price inst a =
     (case at_base_price a of Some p \<Rightarrow> Some p | None \<Rightarrow> map_option sv_base_price inst)"

definition attr_selling_price :: "service option \<Rightarrow> service_attrs \<Rightarrow> money option" where
  "attr_selling_price inst a =
     (case at_selling_price a of
        Some x \<Rightarrow> x
      | None \<Rightarrow> (case inst of None \<Rightarrow> None | Some v \<Rightarrow> sv_selling_price v))"

definition attr_price :: "service option \<Rightarrow> service_attrs \<Rightarrow> money option" where
  "attr_price inst a =
     (case attr_selling_price inst a of Some p \<Rightarrow> Some p | None \<Rightarrow> attr_base_price inst a)"

definition attr_advance_type :: "service option \<Rightarrow> service_attrs \<Rightarrow> advance_type" where
  "attr_advance_type inst a =
     (case at_advance_type a of
        Some t \<Rightarrow> t
      | None \<Rightarrow> (case inst of None \<Rightarrow> FIXED | Some v \<Rightarrow> sv_advance_type v))"

definition attr_advance_value :: "service option \<Rightarrow> service_attrs \<Rightarrow> int" where
  "attr_advance_value inst a =
     (let fallback = (case inst of None \<Rightarrow> 0 | Some v \<Rightarrow> sv_advance_amount v);
          value = (case at_advance_value a of
                     Some x \<Rightarrow> x
                   | None \<Rightarrow> (case inst of None \<Rightarrow> None | Some v \<Rightarrow> sv_advance_value v))
      in case value of None \<Rightarrow> fallback | Some x \<Rightarrow> x)"

definition validate_service_attrs :: "service option \<Rightarrow> service_attrs \<Rightarrow> error option" where
  "validate_service_attrs inst a =
     (let base = attr_base_price inst a; selling = attr_selling_price inst a;
          ty = attr_advance_type inst a; value = attr_advance_value inst a;
          price = attr_price inst a;
          fee = given (case inst of None \<Rightarrow> 0 | Some v \<Rightarrow> sv_training_fee v) (at_training_fee a)
      in if (case base of None \<Rightarrow> False | Some p \<Rightarrow> p < 0)
         then Some (FieldError ''base_price'' ''Base price cannot be negative.'')
         else if (case selling of None \<Rightarrow> False | Some p \<Rightarrow> p < 0)
         then Some (FieldError ''selling_price'' ''Selling price cannot be negative.'')
         else if value < 0
         then Some (FieldError ''advance_payment_value'' ''Advance payment value cannot be negative.'')
         else if fee < 0
         then Some (FieldError ''training_fee'' ''Training fee cannot be negative.'')
         else if ty = PERCENTAGE \<and> value > 10000
         then Some (FieldError ''advance_payment_value'' ''Advance percentage cannot exceed 100.'')
         else if ty = FIXED \<and> (case price of None \<Rightarrow> False | Some p \<Rightarrow> value > p)
         then Some (FieldError ''advance_payment_value'' ''Advance amount cannot exceed service price.'')
         else None)"

text \<open>\<open>_with_synced_advance\<close>: the advance amount and value that are written.\<close>

definition synced_advance :: "service option \<Rightarrow> service_attrs \<Rightarrow> error + (money \<times> int)" where
  "synced_advance inst a =
     (let value = attr_advance_value inst a in
      if attr_advance_type inst a = PERCENTAGE then
        (case attr_price inst a of
           None \<Rightarrow> Inl (TypeError ''unsupported operand type(s) for *: NoneType and Decimal'')
         | Some p \<Rightarrow> Inr (percent_of p value, value))
      else Inr (value, value))"

definition blank_service :: "nat \<Rightarrow> service" where
  "blank_service k =
     \<lparr>sv_id = k, sv_category = 0, sv_name = '''', sv_slug = '''', sv_base_price = 0,
      sv_selling_price = None, sv_advance_type = FIXED, sv_advance_value = None,
      sv_advance_amount = 0, sv_training_fee = 0, sv_training_fee_per_unit = False, sv_duration = 0,
      sv_featured = False, sv_popular = False, sv_active = True, sv_order = 0\<rparr>"

definition apply_attrs :: "service_attrs \<Rightarrow> money \<Rightarrow> int \<Rightarrow> service \<Rightarrow> service" where
  "apply_attrs a amount value v =
     v\<lparr>sv_category := given (sv_category v) (at_category a),
       sv_name := given (sv_name v) (at_name a),
       sv_slug := given (sv_slug v) (at_slug a),
       sv_base_price := given (sv_base_price v) (at_base_price a),
       sv_selling_price := given (sv_selling_price v) (at_selling_price a),
       sv_advance_type := given (sv_advance_type v) (at_advance_type a),
       sv_advance_value := Some value,
       sv_advance_amount := amount,
       sv_training_fee := given (sv_training_fee v) (at_training_fee a),
       sv_training_fee_per_unit := given (sv_training_fee_per_unit v) (at_training_fee_per_unit a),
       sv_duration := given (sv_duration v) (at_duration a),
       sv_featured := given (sv_featured v) (at_featured a),
       sv_popular := given (sv_popular v) (at_popular a),
       sv_active := given (sv_active v) (at_active a),
       sv_order := given (sv_order v) (at_order a)\<rparr>"

text \<open>
  Creating and updating through the serializer: the attributes are checked, the advance is computed
  and the model is saved. The serializer requires a base price on creation.
\<close>

definition create_service ::
  "service_attrs \<Rightarrow> 'x catalogue_db_scheme \<Rightarrow> error + (service \<times> 'x catalogue_db_scheme)" where
  "create_service a s =
     (if at_base_price a = None then Inl (FieldError ''base_price'' ''This field is required.'')
      else case validate_service_attrs None a of
        Some e \<Rightarrow> Inl e
      | None \<Rightarrow>
          (case synced_advance None a of
             Inl e \<Rightarrow> Inl e
           | Inr (amount, value) \<Rightarrow>
               save_service (apply_attrs a amount value (blank_service (new_id s))) (bump_id s)))"

definition update_service ::
  "nat \<Rightarrow> service_attrs \<Rightarrow> 'x catalogue_db_scheme \<Rightarrow> error + (service \<times> 'x catalogue_db_scheme)" where
  "update_service k a s =
     (case get_service k s of
        None \<Rightarrow> Inl (ErrorResponse 404 ''Not found.'')
      | Some v \<Rightarrow>
          (case validate_service_attrs (Some v) a of
             Some e \<Rightarrow> Inl e
           | None \<Rightarrow>
               (case synced_advance (Some v) a of
                  Inl e \<Rightarrow> Inl e
                | Inr (amount, value) \<Rightarrow> save_service (apply_attrs a amount value v) s)))"

section \<open>Packages\<close>

definition package_clean :: "package \<Rightarrow> (string \<times> string) list" where
  "package_clean p =
     add_error (case (pk_valid_from p, pk_valid_until p) of (Some a, Some b) \<Rightarrow> a > b | _ \<Rightarrow> False)
       ''valid_until'' ''Validity end date must be on or after the start date.''
     (add_error (pk_usage_limit p < 1) ''maximum_usage_limit'' ''Maximum usage limit must be at least 1.''
     (add_error (pk_bundle_price p < 0) ''bundle_price'' ''Bundle price cannot be negative.'' []))"

definition save_package :: "package \<Rightarrow> 'x catalogue_db_scheme \<Rightarrow> error + (package \<times> 'x catalogue_db_scheme)" where
  "save_package p s =
     (case add_error (list_ex (\<lambda>q. pk_slug q = pk_slug p \<and> pk_id q \<noteq> pk_id p) (packages s))
             ''slug'' ''Package with this Slug already exists.'' (package_clean p) of
        [] \<Rightarrow> Inr (p, s\<lparr>packages := (if get_package (pk_id p) s = None then packages s @ [p]
                                    else save_row pk_id p (packages s))\<rparr>)
      | errs \<Rightarrow> Inl (FieldErrors errs))"

text \<open>One \<open>PackageItem.objects.create\<close>: its \<open>clean\<close>, then the unique pair of package and service.\<close>

definition create_package_item ::
  "nat \<Rightarrow> nat \<times> int \<times> nat \<Rightarrow> 'x catalogue_db_scheme \<Rightarrow> error + 'x catalogue_db_scheme" where
  "create_package_item pk it s =
     (case it of (sv, qty, ord) \<Rightarrow>
        if qty < 1 then Inl (FieldErrors [(''quantity'', ''Quantity must be at least 1.'')])
        else if list_ex (\<lambda>i. pi_package i = pk \<and> pi_service i = sv) (package_items s)
        then Inl (FieldErrors [(''__all__'', ''Package item with this Package and Service already exists.'')])
        else Inr (bump_id (s\<lparr>package_items := package_items s @
                    [\<lparr>pi_id = new_id s, pi_package = pk, pi_service = sv, pi_quantity = qty, pi_order = ord\<rparr>]\<rparr>)))"

fun replace_items ::
  "nat \<Rightarrow> (nat \<times> int \<times> nat) list \<Rightarrow> 'x catalogue_db_scheme \<Rightarrow> error + 'x catalogue_db_scheme" where
  "replace_items pk [] s = Inr s"
| "replace_items pk (it # its) s =
     (case create_package_item pk it s of Inl e \<Rightarrow> Inl e | Inr s1 \<Rightarrow> replace_items pk its s1)"

text \<open>
  The serializer's checks. \<open>items\<close> is \<open>None\<close> when they were not sent; the dates are those after the
  update.
\<close>

definition validate_package ::
  "bool \<Rightarrow> package \<Rightarrow> (nat \<times> int \<times> nat) list option \<Rightarrow> error option" where
  "validate_package creating p items =
     (if list_ex (\<lambda>(sv, qty, ord). qty < 1) (case items of None \<Rightarrow> [] | Some xs \<Rightarrow> xs)
      then Some (FieldError ''quantity'' ''Quantity must be at least 1.'')
      else if pk_bundle_price p < 0 then Some (FieldError ''bundle_price'' ''Bundle price cannot be negative.'')
      else if pk_usage_limit p < 1
      then Some (FieldError ''maximum_usage_limit'' ''Maximum usage limit must be at least 1.'')
      else if (case (pk_valid_from p, pk_valid_until p) of (Some a, Some b) \<Rightarrow> a > b | _ \<Rightarrow> False)
      then Some (FieldError ''valid_until'' ''Validity end date must be on or after the start date.'')
      else if (creating \<or> items \<noteq> None) \<and> (items = None \<or> items = Some [])
      then Some (FieldError ''items'' ''At least one service is required.'')
      else if \<not> distinct (map fst (case items of None \<Rightarrow> [] | Some xs \<Rightarrow> xs))
      then Some (FieldError ''items'' ''Each service may appear only once per package.'')
      else None)"

definition create_package ::
  "package \<Rightarrow> (nat \<times> int \<times> nat) list option \<Rightarrow> 'x catalogue_db_scheme \<Rightarrow>
     error + (package \<times> 'x catalogue_db_scheme)" where
  "create_package data items s =
     (let p = data\<lparr>pk_id := new_id s\<rparr> in
      case validate_package True p items of
        Some e \<Rightarrow> Inl e
      | None \<Rightarrow>
          (case save_package p (bump_id s) of
             Inl e \<Rightarrow> Inl e
           | Inr (p2, s1) \<Rightarrow>
               (case replace_items (pk_id p2) (given [] items) s1 of
                  Inl e \<Rightarrow> Inl e
                | Inr s2 \<Rightarrow> Inr (p2, s2))))"

definition update_package ::
  "package \<Rightarrow> (nat \<times> int \<times> nat) list option \<Rightarrow> 'x catalogue_db_scheme \<Rightarrow>
     error + (package \<times> 'x catalogue_db_scheme)" where
  "update_package p items s =
     (if get_package (pk_id p) s = None then Inl (ErrorResponse 404 ''Not found.'')
      else case validate_package False p items of
        Some e \<Rightarrow> Inl e
      | None \<Rightarrow>
          (case save_package p s of
             Inl e \<Rightarrow> Inl e
           | Inr (p2, s1) \<Rightarrow>
               (case items of
                  None \<Rightarrow> Inr (p2, s1)
                | Some its \<Rightarrow>
                    let s2 = s1\<lparr>package_items := filter (\<lambda>i. pi_package i \<noteq> pk_id p2) (package_items s1)\<rparr> in
                    (case replace_items (pk_id p2) its s2 of
                       Inl e \<Rightarrow> Inl e
                     | Inr s3 \<Rightarrow> Inr (p2, s3)))))"

section \<open>Lemmas: what the checks of a service guarantee\<close>

lemma set_item_not_Nil [simp]: "set_item k v kvs \<noteq> []"
  by (cases kvs) (auto split: if_splits)

lemma add_error_Nil [simp]: "add_error c f m errs = [] \<longleftrightarrow> \<not> c \<and> errs = []"
  by (simp add: add_error_def)

definition sound_service :: "service \<Rightarrow> bool" where
  "sound_service v =
     (0 \<le> sv_base_price v \<and> 0 \<le> effective_price v \<and> 0 \<le> sv_training_fee v \<and>
      0 \<le> sv_advance_amount v \<and> sv_advance_amount v \<le> effective_price v \<and>
      (case sv_advance_value v of
         None \<Rightarrow> True
       | Some x \<Rightarrow> 0 \<le> x \<and> (sv_advance_type v = PERCENTAGE \<longrightarrow> x \<le> 10000)))"

lemma service_clean_sound: "service_clean v = [] \<Longrightarrow> sound_service v"
  by (auto simp: service_clean_def sound_service_def effective_price_def split: option.splits)

lemma save_service_sound:
  assumes "save_service v s = Inr (w, s')"
  shows "w = v \<and> sound_service v \<and>
         (list_all sound_service (services s) \<longrightarrow> list_all sound_service (services s')) \<and>
         get_service (sv_id v) s' = Some v"
proof -
  have v: "w = v" "service_full_clean v s = []"
    and s': "s' = (if get_service (sv_id v) s = None then insert_service_row v s else save_service_row v s)"
    using assms by (auto simp: save_service_def split: list.splits)
  then have sound: "sound_service v"
    by (intro service_clean_sound) (simp add: service_full_clean_def)
  have "list_all sound_service (services s')" if "list_all sound_service (services s)"
    using that sound s' by (auto simp: insert_service_row_def save_service_row_def save_row_def list_all_iff)
  moreover have "get_service (sv_id v) s' = Some v"
    using s' service_table.get_ins_new service_table.get_save_same by fastforce
  ultimately show ?thesis using v sound by blast
qed

section \<open>Properties\<close>

definition sample_service :: service where
  "sample_service =
     (blank_service 4)\<lparr>sv_category := 2, sv_name := ''Deep cleaning'', sv_slug := ''deep'', sv_base_price := 100000,
        sv_selling_price := Some 90000, sv_advance_type := PERCENTAGE, sv_advance_value := Some 2000,
        sv_advance_amount := 18000, sv_training_fee := 5000\<rparr>"

definition no_attrs :: service_attrs where
  "no_attrs =
     \<lparr>at_category = None, at_name = None, at_slug = None, at_base_price = None, at_selling_price = None,
      at_advance_type = None, at_advance_value = None, at_training_fee = None,
      at_training_fee_per_unit = None, at_duration = None, at_featured = None, at_popular = None,
      at_active = None, at_order = None\<rparr>"

definition sample_catalogue_db :: catalogue_db where
  "sample_catalogue_db =
     \<lparr>next_id = 100, audit_logs = [], on_commit = [], notifications = [], users = [],
      customer_profiles = [], otp_challenges = [], mfa_challenges = [], support_notes = [],
      categories = [\<lparr>ca_id = 2, ca_name = ''C'', ca_slug = ''c'', ca_order = 0, ca_active = True\<rparr>],
      services = [sample_service], packages = [], package_items = []\<rparr>"

text \<open>C35: The price list stays sound: a service written by the administration has no negative amount,
  an advance of at most its price and a percentage of at most 100, as have all the others after the
  write; its stored advance is the one its type and value say, and its value is never left empty.\<close>

theorem services_stay_sound:
  assumes "update_service k a s = Inr (v, s') \<or> create_service a s = Inr (v, s')"
    and "list_all sound_service (services s)"
  shows "list_all sound_service (services s') \<and> sound_service v \<and> get_service (sv_id v) s' = Some v \<and>
         (\<exists>x. sv_advance_value v = Some x \<and>
              sv_advance_amount v = (if sv_advance_type v = PERCENTAGE then percent_of (effective_price v) x else x))"
proof -
  obtain inst old am va t where
    written: "save_service (apply_attrs a am va old) t = Inr (v, s')"
    and t: "services t = services s" and adv: "synced_advance inst a = Inr (am, va)"
    and old: "(inst = Some old) \<or> (inst = None \<and> at_base_price a \<noteq> None \<and> (\<exists>i. old = blank_service i))"
    using assms(1)
    by (auto simp: update_service_def create_service_def bump_id_def split: if_splits option.splits sum.splits)
      fastforce+
  from save_service_sound [OF written] have v: "v = apply_attrs a am va old" and "sound_service v"
    and rest: "list_all sound_service (services s')" "get_service (sv_id v) s' = Some v"
    using assms(2) t by auto
  moreover have "sv_advance_value v = Some va"
    unfolding v by (simp add: apply_attrs_def)
  moreover have "sv_advance_amount v = (if sv_advance_type v = PERCENTAGE then percent_of (effective_price v) va else va)"
    using adv old unfolding v
    by (auto simp: synced_advance_def attr_advance_type_def attr_price_def attr_selling_price_def
        attr_base_price_def apply_attrs_def effective_price_def given_def blank_service_def Let_def
        split: if_splits option.splits)
  ultimately show ?thesis by blast
qed

theorem services_stay_sound_witness:
  "\<exists>v s'. update_service 4 (no_attrs\<lparr>at_selling_price := Some (Some 80000)\<rparr>) sample_catalogue_db = Inr (v, s') \<and>
          list_all sound_service (services s')"
proof -
  have "\<not> isl (update_service 4 (no_attrs\<lparr>at_selling_price := Some (Some 80000)\<rparr>) sample_catalogue_db)"
    by code_simp
  then obtain v s' where s': "update_service 4 (no_attrs\<lparr>at_selling_price := Some (Some 80000)\<rparr>) sample_catalogue_db
      = Inr (v, s')" by (blast dest: result_cases)
  have "list_all sound_service (services sample_catalogue_db)"
    by (simp add: sample_catalogue_db_def sample_service_def sound_service_def effective_price_def blank_service_def)
  with services_stay_sound [OF disjI1, OF s'] s' show ?thesis by blast
qed

end
