(* ===== verification/Locations.thy ===== *)
theory Locations
  imports Catalogue
begin

text \<open>
  Locations, \<open>apps/locations\<close>: the areas that are served, which services each offers, and the
  customers' addresses with at most one default each. Coordinates are in millionths of a degree.
\<close>

record service_area =
  ar_id :: nat
  ar_name :: string
  ar_city :: string
  ar_state :: string
  ar_country :: string
  ar_postal_code :: string
  ar_services :: "nat list"
  ar_services_configured :: bool
  ar_active :: bool

record address =
  ad_id :: nat
  ad_customer :: nat
  ad_label :: string
  ad_recipient_name :: string
  ad_phone :: string
  ad_line_1 :: string
  ad_line_2 :: string
  ad_landmark :: string
  ad_locality :: string
  ad_city :: string
  ad_state :: string
  ad_postal_code :: string
  ad_country :: string
  ad_latitude :: "int option"
  ad_longitude :: "int option"
  ad_default :: bool
  ad_active :: bool

record locations_db = catalogue_db +
  service_areas :: "service_area list"
  addresses :: "address list"

definition get_area :: "nat \<Rightarrow> 'x locations_db_scheme \<Rightarrow> service_area option" where
  "get_area k s = find_row ar_id k (service_areas s)"

definition get_address :: "nat \<Rightarrow> 'x locations_db_scheme \<Rightarrow> address option" where
  "get_address k s = find_row ad_id k (addresses s)"

definition save_address_row :: "address \<Rightarrow> 'x locations_db_scheme \<Rightarrow> 'x locations_db_scheme" where
  "save_address_row a s = s\<lparr>addresses := save_row ad_id a (addresses s)\<rparr>"

definition insert_address_row :: "address \<Rightarrow> 'x locations_db_scheme \<Rightarrow> 'x locations_db_scheme" where
  "insert_address_row a s = s\<lparr>addresses := addresses s @ [a]\<rparr>"

interpretation address_table: row_table ad_id addresses get_address save_address_row insert_address_row
  by unfold_locales (simp_all add: get_address_def save_address_row_def insert_address_row_def)

section \<open>Postal codes and areas\<close>

definition normalize_postal_code :: "string \<Rightarrow> string" where
  "normalize_postal_code x = upper_str (remove_spaces x)"

text \<open>The default ordering of areas: city, postal code, name; \<open>first()\<close> takes the least.\<close>

definition str_less :: "string \<Rightarrow> string \<Rightarrow> bool" where
  "str_less x y = ord_class.lexordp (map of_char x :: nat list) (map of_char y)"

definition area_before :: "service_area \<Rightarrow> service_area \<Rightarrow> bool" where
  "area_before a b =
     (str_less (ar_city a) (ar_city b) \<or>
      (ar_city a = ar_city b \<and>
       (str_less (ar_postal_code a) (ar_postal_code b) \<or>
        (ar_postal_code a = ar_postal_code b \<and> str_less (ar_name a) (ar_name b)))))"

fun least_area :: "service_area list \<Rightarrow> service_area option" where
  "least_area [] = None"
| "least_area (a # as) =
     (case least_area as of None \<Rightarrow> Some a | Some b \<Rightarrow> if area_before b a then Some b else Some a)"

definition get_active_service_area :: "string \<Rightarrow> 'x locations_db_scheme \<Rightarrow> service_area option" where
  "get_active_service_area postal s =
     (let normalized = normalize_postal_code postal in
      least_area (filter (\<lambda>a. ar_postal_code a = normalized \<and> ar_active a) (service_areas s)))"

definition supports_service :: "service_area \<Rightarrow> service \<Rightarrow> bool" where
  "supports_service a v = (\<not> ar_services_configured a \<or> sv_id v \<in> set (ar_services a))"

text \<open>\<open>ServiceArea.save\<close>: the postal code is normalised and is unique within the country.\<close>

definition save_area :: "service_area \<Rightarrow> 'x locations_db_scheme \<Rightarrow> error + (service_area \<times> 'x locations_db_scheme)" where
  "save_area a s =
     (let a2 = a\<lparr>ar_postal_code := normalize_postal_code (ar_postal_code a)\<rparr> in
      if list_ex (\<lambda>b. ar_country b = ar_country a2 \<and> ar_postal_code b = ar_postal_code a2 \<and> ar_id b \<noteq> ar_id a2)
           (service_areas s)
      then Inl (FieldErrors [(''__all__'', ''Constraint unique_service_area_postal_code is violated.'')])
      else Inr (a2, s\<lparr>service_areas := (if get_area (ar_id a2) s = None then service_areas s @ [a2]
                                         else save_row ar_id a2 (service_areas s))\<rparr>))"

definition validate_postal_code :: "string \<Rightarrow> error + string" where
  "validate_postal_code x =
     (let n = normalize_postal_code x in
      if n = '''' then Inl (FieldError ''postal_code'' ''Postal code is required.'') else Inr n)"

text \<open>Without a selection a new area offers every active service and counts as not configured.\<close>

definition create_area ::
  "service_area \<Rightarrow> nat list option \<Rightarrow> 'x locations_db_scheme \<Rightarrow> error + (service_area \<times> 'x locations_db_scheme)" where
  "create_area data selected s =
     (case validate_postal_code (ar_postal_code data) of
        Inl e \<Rightarrow> Inl e
      | Inr code \<Rightarrow>
          save_area (data\<lparr>ar_id := new_id s, ar_postal_code := code,
                          ar_services_configured := (selected \<noteq> None),
                          ar_services := given (map sv_id (filter sv_active (services s))) selected\<rparr>)
            (bump_id s))"

definition update_area ::
  "service_area \<Rightarrow> nat list option \<Rightarrow> 'x locations_db_scheme \<Rightarrow> error + (service_area \<times> 'x locations_db_scheme)" where
  "update_area data selected s =
     (case get_area (ar_id data) s of
        None \<Rightarrow> Inl (ErrorResponse 404 ''Not found.'')
      | Some old \<Rightarrow>
          (case validate_postal_code (ar_postal_code data) of
             Inl e \<Rightarrow> Inl e
           | Inr code \<Rightarrow>
               save_area (data\<lparr>ar_postal_code := code,
                               ar_services_configured := (selected \<noteq> None \<or> ar_services_configured old),
                               ar_services := given (ar_services old) selected\<rparr>) s))"

definition destroy_area :: "nat \<Rightarrow> 'x locations_db_scheme \<Rightarrow> error + (service_area \<times> 'x locations_db_scheme)" where
  "destroy_area k s =
     (case get_area k s of
        None \<Rightarrow> Inl (ErrorResponse 404 ''Not found.'')
      | Some a \<Rightarrow> save_area (a\<lparr>ar_active := False\<rparr>) s)"

text \<open>The public check answers with the normalised code and the area, if it is served.\<close>

definition check_service_area :: "string \<Rightarrow> 'x locations_db_scheme \<Rightarrow> error + (string \<times> service_area option)" where
  "check_service_area postal s =
     (let code = normalize_postal_code postal in
      if code = '''' then Inl (ErrorResponse 400 ''postal_code is required.'')
      else Inr (code, get_active_service_area code s))"

section \<open>Addresses\<close>

definition address_clean :: "address \<Rightarrow> (string \<times> string) list" where
  "address_clean a =
     add_error (case ad_longitude a of None \<Rightarrow> False | Some x \<Rightarrow> x < - 180000000 \<or> x > 180000000)
       ''longitude'' ''Longitude must be between -180 and 180.''
     (add_error (case ad_latitude a of None \<Rightarrow> False | Some x \<Rightarrow> x < - 90000000 \<or> x > 90000000)
       ''latitude'' ''Latitude must be between -90 and 90.'' [])"

definition save_address :: "address \<Rightarrow> 'x locations_db_scheme \<Rightarrow> error + (address \<times> 'x locations_db_scheme)" where
  "save_address a s =
     (let a2 = a\<lparr>ad_postal_code := normalize_postal_code (ad_postal_code a)\<rparr> in
      case address_clean a2 of
        [] \<Rightarrow> Inr (a2, if get_address (ad_id a2) s = None then insert_address_row a2 s
                      else save_address_row a2 s)
      | errs \<Rightarrow> Inl (FieldErrors errs))"

definition enforce_single_default :: "address \<Rightarrow> 'x locations_db_scheme \<Rightarrow> 'x locations_db_scheme" where
  "enforce_single_default a s =
     (if \<not> ad_default a then s
      else s\<lparr>addresses := map (\<lambda>b. if ad_customer b = ad_customer a \<and> ad_default b \<and> ad_id b \<noteq> ad_id a
                                   then b\<lparr>ad_default := False\<rparr> else b) (addresses s)\<rparr>)"

definition create_address ::
  "nat \<Rightarrow> address \<Rightarrow> 'x locations_db_scheme \<Rightarrow> error + (address \<times> 'x locations_db_scheme)" where
  "create_address customer data s =
     (case validate_postal_code (ad_postal_code data) of
        Inl e \<Rightarrow> Inl e
      | Inr code \<Rightarrow>
          (case save_address (data\<lparr>ad_id := new_id s, ad_customer := customer, ad_postal_code := code,
                                   ad_active := True\<rparr>) (bump_id s) of
             Inl e \<Rightarrow> Inl e
           | Inr (a, s1) \<Rightarrow> Inr (a, enforce_single_default a s1)))"

text \<open>
  The update gets the row with the sent fields in it. Only the customer's own active addresses are
  found, and the owner and the active flag are not among the fields.
\<close>

definition update_address ::
  "nat \<Rightarrow> address \<Rightarrow> 'x locations_db_scheme \<Rightarrow> error + (address \<times> 'x locations_db_scheme)" where
  "update_address customer data s =
     (case get_address (ad_id data) s of
        None \<Rightarrow> Inl (ErrorResponse 404 ''Not found.'')
      | Some old \<Rightarrow>
          if ad_customer old \<noteq> customer \<or> \<not> ad_active old then Inl (ErrorResponse 404 ''Not found.'')
          else (case validate_postal_code (ad_postal_code data) of
                  Inl e \<Rightarrow> Inl e
                | Inr code \<Rightarrow>
                    (case save_address (data\<lparr>ad_customer := ad_customer old, ad_active := ad_active old,
                                             ad_postal_code := code\<rparr>) s of
                       Inl e \<Rightarrow> Inl e
                     | Inr (a, s1) \<Rightarrow> Inr (a, enforce_single_default a s1))))"

definition destroy_address ::
  "nat \<Rightarrow> nat \<Rightarrow> 'x locations_db_scheme \<Rightarrow> error + (address \<times> 'x locations_db_scheme)" where
  "destroy_address customer k s =
     (case get_address k s of
        None \<Rightarrow> Inl (ErrorResponse 404 ''Not found.'')
      | Some old \<Rightarrow>
          if ad_customer old \<noteq> customer \<or> \<not> ad_active old then Inl (ErrorResponse 404 ''Not found.'')
          else save_address (old\<lparr>ad_active := False, ad_default := False\<rparr>) s)"

section \<open>Lemmas: postal codes\<close>

lemma upper_char_idem [simp]: "upper_char (upper_char c) = upper_char c"
  by (auto simp: upper_char_def Let_def)

lemma is_space_upper_char [simp]: "is_space (upper_char c) = is_space c"
  by (auto simp: upper_char_def is_space_def Let_def)

lemma normalize_postal_code_idem [simp]:
  "normalize_postal_code (normalize_postal_code x) = normalize_postal_code x"
  by (simp add: normalize_postal_code_def upper_str_def remove_spaces_def filter_map o_def)

lemma least_area_in: "least_area as = Some a \<Longrightarrow> a \<in> set as"
  by (induction as arbitrary: a) (auto split: option.splits if_splits)

lemma get_active_service_areaD:
  "get_active_service_area postal s = Some a \<Longrightarrow>
     a \<in> set (service_areas s) \<and> ar_active a \<and> ar_postal_code a = normalize_postal_code postal"
  by (auto simp: get_active_service_area_def Let_def dest!: least_area_in)

text \<open>Areas have normal postal codes, one area for each code of a country.\<close>

definition area_place :: "service_area \<Rightarrow> string \<times> string" where
  "area_place a = (ar_country a, ar_postal_code a)"

definition areas_ok :: "'x locations_db_scheme \<Rightarrow> bool" where
  "areas_ok s =
     (distinct (map area_place (service_areas s)) \<and> unique_rows ar_id (service_areas s) \<and>
      list_all (\<lambda>a. normalize_postal_code (ar_postal_code a) = ar_postal_code a) (service_areas s))"

lemma save_area_ok:
  assumes "save_area a s = Inr (b, s')" and "areas_ok s"
  shows "areas_ok s' \<and> b \<in> set (service_areas s') \<and> ar_id b = ar_id a"
proof -
  let ?b = "a\<lparr>ar_postal_code := normalize_postal_code (ar_postal_code a)\<rparr>"
  have b: "b = ?b" and free: "\<forall>x\<in>set (service_areas s). ar_id x \<noteq> ar_id ?b \<longrightarrow> area_place x \<noteq> area_place ?b"
    and s': "service_areas s' = (if get_area (ar_id ?b) s = None then service_areas s @ [?b]
                                 else save_row ar_id ?b (service_areas s))"
    using assms(1) by (auto simp: save_area_def Let_def list_ex_iff area_place_def split: if_splits)
  show ?thesis
  proof (cases "get_area (ar_id ?b) s")
    case None
    then have "ar_id ?b \<notin> ar_id ` set (service_areas s)"
      unfolding get_area_def by (simp only: find_row_None_iff) simp
    moreover from this free have "area_place x \<noteq> area_place ?b" if "x \<in> set (service_areas s)" for x
      using that by (cases "ar_id x = ar_id ?b") (auto simp: image_iff)
    ultimately show ?thesis
      using None assms(2) s' b by (fastforce simp: areas_ok_def)
  next
    case (Some old)
    then have "old \<in> set (service_areas s) \<and> ar_id old = ar_id ?b"
      unfolding get_area_def by (rule find_row_SomeD)
    moreover have "distinct (map area_place (save_row ar_id ?b (service_areas s)))"
      using assms(2) free by (intro distinct_save_row) (auto simp: areas_ok_def)
    ultimately show ?thesis
      using Some assms(2) s' b by (auto simp: areas_ok_def list_all_iff in_set_save_row image_iff intro: bexI [of _ old])
  qed
qed

text \<open>A customer has at most one default address.\<close>

definition single_default :: "address list \<Rightarrow> bool" where
  "single_default as =
     list_all (\<lambda>a. list_all (\<lambda>b. ad_default a \<and> ad_default b \<and> ad_customer a = ad_customer b \<longrightarrow>
                                  ad_id a = ad_id b) as) as"

definition addresses_ok :: "'x locations_db_scheme \<Rightarrow> bool" where
  "addresses_ok s =
     (unique_rows ad_id (addresses s) \<and> list_all (\<lambda>a. ad_id a < next_id s) (addresses s) \<and>
      single_default (addresses s))"

lemma save_address_Inr:
  assumes "save_address a s = Inr (b, s')"
  shows "ad_id b = ad_id a \<and> ad_customer b = ad_customer a \<and> ad_default b = ad_default a \<and>
         next_id s' = next_id s \<and>
         addresses s' = (if get_address (ad_id a) s = None then addresses s @ [b] else save_row ad_id b (addresses s))"
  using assms
  by (auto simp: save_address_def Let_def insert_address_row_def save_address_row_def split: list.splits if_splits)

text \<open>Saving a row and then enforcing the single default restores the invariant.\<close>

lemma save_and_enforce_ok:
  assumes saved: "save_address a s = Inr (b, s1)" and ok: "addresses_ok s" and bound: "ad_id a < next_id s"
    and old: "\<And>x. x \<in> set (addresses s) \<Longrightarrow> ad_id x = ad_id a \<Longrightarrow> ad_customer x = ad_customer a"
  shows "addresses_ok (enforce_single_default b s1)"
proof -
  note b = save_address_Inr [OF saved]
  have uniq: "unique_rows ad_id (addresses s1)"
    using b ok by (auto simp: addresses_ok_def get_address_def find_row_None_iff image_iff)
  have bounds: "list_all (\<lambda>a. ad_id a < next_id s1) (addresses s1)"
    using b ok bound by (auto simp: addresses_ok_def list_all_iff in_set_save_row)
  have rows: "x = b \<or> (x \<in> set (addresses s) \<and> ad_id x \<noteq> ad_id b)" if "x \<in> set (addresses s1)" for x
    using that b by (auto simp: in_set_save_row get_address_def find_row_None_iff image_iff split: if_splits)
  let ?g = "\<lambda>x. if ad_customer x = ad_customer b \<and> ad_default x \<and> ad_id x \<noteq> ad_id b then x\<lparr>ad_default := False\<rparr> else x"
  show ?thesis
  proof (cases "ad_default b")
    case False
    have "single_default (addresses s1)"
      using ok False rows unfolding single_default_def addresses_ok_def list_all_iff by blast
    with False uniq bounds show ?thesis by (simp add: enforce_single_default_def addresses_ok_def)
  next
    case True
    have "single_default (map ?g (addresses s1))"
      using ok rows unfolding single_default_def addresses_ok_def list_all_iff
      by (auto split: if_splits) metis+
    moreover have "unique_rows ad_id (map ?g (addresses s1))"
      using uniq by (simp add: unique_rows_def o_def if_distrib [of ad_id] cong: if_cong)
    moreover have "list_all (\<lambda>a. ad_id a < next_id s1) (map ?g (addresses s1))"
      using bounds by (auto simp: list_all_iff)
    ultimately show ?thesis using True by (simp add: enforce_single_default_def addresses_ok_def)
  qed
qed

section \<open>Properties\<close>

definition sample_address :: "nat \<Rightarrow> bool \<Rightarrow> address" where
  "sample_address k d =
     \<lparr>ad_id = k, ad_customer = 1, ad_label = ''Home'', ad_recipient_name = ''A'', ad_phone = ''+919876543210'',
      ad_line_1 = ''1 Road'', ad_line_2 = '''', ad_landmark = '''', ad_locality = '''', ad_city = ''Pune'',
      ad_state = ''MH'', ad_postal_code = ''411001'', ad_country = ''India'', ad_latitude = None,
      ad_longitude = None, ad_default = d, ad_active = True\<rparr>"

definition sample_area :: service_area where
  "sample_area =
     \<lparr>ar_id = 3, ar_name = ''Centre'', ar_city = ''Pune'', ar_state = ''MH'', ar_country = ''India'',
      ar_postal_code = ''411001'', ar_services = [], ar_services_configured = False, ar_active = True\<rparr>"

definition sample_locations_db :: locations_db where
  "sample_locations_db = catalogue_db.extend sample_catalogue_db
     \<lparr>service_areas = [sample_area], addresses = [sample_address 11 True, sample_address 12 False]\<rparr>"

text \<open>C34: Whatever the customers do with their addresses, no customer has two default addresses:
  adding, changing and removing an address each keep this, together with the uniqueness of the keys.\<close>

theorem single_default_address:
  assumes "addresses_ok s"
    and "create_address customer data s = Inr (a, s') \<or> update_address customer data s = Inr (a, s') \<or>
         destroy_address customer k s = Inr (a, s')"
  shows "addresses_ok s'"
  using assms(2)
proof (elim disjE)
  assume "create_address customer data s = Inr (a, s')"
  then obtain code s1 where saved: "save_address (data\<lparr>ad_id := new_id s, ad_customer := customer,
      ad_postal_code := code, ad_active := True\<rparr>) (bump_id s) = Inr (a, s1)"
    and s': "s' = enforce_single_default a s1"
    by (auto simp: create_address_def split: sum.splits)
  have "addresses_ok (bump_id s)"
    using assms(1) by (auto simp: addresses_ok_def bump_id_def list_all_iff)
  with saved show ?thesis unfolding s'
    by (rule save_and_enforce_ok) (use assms(1) in \<open>auto simp: addresses_ok_def new_id_def bump_id_def list_all_iff\<close>)
next
  assume "update_address customer data s = Inr (a, s')"
  then obtain old code s1 where old: "get_address (ad_id data) s = Some old"
    and saved: "save_address (data\<lparr>ad_customer := ad_customer old, ad_active := ad_active old,
      ad_postal_code := code\<rparr>) s = Inr (a, s1)" and s': "s' = enforce_single_default a s1"
    by (auto simp: update_address_def split: sum.splits option.splits if_splits)
  note in_rows = address_table.get_in_rows [OF old]
  from saved assms(1) show ?thesis unfolding s'
    by (rule save_and_enforce_ok)
      (use in_rows assms(1) address_table.get_of_row old in \<open>fastforce simp: addresses_ok_def list_all_iff\<close>)+
next
  assume "destroy_address customer k s = Inr (a, s')"
  then obtain old where old: "get_address k s = Some old"
    and saved: "save_address (old\<lparr>ad_active := False, ad_default := False\<rparr>) s = Inr (a, s')"
    by (auto simp: destroy_address_def split: option.splits if_splits)
  note in_rows = address_table.get_in_rows [OF old]
  from saved assms(1) have "addresses_ok (enforce_single_default a s')"
    by (rule save_and_enforce_ok)
      (use in_rows assms(1) address_table.get_of_row old in \<open>fastforce simp: addresses_ok_def list_all_iff\<close>)+
  moreover have "\<not> ad_default a" using save_address_Inr [OF saved] by simp
  ultimately show ?thesis by (simp add: enforce_single_default_def)
qed

theorem single_default_address_witness:
  "\<exists>a s'. update_address 1 (sample_address 12 True) sample_locations_db = Inr (a, s') \<and> addresses_ok s'"
proof -
  have "\<not> isl (update_address 1 (sample_address 12 True) sample_locations_db)"
    by code_simp
  then obtain a s' where s': "update_address 1 (sample_address 12 True) sample_locations_db = Inr (a, s')"
    by (blast dest: result_cases)
  have "addresses_ok sample_locations_db" by code_simp
  from single_default_address [OF this, of 1 "sample_address 12 True" a s' 0] s' show ?thesis by blast
qed

text \<open>The areas that are served have postal codes in normal form, and one area for each code of a
  country: creating, changing and switching off an area keep this, so a lookup with any spelling of a
  code finds only the active area with the normal form of that code.\<close>

theorem service_areas_stay_canonical:
  assumes "areas_ok s" and "list_all (\<lambda>x. ar_id x < next_id s) (service_areas s)"
    and "create_area data sel s = Inr (a, s') \<or> update_area data sel s = Inr (a, s') \<or> destroy_area k s = Inr (a, s')"
  shows "areas_ok s' \<and>
         (\<forall>code b. get_active_service_area code s' = Some b \<longrightarrow>
            b \<in> set (service_areas s') \<and> ar_active b \<and> ar_postal_code b = normalize_postal_code code) \<and>
         get_active_service_area (normalize_postal_code code) s' = get_active_service_area code s'"
proof -
  have "areas_ok (bump_id s)"
    using assms(1) by (simp add: areas_ok_def bump_id_def)
  with assms have "areas_ok s'"
    by (auto simp: create_area_def update_area_def destroy_area_def dest: save_area_ok
        split: sum.splits option.splits)
  moreover have "get_active_service_area (normalize_postal_code code) s' = get_active_service_area code s'"
    by (simp add: get_active_service_area_def)
  ultimately show ?thesis using get_active_service_areaD by blast
qed

theorem service_areas_stay_canonical_witness:
  "\<exists>a s'. destroy_area 3 sample_locations_db = Inr (a, s') \<and> areas_ok s'"
proof -
  have "\<not> isl (destroy_area 3 sample_locations_db)" by code_simp
  then obtain a s' where s': "destroy_area 3 sample_locations_db = Inr (a, s')"
    by (blast dest: result_cases)
  have "areas_ok sample_locations_db" "list_all (\<lambda>x. ar_id x < next_id sample_locations_db) (service_areas sample_locations_db)"
    by code_simp+
  from service_areas_stay_canonical [OF this, of sample_area None a s' 3] s' show ?thesis by blast
qed

end
