(* ===== verification/Booking_Model.thy ===== *)
theory Booking_Model
  imports Locations
begin

text \<open>
  The tables of \<open>apps/bookings/models.py\<close>: bookings, the history of their status, cart items, the
  serial numbers of a month and the stored checkout requests.
\<close>

datatype booking_status =
    BS_PENDING_PAYMENT | BS_PAYMENT_FAILED | BS_CONFIRMED | BS_TECHNICIAN_ASSIGNED
  | BS_TECHNICIAN_EN_ROUTE | BS_IN_PROGRESS | BS_COMPLETED | BS_CLOSED | BS_CANCELLED
  | BS_REFUND_PENDING | BS_REFUNDED

datatype payment_status = PS_UNPAID | PS_PARTIALLY_PAID | PS_PAID | PS_FAILED | PS_REFUNDED

record booking =
  b_id :: nat
  b_number :: string
  b_customer :: nat
  b_service :: nat
  b_address :: nat
  b_address_snapshot :: json
  b_service_date :: date
  b_slot :: nat
  b_problem :: string
  b_contact_phone :: string
  b_quantity :: nat
  b_subtotal :: money
  b_discount :: money
  b_training_fee :: money
  b_tax :: money
  b_total :: money
  b_advance_required :: money
  b_advance_paid :: money
  b_balance_due :: money
  b_balance_collected :: money
  b_status :: booking_status
  b_payment_status :: payment_status
  b_technician :: "nat option"
  b_customer_notes :: string
  b_admin_notes :: string
  b_confirmed_at :: "timestamp option"
  b_completed_at :: "timestamp option"
  b_cancelled_at :: "timestamp option"
  b_manual :: bool

text \<open>A history row; \<open>h_from\<close> is \<open>None\<close> for the blank first status.\<close>

record booking_history =
  h_id :: nat
  h_booking :: nat
  h_from :: "booking_status option"
  h_to :: booking_status
  h_changed_by :: "nat option"
  h_notes :: string

record cart_item =
  ci_id :: nat
  ci_customer :: nat
  ci_service :: nat
  ci_quantity :: nat
  ci_booking :: "nat option"
  ci_created_at :: timestamp

record checkout_request =
  cr_id :: nat
  cr_customer :: nat
  cr_key :: string
  cr_fingerprint :: string
  cr_bookings :: "nat list"
  cr_completed_at :: "timestamp option"

record number_sequence =
  ns_period :: string
  ns_serial :: nat

record bookings_db = locations_db +
  bookings :: "booking list"
  booking_histories :: "booking_history list"
  cart_items :: "cart_item list"
  checkout_requests :: "checkout_request list"
  number_sequences :: "number_sequence list"

definition get_booking :: "nat \<Rightarrow> 'x bookings_db_scheme \<Rightarrow> booking option" where
  "get_booking k s = find_row b_id k (bookings s)"

definition save_booking :: "booking \<Rightarrow> 'x bookings_db_scheme \<Rightarrow> 'x bookings_db_scheme" where
  "save_booking b s = s\<lparr>bookings := save_row b_id b (bookings s)\<rparr>"

definition insert_booking :: "booking \<Rightarrow> 'x bookings_db_scheme \<Rightarrow> 'x bookings_db_scheme" where
  "insert_booking b s = s\<lparr>bookings := bookings s @ [b]\<rparr>"

interpretation booking_table: row_table b_id bookings get_booking save_booking insert_booking
  by unfold_locales (simp_all add: get_booking_def save_booking_def insert_booking_def)

text \<open>\<open>BookingStatusHistory.objects.create\<close>\<close>

definition write_status_history ::
  "nat \<Rightarrow> booking_status option \<Rightarrow> booking_status \<Rightarrow> nat option \<Rightarrow> string \<Rightarrow>
     'x bookings_db_scheme \<Rightarrow> 'x bookings_db_scheme" where
  "write_status_history k from_status to_status changed_by notes s =
     bump_id (s\<lparr>booking_histories := booking_histories s @
       [\<lparr>h_id = new_id s, h_booking = k, h_from = from_status, h_to = to_status,
         h_changed_by = changed_by, h_notes = notes\<rparr>]\<rparr>)"

definition history_of :: "nat \<Rightarrow> 'x bookings_db_scheme \<Rightarrow> booking_history list" where
  "history_of k s = filter (\<lambda>h. h_booking h = k) (booking_histories s)"

text \<open>What a notification about a booking captures of it.\<close>

definition booking_ref :: "booking \<Rightarrow> (nat \<times> string) option" where
  "booking_ref b = Some (b_id b, b_number b)"

fun status_str :: "booking_status \<Rightarrow> string" where
  "status_str BS_PENDING_PAYMENT = ''PENDING_PAYMENT''"
| "status_str BS_PAYMENT_FAILED = ''PAYMENT_FAILED''"
| "status_str BS_CONFIRMED = ''CONFIRMED''"
| "status_str BS_TECHNICIAN_ASSIGNED = ''TECHNICIAN_ASSIGNED''"
| "status_str BS_TECHNICIAN_EN_ROUTE = ''TECHNICIAN_EN_ROUTE''"
| "status_str BS_IN_PROGRESS = ''IN_PROGRESS''"
| "status_str BS_COMPLETED = ''COMPLETED''"
| "status_str BS_CLOSED = ''CLOSED''"
| "status_str BS_CANCELLED = ''CANCELLED''"
| "status_str BS_REFUND_PENDING = ''REFUND_PENDING''"
| "status_str BS_REFUNDED = ''REFUNDED''"

end
