(* ===== verification/Scheduling.thy ===== *)
theory Scheduling
  imports Booking_Model
begin

text \<open>
  Scheduling, \<open>apps/scheduling\<close>: the slots of an area, closures, and the capacity of a slot, which is
  used up by the bookings in it that are still open.
\<close>

record time_slot =
  sl_id :: nat
  sl_area :: nat
  sl_date :: date
  sl_start :: time_of_day
  sl_end :: time_of_day
  sl_capacity :: nat
  sl_active :: bool

datatype closure_type = HOLIDAY | BLACKOUT | EMERGENCY

text \<open>A closure without an area closes all of them.\<close>

record closure =
  cl_id :: nat
  cl_area :: "nat option"
  cl_type :: closure_type
  cl_start :: date
  cl_end :: date
  cl_reason :: string
  cl_active :: bool

record scheduling_db = bookings_db +
  time_slots :: "time_slot list"
  closures :: "closure list"

definition get_slot :: "nat \<Rightarrow> 'x scheduling_db_scheme \<Rightarrow> time_slot option" where
  "get_slot k s = find_row sl_id k (time_slots s)"

definition save_slot_row :: "time_slot \<Rightarrow> 'x scheduling_db_scheme \<Rightarrow> 'x scheduling_db_scheme" where
  "save_slot_row sl s = s\<lparr>time_slots := save_row sl_id sl (time_slots s)\<rparr>"

definition insert_slot_row :: "time_slot \<Rightarrow> 'x scheduling_db_scheme \<Rightarrow> 'x scheduling_db_scheme" where
  "insert_slot_row sl s = s\<lparr>time_slots := time_slots s @ [sl]\<rparr>"

interpretation slot_table: row_table sl_id time_slots get_slot save_slot_row insert_slot_row
  by unfold_locales (simp_all add: get_slot_def save_slot_row_def insert_slot_row_def)

section \<open>Closures and slots\<close>

definition is_service_area_closed :: "nat \<Rightarrow> date \<Rightarrow> 'x scheduling_db_scheme \<Rightarrow> bool" where
  "is_service_area_closed area d s =
     list_ex (\<lambda>c. cl_active c \<and> cl_start c \<le> d \<and> d \<le> cl_end c \<and>
                  (cl_area c = None \<or> cl_area c = Some area)) (closures s)"

definition save_closure :: "closure \<Rightarrow> 'x scheduling_db_scheme \<Rightarrow> error + (closure \<times> 'x scheduling_db_scheme)" where
  "save_closure c s =
     (if cl_start c > cl_end c
      then Inl (FieldErrors [(''end_date'', ''End date must be on or after the start date.'')])
      else Inr (c, s\<lparr>closures := (if find_row cl_id (cl_id c) (closures s) = None then closures s @ [c]
                                   else save_row cl_id c (closures s))\<rparr>))"

definition is_slot_expired :: "timestamp \<Rightarrow> time_slot \<Rightarrow> bool" where
  "is_slot_expired now sl =
     (sl_date sl < localdate now \<or> (sl_date sl = localdate now \<and> sl_start sl \<le> localtime now))"

definition slot_clean :: "time_slot \<Rightarrow> (string \<times> string) list" where
  "slot_clean sl =
     add_error (sl_start sl \<ge> sl_end sl) ''end_time'' ''End time must be after start time.''
     (add_error (sl_capacity sl = 0) ''capacity'' ''Capacity must be greater than zero.'' [])"

definition save_slot :: "time_slot \<Rightarrow> 'x scheduling_db_scheme \<Rightarrow> error + (time_slot \<times> 'x scheduling_db_scheme)" where
  "save_slot sl s =
     (case slot_clean sl of
        [] \<Rightarrow>
          if list_ex (\<lambda>x. sl_area x = sl_area sl \<and> sl_date x = sl_date sl \<and> sl_start x = sl_start sl \<and>
                          sl_end x = sl_end sl \<and> sl_id x \<noteq> sl_id sl) (time_slots s)
          then Inl (FieldErrors [(''__all__'', ''Constraint unique_service_area_slot_time is violated.'')])
          else Inr (sl, if get_slot (sl_id sl) s = None then insert_slot_row sl s else save_slot_row sl s)
      | errs \<Rightarrow> Inl (FieldErrors errs))"

definition daily_windows :: "(int \<times> int) list" where
  "daily_windows = [(8, 10), (10, 12), (12, 14), (14, 16), (16, 18), (18, 20)]"

definition daily_capacity :: nat where
  "daily_capacity = 20"

definition daily_slot :: "nat \<Rightarrow> date \<Rightarrow> int \<times> int \<Rightarrow> nat \<Rightarrow> time_slot" where
  "daily_slot area d w k =
     \<lparr>sl_id = k, sl_area = area, sl_date = d, sl_start = fst w * hour_us, sl_end = snd w * hour_us,
      sl_capacity = daily_capacity, sl_active = True\<rparr>"

definition same_window :: "nat \<Rightarrow> date \<Rightarrow> int \<times> int \<Rightarrow> time_slot \<Rightarrow> bool" where
  "same_window area d w sl =
     (sl_area sl = area \<and> sl_date sl = d \<and> sl_start sl = fst w * hour_us \<and> sl_end sl = snd w * hour_us)"

text \<open>\<open>get_or_create\<close> of one window: a window already there keeps its capacity and its flag.\<close>

definition ensure_window :: "nat \<Rightarrow> date \<Rightarrow> int \<times> int \<Rightarrow> 'x scheduling_db_scheme \<Rightarrow> 'x scheduling_db_scheme" where
  "ensure_window area d w s =
     (if list_ex (same_window area d w) (time_slots s) then s
      else bump_id (insert_slot_row (daily_slot area d w (new_id s)) s))"

definition ensure_daily_slots ::
  "timestamp \<Rightarrow> nat \<Rightarrow> date \<Rightarrow> 'x scheduling_db_scheme \<Rightarrow> 'x scheduling_db_scheme" where
  "ensure_daily_slots now area d s =
     (if d < localdate now \<or> is_service_area_closed area d s then s
      else fold (ensure_window area d) daily_windows s)"

section \<open>Capacity\<close>

definition holds_capacity :: "booking_status \<Rightarrow> bool" where
  "holds_capacity st =
     (st \<in> {BS_PENDING_PAYMENT, BS_CONFIRMED, BS_TECHNICIAN_ASSIGNED, BS_TECHNICIAN_EN_ROUTE,
            BS_IN_PROGRESS})"

definition reserves :: "nat \<Rightarrow> booking \<Rightarrow> bool" where
  "reserves slot b = (b_slot b = slot \<and> holds_capacity (b_status b))"

definition count_reserved_bookings :: "time_slot \<Rightarrow> 'x bookings_db_scheme \<Rightarrow> nat" where
  "count_reserved_bookings sl s = count_rows (reserves (sl_id sl)) (bookings s)"

text \<open>\<open>max(slot.capacity - reserved, 0)\<close>\<close>

definition get_available_capacity :: "time_slot \<Rightarrow> 'x bookings_db_scheme \<Rightarrow> int" where
  "get_available_capacity sl s = max (int (sl_capacity sl) - int (count_reserved_bookings sl s)) 0"

definition is_slot_bookable :: "timestamp \<Rightarrow> time_slot \<Rightarrow> 'x scheduling_db_scheme \<Rightarrow> bool" where
  "is_slot_bookable now sl s =
     (case get_area (sl_area sl) s of
        None \<Rightarrow> False
      | Some area \<Rightarrow>
          sl_active sl \<and> ar_active area \<and> 0 < sl_capacity sl \<and>
          \<not> is_service_area_closed (ar_id area) (sl_date sl) s \<and>
          \<not> is_slot_expired now sl \<and> 0 < get_available_capacity sl s)"

definition lock_slot_for_reservation ::
  "timestamp \<Rightarrow> nat \<Rightarrow> 'x scheduling_db_scheme \<Rightarrow> error + time_slot" where
  "lock_slot_for_reservation now k s =
     (case get_slot k s of
        None \<Rightarrow> Inl (DoesNotExist ''TimeSlot'')
      | Some sl \<Rightarrow>
          if is_slot_bookable now sl s then Inr sl
          else Inl (SlotNotAvailable ''The selected slot is no longer available.''))"

section \<open>Administration and the public list\<close>

text \<open>
  \<open>AdminTimeSlotSerializer.validate\<close> on an update: a slot with any booking keeps its date and times,
  and its capacity stays at least what is reserved.
\<close>

definition validate_slot_update ::
  "time_slot \<Rightarrow> time_slot \<Rightarrow> 'x bookings_db_scheme \<Rightarrow> error option" where
  "validate_slot_update old new s =
     (if (sl_date new \<noteq> sl_date old \<or> sl_start new \<noteq> sl_start old \<or> sl_end new \<noteq> sl_end old) \<and>
         list_ex (\<lambda>b. b_slot b = sl_id old) (bookings s)
      then Some (FieldError ''date'' ''A slot linked to a booking cannot have its date or time changed.'')
      else if sl_capacity new < count_reserved_bookings old s
      then Some (FieldError ''capacity'' (''Capacity cannot be lower than the '' @
             nat_str (count_reserved_bookings old s) @ '' current reservation(s).''))
      else None)"

text \<open>
  The area is not among the writable fields: the serializer declares it read only, so an update
  keeps the area it has.
\<close>

definition update_slot ::
  "time_slot \<Rightarrow> 'x scheduling_db_scheme \<Rightarrow> error + (time_slot \<times> 'x scheduling_db_scheme)" where
  "update_slot data s =
     (case get_slot (sl_id data) s of
        None \<Rightarrow> Inl (ErrorResponse 404 ''Not found.'')
      | Some old \<Rightarrow>
          (case validate_slot_update old data s of
             Some e \<Rightarrow> Inl e
           | None \<Rightarrow> save_slot (data\<lparr>sl_area := sl_area old\<rparr>) s))"

text \<open>
  \<open>SlotListView\<close>. The query parameters are strings; \<open>parse_date\<close> is \<open>datetime.fromisoformat\<close>.
\<close>

definition missing_params :: "(string \<times> string) list \<Rightarrow> string list" where
  "missing_params ps = map fst (filter (\<lambda>(n, v). v = '''') ps)"

definition validate_slot_query ::
  "(string \<Rightarrow> date option) \<Rightarrow> string \<Rightarrow> string \<Rightarrow> string \<Rightarrow> 'x locations_db_scheme \<Rightarrow> error option" where
  "validate_slot_query parse_date service_id date postal s =
     (let code = normalize_postal_code postal;
          missing = missing_params [(''service_id'', service_id), (''date'', date), (''postal_code'', code)]
      in if missing \<noteq> []
         then Some (ErrorResponse 400 (''Missing required query parameter(s): '' @ join_str '', '' missing @ ''.''))
         else case parse_key service_id of
           None \<Rightarrow> Some (InvalidUuid service_id)
         | Some k \<Rightarrow>
             (case get_service k s of
                None \<Rightarrow> Some (ErrorResponse 400 ''SERVICE_NOT_AVAILABLE'')
              | Some v \<Rightarrow>
                  if \<not> sv_active v \<or>
                     (case get_category (sv_category v) s of None \<Rightarrow> True | Some c \<Rightarrow> \<not> ca_active c)
                  then Some (ErrorResponse 400 ''SERVICE_NOT_AVAILABLE'')
                  else (case get_active_service_area code s of
                          None \<Rightarrow> Some (ErrorResponse 400 ''ADDRESS_OUTSIDE_SERVICE_AREA'')
                        | Some a \<Rightarrow>
                            if \<not> supports_service a v
                            then Some (ErrorResponse 400 ''SERVICE_NOT_AVAILABLE_IN_AREA'')
                            else if parse_date date = None
                            then Some (ErrorResponse 400 ''Use a valid service date in YYYY-MM-DD format.'')
                            else None)))"

definition bookable_slots ::
  "timestamp \<Rightarrow> service_area \<Rightarrow> date \<Rightarrow> 'x scheduling_db_scheme \<Rightarrow> time_slot list" where
  "bookable_slots now a d s =
     sort_key sl_start
       (filter (\<lambda>sl. sl_area sl = ar_id a \<and> sl_date sl = d \<and> sl_active sl \<and> ar_active a \<and>
                     0 < sl_capacity sl \<and> \<not> is_slot_expired now sl \<and> 0 < get_available_capacity sl s)
          (time_slots s))"

definition list_slots ::
  "(string \<Rightarrow> date option) \<Rightarrow> timestamp \<Rightarrow> string \<Rightarrow> string \<Rightarrow> string \<Rightarrow> 'x scheduling_db_scheme \<Rightarrow>
     error + (time_slot list \<times> 'x scheduling_db_scheme)" where
  "list_slots parse_date now service_id date postal s =
     (case validate_slot_query parse_date service_id date postal s of
        Some e \<Rightarrow> Inl e
      | None \<Rightarrow>
          (case (get_active_service_area postal s, parse_date date) of
             (Some a, Some d) \<Rightarrow>
               if is_service_area_closed (ar_id a) d s then Inr ([], s)
               else let s1 = ensure_daily_slots now (ar_id a) d s in Inr (bookable_slots now a d s1, s1)
           | _ \<Rightarrow> Inr ([], s)))"

section \<open>Lemmas: slots and their capacity\<close>

definition slot_window :: "time_slot \<Rightarrow> nat \<times> date \<times> time_of_day \<times> time_of_day" where
  "slot_window sl = (sl_area sl, sl_date sl, sl_start sl, sl_end sl)"

text \<open>The invariant of the slots: distinct keys below the supply, one slot for a window, sound times.\<close>

definition slots_ok :: "'x scheduling_db_scheme \<Rightarrow> bool" where
  "slots_ok s =
     (unique_rows sl_id (time_slots s) \<and> list_all (\<lambda>sl. sl_id sl < next_id s) (time_slots s) \<and>
      distinct (map slot_window (time_slots s)) \<and> list_all (\<lambda>sl. slot_clean sl = []) (time_slots s))"

text \<open>No slot holds more open bookings than its capacity.\<close>

definition capacity_ok :: "'x scheduling_db_scheme \<Rightarrow> bool" where
  "capacity_ok s = list_all (\<lambda>sl. count_reserved_bookings sl s \<le> sl_capacity sl) (time_slots s)"

lemma ensure_window_frame [simp]:
  "closures (ensure_window area d w s) = closures s"
  "bookings (ensure_window area d w s) = bookings s"
  "service_areas (ensure_window area d w s) = service_areas s"
  by (simp_all add: ensure_window_def insert_slot_row_def bump_id_def)

lemma ensure_window_keeps: "sl \<in> set (time_slots s) \<Longrightarrow> sl \<in> set (time_slots (ensure_window area d w s))"
  by (simp add: ensure_window_def insert_slot_row_def bump_id_def)

lemma ensure_window_exists: "list_ex (same_window area d w) (time_slots (ensure_window area d w s))"
  by (simp add: ensure_window_def insert_slot_row_def bump_id_def daily_slot_def same_window_def)

lemma ensure_windows_frame:
  "closures (fold (ensure_window area d) ws s) = closures s"
  "bookings (fold (ensure_window area d) ws s) = bookings s"
  "service_areas (fold (ensure_window area d) ws s) = service_areas s"
  by (induction ws arbitrary: s) simp_all

lemma ensure_windows_keep:
  "sl \<in> set (time_slots s) \<Longrightarrow> sl \<in> set (time_slots (fold (ensure_window area d) ws s))"
  by (induction ws arbitrary: s) (simp_all add: ensure_window_keeps)

lemma ensure_windows_exist:
  "w \<in> set ws \<Longrightarrow> list_ex (same_window area d w) (time_slots (fold (ensure_window area d) ws s))"
proof (induction ws arbitrary: s)
  case (Cons x xs)
  show ?case
  proof (cases "w = x")
    case True
    obtain sl where "sl \<in> set (time_slots (ensure_window area d x s))" "same_window area d x sl"
      using ensure_window_exists [of area d x s] by (auto simp: list_ex_iff)
    with True show ?thesis using ensure_windows_keep by (fastforce simp: list_ex_iff)
  next
    case False
    with Cons show ?thesis by simp
  qed
qed simp

lemma ensure_windows_id:
  "(\<And>w. w \<in> set ws \<Longrightarrow> list_ex (same_window area d w) (time_slots s)) \<Longrightarrow> fold (ensure_window area d) ws s = s"
  by (induction ws) (simp_all add: ensure_window_def)

lemma ensure_window_ok:
  assumes "slots_ok s" and "fst w < snd w"
  shows "slots_ok (ensure_window area d w s)"
proof (cases "list_ex (same_window area d w) (time_slots s)")
  case False
  have "slot_window (daily_slot area d w (new_id s)) \<notin> slot_window ` set (time_slots s)"
    using False by (auto simp: slot_window_def daily_slot_def same_window_def list_ex_iff)
  moreover have "new_id s \<notin> sl_id ` set (time_slots s)"
    using assms(1) by (auto simp: slots_ok_def new_id_def list_all_iff)
  moreover have "slot_clean (daily_slot area d w (new_id s)) = []"
    using assms(2) by (simp add: slot_clean_def daily_slot_def daily_capacity_def hour_us_def)
  ultimately show ?thesis
    using assms(1) False
    by (auto simp: slots_ok_def ensure_window_def insert_slot_row_def bump_id_def daily_slot_def new_id_def list_all_iff)
qed (use assms in \<open>simp add: ensure_window_def\<close>)

lemma ensure_windows_ok:
  "slots_ok s \<Longrightarrow> list_all (\<lambda>w. fst w < snd w) ws \<Longrightarrow> slots_ok (fold (ensure_window area d) ws s)"
  by (induction ws arbitrary: s) (simp_all add: ensure_window_ok)

lemma ensure_daily_slots_frame:
  "closures (ensure_daily_slots now area d s) = closures s"
  "bookings (ensure_daily_slots now area d s) = bookings s"
  "service_areas (ensure_daily_slots now area d s) = service_areas s"
  by (simp_all add: ensure_daily_slots_def ensure_windows_frame)

lemma ensure_daily_slots_ok: "slots_ok s \<Longrightarrow> slots_ok (ensure_daily_slots now area d s)"
  unfolding ensure_daily_slots_def using ensure_windows_ok [of s daily_windows]
  by (simp add: daily_windows_def del: fold_simps)

lemma is_slot_bookable_capacity:
  "is_slot_bookable now sl s \<Longrightarrow> count_reserved_bookings sl s < sl_capacity sl"
  by (auto simp: is_slot_bookable_def get_available_capacity_def split: option.splits)

lemma lock_slot_Inr:
  "lock_slot_for_reservation now k s = Inr sl \<Longrightarrow>
     get_slot k s = Some sl \<and> sl_id sl = k \<and> is_slot_bookable now sl s"
  by (auto simp: lock_slot_for_reservation_def dest: slot_table.get_key split: option.splits if_splits)

section \<open>Properties\<close>

definition sample_slot :: "nat \<Rightarrow> time_slot" where
  "sample_slot k =
     \<lparr>sl_id = k, sl_area = 3, sl_date = 20000, sl_start = 10 * hour_us, sl_end = 12 * hour_us,
      sl_capacity = 2, sl_active = True\<rparr>"

definition sample_scheduling_db :: scheduling_db where
  "sample_scheduling_db = bookings_db.extend
     (locations_db.extend sample_locations_db
        \<lparr>bookings = [], booking_histories = [], cart_items = [], checkout_requests = [], number_sequences = []\<rparr>)
     \<lparr>time_slots = [sample_slot 21], closures = []\<rparr>"

text \<open>C33: The daily slots of an area are made once: opening a day keeps every slot that exists and the
  soundness of the table, makes each of the six windows exist on a day that is neither past nor closed,
  and doing it again changes nothing.\<close>

theorem daily_slots_are_made_once:
  assumes "slots_ok s" and "s' = ensure_daily_slots now area d s"
  shows "slots_ok s' \<and> set (time_slots s) \<subseteq> set (time_slots s') \<and>
         ensure_daily_slots now area d s' = s' \<and>
         (localdate now \<le> d \<and> \<not> is_service_area_closed area d s \<longrightarrow>
            list_all (\<lambda>w. list_ex (same_window area d w) (time_slots s')) daily_windows)"
proof (cases "d < localdate now \<or> is_service_area_closed area d s")
  case True
  with assms show ?thesis by (auto simp: ensure_daily_slots_def)
next
  case False
  then have s': "s' = fold (ensure_window area d) daily_windows s"
    using assms(2) by (simp add: ensure_daily_slots_def)
  have exist: "list_ex (same_window area d w) (time_slots s')" if "w \<in> set daily_windows" for w
    unfolding s' using that by (rule ensure_windows_exist)
  have "ensure_daily_slots now area d s' = s'"
    using ensure_windows_id [OF exist] by (simp add: ensure_daily_slots_def)
  moreover have "slots_ok s'"
    using assms by (simp add: ensure_daily_slots_ok)
  moreover have "set (time_slots s) \<subseteq> set (time_slots s')"
    unfolding s' using ensure_windows_keep by blast
  ultimately show ?thesis using exist by (auto simp: list_all_iff)
qed

theorem daily_slots_are_made_once_witness:
  "slots_ok (ensure_daily_slots 0 3 20000 sample_scheduling_db)"
proof -
  have "slots_ok sample_scheduling_db" by code_simp
  from daily_slots_are_made_once [OF this refl] show ?thesis by blast
qed

text \<open>C19: What the public list offers can be reserved: each slot in the answer, asked for at the same
  moment in the state the list left, is handed out by the reservation, and each is offered once.\<close>

theorem listed_slots_can_be_reserved:
  assumes "list_slots parse now service_id date postal s = Inr (sls, s')"
    and "slots_ok s" and "unique_rows ar_id (service_areas s)"
  shows "list_all (\<lambda>sl. lock_slot_for_reservation now (sl_id sl) s' = Inr sl) sls \<and> unique_rows sl_id sls"
proof (cases "sls = []")
  case False
  then obtain a d where a: "get_active_service_area postal s = Some a" and d: "parse date = Some d"
    and opened: "\<not> is_service_area_closed (ar_id a) d s" and s': "s' = ensure_daily_slots now (ar_id a) d s"
    and sls: "sls = bookable_slots now a d s'"
    using assms(1) by (auto simp: list_slots_def Let_def split: option.splits if_splits)
  have ok: "slots_ok s'"
    unfolding s' by (rule ensure_daily_slots_ok [OF assms(2)])
  have area: "get_area (ar_id a) s' = Some a"
    using get_active_service_areaD [OF a] assms(3)
    by (simp add: s' get_area_def ensure_daily_slots_frame find_row_unique)
  have closed: "\<not> is_service_area_closed (ar_id a) d s'"
    using opened by (simp add: s' is_service_area_closed_def ensure_daily_slots_frame)
  have "lock_slot_for_reservation now (sl_id sl) s' = Inr sl" if "sl \<in> set sls" for sl
  proof -
    have sl: "sl \<in> set (time_slots s')" "sl_area sl = ar_id a" "sl_date sl = d" "sl_active sl" "ar_active a"
      "0 < sl_capacity sl" "\<not> is_slot_expired now sl" "0 < get_available_capacity sl s'"
      using that by (auto simp: sls bookable_slots_def)
    then have "get_slot (sl_id sl) s' = Some sl"
      using ok by (intro slot_table.get_of_row) (simp_all add: slots_ok_def)
    with sl area closed show ?thesis
      by (simp add: lock_slot_for_reservation_def is_slot_bookable_def)
  qed
  moreover have "distinct (map sl_id sls)"
    using ok unfolding sls bookable_slots_def slots_ok_def unique_rows_def
    by (simp add: distinct_map) (auto simp: inj_on_def)
  ultimately show ?thesis by (simp add: list_all_iff unique_rows_def)
qed (simp add: unique_rows_def)

theorem listed_slots_can_be_reserved_witness:
  "\<exists>sls s'. list_slots (\<lambda>x. Some 20000) 0 ''4'' ''d'' '' 411001'' sample_scheduling_db = Inr (sls, s') \<and>
     list_all (\<lambda>sl. lock_slot_for_reservation 0 (sl_id sl) s' = Inr sl) sls \<and> length sls = 6"
proof -
  let ?r = "list_slots (\<lambda>x. Some 20000) 0 ''4'' ''d'' '' 411001'' sample_scheduling_db"
  have six: "\<not> isl ?r \<and> length (fst (projr ?r)) = 6" by code_simp
  then obtain sls s' where s': "?r = Inr (sls, s')" by (blast dest: result_cases)
  have "slots_ok sample_scheduling_db" "unique_rows ar_id (service_areas sample_scheduling_db)"
    by code_simp+
  from listed_slots_can_be_reserved [OF s' this] s' six show ?thesis by force
qed

end
