(* ===== verification/Payment_Model.thy ===== *)
theory Payment_Model
  imports Scheduling
begin

text \<open>
  The tables of \<open>apps/payments/models.py\<close>: payments (advances, balances and refunds), the webhook
  deliveries already seen, invoices. Writing a payment checks the table's unique constraints.
\<close>

datatype payment_provider = RAZORPAY | OFFLINE

datatype payment_type = BOOKING_ADVANCE | BALANCE | REFUND

datatype record_status = PR_CREATED | PR_PENDING | PR_SUCCESS | PR_FAILED | PR_REFUNDED

record payment =
  p_id :: nat
  p_booking :: nat
  p_provider :: payment_provider
  p_order_id :: "string option"
  p_payment_id :: "string option"
  p_refund_id :: "string option"
  p_parent :: "nat option"
  p_amount :: money
  p_currency :: string
  p_type :: payment_type
  p_status :: record_status
  p_signature_verified :: bool
  p_payload :: json
  p_key :: string
  p_paid_at :: "timestamp option"
  p_refunded_at :: "timestamp option"

datatype webhook_status = PROCESSING | PROCESSED | WEBHOOK_FAILED

record webhook_event =
  we_id :: nat
  we_hash :: string
  we_event :: string
  we_status :: webhook_status
  we_attempts :: nat
  we_last_error :: string
  we_processed_at :: "timestamp option"
  we_updated_at :: timestamp

record invoice_sequence =
  is_year :: string
  is_number :: nat

record invoice =
  in_id :: nat
  in_booking :: nat
  in_number :: string
  in_year :: string
  in_seller_name :: string
  in_seller_gstin :: string
  in_seller_address :: string
  in_customer_name :: string
  in_customer_phone :: string
  in_taxable :: money
  in_cgst :: money
  in_sgst :: money
  in_igst :: money
  in_total :: money
  in_issued_at :: timestamp

record payments_db = scheduling_db +
  payments :: "payment list"
  webhook_events :: "webhook_event list"
  invoice_sequences :: "invoice_sequence list"
  invoices :: "invoice list"

definition get_payment :: "nat \<Rightarrow> 'x payments_db_scheme \<Rightarrow> payment option" where
  "get_payment k s = find_row p_id k (payments s)"

definition save_payment_row :: "payment \<Rightarrow> 'x payments_db_scheme \<Rightarrow> 'x payments_db_scheme" where
  "save_payment_row p s = s\<lparr>payments := save_row p_id p (payments s)\<rparr>"

definition insert_payment_row :: "payment \<Rightarrow> 'x payments_db_scheme \<Rightarrow> 'x payments_db_scheme" where
  "insert_payment_row p s = s\<lparr>payments := payments s @ [p]\<rparr>"

interpretation payment_table: row_table p_id payments get_payment save_payment_row insert_payment_row
  by unfold_locales (simp_all add: get_payment_def save_payment_row_def insert_payment_row_def)

section \<open>Constraints\<close>

definition same_reference :: "string option \<Rightarrow> string option \<Rightarrow> bool" where
  "same_reference a b = (a \<noteq> None \<and> a = b)"

definition active_advance :: "payment \<Rightarrow> bool" where
  "active_advance p = (p_type p = BOOKING_ADVANCE \<and> p_status p \<in> {PR_CREATED, PR_PENDING, PR_SUCCESS})"

text \<open>
  Two different rows in conflict, and with which constraint: the three provider references, one
  active advance for a booking, one row for a key that is not blank.
\<close>

definition payment_conflict :: "payment \<Rightarrow> payment \<Rightarrow> string option" where
  "payment_conflict p q =
     (if p_id p = p_id q then None
      else if same_reference (p_order_id p) (p_order_id q) then Some ''payments_payment.provider_order_id''
      else if same_reference (p_payment_id p) (p_payment_id q) then Some ''payments_payment.provider_payment_id''
      else if same_reference (p_refund_id p) (p_refund_id q) then Some ''payments_payment.provider_refund_id''
      else if active_advance p \<and> active_advance q \<and> p_booking p = p_booking q
      then Some ''unique_active_booking_advance''
      else if p_key p \<noteq> '''' \<and> p_key p = p_key q \<and> p_booking p = p_booking q \<and> p_type p = p_type q
      then Some ''unique_payment_idempotency_key''
      else None)"

fun first_conflict :: "payment \<Rightarrow> payment list \<Rightarrow> string option" where
  "first_conflict p [] = None"
| "first_conflict p (q # qs) =
     (case payment_conflict p q of Some c \<Rightarrow> Some c | None \<Rightarrow> first_conflict p qs)"

definition save_payment :: "payment \<Rightarrow> 'x payments_db_scheme \<Rightarrow> error + 'x payments_db_scheme" where
  "save_payment p s =
     (case first_conflict p (payments s) of
        Some c \<Rightarrow> Inl (IntegrityError c)
      | None \<Rightarrow> Inr (save_payment_row p s))"

text \<open>\<open>Payment.objects.create\<close>: the row gets a fresh key.\<close>

definition create_payment ::
  "payment \<Rightarrow> 'x payments_db_scheme \<Rightarrow> error + (payment \<times> 'x payments_db_scheme)" where
  "create_payment data s =
     (let p = data\<lparr>p_id := new_id s\<rparr> in
      case first_conflict p (payments s) of
        Some c \<Rightarrow> Inl (IntegrityError c)
      | None \<Rightarrow> Inr (p, bump_id (insert_payment_row p s)))"

definition blank_payment :: "nat \<Rightarrow> payment" where
  "blank_payment booking =
     \<lparr>p_id = 0, p_booking = booking, p_provider = RAZORPAY, p_order_id = None, p_payment_id = None,
      p_refund_id = None, p_parent = None, p_amount = 0, p_currency = ''INR'',
      p_type = BOOKING_ADVANCE, p_status = PR_CREATED, p_signature_verified = False,
      p_payload = JObj [], p_key = '''', p_paid_at = None, p_refunded_at = None\<rparr>"

text \<open>The invariant of the table: keys are distinct and no two rows are in conflict.\<close>

definition payments_ok :: "'x payments_db_scheme \<Rightarrow> bool" where
  "payments_ok s =
     (unique_rows p_id (payments s) \<and>
      list_all (\<lambda>p. p_id p < next_id s \<and> first_conflict p (payments s) = None) (payments s))"

text \<open>The text of a timestamp in seconds, as \<open>str(now.timestamp())\<close> writes it.\<close>

definition seconds_str :: "timestamp \<Rightarrow> string" where
  "seconds_str now =
     (let frac = rev (dropWhile (\<lambda>c. c = CHR ''0'')
                        (rev (pad_left 6 CHR ''0'' (nat_str (nat (now mod 1000000))))))
      in nat_str (nat (now div 1000000)) @ ''.'' @ (if frac = '''' then ''0'' else frac))"

section \<open>Lemmas: the constraints of the payments table\<close>

lemma same_reference_sym: "same_reference a b = same_reference b a"
  by (auto simp: same_reference_def)

lemma payment_conflict_None:
  "payment_conflict p q = None \<longleftrightarrow>
     p_id p = p_id q \<or>
     (\<not> same_reference (p_order_id p) (p_order_id q) \<and> \<not> same_reference (p_payment_id p) (p_payment_id q) \<and>
      \<not> same_reference (p_refund_id p) (p_refund_id q) \<and>
      \<not> (active_advance p \<and> active_advance q \<and> p_booking p = p_booking q) \<and>
      \<not> (p_key p \<noteq> '''' \<and> p_key p = p_key q \<and> p_booking p = p_booking q \<and> p_type p = p_type q))"
  unfolding payment_conflict_def by (cases "p_key p = p_key q") simp_all

lemma payment_conflict_sym: "payment_conflict p q = None \<longleftrightarrow> payment_conflict q p = None"
  unfolding payment_conflict_None using same_reference_sym by metis

lemma payment_conflict_self [simp]: "p_id p = p_id q \<Longrightarrow> payment_conflict p q = None"
  by (simp add: payment_conflict_def)

lemma first_conflict_None: "first_conflict p ps = None \<longleftrightarrow> (\<forall>q\<in>set ps. payment_conflict p q = None)"
  by (induction ps) (auto split: option.splits)

lemma payments_ok_iff:
  "payments_ok s \<longleftrightarrow>
     unique_rows p_id (payments s) \<and> (\<forall>p\<in>set (payments s). p_id p < next_id s) \<and>
     (\<forall>p\<in>set (payments s). \<forall>q\<in>set (payments s). payment_conflict p q = None)"
  by (auto simp: payments_ok_def list_all_iff first_conflict_None)

lemma create_payment_Inr:
  "create_payment data s = Inr (p, s') \<Longrightarrow>
     p = data\<lparr>p_id := new_id s\<rparr> \<and> first_conflict p (payments s) = None \<and>
     s' = bump_id (insert_payment_row p s) \<and> payments s' = payments s @ [p]"
  by (auto simp: create_payment_def Let_def insert_payment_row_def bump_id_def split: option.splits)

lemma save_payment_Inr:
  "save_payment p s = Inr s' \<Longrightarrow>
     first_conflict p (payments s) = None \<and> s' = save_payment_row p s \<and>
     payments s' = save_row p_id p (payments s)"
  by (auto simp: save_payment_def save_payment_row_def split: option.splits)

lemma create_payment_ok:
  assumes "create_payment data s = Inr (p, s')" and "payments_ok s"
  shows "payments_ok s'"
proof -
  note p = create_payment_Inr [OF assms(1)]
  then have "next_id s' = Suc (next_id s)" by (simp add: bump_id_def insert_payment_row_def)
  moreover have "p_id p = next_id s" using p by (simp add: new_id_def)
  moreover have "\<forall>q\<in>set (payments s). payment_conflict p q = None \<and> payment_conflict q p = None"
    using p payment_conflict_sym by (fastforce simp: first_conflict_None)
  ultimately show ?thesis
    using p assms(2) by (fastforce simp: payments_ok_iff less_Suc_eq)
qed

lemma save_payment_ok:
  assumes "save_payment p s = Inr s'" and "payments_ok s"
  shows "payments_ok s'"
proof -
  note p = save_payment_Inr [OF assms(1)]
  then have "next_id s' = next_id s" by (simp add: save_payment_row_def)
  with p assms(2) show ?thesis
    by (auto simp: payments_ok_iff first_conflict_None in_set_save_row payment_conflict_sym [of _ p])
qed

text \<open>What the constraints say of two rows.\<close>

lemma payments_okD:
  assumes "payments_ok s" and "p \<in> set (payments s)" and "q \<in> set (payments s)"
  shows "active_advance p \<Longrightarrow> active_advance q \<Longrightarrow> p_booking p = p_booking q \<Longrightarrow> p = q"
    and "p_order_id p = Some x \<Longrightarrow> p_order_id q = Some x \<Longrightarrow> p = q"
    and "p_payment_id p = Some x \<Longrightarrow> p_payment_id q = Some x \<Longrightarrow> p = q"
proof -
  have same: "p_id p = p_id q \<Longrightarrow> p = q"
    using assms by (auto simp: payments_ok_iff unique_rows_def distinct_map inj_on_def)
  have "payment_conflict p q = None"
    using assms by (auto simp: payments_ok_iff)
  then show "active_advance p \<Longrightarrow> active_advance q \<Longrightarrow> p_booking p = p_booking q \<Longrightarrow> p = q"
    and "p_order_id p = Some x \<Longrightarrow> p_order_id q = Some x \<Longrightarrow> p = q"
    and "p_payment_id p = Some x \<Longrightarrow> p_payment_id q = Some x \<Longrightarrow> p = q"
    using same by (auto simp: payment_conflict_def same_reference_def split: if_splits)
qed

section \<open>Examples\<close>

definition sample_booking :: "nat \<Rightarrow> booking_status \<Rightarrow> booking" where
  "sample_booking k st =
     \<lparr>b_id = k, b_number = ''PS24100001'', b_customer = 1, b_service = 4, b_address = 11,
      b_address_snapshot = JObj [], b_service_date = 20000, b_slot = 21, b_problem = '''',
      b_contact_phone = ''+919876543210'', b_quantity = 1, b_subtotal = 100000, b_discount = 10000,
      b_training_fee = 0, b_tax = 0, b_total = 90000, b_advance_required = 18000, b_advance_paid = 0,
      b_balance_due = 90000, b_balance_collected = 0, b_status = st, b_payment_status = PS_UNPAID,
      b_technician = None, b_customer_notes = '''', b_admin_notes = '''', b_confirmed_at = None,
      b_completed_at = None, b_cancelled_at = None, b_manual = False\<rparr>"

definition sample_payment :: "nat \<Rightarrow> record_status \<Rightarrow> payment" where
  "sample_payment k st =
     (blank_payment 7)\<lparr>p_id := k, p_order_id := Some ''order_1'', p_amount := 18000, p_status := st,
        p_key := ''payment-7''\<rparr>"

definition sample_payments_db :: "booking list \<Rightarrow> payment list \<Rightarrow> payments_db" where
  "sample_payments_db bs ps = scheduling_db.extend (sample_scheduling_db\<lparr>bookings := bs\<rparr>)
     \<lparr>payments = ps, webhook_events = [], invoice_sequences = [], invoices = []\<rparr>"

end
