(* ===== verification/Leads.thy ===== *)
theory Leads
  imports Payment_Model
begin

text \<open>
  Leads, the part of \<open>apps/operations\<close> that bookings and payments call: the rows, \<open>Lead.clean\<close>, the
  funnel and payment ranks, \<open>upsert_lead\<close> and its callers, the link from a booking to its lead.
\<close>

datatype lead_source =
    LSO_CONSUMER_APP | LSO_ONCALL | LSO_SERVICE_VIEW | LSO_CART | LSO_CHECKOUT | LSO_ADMIN
  | LSO_PHONE_CALL | LSO_CAMPAIGN | LSO_PHONE | LSO_WHATSAPP | LSO_WEBSITE | LSO_CALLBACK_REQUEST
  | LSO_ABANDONED_BOOKING | LSO_PAYMENT_PENDING | LSO_MANUAL | LSO_OTHER

datatype lead_status = LS_NEW | LS_CONTACTED | LS_INTERESTED | LS_FOLLOW_UP | LS_CONVERTED | LS_LOST | LS_CLOSED

datatype funnel_status = LF_VISITED | LF_CART_ADDED | LF_UNPAID | LF_PAID | LF_BOOKED | LF_CANCELLED | LF_LOST

datatype lead_payment = LP_NOT_REQUIRED | LP_PENDING | LP_LINK_SENT | LP_PAID | LP_FAILED | LP_REFUNDED

datatype lead_temperature = HOT | WARM | COLD

datatype lead_action =
    LA_SERVICE_VIEWED | LA_ADDED_TO_CART | LA_CHECKOUT_STARTED | LA_BOOKING_CREATED
  | LA_PAYMENT_LINK_CREATED | LA_PAYMENT_LINK_SENT | LA_PAYMENT_CONFIRMED | LA_STATUS_CHANGED
  | LA_CALL_COMPLETED | LA_NOTE_ADDED | LA_LEAD_ASSIGNED | LA_LEAD_MERGED
  | LA_MANUAL_PAYMENT_RECORDED

record lead =
  l_id :: nat
  l_customer :: "nat option"
  l_customer_name :: string
  l_mobile :: string
  l_alternate_mobile :: string
  l_email :: string
  l_service :: "nat option"
  l_package :: string
  l_address :: string
  l_city :: string
  l_pincode :: string
  l_source :: lead_source
  l_status :: lead_status
  l_funnel :: funnel_status
  l_payment :: lead_payment
  l_temperature :: lead_temperature
  l_staff :: "nat option"
  l_callback_at :: "timestamp option"
  l_preferred_date :: "date option"
  l_preferred_slot :: string
  l_quoted :: "money option"
  l_advance :: "money option"
  l_balance :: "money option"
  l_link_url :: string
  l_link_provider_id :: string
  l_link_expires_at :: "timestamp option"
  l_last_contacted_at :: "timestamp option"
  l_follow_up_at :: "timestamp option"
  l_customer_notes :: string
  l_internal_notes :: string
  l_admin_notes :: string
  l_lost_reason :: string
  l_first_seen_at :: timestamp
  l_last_activity_at :: timestamp
  l_converted_booking :: "nat option"
  l_pending_booking :: "nat option"
  l_created_by :: "nat option"
  l_updated_at :: timestamp

record lead_activity =
  la_id :: nat
  la_lead :: nat
  la_action :: lead_action
  la_previous :: json
  la_new :: json
  la_note :: string
  la_performed_by :: "nat option"
  la_ip :: "string option"

record lead_history =
  lh_id :: nat
  lh_lead :: nat
  lh_from :: "lead_status option"
  lh_to :: lead_status
  lh_changed_by :: "nat option"
  lh_notes :: string

record leads_db = payments_db +
  leads :: "lead list"
  lead_activities :: "lead_activity list"
  lead_histories :: "lead_history list"

definition get_lead :: "nat \<Rightarrow> 'x leads_db_scheme \<Rightarrow> lead option" where
  "get_lead k s = find_row l_id k (leads s)"

definition save_lead_row :: "lead \<Rightarrow> 'x leads_db_scheme \<Rightarrow> 'x leads_db_scheme" where
  "save_lead_row l s = s\<lparr>leads := save_row l_id l (leads s)\<rparr>"

definition insert_lead_row :: "lead \<Rightarrow> 'x leads_db_scheme \<Rightarrow> 'x leads_db_scheme" where
  "insert_lead_row l s = s\<lparr>leads := leads s @ [l]\<rparr>"

interpretation lead_table: row_table l_id leads get_lead save_lead_row insert_lead_row
  by unfold_locales (simp_all add: get_lead_def save_lead_row_def insert_lead_row_def)

section \<open>The model's own rules\<close>

definition is_active_lead :: "lead \<Rightarrow> bool" where
  "is_active_lead l = (l_status l \<in> {LS_NEW, LS_CONTACTED, LS_INTERESTED, LS_FOLLOW_UP})"

definition is_follow_up_due :: "timestamp \<Rightarrow> lead \<Rightarrow> bool" where
  "is_follow_up_due now l =
     ((case l_follow_up_at l of None \<Rightarrow> False | Some t \<Rightarrow> t \<le> now) \<and> is_active_lead l)"

text \<open>Another active lead with the same mobile, and the same service if this one names a service.\<close>

definition duplicate_lead :: "lead \<Rightarrow> lead \<Rightarrow> bool" where
  "duplicate_lead l m =
     (is_active_lead m \<and> l_mobile m = l_mobile l \<and>
      (l_service l = None \<or> l_service m = l_service l) \<and> l_id m \<noteq> l_id l)"

definition lead_clean :: "lead \<Rightarrow> 'x leads_db_scheme \<Rightarrow> (string \<times> string) list" where
  "lead_clean l s =
     add_error (is_active_lead l \<and> list_ex (duplicate_lead l) (leads s))
       ''primary_mobile'' ''An active lead already exists for this mobile number and service.''
     (add_error (l_converted_booking l \<noteq> None \<and> l_status l \<noteq> LS_CONVERTED)
       ''status'' ''A lead with a converted booking must have converted status.''
     (add_error (l_status l = LS_CONVERTED \<and> l_converted_booking l = None)
       ''converted_booking'' ''Converted leads must be linked to a booking.'' []))"

text \<open>
  The declared columns of a lead that hold text: the name, whether a value is required, the longest
  value, and the value; and its amounts, which have ten digits with two decimal places.
\<close>

definition lead_columns :: "lead \<Rightarrow> (string \<times> bool \<times> nat \<times> string) list" where
  "lead_columns l =
     [(''customer_name'', True, 255, l_customer_name l), (''primary_mobile'', True, 16, l_mobile l),
      (''alternate_mobile'', False, 16, l_alternate_mobile l), (''email'', False, 254, l_email l),
      (''package'', False, 180, l_package l), (''city'', False, 120, l_city l),
      (''pincode'', False, 12, l_pincode l), (''preferred_slot'', False, 120, l_preferred_slot l),
      (''payment_link_url'', False, 200, l_link_url l),
      (''payment_link_provider_id'', False, 128, l_link_provider_id l), (''lost_reason'', False, 255, l_lost_reason l)]"

definition lead_amounts :: "lead \<Rightarrow> (string \<times> money option) list" where
  "lead_amounts l = [(''quoted_amount'', l_quoted l), (''advance_amount'', l_advance l), (''balance_amount'', l_balance l)]"

fun column_error :: "string \<times> bool \<times> nat \<times> string \<Rightarrow> (string \<times> string) list \<Rightarrow> (string \<times> string) list" where
  "column_error (name, required, n, x) errs =
     add_error (required \<and> x = '''') name ''This field cannot be blank.''
     (add_error (n < length x) name
        (''Ensure this value has at most '' @ nat_str n @ '' characters (it has '' @ nat_str (length x) @ '').'') errs)"

fun amount_error :: "string \<times> money option \<Rightarrow> (string \<times> string) list \<Rightarrow> (string \<times> string) list" where
  "amount_error (name, v) errs =
     add_error (case v of None \<Rightarrow> False | Some x \<Rightarrow> 10000000000 \<le> \<bar>x\<bar>) name
       ''Ensure that there are no more than 10 digits in total.'' errs"

text \<open>
  \<open>full_clean\<close> checks the columns, \<open>clean\<close> and the two one-to-one references; the formats of the e-mail
  address and of the link, which the library's validators check, are not modelled.
\<close>

definition lead_full_clean :: "lead \<Rightarrow> 'x leads_db_scheme \<Rightarrow> (string \<times> string) list" where
  "lead_full_clean l s =
     foldr column_error (lead_columns l) (foldr amount_error (lead_amounts l)
     (add_error (l_pending_booking l \<noteq> None \<and>
                list_ex (\<lambda>m. l_pending_booking m = l_pending_booking l \<and> l_id m \<noteq> l_id l) (leads s))
       ''pending_booking'' ''Lead with this Pending booking already exists.''
     (add_error (l_converted_booking l \<noteq> None \<and>
                 list_ex (\<lambda>m. l_converted_booking m = l_converted_booking l \<and> l_id m \<noteq> l_id l) (leads s))
       ''converted_booking'' ''Lead with this Converted booking already exists.''
       (lead_clean l s))))"

text \<open>\<open>Lead.save\<close>; \<open>updated_at\<close> is set by every save.\<close>

definition save_lead :: "timestamp \<Rightarrow> lead \<Rightarrow> 'x leads_db_scheme \<Rightarrow> error + (lead \<times> 'x leads_db_scheme)" where
  "save_lead now l s =
     (let l2 = l\<lparr>l_updated_at := now\<rparr> in
      case lead_full_clean l2 s of
        [] \<Rightarrow> Inr (l2, if get_lead (l_id l2) s = None then insert_lead_row l2 s else save_lead_row l2 s)
      | errs \<Rightarrow> Inl (FieldErrors errs))"

section \<open>Ranks\<close>

fun funnel_rank :: "funnel_status \<Rightarrow> nat" where
  "funnel_rank LF_VISITED = 10"
| "funnel_rank LF_CART_ADDED = 20"
| "funnel_rank LF_UNPAID = 30"
| "funnel_rank LF_BOOKED = 40"
| "funnel_rank LF_PAID = 50"
| "funnel_rank LF_CANCELLED = 60"
| "funnel_rank LF_LOST = 70"

fun payment_rank :: "lead_payment \<Rightarrow> nat" where
  "payment_rank LP_NOT_REQUIRED = 10"
| "payment_rank LP_PENDING = 20"
| "payment_rank LP_LINK_SENT = 30"
| "payment_rank LP_FAILED = 35"
| "payment_rank LP_PAID = 40"
| "payment_rank LP_REFUNDED = 50"

definition max_funnel_status :: "funnel_status \<Rightarrow> funnel_status \<Rightarrow> funnel_status" where
  "max_funnel_status current candidate =
     (if funnel_rank candidate > funnel_rank current then candidate else current)"

definition max_payment_status :: "lead_payment \<Rightarrow> lead_payment \<Rightarrow> lead_payment" where
  "max_payment_status current candidate =
     (if payment_rank candidate > payment_rank current then candidate else current)"

section \<open>Activities\<close>

fun source_str :: "lead_source \<Rightarrow> string" where
  "source_str LSO_CONSUMER_APP = ''CONSUMER_APP''"
| "source_str LSO_ONCALL = ''ONCALL''"
| "source_str LSO_SERVICE_VIEW = ''SERVICE_VIEW''"
| "source_str LSO_CART = ''CART''"
| "source_str LSO_CHECKOUT = ''CHECKOUT''"
| "source_str LSO_ADMIN = ''ADMIN''"
| "source_str LSO_PHONE_CALL = ''PHONE_CALL''"
| "source_str LSO_CAMPAIGN = ''CAMPAIGN''"
| "source_str LSO_PHONE = ''PHONE''"
| "source_str LSO_WHATSAPP = ''WHATSAPP''"
| "source_str LSO_WEBSITE = ''WEBSITE''"
| "source_str LSO_CALLBACK_REQUEST = ''CALLBACK_REQUEST''"
| "source_str LSO_ABANDONED_BOOKING = ''ABANDONED_BOOKING''"
| "source_str LSO_PAYMENT_PENDING = ''PAYMENT_PENDING''"
| "source_str LSO_MANUAL = ''MANUAL''"
| "source_str LSO_OTHER = ''OTHER''"

fun lead_status_str :: "lead_status \<Rightarrow> string" where
  "lead_status_str LS_NEW = ''NEW''"
| "lead_status_str LS_CONTACTED = ''CONTACTED''"
| "lead_status_str LS_INTERESTED = ''INTERESTED''"
| "lead_status_str LS_FOLLOW_UP = ''FOLLOW_UP''"
| "lead_status_str LS_CONVERTED = ''CONVERTED''"
| "lead_status_str LS_LOST = ''LOST''"
| "lead_status_str LS_CLOSED = ''CLOSED''"

fun funnel_str :: "funnel_status \<Rightarrow> string" where
  "funnel_str LF_VISITED = ''VISITED''"
| "funnel_str LF_CART_ADDED = ''CART_ADDED''"
| "funnel_str LF_UNPAID = ''UNPAID''"
| "funnel_str LF_PAID = ''PAID''"
| "funnel_str LF_BOOKED = ''BOOKED''"
| "funnel_str LF_CANCELLED = ''CANCELLED''"
| "funnel_str LF_LOST = ''LOST''"

fun lead_payment_str :: "lead_payment \<Rightarrow> string" where
  "lead_payment_str LP_NOT_REQUIRED = ''NOT_REQUIRED''"
| "lead_payment_str LP_PENDING = ''PENDING''"
| "lead_payment_str LP_LINK_SENT = ''LINK_SENT''"
| "lead_payment_str LP_PAID = ''PAID''"
| "lead_payment_str LP_FAILED = ''FAILED''"
| "lead_payment_str LP_REFUNDED = ''REFUNDED''"

text \<open>\<open>_ip_address\<close>, which reads the request as \<open>get_client_ip\<close> does.\<close>

definition lead_ip_address :: "request option \<Rightarrow> string option" where
  "lead_ip_address rq =
     (case rq of
        None \<Rightarrow> None
      | Some r \<Rightarrow>
          let forwarded = given '''' (rq_forwarded_for r) in
          if forwarded \<noteq> '''' then Some (first_forwarded forwarded) else rq_remote_addr r)"

definition record_lead_activity ::
  "nat \<Rightarrow> lead_action \<Rightarrow> json \<Rightarrow> json \<Rightarrow> string \<Rightarrow> nat option \<Rightarrow> request option \<Rightarrow>
     'x leads_db_scheme \<Rightarrow> 'x leads_db_scheme" where
  "record_lead_activity k action previous new note performed_by rq s =
     bump_id (s\<lparr>lead_activities := lead_activities s @
       [\<lparr>la_id = new_id s, la_lead = k, la_action = action,
         la_previous = (if truthy previous then previous else JObj []),
         la_new = (if truthy new then new else JObj []),
         la_note = note, la_performed_by = performed_by, la_ip = lead_ip_address rq\<rparr>]\<rparr>)"

definition write_lead_history ::
  "nat \<Rightarrow> lead_status option \<Rightarrow> lead_status \<Rightarrow> nat option \<Rightarrow> string \<Rightarrow>
     'x leads_db_scheme \<Rightarrow> 'x leads_db_scheme" where
  "write_lead_history k from_status to_status changed_by notes s =
     bump_id (s\<lparr>lead_histories := lead_histories s @
       [\<lparr>lh_id = new_id s, lh_lead = k, lh_from = from_status, lh_to = to_status,
         lh_changed_by = changed_by, lh_notes = notes\<rparr>]\<rparr>)"

section \<open>Upserting\<close>

definition customer_name :: "user \<Rightarrow> 'x accounts_db_scheme \<Rightarrow> string" where
  "customer_name u s =
     (let display = (case profile_of (u_id u) s of None \<Rightarrow> '''' | Some p \<Rightarrow> cp_display_name p) in
      or_str display
        (or_str (join_str '' '' (nonempty_parts [u_first_name u, u_last_name u])) (u_phone u)))"

text \<open>A \<open>Lead(...)\<close> that has not been saved: the columns not given have their defaults.\<close>

definition blank_lead :: "nat \<Rightarrow> timestamp \<Rightarrow> lead" where
  "blank_lead k now =
     \<lparr>l_id = k, l_customer = None, l_customer_name = '''', l_mobile = '''', l_alternate_mobile = '''',
      l_email = '''', l_service = None, l_package = '''', l_address = '''', l_city = '''',
      l_pincode = '''', l_source = LSO_MANUAL, l_status = LS_NEW, l_funnel = LF_VISITED,
      l_payment = LP_NOT_REQUIRED, l_temperature = WARM, l_staff = None, l_callback_at = None,
      l_preferred_date = None, l_preferred_slot = '''', l_quoted = None, l_advance = None,
      l_balance = None, l_link_url = '''', l_link_provider_id = '''', l_link_expires_at = None,
      l_last_contacted_at = None, l_follow_up_at = None, l_customer_notes = '''',
      l_internal_notes = '''', l_admin_notes = '''', l_lost_reason = '''', l_first_seen_at = now,
      l_last_activity_at = now, l_converted_booking = None, l_pending_booking = None,
      l_created_by = None, l_updated_at = now\<rparr>"

definition lead_values :: "lead \<Rightarrow> json" where
  "lead_values l =
     JObj [(''source'', JStr (source_str (l_source l))),
           (''funnel_status'', JStr (funnel_str (l_funnel l))),
           (''payment_status'', JStr (lead_payment_str (l_payment l)))]"

text \<open>The arguments that say what happened: where from, the funnel and payment step, the activity.\<close>

record lead_event =
  le_source :: lead_source
  le_funnel :: funnel_status
  le_payment :: lead_payment
  le_action :: lead_action
  le_note :: string

definition active_lead_for :: "string \<Rightarrow> nat option \<Rightarrow> 'x leads_db_scheme \<Rightarrow> lead option" where
  "active_lead_for mobile sv s =
     max_row l_last_activity_at
       (filter (\<lambda>l. l_mobile l = mobile \<and> l_service l = sv \<and> is_active_lead l) (leads s))"

definition upsert_lead ::
  "timestamp \<Rightarrow> string \<Rightarrow> string \<Rightarrow> nat option \<Rightarrow> nat option \<Rightarrow> lead_event \<Rightarrow> request option \<Rightarrow>
     'x leads_db_scheme \<Rightarrow> error + (lead \<times> 'x leads_db_scheme)" where
  "upsert_lead now mobile name sv customer ev rq s =
     (let found = active_lead_for mobile sv s;
          created = (found = None);
          s0 = (if created then bump_id s else s);
          l0 = (case found of
                  Some l \<Rightarrow> l
                | None \<Rightarrow> (blank_lead (new_id s) now)\<lparr>l_customer := customer,
                            l_customer_name := or_str name mobile, l_mobile := mobile, l_service := sv,
                            l_source := le_source ev, l_funnel := le_funnel ev, l_payment := le_payment ev\<rparr>);
          l1 = l0\<lparr>l_customer := (case l_customer l0 of Some c \<Rightarrow> Some c | None \<Rightarrow> customer),
                  l_customer_name := or_str name (or_str (l_customer_name l0) mobile),
                  l_source := (if created then le_source ev else l_source l0),
                  l_funnel := max_funnel_status (l_funnel l0) (le_funnel ev),
                  l_payment := max_payment_status (l_payment l0) (le_payment ev),
                  l_last_activity_at := now\<rparr>
      in case save_lead now l1 s0 of
           Inl e \<Rightarrow> Inl e
         | Inr (l2, s1) \<Rightarrow>
             Inr (l2, record_lead_activity (l_id l2) (le_action ev)
                        (if created then JObj [] else lead_values l0) (lead_values l2)
                        (le_note ev) customer rq s1))"

text \<open>The four callers.\<close>

definition capture_authenticated_service_view ::
  "timestamp \<Rightarrow> user option \<Rightarrow> service \<Rightarrow> request option \<Rightarrow> 'x leads_db_scheme \<Rightarrow>
     error + (lead option \<times> 'x leads_db_scheme)" where
  "capture_authenticated_service_view now who v rq s =
     (case who of
        None \<Rightarrow> Inr (None, s)
      | Some u \<Rightarrow>
          if \<not> u_verified u \<or> u_phone u = '''' then Inr (None, s)
          else (case upsert_lead now (u_phone u) (customer_name u s) (Some (sv_id v)) (Some (u_id u))
                       \<lparr>le_source = LSO_SERVICE_VIEW, le_funnel = LF_VISITED, le_payment = LP_NOT_REQUIRED,
                        le_action = LA_SERVICE_VIEWED,
                        le_note = ''Authenticated customer viewed service details.''\<rparr> rq s of
                  Inl e \<Rightarrow> Inl e
                | Inr (l, s1) \<Rightarrow> Inr (Some l, s1)))"

definition mark_checkout_started ::
  "timestamp \<Rightarrow> user \<Rightarrow> service \<Rightarrow> request option \<Rightarrow> string \<Rightarrow> 'x leads_db_scheme \<Rightarrow>
     error + (lead \<times> 'x leads_db_scheme)" where
  "mark_checkout_started now u v rq note s =
     upsert_lead now (u_phone u) (customer_name u s) (Some (sv_id v)) (Some (u_id u))
       \<lparr>le_source = LSO_CHECKOUT, le_funnel = LF_UNPAID, le_payment = LP_PENDING,
        le_action = LA_CHECKOUT_STARTED, le_note = note\<rparr> rq s"

definition mark_cart_added ::
  "timestamp \<Rightarrow> user \<Rightarrow> service \<Rightarrow> request option \<Rightarrow> 'x leads_db_scheme \<Rightarrow>
     error + (lead \<times> 'x leads_db_scheme)" where
  "mark_cart_added now u v rq s =
     upsert_lead now (u_phone u) (customer_name u s) (Some (sv_id v)) (Some (u_id u))
       \<lparr>le_source = LSO_CART, le_funnel = LF_CART_ADDED, le_payment = LP_NOT_REQUIRED,
        le_action = LA_ADDED_TO_CART,
        le_note = ''Authenticated customer added service to cart.''\<rparr> rq s"

section \<open>Bookings and their leads\<close>

text \<open>The entries of an address snapshot are strings, as \<open>build_address_snapshot\<close> makes them.\<close>

definition snapshot_text :: "string \<Rightarrow> json \<Rightarrow> string" where
  "snapshot_text k snap = (case item k snap of JStr x \<Rightarrow> x | _ \<Rightarrow> '''')"

definition address_text :: "json \<Rightarrow> string" where
  "address_text snap =
     join_str '', '' (nonempty_parts
       [snapshot_text ''address_line_1'' snap, snapshot_text ''address_line_2'' snap,
        snapshot_text ''locality'' snap, snapshot_text ''city'' snap, snapshot_text ''postal_code'' snap])"

definition slot_text :: "time_slot \<Rightarrow> string" where
  "slot_text sl = hhmm_str (sl_start sl) @ ''-'' @ hhmm_str (sl_end sl)"

definition booked_lead :: "booking \<Rightarrow> time_slot \<Rightarrow> lead \<Rightarrow> lead" where
  "booked_lead b sl l =
     l\<lparr>l_pending_booking := Some (b_id b), l_quoted := Some (b_total b),
       l_advance := Some (b_advance_required b), l_balance := Some (b_balance_due b),
       l_address := address_text (b_address_snapshot b),
       l_city := or_str (snapshot_text ''city'' (b_address_snapshot b)) (l_city l),
       l_pincode := or_str (snapshot_text ''postal_code'' (b_address_snapshot b)) (l_pincode l),
       l_preferred_date := Some (b_service_date b), l_preferred_slot := slot_text sl\<rparr>"

text \<open>
  Not one transaction: when the second save is refused, the upsert before it stays. The customer and
  the slot are the rows the foreign keys point to.
\<close>

definition link_booking_to_lead ::
  "timestamp \<Rightarrow> booking \<Rightarrow> request option \<Rightarrow> 'x leads_db_scheme \<Rightarrow> (error + lead) \<times> 'x leads_db_scheme" where
  "link_booking_to_lead now b rq s =
     (case (get_user (b_customer b) s, get_slot (b_slot b) s) of
        (Some u, Some sl) \<Rightarrow>
          (case upsert_lead now (u_phone u) (customer_name u s) (Some (b_service b)) (Some (u_id u))
                  \<lparr>le_source = LSO_CHECKOUT, le_funnel = LF_BOOKED,
                   le_payment = (if b_advance_required b > 0 then LP_PENDING else LP_NOT_REQUIRED),
                   le_action = LA_BOOKING_CREATED,
                   le_note = ''Booking '' @ b_number b @ '' created.''\<rparr> rq s of
             Inl e \<Rightarrow> (Inl e, s)
           | Inr (l, s1) \<Rightarrow>
               (case save_lead now (booked_lead b sl l) s1 of
                  Inl e \<Rightarrow> (Inl e, s1)
                | Inr (l2, s2) \<Rightarrow> (Inr l2, s2)))
      | _ \<Rightarrow> (Inl (DoesNotExist ''User''), s))"

definition lead_of_booking :: "nat \<Rightarrow> 'x leads_db_scheme \<Rightarrow> lead option" where
  "lead_of_booking k s =
     max_row l_updated_at
       (filter (\<lambda>l. l_pending_booking l = Some k \<or> l_converted_booking l = Some k) (leads s))"

definition paid_lead :: "timestamp \<Rightarrow> nat \<Rightarrow> lead \<Rightarrow> lead" where
  "paid_lead now k l =
     l\<lparr>l_status := LS_CONVERTED, l_converted_booking := Some k, l_pending_booking := None,
       l_payment := LP_PAID, l_funnel := LF_PAID, l_last_activity_at := now\<rparr>"

definition lead_states :: "lead \<Rightarrow> (string \<times> json) list" where
  "lead_states l =
     [(''status'', JStr (lead_status_str (l_status l))),
      (''payment_status'', JStr (lead_payment_str (l_payment l))),
      (''funnel_status'', JStr (funnel_str (l_funnel l)))]"

definition mark_booking_payment_paid ::
  "timestamp \<Rightarrow> booking \<Rightarrow> nat \<Rightarrow> nat option \<Rightarrow> 'x leads_db_scheme \<Rightarrow>
     (error + lead) \<times> 'x leads_db_scheme" where
  "mark_booking_payment_paid now b payment performed_by s =
     (let (found, s1) = (case lead_of_booking (b_id b) s of
                           Some l \<Rightarrow> (Inr l, s)
                         | None \<Rightarrow> link_booking_to_lead now b None s)
      in case found of
           Inl e \<Rightarrow> (Inl e, s1)
         | Inr l \<Rightarrow>
             (case save_lead now (paid_lead now (b_id b) l) s1 of
                Inl e \<Rightarrow> (Inl e, s1)
              | Inr (l2, s2) \<Rightarrow>
                  let s3 = (if l_status l = LS_CONVERTED then s2
                            else write_lead_history (l_id l2) (Some (l_status l)) LS_CONVERTED performed_by
                                   (''Payment confirmed for work order '' @ b_number b @ ''.'') s2)
                  in (Inr l2, record_lead_activity (l_id l2) LA_PAYMENT_CONFIRMED (JObj (lead_states l))
                                (JObj (lead_states l2 @ [(''payment_id'', JStr (nat_str payment))]))
                                ''Payment verified.'' performed_by None s3)))"

section \<open>Ranks as orders\<close>

text \<open>
  Both pairs of a rank and a maximum have the same shape: the candidate replaces the current value
  only when it ranks higher.
\<close>

locale ranked_max =
  fixes rank :: "'a \<Rightarrow> nat"
    and pick :: "'a \<Rightarrow> 'a \<Rightarrow> 'a"
  assumes pick: "pick current candidate = (if rank candidate > rank current then candidate else current)"
    and rank_inj: "rank a = rank b \<Longrightarrow> a = b"
begin

lemma rank_pick: "rank (pick a b) = max (rank a) (rank b)"
  by (simp add: pick max_def)

lemma pick_ge: "rank a \<le> rank (pick a b)" "rank b \<le> rank (pick a b)"
  by (simp_all add: rank_pick)

lemma pick_idem: "pick a a = a"
  by (simp add: pick)

lemma pick_comm: "pick a b = pick b a"
  by (rule rank_inj) (simp add: rank_pick max.commute)

lemma pick_assoc: "pick (pick a b) c = pick a (pick b c)"
  by (rule rank_inj) (simp add: rank_pick max.assoc)

text \<open>The order in which candidates arrive does not matter.\<close>

lemma fold_pick: "rank (fold (\<lambda>c a. pick a c) cs a) = Max (insert (rank a) (rank ` set cs))"
proof (induction cs arbitrary: a)
  case (Cons c cs)
  have "Max (insert (rank (pick a c)) (rank ` set cs)) = Max (insert (rank a) (insert (rank c) (rank ` set cs)))"
    by (cases "set cs = {}") (simp_all add: rank_pick max.assoc)
  with Cons show ?case by simp
qed simp

end

lemma funnel_rank_inj: "funnel_rank a = funnel_rank b \<Longrightarrow> a = b"
  by (cases a; cases b) simp_all

lemma payment_rank_inj: "payment_rank a = payment_rank b \<Longrightarrow> a = b"
  by (cases a; cases b) simp_all

interpretation funnel: ranked_max funnel_rank max_funnel_status
  by unfold_locales (simp_all add: max_funnel_status_def funnel_rank_inj)

interpretation lead_pay: ranked_max payment_rank max_payment_status
  by unfold_locales (simp_all add: max_payment_status_def payment_rank_inj)

text \<open>The steps of the funnel are a linear order, and the code's maximum is the maximum of that order.\<close>

instantiation funnel_status :: linorder
begin

definition less_eq_funnel_status :: "funnel_status \<Rightarrow> funnel_status \<Rightarrow> bool" where
  "less_eq_funnel_status a b = (funnel_rank a \<le> funnel_rank b)"

definition less_funnel_status :: "funnel_status \<Rightarrow> funnel_status \<Rightarrow> bool" where
  "less_funnel_status a b = (funnel_rank a < funnel_rank b)"

instance
  by intro_classes (auto simp: less_eq_funnel_status_def less_funnel_status_def dest: funnel_rank_inj)

end

lemma max_funnel_status_max: "max_funnel_status a b = max a b"
  by (auto simp: max_funnel_status_def max_def less_eq_funnel_status_def dest: funnel_rank_inj)

section \<open>Lemmas: the tables the lead services leave alone\<close>

definition lead_frame :: "'x leads_db_scheme \<Rightarrow> 'x leads_db_scheme \<Rightarrow> bool" where
  "lead_frame s s' =
     (users s' = users s \<and> customer_profiles s' = customer_profiles s \<and> services s' = services s \<and>
      categories s' = categories s \<and> service_areas s' = service_areas s \<and> addresses s' = addresses s \<and>
      bookings s' = bookings s \<and> booking_histories s' = booking_histories s \<and>
      cart_items s' = cart_items s \<and> checkout_requests s' = checkout_requests s \<and>
      number_sequences s' = number_sequences s \<and> time_slots s' = time_slots s \<and> closures s' = closures s \<and>
      payments s' = payments s \<and> webhook_events s' = webhook_events s \<and>
      invoice_sequences s' = invoice_sequences s \<and> invoices s' = invoices s \<and>
      on_commit s' = on_commit s \<and> next_id s \<le> next_id s' \<and> leads_db.more s' = leads_db.more s)"

lemma lead_frame_refl [simp]: "lead_frame s s"
  by (simp add: lead_frame_def)

lemma lead_frame_trans: "lead_frame s t \<Longrightarrow> lead_frame t u \<Longrightarrow> lead_frame s u"
  by (simp add: lead_frame_def)

lemma record_lead_activity_frame:
  "lead_frame s (record_lead_activity k a p n t by rq s) \<and> leads (record_lead_activity k a p n t by rq s) = leads s"
  by (simp add: record_lead_activity_def lead_frame_def bump_id_def)

lemma write_lead_history_frame:
  "lead_frame s (write_lead_history k f t by n s) \<and> leads (write_lead_history k f t by n s) = leads s"
  by (simp add: write_lead_history_def lead_frame_def bump_id_def)

section \<open>Lemmas: saving a lead\<close>

text \<open>
  The invariant of the leads: distinct keys below the supply, one active lead for a number and a
  service, and a converted lead has its booking.
\<close>

definition same_interest :: "lead \<Rightarrow> lead \<Rightarrow> bool" where
  "same_interest l m = (l_mobile l = l_mobile m \<and> l_service l = l_service m)"

definition one_active_lead :: "lead list \<Rightarrow> bool" where
  "one_active_lead ls =
     list_all (\<lambda>l. list_all (\<lambda>m. is_active_lead l \<and> is_active_lead m \<and> same_interest l m \<longrightarrow>
                                  l_id l = l_id m) ls) ls"

definition lead_booking_ok :: "lead \<Rightarrow> bool" where
  "lead_booking_ok l = (l_status l = LS_CONVERTED \<longleftrightarrow> l_converted_booking l \<noteq> None)"

definition leads_ok :: "'x leads_db_scheme \<Rightarrow> bool" where
  "leads_ok s =
     (unique_rows l_id (leads s) \<and> list_all (\<lambda>l. l_id l < next_id s) (leads s) \<and>
      one_active_lead (leads s) \<and> list_all lead_booking_ok (leads s))"

text \<open>No message at all means that every check of the row passed.\<close>

lemma column_errors_Nil:
  "foldr column_error cs errs = [] \<longleftrightarrow>
     (\<forall>(name, required, n, x)\<in>set cs. length x \<le> n \<and> (required \<longrightarrow> x \<noteq> '''')) \<and> errs = []"
  by (induction cs) (auto simp: not_less)

lemma amount_errors_Nil:
  "foldr amount_error vs errs = [] \<longleftrightarrow> (\<forall>(name, v)\<in>set vs. case v of None \<Rightarrow> True | Some x \<Rightarrow> \<bar>x\<bar> < 10000000000) \<and> errs = []"
  by (induction vs) (auto simp: not_le split: option.splits)

lemma lead_full_clean_Nil:
  "lead_full_clean l s = [] \<longleftrightarrow>
     (\<forall>(name, required, n, x)\<in>set (lead_columns l). length x \<le> n \<and> (required \<longrightarrow> x \<noteq> '''')) \<and>
     (\<forall>(name, v)\<in>set (lead_amounts l). case v of None \<Rightarrow> True | Some x \<Rightarrow> \<bar>x\<bar> < 10000000000) \<and>
     \<not> (l_pending_booking l \<noteq> None \<and>
        list_ex (\<lambda>m. l_pending_booking m = l_pending_booking l \<and> l_id m \<noteq> l_id l) (leads s)) \<and>
     \<not> (l_converted_booking l \<noteq> None \<and>
        list_ex (\<lambda>m. l_converted_booking m = l_converted_booking l \<and> l_id m \<noteq> l_id l) (leads s)) \<and>
     lead_clean l s = []"
  by (simp only: lead_full_clean_def column_errors_Nil amount_errors_Nil add_error_Nil)

lemma lead_clean_Nil:
  "lead_full_clean l s = [] \<Longrightarrow>
     lead_booking_ok l \<and> (is_active_lead l \<longrightarrow> \<not> list_ex (duplicate_lead l) (leads s))"
  unfolding lead_full_clean_Nil by (auto simp: lead_clean_def lead_booking_ok_def)

lemma save_lead_Inr:
  assumes "save_lead now l s = Inr (m, s')"
  shows "m = l\<lparr>l_updated_at := now\<rparr> \<and> lead_full_clean m s = [] \<and> lead_frame s s' \<and> next_id s' = next_id s \<and>
         leads s' = (if get_lead (l_id l) s = None then leads s @ [m] else save_row l_id m (leads s))"
  using assms
  by (auto simp: save_lead_def Let_def lead_frame_def insert_lead_row_def save_lead_row_def
      split: list.splits if_splits)

lemma save_lead_get:
  "save_lead now l s = Inr (m, s') \<Longrightarrow> get_lead (l_id m) s' = Some m"
  using save_lead_Inr [of now l s m s']
  by (cases "get_lead (l_id l) s") (auto simp: get_lead_def find_row_append table_simps)

lemma one_active_leadD:
  "one_active_lead ls \<Longrightarrow> l \<in> set ls \<Longrightarrow> m \<in> set ls \<Longrightarrow> is_active_lead l \<Longrightarrow> is_active_lead m \<Longrightarrow>
     same_interest l m \<Longrightarrow> l_id l = l_id m"
  unfolding one_active_lead_def list_all_iff by blast

lemma save_lead_ok:
  assumes saved: "save_lead now l s = Inr (m, s')" and ok: "leads_ok s" and bound: "l_id l < next_id s"
  shows "leads_ok s'"
proof -
  note m = save_lead_Inr [OF saved]
  then have id: "l_id m = l_id l" by simp
  have clean: "lead_booking_ok m" "is_active_lead m \<longrightarrow> \<not> list_ex (duplicate_lead m) (leads s)"
    using m lead_clean_Nil by blast+
  have rows: "x = m \<or> (x \<in> set (leads s) \<and> l_id x \<noteq> l_id m)" if "x \<in> set (leads s')" for x
    using that m by (auto simp: in_set_save_row get_lead_def find_row_None_iff image_iff split: if_splits)
  have free: "\<not> (is_active_lead m \<and> is_active_lead x \<and> same_interest m x)" if "x \<in> set (leads s)" "l_id x \<noteq> l_id m" for x
    using clean(2) that by (auto simp: list_ex_iff duplicate_lead_def same_interest_def)
  have "l_id x = l_id y" if xy: "x \<in> set (leads s')" "y \<in> set (leads s')" "is_active_lead x" "is_active_lead y"
    "same_interest x y" for x y
  proof -
    have "same_interest y x" using xy(5) by (simp add: same_interest_def)
    with rows [OF xy(1)] rows [OF xy(2)] free xy ok show ?thesis
      by (auto simp: leads_ok_def dest: one_active_leadD)
  qed
  then have "one_active_lead (leads s')"
    unfolding one_active_lead_def list_all_iff by blast
  moreover have "unique_rows l_id (leads s')"
    using m ok by (auto simp: leads_ok_def get_lead_def find_row_None_iff)
  moreover have "l_id x < next_id s' \<and> lead_booking_ok x" if "x \<in> set (leads s')" for x
    using rows [OF that] ok bound id clean(1) m by (auto simp: leads_ok_def list_all_iff)
  ultimately show ?thesis by (simp add: leads_ok_def list_all_iff)
qed

lemma leads_ok_more_ids: "leads_ok s \<Longrightarrow> leads s' = leads s \<Longrightarrow> next_id s \<le> next_id s' \<Longrightarrow> leads_ok s'"
  by (auto simp: leads_ok_def list_all_iff)

section \<open>Lemmas: upserting\<close>

lemma active_lead_forD:
  "active_lead_for mobile sv s = Some l \<Longrightarrow>
     l \<in> set (leads s) \<and> l_mobile l = mobile \<and> l_service l = sv \<and> is_active_lead l"
  unfolding active_lead_for_def by (drule max_row_SomeD) auto

text \<open>The lead an upsert starts from, before the event is merged into it.\<close>

definition upsert_base :: "timestamp \<Rightarrow> string \<Rightarrow> string \<Rightarrow> nat option \<Rightarrow> nat option \<Rightarrow> lead_event \<Rightarrow>
    'x leads_db_scheme \<Rightarrow> lead" where
  "upsert_base now mobile name sv customer ev s =
     (case active_lead_for mobile sv s of
        Some l \<Rightarrow> l
      | None \<Rightarrow> (blank_lead (new_id s) now)\<lparr>l_customer := customer, l_customer_name := or_str name mobile,
                  l_mobile := mobile, l_service := sv, l_source := le_source ev, l_funnel := le_funnel ev,
                  l_payment := le_payment ev\<rparr>)"

lemma upsert_lead_Inr:
  assumes up: "upsert_lead now mobile name sv customer ev rq s = Inr (l, s')"
  defines "b \<equiv> upsert_base now mobile name sv customer ev s"
    and "s0 \<equiv> (if active_lead_for mobile sv s = None then bump_id s else s)"
  shows "\<exists>l1 s1. save_lead now l1 s0 = Inr (l, s1) \<and> l_id l1 = l_id b \<and> l_status l1 = l_status b \<and>
           l_mobile l1 = l_mobile b \<and> l_service l1 = l_service b \<and>
           l_converted_booking l1 = l_converted_booking b \<and>
           l_funnel l1 = max_funnel_status (l_funnel b) (le_funnel ev) \<and>
           l_payment l1 = max_payment_status (l_payment b) (le_payment ev) \<and>
           lead_frame s1 s' \<and> leads s' = leads s1"
proof -
  let ?l1 = "b\<lparr>l_customer := (case l_customer b of Some c \<Rightarrow> Some c | None \<Rightarrow> customer),
      l_customer_name := or_str name (or_str (l_customer_name b) mobile),
      l_source := (if active_lead_for mobile sv s = None then le_source ev else l_source b),
      l_funnel := max_funnel_status (l_funnel b) (le_funnel ev),
      l_payment := max_payment_status (l_payment b) (le_payment ev), l_last_activity_at := now\<rparr>"
  let ?p = "if active_lead_for mobile sv s = None then JObj [] else lead_values b"
  have "upsert_lead now mobile name sv customer ev rq s =
      (case save_lead now ?l1 s0 of
         Inl e \<Rightarrow> Inl e
       | Inr (l2, s1) \<Rightarrow>
           Inr (l2, record_lead_activity (l_id l2) (le_action ev) ?p (lead_values l2) (le_note ev) customer rq s1))"
    by (cases "active_lead_for mobile sv s")
      (simp_all add: upsert_lead_def Let_def b_def s0_def upsert_base_def cong: sum.case_cong)
  then obtain s1 where "save_lead now ?l1 s0 = Inr (l, s1)"
    and "s' = record_lead_activity (l_id l) (le_action ev) ?p (lead_values l) (le_note ev) customer rq s1"
    using up by (auto split: sum.splits)
  with record_lead_activity_frame [of s1 "l_id l" "le_action ev" ?p] show ?thesis
    by (intro exI [of _ ?l1] exI [of _ s1]) simp
qed

lemma upsert_base_props:
  "l_mobile (upsert_base now mobile name sv customer ev s) = mobile"
  "l_service (upsert_base now mobile name sv customer ev s) = sv"
  "is_active_lead (upsert_base now mobile name sv customer ev s)"
  by (auto simp: upsert_base_def blank_lead_def is_active_lead_def [of "_\<lparr>l_id := _\<rparr>"]
      split: option.splits dest: active_lead_forD) (auto simp: is_active_lead_def)

lemma upsert_lead_frame:
  assumes "upsert_lead now mobile name sv customer ev rq s = Inr (l, s')"
  shows "lead_frame s s'"
proof -
  have bump: "lead_frame s (if c then bump_id s else s)" for c
    by (simp add: lead_frame_def bump_id_def)
  from upsert_lead_Inr [OF assms] show ?thesis
    using save_lead_Inr bump lead_frame_trans by blast
qed

lemma upsert_lead_ok:
  assumes up: "upsert_lead now mobile name sv customer ev rq s = Inr (l, s')" and ok: "leads_ok s"
  shows "leads_ok s' \<and> get_lead (l_id l) s' = Some l"
proof -
  let ?s0 = "if active_lead_for mobile sv s = None then bump_id s else s"
  from upsert_lead_Inr [OF up] obtain l1 s1 where
    saved: "save_lead now l1 ?s0 = Inr (l, s1)" and rest: "lead_frame s1 s'" "leads s' = leads s1"
    and id: "l_id l1 = l_id (upsert_base now mobile name sv customer ev s)"
    by blast
  have ok0: "leads_ok ?s0" using ok leads_ok_more_ids [OF ok, of "bump_id s"] by (simp add: bump_id_def)
  have "l_id l1 < next_id ?s0"
    using id ok by (auto simp: upsert_base_def blank_lead_def bump_id_def new_id_def leads_ok_def list_all_iff
        dest: active_lead_forD split: option.splits)
  with saved ok0 have "leads_ok s1" by (rule save_lead_ok)
  with rest save_lead_get [OF saved] show ?thesis
    using leads_ok_more_ids [of s1 s'] by (simp add: lead_frame_def get_lead_def)
qed

section \<open>Lemmas: bookings and their leads\<close>

lemma get_lead_bound: "leads_ok s \<Longrightarrow> get_lead k s = Some l \<Longrightarrow> l_id l < next_id s"
  by (auto simp: leads_ok_def list_all_iff dest: lead_table.get_in_rows)

lemma link_booking_to_lead_ok:
  assumes "link_booking_to_lead now b rq s = (r, s')"
  shows "lead_frame s s' \<and>
         (leads_ok s \<longrightarrow> leads_ok s' \<and> (\<forall>l. r = Inr l \<longrightarrow> get_lead (l_id l) s' = Some l))"
proof (cases "get_user (b_customer b) s")
  case None
  with assms show ?thesis by (auto simp: link_booking_to_lead_def)
next
  case (Some u)
  show ?thesis
  proof (cases "get_slot (b_slot b) s")
    case None
    with assms Some show ?thesis by (auto simp: link_booking_to_lead_def)
  next
    case (Some sl)
    define up where "up = upsert_lead now (u_phone u) (customer_name u s) (Some (b_service b)) (Some (u_id u))
      \<lparr>le_source = LSO_CHECKOUT, le_funnel = LF_BOOKED,
       le_payment = (if b_advance_required b > 0 then LP_PENDING else LP_NOT_REQUIRED),
       le_action = LA_BOOKING_CREATED, le_note = ''Booking '' @ b_number b @ '' created.''\<rparr> rq s"
    have step: "(r, s') = (case up of Inl e \<Rightarrow> (Inl e, s)
        | Inr (l, s1) \<Rightarrow> (case save_lead now (booked_lead b sl l) s1 of
                             Inl e \<Rightarrow> (Inl e, s1) | Inr (l2, s2) \<Rightarrow> (Inr l2, s2)))"
      using assms Some \<open>get_user (b_customer b) s = Some u\<close> by (simp add: link_booking_to_lead_def up_def)
    show ?thesis
    proof (cases up)
      case (Inl e)
      with step show ?thesis by simp
    next
      case (Inr z)
      then obtain l s1 where up_eq: "up = Inr (l, s1)" by (cases z) simp
      note frame1 = upsert_lead_frame [OF up_eq [unfolded up_def]]
      note ok1 = upsert_lead_ok [OF up_eq [unfolded up_def]]
      show ?thesis
      proof (cases "save_lead now (booked_lead b sl l) s1")
        case (Inl e)
        with step up_eq frame1 ok1 show ?thesis by simp
      next
        case (Inr w)
        then obtain l2 s2 where saved: "save_lead now (booked_lead b sl l) s1 = Inr (l2, s2)" by (cases w) simp
        have "leads_ok s2 \<and> get_lead (l_id l2) s2 = Some l2" if "leads_ok s"
          using save_lead_ok [OF saved] save_lead_get [OF saved] ok1 [OF that] get_lead_bound
          by (auto simp: booked_lead_def)
        with step up_eq saved frame1 save_lead_Inr [OF saved] show ?thesis
          by (auto intro: lead_frame_trans)
      qed
    qed
  qed
qed

lemma lead_of_bookingD:
  "lead_of_booking k s = Some l \<Longrightarrow>
     l \<in> set (leads s) \<and> (l_pending_booking l = Some k \<or> l_converted_booking l = Some k)"
  unfolding lead_of_booking_def by (drule max_row_SomeD) auto

lemma mark_booking_payment_paid_ok:
  assumes marked: "mark_booking_payment_paid now b pay by s = (r, s')"
  shows "lead_frame s s' \<and> (leads_ok s \<longrightarrow> leads_ok s' \<and> (\<forall>l. r = Inr l \<longrightarrow>
           get_lead (l_id l) s' = Some l \<and> l_status l = LS_CONVERTED \<and> l_converted_booking l = Some (b_id b) \<and>
           l_payment l = LP_PAID \<and> l_funnel l = LF_PAID))"
proof -
  obtain found s1 where found: "(found, s1) = (case lead_of_booking (b_id b) s of
      Some l \<Rightarrow> (Inr l, s) | None \<Rightarrow> link_booking_to_lead now b None s)"
    by (metis surj_pair)
  have start: "lead_frame s s1 \<and> (leads_ok s \<longrightarrow> leads_ok s1 \<and> (\<forall>l. found = Inr l \<longrightarrow> l_id l < next_id s1))"
  proof (cases "lead_of_booking (b_id b) s")
    case None
    with found link_booking_to_lead_ok [of now b None s found s1] show ?thesis
      using get_lead_bound by auto
  next
    case (Some l)
    with found lead_of_bookingD [OF Some] show ?thesis by (auto simp: leads_ok_def list_all_iff)
  qed
  show ?thesis
  proof (cases found)
    case (Inl e)
    with marked found start show ?thesis by (auto simp: mark_booking_payment_paid_def split: prod.splits)
  next
    case (Inr l)
    show ?thesis
    proof (cases "save_lead now (paid_lead now (b_id b) l) s1")
      case (Inl e)
      with Inr marked found [symmetric] start show ?thesis by (auto simp: mark_booking_payment_paid_def Let_def)
    next
      case (Inr w)
      then obtain l2 s2 where saved: "save_lead now (paid_lead now (b_id b) l) s1 = Inr (l2, s2)" by (cases w) simp
      obtain s3 a p n t by' where s': "r = Inr l2" "s' = record_lead_activity (l_id l2) a p n t by' None s3"
        and s3: "lead_frame s2 s3 \<and> leads s3 = leads s2"
        using marked found [symmetric] \<open>found = Inr l\<close> saved write_lead_history_frame [of s2]
        by (auto simp: mark_booking_payment_paid_def Let_def split: if_splits)
      have same: "lead_frame s2 s' \<and> leads s' = leads s2"
        using s' s3 record_lead_activity_frame [of s3] lead_frame_trans by fastforce
      have "leads_ok s' \<and> get_lead (l_id l2) s' = Some l2" if "leads_ok s"
      proof -
        have "leads_ok s2"
          using save_lead_ok [OF saved] start that \<open>found = Inr l\<close> by (simp add: paid_lead_def)
        with same have "leads_ok s'" using leads_ok_more_ids by (fastforce simp: lead_frame_def)
        with same save_lead_get [OF saved] show ?thesis by (simp add: get_lead_def)
      qed
      moreover have "l_status l2 = LS_CONVERTED \<and> l_converted_booking l2 = Some (b_id b) \<and>
          l_payment l2 = LP_PAID \<and> l_funnel l2 = LF_PAID"
        using save_lead_Inr [OF saved] by (simp add: paid_lead_def)
      moreover have "lead_frame s s'"
        using start save_lead_Inr [OF saved] same lead_frame_trans by blast
      ultimately show ?thesis using s' by simp
    qed
  qed
qed

section \<open>Properties\<close>

definition sample_lead :: "nat \<Rightarrow> lead" where
  "sample_lead k = (blank_lead k 0)\<lparr>l_customer_name := ''Asha'', l_mobile := ''+919876543210'', l_service := Some 4\<rparr>"

definition sample_leads_db :: "user list \<Rightarrow> booking list \<Rightarrow> payment list \<Rightarrow> lead list \<Rightarrow> leads_db" where
  "sample_leads_db us bs ps ls = payments_db.extend ((sample_payments_db bs ps)\<lparr>users := us\<rparr>)
     \<lparr>leads = ls, lead_activities = [], lead_histories = []\<rparr>"

text \<open>Interest is merged, not duplicated: an upsert keeps one active lead for a number and a
  service, uses the active lead it finds, and moves the funnel and the payment step only forward, to at
  least what the event says.\<close>

theorem upsert_merges_interest:
  assumes "upsert_lead now mobile name sv customer ev rq s = Inr (l, s')" and "leads_ok s"
  shows "leads_ok s' \<and> get_lead (l_id l) s' = Some l \<and> is_active_lead l \<and> l_mobile l = mobile \<and> l_service l = sv \<and>
         funnel_rank (le_funnel ev) \<le> funnel_rank (l_funnel l) \<and>
         payment_rank (le_payment ev) \<le> payment_rank (l_payment l) \<and>
         (\<forall>old. active_lead_for mobile sv s = Some old \<longrightarrow>
            l_id l = l_id old \<and> length (leads s') = length (leads s) \<and>
            funnel_rank (l_funnel old) \<le> funnel_rank (l_funnel l) \<and>
            payment_rank (l_payment old) \<le> payment_rank (l_payment l))"
proof -
  let ?b = "upsert_base now mobile name sv customer ev s"
  obtain l1 s1 where saved: "save_lead now l1 (if active_lead_for mobile sv s = None then bump_id s else s) = Inr (l, s1)"
    and l1: "l_id l1 = l_id ?b" "l_status l1 = l_status ?b" "l_mobile l1 = l_mobile ?b" "l_service l1 = l_service ?b"
      "l_funnel l1 = max_funnel_status (l_funnel ?b) (le_funnel ev)"
      "l_payment l1 = max_payment_status (l_payment ?b) (le_payment ev)"
    and s1: "leads s' = leads s1"
    using upsert_lead_Inr [OF assms(1)] by blast
  have l: "l = l1\<lparr>l_updated_at := now\<rparr>" using save_lead_Inr [OF saved] by blast
  have "l_id l = l_id old \<and> length (leads s') = length (leads s) \<and>
        funnel_rank (l_funnel old) \<le> funnel_rank (l_funnel l) \<and>
        payment_rank (l_payment old) \<le> payment_rank (l_payment l)" if old: "active_lead_for mobile sv s = Some old" for old
  proof -
    have b: "?b = old" using old by (simp add: upsert_base_def)
    have "get_lead (l_id old) s \<noteq> None"
      using active_lead_forD [OF old] by (auto simp: get_lead_def find_row_None_iff)
    then have "length (leads s') = length (leads s)"
      using save_lead_Inr [OF saved] old l1 b s1 by auto
    with l l1 b show ?thesis by (simp add: funnel.pick_ge lead_pay.pick_ge)
  qed
  moreover have "is_active_lead l"
    using l l1(2) upsert_base_props(3) [of now mobile name sv customer ev s] by (simp add: is_active_lead_def)
  ultimately show ?thesis
    using upsert_lead_ok [OF assms] l l1 by (simp add: upsert_base_props funnel.pick_ge lead_pay.pick_ge)
qed

theorem upsert_merges_interest_witness:
  "\<exists>l s'. upsert_lead 5 ''+919876543210'' ''Asha'' (Some 4) None
            \<lparr>le_source = LSO_CART, le_funnel = LF_CART_ADDED, le_payment = LP_NOT_REQUIRED,
             le_action = LA_ADDED_TO_CART, le_note = ''''\<rparr> None (sample_leads_db [] [] [] [sample_lead 41]) = Inr (l, s') \<and>
          l_id l = 41 \<and> l_funnel l = LF_CART_ADDED \<and> leads_ok s'"
proof -
  let ?ev = "\<lparr>le_source = LSO_CART, le_funnel = LF_CART_ADDED, le_payment = LP_NOT_REQUIRED,
             le_action = LA_ADDED_TO_CART, le_note = ''''\<rparr>"
  let ?r = "upsert_lead 5 ''+919876543210'' ''Asha'' (Some 4) None ?ev None (sample_leads_db [] [] [] [sample_lead 41])"
  have r: "\<not> isl ?r \<and> l_id (fst (projr ?r)) = 41 \<and> l_funnel (fst (projr ?r)) = LF_CART_ADDED" by code_simp
  then obtain l s' where s': "?r = Inr (l, s')" by (blast dest: result_cases)
  have "leads_ok (sample_leads_db [] [] [] [sample_lead 41])" by code_simp
  from upsert_merges_interest [OF s' this] s' r show ?thesis by force
qed

text \<open>A payment that is recorded on a booking's lead converts it: the lead that results is stored,
  converted, paid and linked to the booking, the leads stay consistent, and nothing outside the lead
  tables changes.\<close>

theorem payment_converts_lead:
  assumes "mark_booking_payment_paid now b pay by s = (Inr l, s')" and "leads_ok s"
  shows "leads_ok s' \<and> get_lead (l_id l) s' = Some l \<and> l_status l = LS_CONVERTED \<and>
         l_converted_booking l = Some (b_id b) \<and> l_payment l = LP_PAID \<and> l_funnel l = LF_PAID \<and>
         bookings s' = bookings s \<and> payments s' = payments s \<and> users s' = users s"
  using mark_booking_payment_paid_ok [OF assms(1)] assms(2) by (simp add: lead_frame_def)

theorem payment_converts_lead_witness:
  "\<exists>l s'. mark_booking_payment_paid 5 (sample_booking 7 BS_CONFIRMED) 31 None
            (sample_leads_db [] [] [] [(sample_lead 41)\<lparr>l_pending_booking := Some 7\<rparr>]) = (Inr l, s') \<and>
          l_status l = LS_CONVERTED"
proof -
  let ?s = "sample_leads_db [] [] [] [(sample_lead 41)\<lparr>l_pending_booking := Some 7\<rparr>]"
  let ?r = "mark_booking_payment_paid 5 (sample_booking 7 BS_CONFIRMED) 31 None ?s"
  have "\<not> isl (fst ?r)" by code_simp
  then obtain l s' where s': "?r = (Inr l, s')" by (cases ?r; cases "fst ?r") auto
  have "leads_ok ?s" by code_simp
  from payment_converts_lead [OF s' this] s' show ?thesis by blast
qed

end
