(* ===== verification/Bookings.thy ===== *)
theory Bookings
  imports Leads
begin

text \<open>
  The booking services, \<open>apps/bookings/services.py\<close>: creating a booking on a locked slot, its number
  and its amounts, and the operations that move it from payment to closure, each writing the status
  history.
\<close>

record booking_config =
  cfg_require_balance :: bool
  cfg_cancel_hours :: int
  cfg_reschedule_hours :: int

section \<open>Numbers\<close>

definition period_of :: "date \<Rightarrow> string" where
  "period_of d =
     pad_left 2 CHR ''0'' (nat_str (nat (year_of d mod 100))) @
     pad_left 2 CHR ''0'' (nat_str (nat (month_of d)))"

fun greatest_str :: "string list \<Rightarrow> string option" where
  "greatest_str [] = None"
| "greatest_str (x # xs) =
     (case greatest_str xs of None \<Rightarrow> Some x | Some y \<Rightarrow> if str_less x y then Some y else Some x)"

text \<open>
  A sequence created for a month that already has numbers starts at the greatest of them, if that
  has the form of a number.
\<close>

definition initial_serial :: "string \<Rightarrow> 'x bookings_db_scheme \<Rightarrow> nat" where
  "initial_serial period s =
     (case greatest_str (filter (starts_with (''PS'' @ period)) (map b_number (bookings s))) of
        None \<Rightarrow> 0
      | Some latest \<Rightarrow>
          let tail = drop (length latest - 4) latest in
          if length latest = 10 \<and> list_all is_digit tail then parse_nat tail else 0)"

definition sequence_of :: "string \<Rightarrow> 'x bookings_db_scheme \<Rightarrow> number_sequence option" where
  "sequence_of period s = find_row ns_period period (number_sequences s)"

definition generate_booking_number ::
  "date \<Rightarrow> 'x bookings_db_scheme \<Rightarrow> error + (string \<times> 'x bookings_db_scheme)" where
  "generate_booking_number d s =
     (let period = period_of d;
          (seq, s1) =
            (case sequence_of period s of
               Some q \<Rightarrow> (q, s)
             | None \<Rightarrow>
                 let q = \<lparr>ns_period = period, ns_serial = initial_serial period s\<rparr>
                 in (q, s\<lparr>number_sequences := number_sequences s @ [q]\<rparr>))
      in if ns_serial seq \<ge> 9999
         then Inl (ValidationError ''The monthly booking number range has been exhausted.'')
         else
           let seq2 = seq\<lparr>ns_serial := ns_serial seq + 1\<rparr>
           in Inr (''PS'' @ period @ pad_left 4 CHR ''0'' (nat_str (ns_serial seq2)),
                   s1\<lparr>number_sequences := save_row ns_period seq2 (number_sequences s1)\<rparr>))"

section \<open>Creating a booking\<close>

definition get_active_service :: "nat \<Rightarrow> 'x catalogue_db_scheme \<Rightarrow> error + service" where
  "get_active_service k s =
     (let missing = Inl (ValidationError ''Service is not available.'') in
      case get_service k s of
        None \<Rightarrow> missing
      | Some v \<Rightarrow>
          if sv_active v \<and> (case get_category (sv_category v) s of None \<Rightarrow> False | Some c \<Rightarrow> ca_active c)
          then Inr v else missing)"

definition get_customer_address :: "nat \<Rightarrow> nat \<Rightarrow> 'x locations_db_scheme \<Rightarrow> error + address" where
  "get_customer_address customer k s =
     (let missing = Inl (ValidationError ''Address was not found.'') in
      case get_address k s of
        None \<Rightarrow> missing
      | Some a \<Rightarrow> if ad_customer a = customer \<and> ad_active a then Inr a else missing)"

definition lock_and_validate_slot ::
  "timestamp \<Rightarrow> nat \<Rightarrow> address \<Rightarrow> service \<Rightarrow> 'x scheduling_db_scheme \<Rightarrow> error + time_slot" where
  "lock_and_validate_slot now k a v s =
     (case get_active_service_area (ad_postal_code a) s of
        None \<Rightarrow> Inl (ValidationError ''Address is outside the active service area.'')
      | Some area \<Rightarrow>
          if \<not> supports_service area v
          then Inl (ValidationError ''This service is not available at the selected postal code.'')
          else case lock_slot_for_reservation now k s of
            Inl (DoesNotExist m) \<Rightarrow> Inl (ValidationError ''Slot was not found.'')
          | Inl (SlotNotAvailable m) \<Rightarrow> Inl (ValidationError ''The selected slot is no longer available.'')
          | Inl e \<Rightarrow> Inl e
          | Inr sl \<Rightarrow>
              if sl_area sl \<noteq> ar_id area
              then Inl (ValidationError ''Slot does not belong to the address service area.'')
              else Inr sl)"

text \<open>Coordinates are stored with six decimal places; \<open>str\<close> writes all of them.\<close>

definition degrees_str :: "int \<Rightarrow> string" where
  "degrees_str x =
     (if x < 0 then ''-'' else '''') @ nat_str (nat (\<bar>x\<bar> div 1000000)) @ ''.'' @
     pad_left 6 CHR ''0'' (nat_str (nat (\<bar>x\<bar> mod 1000000)))"

definition build_address_snapshot :: "address \<Rightarrow> json" where
  "build_address_snapshot a =
     JObj [(''recipient_name'', JStr (ad_recipient_name a)), (''phone'', JStr (ad_phone a)),
           (''address_line_1'', JStr (ad_line_1 a)), (''address_line_2'', JStr (ad_line_2 a)),
           (''landmark'', JStr (ad_landmark a)), (''locality'', JStr (ad_locality a)),
           (''city'', JStr (ad_city a)), (''state'', JStr (ad_state a)),
           (''postal_code'', JStr (ad_postal_code a)), (''country'', JStr (ad_country a)),
           (''latitude'', case ad_latitude a of None \<Rightarrow> JNull | Some x \<Rightarrow> JStr (degrees_str x)),
           (''longitude'', case ad_longitude a of None \<Rightarrow> JNull | Some x \<Rightarrow> JStr (degrees_str x))]"

text \<open>The amounts: subtotal, discount, training fee, total, advance.\<close>

record amounts =
  am_subtotal :: money
  am_discount :: money
  am_training_fee :: money
  am_total :: money
  am_advance :: money

definition booking_amounts :: "service \<Rightarrow> nat \<Rightarrow> error + amounts" where
  "booking_amounts v quantity =
     (let q = int quantity;
          subtotal = sv_base_price v * q;
          effective_item_total = effective_price v * q;
          discount = subtotal - effective_item_total;
          fee = (if sv_training_fee_per_unit v then sv_training_fee v * q else sv_training_fee v);
          total = subtotal - discount + fee + 0;
          result = (\<lambda>advance. \<lparr>am_subtotal = subtotal, am_discount = discount, am_training_fee = fee,
                               am_total = total, am_advance = advance\<rparr>)
      in if sv_advance_type v = PERCENTAGE then
           (case sv_advance_value v of
              None \<Rightarrow> Inl (TypeError ''unsupported operand type(s) for *: Decimal and NoneType'')
            | Some pct \<Rightarrow> Inr (result (percent_of total pct)))
         else Inr (result (min (sv_advance_amount v) total)))"

record booking_request =
  br_problem :: string
  br_customer_notes :: string
  br_contact_phone :: string
  br_quantity :: nat

definition new_booking ::
  "nat \<Rightarrow> string \<Rightarrow> user \<Rightarrow> service \<Rightarrow> address \<Rightarrow> time_slot \<Rightarrow> booking_request \<Rightarrow> amounts \<Rightarrow> booking" where
  "new_booking k number u v a sl rq am =
     \<lparr>b_id = k, b_number = number, b_customer = u_id u, b_service = sv_id v, b_address = ad_id a,
      b_address_snapshot = build_address_snapshot a, b_service_date = sl_date sl, b_slot = sl_id sl,
      b_problem = br_problem rq,
      b_contact_phone = strip_str (or_str (br_contact_phone rq) (or_str (ad_phone a) (u_phone u))),
      b_quantity = br_quantity rq, b_subtotal = am_subtotal am, b_discount = am_discount am,
      b_training_fee = am_training_fee am, b_tax = 0, b_total = am_total am,
      b_advance_required = am_advance am, b_advance_paid = 0, b_balance_due = am_total am - 0,
      b_balance_collected = 0, b_status = BS_PENDING_PAYMENT, b_payment_status = PS_UNPAID,
      b_technician = None, b_customer_notes = br_customer_notes rq, b_admin_notes = '''',
      b_confirmed_at = None, b_completed_at = None, b_cancelled_at = None, b_manual = False\<rparr>"

definition create_booking_record ::
  "timestamp \<Rightarrow> user \<Rightarrow> service \<Rightarrow> address \<Rightarrow> time_slot \<Rightarrow> booking_request \<Rightarrow>
     'x bookings_db_scheme \<Rightarrow> error + (booking \<times> 'x bookings_db_scheme)" where
  "create_booking_record now u v a sl rq s =
     (case booking_amounts v (br_quantity rq) of
        Inl e \<Rightarrow> Inl e
      | Inr am \<Rightarrow>
          (case generate_booking_number (localdate now) s of
             Inl e \<Rightarrow> Inl e
           | Inr (number, s1) \<Rightarrow>
               if list_ex (\<lambda>b. b_number b = number) (bookings s1)
               then Inl (IntegrityError ''bookings_booking.booking_number'')
               else let b = new_booking (new_id s1) number u v a sl rq am
                    in Inr (b, bump_id (insert_booking b s1))))"

text \<open>
  A refused link to the lead is logged and dropped; what the link stored before it was refused
  stays in the transaction.
\<close>

definition create_booking ::
  "timestamp \<Rightarrow> user \<Rightarrow> nat \<Rightarrow> nat \<Rightarrow> nat \<Rightarrow> booking_request \<Rightarrow> 'x leads_db_scheme \<Rightarrow>
     error + (booking \<times> 'x leads_db_scheme)" where
  "create_booking now u service_id address_id slot_id rq s =
     (case get_active_service service_id s of
        Inl e \<Rightarrow> Inl e
      | Inr v \<Rightarrow>
          (case get_customer_address (u_id u) address_id s of
             Inl e \<Rightarrow> Inl e
           | Inr a \<Rightarrow>
               (case lock_and_validate_slot now slot_id a v s of
                  Inl e \<Rightarrow> Inl e
                | Inr sl \<Rightarrow>
                    (case create_booking_record now u v a sl
                            (rq\<lparr>br_problem := strip_str (br_problem rq)\<rparr>) s of
                       Inl e \<Rightarrow> Inl e
                     | Inr (b, s1) \<Rightarrow>
                         let s2 = write_status_history (b_id b) None BS_PENDING_PAYMENT (Some (u_id u))
                                    ''Booking created.'' s1
                         in Inr (b, snd (link_booking_to_lead now b None s2))))))"

section \<open>The status of a booking\<close>

definition admin_cancellable :: "booking_status \<Rightarrow> bool" where
  "admin_cancellable st =
     (st \<in> {BS_PENDING_PAYMENT, BS_PAYMENT_FAILED, BS_CONFIRMED, BS_TECHNICIAN_ASSIGNED,
            BS_TECHNICIAN_EN_ROUTE, BS_IN_PROGRESS})"

definition customer_cancellable :: "booking_status \<Rightarrow> bool" where
  "customer_cancellable st = (st \<in> {BS_PENDING_PAYMENT, BS_CONFIRMED, BS_TECHNICIAN_ASSIGNED})"

definition customer_reschedulable :: "booking_status \<Rightarrow> bool" where
  "customer_reschedulable st = (st \<in> {BS_CONFIRMED, BS_TECHNICIAN_ASSIGNED})"

definition lock_booking :: "nat \<Rightarrow> 'x bookings_db_scheme \<Rightarrow> error + booking" where
  "lock_booking k s =
     (case get_booking k s of None \<Rightarrow> Inl (ValidationError ''Booking was not found.'') | Some b \<Rightarrow> Inr b)"

definition transition_booking ::
  "booking \<Rightarrow> booking_status \<Rightarrow> nat option \<Rightarrow> string \<Rightarrow> 'x bookings_db_scheme \<Rightarrow>
     booking \<times> 'x bookings_db_scheme" where
  "transition_booking b to_status changed_by notes s =
     (let b2 = b\<lparr>b_status := to_status\<rparr>
      in (b2, write_status_history (b_id b) (Some (b_status b)) to_status changed_by notes (save_booking b2 s)))"

definition start_booking ::
  "nat \<Rightarrow> nat option \<Rightarrow> string \<Rightarrow> 'x bookings_db_scheme \<Rightarrow> error + (booking \<times> 'x bookings_db_scheme)" where
  "start_booking k by notes s =
     (case lock_booking k s of
        Inl e \<Rightarrow> Inl e
      | Inr b \<Rightarrow>
          if b_status b \<notin> {BS_TECHNICIAN_ASSIGNED, BS_TECHNICIAN_EN_ROUTE}
          then Inl (ValidationError ''Booking cannot be started from its current status.'')
          else if b_technician b = None
          then Inl (ValidationError ''A technician must be assigned before starting the booking.'')
          else Inr (transition_booking b BS_IN_PROGRESS by (or_str notes ''Booking started.'') s))"

definition mark_technician_en_route ::
  "nat \<Rightarrow> nat option \<Rightarrow> string \<Rightarrow> 'x bookings_db_scheme \<Rightarrow> error + (booking \<times> 'x bookings_db_scheme)" where
  "mark_technician_en_route k by notes s =
     (case lock_booking k s of
        Inl e \<Rightarrow> Inl e
      | Inr b \<Rightarrow>
          if b_status b \<noteq> BS_TECHNICIAN_ASSIGNED
          then Inl (ValidationError ''Booking must be assigned before the technician can start travelling.'')
          else
            let (b2, s2) = transition_booking b BS_TECHNICIAN_EN_ROUTE by (or_str notes ''Technician is en route.'') s
            in Inr (b2, emit_notification_event NE_TECHNICIAN_EN_ROUTE (Some (b_customer b2)) (booking_ref b2) [] JNull s2))"

definition complete_booking ::
  "booking_config \<Rightarrow> timestamp \<Rightarrow> nat \<Rightarrow> nat option \<Rightarrow> string \<Rightarrow> 'x bookings_db_scheme \<Rightarrow>
     error + (booking \<times> 'x bookings_db_scheme)" where
  "complete_booking cfg now k by notes s =
     (case lock_booking k s of
        Inl e \<Rightarrow> Inl e
      | Inr b \<Rightarrow>
          if b_status b \<noteq> BS_IN_PROGRESS
          then Inl (ValidationError ''Booking must be in progress before completion.'')
          else if b_technician b = None
          then Inl (ValidationError ''A technician must be assigned before completion.'')
          else if cfg_require_balance cfg \<and> b_balance_collected b < b_balance_due b
          then Inl (ValidationError ''Balance must be fully collected before completion.'')
          else
            let b2 = b\<lparr>b_status := BS_COMPLETED, b_completed_at := Some now\<rparr>;
                s2 = write_status_history k (Some (b_status b)) BS_COMPLETED by
                       (or_str notes ''Booking completed.'') (save_booking b2 s)
            in Inr (b2, emit_notification_event NE_SERVICE_COMPLETED (Some (b_customer b2)) (booking_ref b2) [] JNull s2))"

definition close_booking ::
  "nat \<Rightarrow> nat option \<Rightarrow> string \<Rightarrow> 'x bookings_db_scheme \<Rightarrow> error + (booking \<times> 'x bookings_db_scheme)" where
  "close_booking k by notes s =
     (case lock_booking k s of
        Inl e \<Rightarrow> Inl e
      | Inr b \<Rightarrow>
          if b_status b \<noteq> BS_COMPLETED
          then Inl (ValidationError ''Only a completed booking can be closed.'')
          else Inr (transition_booking b BS_CLOSED by (or_str notes ''Work order closed.'') s))"

definition validate_policy_window ::
  "timestamp \<Rightarrow> booking \<Rightarrow> int \<Rightarrow> string \<Rightarrow> 'x scheduling_db_scheme \<Rightarrow> error option" where
  "validate_policy_window now b min_hours message s =
     (case get_slot (b_slot b) s of
        None \<Rightarrow> Some (DoesNotExist ''TimeSlot'')
      | Some sl \<Rightarrow>
          if make_aware (b_service_date b) (sl_start sl) - now < min_hours * hour_us
          then Some (ValidationError message) else None)"

datatype actor = AdminActor | CustomerActor

fun actor_str :: "actor \<Rightarrow> string" where
  "actor_str AdminActor = ''admin''"
| "actor_str CustomerActor = ''customer''"

definition cancel_booking ::
  "booking_config \<Rightarrow> timestamp \<Rightarrow> nat \<Rightarrow> nat option \<Rightarrow> string \<Rightarrow> actor \<Rightarrow> 'x scheduling_db_scheme \<Rightarrow>
     error + (booking \<times> 'x scheduling_db_scheme)" where
  "cancel_booking cfg now k by notes who s =
     (case lock_booking k s of
        Inl e \<Rightarrow> Inl e
      | Inr b \<Rightarrow>
          if \<not> (if who = AdminActor then admin_cancellable (b_status b) else customer_cancellable (b_status b))
          then Inl (ValidationError ''Booking cannot be cancelled from its current status.'')
          else case (if who = CustomerActor
                     then validate_policy_window now b (cfg_cancel_hours cfg)
                            ''Booking can no longer be cancelled online.'' s
                     else None) of
            Some e \<Rightarrow> Inl e
          | None \<Rightarrow>
              let b2 = b\<lparr>b_status := BS_CANCELLED, b_cancelled_at := Some now\<rparr>;
                  s2 = write_status_history k (Some (b_status b)) BS_CANCELLED by
                         (or_str notes ''Booking cancelled.'') (save_booking b2 s)
              in Inr (b2, emit_notification_event NE_BOOKING_CANCELLED (Some (b_customer b2)) (booking_ref b2) []
                            (JObj [(''actor'', JStr (actor_str who))]) s2))"

definition reschedule_booking ::
  "booking_config \<Rightarrow> timestamp \<Rightarrow> nat \<Rightarrow> nat \<Rightarrow> nat \<Rightarrow> string \<Rightarrow> 'x scheduling_db_scheme \<Rightarrow>
     error + (booking \<times> 'x scheduling_db_scheme)" where
  "reschedule_booking cfg now k slot_id by notes s =
     (case lock_booking k s of
        Inl e \<Rightarrow> Inl e
      | Inr b \<Rightarrow>
          if b_customer b \<noteq> by then Inl (ValidationError ''Booking was not found.'')
          else if \<not> customer_reschedulable (b_status b)
          then Inl (ValidationError ''Booking cannot be rescheduled from its current status.'')
          else case validate_policy_window now b (cfg_reschedule_hours cfg)
                      ''Booking can no longer be rescheduled online.'' s of
            Some e \<Rightarrow> Inl e
          | None \<Rightarrow>
              (case (get_address (b_address b) s, get_service (b_service b) s) of
                 (Some a, Some v) \<Rightarrow>
                   (case lock_and_validate_slot now slot_id a v s of
                      Inl e \<Rightarrow> Inl e
                    | Inr sl \<Rightarrow>
                        let b2 = b\<lparr>b_slot := sl_id sl, b_service_date := sl_date sl\<rparr>;
                            text = ''Booking rescheduled from '' @ date_str (b_service_date b) @ '' slot '' @
                                   nat_str (b_slot b) @ '' to '' @ date_str (sl_date sl) @ '' slot '' @
                                   nat_str (sl_id sl) @ ''.'';
                            s2 = write_status_history k (Some (b_status b2)) (b_status b2) (Some by)
                                   (or_str notes text) (save_booking b2 s)
                        in Inr (b2, emit_notification_event NE_BOOKING_RESCHEDULED (Some (b_customer b2))
                                      (booking_ref b2) []
                                      (JObj [(''previous_service_date'', JStr (date_str (b_service_date b))),
                                             (''previous_slot_id'', JStr (nat_str (b_slot b)))]) s2))
               | _ \<Rightarrow> Inl (DoesNotExist ''Address'')))"

definition record_balance_collection ::
  "timestamp \<Rightarrow> nat \<Rightarrow> money \<Rightarrow> string \<Rightarrow> nat option \<Rightarrow> string \<Rightarrow> 'x payments_db_scheme \<Rightarrow>
     error + ((booking \<times> payment) \<times> 'x payments_db_scheme)" where
  "record_balance_collection now k amount method by notes s =
     (case lock_booking k s of
        Inl e \<Rightarrow> Inl e
      | Inr b \<Rightarrow>
          if b_status b \<notin> {BS_IN_PROGRESS, BS_TECHNICIAN_ASSIGNED}
          then Inl (ValidationError ''Balance can only be recorded for an active assigned booking.'')
          else if amount \<le> 0 then Inl (ValidationError ''Amount must be greater than zero.'')
          else if amount > b_balance_due b - b_balance_collected b
          then Inl (ValidationError ''Amount cannot exceed the remaining balance.'')
          else case create_payment
                 ((blank_payment k)\<lparr>p_provider := OFFLINE, p_amount := amount, p_type := BALANCE,
                    p_status := PR_SUCCESS, p_signature_verified := True,
                    p_payload := JObj [(''method'', JStr method), (''notes'', JStr notes)],
                    p_key := ''offline-balance-'' @ nat_str k @ ''-'' @ seconds_str now,
                    p_paid_at := Some now\<rparr>) s of
            Inl e \<Rightarrow> Inl e
          | Inr (p, s1) \<Rightarrow>
              let collected = b_balance_collected b + amount;
                  b2 = b\<lparr>b_balance_collected := collected,
                         b_payment_status := (if collected \<ge> b_balance_due b then PS_PAID
                                              else b_payment_status b)\<rparr>;
                  s2 = write_status_history k (Some (b_status b2)) (b_status b2) by
                         (or_str notes (''Balance collection recorded via '' @ method @ ''.''))
                         (save_booking b2 s1)
              in Inr ((b2, p), s2))"

section \<open>Serial numbers\<close>

text \<open>
  A source of serial numbers hands out the successor of the last one it gave. The lemma is shared by
  the booking numbers of a month and the invoice numbers of a financial year.
\<close>

locale serial_source =
  fixes draw :: "'s \<Rightarrow> (nat \<times> 's) option"
    and latest :: "'s \<Rightarrow> nat"
  assumes draw_step: "draw s = Some (n, s') \<Longrightarrow> n = Suc (latest s) \<and> latest s' = n"
begin

lemma draw_twice: "draw s = Some (n, s1) \<Longrightarrow> draw s1 = Some (m, s2) \<Longrightarrow> m = Suc n"
  using draw_step by metis

lemma draw_chain:
  assumes chain: "\<And>i. i < k \<Longrightarrow> draw (st i) = Some (ns i, st (Suc i))"
  shows "i < k \<Longrightarrow> ns i = latest (st 0) + Suc i"
proof (induction i)
  case 0
  from draw_step [OF chain [OF 0]] show ?case by simp
next
  case (Suc i)
  then have "ns i = latest (st 0) + Suc i" by simp
  moreover have "ns (Suc i) = Suc (ns i)"
    using Suc.prems by (intro draw_twice [OF chain chain]) simp_all
  ultimately show ?case by simp
qed

lemma draw_distinct:
  assumes "\<And>i. i < k \<Longrightarrow> draw (st i) = Some (ns i, st (Suc i))"
    and "i < k" and "j < k"
  shows "ns i = ns j \<longleftrightarrow> i = j"
  using draw_chain [of k st ns i, OF assms(1,2)] draw_chain [of k st ns j, OF assms(1,3)] by simp

end

definition booking_serial :: "string \<Rightarrow> 'x bookings_db_scheme \<Rightarrow> nat" where
  "booking_serial period s =
     (case sequence_of period s of Some q \<Rightarrow> ns_serial q | None \<Rightarrow> initial_serial period s)"

lemma initial_serial_frame [simp]: "initial_serial p (s\<lparr>number_sequences := ns\<rparr>) = initial_serial p s"
  by (simp add: initial_serial_def)

lemma generate_booking_number_Inr:
  assumes "generate_booking_number d s = Inr (x, s')"
  shows "x = ''PS'' @ period_of d @ pad_left 4 CHR ''0'' (nat_str (booking_serial (period_of d) s + 1)) \<and>
         booking_serial (period_of d) s < 9999 \<and>
         booking_serial (period_of d) s' = booking_serial (period_of d) s + 1 \<and>
         (\<forall>p. p \<noteq> period_of d \<longrightarrow> booking_serial p s' = booking_serial p s) \<and>
         (\<exists>ns. s' = s\<lparr>number_sequences := ns\<rparr>)"
proof -
  define P where "P = period_of d"
  define q where "q = (case sequence_of P s of Some q \<Rightarrow> q | None \<Rightarrow> \<lparr>ns_period = P, ns_serial = initial_serial P s\<rparr>)"
  define rows where "rows = (case sequence_of P s of Some x \<Rightarrow> number_sequences s | None \<Rightarrow> number_sequences s @ [q])"
  have q: "ns_period q = P" "ns_serial q = booking_serial P s"
    by (auto simp: q_def booking_serial_def sequence_of_def split: option.splits dest: find_row_SomeD)
  have "generate_booking_number d s =
      (if ns_serial q \<ge> 9999 then Inl (ValidationError ''The monthly booking number range has been exhausted.'')
       else Inr (''PS'' @ P @ pad_left 4 CHR ''0'' (nat_str (ns_serial q + 1)),
                 s\<lparr>number_sequences := save_row ns_period (q\<lparr>ns_serial := ns_serial q + 1\<rparr>) rows\<rparr>))"
    by (cases "sequence_of P s") (simp_all add: generate_booking_number_def Let_def q_def rows_def P_def)
  then have x: "x = ''PS'' @ P @ pad_left 4 CHR ''0'' (nat_str (ns_serial q + 1))" and le: "ns_serial q < 9999"
    and s': "s' = s\<lparr>number_sequences := save_row ns_period (q\<lparr>ns_serial := ns_serial q + 1\<rparr>) rows\<rparr>"
    using assms by (simp_all split: if_splits)
  have found: "find_row ns_period P rows = Some q"
    by (cases "sequence_of P s") (auto simp: rows_def sequence_of_def q_def find_row_append)
  have other: "find_row ns_period p rows = find_row ns_period p (number_sequences s)" if "p \<noteq> P" for p
    using that q by (auto simp: rows_def find_row_append split: option.splits)
  have "booking_serial P s' = booking_serial P s + 1"
    using found q by (simp add: s' booking_serial_def sequence_of_def table_simps)
  moreover have "booking_serial p s' = booking_serial p s" if "p \<noteq> P" for p
    using other [OF that] that q(1)
    by (simp add: s' booking_serial_def sequence_of_def table_simps split: option.split)
  ultimately show ?thesis
    using x le q s' by (auto simp: P_def)
qed

text \<open>The serial is read back from the last four places of the number.\<close>

definition draw_booking_serial :: "date \<Rightarrow> 'x bookings_db_scheme \<Rightarrow> (nat \<times> 'x bookings_db_scheme) option" where
  "draw_booking_serial d s =
     (case generate_booking_number d s of
        Inl e \<Rightarrow> None
      | Inr (x, s') \<Rightarrow> Some (parse_nat (drop (length x - 4) x), s'))"

lemma pad_serial:
  assumes "n \<le> 9999"
  shows "length (pad_left 4 CHR ''0'' (nat_str n)) = 4"
proof -
  have "length (nat_str n) \<le> 4" using assms by (intro length_nat_str_le) simp_all
  then show ?thesis by simp
qed

interpretation booking_serials: serial_source "draw_booking_serial d" "booking_serial (period_of d)" for d
proof
  fix s n and s' :: "'a bookings_db_scheme"
  assume "draw_booking_serial d s = Some (n, s')"
  then obtain x where x: "generate_booking_number d s = Inr (x, s')" and n: "n = parse_nat (drop (length x - 4) x)"
    by (auto simp: draw_booking_serial_def split: sum.splits)
  note g = generate_booking_number_Inr [OF x]
  let ?tail = "pad_left 4 CHR ''0'' (nat_str (booking_serial (period_of d) s + 1))"
  have "length ?tail = 4" using g by (intro pad_serial) simp
  then have "drop (length x - 4) x = ?tail" using g by simp
  with n g show "n = Suc (booking_serial (period_of d) s) \<and> booking_serial (period_of d) s' = n" by simp
qed

lemma month_of_bound: "month_of d < 100"
proof -
  define doe where "doe = (d + 719468) mod 146097"
  define a where "a = doe div 1460"
  define b where "b = doe div 36524"
  define c where "c = doe div 146096"
  define yoe where "yoe = (doe - a + b - c) div 365"
  define e where "e = yoe div 4"
  define f where "f = yoe div 100"
  define doy where "doy = doe - (365 * yoe + e - f)"
  have doe: "0 \<le> doe" "doe < 146097" by (simp_all add: doe_def)
  have a: "0 \<le> a" "a \<le> 100" "a \<le> doe" unfolding a_def using doe by (simp, linarith, linarith)
  have b: "0 \<le> b" "b \<le> 4" unfolding b_def using doe by (simp, linarith)
  have c: "0 \<le> c" "c \<le> 1" unfolding c_def using doe by (simp, linarith)
  have "c = 0 \<or> doe = 146096" unfolding c_def using doe by (cases "doe < 146096") simp_all
  then have "0 \<le> doe - a + b - c" using a b c doe by auto
  then have y: "0 \<le> yoe" "365 * yoe \<ge> doe - a + b - c - 364" "yoe \<le> 500"
    unfolding yoe_def using a b c doe by (simp, linarith, linarith)
  have ef: "0 \<le> e" "f \<le> 5" unfolding e_def f_def using y by (simp, linarith)
  have "doy < 900"
    unfolding doy_def using a(2) b(1) c(2) y(2) ef by linarith
  then have "(5 * doy + 2) div 153 < 90" by linarith
  moreover have "month_of d = (if (5 * doy + 2) div 153 < 10 then (5 * doy + 2) div 153 + 3 else (5 * doy + 2) div 153 - 9)"
    by (simp only: month_of_def civil_of_def Let_def doy_def e_def f_def yoe_def a_def b_def c_def doe_def
        fst_conv snd_conv)
  ultimately show ?thesis by (simp split: if_splits)
qed

lemma length_period_of: "length (period_of d) = 4"
proof -
  have two: "length (pad_left 2 CHR ''0'' (nat_str n)) = 2" if "n < 100" for n
    using length_nat_str_le [of n 2] that by simp
  have "nat (month_of d) < 100" "nat (year_of d mod 100) < 100"
    using month_of_bound [of d] by auto
  then show ?thesis unfolding period_of_def by (simp only: length_append two)
qed

lemma digits_pad: "list_all is_digit xs \<Longrightarrow> list_all is_digit (pad_left w CHR ''0'' xs)"
proof -
  have "is_digit CHR ''0''" by (simp add: is_digit_def)
  then show "list_all is_digit xs \<Longrightarrow> list_all is_digit (pad_left w CHR ''0'' xs)"
    by (auto simp: pad_left_def list_all_iff)
qed

lemma digits_period_of: "list_all is_digit (period_of d)"
  by (simp add: period_of_def digits_pad nat_str_digits)

section \<open>Properties: numbers and amounts\<close>

text \<open>C20: A booking number is PS, the two digits of the year and of the month, and a serial of four
  digits that is one more than the last of its month; a month has at most 9999 numbers, and drawing one
  does not touch the other months or any other table: what it leaves differs in the number sequences only.\<close>

theorem booking_numbers:
  assumes "generate_booking_number d s = Inr (x, s')"
  shows "length x = 10 \<and> take 2 x = ''PS'' \<and> list_all is_digit (drop 2 x) \<and> take 4 (drop 2 x) = period_of d \<and>
         parse_nat (drop 6 x) = booking_serial (period_of d) s + 1 \<and> parse_nat (drop 6 x) \<le> 9999 \<and>
         booking_serial (period_of d) s' = parse_nat (drop 6 x) \<and>
         (\<forall>p. p \<noteq> period_of d \<longrightarrow> booking_serial p s' = booking_serial p s) \<and>
         bookings s' = bookings s \<and> s' = s\<lparr>number_sequences := number_sequences s'\<rparr>"
proof -
  note g = generate_booking_number_Inr [OF assms]
  let ?tail = "pad_left 4 CHR ''0'' (nat_str (booking_serial (period_of d) s + 1))"
  have "length ?tail = 4" using g by (intro pad_serial) simp
  moreover have "list_all is_digit ?tail"
    by (simp add: digits_pad nat_str_digits)
  ultimately show ?thesis
    using g by (simp add: length_period_of digits_period_of) auto
qed

theorem booking_numbers_witness:
  "\<exists>x s'. generate_booking_number 20000 (sample_leads_db [] [] [] []) = Inr (x, s') \<and> length x = 10"
proof -
  have "\<not> isl (generate_booking_number 20000 (sample_leads_db [] [] [] []))" by code_simp
  then obtain x s' where "generate_booking_number 20000 (sample_leads_db [] [] [] []) = Inr (x, s')"
    by (blast dest: result_cases)
  with booking_numbers [OF this] show ?thesis by blast
qed

text \<open>Consecutive bookings of a month get consecutive numbers: of any run of draws without a refusal
  the i-th serial is the last one before the run plus i plus one, so no two are equal.\<close>

theorem booking_serials_are_consecutive:
  assumes "\<forall>i<k. draw_booking_serial d (st i) = Some (ns i, st (Suc i))" and "i < k" and "j < k"
  shows "ns i = booking_serial (period_of d) (st 0) + Suc i \<and> (ns i = ns j \<longleftrightarrow> i = j)"
  using booking_serials.draw_chain [of k d st ns i] booking_serials.draw_distinct [of k d st ns i j] assms
  by blast

theorem booking_serials_are_consecutive_witness:
  "\<exists>s'. draw_booking_serial 20000 (sample_leads_db [] [] [] []) = Some (1, s')"
proof -
  let ?s = "sample_leads_db [] [] [] []"
  have "(case draw_booking_serial 20000 ?s of None \<Rightarrow> False | Some r \<Rightarrow> True)" by code_simp
  then obtain n s' where n: "draw_booking_serial 20000 ?s = Some (n, s')"
    by (cases "draw_booking_serial 20000 ?s") auto
  have "booking_serial (period_of 20000) ?s = 0" by code_simp
  with booking_serials_are_consecutive [of 1 20000 "\<lambda>i. if i = 0 then ?s else s'" "\<lambda>i. n" 0 0] n show ?thesis
    by simp
qed

lemma booking_amounts_total:
  "sound_service v \<Longrightarrow> booking_amounts v q = Inr am \<Longrightarrow> 0 \<le> am_total am"
  by (auto simp: booking_amounts_def sound_service_def Let_def algebra_simps split: option.splits if_splits)

lemma booking_amounts_Inl:
  "booking_amounts v q = Inl e \<longleftrightarrow>
     sv_advance_type v = PERCENTAGE \<and> sv_advance_value v = None \<and>
     e = TypeError ''unsupported operand type(s) for *: Decimal and NoneType''"
  by (auto simp: booking_amounts_def Let_def split: option.splits)

text \<open>C10: The amounts of a booking for a sound service: subtotal less discount is the price times the
  quantity, the total adds the training fee, and the advance is between nothing and the total. The only
  way they cannot be computed is a percentage service without a percentage.\<close>

theorem booking_amounts_are_sound:
  assumes "sound_service v"
  shows "case booking_amounts v q of
           Inl e \<Rightarrow> sv_advance_type v = PERCENTAGE \<and> sv_advance_value v = None
         | Inr am \<Rightarrow>
             am_subtotal am - am_discount am = effective_price v * int q \<and>
             am_total am = effective_price v * int q + am_training_fee am \<and>
             0 \<le> am_training_fee am \<and> 0 \<le> am_advance am \<and> am_advance am \<le> am_total am"
proof -
  have "0 \<le> effective_price v * int q" "0 \<le> sv_training_fee v * int q"
    using assms by (simp_all add: sound_service_def)
  then show ?thesis
    using assms percent_of_bounds
    by (auto simp: booking_amounts_def sound_service_def Let_def algebra_simps split: option.splits)
qed

theorem booking_amounts_are_sound_witness:
  "booking_amounts sample_service 2 =
     Inr \<lparr>am_subtotal = 200000, am_discount = 20000, am_training_fee = 5000, am_total = 185000, am_advance = 37000\<rparr> \<and>
   (37000::int) \<le> 185000"
proof
  show b: "booking_amounts sample_service 2 =
     Inr \<lparr>am_subtotal = 200000, am_discount = 20000, am_training_fee = 5000, am_total = 185000, am_advance = 37000\<rparr>"
    by code_simp
  have "sound_service sample_service" by code_simp
  from booking_amounts_are_sound [OF this, of 2] b show "(37000::int) \<le> 185000" by simp
qed

section \<open>Audited changes of a booking\<close>

text \<open>
  The history of a booking replays to a status: each row starts where the one before it ended.
\<close>

fun replay :: "booking_status option \<Rightarrow> booking_history list \<Rightarrow> booking_status option option" where
  "replay st [] = Some st"
| "replay st (h # hs) = (if h_from h = st then replay (Some (h_to h)) hs else None)"

lemma replay_snoc:
  "replay st (hs @ [h]) =
     (case replay st hs of None \<Rightarrow> None | Some x \<Rightarrow> if h_from h = x then Some (Some (h_to h)) else None)"
  by (induction hs arbitrary: st) auto

definition trail_ok :: "booking \<Rightarrow> 'x bookings_db_scheme \<Rightarrow> bool" where
  "trail_ok b s = (replay None (history_of (b_id b) s) = Some (Some (b_status b)))"

definition balance_ok :: "booking \<Rightarrow> bool" where
  "balance_ok b = (0 \<le> b_balance_collected b \<and> b_balance_collected b \<le> b_balance_due b)"

text \<open>The invariant of the bookings.\<close>

definition bookings_ok :: "'x bookings_db_scheme \<Rightarrow> bool" where
  "bookings_ok s =
     (unique_rows b_id (bookings s) \<and> list_all (\<lambda>b. b_id b < next_id s) (bookings s) \<and>
      list_all (\<lambda>h. h_booking h < next_id s) (booking_histories s) \<and>
      list_all (\<lambda>b. trail_ok b s) (bookings s) \<and> list_all balance_ok (bookings s))"

text \<open>
  Every service changes one booking, \<open>b\<close> to \<open>b2\<close>, and writes one row of its history from the old status
  to the new one.
\<close>

definition booking_write :: "booking \<Rightarrow> booking \<Rightarrow> 'x bookings_db_scheme \<Rightarrow> 'x bookings_db_scheme \<Rightarrow> bool" where
  "booking_write b b2 s s' =
     (get_booking (b_id b) s = Some b \<and> b_id b2 = b_id b \<and> bookings s' = save_row b_id b2 (bookings s) \<and>
      next_id s \<le> next_id s' \<and>
      (\<exists>h. booking_histories s' = booking_histories s @ [h] \<and> h_booking h = b_id b \<and>
           h_from h = Some (b_status b) \<and> h_to h = b_status b2))"

lemma booking_write_get: "booking_write b b2 s s' \<Longrightarrow> get_booking (b_id b2) s' = Some b2"
  by (auto simp: booking_write_def get_booking_def table_simps)

lemma booking_write_other: "booking_write b b2 s s' \<Longrightarrow> k \<noteq> b_id b2 \<Longrightarrow> get_booking k s' = get_booking k s"
  by (auto simp: booking_write_def get_booking_def table_simps)

lemma booking_write_rows:
  "booking_write b b2 s s' \<Longrightarrow> x \<in> set (bookings s') \<Longrightarrow> x = b2 \<or> (x \<in> set (bookings s) \<and> b_id x \<noteq> b_id b2)"
  by (auto simp: booking_write_def in_set_save_row)

lemma booking_write_ok:
  assumes w: "booking_write b b2 s s'" and ok: "bookings_ok s" and money: "balance_ok b2"
  shows "bookings_ok s'"
proof -
  have b: "b \<in> set (bookings s)" using w booking_table.get_in_rows by (fastforce simp: booking_write_def)
  obtain h where h: "booking_histories s' = booking_histories s @ [h]" "h_booking h = b_id b"
      "h_from h = Some (b_status b)" "h_to h = b_status b2"
    using w by (auto simp: booking_write_def)
  have id: "b_id b2 = b_id b" and ids: "next_id s \<le> next_id s'" and rows: "bookings s' = save_row b_id b2 (bookings s)"
    using w by (auto simp: booking_write_def)
  have "trail_ok b s" using ok b by (simp add: bookings_ok_def list_all_iff)
  then have new: "trail_ok b2 s'"
    using h id by (simp add: trail_ok_def history_of_def replay_snoc)
  have old: "trail_ok x s'" if "x \<in> set (bookings s)" "b_id x \<noteq> b_id b2" for x
    using that ok h id by (simp add: trail_ok_def history_of_def bookings_ok_def list_all_iff)
  have "b_id x < next_id s' \<and> trail_ok x s' \<and> balance_ok x" if "x \<in> set (bookings s')" for x
    using booking_write_rows [OF w that] new old money ok b id ids by (auto simp: bookings_ok_def list_all_iff)
  moreover have "unique_rows b_id (bookings s')" using ok rows by (simp add: bookings_ok_def)
  moreover have "list_all (\<lambda>h. h_booking h < next_id s') (booking_histories s')"
    using h ok ids b by (auto simp: bookings_ok_def list_all_iff)
  ultimately show ?thesis by (simp add: bookings_ok_def list_all_iff)
qed

text \<open>
  The interface of the status services: an operation that is accepted makes one audited write from an
  allowed status, and leaves the money of the booking alone. The clients need nothing else of it.
\<close>

locale audited_service =
  fixes op :: "'x scheduling_db_scheme \<Rightarrow> error + (booking \<times> 'x scheduling_db_scheme)"
    and allowed :: "booking_status \<Rightarrow> booking_status \<Rightarrow> bool"
  assumes op_write: "op s = Inr (b2, s') \<Longrightarrow>
    \<exists>b. booking_write b b2 s s' \<and> allowed (b_status b) (b_status b2) \<and>
        b_balance_collected b2 = b_balance_collected b \<and> b_balance_due b2 = b_balance_due b \<and>
        time_slots s' = time_slots s"
begin

lemma keeps_ok:
  assumes "op s = Inr (b2, s')" and "bookings_ok s"
  shows "bookings_ok s'"
proof -
  obtain b where b: "booking_write b b2 s s'" "b_balance_collected b2 = b_balance_collected b"
      "b_balance_due b2 = b_balance_due b"
    using op_write [OF assms(1)] by blast
  have "b \<in> set (bookings s)" using b booking_table.get_in_rows by (fastforce simp: booking_write_def)
  then have "balance_ok b2" using assms(2) b by (simp add: balance_ok_def bookings_ok_def list_all_iff)
  with b assms(2) show ?thesis using booking_write_ok by blast
qed

lemma moves_along:
  assumes "op s = Inr (b2, s')" and "get_booking k s = Some c"
  shows "\<exists>c2. get_booking k s' = Some c2 \<and> (c2 = c \<or> (c2 = b2 \<and> allowed (b_status c) (b_status c2)))"
proof (cases "k = b_id b2")
  case True
  obtain b where b: "booking_write b b2 s s'" "allowed (b_status b) (b_status b2)"
    using op_write [OF assms(1)] by blast
  then have "c = b" using True assms(2) by (simp add: booking_write_def)
  with b True booking_write_get [OF b(1)] show ?thesis by simp
next
  case False
  with op_write [OF assms(1)] assms(2) show ?thesis by (auto simp: booking_write_other)
qed

lemma keeps_others: "op s = Inr (b2, s') \<Longrightarrow> k \<noteq> b_id b2 \<Longrightarrow> get_booking k s' = get_booking k s"
  using op_write booking_write_other by blast

lemma result_stored: "op s = Inr (b2, s') \<Longrightarrow> get_booking (b_id b2) s' = Some b2"
  using op_write booking_write_get by blast

end

text \<open>One write of a booking through \<open>save_booking\<close> and \<open>write_status_history\<close> is an audited write.\<close>

lemma audited_writeI:
  "get_booking k s = Some b \<Longrightarrow> b_id b2 = k \<Longrightarrow> b_id b = k \<Longrightarrow> from_status = b_status b \<Longrightarrow> to_status = b_status b2 \<Longrightarrow>
     booking_write b b2 s (write_status_history k (Some from_status) to_status by notes (save_booking b2 s))"
  by (auto simp: booking_write_def write_status_history_def save_booking_def bump_id_def)

lemma booking_write_emit:
  "booking_write b b2 s s' \<Longrightarrow> booking_write b b2 s (emit_notification_event ev r bk ch p s')"
  by (simp add: booking_write_def emit_notification_event_def register_hook_def)

lemma history_time_slots [simp]:
  "time_slots (write_status_history k f t by n s) = time_slots s"
  "time_slots (save_booking b s) = time_slots s"
  "time_slots (emit_notification_event ev r bk ch p s) = time_slots s"
  by (simp_all add: write_status_history_def save_booking_def emit_notification_event_def register_hook_def bump_id_def)

lemma lock_booking_Inr: "lock_booking k s = Inr b \<Longrightarrow> get_booking k s = Some b \<and> b_id b = k"
  by (auto simp: lock_booking_def dest: booking_table.get_key split: option.splits)

lemma start_booking_write:
  assumes "start_booking k by notes s = Inr (b2, s')"
  shows "\<exists>b. booking_write b b2 s s' \<and> b_status b \<in> {BS_TECHNICIAN_ASSIGNED, BS_TECHNICIAN_EN_ROUTE} \<and>
         b_technician b \<noteq> None \<and> b2 = b\<lparr>b_status := BS_IN_PROGRESS\<rparr> \<and> b_id b = k \<and> time_slots s' = time_slots s"
proof -
  obtain b where b: "lock_booking k s = Inr b" "get_booking k s = Some b" "b_id b = k"
    using assms by (cases "lock_booking k s") (auto simp: start_booking_def dest: lock_booking_Inr)
  with assms show ?thesis
    by (intro exI [of _ b])
      (auto simp: start_booking_def transition_booking_def Let_def split: if_splits option.splits actor.splits
        intro!: booking_write_emit audited_writeI)
qed

lemma mark_technician_en_route_write:
  assumes "mark_technician_en_route k by notes s = Inr (b2, s')"
  shows "\<exists>b. booking_write b b2 s s' \<and> b_status b = BS_TECHNICIAN_ASSIGNED \<and>
         b2 = b\<lparr>b_status := BS_TECHNICIAN_EN_ROUTE\<rparr> \<and> b_id b = k \<and> time_slots s' = time_slots s"
proof -
  obtain b where b: "lock_booking k s = Inr b" "get_booking k s = Some b" "b_id b = k"
    using assms by (cases "lock_booking k s") (auto simp: mark_technician_en_route_def dest: lock_booking_Inr)
  with assms show ?thesis
    by (intro exI [of _ b])
      (auto simp: mark_technician_en_route_def transition_booking_def Let_def split: if_splits option.splits actor.splits
        intro!: booking_write_emit audited_writeI)
qed

lemma complete_booking_write:
  assumes "complete_booking cfg now k by notes s = Inr (b2, s')"
  shows "\<exists>b. booking_write b b2 s s' \<and> b_status b = BS_IN_PROGRESS \<and> b_technician b \<noteq> None \<and>
         (cfg_require_balance cfg \<longrightarrow> b_balance_due b \<le> b_balance_collected b) \<and>
         b2 = b\<lparr>b_status := BS_COMPLETED, b_completed_at := Some now\<rparr> \<and> b_id b = k \<and> time_slots s' = time_slots s"
proof -
  obtain b where b: "lock_booking k s = Inr b" "get_booking k s = Some b" "b_id b = k"
    using assms by (cases "lock_booking k s") (auto simp: complete_booking_def dest: lock_booking_Inr)
  with assms show ?thesis
    by (intro exI [of _ b])
      (auto simp: complete_booking_def transition_booking_def Let_def split: if_splits option.splits actor.splits
        intro!: booking_write_emit audited_writeI)
qed

lemma close_booking_write:
  assumes "close_booking k by notes s = Inr (b2, s')"
  shows "\<exists>b. booking_write b b2 s s' \<and> b_status b = BS_COMPLETED \<and> b2 = b\<lparr>b_status := BS_CLOSED\<rparr> \<and>
         b_id b = k \<and> time_slots s' = time_slots s"
proof -
  obtain b where b: "lock_booking k s = Inr b" "get_booking k s = Some b" "b_id b = k"
    using assms by (cases "lock_booking k s") (auto simp: close_booking_def dest: lock_booking_Inr)
  with assms show ?thesis
    by (intro exI [of _ b])
      (auto simp: close_booking_def transition_booking_def Let_def split: if_splits option.splits actor.splits
        intro!: booking_write_emit audited_writeI)
qed

lemma cancel_booking_write:
  assumes "cancel_booking cfg now k by notes who s = Inr (b2, s')"
  shows "\<exists>b. booking_write b b2 s s' \<and> b2 = b\<lparr>b_status := BS_CANCELLED, b_cancelled_at := Some now\<rparr> \<and> b_id b = k \<and>
         (case who of AdminActor \<Rightarrow> admin_cancellable (b_status b)
          | CustomerActor \<Rightarrow> customer_cancellable (b_status b) \<and>
              validate_policy_window now b (cfg_cancel_hours cfg) ''Booking can no longer be cancelled online.'' s = None) \<and>
         time_slots s' = time_slots s"
proof -
  obtain b where b: "lock_booking k s = Inr b" "get_booking k s = Some b" "b_id b = k"
    using assms by (cases "lock_booking k s") (auto simp: cancel_booking_def dest: lock_booking_Inr)
  with assms show ?thesis
    by (intro exI [of _ b])
      (auto simp: cancel_booking_def transition_booking_def Let_def split: if_splits option.splits actor.splits
        intro!: booking_write_emit audited_writeI)
qed

lemma reschedule_booking_write:
  assumes "reschedule_booking cfg now k slot by notes s = Inr (b2, s')"
  shows "\<exists>b sl a v. booking_write b b2 s s' \<and> customer_reschedulable (b_status b) \<and> b_customer b = by \<and>
         b2 = b\<lparr>b_slot := sl_id sl, b_service_date := sl_date sl\<rparr> \<and> b_id b = k \<and>
         validate_policy_window now b (cfg_reschedule_hours cfg) ''Booking can no longer be rescheduled online.'' s = None \<and>
         lock_and_validate_slot now slot a v s = Inr sl \<and> time_slots s' = time_slots s"
proof -
  obtain b where b: "get_booking k s = Some b" "b_id b = k" "lock_booking k s = Inr b"
    using assms by (auto simp: reschedule_booking_def dest: lock_booking_Inr split: sum.splits)
  obtain a v sl where g: "b_customer b = by" "customer_reschedulable (b_status b)"
      "validate_policy_window now b (cfg_reschedule_hours cfg) ''Booking can no longer be rescheduled online.'' s = None"
      "lock_and_validate_slot now slot a v s = Inr sl"
      "get_address (b_address b) s = Some a" "get_service (b_service b) s = Some v"
    using assms b(3) by (auto simp: reschedule_booking_def Let_def split: sum.splits if_splits option.splits)
  let ?b = "b\<lparr>b_slot := sl_id sl, b_service_date := sl_date sl\<rparr>"
  let ?n = "or_str notes (''Booking rescheduled from '' @ date_str (b_service_date b) @ '' slot '' @
      nat_str (b_slot b) @ '' to '' @ date_str (sl_date sl) @ '' slot '' @ nat_str (sl_id sl) @ ''.'')"
  have "b2 = ?b" and "s' = emit_notification_event NE_BOOKING_RESCHEDULED (Some (b_customer b)) (booking_ref ?b) []
      (JObj [(''previous_service_date'', JStr (date_str (b_service_date b))),
             (''previous_slot_id'', JStr (nat_str (b_slot b)))])
      (write_status_history k (Some (b_status b)) (b_status b) (Some by) ?n (save_booking ?b s))"
    using assms b(3) g by (auto simp: reschedule_booking_def Let_def)
  moreover have "booking_write b ?b s (emit_notification_event ev r bk ch p
      (write_status_history k (Some (b_status b)) (b_status b) (Some by) n (save_booking ?b s)))" for n ev r ch p bk
    using b(1,2) by (intro booking_write_emit audited_writeI) simp_all
  ultimately have "booking_write b b2 s s' \<and> b2 = ?b \<and> time_slots s' = time_slots s" by auto
  with b g show ?thesis by blast
qed

interpretation starting: audited_service "start_booking k usr msg"
  "\<lambda>x y. x \<in> {BS_TECHNICIAN_ASSIGNED, BS_TECHNICIAN_EN_ROUTE} \<and> y = BS_IN_PROGRESS" for k usr msg
  by unfold_locales (auto dest!: start_booking_write)

interpretation travelling: audited_service "mark_technician_en_route k usr msg"
  "\<lambda>x y. x = BS_TECHNICIAN_ASSIGNED \<and> y = BS_TECHNICIAN_EN_ROUTE" for k usr msg
  by unfold_locales (auto dest!: mark_technician_en_route_write)

interpretation completing: audited_service "complete_booking cfg now k usr msg"
  "\<lambda>x y. x = BS_IN_PROGRESS \<and> y = BS_COMPLETED" for cfg now k usr msg
  by unfold_locales (auto dest!: complete_booking_write)

interpretation closing: audited_service "close_booking k usr msg"
  "\<lambda>x y. x = BS_COMPLETED \<and> y = BS_CLOSED" for k usr msg
  by unfold_locales (auto dest!: close_booking_write)

interpretation cancelling: audited_service "cancel_booking cfg now k usr msg who"
  "\<lambda>x y. admin_cancellable x \<and> y = BS_CANCELLED" for cfg now k usr msg who
  by unfold_locales
    (auto dest!: cancel_booking_write simp: admin_cancellable_def customer_cancellable_def split: actor.splits)

interpretation rescheduling: audited_service "reschedule_booking cfg now k slot usr msg"
  "\<lambda>x y. customer_reschedulable x \<and> y = x" for cfg now k slot usr msg
  by unfold_locales (fastforce dest!: reschedule_booking_write)

lemma record_balance_collection_write:
  assumes "record_balance_collection now k amount method by notes s = Inr ((b2, p), s')"
  shows "\<exists>b. booking_write b b2 s s' \<and> b_status b \<in> {BS_IN_PROGRESS, BS_TECHNICIAN_ASSIGNED} \<and> b_id b = k \<and>
         0 < amount \<and> b_balance_collected b + amount \<le> b_balance_due b \<and>
         b2 = b\<lparr>b_balance_collected := b_balance_collected b + amount,
                b_payment_status := (if b_balance_collected b + amount \<ge> b_balance_due b then PS_PAID
                                     else b_payment_status b)\<rparr> \<and>
         time_slots s' = time_slots s \<and> payments s' = payments s @ [p] \<and>
         p_amount p = amount \<and> p_type p = BALANCE \<and> p_status p = PR_SUCCESS \<and> p_booking p = k"
proof -
  obtain b where b: "get_booking k s = Some b" "b_id b = k" "lock_booking k s = Inr b"
    using assms by (auto simp: record_balance_collection_def dest: lock_booking_Inr split: sum.splits)
  let ?data = "(blank_payment k)\<lparr>p_provider := OFFLINE, p_amount := amount, p_type := BALANCE,
      p_status := PR_SUCCESS, p_signature_verified := True,
      p_payload := JObj [(''method'', JStr method), (''notes'', JStr notes)],
      p_key := ''offline-balance-'' @ nat_str k @ ''-'' @ seconds_str now, p_paid_at := Some now\<rparr>"
  let ?b = "b\<lparr>b_balance_collected := b_balance_collected b + amount,
      b_payment_status := (if b_balance_collected b + amount \<ge> b_balance_due b then PS_PAID else b_payment_status b)\<rparr>"
  obtain s1 n where g: "b_status b \<in> {BS_IN_PROGRESS, BS_TECHNICIAN_ASSIGNED}" "0 < amount"
      "amount \<le> b_balance_due b - b_balance_collected b" "create_payment ?data s = Inr (p, s1)" "b2 = ?b"
      "s' = write_status_history k (Some (b_status b)) (b_status b) by n (save_booking ?b s1)"
    using assms b(3) by (auto simp: record_balance_collection_def Let_def split: sum.splits if_splits)
  note p = create_payment_Inr [OF g(4)]
  have same: "bookings s1 = bookings s" "booking_histories s1 = booking_histories s" "next_id s \<le> next_id s1"
    "time_slots s1 = time_slots s"
    using p by (simp_all add: bump_id_def insert_payment_row_def)
  have "booking_write b ?b s1 s'"
    unfolding g(6) using b same by (intro audited_writeI) (simp_all add: get_booking_def)
  then have "booking_write b ?b s s'"
    using same b by (auto simp: booking_write_def)
  moreover have "payments s' = payments s @ [p]"
    unfolding g(6) using p by (simp add: write_status_history_def save_booking_def bump_id_def insert_payment_row_def)
  ultimately show ?thesis
    using b g same p by (intro exI [of _ b]) (auto simp: blank_payment_def)
qed

section \<open>Creating a booking\<close>

lemma create_booking_record_Inr:
  assumes "create_booking_record now u v a sl rq s = Inr (b, s')"
  shows "\<exists>am number s1. booking_amounts v (br_quantity rq) = Inr am \<and>
           generate_booking_number (localdate now) s = Inr (number, s1) \<and>
           (\<forall>c\<in>set (bookings s). b_number c \<noteq> number) \<and>
           b = new_booking (new_id s) number u v a sl rq am \<and> s' = bump_id (insert_booking b s1)"
proof -
  obtain am where am: "booking_amounts v (br_quantity rq) = Inr am"
    using assms by (cases "booking_amounts v (br_quantity rq)") (simp_all add: create_booking_record_def)
  obtain number s1 where n: "generate_booking_number (localdate now) s = Inr (number, s1)"
    using assms am by (cases "generate_booking_number (localdate now) s") (auto simp: create_booking_record_def)
  obtain ns where "s1 = s\<lparr>number_sequences := ns\<rparr>"
    using generate_booking_number_Inr [OF n] by blast
  with assms am n show ?thesis
    by (auto simp: create_booking_record_def Let_def new_id_def list_ex_iff split: if_splits)
qed

lemma create_booking_Inr:
  assumes "create_booking now u service_id address_id slot_id rq s = Inr (b, s')"
  shows "\<exists>v a sl am number. get_active_service service_id s = Inr v \<and>
           get_customer_address (u_id u) address_id s = Inr a \<and>
           lock_and_validate_slot now slot_id a v s = Inr sl \<and>
           booking_amounts v (br_quantity rq) = Inr am \<and>
           b = new_booking (new_id s) number u v a sl (rq\<lparr>br_problem := strip_str (br_problem rq)\<rparr>) am \<and>
           (\<forall>c\<in>set (bookings s). b_number c \<noteq> b_number b) \<and>
           bookings s' = bookings s @ [b] \<and> time_slots s' = time_slots s \<and> services s' = services s \<and>
           b_id b < next_id s' \<and> next_id s \<le> next_id s' \<and> leads_db.more s' = leads_db.more s \<and>
           cart_items s' = cart_items s \<and> checkout_requests s' = checkout_requests s \<and>
           (\<exists>h. booking_histories s' = booking_histories s @ [h] \<and> h_booking h = b_id b \<and>
                h_from h = None \<and> h_to h = BS_PENDING_PAYMENT)"
proof -
  obtain v a sl s1 where g: "get_active_service service_id s = Inr v"
      "get_customer_address (u_id u) address_id s = Inr a" "lock_and_validate_slot now slot_id a v s = Inr sl"
      "create_booking_record now u v a sl (rq\<lparr>br_problem := strip_str (br_problem rq)\<rparr>) s = Inr (b, s1)"
    and s': "s' = snd (link_booking_to_lead now b None
      (write_status_history (b_id b) None BS_PENDING_PAYMENT (Some (u_id u)) ''Booking created.'' s1))"
    using assms by (auto simp: create_booking_def Let_def split: sum.splits)
  obtain am number s0 where r: "booking_amounts v (br_quantity rq) = Inr am"
      "generate_booking_number (localdate now) s = Inr (number, s0)" "\<forall>c\<in>set (bookings s). b_number c \<noteq> number"
      "b = new_booking (new_id s) number u v a sl (rq\<lparr>br_problem := strip_str (br_problem rq)\<rparr>) am"
      "s1 = bump_id (insert_booking b s0)"
    using create_booking_record_Inr [OF g(4)] by auto
  obtain ns where s0: "s0 = s\<lparr>number_sequences := ns\<rparr>"
    using generate_booking_number_Inr [OF r(2)] by blast
  let ?t = "write_status_history (b_id b) None BS_PENDING_PAYMENT (Some (u_id u)) ''Booking created.'' s1"
  have "lead_frame ?t s'"
    unfolding s' using link_booking_to_lead_ok [of now b None ?t] by (metis prod.collapse)
  moreover have "bookings ?t = bookings s @ [b]" "time_slots ?t = time_slots s" "services ?t = services s"
    "next_id ?t = Suc (Suc (next_id s))" "b_id b = next_id s" "leads_db.more ?t = leads_db.more s"
    "cart_items ?t = cart_items s" "checkout_requests ?t = checkout_requests s"
    "\<exists>h. booking_histories ?t = booking_histories s @ [h] \<and> h_booking h = b_id b \<and> h_from h = None \<and>
         h_to h = BS_PENDING_PAYMENT"
    using r s0 by (simp_all add: write_status_history_def insert_booking_def bump_id_def new_booking_def new_id_def)
  ultimately have "bookings s' = bookings s @ [b] \<and> time_slots s' = time_slots s \<and> services s' = services s \<and>
      b_id b < next_id s' \<and> next_id s \<le> next_id s' \<and> leads_db.more s' = leads_db.more s \<and>
      cart_items s' = cart_items s \<and> checkout_requests s' = checkout_requests s \<and>
      (\<exists>h. booking_histories s' = booking_histories s @ [h] \<and> h_booking h = b_id b \<and> h_from h = None \<and>
           h_to h = BS_PENDING_PAYMENT)"
    unfolding lead_frame_def by simp
  moreover have "b_number b = number" using r(4) by (simp add: new_booking_def)
  ultimately show ?thesis using g(1-3) r by blast
qed

text \<open>Creating a booking after its checks: it succeeds if the amounts can be computed.\<close>

lemma create_booking_checked:
  assumes "get_active_service service_id s = Inr v" and "get_customer_address (u_id u) address_id s = Inr a"
    and "lock_and_validate_slot now slot_id a v s = Inr sl"
    and "generate_booking_number (localdate now) s = Inr (x, t)" and "\<forall>c\<in>set (bookings s). b_number c \<noteq> x"
  shows "case booking_amounts v (br_quantity rq) of
           Inl e \<Rightarrow> create_booking now u service_id address_id slot_id rq s = Inl e
         | Inr am \<Rightarrow> \<exists>r. create_booking now u service_id address_id slot_id rq s = Inr r"
proof -
  have "bookings t = bookings s" using generate_booking_number_Inr [OF assms(4)] by auto
  with assms show ?thesis
    by (auto simp: create_booking_def create_booking_record_def list_ex_iff Let_def split: sum.splits)
qed

lemma get_active_service_row: "get_active_service k s = Inr v \<Longrightarrow> v \<in> set (services s)"
  by (auto simp: get_active_service_def Let_def split: option.splits if_splits dest: service_table.get_in_rows)

lemma create_booking_ok:
  assumes created: "create_booking now u service_id address_id slot_id rq s = Inr (b, s')"
    and ok: "bookings_ok s" and sound: "list_all sound_service (services s)"
  shows "bookings_ok s'"
proof -
  obtain v a sl am number h where c: "get_active_service service_id s = Inr v"
      "booking_amounts v (br_quantity rq) = Inr am"
      "b = new_booking (new_id s) number u v a sl (rq\<lparr>br_problem := strip_str (br_problem rq)\<rparr>) am"
      "bookings s' = bookings s @ [b]" "b_id b < next_id s'" "next_id s \<le> next_id s'"
      "booking_histories s' = booking_histories s @ [h]" "h_booking h = b_id b" "h_from h = None"
      "h_to h = BS_PENDING_PAYMENT"
    using create_booking_Inr [OF created] by blast
  have "sound_service v"
    using sound get_active_service_row [OF c(1)] by (simp add: list_all_iff)
  then have "0 \<le> am_total am"
    using booking_amounts_total c(2) by blast
  with c(3) have money: "balance_ok b" by (simp add: balance_ok_def new_booking_def)
  have id: "b_id b = next_id s" using c(3) by (simp add: new_booking_def new_id_def)
  have "history_of (b_id b) s = []"
    using ok id by (auto simp: history_of_def bookings_ok_def list_all_iff filter_empty_conv)
  then have new: "trail_ok b s'"
    using c by (simp add: trail_ok_def history_of_def new_booking_def)
  have old: "trail_ok x s'" if "x \<in> set (bookings s)" for x
    using that ok c id by (fastforce simp: trail_ok_def history_of_def bookings_ok_def list_all_iff)
  have "b_id x < next_id s' \<and> trail_ok x s' \<and> balance_ok x" if "x \<in> set (bookings s')" for x
    using that new old money ok c by (auto simp: bookings_ok_def list_all_iff)
  moreover have "unique_rows b_id (bookings s')"
    using ok c(4) id by (auto simp: bookings_ok_def list_all_iff)
  moreover have "list_all (\<lambda>h. h_booking h < next_id s') (booking_histories s')"
    using ok c id by (auto simp: bookings_ok_def list_all_iff)
  ultimately show ?thesis by (simp add: bookings_ok_def list_all_iff)
qed

section \<open>Capacity\<close>

lemma lock_and_validate_slot_Inr:
  "lock_and_validate_slot now k a v s = Inr sl \<Longrightarrow>
     get_slot k s = Some sl \<and> sl_id sl = k \<and> is_slot_bookable now sl s"
  by (auto simp: lock_and_validate_slot_def Let_def split: option.splits if_splits sum.splits error.splits
      dest: lock_slot_Inr)

lemma create_booking_capacity:
  assumes created: "create_booking now u service_id address_id slot_id rq s = Inr (b, s')"
    and cap: "capacity_ok s" and uniq: "unique_rows sl_id (time_slots s)"
  shows "capacity_ok s'"
proof -
  obtain v a sl am number where c: "lock_and_validate_slot now slot_id a v s = Inr sl"
      "b = new_booking (new_id s) number u v a sl (rq\<lparr>br_problem := strip_str (br_problem rq)\<rparr>) am"
      "bookings s' = bookings s @ [b]" "time_slots s' = time_slots s"
    using create_booking_Inr [OF created] by blast
  have sl: "count_reserved_bookings sl s < sl_capacity sl" "sl \<in> set (time_slots s)"
    using lock_and_validate_slot_Inr [OF c(1)] is_slot_bookable_capacity slot_table.get_in_rows by blast+
  have "count_reserved_bookings x s' \<le> sl_capacity x" if x: "x \<in> set (time_slots s)" for x
  proof (cases "sl_id x = sl_id sl")
    case True
    then have "x = sl" using uniq x sl(2) by (auto simp: unique_rows_def distinct_map inj_on_def)
    with sl c show ?thesis by (simp add: count_reserved_bookings_def)
  next
    case False
    have "\<not> reserves (sl_id x) b" using False c(2) by (simp add: reserves_def new_booking_def)
    with cap x c(3) show ?thesis by (auto simp: capacity_ok_def count_reserved_bookings_def list_all_iff)
  qed
  with c(4) show ?thesis by (simp add: capacity_ok_def list_all_iff)
qed

lemma booking_write_count:
  assumes "booking_write b b2 s s'" and "unique_rows b_id (bookings s)"
  shows "int (count_rows P (bookings s')) =
           int (count_rows P (bookings s)) - (if P b then 1 else 0) + (if P b2 then 1 else 0)"
  using assms by (simp add: booking_write_def get_booking_def count_rows_save_row)

text \<open>A write that does not move a booking and does not reopen it takes no place.\<close>

lemma booking_write_capacity:
  assumes w: "booking_write b b2 s s'" and "bookings_ok s" and "capacity_ok s" and "time_slots s' = time_slots s"
    and "b_slot b2 = b_slot b" and "holds_capacity (b_status b2) \<longrightarrow> holds_capacity (b_status b)"
  shows "capacity_ok s'"
proof -
  have "count_reserved_bookings x s' \<le> count_reserved_bookings x s" for x
    using booking_write_count [OF w, of "reserves (sl_id x)"] assms(2,5,6)
    by (auto simp: count_reserved_bookings_def reserves_def bookings_ok_def split: if_splits)
  with assms(3,4) show ?thesis
    by (auto simp: capacity_ok_def list_all_iff intro: order_trans)
qed

lemma reschedule_booking_capacity:
  assumes moved: "reschedule_booking cfg now k slot by notes s = Inr (b2, s')"
    and "bookings_ok s" and cap: "capacity_ok s" and uniq: "unique_rows sl_id (time_slots s)"
  shows "capacity_ok s'"
proof -
  obtain b sl a v where w: "booking_write b b2 s s'" "b2 = b\<lparr>b_slot := sl_id sl, b_service_date := sl_date sl\<rparr>"
      "lock_and_validate_slot now slot a v s = Inr sl" "time_slots s' = time_slots s"
    using reschedule_booking_write [OF moved] by blast
  have sl: "count_reserved_bookings sl s < sl_capacity sl" "sl \<in> set (time_slots s)"
    using lock_and_validate_slot_Inr [OF w(3)] is_slot_bookable_capacity slot_table.get_in_rows by blast+
  have "count_reserved_bookings x s' \<le> sl_capacity x" if x: "x \<in> set (time_slots s)" for x
  proof (cases "sl_id x = sl_id sl")
    case True
    then have "x = sl" using uniq x sl(2) by (auto simp: unique_rows_def distinct_map inj_on_def)
    with sl booking_write_count [OF w(1), of "reserves (sl_id x)"] assms(2) show ?thesis
      by (auto simp: count_reserved_bookings_def bookings_ok_def split: if_splits)
  next
    case False
    then have "\<not> reserves (sl_id x) b2" using w(2) by (simp add: reserves_def)
    with booking_write_count [OF w(1), of "reserves (sl_id x)"] assms(2) cap x show ?thesis
      by (auto simp: capacity_ok_def list_all_iff count_reserved_bookings_def bookings_ok_def split: if_splits)
  qed
  with w(4) show ?thesis by (simp add: capacity_ok_def list_all_iff)
qed

end
