(* ===== verification/Technicians.thy ===== *)
theory Technicians
  imports Bookings
begin

text \<open>
  Technicians, \<open>apps/technicians\<close>: profiles, working hours and leaves, who may be assigned to a booking,
  the assignments with their history, and the review of leave requests.
\<close>

datatype technician_type = EMPLOYEE | CONTRACT | PARTNER

datatype employment_status = EMP_ACTIVE | EMP_INACTIVE | EMP_LEFT

datatype verification_status = TV_PENDING | TV_UNDER_REVIEW | TV_VERIFIED | TV_REJECTED | TV_SUSPENDED

datatype availability_status = TA_AVAILABLE | TA_BUSY | TA_ON_LEAVE | TA_OFFLINE | TA_SUSPENDED

text \<open>Experience is in tenths of a year, the rating in hundredths.\<close>

record technician =
  t_id :: nat
  t_user :: nat
  t_code :: string
  t_display_name :: string
  t_phone :: string
  t_type :: technician_type
  t_employment :: employment_status
  t_city :: string
  t_pincode :: string
  t_areas :: "nat list"
  t_services :: "nat list"
  t_experience :: int
  t_verification :: verification_status
  t_availability :: availability_status
  t_rating :: int
  t_completed_jobs :: nat
  t_cancellations :: nat
  t_available :: bool
  t_active :: bool

record working_hours =
  wh_id :: nat
  wh_technician :: nat
  wh_day :: int
  wh_start :: time_of_day
  wh_end :: time_of_day
  wh_active :: bool

record leave =
  lv_id :: nat
  lv_technician :: nat
  lv_start :: timestamp
  lv_end :: timestamp
  lv_reason :: string
  lv_approved_by :: "nat option"
  lv_review_note :: string
  lv_active :: bool

record assignment =
  as_id :: nat
  as_booking :: nat
  as_technician :: nat
  as_previous :: "nat option"
  as_assigned_by :: "nat option"
  as_assigned_at :: timestamp
  as_unassigned_at :: "timestamp option"
  as_reason :: string
  as_notes :: string

record technicians_db = leads_db +
  technicians :: "technician list"
  working_hours_rows :: "working_hours list"
  leaves :: "leave list"
  assignments :: "assignment list"

definition get_technician :: "nat \<Rightarrow> 'x technicians_db_scheme \<Rightarrow> technician option" where
  "get_technician k s = find_row t_id k (technicians s)"

definition get_leave :: "nat \<Rightarrow> 'x technicians_db_scheme \<Rightarrow> leave option" where
  "get_leave k s = find_row lv_id k (leaves s)"

definition get_assignment :: "nat \<Rightarrow> 'x technicians_db_scheme \<Rightarrow> assignment option" where
  "get_assignment k s = find_row as_id k (assignments s)"

definition save_assignment_row :: "assignment \<Rightarrow> 'x technicians_db_scheme \<Rightarrow> 'x technicians_db_scheme" where
  "save_assignment_row a s = s\<lparr>assignments := save_row as_id a (assignments s)\<rparr>"

definition insert_assignment_row :: "assignment \<Rightarrow> 'x technicians_db_scheme \<Rightarrow> 'x technicians_db_scheme" where
  "insert_assignment_row a s = s\<lparr>assignments := assignments s @ [a]\<rparr>"

interpretation assignment_table:
  row_table as_id assignments get_assignment save_assignment_row insert_assignment_row
  by unfold_locales (simp_all add: get_assignment_def save_assignment_row_def insert_assignment_row_def)

section \<open>Rules of the rows\<close>

text \<open>\<open>TechnicianProfile.save\<close>: on leave or suspended forces unavailable, then \<open>clean\<close>.\<close>

definition technician_clean :: "technician \<Rightarrow> (string \<times> string) list" where
  "technician_clean t =
     add_error (t_verification t = TV_SUSPENDED \<and> t_active t)
       ''background_verification_status'' ''Suspended technicians must be inactive.''
     (add_error (t_availability t = TA_SUSPENDED \<and> t_active t)
       ''availability_status'' ''Suspended technicians must be inactive.''
     (add_error (t_rating t < 0 \<or> t_rating t > 500)
       ''average_rating'' ''Average rating must be between 0 and 5.''
     (add_error (t_experience t < 0) ''experience_years'' ''Experience cannot be negative.'' [])))"

definition technician_full_clean :: "technician \<Rightarrow> 'x technicians_db_scheme \<Rightarrow> (string \<times> string) list" where
  "technician_full_clean t s =
     add_error (list_ex (\<lambda>u. t_code u = t_code t \<and> t_id u \<noteq> t_id t) (technicians s))
       ''employee_code'' ''Technician profile with this Employee code already exists.''
     (add_error (list_ex (\<lambda>u. t_user u = t_user t \<and> t_id u \<noteq> t_id t) (technicians s))
       ''user'' ''Technician profile with this User already exists.'' (technician_clean t))"

definition save_technician ::
  "technician \<Rightarrow> 'x technicians_db_scheme \<Rightarrow> error + (technician \<times> 'x technicians_db_scheme)" where
  "save_technician t s =
     (let t2 = (if t_availability t \<in> {TA_ON_LEAVE, TA_SUSPENDED} then t\<lparr>t_available := False\<rparr> else t) in
      case technician_full_clean t2 s of
        [] \<Rightarrow> Inr (t2, s\<lparr>technicians := (if get_technician (t_id t2) s = None then technicians s @ [t2]
                                       else save_row t_id t2 (technicians s))\<rparr>)
      | errs \<Rightarrow> Inl (FieldErrors errs))"

definition save_working_hours ::
  "working_hours \<Rightarrow> 'x technicians_db_scheme \<Rightarrow> error + (working_hours \<times> 'x technicians_db_scheme)" where
  "save_working_hours w s =
     (if wh_start w \<ge> wh_end w
      then Inl (FieldErrors [(''end_time'', ''End time must be after start time.'')])
      else if list_ex (\<lambda>x. wh_technician x = wh_technician w \<and> wh_day x = wh_day w \<and>
                           wh_start x = wh_start w \<and> wh_end x = wh_end w \<and> wh_id x \<noteq> wh_id w)
                (working_hours_rows s)
      then Inl (FieldErrors [(''__all__'', ''Constraint unique_technician_working_window is violated.'')])
      else Inr (w, s\<lparr>working_hours_rows :=
             (if find_row wh_id (wh_id w) (working_hours_rows s) = None then working_hours_rows s @ [w]
              else save_row wh_id w (working_hours_rows s))\<rparr>))"

definition save_leave :: "leave \<Rightarrow> 'x technicians_db_scheme \<Rightarrow> error + (leave \<times> 'x technicians_db_scheme)" where
  "save_leave l s =
     (if lv_start l \<ge> lv_end l
      then Inl (FieldErrors [(''end_at'', ''End time must be after start time.'')])
      else Inr (l, s\<lparr>leaves := (if get_leave (lv_id l) s = None then leaves s @ [l]
                               else save_row lv_id l (leaves s))\<rparr>))"

definition leave_overlaps :: "timestamp \<Rightarrow> timestamp \<Rightarrow> leave \<Rightarrow> bool" where
  "leave_overlaps start_at end_at l = (lv_active l \<and> lv_start l < end_at \<and> lv_end l > start_at)"

section \<open>Eligibility\<close>

definition slot_start_end :: "time_slot \<Rightarrow> timestamp \<times> timestamp" where
  "slot_start_end sl = (make_aware (sl_date sl) (sl_start sl), make_aware (sl_date sl) (sl_end sl))"

definition busy_status :: "booking_status \<Rightarrow> bool" where
  "busy_status st = (st \<in> {BS_TECHNICIAN_ASSIGNED, BS_TECHNICIAN_EN_ROUTE, BS_IN_PROGRESS})"

text \<open>The day of another booking is its service date; its hours are those of its slot.\<close>

definition overlaps_slot :: "time_slot \<Rightarrow> booking \<Rightarrow> 'x scheduling_db_scheme \<Rightarrow> bool" where
  "overlaps_slot sl b s =
     (b_service_date b = sl_date sl \<and>
      (case get_slot (b_slot b) s of
         None \<Rightarrow> False
       | Some sl2 \<Rightarrow> sl_start sl2 < sl_end sl \<and> sl_end sl2 > sl_start sl))"

definition has_overlapping_booking ::
  "technician \<Rightarrow> booking \<Rightarrow> time_slot \<Rightarrow> 'x scheduling_db_scheme \<Rightarrow> bool" where
  "has_overlapping_booking t b sl s =
     list_ex (\<lambda>c. b_technician c = Some (t_user t) \<and> busy_status (b_status c) \<and> overlaps_slot sl c s \<and>
                  b_id c \<noteq> b_id b) (bookings s)"

definition get_technician_eligibility_errors ::
  "technician \<Rightarrow> booking \<Rightarrow> time_slot \<Rightarrow> address \<Rightarrow> 'x technicians_db_scheme \<Rightarrow> string list" where
  "get_technician_eligibility_errors t b sl a s =
     (let (slot_start, slot_end) = slot_start_end sl;
          hours = filter (\<lambda>w. wh_technician w = t_id t \<and> wh_day w = weekday (sl_date sl) \<and> wh_active w)
                    (working_hours_rows s)
      in (if \<not> t_active t then [''Technician is inactive.''] else []) @
         (if t_verification t \<noteq> TV_VERIFIED then [''Technician is not verified.''] else []) @
         (if \<not> t_available t \<or> t_availability t \<noteq> TA_AVAILABLE then [''Technician is not available.''] else []) @
         (if t_services t \<noteq> [] \<and> b_service b \<notin> set (t_services t)
          then [''Technician does not support this service.''] else []) @
         (if t_areas t \<noteq> [] \<and> sl_area sl \<notin> set (t_areas t)
          then [''Technician does not cover this service area.''] else []) @
         (if ad_postal_code a \<noteq> '''' \<and> t_pincode t \<noteq> '''' \<and> t_pincode t \<noteq> ad_postal_code a
          then [''Technician pincode does not match the service address.''] else []) @
         (if hours \<noteq> [] \<and> \<not> list_ex (\<lambda>w. wh_start w \<le> sl_start sl \<and> wh_end w \<ge> sl_end sl) hours
          then [''Technician is not working during this slot.''] else []) @
         (if list_ex (\<lambda>l. lv_technician l = t_id t \<and> leave_overlaps slot_start slot_end l) (leaves s)
          then [''Technician is on leave during this slot.''] else []) @
         (if has_overlapping_booking t b sl s
          then [''Technician already has an overlapping booking.''] else []))"

text \<open>Technicians are ordered by their display name.\<close>

definition get_eligible_technicians ::
  "booking \<Rightarrow> time_slot \<Rightarrow> address \<Rightarrow> 'x technicians_db_scheme \<Rightarrow> technician list" where
  "get_eligible_technicians b sl a s =
     filter (\<lambda>t. get_technician_eligibility_errors t b sl a s = [])
       (sort_before (\<lambda>t u. str_less (t_display_name t) (t_display_name u))
         (filter (\<lambda>t. t_active t \<and> t_available t \<and> t_verification t = TV_VERIFIED \<and>
                      t_availability t = TA_AVAILABLE) (technicians s)))"

section \<open>Assignments\<close>

definition active_for :: "nat \<Rightarrow> assignment \<Rightarrow> bool" where
  "active_for k a = (as_booking a = k \<and> as_unassigned_at a = None)"

definition active_assignment :: "nat \<Rightarrow> 'x technicians_db_scheme \<Rightarrow> assignment option" where
  "active_assignment k s = max_row as_assigned_at (filter (active_for k) (assignments s))"

text \<open>Creating one runs \<open>full_clean\<close>, which checks the constraint on active assignments.\<close>

definition create_assignment ::
  "assignment \<Rightarrow> 'x technicians_db_scheme \<Rightarrow> error + (assignment \<times> 'x technicians_db_scheme)" where
  "create_assignment data s =
     (let a = data\<lparr>as_id := new_id s\<rparr> in
      if list_ex (active_for (as_booking a)) (assignments s)
      then Inl (FieldErrors [(''__all__'', ''Constraint unique_active_assignment_per_booking is violated.'')])
      else Inr (a, bump_id (insert_assignment_row a s)))"

definition replace_assignment ::
  "timestamp \<Rightarrow> booking \<Rightarrow> technician \<Rightarrow> nat option \<Rightarrow> string \<Rightarrow> string \<Rightarrow>
     'x technicians_db_scheme \<Rightarrow> error + (assignment \<times> 'x technicians_db_scheme)" where
  "replace_assignment now b t by notes reason s =
     (let fresh = (\<lambda>prev. \<lparr>as_id = 0, as_booking = b_id b, as_technician = t_id t, as_previous = prev,
                          as_assigned_by = by, as_assigned_at = now, as_unassigned_at = None,
                          as_reason = reason, as_notes = notes\<rparr>)
      in case active_assignment (b_id b) s of
           None \<Rightarrow> create_assignment (fresh None) s
         | Some p \<Rightarrow>
             if as_technician p = t_id t then
               (if notes \<noteq> '''' \<and> as_notes p \<noteq> notes
                then let p2 = p\<lparr>as_notes := notes\<rparr> in Inr (p2, save_assignment_row p2 s)
                else Inr (p, s))
             else create_assignment (fresh (Some (as_technician p)))
                    (save_assignment_row (p\<lparr>as_unassigned_at := Some now\<rparr>) s))"

definition assign_technician ::
  "timestamp \<Rightarrow> nat \<Rightarrow> nat \<Rightarrow> nat option \<Rightarrow> string \<Rightarrow> string \<Rightarrow> 'x technicians_db_scheme \<Rightarrow>
     error + (assignment \<times> 'x technicians_db_scheme)" where
  "assign_technician now k tid by notes reason s =
     (case get_booking k s of
        None \<Rightarrow> Inl (ValidationError ''Booking was not found.'')
      | Some b \<Rightarrow>
          if b_status b \<notin> {BS_CONFIRMED, BS_TECHNICIAN_ASSIGNED}
          then Inl (ValidationError ''Booking is not assignable.'')
          else case get_technician tid s of
            None \<Rightarrow> Inl (ValidationError ''Technician was not found.'')
          | Some t \<Rightarrow>
              (case (get_slot (b_slot b) s, get_address (b_address b) s) of
                 (Some sl, Some a) \<Rightarrow>
                   (case get_technician_eligibility_errors t b sl a s of
                      [] \<Rightarrow>
                        (case replace_assignment now b t by notes reason s of
                           Inl e \<Rightarrow> Inl e
                         | Inr (asg, s1) \<Rightarrow>
                             let b2 = b\<lparr>b_technician := Some (t_user t), b_status := BS_TECHNICIAN_ASSIGNED\<rparr>;
                                 s2 = write_status_history k (Some (b_status b)) BS_TECHNICIAN_ASSIGNED by
                                        (or_str notes (or_str reason ''Technician assigned.''))
                                        (save_booking b2 s1)
                             in Inr (asg, emit_notification_event NE_TECHNICIAN_ASSIGNED (Some (b_customer b2))
                                            (booking_ref b2) []
                                            (JObj [(''technician_id'', JStr (nat_str (t_id t)))]) s2))
                    | err # errs \<Rightarrow> Inl (FieldErrors (map (\<lambda>x. (''technician_id'', x)) (err # errs))))
               | _ \<Rightarrow> Inl (DoesNotExist ''TimeSlot'')))"

definition remove_technician_assignment ::
  "timestamp \<Rightarrow> nat \<Rightarrow> nat option \<Rightarrow> string \<Rightarrow> 'x technicians_db_scheme \<Rightarrow>
     error + (booking \<times> 'x technicians_db_scheme)" where
  "remove_technician_assignment now k by notes s =
     (case get_booking k s of
        None \<Rightarrow> Inl (ValidationError ''Booking was not found.'')
      | Some b \<Rightarrow>
          (case active_assignment k s of
             None \<Rightarrow> Inl (ValidationError ''Booking does not have an active technician assignment.'')
           | Some a \<Rightarrow>
               let a2 = a\<lparr>as_unassigned_at := Some now,
                          as_notes := join_str [CHR 10] (nonempty_parts [as_notes a, notes])\<rparr>;
                   b2 = b\<lparr>b_technician := None,
                          b_status := (if b_status b = BS_TECHNICIAN_ASSIGNED then BS_CONFIRMED else b_status b)\<rparr>;
                   s1 = save_booking b2 (save_assignment_row a2 s)
               in Inr (b2, write_status_history k (Some (b_status b)) (b_status b2) by
                             (or_str notes ''Technician assignment removed.'') s1)))"

section \<open>Leave requests and the technician's own view\<close>

definition review_leave ::
  "bool \<Rightarrow> nat \<Rightarrow> nat \<Rightarrow> string \<Rightarrow> request option \<Rightarrow> 'x technicians_db_scheme \<Rightarrow>
     error + (leave \<times> 'x technicians_db_scheme)" where
  "review_leave approve k admin note rq s =
     (case get_leave k s of
        None \<Rightarrow> Inl (ErrorResponse 404 ''Not found.'')
      | Some l \<Rightarrow>
          (case save_leave (l\<lparr>lv_approved_by := (if approve then Some admin else None),
                              lv_review_note := note, lv_active := approve\<rparr>) s of
             Inl e \<Rightarrow> Inl e
           | Inr (l2, s1) \<Rightarrow>
               Inr (l2, audit_event (if approve then AA_TECHNICIAN_LEAVE_APPROVED else AA_TECHNICIAN_LEAVE_REJECTED)
                          ''technician_leave'' (nat_str k) (Some admin) rq
                          (JObj [(''technician_id'', JStr (nat_str (lv_technician l2))),
                                 (''note'', JStr (lv_review_note l2))]) s1)))"

datatype job_operation = EnRoute | Start | Complete

text \<open>A technician finds only the jobs that are assigned to them.\<close>

definition operate_job ::
  "booking_config \<Rightarrow> timestamp \<Rightarrow> nat \<Rightarrow> job_operation \<Rightarrow> nat \<Rightarrow> string \<Rightarrow> 'x bookings_db_scheme \<Rightarrow>
     error + (booking \<times> 'x bookings_db_scheme)" where
  "operate_job cfg now me op k notes s =
     (case get_booking k s of
        None \<Rightarrow> Inl (ErrorResponse 404 ''Not found.'')
      | Some b \<Rightarrow>
          if b_technician b \<noteq> Some me then Inl (ErrorResponse 404 ''Not found.'')
          else (case op of
                  EnRoute \<Rightarrow> mark_technician_en_route k (Some me) notes s
                | Start \<Rightarrow> start_booking k (Some me) notes s
                | Complete \<Rightarrow> complete_booking cfg now k (Some me) notes s))"

text \<open>The administrator's handlers: the operation, then the audit entry.\<close>

definition assign_technician_view ::
  "timestamp \<Rightarrow> nat \<Rightarrow> nat \<Rightarrow> nat \<Rightarrow> string \<Rightarrow> string \<Rightarrow> request option \<Rightarrow> 'x technicians_db_scheme \<Rightarrow>
     error + (assignment \<times> 'x technicians_db_scheme)" where
  "assign_technician_view now k tid admin notes reason rq s =
     (case assign_technician now k tid (Some admin) notes reason s of
        Inl e \<Rightarrow> Inl e
      | Inr (a, s1) \<Rightarrow>
          Inr (a, audit_event AA_TECHNICIAN_ASSIGN ''booking'' (nat_str (as_booking a)) (Some admin) rq
                    (JObj [(''technician_id'', JStr (nat_str (as_technician a))), (''notes'', JStr notes),
                           (''reason'', JStr reason)]) s1))"

definition remove_assignment_view ::
  "timestamp \<Rightarrow> nat \<Rightarrow> nat \<Rightarrow> string \<Rightarrow> request option \<Rightarrow> 'x technicians_db_scheme \<Rightarrow>
     error + (booking \<times> 'x technicians_db_scheme)" where
  "remove_assignment_view now k admin notes rq s =
     (case remove_technician_assignment now k (Some admin) notes s of
        Inl e \<Rightarrow> Inl e
      | Inr (b, s1) \<Rightarrow>
          Inr (b, audit_event AA_TECHNICIAN_ASSIGNMENT_REMOVED ''booking'' (nat_str k) (Some admin) rq
                    (JObj [(''notes'', JStr notes)]) s1))"

section \<open>Lemmas: assignments\<close>

lemma filter_single:
  "unique_rows key rows \<Longrightarrow> r \<in> set rows \<Longrightarrow> P r \<Longrightarrow> (\<And>x. x \<in> set rows \<Longrightarrow> P x \<Longrightarrow> key x = key r) \<Longrightarrow>
     filter P rows = [r]"
proof (induction rows)
  case (Cons x xs)
  show ?case
  proof (cases "x = r")
    case True
    have "\<not> P y" if "y \<in> set xs" for y
    proof
      assume "P y"
      then have "key x = key y" using Cons.prems(4) that True by simp
      then have "key x \<in> key ` set xs" using that by simp
      then show False using Cons.prems(1) by (simp add: unique_rows_def)
    qed
    with True Cons.prems(3) show ?thesis by (simp add: filter_empty_conv)
  next
    case False
    then have r: "r \<in> set xs" using Cons.prems(2) by simp
    have "\<not> P x"
    proof
      assume "P x"
      then have "key x = key r" using Cons.prems(4) by simp
      with r Cons.prems(1) show False by (auto simp: unique_rows_def)
    qed
    moreover have "unique_rows key xs" using Cons.prems(1) by (simp add: unique_rows_def)
    then have "filter P xs = [r]"
      using r Cons.prems(3) by (rule Cons.IH) (rule Cons.prems(4), simp_all)
    ultimately show ?thesis by simp
  qed
qed simp

text \<open>Distinct keys below the supply, and one active assignment for a booking.\<close>

definition same_active_booking :: "assignment \<Rightarrow> assignment \<Rightarrow> bool" where
  "same_active_booking a c =
     (as_unassigned_at a = None \<and> as_unassigned_at c = None \<and> as_booking a = as_booking c)"

definition one_active_assignment :: "assignment list \<Rightarrow> bool" where
  "one_active_assignment as = list_all (\<lambda>a. list_all (\<lambda>c. same_active_booking a c \<longrightarrow> as_id a = as_id c) as) as"

definition assignments_ok :: "'x technicians_db_scheme \<Rightarrow> bool" where
  "assignments_ok s =
     (unique_rows as_id (assignments s) \<and> list_all (\<lambda>a. as_id a < next_id s) (assignments s) \<and>
      one_active_assignment (assignments s))"

lemma one_active_assignmentD:
  "one_active_assignment as \<Longrightarrow> a \<in> set as \<Longrightarrow> c \<in> set as \<Longrightarrow> same_active_booking a c \<Longrightarrow> as_id a = as_id c"
  unfolding one_active_assignment_def list_all_iff by blast

lemma one_active_assignmentI:
  "(\<And>a c. a \<in> set as \<Longrightarrow> c \<in> set as \<Longrightarrow> same_active_booking a c \<Longrightarrow> as_id a = as_id c) \<Longrightarrow> one_active_assignment as"
  unfolding one_active_assignment_def list_all_iff by blast

lemma same_active_booking_sym: "same_active_booking a c \<Longrightarrow> same_active_booking c a"
  by (auto simp: same_active_booking_def)

lemma assignments_ok_one:
  assumes ok: "assignments_ok s" and a: "a \<in> set (assignments s)" "active_for k a"
  shows "filter (active_for k) (assignments s) = [a]"
proof (rule filter_single [of as_id])
  show "as_id x = as_id a" if "x \<in> set (assignments s)" "active_for k x" for x
    using ok that a by (intro one_active_assignmentD [of "assignments s"])
      (simp_all add: assignments_ok_def same_active_booking_def active_for_def)
qed (use assms in \<open>simp_all add: assignments_ok_def\<close>)

lemma assignments_ok_cong:
  "assignments_ok s \<Longrightarrow> assignments s' = assignments s \<Longrightarrow> next_id s \<le> next_id s' \<Longrightarrow> assignments_ok s'"
  by (auto simp: assignments_ok_def list_all_iff)

lemma create_assignment_Inr:
  assumes "create_assignment data s = Inr (a, s')" and "assignments_ok s" and "as_unassigned_at data = None"
  shows "assignments_ok s' \<and> filter (active_for (as_booking data)) (assignments s') = [a] \<and>
         a = data\<lparr>as_id := new_id s\<rparr> \<and> s' = bump_id (insert_assignment_row a s)"
proof -
  have a: "a = data\<lparr>as_id := new_id s\<rparr>" "s' = bump_id (insert_assignment_row a s)"
    and free: "\<forall>x\<in>set (assignments s). \<not> active_for (as_booking data) x"
    using assms(1) by (auto simp: create_assignment_def Let_def list_ex_iff split: if_splits)
  then have rows: "assignments s' = assignments s @ [a]" "next_id s' = Suc (next_id s)"
    by (simp_all add: bump_id_def insert_assignment_row_def)
  have "one_active_assignment (assignments s')"
  proof (rule one_active_assignmentI)
    fix x y
    assume xy: "x \<in> set (assignments s')" "y \<in> set (assignments s')" "same_active_booking x y"
    have "\<not> same_active_booking a z" if "z \<in> set (assignments s)" for z
      using free that a by (auto simp: same_active_booking_def active_for_def)
    with xy rows assms(2) show "as_id x = as_id y"
      by (auto simp: assignments_ok_def dest: one_active_assignmentD same_active_booking_sym)
  qed
  moreover have "unique_rows as_id (assignments s')" "list_all (\<lambda>x. as_id x < next_id s') (assignments s')"
    using assms(2) rows a by (auto simp: assignments_ok_def list_all_iff new_id_def)
  ultimately have "assignments_ok s'" by (simp add: assignments_ok_def)
  moreover have "filter (active_for (as_booking data)) (assignments s') = [a]"
    using free rows a assms(3) by (simp add: filter_empty_conv) (simp add: active_for_def)
  ultimately show ?thesis using a by blast
qed

lemma active_assignmentD:
  "active_assignment k s = Some p \<Longrightarrow> p \<in> set (assignments s) \<and> active_for k p"
  unfolding active_assignment_def by (drule max_row_SomeD) auto

lemma save_assignment_ok:
  assumes "assignments_ok s" and "p \<in> set (assignments s)" and "as_id q = as_id p"
    and "as_booking q = as_booking p" and "as_unassigned_at q = None \<longrightarrow> as_unassigned_at p = None"
  shows "assignments_ok (save_assignment_row q s)"
proof -
  let ?rows = "assignments (save_assignment_row q s)"
  have rows: "x = q \<or> (x \<in> set (assignments s) \<and> as_id x \<noteq> as_id q)" if "x \<in> set ?rows" for x
    using that by (auto simp: save_assignment_row_def in_set_save_row)
  have new: "\<not> same_active_booking q x" if "x \<in> set (assignments s)" "as_id x \<noteq> as_id q" for x
  proof
    assume "same_active_booking q x"
    then have "same_active_booking p x" using assms(4,5) by (auto simp: same_active_booking_def)
    with that assms(1,2,3) show False
      by (auto simp: assignments_ok_def dest: one_active_assignmentD)
  qed
  have "one_active_assignment ?rows"
  proof (rule one_active_assignmentI)
    fix x y
    assume "x \<in> set ?rows" "y \<in> set ?rows" and xy: "same_active_booking x y"
    with rows [of x] rows [of y] new assms(1) show "as_id x = as_id y"
      by (auto simp: assignments_ok_def dest: one_active_assignmentD same_active_booking_sym)
  qed
  moreover have "unique_rows as_id ?rows" "list_all (\<lambda>x. as_id x < next_id s) ?rows"
    using assms(1,2,3) rows by (auto simp: assignments_ok_def save_assignment_row_def list_all_iff in_set_save_row)
  ultimately show ?thesis by (simp add: assignments_ok_def save_assignment_row_def)
qed

text \<open>The tables of the booking side are as they were.\<close>

definition booking_side :: "'x technicians_db_scheme \<Rightarrow> 'x technicians_db_scheme \<Rightarrow> bool" where
  "booking_side s s' =
     (bookings s' = bookings s \<and> booking_histories s' = booking_histories s \<and> time_slots s' = time_slots s \<and>
      next_id s \<le> next_id s' \<and> technicians s' = technicians s \<and> services s' = services s)"

lemma replace_assignment_Inr:
  assumes "replace_assignment now b t by notes reason s = Inr (a, s')" and "assignments_ok s"
  shows "assignments_ok s' \<and> filter (active_for (b_id b)) (assignments s') = [a] \<and>
         as_technician a = t_id t \<and> booking_side s s'"
proof -
  define fresh where "fresh = (\<lambda>prev. \<lparr>as_id = 0, as_booking = b_id b, as_technician = t_id t, as_previous = prev,
      as_assigned_by = by, as_assigned_at = now, as_unassigned_at = None, as_reason = reason, as_notes = notes\<rparr>)"
  show ?thesis
  proof (cases "active_assignment (b_id b) s")
    case None
    then have "create_assignment (fresh None) s = Inr (a, s')"
      using assms(1) by (simp add: replace_assignment_def Let_def fresh_def)
    note c = create_assignment_Inr [OF this assms(2)]
    then have "booking_side s s'" by (simp add: fresh_def booking_side_def bump_id_def insert_assignment_row_def)
    moreover have "as_unassigned_at (fresh None) = None \<and> as_booking (fresh None) = b_id b \<and>
        as_technician (fresh None) = t_id t" by (simp add: fresh_def)
    ultimately show ?thesis using c by auto
  next
    case (Some p)
    note p = active_assignmentD [OF Some]
    show ?thesis
    proof (cases "as_technician p = t_id t")
      case True
      have split: "(a = p \<and> s' = s) \<or> (a = p\<lparr>as_notes := notes\<rparr> \<and> s' = save_assignment_row a s)"
        using assms(1) Some True by (auto simp: replace_assignment_def Let_def split: if_splits)
      have saved: "assignments_ok (save_assignment_row (p\<lparr>as_notes := notes\<rparr>) s)"
        using save_assignment_ok [OF assms(2), of p "p\<lparr>as_notes := notes\<rparr>"] p by simp
      have "p\<lparr>as_notes := notes\<rparr> \<in> set (assignments (save_assignment_row (p\<lparr>as_notes := notes\<rparr>) s))"
        using p by (auto simp: save_assignment_row_def in_set_save_row)
      moreover have "active_for (b_id b) (p\<lparr>as_notes := notes\<rparr>)" using p by (simp add: active_for_def)
      ultimately have one: "filter (active_for (b_id b)) (assignments (save_assignment_row (p\<lparr>as_notes := notes\<rparr>) s)) =
          [p\<lparr>as_notes := notes\<rparr>]" by (rule assignments_ok_one [OF saved])
      have "filter (active_for (b_id b)) (assignments s) = [p]"
        using assignments_ok_one [OF assms(2), of p "b_id b"] p by simp
      then show ?thesis
        using split
      proof (elim disjE conjE)
        assume "a = p" "s' = s"
        with \<open>filter (active_for (b_id b)) (assignments s) = [p]\<close> show ?thesis
          using True assms(2) by (simp add: booking_side_def)
      next
        assume "a = p\<lparr>as_notes := notes\<rparr>" "s' = save_assignment_row a s"
        with one saved show ?thesis
          using True by (simp add: booking_side_def save_assignment_row_def)
      qed
    next
      case False
      let ?s = "save_assignment_row (p\<lparr>as_unassigned_at := Some now\<rparr>) s"
      have c: "create_assignment (fresh (Some (as_technician p))) ?s = Inr (a, s')"
        using assms(1) Some False by (simp add: replace_assignment_def Let_def fresh_def)
      have "assignments_ok ?s"
        using save_assignment_ok [OF assms(2), of p "p\<lparr>as_unassigned_at := Some now\<rparr>"] p by simp
      note d = create_assignment_Inr [OF c this]
      then have "booking_side s s'"
        by (simp add: fresh_def booking_side_def bump_id_def insert_assignment_row_def save_assignment_row_def)
      moreover have "as_unassigned_at (fresh q) = None \<and> as_booking (fresh q) = b_id b \<and>
          as_technician (fresh q) = t_id t" for q by (simp add: fresh_def)
      ultimately show ?thesis using d by auto
    qed
  qed
qed

section \<open>Lemmas: who may be assigned\<close>

lemma eligibility_none:
  "get_technician_eligibility_errors t b sl a s = [] \<Longrightarrow>
     t_active t \<and> t_verification t = TV_VERIFIED \<and> t_available t \<and> t_availability t = TA_AVAILABLE \<and>
     (t_services t = [] \<or> b_service b \<in> set (t_services t)) \<and> (t_areas t = [] \<or> sl_area sl \<in> set (t_areas t)) \<and>
     \<not> list_ex (\<lambda>l. lv_technician l = t_id t \<and>
          leave_overlaps (fst (slot_start_end sl)) (snd (slot_start_end sl)) l) (leaves s) \<and>
     \<not> has_overlapping_booking t b sl s"
  by (auto simp: get_technician_eligibility_errors_def Let_def split: if_splits prod.splits)

lemma assign_technician_Inr:
  assumes "assign_technician now k tid by notes reason s = Inr (a, s')" and "assignments_ok s"
  shows "\<exists>b t sl ad b2. booking_write b b2 s s' \<and> b_id b = k \<and> b_status b \<in> {BS_CONFIRMED, BS_TECHNICIAN_ASSIGNED} \<and>
           b2 = b\<lparr>b_technician := Some (t_user t), b_status := BS_TECHNICIAN_ASSIGNED\<rparr> \<and>
           get_technician tid s = Some t \<and> get_slot (b_slot b) s = Some sl \<and>
           get_technician_eligibility_errors t b sl ad s = [] \<and> time_slots s' = time_slots s \<and>
           services s' = services s \<and>
           assignments_ok s' \<and> filter (active_for k) (assignments s') = [a] \<and> as_technician a = tid"
proof -
  obtain b where b: "get_booking k s = Some b" "b_id b = k"
    using assms(1) by (auto simp: assign_technician_def split: option.splits dest: booking_table.get_key)
  obtain t sl ad where g: "b_status b \<in> {BS_CONFIRMED, BS_TECHNICIAN_ASSIGNED}" "get_technician tid s = Some t"
      "get_slot (b_slot b) s = Some sl" "get_address (b_address b) s = Some ad"
      "get_technician_eligibility_errors t b sl ad s = []"
    using assms(1) b by (auto simp: assign_technician_def split: option.splits if_splits list.splits)
  have tid: "t_id t = tid" using g(2) unfolding get_technician_def by (auto dest: find_row_SomeD)
  let ?b2 = "b\<lparr>b_technician := Some (t_user t), b_status := BS_TECHNICIAN_ASSIGNED\<rparr>"
  obtain s1 where r: "replace_assignment now b t by notes reason s = Inr (a, s1)"
    and s': "s' = emit_notification_event NE_TECHNICIAN_ASSIGNED (Some (b_customer ?b2)) (booking_ref ?b2) []
      (JObj [(''technician_id'', JStr (nat_str (t_id t)))])
      (write_status_history k (Some (b_status b)) BS_TECHNICIAN_ASSIGNED by
         (or_str notes (or_str reason ''Technician assigned.'')) (save_booking ?b2 s1))"
    using assms(1) b g by (auto simp: assign_technician_def Let_def split: sum.splits)
  note side = replace_assignment_Inr [OF r assms(2)]
  have "booking_write b ?b2 s1 s'"
    unfolding s' using b side
    by (intro booking_write_emit audited_writeI) (simp_all add: booking_side_def get_booking_def)
  then have w: "booking_write b ?b2 s s'"
    using side b by (auto simp: booking_write_def booking_side_def)
  have same: "assignments s' = assignments s1" "next_id s1 \<le> next_id s'" "time_slots s' = time_slots s1"
    "services s' = services s1"
    unfolding s' by (simp_all add: emit_notification_event_def register_hook_def write_status_history_def
        save_booking_def bump_id_def)
  have "assignments_ok s'" using side same assignments_ok_cong by blast
  with w b g side same tid show ?thesis
    by (intro exI [of _ b] exI [of _ t] exI [of _ sl] exI [of _ ad] exI [of _ ?b2]) (simp add: booking_side_def)
qed

lemma remove_technician_assignment_Inr:
  assumes "remove_technician_assignment now k by notes s = Inr (b2, s')" and "assignments_ok s"
  shows "\<exists>b. booking_write b b2 s s' \<and> b_id b = k \<and>
           b2 = b\<lparr>b_technician := None,
                  b_status := (if b_status b = BS_TECHNICIAN_ASSIGNED then BS_CONFIRMED else b_status b)\<rparr> \<and>
           time_slots s' = time_slots s \<and> services s' = services s \<and> assignments_ok s' \<and>
           filter (active_for k) (assignments s') = []"
proof -
  obtain b a where b: "get_booking k s = Some b" "b_id b = k" and a: "active_assignment k s = Some a"
    using assms(1)
    by (auto simp: remove_technician_assignment_def split: option.splits dest: booking_table.get_key)
  let ?b2 = "b\<lparr>b_technician := None,
      b_status := (if b_status b = BS_TECHNICIAN_ASSIGNED then BS_CONFIRMED else b_status b)\<rparr>"
  let ?a2 = "a\<lparr>as_unassigned_at := Some now, as_notes := join_str [CHR 10] (nonempty_parts [as_notes a, notes])\<rparr>"
  have b2: "b2 = ?b2" and s': "s' = write_status_history k (Some (b_status b)) (b_status ?b2) by
      (or_str notes ''Technician assignment removed.'') (save_booking ?b2 (save_assignment_row ?a2 s))"
    using assms(1) b a by (auto simp: remove_technician_assignment_def Let_def)
  note p = active_assignmentD [OF a]
  have "booking_write b ?b2 (save_assignment_row ?a2 s) s'"
    unfolding s' using b by (intro audited_writeI) (simp_all add: save_assignment_row_def get_booking_def)
  then have w: "booking_write b ?b2 s s'"
    using b by (auto simp: booking_write_def save_assignment_row_def)
  have same: "assignments s' = assignments (save_assignment_row ?a2 s)" "time_slots s' = time_slots s"
    "services s' = services s" "next_id (save_assignment_row ?a2 s) \<le> next_id s'"
    unfolding s' by (simp_all add: write_status_history_def save_booking_def bump_id_def save_assignment_row_def)
  have ok: "assignments_ok (save_assignment_row ?a2 s)"
    using save_assignment_ok [OF assms(2), of a ?a2] p by simp
  have "\<not> active_for k x" if "x \<in> set (assignments s')" for x
  proof -
    have "x = ?a2 \<or> (x \<in> set (assignments s) \<and> as_id x \<noteq> as_id a)"
      using that same by (auto simp: save_assignment_row_def in_set_save_row)
    moreover have "\<not> active_for k x" if "x \<in> set (assignments s)" "as_id x \<noteq> as_id a"
    proof
      assume "active_for k x"
      with that(1) have "x \<in> set (filter (active_for k) (assignments s))" by simp
      then have "x \<in> {a}" using assignments_ok_one [OF assms(2), of a k] p by simp
      then have "x = a" by simp
      with that(2) show False by simp
    qed
    ultimately show ?thesis by (auto simp: active_for_def)
  qed
  then have "filter (active_for k) (assignments s') = []" by (simp add: filter_empty_conv)
  with w b b2 same assignments_ok_cong [OF ok same(1,4)] show ?thesis by blast
qed

text \<open>Two bookings clash when one technician is busy on both, on one day at overlapping hours.\<close>

definition clash :: "'x scheduling_db_scheme \<Rightarrow> booking \<Rightarrow> booking \<Rightarrow> bool" where
  "clash s b c =
     (b_id b \<noteq> b_id c \<and> b_technician b \<noteq> None \<and> b_technician b = b_technician c \<and>
      busy_status (b_status b) \<and> busy_status (b_status c) \<and> b_service_date b = b_service_date c \<and>
      (case (get_slot (b_slot b) s, get_slot (b_slot c) s) of
         (Some x, Some y) \<Rightarrow> sl_start x < sl_end y \<and> sl_start y < sl_end x
       | _ \<Rightarrow> False))"

definition no_clash :: "'x scheduling_db_scheme \<Rightarrow> bool" where
  "no_clash s = list_all (\<lambda>b. list_all (\<lambda>c. \<not> clash s b c) (bookings s)) (bookings s)"

definition dates_ok :: "'x scheduling_db_scheme \<Rightarrow> bool" where
  "dates_ok s =
     list_all (\<lambda>b. case get_slot (b_slot b) s of None \<Rightarrow> True | Some sl \<Rightarrow> b_service_date b = sl_date sl) (bookings s)"

lemma clash_sym: "clash s b c \<Longrightarrow> clash s c b"
  by (auto simp: clash_def split: option.splits)

section \<open>Properties\<close>

definition sample_technician :: technician where
  "sample_technician =
     \<lparr>t_id = 51, t_user = 2, t_code = ''T1'', t_display_name = ''Ravi'', t_phone = '''', t_type = EMPLOYEE,
      t_employment = EMP_ACTIVE, t_city = ''Pune'', t_pincode = '''', t_areas = [], t_services = [],
      t_experience = 0, t_verification = TV_VERIFIED, t_availability = TA_AVAILABLE, t_rating = 0,
      t_completed_jobs = 0, t_cancellations = 0, t_available = True, t_active = True\<rparr>"

definition sample_technicians_db :: "booking list \<Rightarrow> technicians_db" where
  "sample_technicians_db bs = leads_db.extend
     ((sample_leads_db [sample_user 1 CUSTOMER []] bs [] [])\<lparr>time_slots := [sample_slot 21, sample_slot 22],
        booking_histories := map (\<lambda>b. \<lparr>h_id = 90, h_booking = b_id b, h_from = None, h_to = b_status b,
                                        h_changed_by = None, h_notes = ''''\<rparr>) bs\<rparr>)
     \<lparr>technicians = [sample_technician], working_hours_rows = [], leaves = [], assignments = []\<rparr>"

text \<open>C11: An assignment that is accepted is to a technician who is active, verified, available, covers
  the service and the area, is not on leave and has no overlapping work; the booking was confirmed or
  assigned and now is assigned to that technician; and it has exactly one active assignment, this one.\<close>

theorem assignment_is_eligible_and_unique:
  assumes "assign_technician now k tid by notes reason s = Inr (a, s')" and "assignments_ok s"
  shows "assignments_ok s' \<and> filter (active_for k) (assignments s') = [a] \<and> as_technician a = tid \<and>
         (\<exists>b b2 t sl. get_booking k s = Some b \<and> get_booking k s' = Some b2 \<and> get_technician tid s = Some t \<and>
            get_slot (b_slot b) s = Some sl \<and>
            b_status b \<in> {BS_CONFIRMED, BS_TECHNICIAN_ASSIGNED} \<and> b_status b2 = BS_TECHNICIAN_ASSIGNED \<and>
            b_technician b2 = Some (t_user t) \<and> t_active t \<and> t_verification t = TV_VERIFIED \<and> t_available t \<and>
            t_availability t = TA_AVAILABLE \<and> (t_services t = [] \<or> b_service b \<in> set (t_services t)) \<and>
            (t_areas t = [] \<or> sl_area sl \<in> set (t_areas t)) \<and>
            \<not> list_ex (\<lambda>l. lv_technician l = tid \<and>
                leave_overlaps (fst (slot_start_end sl)) (snd (slot_start_end sl)) l) (leaves s) \<and>
            \<not> has_overlapping_booking t b sl s)"
proof -
  obtain b t sl ad b2 where g: "booking_write b b2 s s'" "b_id b = k" "get_technician tid s = Some t"
      "get_slot (b_slot b) s = Some sl" "get_technician_eligibility_errors t b sl ad s = []"
      "b_status b \<in> {BS_CONFIRMED, BS_TECHNICIAN_ASSIGNED}"
      "b2 = b\<lparr>b_technician := Some (t_user t), b_status := BS_TECHNICIAN_ASSIGNED\<rparr>"
      "assignments_ok s'" "filter (active_for k) (assignments s') = [a]" "as_technician a = tid"
    using assign_technician_Inr [OF assms] by blast
  have "t_id t = tid" using g(3) unfolding get_technician_def by (auto dest: find_row_SomeD)
  moreover have "get_booking k s = Some b" "get_booking k s' = Some b2"
    using g(1,2) booking_write_get [OF g(1)] by (auto simp: booking_write_def)
  ultimately show ?thesis
    using g eligibility_none [OF g(5)] by (intro conjI exI [of _ b] exI [of _ b2] exI [of _ t] exI [of _ sl]) auto
qed

theorem assignment_is_eligible_and_unique_witness:
  "\<exists>a s'. assign_technician 0 7 51 None '''' '''' (sample_technicians_db [sample_booking 7 BS_CONFIRMED]) = Inr (a, s') \<and>
          length (filter (active_for 7) (assignments s')) = 1"
proof -
  let ?s = "sample_technicians_db [sample_booking 7 BS_CONFIRMED]"
  have "\<not> isl (assign_technician 0 7 51 None '''' '''' ?s)" by code_simp
  then obtain a s' where s': "assign_technician 0 7 51 None '''' '''' ?s = Inr (a, s')" by (blast dest: result_cases)
  have "assignments_ok ?s" by code_simp
  from assignment_is_eligible_and_unique [OF s' this] s' show ?thesis by fastforce
qed

text \<open>C12: Assigning technicians never double-books one: if no technician is busy on two overlapping
  bookings before an assignment, none is after it.\<close>

theorem assignment_never_double_books:
  assumes "assign_technician now k tid by notes reason s = Inr (a, s')" and "assignments_ok s"
    and "no_clash s" and "dates_ok s"
  shows "no_clash s' \<and> dates_ok s'"
proof -
  obtain b t sl ad b2 where g: "booking_write b b2 s s'" "b_id b = k" "get_slot (b_slot b) s = Some sl"
      "get_technician_eligibility_errors t b sl ad s = []"
      "b2 = b\<lparr>b_technician := Some (t_user t), b_status := BS_TECHNICIAN_ASSIGNED\<rparr>"
      "time_slots s' = time_slots s"
    using assign_technician_Inr [OF assms(1,2)] by blast
  have b: "b \<in> set (bookings s)"
    using g(1) booking_table.get_in_rows by (fastforce simp: booking_write_def)
  have slot: "get_slot x s' = get_slot x s" for x using g(6) by (simp add: get_slot_def)
  have date: "b_service_date b = sl_date sl"
    using assms(4) b g(3) by (auto simp: dates_ok_def list_all_iff split: option.splits)
  have free: "\<not> has_overlapping_booking t b sl s" using eligibility_none [OF g(4)] by blast
  have new: "\<not> clash s' b2 x" if "x \<in> set (bookings s)" for x
  proof
    assume "clash s' b2 x"
    then have "b_technician x = Some (t_user t)" "busy_status (b_status x)" "overlaps_slot sl x s" "b_id x \<noteq> b_id b"
      using g(3,5) date slot by (auto simp: clash_def overlaps_slot_def split: option.splits)
    with that free show False by (auto simp: has_overlapping_booking_def list_ex_iff)
  qed
  have self: "\<not> clash s' b2 b2" by (simp add: clash_def)
  have old: "clash s' x y \<longleftrightarrow> clash s x y" for x y by (simp add: clash_def slot)
  have "\<not> clash s' x y" if "x \<in> set (bookings s')" "y \<in> set (bookings s')" for x y
    using booking_write_rows [OF g(1) that(1)] booking_write_rows [OF g(1) that(2)] new self old clash_sym assms(3)
    unfolding no_clash_def list_all_iff by metis
  moreover have "dates_ok s'"
    using booking_write_rows [OF g(1)] assms(4) g(3,5) date slot
    by (fastforce simp: dates_ok_def list_all_iff split: option.splits)
  ultimately show ?thesis by (simp add: no_clash_def list_all_iff)
qed

theorem assignment_never_double_books_witness:
  "\<exists>a s'. assign_technician 0 7 51 None '''' '''' (sample_technicians_db [sample_booking 7 BS_CONFIRMED]) = Inr (a, s') \<and>
          no_clash s'"
proof -
  let ?s = "sample_technicians_db [sample_booking 7 BS_CONFIRMED]"
  have "\<not> isl (assign_technician 0 7 51 None '''' '''' ?s)" by code_simp
  then obtain a s' where s': "assign_technician 0 7 51 None '''' '''' ?s = Inr (a, s')" by (blast dest: result_cases)
  have "assignments_ok ?s" "no_clash ?s" "dates_ok ?s" by code_simp+
  from assignment_never_double_books [OF s' this] s' show ?thesis by blast
qed

definition busy_twice :: technicians_db where
  "busy_twice = (sample_technicians_db
     [(sample_booking 7 BS_TECHNICIAN_ASSIGNED)\<lparr>b_technician := Some 2\<rparr>,
      (sample_booking 8 BS_TECHNICIAN_ASSIGNED)\<lparr>b_technician := Some 2, b_slot := 22, b_service_date := 20001\<rparr>])
     \<lparr>time_slots := [(sample_slot 21)\<lparr>sl_capacity := 5\<rparr>, (sample_slot 22)\<lparr>sl_date := 20001\<rparr>]\<rparr>"

text \<open>Rescheduling does not look at the technician: it can move a booking onto hours at which its
  technician is already busy, which an assignment would have refused.\<close>

theorem rescheduling_can_double_book:
  "no_clash busy_twice \<and>
   (case reschedule_booking \<lparr>cfg_require_balance = True, cfg_cancel_hours = 24, cfg_reschedule_hours = 24\<rparr>
           0 8 21 1 '''' busy_twice of
      Inl e \<Rightarrow> False
    | Inr (b, s') \<Rightarrow> \<not> no_clash s')"
  by code_simp

end
