(* ===== verification/Lifecycle.thy ===== *)
theory Lifecycle
  imports Technicians
begin

text \<open>
  The life of a booking over the services of bookings, technicians and scheduling together: the calls
  the handlers make, the states they can reach, the invariant of those states and the statuses a booking
  goes through. The payment services are not among the calls; what they may do to a booking is in
  \<open>Payments\<close>.
\<close>

section \<open>Calls\<close>

datatype booking_call =
    Create timestamp user nat nat nat booking_request
  | Travel nat "nat option" string
  | Begin_Work nat "nat option" string
  | Finish timestamp nat "nat option" string
  | Close nat "nat option" string
  | Cancel timestamp nat "nat option" string actor
  | Reschedule timestamp nat nat nat string
  | Collect timestamp nat money string "nat option" string
  | Job timestamp nat job_operation nat string
  | Assign timestamp nat nat "nat option" string string
  | Remove timestamp nat "nat option" string
  | Open_Day timestamp nat date
  | Edit_Slot time_slot

definition final_state :: "error + ('a \<times> 's) \<Rightarrow> error + 's" where
  "final_state r = (case r of Inl e \<Rightarrow> Inl e | Inr x \<Rightarrow> Inr (snd x))"

fun perform :: "booking_config \<Rightarrow> booking_call \<Rightarrow> 'x technicians_db_scheme \<Rightarrow> error + 'x technicians_db_scheme" where
  "perform cfg (Create now u v a sl rq) s = final_state (create_booking now u v a sl rq s)"
| "perform cfg (Travel k usr n) s = final_state (mark_technician_en_route k usr n s)"
| "perform cfg (Begin_Work k usr n) s = final_state (start_booking k usr n s)"
| "perform cfg (Finish now k usr n) s = final_state (complete_booking cfg now k usr n s)"
| "perform cfg (Close k usr n) s = final_state (close_booking k usr n s)"
| "perform cfg (Cancel now k usr n who) s = final_state (cancel_booking cfg now k usr n who s)"
| "perform cfg (Reschedule now k sl usr n) s = final_state (reschedule_booking cfg now k sl usr n s)"
| "perform cfg (Collect now k amount m usr n) s = final_state (record_balance_collection now k amount m usr n s)"
| "perform cfg (Job now me oper k n) s = final_state (operate_job cfg now me oper k n s)"
| "perform cfg (Assign now k t usr n r) s = final_state (assign_technician now k t usr n r s)"
| "perform cfg (Remove now k usr n) s = final_state (remove_technician_assignment now k usr n s)"
| "perform cfg (Open_Day now area d) s = Inr (ensure_daily_slots now area d s)"
| "perform cfg (Edit_Slot data) s = final_state (update_slot data s)"

text \<open>A refused call leaves the state as it was; an accepted one is a step.\<close>

inductive reachable ::
  "booking_config \<Rightarrow> 'x technicians_db_scheme \<Rightarrow> 'x technicians_db_scheme \<Rightarrow> bool"
  for cfg :: booking_config and s :: "'x technicians_db_scheme" where
  reachable_start: "reachable cfg s s"
| reachable_step: "reachable cfg s t \<Longrightarrow> perform cfg c t = Inr t' \<Longrightarrow> reachable cfg s t'"

inductive_simps reachable_simps: "reachable cfg s t"

lemma final_state_Inr: "final_state r = Inr s' \<Longrightarrow> \<exists>x. r = Inr (x, s')"
  by (cases r) (auto simp: final_state_def)

text \<open>A technician's own call is one of three services, on a job that is assigned to them.\<close>

lemma operate_job_Inr:
  "operate_job cfg now me oper k n s = Inr (b, s') \<Longrightarrow>
     mark_technician_en_route k (Some me) n s = Inr (b, s') \<or> start_booking k (Some me) n s = Inr (b, s') \<or>
     complete_booking cfg now k (Some me) n s = Inr (b, s')"
  by (auto simp: operate_job_def split: option.splits if_splits job_operation.splits)

section \<open>The other tables\<close>

lemma technicians_of_more:
  fixes s s' :: "'x technicians_db_scheme"
  assumes "leads_db.more s' = leads_db.more s"
  shows "technicians s' = technicians s \<and> assignments s' = assignments s"
  using assms by (cases s, cases s') simp

text \<open>The catalogue and the crews are as they were.\<close>

definition crew_frame :: "'x technicians_db_scheme \<Rightarrow> 'x technicians_db_scheme \<Rightarrow> bool" where
  "crew_frame s s' =
     (services s' = services s \<and> technicians s' = technicians s \<and> assignments s' = assignments s)"

lemma emit_frame [simp]:
  "services (emit_notification_event ev r bk ch p s) = services s"
  "technicians (emit_notification_event ev r bk ch p t) = technicians t"
  "assignments (emit_notification_event ev r bk ch p t) = assignments t"
  by (simp_all add: emit_notification_event_def register_hook_def)

lemma history_frame [simp]:
  "services (write_status_history k f t by n s) = services s" "services (save_booking b s) = services s"
  "technicians (write_status_history k f t by n u) = technicians u"
  "technicians (save_booking b u) = technicians u"
  "assignments (write_status_history k f t by n u) = assignments u"
  "assignments (save_booking b u) = assignments u"
  by (simp_all add: write_status_history_def save_booking_def bump_id_def)

lemma status_services_frame:
  "start_booking k usr n s = Inr (b, s') \<Longrightarrow> crew_frame s s'"
  "mark_technician_en_route k usr n s = Inr (b, s') \<Longrightarrow> crew_frame s s'"
  "complete_booking cfg now k usr n s = Inr (b, s') \<Longrightarrow> crew_frame s s'"
  "close_booking k usr n s = Inr (b, s') \<Longrightarrow> crew_frame s s'"
  by (auto simp: crew_frame_def start_booking_def mark_technician_en_route_def complete_booking_def
      close_booking_def transition_booking_def Let_def split: sum.splits if_splits)

lemma cancel_booking_frame: "cancel_booking cfg now k usr n who s = Inr (b, s') \<Longrightarrow> crew_frame s s'"
  by (auto simp: crew_frame_def cancel_booking_def Let_def split: sum.splits if_splits option.splits)

lemma reschedule_booking_frame: "reschedule_booking cfg now k sl usr n s = Inr (b, s') \<Longrightarrow> crew_frame s s'"
  by (auto simp: crew_frame_def reschedule_booking_def Let_def split: sum.splits if_splits option.splits)

lemma record_balance_collection_frame:
  "record_balance_collection now k amount m usr n s = Inr (x, s') \<Longrightarrow> crew_frame s s'"
  by (auto simp: crew_frame_def record_balance_collection_def Let_def bump_id_def insert_payment_row_def
      split: sum.splits if_splits dest!: create_payment_Inr)

lemma create_booking_frame:
  "create_booking now u v a sl rq s = Inr (b, s') \<Longrightarrow> crew_frame s s'"
  by (drule create_booking_Inr) (auto simp: crew_frame_def dest: technicians_of_more)

section \<open>The invariant\<close>

text \<open>The technician of a booking is that of its active assignment.\<close>

definition crew_of :: "nat \<Rightarrow> 'x technicians_db_scheme \<Rightarrow> nat option" where
  "crew_of k s =
     (case active_assignment k s of
        None \<Rightarrow> None
      | Some a \<Rightarrow> map_option t_user (get_technician (as_technician a) s))"

definition crew_ok :: "'x technicians_db_scheme \<Rightarrow> bool" where
  "crew_ok s =
     (list_all (\<lambda>b. b_technician b = crew_of (b_id b) s) (bookings s) \<and>
      list_all (\<lambda>a. as_booking a < next_id s) (assignments s))"

text \<open>A booking is in a slot that exists, on its day.\<close>

definition home_ok :: "'x scheduling_db_scheme \<Rightarrow> booking \<Rightarrow> bool" where
  "home_ok s b =
     (case get_slot (b_slot b) s of None \<Rightarrow> False | Some sl \<Rightarrow> b_service_date b = sl_date sl)"

text \<open>A completed or closed booking is paid in full, where the configuration asks for it.\<close>

definition settled :: "booking_config \<Rightarrow> booking \<Rightarrow> bool" where
  "settled cfg b =
     (b_status b \<in> {BS_COMPLETED, BS_CLOSED} \<longrightarrow> cfg_require_balance cfg \<longrightarrow>
        b_balance_due b \<le> b_balance_collected b)"

definition lifecycle_ok :: "booking_config \<Rightarrow> 'x technicians_db_scheme \<Rightarrow> bool" where
  "lifecycle_ok cfg s =
     (bookings_ok s \<and> capacity_ok s \<and> slots_ok s \<and> assignments_ok s \<and> crew_ok s \<and>
      list_all (home_ok s) (bookings s) \<and> list_all (settled cfg) (bookings s) \<and>
      list_all sound_service (services s))"

lemma lifecycle_okD:
  assumes "lifecycle_ok cfg s"
  shows "bookings_ok s" "capacity_ok s" "slots_ok s" "assignments_ok s" "crew_ok s"
    "list_all (home_ok s) (bookings s)" "list_all (settled cfg) (bookings s)" "list_all sound_service (services s)"
    "unique_rows sl_id (time_slots s)"
  using assms by (simp_all add: lifecycle_ok_def slots_ok_def)

lemma crew_of_cong:
  "filter (active_for k) (assignments s') = filter (active_for k) (assignments s) \<Longrightarrow>
     technicians s' = technicians s \<Longrightarrow> crew_of k s' = crew_of k s"
  by (simp add: crew_of_def active_assignment_def get_technician_def split: option.split)

lemma active_assignment_none: "filter (active_for k) (assignments s) = [] \<Longrightarrow> active_assignment k s = None"
  by (simp add: active_assignment_def)

lemma active_assignment_single: "filter (active_for k) (assignments s) = [a] \<Longrightarrow> active_assignment k s = Some a"
  by (simp add: active_assignment_def)

lemma filter_save_row_other:
  "\<not> P r \<Longrightarrow> (\<And>x. x \<in> set rows \<Longrightarrow> key x = key r \<Longrightarrow> \<not> P x) \<Longrightarrow> filter P (save_row key r rows) = filter P rows"
  by (induction rows) (auto simp: save_row_def)

lemma home_ok_cong: "time_slots s' = time_slots s \<Longrightarrow> home_ok s' = home_ok s"
  by (simp add: home_ok_def [abs_def] get_slot_def)

lemma home_ok_same:
  "b_slot b2 = b_slot b \<Longrightarrow> b_service_date b2 = b_service_date b \<Longrightarrow> home_ok s b2 = home_ok s b"
  by (simp add: home_ok_def split: option.split)

lemma slots_ok_cong: "slots_ok s \<Longrightarrow> time_slots s' = time_slots s \<Longrightarrow> next_id s \<le> next_id s' \<Longrightarrow> slots_ok s'"
  by (auto simp: slots_ok_def list_all_iff)

lemma booking_write_mem: "booking_write b b2 s s' \<Longrightarrow> b \<in> set (bookings s)"
  using booking_table.get_in_rows by (fastforce simp: booking_write_def)

text \<open>What a change of one booking has to show, once for all the services.\<close>

lemma booking_write_lifecycle:
  assumes w: "booking_write b b2 s s'" and ok: "lifecycle_ok cfg s" and slots: "time_slots s' = time_slots s"
    and services: "services s' = services s" and full: "capacity_ok s'" and asg: "assignments_ok s'"
    and bound: "list_all (\<lambda>a. as_booking a < next_id s') (assignments s')"
    and others: "\<And>j. j \<noteq> b_id b \<Longrightarrow> crew_of j s' = crew_of j s"
    and b2: "balance_ok b2" "b_technician b2 = crew_of (b_id b) s'" "home_ok s b2" "settled cfg b2"
  shows "lifecycle_ok cfg s'"
proof -
  have rows: "x = b2 \<or> (x \<in> set (bookings s) \<and> b_id x \<noteq> b_id b)" if "x \<in> set (bookings s')" for x
    using booking_write_rows [OF w that] w by (auto simp: booking_write_def)
  have id: "b_id b2 = b_id b" "next_id s \<le> next_id s'" using w by (auto simp: booking_write_def)
  have "b_technician x = crew_of (b_id x) s'" if "x \<in> set (bookings s')" for x
    using rows [OF that] b2(2) id others lifecycle_okD(5) [OF ok] by (auto simp: crew_ok_def list_all_iff)
  then have "crew_ok s'" using bound by (simp add: crew_ok_def list_all_iff)
  moreover have "bookings_ok s'" using booking_write_ok [OF w] ok b2(1) by (simp add: lifecycle_ok_def)
  moreover have "list_all (home_ok s') (bookings s')" "list_all (settled cfg) (bookings s')"
    using rows b2(3,4) ok home_ok_cong [OF slots] by (auto simp: lifecycle_ok_def list_all_iff)
  moreover have "slots_ok s'" using slots_ok_cong [OF _ slots id(2)] ok by (simp add: lifecycle_ok_def)
  ultimately show ?thesis
    using full asg services ok by (simp add: lifecycle_ok_def)
qed

text \<open>Where the crews and the slots are left alone.\<close>

lemma framed_write_lifecycle:
  assumes w: "booking_write b b2 s s'" and ok: "lifecycle_ok cfg s" and slots: "time_slots s' = time_slots s"
    and crew: "crew_frame s s'" and full: "capacity_ok s'"
    and b2: "balance_ok b2" "b_technician b2 = b_technician b" "home_ok s b2" "settled cfg b2"
  shows "lifecycle_ok cfg s'"
proof (rule booking_write_lifecycle [OF w ok slots])
  have same: "services s' = services s" "technicians s' = technicians s" "assignments s' = assignments s"
    using crew by (simp_all add: crew_frame_def)
  then show "services s' = services s" by simp
  have le: "next_id s \<le> next_id s'" using w by (simp add: booking_write_def)
  show "assignments_ok s'" using assignments_ok_cong [OF _ same(3) le] ok by (simp add: lifecycle_ok_def)
  show "list_all (\<lambda>a. as_booking a < next_id s') (assignments s')"
    using lifecycle_okD(5) [OF ok] le same(3) by (fastforce simp: crew_ok_def list_all_iff)
  show "crew_of j s' = crew_of j s" for j by (rule crew_of_cong) (simp_all add: same)
  then show "b_technician b2 = crew_of (b_id b) s'"
    using b2(2) booking_write_mem [OF w] lifecycle_okD(5) [OF ok] by (simp add: crew_ok_def list_all_iff)
qed (use full b2 in simp_all)

text \<open>Where the booking also stays in its slot and is not reopened.\<close>

lemma quiet_write_lifecycle:
  assumes w: "booking_write b b2 s s'" and ok: "lifecycle_ok cfg s" and slots: "time_slots s' = time_slots s"
    and crew: "crew_frame s s'"
    and b2: "balance_ok b2" "b_technician b2 = b_technician b" "b_slot b2 = b_slot b"
      "b_service_date b2 = b_service_date b" "settled cfg b2"
      "holds_capacity (b_status b2) \<longrightarrow> holds_capacity (b_status b)"
  shows "lifecycle_ok cfg s'"
proof (rule framed_write_lifecycle [OF w ok slots crew])
  show "capacity_ok s'" using booking_write_capacity [OF w _ _ slots b2(3,6)] ok by (simp add: lifecycle_ok_def)
  show "home_ok s b2"
    using lifecycle_okD(6) [OF ok] booking_write_mem [OF w] home_ok_same [OF b2(3,4), of s] by (simp add: list_all_iff)
qed (use b2 in simp_all)

lemma ok_row:
  "lifecycle_ok cfg s \<Longrightarrow> booking_write b b2 s s' \<Longrightarrow> balance_ok b \<and> settled cfg b"
  by (drule (0) booking_write_mem) (simp add: lifecycle_ok_def bookings_ok_def list_all_iff)

section \<open>Every call keeps it\<close>

lemma start_booking_lifecycle:
  assumes "start_booking k usr n s = Inr (b2, s')" and ok: "lifecycle_ok cfg s"
  shows "lifecycle_ok cfg s'"
proof -
  obtain b where w: "booking_write b b2 s s'" "b_status b \<in> {BS_TECHNICIAN_ASSIGNED, BS_TECHNICIAN_EN_ROUTE}"
      "b2 = b\<lparr>b_status := BS_IN_PROGRESS\<rparr>" "time_slots s' = time_slots s"
    using start_booking_write [OF assms(1)] by blast
  show ?thesis
    using w ok_row [OF ok w(1)]
    by (intro quiet_write_lifecycle [OF w(1) ok w(4) status_services_frame(1) [OF assms(1)]])
      (auto simp: balance_ok_def settled_def holds_capacity_def)
qed

lemma mark_technician_en_route_lifecycle:
  assumes "mark_technician_en_route k usr n s = Inr (b2, s')" and ok: "lifecycle_ok cfg s"
  shows "lifecycle_ok cfg s'"
proof -
  obtain b where w: "booking_write b b2 s s'" "b_status b = BS_TECHNICIAN_ASSIGNED"
      "b2 = b\<lparr>b_status := BS_TECHNICIAN_EN_ROUTE\<rparr>" "time_slots s' = time_slots s"
    using mark_technician_en_route_write [OF assms(1)] by blast
  show ?thesis
    using w ok_row [OF ok w(1)]
    by (intro quiet_write_lifecycle [OF w(1) ok w(4) status_services_frame(2) [OF assms(1)]])
      (auto simp: balance_ok_def settled_def holds_capacity_def)
qed

lemma complete_booking_lifecycle:
  assumes "complete_booking cfg now k usr n s = Inr (b2, s')" and ok: "lifecycle_ok cfg s"
  shows "lifecycle_ok cfg s'"
proof -
  obtain b where w: "booking_write b b2 s s'" "cfg_require_balance cfg \<longrightarrow> b_balance_due b \<le> b_balance_collected b"
      "b2 = b\<lparr>b_status := BS_COMPLETED, b_completed_at := Some now\<rparr>" "time_slots s' = time_slots s"
    using complete_booking_write [OF assms(1)] by blast
  show ?thesis
    using w ok_row [OF ok w(1)]
    by (intro quiet_write_lifecycle [OF w(1) ok w(4) status_services_frame(3) [OF assms(1)]])
      (auto simp: balance_ok_def settled_def holds_capacity_def)
qed

lemma close_booking_lifecycle:
  assumes "close_booking k usr n s = Inr (b2, s')" and ok: "lifecycle_ok cfg s"
  shows "lifecycle_ok cfg s'"
proof -
  obtain b where w: "booking_write b b2 s s'" "b_status b = BS_COMPLETED" "b2 = b\<lparr>b_status := BS_CLOSED\<rparr>"
      "time_slots s' = time_slots s"
    using close_booking_write [OF assms(1)] by blast
  show ?thesis
    using w ok_row [OF ok w(1)]
    by (intro quiet_write_lifecycle [OF w(1) ok w(4) status_services_frame(4) [OF assms(1)]])
      (auto simp: balance_ok_def settled_def holds_capacity_def)
qed

lemma cancel_booking_lifecycle:
  assumes "cancel_booking cfg now k usr n who s = Inr (b2, s')" and ok: "lifecycle_ok cfg2 s"
  shows "lifecycle_ok cfg2 s'"
proof -
  obtain b where w: "booking_write b b2 s s'" "b2 = b\<lparr>b_status := BS_CANCELLED, b_cancelled_at := Some now\<rparr>"
      "time_slots s' = time_slots s"
    using cancel_booking_write [OF assms(1)] by blast
  show ?thesis
    using w ok_row [OF ok w(1)]
    by (intro quiet_write_lifecycle [OF w(1) ok w(3) cancel_booking_frame [OF assms(1)]])
      (auto simp: balance_ok_def settled_def holds_capacity_def)
qed

lemma record_balance_collection_lifecycle:
  assumes "record_balance_collection now k amount m usr n s = Inr ((b2, p), s')" and ok: "lifecycle_ok cfg s"
  shows "lifecycle_ok cfg s'"
proof -
  obtain b where w: "booking_write b b2 s s'" "0 < amount" "b_balance_collected b + amount \<le> b_balance_due b"
      "b2 = b\<lparr>b_balance_collected := b_balance_collected b + amount,
              b_payment_status := (if b_balance_collected b + amount \<ge> b_balance_due b then PS_PAID
                                   else b_payment_status b)\<rparr>"
      "time_slots s' = time_slots s"
    using record_balance_collection_write [OF assms(1)] by blast
  show ?thesis
    using w ok_row [OF ok w(1)]
    by (intro quiet_write_lifecycle [OF w(1) ok w(5) record_balance_collection_frame [OF assms(1)]])
      (auto simp: balance_ok_def settled_def)
qed

lemma reschedule_booking_lifecycle:
  assumes "reschedule_booking cfg now k slot usr n s = Inr (b2, s')" and ok: "lifecycle_ok cfg2 s"
  shows "lifecycle_ok cfg2 s'"
proof -
  obtain b sl a v where w: "booking_write b b2 s s'" "b2 = b\<lparr>b_slot := sl_id sl, b_service_date := sl_date sl\<rparr>"
      "lock_and_validate_slot now slot a v s = Inr sl" "time_slots s' = time_slots s"
    using reschedule_booking_write [OF assms(1)] by blast
  have full: "capacity_ok s'"
    using reschedule_booking_capacity [OF assms(1)] lifecycle_okD [OF ok] by blast
  have "home_ok s b2" using lock_and_validate_slot_Inr [OF w(3)] w(2) by (auto simp: home_ok_def)
  with w ok_row [OF ok w(1)] show ?thesis
    by (intro framed_write_lifecycle [OF w(1) ok w(4) reschedule_booking_frame [OF assms(1)] full])
      (auto simp: balance_ok_def settled_def)
qed

lemma operate_job_lifecycle:
  "operate_job cfg now me oper k n s = Inr (b2, s') \<Longrightarrow> lifecycle_ok cfg s \<Longrightarrow> lifecycle_ok cfg s'"
  by (drule operate_job_Inr, elim disjE)
    (auto dest: start_booking_lifecycle mark_technician_en_route_lifecycle complete_booking_lifecycle)

lemma create_booking_lifecycle:
  assumes made: "create_booking now u v a sl rq s = Inr (b, s')" and ok: "lifecycle_ok cfg s"
  shows "lifecycle_ok cfg s'"
proof -
  obtain vv aa slot am where c: "lock_and_validate_slot now sl aa vv s = Inr slot"
      "b = new_booking (new_id s) (b_number b) u vv aa slot (rq\<lparr>br_problem := strip_str (br_problem rq)\<rparr>) am"
      "bookings s' = bookings s @ [b]" "time_slots s' = time_slots s" "services s' = services s"
      "b_id b < next_id s'" "next_id s \<le> next_id s'"
    using create_booking_Inr [OF made] by (fastforce simp: new_booking_def)
  note frame = create_booking_frame [OF made, unfolded crew_frame_def]
  have id: "b_id b = next_id s" "b_technician b = None" "b_status b = BS_PENDING_PAYMENT"
      "b_slot b = sl_id slot" "b_service_date b = sl_date slot"
    by (subst c(2), simp add: new_booking_def new_id_def)+
  have "filter (active_for (b_id b)) (assignments s) = []"
    using lifecycle_okD(5) [OF ok] id by (fastforce simp: crew_ok_def list_all_iff active_for_def filter_empty_conv)
  then have "crew_of (b_id b) s' = None" using frame by (simp add: crew_of_def active_assignment_none)
  moreover have "crew_of j s' = crew_of j s" for j by (rule crew_of_cong) (simp_all add: frame)
  ultimately have "crew_ok s'"
    using lifecycle_okD(5) [OF ok] c(3,7) frame id by (fastforce simp: crew_ok_def list_all_iff)
  moreover have "list_all (home_ok s') (bookings s')"
    using lifecycle_okD(6) [OF ok] lock_and_validate_slot_Inr [OF c(1)] id c(3) home_ok_cong [OF c(4)]
    by (auto simp: list_all_iff home_ok_def)
  moreover have "list_all (settled cfg) (bookings s')"
    using lifecycle_okD(7) [OF ok] id c(3) by (simp add: settled_def)
  moreover have "bookings_ok s'" "capacity_ok s'"
    using create_booking_ok [OF made] create_booking_capacity [OF made] lifecycle_okD [OF ok] by blast+
  moreover have "slots_ok s'" using slots_ok_cong [OF _ c(4,7)] lifecycle_okD(3) [OF ok] by blast
  moreover have "assignments_ok s'" using assignments_ok_cong [OF _ _ c(7)] lifecycle_okD(4) [OF ok] frame by blast
  ultimately show ?thesis using c(5) lifecycle_okD(8) [OF ok] by (simp add: lifecycle_ok_def)
qed

text \<open>Assigning and removing touch the active assignments of one booking only.\<close>

lemma replace_assignment_others:
  assumes "replace_assignment now b t usr n r s = Inr (a, s')" and "j \<noteq> b_id b" and ok: "assignments_ok s"
  shows "filter (active_for j) (assignments s') = filter (active_for j) (assignments s)"
proof -
  have saved: "filter (active_for j) (save_row as_id p2 (assignments s)) = filter (active_for j) (assignments s)"
    if "p \<in> set (assignments s)" "as_booking p = b_id b" "as_booking p2 = b_id b" "as_id p2 = as_id p" for p p2
  proof (rule filter_save_row_other)
    show "\<not> active_for j x" if "x \<in> set (assignments s)" "as_id x = as_id p2" for x
    proof -
      have "x = p"
        using that \<open>p \<in> set (assignments s)\<close> \<open>as_id p2 = as_id p\<close> ok
        by (auto simp: assignments_ok_def unique_rows_def distinct_map inj_on_def)
      with assms(2) \<open>as_booking p = b_id b\<close> show ?thesis by (simp add: active_for_def)
    qed
  qed (use that assms(2) in \<open>simp add: active_for_def\<close>)
  show ?thesis
  proof (cases "active_assignment (b_id b) s")
    case None
    with assms(1,2) show ?thesis
      by (auto simp: replace_assignment_def create_assignment_def Let_def bump_id_def insert_assignment_row_def
          active_for_def split: if_splits)
  next
    case (Some p)
    have p: "p \<in> set (assignments s)" "as_booking p = b_id b"
      using active_assignmentD [OF Some] by (simp_all add: active_for_def)
    show ?thesis
      using assms(1,2) Some saved [OF p]
      by (auto simp: replace_assignment_def create_assignment_def Let_def bump_id_def insert_assignment_row_def
          save_assignment_row_def p active_for_def split: if_splits)
  qed
qed

lemma replace_assignment_bookings:
  assumes "replace_assignment now b t usr n r s = Inr (a, s')" and "x \<in> set (assignments s')"
  shows "as_booking x = b_id b \<or> as_booking x \<in> as_booking ` set (assignments s)"
  using assms active_assignmentD [of "b_id b" s]
  by (auto simp: replace_assignment_def create_assignment_def Let_def bump_id_def insert_assignment_row_def
      save_assignment_row_def in_set_save_row split: option.splits if_splits)

lemma assign_technician_crews:
  assumes did: "assign_technician now k tid usr n r s = Inr (a, s')" and ok: "assignments_ok s"
  shows "technicians s' = technicians s \<and>
         (\<forall>j. j \<noteq> k \<longrightarrow> filter (active_for j) (assignments s') = filter (active_for j) (assignments s)) \<and>
         (\<forall>x\<in>set (assignments s'). as_booking x = k \<or> as_booking x \<in> as_booking ` set (assignments s))"
proof -
  obtain b t s1 where b: "get_booking k s = Some b" and r: "replace_assignment now b t usr n r s = Inr (a, s1)"
    and same: "technicians s' = technicians s1" "assignments s' = assignments s1"
    using did by (auto simp: assign_technician_def Let_def split: option.splits if_splits list.splits sum.splits)
  have "b_id b = k" using booking_table.get_key [OF b] .
  with r replace_assignment_Inr [OF r ok] replace_assignment_others [OF r _ ok] replace_assignment_bookings [OF r] same
  show ?thesis by (simp add: booking_side_def)
qed

lemma assign_technician_lifecycle:
  assumes did: "assign_technician now k tid usr n r s = Inr (a, s')" and ok: "lifecycle_ok cfg s"
  shows "lifecycle_ok cfg s'"
proof -
  note asg = lifecycle_okD(4) [OF ok]
  obtain b t sl ad b2 where g: "booking_write b b2 s s'" "b_id b = k" "b_status b \<in> {BS_CONFIRMED, BS_TECHNICIAN_ASSIGNED}"
      "b2 = b\<lparr>b_technician := Some (t_user t), b_status := BS_TECHNICIAN_ASSIGNED\<rparr>" "get_technician tid s = Some t"
      "time_slots s' = time_slots s" "services s' = services s" "assignments_ok s'"
      "filter (active_for k) (assignments s') = [a]" "as_technician a = tid"
    using assign_technician_Inr [OF did asg] by blast
  note crews = assign_technician_crews [OF did asg]
  have le: "next_id s \<le> next_id s'" and mem: "b \<in> set (bookings s)"
    using g(1) booking_write_mem [OF g(1)] by (auto simp: booking_write_def)
  have bound: "b_id b < next_id s'"
    using lifecycle_okD(1) [OF ok] mem le by (fastforce simp: bookings_ok_def list_all_iff)
  have home: "home_ok s b" using lifecycle_okD(6) [OF ok] mem by (simp add: list_all_iff)
  show ?thesis
  proof (rule booking_write_lifecycle [OF g(1) ok g(6,7) _ g(8)])
    show "capacity_ok s'"
      using booking_write_capacity [OF g(1) _ _ g(6)] lifecycle_okD(1,2) [OF ok] g(3,4)
      by (auto simp: holds_capacity_def)
    show "list_all (\<lambda>x. as_booking x < next_id s') (assignments s')"
      using crews bound g(2) lifecycle_okD(5) [OF ok] le by (fastforce simp: crew_ok_def list_all_iff)
    show "crew_of j s' = crew_of j s" if "j \<noteq> b_id b" for j
      using crews that g(2) by (intro crew_of_cong) simp_all
    have "active_assignment (b_id b) s' = Some a" using active_assignment_single g(2,9) by blast
    moreover have "get_technician tid s' = Some t" using crews g(5) by (simp add: get_technician_def)
    ultimately show "b_technician b2 = crew_of (b_id b) s'" using g(4,10) by (simp add: crew_of_def)
    show "home_ok s b2" using home g(4) home_ok_same [of b2 b s] by simp
  qed (use ok_row [OF ok g(1)] g(4) in \<open>simp_all add: balance_ok_def settled_def\<close>)
qed

lemma remove_assignment_crews:
  assumes did: "remove_technician_assignment now k usr n s = Inr (b2, s')" and ok: "assignments_ok s"
  shows "technicians s' = technicians s \<and>
         (\<forall>j. j \<noteq> k \<longrightarrow> filter (active_for j) (assignments s') = filter (active_for j) (assignments s)) \<and>
         as_booking ` set (assignments s') \<subseteq> as_booking ` set (assignments s)"
proof -
  obtain b a where a: "active_assignment k s = Some a" "get_booking k s = Some b"
    using did by (auto simp: remove_technician_assignment_def split: option.splits)
  define a2 where "a2 = a\<lparr>as_unassigned_at := Some now, as_notes := join_str [CHR 10] (nonempty_parts [as_notes a, n])\<rparr>"
  have s': "assignments s' = save_row as_id a2 (assignments s)" "technicians s' = technicians s"
    using did a by (auto simp: remove_technician_assignment_def Let_def save_assignment_row_def a2_def)
  have p: "a \<in> set (assignments s)" "as_booking a = k"
    using active_assignmentD [OF a(1)] by (simp_all add: active_for_def)
  have "filter (active_for j) (save_row as_id a2 (assignments s)) = filter (active_for j) (assignments s)"
    if "j \<noteq> k" for j
  proof (rule filter_save_row_other)
    show "\<not> active_for j x" if "x \<in> set (assignments s)" "as_id x = as_id a2" for x
    proof -
      have "x = a"
        using that p ok by (auto simp: a2_def assignments_ok_def unique_rows_def distinct_map inj_on_def)
      with p \<open>j \<noteq> k\<close> show ?thesis by (simp add: active_for_def)
    qed
  qed (simp add: a2_def active_for_def)
  moreover have "as_booking ` set (assignments s') \<subseteq> as_booking ` set (assignments s)"
    using p by (auto simp: s'(1) in_set_save_row a2_def)
  ultimately show ?thesis using s' by simp
qed

lemma remove_technician_assignment_lifecycle:
  assumes did: "remove_technician_assignment now k usr n s = Inr (b2, s')" and ok: "lifecycle_ok cfg s"
  shows "lifecycle_ok cfg s'"
proof -
  note asg = lifecycle_okD(4) [OF ok]
  obtain b where g: "booking_write b b2 s s'" "b_id b = k"
      "b2 = b\<lparr>b_technician := None,
              b_status := (if b_status b = BS_TECHNICIAN_ASSIGNED then BS_CONFIRMED else b_status b)\<rparr>"
      "time_slots s' = time_slots s" "services s' = services s" "assignments_ok s'"
      "filter (active_for k) (assignments s') = []"
    using remove_technician_assignment_Inr [OF did asg] by blast
  note crews = remove_assignment_crews [OF did asg]
  have le: "next_id s \<le> next_id s'" and mem: "b \<in> set (bookings s)"
    using g(1) booking_write_mem [OF g(1)] by (auto simp: booking_write_def)
  have home: "home_ok s b" using lifecycle_okD(6) [OF ok] mem by (simp add: list_all_iff)
  show ?thesis
  proof (rule booking_write_lifecycle [OF g(1) ok g(4,5) _ g(6)])
    show "capacity_ok s'"
      using booking_write_capacity [OF g(1) _ _ g(4)] lifecycle_okD(1,2) [OF ok] g(3)
      by (auto simp: holds_capacity_def)
    show "list_all (\<lambda>x. as_booking x < next_id s') (assignments s')"
      using crews lifecycle_okD(5) [OF ok] le by (fastforce simp: crew_ok_def list_all_iff)
    show "crew_of j s' = crew_of j s" if "j \<noteq> b_id b" for j
      using crews that g(2) by (intro crew_of_cong) simp_all
    show "b_technician b2 = crew_of (b_id b) s'"
      using active_assignment_none [OF g(7)] g(2,3) by (simp add: crew_of_def)
    show "home_ok s b2" using home g(3) home_ok_same [of b2 b s] by simp
  qed (use ok_row [OF ok g(1)] g(3) in \<open>auto simp: balance_ok_def settled_def\<close>)
qed

text \<open>A new slot is empty: every booking is in a slot whose key is older.\<close>

lemma ensure_window_lifecycle:
  assumes ok: "lifecycle_ok cfg s" and "fst w < snd w"
  shows "lifecycle_ok cfg (ensure_window area d w s)"
proof (cases "list_ex (same_window area d w) (time_slots s)")
  case False
  let ?sl = "daily_slot area d w (next_id s)"
  let ?s = "ensure_window area d w s"
  have rows: "time_slots ?s = time_slots s @ [?sl]" "bookings ?s = bookings s" "next_id ?s = Suc (next_id s)"
    "booking_histories ?s = booking_histories s" "services ?s = services s" "technicians ?s = technicians s"
    "assignments ?s = assignments s"
    using False by (simp_all add: ensure_window_def insert_slot_row_def bump_id_def new_id_def)
  have older: "get_slot (b_slot b) s \<noteq> None \<and> b_slot b \<noteq> next_id s" if "b \<in> set (bookings s)" for b
  proof -
    have "home_ok s b" using lifecycle_okD(6) [OF ok] that by (simp add: list_all_iff)
    then obtain sl where sl: "get_slot (b_slot b) s = Some sl" by (auto simp: home_ok_def split: option.splits)
    with lifecycle_okD(3) [OF ok] slot_table.get_in_rows [OF sl] slot_table.get_key [OF sl] show ?thesis
      by (auto simp: slots_ok_def list_all_iff)
  qed
  have "get_slot (b_slot b) ?s = get_slot (b_slot b) s" if "b \<in> set (bookings s)" for b
    using older [OF that] by (auto simp: get_slot_def rows find_row_append)
  then have "list_all (home_ok ?s) (bookings ?s)"
    using lifecycle_okD(6) [OF ok] by (simp add: rows(2) list_all_iff home_ok_def)
  moreover have "count_rows (reserves (next_id s)) (bookings s) = 0"
    using older by (auto simp: count_rows_def reserves_def filter_empty_conv)
  then have "capacity_ok ?s"
    using lifecycle_okD(2) [OF ok] by (simp add: capacity_ok_def count_reserved_bookings_def rows daily_slot_def)
  moreover have "slots_ok ?s" using ensure_window_ok [OF lifecycle_okD(3) [OF ok] assms(2)] .
  moreover have "assignments_ok ?s" using assignments_ok_cong [OF lifecycle_okD(4) [OF ok], of ?s] rows by simp
  moreover have "crew_of j ?s = crew_of j s" for j by (rule crew_of_cong) (simp_all add: rows)
  then have "crew_ok ?s" using lifecycle_okD(5) [OF ok] by (fastforce simp: crew_ok_def rows list_all_iff)
  moreover have "bookings_ok ?s"
    using lifecycle_okD(1) [OF ok] by (fastforce simp: bookings_ok_def rows trail_ok_def history_of_def list_all_iff)
  ultimately show ?thesis using lifecycle_okD(7,8) [OF ok] by (simp add: lifecycle_ok_def rows)
qed (use ok in \<open>simp add: ensure_window_def\<close>)

lemma ensure_windows_lifecycle:
  "lifecycle_ok cfg s \<Longrightarrow> list_all (\<lambda>w. fst w < snd w) ws \<Longrightarrow>
     lifecycle_ok cfg (fold (ensure_window area d) ws s)"
  by (induction ws arbitrary: s) (simp_all add: ensure_window_lifecycle)

lemma ensure_daily_slots_lifecycle:
  "lifecycle_ok cfg s \<Longrightarrow> lifecycle_ok cfg (ensure_daily_slots now area d s)"
  using ensure_windows_lifecycle [of cfg s daily_windows area d]
  by (simp add: ensure_daily_slots_def daily_windows_def del: fold_simps)

lemma update_slot_lifecycle:
  assumes edited: "update_slot data s = Inr (sl, s')" and ok: "lifecycle_ok cfg s"
  shows "lifecycle_ok cfg s'"
proof -
  obtain old where old: "get_slot (sl_id data) s = Some old" "validate_slot_update old data s = None"
    and saved: "save_slot (data\<lparr>sl_area := sl_area old\<rparr>) s = Inr (sl, s')"
    using edited by (auto simp: update_slot_def split: option.splits)
  have id: "sl_id old = sl_id data" using slot_table.get_key [OF old(1)] .
  define new where "new = data\<lparr>sl_area := sl_area old\<rparr>"
  have new: "slot_clean new = []" "s' = save_slot_row new s" "sl_id new = sl_id data"
    "\<not> list_ex (\<lambda>x. sl_area x = sl_area new \<and> sl_date x = sl_date new \<and> sl_start x = sl_start new \<and>
                  sl_end x = sl_end new \<and> sl_id x \<noteq> sl_id new) (time_slots s)"
    using saved old(1) unfolding new_def [symmetric]
    by (auto simp: save_slot_def new_def split: list.splits if_splits)
  have mem: "old \<in> set (time_slots s)" using slot_table.get_in_rows [OF old(1)] by simp
  have rows: "bookings s' = bookings s" "next_id s' = next_id s" "booking_histories s' = booking_histories s"
    "services s' = services s" "technicians s' = technicians s" "assignments s' = assignments s"
    "time_slots s' = save_row sl_id new (time_slots s)"
    by (simp_all add: new(2) save_slot_row_def)
  have kept: "list_ex (\<lambda>b. b_slot b = sl_id data) (bookings s) \<longrightarrow> sl_date data = sl_date old"
    and cap: "count_reserved_bookings old s \<le> sl_capacity data"
    using old(2) id by (auto simp: validate_slot_update_def split: if_splits)
  have "capacity_ok s'"
    using lifecycle_okD(2) [OF ok] cap id
    by (auto simp: capacity_ok_def count_reserved_bookings_def rows list_all_iff in_set_save_row new_def)
  moreover have "list_all (home_ok s') (bookings s')"
    using lifecycle_okD(6) [OF ok] kept old(1) id
    by (auto simp: home_ok_def rows(1,7) get_slot_def table_simps list_all_iff list_ex_iff new_def split: option.splits)
  moreover have "slots_ok s'"
  proof -
    note sl = lifecycle_okD(3) [OF ok, unfolded slots_ok_def]
    have "distinct (map slot_window (time_slots s'))"
      unfolding rows(7) using sl new(4)
      by (intro distinct_save_row) (auto simp: slot_window_def list_ex_iff)
    with sl new(1,3) mem id show ?thesis
      by (auto simp: slots_ok_def rows(2,7) list_all_iff in_set_save_row)
  qed
  moreover have "assignments_ok s'" using assignments_ok_cong [OF lifecycle_okD(4) [OF ok], of s'] rows by simp
  moreover have "crew_of j s' = crew_of j s" for j by (rule crew_of_cong) (simp_all add: rows)
  then have "crew_ok s'" using lifecycle_okD(5) [OF ok] by (simp add: crew_ok_def rows)
  moreover have "bookings_ok s'"
    using lifecycle_okD(1) [OF ok] by (simp add: bookings_ok_def rows trail_ok_def history_of_def)
  ultimately show ?thesis using lifecycle_okD(7,8) [OF ok] by (simp add: lifecycle_ok_def rows)
qed

lemma perform_lifecycle:
  assumes "perform cfg c s = Inr s'" and ok: "lifecycle_ok cfg s"
  shows "lifecycle_ok cfg s'"
proof (cases c)
  case (Collect now k amount m usr n)
  with assms(1) obtain x where "record_balance_collection now k amount m usr n s = Inr (x, s')"
    by (auto dest: final_state_Inr)
  with ok show ?thesis by (cases x) (auto intro: record_balance_collection_lifecycle)
qed (use assms in \<open>auto dest!: final_state_Inr intro: create_booking_lifecycle start_booking_lifecycle
      mark_technician_en_route_lifecycle complete_booking_lifecycle close_booking_lifecycle
      cancel_booking_lifecycle reschedule_booking_lifecycle operate_job_lifecycle assign_technician_lifecycle
      remove_technician_assignment_lifecycle ensure_daily_slots_lifecycle update_slot_lifecycle\<close>)

lemma reachable_lifecycle: "reachable cfg s t \<Longrightarrow> lifecycle_ok cfg s \<Longrightarrow> lifecycle_ok cfg t"
  by (induction rule: reachable.induct) (auto dest: perform_lifecycle)

section \<open>The statuses of a booking\<close>

text \<open>The moves the services make; a booking may also stay where it is.\<close>

fun lifecycle_edge :: "booking_status \<Rightarrow> booking_status \<Rightarrow> bool" where
  "lifecycle_edge BS_CONFIRMED y = (y \<in> {BS_TECHNICIAN_ASSIGNED, BS_CANCELLED})"
| "lifecycle_edge BS_TECHNICIAN_ASSIGNED y =
     (y \<in> {BS_CONFIRMED, BS_TECHNICIAN_EN_ROUTE, BS_IN_PROGRESS, BS_CANCELLED})"
| "lifecycle_edge BS_TECHNICIAN_EN_ROUTE y = (y \<in> {BS_IN_PROGRESS, BS_CANCELLED})"
| "lifecycle_edge BS_IN_PROGRESS y = (y \<in> {BS_COMPLETED, BS_CANCELLED})"
| "lifecycle_edge BS_COMPLETED y = (y = BS_CLOSED)"
| "lifecycle_edge BS_PENDING_PAYMENT y = (y = BS_CANCELLED)"
| "lifecycle_edge BS_PAYMENT_FAILED y = (y = BS_CANCELLED)"
| "lifecycle_edge _ y = False"

text \<open>What no service changes of a booking, and the statuses it may move between.\<close>

definition same_terms :: "booking \<Rightarrow> booking \<Rightarrow> bool" where
  "same_terms b c =
     (b_number c = b_number b \<and> b_customer c = b_customer b \<and> b_service c = b_service b \<and>
      b_address c = b_address b \<and> b_total c = b_total b \<and> b_advance_required c = b_advance_required b \<and>
      b_advance_paid c = b_advance_paid b \<and> b_balance_due c = b_balance_due b \<and>
      b_balance_collected b \<le> b_balance_collected c)"

definition moved_on :: "booking \<Rightarrow> booking \<Rightarrow> bool" where
  "moved_on b c =
     (same_terms b c \<and> (b_status c = b_status b \<or> lifecycle_edge (b_status b) (b_status c)))"

lemma moved_on_refl [simp]: "moved_on b b"
  by (simp add: moved_on_def same_terms_def)

lemma booking_write_moved:
  assumes "\<exists>b b2. booking_write b b2 s s' \<and> moved_on b b2" and "get_booking k s = Some x"
  shows "\<exists>y. get_booking k s' = Some y \<and> moved_on x y"
proof -
  obtain b b2 where w: "booking_write b b2 s s'" "moved_on b b2" using assms(1) by blast
  show ?thesis
    using w assms(2) booking_write_get [OF w(1)] booking_write_other [OF w(1), of k]
    by (cases "k = b_id b2") (auto simp: booking_write_def)
qed

lemmas moved_on_simps = moved_on_def same_terms_def

text \<open>Some booking was written and moved on.\<close>

definition some_moved :: "'x bookings_db_scheme \<Rightarrow> 'x bookings_db_scheme \<Rightarrow> bool" where
  "some_moved s s' = (\<exists>b b2. booking_write b b2 s s' \<and> moved_on b b2)"

lemma status_calls_moved:
  "mark_technician_en_route k usr n s = Inr (b, s') \<Longrightarrow> some_moved s s'"
  "start_booking k usr n s = Inr (b, s') \<Longrightarrow> some_moved s s'"
  "complete_booking cfg now k usr n s = Inr (b, s') \<Longrightarrow> some_moved s s'"
  "close_booking k usr n s = Inr (b, s') \<Longrightarrow> some_moved s s'"
  for s s' :: "'x technicians_db_scheme"
  by (fastforce simp: some_moved_def moved_on_simps dest: mark_technician_en_route_write start_booking_write
      complete_booking_write close_booking_write)+

lemma cancel_booking_moved: "cancel_booking cfg now k usr n who s = Inr (b, s') \<Longrightarrow> some_moved s s'"
  for s s' :: "'x technicians_db_scheme"
  by (drule cancel_booking_write)
    (fastforce simp: some_moved_def moved_on_simps admin_cancellable_def customer_cancellable_def split: actor.splits)

lemma slot_and_money_calls_moved:
  "reschedule_booking cfg now k sl me n s = Inr (b, s') \<Longrightarrow> some_moved s s'"
  "record_balance_collection now k amount m usr n s = Inr ((b, p), s') \<Longrightarrow> some_moved s s'"
  for s s' :: "'x technicians_db_scheme"
  by (fastforce simp: some_moved_def moved_on_simps dest: reschedule_booking_write record_balance_collection_write)+

lemma crew_calls_moved:
  "assignments_ok s \<Longrightarrow> assign_technician now k tid usr n r s = Inr (a, s') \<Longrightarrow> some_moved s s'"
  "assignments_ok s \<Longrightarrow> remove_technician_assignment now k usr n s = Inr (b, s') \<Longrightarrow> some_moved s s'"
  by (fastforce simp: some_moved_def moved_on_simps dest: assign_technician_Inr remove_technician_assignment_Inr)+

lemma update_slot_bookings: "update_slot data s = Inr (sl, s') \<Longrightarrow> bookings s' = bookings s"
  by (auto simp: update_slot_def save_slot_def save_slot_row_def insert_slot_row_def
      split: option.splits list.splits if_splits)

lemma perform_writes:
  assumes "perform cfg c s = Inr s'" and "assignments_ok s"
  shows "some_moved s s' \<or> (\<exists>bs. bookings s' = bookings s @ bs)"
proof (cases c)
  case (Create now u v a sl rq)
  with assms(1) obtain b where "create_booking now u v a sl rq s = Inr (b, s')" by (auto dest: final_state_Inr)
  then show ?thesis using create_booking_Inr by fastforce
next
  case (Job now me oper k n)
  with assms(1) obtain b where "operate_job cfg now me oper k n s = Inr (b, s')" by (auto dest: final_state_Inr)
  then show ?thesis by (auto dest!: operate_job_Inr dest: status_calls_moved)
qed (use assms in \<open>auto simp: ensure_daily_slots_frame
      dest!: final_state_Inr update_slot_bookings dest: status_calls_moved cancel_booking_moved
        slot_and_money_calls_moved crew_calls_moved\<close>)

lemma perform_moved:
  assumes "perform cfg c s = Inr s'" and "assignments_ok s" and k: "get_booking k s = Some x"
  shows "\<exists>y. get_booking k s' = Some y \<and> moved_on x y"
proof (cases "some_moved s s'")
  case True
  then show ?thesis using k by (intro booking_write_moved) (simp_all add: some_moved_def)
next
  case False
  with perform_writes [OF assms(1,2)] k show ?thesis by (auto simp: get_booking_def find_row_append)
qed

section \<open>Properties\<close>

definition sample_config :: booking_config where
  "sample_config = \<lparr>cfg_require_balance = True, cfg_cancel_hours = 24, cfg_reschedule_hours = 24\<rparr>"

text \<open>A day in the life of booking 7, which is paid for and confirmed.\<close>

definition sample_calls :: "booking_call list" where
  "sample_calls =
     [Open_Day 0 3 20000, Assign 0 7 51 None '''' '''', Travel 7 None '''', Begin_Work 7 None '''',
      Collect 0 7 72000 ''CASH'' None '''', Finish 0 7 None '''', Close 7 None '''']"

definition perform_all ::
  "booking_config \<Rightarrow> booking_call list \<Rightarrow> 'x technicians_db_scheme \<Rightarrow> error + 'x technicians_db_scheme" where
  "perform_all cfg cs s = fold (\<lambda>c r. case r of Inl e \<Rightarrow> Inl e | Inr t \<Rightarrow> perform cfg c t) cs (Inr s)"

lemma perform_all_Inl: "fold (\<lambda>c r. case r of Inl e \<Rightarrow> Inl e | Inr t \<Rightarrow> perform cfg c t) cs (Inl e) = Inl e"
  by (induction cs) simp_all

lemma perform_all_Cons:
  "perform_all cfg (c # cs) s = (case perform cfg c s of Inl e \<Rightarrow> Inl e | Inr t \<Rightarrow> perform_all cfg cs t)"
  by (simp add: perform_all_def perform_all_Inl split: sum.split)

lemma reachable_trans: "reachable cfg t u \<Longrightarrow> reachable cfg s t \<Longrightarrow> reachable cfg s u"
  by (induction rule: reachable.induct) (auto intro: reachable.intros)

lemma perform_all_reachable: "perform_all cfg cs s = Inr t \<Longrightarrow> reachable cfg s t"
proof (induction cs arbitrary: s)
  case Nil
  then show ?case by (simp add: perform_all_def reachable_start)
next
  case (Cons c cs)
  then obtain u where "perform cfg c s = Inr u" "perform_all cfg cs u = Inr t"
    by (auto simp: perform_all_Cons split: sum.splits)
  with Cons.IH show ?case using reachable_trans reachable_step reachable_start by blast
qed

definition paid_booking :: booking where
  "paid_booking = (sample_booking 7 BS_CONFIRMED)
     \<lparr>b_advance_paid := 18000, b_balance_due := 72000, b_payment_status := PS_PARTIALLY_PAID\<rparr>"

definition sample_lifecycle_db :: technicians_db where
  "sample_lifecycle_db = (sample_technicians_db [paid_booking])\<lparr>time_slots := [sample_slot 21]\<rparr>"

text \<open>C1: Whatever the services of bookings, technicians and scheduling are asked for and in whatever
  order, a sound state stays sound: no slot is overbooked, the history of each booking replays to its
  status, no balance is collected beyond what is due, each booking has at most one active assignment and
  its technician is the one of that assignment, every booking is in a slot on its day, and, where the
  configuration demands it, a completed booking is paid in full.\<close>

theorem reachable_states_are_sound:
  assumes "reachable cfg s t" and "lifecycle_ok cfg s"
  shows "lifecycle_ok cfg t"
  using assms by (rule reachable_lifecycle)

theorem reachable_states_are_sound_witness:
  "\<exists>t. reachable sample_config sample_lifecycle_db t \<and> lifecycle_ok sample_config t \<and>
       map b_status (bookings t) = [BS_CLOSED] \<and> length (time_slots t) = 6"
proof -
  let ?s = sample_lifecycle_db
  have run: "case perform_all sample_config sample_calls ?s of Inl e \<Rightarrow> False
      | Inr t \<Rightarrow> map b_status (bookings t) = [BS_CLOSED] \<and> length (time_slots t) = 6" by code_simp
  then obtain t where t: "perform_all sample_config sample_calls ?s = Inr t"
    by (cases "perform_all sample_config sample_calls ?s") simp_all
  have "lifecycle_ok sample_config ?s" by code_simp
  with reachable_states_are_sound [OF perform_all_reachable [OF t]] perform_all_reachable [OF t] run t
  show ?thesis by auto
qed

text \<open>C3: A call takes a booking along one edge of its life or leaves it where it is, and never touches
  what was agreed: its number, customer, service, address, total, advance and balance; money collected
  is never taken back.\<close>

theorem calls_follow_the_lifecycle:
  assumes "perform cfg c s = Inr s'" and "assignments_ok s" and "get_booking k s = Some b"
  shows "\<exists>b2. get_booking k s' = Some b2 \<and> same_terms b b2 \<and>
           (b_status b2 = b_status b \<or> lifecycle_edge (b_status b) (b_status b2))"
  using perform_moved [OF assms] by (simp add: moved_on_def)

theorem calls_follow_the_lifecycle_witness:
  "\<exists>s' b2. perform sample_config (Assign 0 7 51 None '''' '''') sample_lifecycle_db = Inr s' \<and>
           get_booking 7 s' = Some b2 \<and> b_total b2 = 90000"
proof -
  let ?s = sample_lifecycle_db
  have "\<not> isl (perform sample_config (Assign 0 7 51 None '''' '''') ?s)" by code_simp
  then obtain s' where s': "perform sample_config (Assign 0 7 51 None '''' '''') ?s = Inr s'"
    by (cases "perform sample_config (Assign 0 7 51 None '''' '''') ?s") simp_all
  have ok: "assignments_ok ?s" and b: "get_booking 7 ?s = Some paid_booking" and "b_total paid_booking = 90000"
    by code_simp+
  with calls_follow_the_lifecycle [OF s' ok b] s' show ?thesis by (auto simp: same_terms_def)
qed

text \<open>What is over stays over: no sequence of calls takes a booking out of the closed, cancelled or
  refund statuses.\<close>

theorem finished_bookings_stay:
  assumes "reachable cfg s t" and "lifecycle_ok cfg s" and "get_booking k s = Some b"
    and "b_status b \<in> {BS_CLOSED, BS_CANCELLED, BS_REFUND_PENDING, BS_REFUNDED}"
  shows "\<exists>b2. get_booking k t = Some b2 \<and> b_status b2 = b_status b \<and> same_terms b b2"
  using assms(1)
proof (induction rule: reachable.induct)
  case reachable_start
  with assms(3) show ?case by (simp add: same_terms_def)
next
  case (reachable_step t c t')
  then obtain x where x: "get_booking k t = Some x" "b_status x = b_status b" "same_terms b x" by blast
  have "assignments_ok t"
    using lifecycle_okD(4) [OF reachable_lifecycle [OF reachable_step.hyps(1) assms(2)]] .
  from perform_moved [OF reachable_step.hyps(2) this x(1)] x assms(4) show ?case
    by (auto simp: moved_on_def same_terms_def)
qed

theorem finished_bookings_stay_witness:
  "\<exists>(t :: technicians_db) u b. reachable sample_config t u \<and> u = ensure_daily_slots 0 3 20001 t \<and> get_booking 7 u = Some b \<and>
          b_status b = BS_CLOSED \<and> b_total b = 90000"
proof -
  let ?s = sample_lifecycle_db
  have run: "case perform_all sample_config sample_calls ?s of Inl e \<Rightarrow> False
      | Inr t \<Rightarrow> (case get_booking 7 t of None \<Rightarrow> False | Some b \<Rightarrow> b_status b = BS_CLOSED \<and> b_total b = 90000)"
    by code_simp
  then obtain t b where t: "perform_all sample_config sample_calls ?s = Inr t"
    and b: "get_booking 7 t = Some b" "b_status b = BS_CLOSED" "b_total b = 90000"
    by (cases "perform_all sample_config sample_calls ?s") (auto split: option.splits)
  have "lifecycle_ok sample_config ?s" by code_simp
  then have ok: "lifecycle_ok sample_config t" by (rule reachable_lifecycle [OF perform_all_reachable [OF t]])
  have step: "reachable sample_config t (ensure_daily_slots 0 3 20001 t)"
    using reachable_step [OF reachable_start, of sample_config "Open_Day 0 3 20001" t] by simp
  have "b_status b \<in> {BS_CLOSED, BS_CANCELLED, BS_REFUND_PENDING, BS_REFUNDED}" using b(2) by simp
  from finished_bookings_stay [OF step ok b(1) this] b obtain b2 where
    "get_booking 7 (ensure_daily_slots 0 3 20001 t) = Some b2" "b_status b2 = BS_CLOSED" "b_total b2 = 90000"
    by (auto simp: same_terms_def)
  with step show ?thesis by blast
qed

text \<open>Taking the technician off a job that is in progress strands it: its status stays in progress,
  and neither can it be completed nor can another technician be assigned.\<close>

theorem removing_strands_a_running_job:
  assumes "remove_technician_assignment now k usr n s = Inr (b, s')" and "b_status b = BS_IN_PROGRESS"
    and "assignments_ok s"
  shows "(\<exists>e. complete_booking cfg now2 k usr2 n2 s' = Inl e) \<and> (\<exists>e. start_booking k usr2 n2 s' = Inl e) \<and>
         (\<exists>e. assign_technician now2 k t usr2 n2 r s' = Inl e)"
proof -
  obtain c where "booking_write c b s s'" "b_id c = k" "b_technician b = None"
    using remove_technician_assignment_Inr [OF assms(1,3)] by force
  then have "get_booking k s' = Some b" "b_technician b = None"
    using booking_write_get [of c b s s'] by (auto simp: booking_write_def)
  with assms(2) show ?thesis
    by (simp add: complete_booking_def start_booking_def assign_technician_def lock_booking_def)
qed

theorem removing_strands_a_running_job_witness:
  "\<exists>b s' e. remove_technician_assignment 0 7 None '''' (sample_lifecycle_db
       \<lparr>bookings := [paid_booking\<lparr>b_status := BS_IN_PROGRESS, b_technician := Some 2\<rparr>],
        assignments := [\<lparr>as_id = 60, as_booking = 7, as_technician = 51, as_previous = None, as_assigned_by = None,
          as_assigned_at = 0, as_unassigned_at = None, as_reason = '''', as_notes = ''''\<rparr>]\<rparr>) = Inr (b, s') \<and>
     complete_booking sample_config 0 7 None '''' s' = Inl e"
proof -
  let ?s = "sample_lifecycle_db
       \<lparr>bookings := [paid_booking\<lparr>b_status := BS_IN_PROGRESS, b_technician := Some 2\<rparr>],
        assignments := [\<lparr>as_id = 60, as_booking = 7, as_technician = 51, as_previous = None, as_assigned_by = None,
          as_assigned_at = 0, as_unassigned_at = None, as_reason = '''', as_notes = ''''\<rparr>]\<rparr>"
  let ?r = "remove_technician_assignment 0 7 None '''' ?s"
  have r: "\<not> isl ?r \<and> b_status (fst (projr ?r)) = BS_IN_PROGRESS" by code_simp
  then obtain b s' where s': "?r = Inr (b, s')" by (blast dest: result_cases)
  then have "b_status b = BS_IN_PROGRESS" using r by simp
  moreover have "assignments_ok ?s" by code_simp
  ultimately show ?thesis using removing_strands_a_running_job [OF s'] s' by blast
qed

text \<open>C30: An assigned job that is paid in full can always be finished: the technician starts it,
  completes it, and it is closed.\<close>

theorem paid_work_can_be_closed:
  assumes "get_booking k s = Some b" and "b_status b \<in> {BS_TECHNICIAN_ASSIGNED, BS_TECHNICIAN_EN_ROUTE}"
    and "b_technician b = Some me" and "b_balance_due b \<le> b_balance_collected b"
  shows "\<exists>t b2. perform_all cfg [Job now me Start k n, Job now me Complete k n, Close k usr n] s = Inr t \<and>
               get_booking k t = Some b2 \<and> b_status b2 = BS_CLOSED \<and> b_completed_at b2 = Some now"
proof -
  have id: "b_id b = k" using booking_table.get_key [OF assms(1)] by simp
  have found: "get_booking k (write_status_history k f to usr m (save_booking c u)) = Some c"
    if "b_id c = k" "get_booking k u = Some d" for c d f to usr m and u :: "'a technicians_db_scheme"
    using that by (auto simp: write_status_history_def bump_id_def get_booking_def save_booking_def table_simps)
  have emit: "get_booking k (emit_notification_event ev r bk ch p u) = get_booking k u" for ev r bk ch p
    and u :: "'a technicians_db_scheme"
    by (simp add: get_booking_def emit_notification_event_def register_hook_def)
  show ?thesis
    using assms id
    by (auto simp: perform_all_Cons final_state_def operate_job_def start_booking_def complete_booking_def
        close_booking_def lock_booking_def transition_booking_def Let_def found emit perform_all_def)
qed

theorem paid_work_can_be_closed_witness:
  "\<exists>t b2. perform_all sample_config [Job 0 2 Start 7 '''', Job 0 2 Complete 7 '''', Close 7 None '''']
       (sample_technicians_db [(sample_booking 7 BS_TECHNICIAN_ASSIGNED)\<lparr>b_technician := Some 2, b_balance_due := 0\<rparr>]) = Inr t \<and>
     get_booking 7 t = Some b2 \<and> b_status b2 = BS_CLOSED"
proof -
  let ?b = "(sample_booking 7 BS_TECHNICIAN_ASSIGNED)\<lparr>b_technician := Some 2, b_balance_due := 0\<rparr>"
  have b: "get_booking 7 (sample_technicians_db [?b]) = Some ?b" "b_status ?b \<in> {BS_TECHNICIAN_ASSIGNED, BS_TECHNICIAN_EN_ROUTE}"
    "b_technician ?b = Some 2" "b_balance_due ?b \<le> b_balance_collected ?b"
    by code_simp+
  from paid_work_can_be_closed [OF b, where cfg = sample_config and now = 0 and n = "''''" and usr = None] show ?thesis by blast
qed

section \<open>The abstract view of the slots\<close>

text \<open>
  What the calls promise about slots, without bookings: each slot has a capacity and a number of places
  taken; a call takes a place, gives one back, moves one, sets a capacity, adds empty slots, or leaves the
  places alone.
\<close>

type_synonym places = "nat \<Rightarrow> (nat \<times> nat) option"

definition places_of :: "'x scheduling_db_scheme \<Rightarrow> places" where
  "places_of s k = map_option (\<lambda>sl. (sl_capacity sl, count_reserved_bookings sl s)) (get_slot k s)"

definition take_place :: "nat \<Rightarrow> places \<Rightarrow> places option" where
  "take_place k p =
     (case p k of
        None \<Rightarrow> None
      | Some (cap, n) \<Rightarrow> if n < cap then Some (p(k \<mapsto> (cap, Suc n))) else None)"

definition give_back :: "nat \<Rightarrow> places \<Rightarrow> places" where
  "give_back k p = (case p k of None \<Rightarrow> p | Some (cap, n) \<Rightarrow> p(k \<mapsto> (cap, n - 1)))"

text \<open>A new capacity, not below what is taken.\<close>

definition set_places :: "nat \<Rightarrow> nat \<Rightarrow> places \<Rightarrow> places option" where
  "set_places k capacity p =
     (case p k of
        None \<Rightarrow> None
      | Some (cap, n) \<Rightarrow> if n \<le> capacity then Some (p(k \<mapsto> (capacity, n))) else None)"

text \<open>The place of a booking, if it holds one, is given back.\<close>

definition vacate :: "nat \<Rightarrow> 'x bookings_db_scheme \<Rightarrow> places \<Rightarrow> places" where
  "vacate k s p =
     (case get_booking k s of
        None \<Rightarrow> p
      | Some b \<Rightarrow> if holds_capacity (b_status b) then give_back (b_slot b) p else p)"

text \<open>A slot with the keys from \<open>k\<close>, each with the daily capacity and nothing taken.\<close>

definition fresh_places :: "nat \<Rightarrow> nat \<Rightarrow> places" where
  "fresh_places k m = (\<lambda>j. if k \<le> j \<and> j < k + m then Some (daily_capacity, 0) else None)"

lemma fresh_places_0 [simp]: "fresh_places k 0 = Map.empty"
  by (auto simp: fresh_places_def)

text \<open>The windows of a day that opening it has to make: none on a day that is past or closed.\<close>

definition missing_windows :: "nat \<Rightarrow> date \<Rightarrow> (int \<times> int) list \<Rightarrow> 'x scheduling_db_scheme \<Rightarrow> (int \<times> int) list" where
  "missing_windows area d ws s = filter (\<lambda>w. \<not> list_ex (same_window area d w) (time_slots s)) ws"

definition opened_windows :: "timestamp \<Rightarrow> nat \<Rightarrow> date \<Rightarrow> 'x scheduling_db_scheme \<Rightarrow> nat" where
  "opened_windows now area d s =
     (if d < localdate now \<or> is_service_area_closed area d s then 0
      else length (missing_windows area d daily_windows s))"

text \<open>The calls on the abstract view; \<open>None\<close> is a call the abstract slots refuse.\<close>

fun places_call :: "booking_call \<Rightarrow> 'x scheduling_db_scheme \<Rightarrow> places \<Rightarrow> places option" where
  "places_call (Create now u v a sl rq) s p = take_place sl p"
| "places_call (Finish now k usr n) s p = Some (vacate k s p)"
| "places_call (Cancel now k usr n who) s p = Some (vacate k s p)"
| "places_call (Reschedule now k sl usr n) s p = map_option (vacate k s) (take_place sl p)"
| "places_call (Job now me oper k n) s p = Some (if oper = Complete then vacate k s p else p)"
| "places_call (Open_Day now area d) s p = Some (p ++ fresh_places (next_id s) (opened_windows now area d s))"
| "places_call (Edit_Slot data) s p = set_places (sl_id data) (sl_capacity data) p"
| "places_call c s p = Some p"

lemma places_of_cong:
  assumes "time_slots s' = time_slots s" and "\<And>k. count_rows (reserves k) (bookings s') = count_rows (reserves k) (bookings s)"
  shows "places_of s' = places_of s"
proof
  fix k
  have "get_slot k s' = get_slot k s" using assms(1) by (simp add: get_slot_def)
  with assms(2) show "places_of s' k = places_of s k"
    by (simp add: places_of_def count_reserved_bookings_def)
qed

text \<open>The places after the reserved bookings of the slots in \<open>f\<close> have changed.\<close>

lemma places_of_counts:
  assumes "time_slots s' = time_slots s"
  shows "places_of s' k = map_option (\<lambda>sl. (sl_capacity sl, count_rows (reserves k) (bookings s'))) (get_slot k s)"
proof -
  have "get_slot k s' = get_slot k s" using assms by (simp add: get_slot_def)
  then show ?thesis
    by (cases "get_slot k s") (simp_all add: places_of_def count_reserved_bookings_def slot_table.get_key)
qed

lemma reserves_b: "reserves k b \<longleftrightarrow> k = b_slot b \<and> holds_capacity (b_status b)"
  by (auto simp: reserves_def)

lemma write_places:
  assumes w: "booking_write b b2 s s'" and unique: "unique_rows b_id (bookings s)"
    and slots: "time_slots s' = time_slots s" and slot: "b_slot b2 = b_slot b"
    and "holds_capacity (b_status b2) \<longrightarrow> holds_capacity (b_status b)"
  shows "places_of s' = (if holds_capacity (b_status b2) then places_of s else vacate (b_id b) s (places_of s))"
proof
  fix k
  have b: "get_booking (b_id b) s = Some b" using w by (simp add: booking_write_def)
  have "int (count_rows (reserves k) (bookings s')) = int (count_rows (reserves k) (bookings s)) -
      (if reserves k b then 1 else 0) + (if reserves k b2 then 1 else 0)"
    using booking_write_count [OF w unique] .
  then have "count_rows (reserves k) (bookings s') = (if k = b_slot b \<and> holds_capacity (b_status b) \<and>
      \<not> holds_capacity (b_status b2) then count_rows (reserves k) (bookings s) - 1
      else count_rows (reserves k) (bookings s))"
    using slot assms(5) by (auto simp: reserves_b split: if_splits)
  then show "places_of s' k = (if holds_capacity (b_status b2) then places_of s else vacate (b_id b) s (places_of s)) k"
    using places_of_counts [OF slots, of k] places_of_counts [of s s k] b
    by (cases "get_slot k s") (auto simp: vacate_def give_back_def places_of_counts [of s s] split: option.split)
qed

lemma move_places:
  assumes w: "booking_write b b2 s s'" and unique: "unique_rows b_id (bookings s)"
    and slots: "time_slots s' = time_slots s" and b2: "b2 = b\<lparr>b_slot := sl_id sl, b_service_date := d\<rparr>"
    and sl: "get_slot k s = Some sl" and free: "count_reserved_bookings sl s < sl_capacity sl"
    and holds: "holds_capacity (b_status b)"
  shows "map_option (vacate (b_id b) s) (take_place k (places_of s)) = Some (places_of s')"
proof -
  have b: "get_booking (b_id b) s = Some b" using w by (simp add: booking_write_def)
  have id: "sl_id sl = k" using slot_table.get_key [OF sl] .
  let ?n = "\<lambda>j. count_rows (reserves j) (bookings s)"
  have free': "?n k < sl_capacity sl" using free id by (simp add: count_reserved_bookings_def)
  have taken: "take_place k (places_of s) = Some ((places_of s)(k \<mapsto> (sl_capacity sl, Suc (?n k))))"
    using sl free' by (simp add: take_place_def places_of_counts [of s s])
  have "vacate (b_id b) s ((places_of s)(k \<mapsto> (sl_capacity sl, Suc (?n k)))) j = places_of s' j" for j
  proof -
    have "int (count_rows (reserves j) (bookings s')) = int (?n j) -
        (if reserves j b then 1 else 0) + (if reserves j b2 then 1 else 0)"
      using booking_write_count [OF w unique] .
    then have "int (count_rows (reserves j) (bookings s')) = int (?n j) -
        (if j = b_slot b then 1 else 0) + (if j = k then 1 else 0)"
      using holds id by (simp add: reserves_b b2)
    then have "count_rows (reserves j) (bookings s') =
        (if j = b_slot b then (if j = k then ?n j else ?n j - 1) else if j = k then Suc (?n j) else ?n j)"
      by (auto split: if_splits)
    then show ?thesis
      using places_of_counts [OF slots, of j] places_of_counts [of s s j] b holds sl
      by (cases "get_slot j s") (auto simp: vacate_def give_back_def places_of_counts [of s s] split: option.split)
  qed
  then have "vacate (b_id b) s ((places_of s)(k \<mapsto> (sl_capacity sl, Suc (?n k)))) = places_of s'" by (rule ext)
  with taken show ?thesis by simp
qed

lemma create_places:
  assumes "create_booking now u v a k rq s = Inr (b, s')"
  shows "take_place k (places_of s) = Some (places_of s')"
proof -
  obtain w x sl am number where sl: "lock_and_validate_slot now k x w s = Inr sl"
    and b: "b = new_booking (new_id s) number u w x sl (rq\<lparr>br_problem := strip_str (br_problem rq)\<rparr>) am"
    and s': "bookings s' = bookings s @ [b]" "time_slots s' = time_slots s"
    using create_booking_Inr [OF assms] by blast
  note lock = lock_and_validate_slot_Inr [OF sl]
  have res: "reserves j b \<longleftrightarrow> j = k" for j
    using b lock by (auto simp: reserves_b new_booking_def holds_capacity_def)
  let ?n = "\<lambda>j. count_rows (reserves j) (bookings s)"
  have "?n k < sl_capacity sl"
    using lock is_slot_bookable_capacity [of now sl s] by (auto simp: count_reserved_bookings_def)
  then have "take_place k (places_of s) = Some ((places_of s)(k \<mapsto> (sl_capacity sl, Suc (?n k))))"
    using lock by (simp add: take_place_def places_of_counts [of s s])
  moreover have "(places_of s)(k \<mapsto> (sl_capacity sl, Suc (?n k))) = places_of s'"
    using lock s' res by (auto simp: fun_eq_iff places_of_counts [of s s] places_of_counts [OF s'(2)])
  ultimately show ?thesis by simp
qed

text \<open>A call that leaves the slot of its booking and reopens nothing.\<close>

lemma vacate_idle: "get_booking k s = Some b \<Longrightarrow> \<not> holds_capacity (b_status b) \<Longrightarrow> vacate k s p = p"
  by (simp add: vacate_def)

lemma keep_places:
  assumes "booking_write b b2 s s'" and "unique_rows b_id (bookings s)" and "time_slots s' = time_slots s"
    and "b_slot b2 = b_slot b" and "holds_capacity (b_status b2) \<longleftrightarrow> holds_capacity (b_status b)"
  shows "places_of s' = places_of s"
proof -
  have "get_booking (b_id b) s = Some b" using assms(1) by (simp add: booking_write_def)
  with write_places [OF assms(1-4)] assms(5) vacate_idle show ?thesis by auto
qed

lemma leave_places:
  assumes "booking_write b b2 s s'" and "unique_rows b_id (bookings s)" and "time_slots s' = time_slots s"
    and "b_slot b2 = b_slot b" and "\<not> holds_capacity (b_status b2)"
  shows "places_of s' = vacate (b_id b) s (places_of s)"
  using write_places [OF assms(1-4)] assms(5) by auto

lemma status_call_places:
  assumes "unique_rows b_id (bookings s)"
  shows "mark_technician_en_route k usr n s = Inr (b, s') \<Longrightarrow> places_of s' = places_of s"
    and "start_booking k usr n s = Inr (b, s') \<Longrightarrow> places_of s' = places_of s"
    and "close_booking k usr n s = Inr (b, s') \<Longrightarrow> places_of s' = places_of s"
    and "complete_booking cfg now k usr n s = Inr (b, s') \<Longrightarrow> places_of s' = vacate k s (places_of s)"
    and "cancel_booking cfg now k usr n who s = Inr (b, s') \<Longrightarrow> places_of s' = vacate k s (places_of s)"
    and "record_balance_collection now k amount m usr n s = Inr ((b, pay), s') \<Longrightarrow> places_of s' = places_of s"
  using assms
  by (auto dest!: mark_technician_en_route_write start_booking_write close_booking_write complete_booking_write
        cancel_booking_write record_balance_collection_write
      intro: keep_places leave_places simp: holds_capacity_def)

lemma crew_call_places:
  assumes "unique_rows b_id (bookings s)" and "assignments_ok s"
  shows "assign_technician now k tid usr n r s = Inr (a, s') \<Longrightarrow> places_of s' = places_of s"
    and "remove_technician_assignment now k usr n s = Inr (b, s') \<Longrightarrow> places_of s' = places_of s"
proof -
  assume "assign_technician now k tid usr n r s = Inr (a, s')"
  from assign_technician_Inr [OF this assms(2)] obtain b b2 where "booking_write b b2 s s'"
    "time_slots s' = time_slots s" "b_slot b2 = b_slot b" "b_status b \<in> {BS_CONFIRMED, BS_TECHNICIAN_ASSIGNED}"
    "b_status b2 = BS_TECHNICIAN_ASSIGNED" by auto
  then show "places_of s' = places_of s" using assms(1) by (intro keep_places [of b b2 s s']) (auto simp: holds_capacity_def)
next
  assume "remove_technician_assignment now k usr n s = Inr (b, s')"
  from remove_technician_assignment_Inr [OF this assms(2)] obtain x where "booking_write x b s s'"
    "time_slots s' = time_slots s" "b_slot b = b_slot x"
    "b_status b = (if b_status x = BS_TECHNICIAN_ASSIGNED then BS_CONFIRMED else b_status x)" by auto
  then show "places_of s' = places_of s" using assms(1) by (intro keep_places [of x b s s']) (auto simp: holds_capacity_def)
qed

lemma reschedule_places:
  assumes moved: "reschedule_booking cfg now k j usr n s = Inr (b2, s')" and unique: "unique_rows b_id (bookings s)"
  shows "map_option (vacate k s) (take_place j (places_of s)) = Some (places_of s')"
proof -
  obtain b sl a v where w: "booking_write b b2 s s'" "customer_reschedulable (b_status b)"
    "b2 = b\<lparr>b_slot := sl_id sl, b_service_date := sl_date sl\<rparr>" "b_id b = k"
    "lock_and_validate_slot now j a v s = Inr sl" "time_slots s' = time_slots s"
    using reschedule_booking_write [OF moved] by blast
  note lock = lock_and_validate_slot_Inr [OF w(5)]
  have "count_reserved_bookings sl s < sl_capacity sl"
    using lock is_slot_bookable_capacity by blast
  moreover have "holds_capacity (b_status b)"
    using w(2) by (auto simp: customer_reschedulable_def holds_capacity_def)
  ultimately show ?thesis
    using move_places [OF w(1) unique w(6,3) conjunct1 [OF lock]] w(4) by simp
qed

text \<open>Opening a day adds its missing windows, under the next keys.\<close>

lemma same_window_inj: "same_window area d w sl \<Longrightarrow> same_window area d v sl \<Longrightarrow> v = w"
  by (cases v; cases w) (simp add: same_window_def hour_us_def)

lemma same_window_daily: "same_window area d w (daily_slot area d w k)"
  by (simp add: same_window_def daily_slot_def)

lemma missing_windows_after:
  assumes "w \<notin> set ws" and "\<not> list_ex (same_window area d w) (time_slots s)"
  shows "missing_windows area d ws (ensure_window area d w s) = missing_windows area d ws s"
proof -
  have "\<not> same_window area d v (daily_slot area d w k)" if "v \<in> set ws" for v k
    using same_window_inj [OF _ same_window_daily] assms(1) that by blast
  then show ?thesis
    using assms(2) by (auto simp: missing_windows_def ensure_window_def insert_slot_row_def bump_id_def intro!: filter_cong)
qed

lemma ensure_windows_slots:
  assumes "distinct ws"
  shows "\<exists>news. time_slots (fold (ensure_window area d) ws s) = time_slots s @ news \<and>
           map sl_id news = [next_id s..<next_id s + length (missing_windows area d ws s)] \<and>
           (\<forall>sl\<in>set news. sl_capacity sl = daily_capacity)"
  using assms
proof (induction ws arbitrary: s)
  case (Cons w ws)
  show ?case
  proof (cases "list_ex (same_window area d w) (time_slots s)")
    case True
    with Cons show ?thesis by (simp add: ensure_window_def missing_windows_def)
  next
    case False
    let ?t = "ensure_window area d w s"
    have t: "time_slots ?t = time_slots s @ [daily_slot area d w (next_id s)]" "next_id ?t = Suc (next_id s)"
      using False by (simp_all add: ensure_window_def insert_slot_row_def bump_id_def new_id_def)
    let ?m = "length (missing_windows area d ws s)"
    obtain news where "time_slots (fold (ensure_window area d) ws ?t) = time_slots ?t @ news"
      "map sl_id news = [next_id ?t..<next_id ?t + length (missing_windows area d ws ?t)]"
      "\<forall>sl\<in>set news. sl_capacity sl = daily_capacity"
      using Cons.IH [of ?t] Cons.prems by auto
    moreover have "missing_windows area d ws ?t = missing_windows area d ws s"
      using missing_windows_after [OF _ False, of ws] Cons.prems by simp
    moreover have "length (missing_windows area d (w # ws) s) = Suc ?m"
      using False by (simp add: missing_windows_def)
    moreover have "[next_id s..<next_id s + Suc ?m] = next_id s # [Suc (next_id s)..<Suc (next_id s) + ?m]"
      by (subst upt_conv_Cons) simp_all
    ultimately show ?thesis
      using t by (intro exI [of _ "daily_slot area d w (next_id s) # news"]) (simp add: daily_slot_def)
  qed
qed (simp add: missing_windows_def)

lemma open_day_places:
  assumes ok: "lifecycle_ok cfg s"
  shows "places_of (ensure_daily_slots now area d s) =
           places_of s ++ fresh_places (next_id s) (opened_windows now area d s)"
proof (cases "d < localdate now \<or> is_service_area_closed area d s")
  case True
  then show ?thesis
    by (simp add: ensure_daily_slots_def opened_windows_def)
next
  case False
  let ?m = "opened_windows now area d s" and ?s = "ensure_daily_slots now area d s"
  have s': "?s = fold (ensure_window area d) daily_windows s"
    using False by (simp add: ensure_daily_slots_def)
  have "distinct daily_windows" by (simp add: daily_windows_def)
  from ensure_windows_slots [OF this, of area d s] obtain news where
    news: "time_slots ?s = time_slots s @ news" "map sl_id news = [next_id s..<next_id s + ?m]"
      "\<forall>sl\<in>set news. sl_capacity sl = daily_capacity"
    using False by (auto simp: s' opened_windows_def simp del: fold_simps)
  have ids: "sl_id ` set news = {next_id s..<next_id s + ?m}"
    using arg_cong [OF news(2), of set] by simp
  have old: "k < next_id s" if "get_slot k s = Some sl" for k sl
    using that slot_table.get_in_rows [OF that] slot_table.get_key [OF that] lifecycle_okD(3) [OF ok]
    by (auto simp: slots_ok_def list_all_iff)
  have "\<not> reserves k b" if "b \<in> set (bookings s)" "next_id s \<le> k" for k b
    using lifecycle_okD(6) [OF ok] that old [of "b_slot b"]
    by (fastforce simp: reserves_def home_ok_def list_all_iff split: option.splits)
  then have empty: "count_rows (reserves k) (bookings s) = 0" if "next_id s \<le> k" for k
    using that by (simp add: count_rows_def filter_empty_conv)
  have "places_of ?s k = (places_of s ++ fresh_places (next_id s) ?m) k" for k
  proof (cases "get_slot k s")
    case (Some sl)
    then have "get_slot k ?s = Some sl" by (simp add: get_slot_def news(1) find_row_append)
    with Some old [OF Some] show ?thesis
      by (simp add: places_of_def count_reserved_bookings_def ensure_daily_slots_frame fresh_places_def map_add_def)
  next
    case None
    then have found: "get_slot k ?s = find_row sl_id k news" by (simp add: get_slot_def news(1) find_row_append)
    show ?thesis
    proof (cases "find_row sl_id k news")
      case None
      then have "k \<notin> sl_id ` set news" by (auto simp: find_row_None_iff)
      with ids found \<open>get_slot k s = None\<close> None show ?thesis
        by (auto simp: places_of_def fresh_places_def map_add_def)
    next
      case (Some sl)
      then have sl: "sl \<in> set news" "sl_id sl = k" by (auto dest: find_row_SomeD)
      then have "next_id s \<le> k \<and> k < next_id s + ?m" using ids by auto
      with sl found Some news(3) empty show ?thesis
        by (simp add: places_of_def fresh_places_def map_add_def count_reserved_bookings_def ensure_daily_slots_frame)
    qed
  qed
  then show ?thesis by (rule ext)
qed

text \<open>Editing a slot sets its capacity, which may not fall below the places taken.\<close>

lemma edit_slot_places:
  assumes "update_slot data s = Inr (sl, s')"
  shows "set_places (sl_id data) (sl_capacity data) (places_of s) = Some (places_of s')"
proof -
  obtain old where old: "get_slot (sl_id data) s = Some old" "validate_slot_update old data s = None"
    and saved: "save_slot (data\<lparr>sl_area := sl_area old\<rparr>) s = Inr (sl, s')"
    using assms by (auto simp: update_slot_def split: option.splits)
  have s': "s' = save_slot_row (data\<lparr>sl_area := sl_area old\<rparr>) s"
    using saved old(1) by (auto simp: save_slot_def split: list.splits if_splits)
  have id: "sl_id old = sl_id data" using slot_table.get_key [OF old(1)] .
  have taken: "count_rows (reserves (sl_id data)) (bookings s) \<le> sl_capacity data"
    using old(2) id by (simp add: validate_slot_update_def count_reserved_bookings_def split: if_splits)
  have "places_of s' k = ((places_of s)(sl_id data \<mapsto>
      (sl_capacity data, count_rows (reserves (sl_id data)) (bookings s)))) k" for k
    using old(1) by (auto simp: places_of_def s' save_slot_row_def get_slot_def table_simps count_reserved_bookings_def)
  then have "places_of s' = (places_of s)(sl_id data \<mapsto>
      (sl_capacity data, count_rows (reserves (sl_id data)) (bookings s)))" by (rule ext)
  with old(1) id taken show ?thesis
    by (simp add: set_places_def places_of_def count_reserved_bookings_def)
qed

section \<open>The calls refine the abstract view\<close>

text \<open>C2: The calls implement the abstract slots: seen through the capacities and the places taken, every
  accepted call is the abstract call: creating takes a place of the slot it names, which had one left;
  completing and cancelling give back the place the booking held; rescheduling takes a place in the new
  slot and gives back the old one; opening a day adds one empty slot of the daily capacity for each window
  the day lacks, and none on a past or closed day; editing a slot sets its capacity, which is not below
  the places taken, and takes or gives none; every other call leaves capacities and places as they are.\<close>

theorem calls_refine_places:
  assumes performed: "perform cfg c s = Inr s'" and ok: "lifecycle_ok cfg s"
  shows "places_call c s (places_of s) = Some (places_of s')"
proof -
  have unique: "unique_rows b_id (bookings s)" "assignments_ok s"
    using lifecycle_okD [OF ok] by (simp_all add: bookings_ok_def)
  show ?thesis
  proof (cases c)
    case (Job now me oper k n)
    then obtain b where "operate_job cfg now me oper k n s = Inr (b, s')"
      using performed by (auto dest: final_state_Inr)
    then show ?thesis
      using Job status_call_places(1,2,4) [OF unique(1)]
      by (auto simp: operate_job_def split: option.splits if_splits job_operation.splits)
  next
    case (Create now u v a sl rq)
    with performed show ?thesis by (auto dest!: final_state_Inr create_places)
  next
    case (Reschedule now k sl usr n)
    with performed show ?thesis by (auto dest!: final_state_Inr reschedule_places [OF _ unique(1)])
  next
    case (Collect now k amount m usr n)
    with performed status_call_places(6) [OF unique(1)] show ?thesis by (fastforce dest!: final_state_Inr)
  next
    case (Assign now k t usr n r)
    with performed crew_call_places(1) [OF unique] show ?thesis by (fastforce dest!: final_state_Inr)
  next
    case (Remove now k usr n)
    with performed crew_call_places(2) [OF unique] show ?thesis by (fastforce dest!: final_state_Inr)
  next
    case (Open_Day now area d)
    with performed open_day_places [OF ok] show ?thesis by auto
  next
    case (Edit_Slot data)
    with performed show ?thesis by (auto dest!: final_state_Inr edit_slot_places)
  qed (use performed in \<open>auto dest!: final_state_Inr status_call_places [OF unique(1)]\<close>)
qed

theorem calls_refine_places_witness:
  "(\<exists>s'. perform sample_config (Cancel 0 7 None '''' AdminActor) sample_lifecycle_db = Inr s' \<and>
     places_of sample_lifecycle_db 21 = Some (2, 1) \<and>
     places_of s' = vacate 7 sample_lifecycle_db (places_of sample_lifecycle_db) \<and> places_of s' 21 = Some (2, 0)) \<and>
   (\<exists>s'. perform sample_config (Open_Day 0 3 20001) sample_lifecycle_db = Inr s' \<and>
     places_of s' = places_of sample_lifecycle_db ++ fresh_places (next_id sample_lifecycle_db) 6)"
proof
  let ?s = "sample_lifecycle_db" and ?c = "Cancel 0 7 None '''' AdminActor" and ?o = "Open_Day 0 3 20001"
  have ok: "lifecycle_ok sample_config ?s" by code_simp
  have "case perform sample_config ?c ?s of Inl e \<Rightarrow> False | Inr s' \<Rightarrow> places_of s' 21 = Some (2, 0)" by code_simp
  then obtain s' where s': "perform sample_config ?c ?s = Inr s'" "places_of s' 21 = Some (2, 0)"
    by (auto split: sum.splits)
  have "places_of ?s 21 = Some (2, 1)" by code_simp
  with calls_refine_places [OF s'(1) ok] s'
  show "\<exists>s'. perform sample_config ?c ?s = Inr s' \<and> places_of ?s 21 = Some (2, 1) \<and>
     places_of s' = vacate 7 ?s (places_of ?s) \<and> places_of s' 21 = Some (2, 0)" by simp
  have six: "opened_windows 0 3 20001 ?s = 6" by code_simp
  have run: "perform sample_config ?o ?s = Inr (ensure_daily_slots 0 3 20001 ?s)" by simp
  from calls_refine_places [OF run ok] run six
  show "\<exists>s'. perform sample_config ?o ?s = Inr s' \<and> places_of s' = places_of ?s ++ fresh_places (next_id ?s) 6"
    by (metis option.inject places_call.simps(6))
qed

end
