(* ===== verification/Payments.thy ===== *)
theory Payments
  imports Bookings
begin

text \<open>
  The payment services, \<open>apps/payments/services.py\<close>: opening an order for the advance, verifying a
  payment, refunds and their reconciliation, the webhook. The gateway, the message authentication
  code, the hash and the JSON parser are parameters.
\<close>

section \<open>Signatures\<close>

text \<open>\<open>mac secret message\<close> is the hexadecimal HMAC-SHA256.\<close>

type_synonym mac = "string \<Rightarrow> string \<Rightarrow> string"

definition make_payment_signature :: "mac \<Rightarrow> string \<Rightarrow> string \<Rightarrow> string \<Rightarrow> string" where
  "make_payment_signature mac key_secret order_id payment_id = mac key_secret (order_id @ ''|'' @ payment_id)"

definition verify_payment_signature ::
  "mac \<Rightarrow> string \<Rightarrow> string \<Rightarrow> string \<Rightarrow> string \<Rightarrow> error + bool" where
  "verify_payment_signature mac key_secret order_id payment_id signature =
     compare_digest (make_payment_signature mac key_secret order_id payment_id) signature"

definition verify_webhook_signature :: "mac \<Rightarrow> string \<Rightarrow> string \<Rightarrow> string \<Rightarrow> error + bool" where
  "verify_webhook_signature mac webhook_secret body signature =
     compare_digest (mac webhook_secret body) signature"

section \<open>The gateway: \<open>providers.py\<close>\<close>

text \<open>
  An adapter has three calls; each raises or answers with a dictionary. The arguments of \<open>ga_order\<close> are
  the amount, the receipt and the notes, of \<open>ga_refund\<close> the payment reference, the amount, the receipt
  and the notes.
\<close>

record gateway =
  ga_order :: "int \<Rightarrow> string \<Rightarrow> json \<Rightarrow> error + json"
  ga_refund :: "string \<Rightarrow> int \<Rightarrow> string \<Rightarrow> json \<Rightarrow> error + json"
  ga_fetch_refund :: "string \<Rightarrow> error + json"

text \<open>\<open>LocalRazorpayAdapter\<close>; \<open>token\<close> is the random hexadecimal text of this call.\<close>

definition local_gateway :: "string \<Rightarrow> gateway" where
  "local_gateway token =
     \<lparr>ga_order = (\<lambda>amount receipt notes. Inr (JObj
        [(''id'', JStr (''order_'' @ token)), (''amount'', JNum amount), (''currency'', JStr ''INR''),
         (''receipt'', JStr receipt), (''status'', JStr ''created''), (''notes'', notes)])),
      ga_refund = (\<lambda>payment_id amount receipt notes. Inr (JObj
        [(''id'', JStr (''rfnd_'' @ token)), (''payment_id'', JStr payment_id), (''amount'', JNum amount),
         (''currency'', JStr ''INR''), (''receipt'', JStr receipt), (''status'', JStr ''processed''),
         (''notes'', notes)])),
      ga_fetch_refund = (\<lambda>refund_id. Inr (JObj [(''id'', JStr refund_id), (''status'', JStr ''processed'')]))\<rparr>"

text \<open>
  \<open>RazorpayApiAdapter\<close>: without keys the call of \<open>_client\<close> raises the configuration error, but it is
  made inside the \<open>try\<close>, whose last handler turns every exception into unavailability. \<open>call\<close> is the
  client library: \<open>Inl True\<close> is a rejected request, \<open>Inl False\<close> any other failure.
\<close>

definition api_answer :: "bool \<Rightarrow> string \<Rightarrow> string \<Rightarrow> bool + json \<Rightarrow> error + json" where
  "api_answer configured rejected unavailable answer =
     (if \<not> configured then Inl (APIException unavailable)
      else case answer of
        Inl True \<Rightarrow> Inl (APIException rejected)
      | Inl False \<Rightarrow> Inl (APIException unavailable)
      | Inr v \<Rightarrow> Inr v)"

definition razorpay_gateway ::
  "string \<Rightarrow> string \<Rightarrow> (string \<Rightarrow> json \<Rightarrow> bool + json) \<Rightarrow> gateway" where
  "razorpay_gateway key_id key_secret call =
     (let configured = (key_id \<noteq> '''' \<and> key_secret \<noteq> '''') in
      \<lparr>ga_order = (\<lambda>amount receipt notes.
         api_answer configured ''Razorpay rejected the order request.''
           ''Razorpay order service is temporarily unavailable.''
           (call ''order.create'' (JObj [(''amount'', JNum amount), (''currency'', JStr ''INR''),
                                         (''receipt'', JStr receipt), (''notes'', notes)]))),
       ga_refund = (\<lambda>payment_id amount receipt notes.
         api_answer configured ''Razorpay rejected the refund request.''
           ''Razorpay refund service is temporarily unavailable.''
           (call (''payment.refund '' @ payment_id)
             (JObj [(''amount'', JNum amount), (''speed'', JStr ''normal''),
                    (''receipt'', JStr receipt), (''notes'', notes)]))),
       ga_fetch_refund = (\<lambda>refund_id.
         api_answer configured ''Razorpay could not find that refund.''
           ''Razorpay refund service is temporarily unavailable.''
           (call ''refund.fetch'' (JStr refund_id)))\<rparr>)"

text \<open>\<open>d["id"]\<close>, stored in a text column.\<close>

definition provider_id :: "json \<Rightarrow> error + string" where
  "provider_id d =
     (case d of
        JObj kvs \<Rightarrow> (case map_of kvs ''id'' of
                       None \<Rightarrow> Inl (KeyError ''id'')
                     | Some v \<Rightarrow> Inr (py_str v))
      | _ \<Rightarrow> Inl (TypeError ''object is not subscriptable''))"

section \<open>Opening an order\<close>

record order_answer =
  or_payment :: nat
  or_booking :: nat
  or_order_id :: "string option"
  or_amount :: string
  or_amount_paise :: int
  or_currency :: string
  or_key_id :: string

definition order_response :: "string \<Rightarrow> payment \<Rightarrow> order_answer" where
  "order_response key_id p =
     \<lparr>or_payment = p_id p, or_booking = p_booking p, or_order_id = p_order_id p,
      or_amount = money_str (p_amount p), or_amount_paise = decimal_to_paise (amount_dec (p_amount p)),
      or_currency = p_currency p, or_key_id = key_id\<rparr>"

definition keyed_payment :: "nat \<Rightarrow> payment_type \<Rightarrow> string \<Rightarrow> 'x payments_db_scheme \<Rightarrow> payment option" where
  "keyed_payment k ty key s =
     last_row (\<lambda>p. p_booking p = k \<and> p_type p = ty \<and> p_key p = key) (payments s)"

definition existing_advance :: "nat \<Rightarrow> 'x payments_db_scheme \<Rightarrow> payment option" where
  "existing_advance k s = last_row (\<lambda>p. p_booking p = k \<and> active_advance p) (payments s)"

definition open_order ::
  "gateway \<Rightarrow> booking \<Rightarrow> string \<Rightarrow> 'x payments_db_scheme \<Rightarrow> error + (payment \<times> 'x payments_db_scheme)" where
  "open_order gw b key s =
     (case ga_order gw (decimal_to_paise (amount_dec (b_advance_required b))) (b_number b)
             (JObj [(''booking_id'', JStr (nat_str (b_id b))), (''booking_number'', JStr (b_number b))]) of
        Inl e \<Rightarrow> Inl e
      | Inr order \<Rightarrow>
          (case provider_id order of
             Inl e \<Rightarrow> Inl e
           | Inr oid \<Rightarrow>
               create_payment
                 ((blank_payment (b_id b))\<lparr>p_order_id := Some oid, p_amount := b_advance_required b,
                    p_payload := redact_payload order, p_key := key\<rparr>) s))"

definition create_advance_payment_order ::
  "gateway \<Rightarrow> string \<Rightarrow> nat \<Rightarrow> nat \<Rightarrow> string \<Rightarrow> 'x payments_db_scheme \<Rightarrow>
     error + ((payment \<times> order_answer) \<times> 'x payments_db_scheme)" where
  "create_advance_payment_order gw key_id k me key s =
     (case get_booking k s of
        None \<Rightarrow> Inl (DoesNotExist ''Booking'')
      | Some b \<Rightarrow>
          if b_customer b \<noteq> me then Inl (ValidationError ''Booking was not found.'')
          else if b_status b \<notin> {BS_PENDING_PAYMENT, BS_PAYMENT_FAILED}
          then Inl (ValidationError ''Booking is not awaiting payment.'')
          else case keyed_payment k BOOKING_ADVANCE key s of
            Some p \<Rightarrow>
              if p_status p = PR_FAILED
              then Inl (FieldError ''idempotency_key''
                     ''The previous payment attempt failed. Start a new attempt with a new Idempotency-Key.'')
              else Inr ((p, order_response key_id p), s)
          | None \<Rightarrow>
              (case existing_advance k s of
                 Some p \<Rightarrow>
                   if p_status p = PR_SUCCESS
                   then Inl (ValidationError ''Payment has already been processed.'')
                   else if given '''' (p_order_id p) \<noteq> ''''
                   then Inr ((p, order_response key_id p), s)
                   else (case open_order gw b key s of
                           Inl e \<Rightarrow> Inl e
                         | Inr (q, s1) \<Rightarrow> Inr ((q, order_response key_id q), s1))
               | None \<Rightarrow>
                   (case open_order gw b key s of
                      Inl e \<Rightarrow> Inl e
                    | Inr (q, s1) \<Rightarrow> Inr ((q, order_response key_id q), s1))))"

section \<open>Verifying a payment\<close>

definition or_empty :: "json \<Rightarrow> json" where
  "or_empty payload = (if truthy payload then payload else JObj [])"

definition mark_payment_failed ::
  "payment \<Rightarrow> booking \<Rightarrow> string \<Rightarrow> json \<Rightarrow> 'x payments_db_scheme \<Rightarrow>
     error + (payment \<times> 'x payments_db_scheme)" where
  "mark_payment_failed p b provider_payment_id payload s =
     (let p2 = p\<lparr>p_status := PR_FAILED,
                 p_payment_id := (if provider_payment_id = '''' then p_payment_id p else Some provider_payment_id),
                 p_payload := redact_payload (or_empty payload)\<rparr>
      in case save_payment p2 s of
           Inl e \<Rightarrow> Inl e
         | Inr s1 \<Rightarrow>
             let s2 = (if b_status b \<in> {BS_PENDING_PAYMENT, BS_PAYMENT_FAILED}
                       then save_booking (b\<lparr>b_status := BS_PAYMENT_FAILED, b_payment_status := PS_FAILED\<rparr>) s1
                       else s1)
             in Inr (p2, if p_status p = PR_FAILED then s2
                         else emit_notification_event NE_PAYMENT_FAILED (Some (b_customer b)) (booking_ref b) []
                                (JObj [(''payment_id'', JStr (nat_str (p_id p)))]) s2))"

definition confirmed_booking :: "timestamp \<Rightarrow> payment \<Rightarrow> booking \<Rightarrow> booking" where
  "confirmed_booking now p b =
     b\<lparr>b_advance_paid := p_amount p, b_balance_due := b_total b - p_amount p,
       b_payment_status := PS_PARTIALLY_PAID, b_status := BS_CONFIRMED, b_confirmed_at := Some now\<rparr>"

text \<open>A failure to update the lead is logged and dropped.\<close>

definition confirm_booking_after_payment ::
  "timestamp \<Rightarrow> booking \<Rightarrow> payment \<Rightarrow> nat option \<Rightarrow> 'x leads_db_scheme \<Rightarrow> booking \<times> 'x leads_db_scheme" where
  "confirm_booking_after_payment now b p by s =
     (let b2 = confirmed_booking now p b;
          s1 = save_booking b2 s;
          s2 = (if b_status b = BS_CONFIRMED then s1
                else
                  emit_notification_event NE_BOOKING_CONFIRMED (Some (b_customer b2)) (booking_ref b2) []
                    (JObj [(''payment_id'', JStr (nat_str (p_id p)))])
                 (emit_notification_event NE_PAYMENT_SUCCESSFUL (Some (b_customer b2)) (booking_ref b2) []
                    (JObj [(''payment_id'', JStr (nat_str (p_id p))), (''amount'', JStr (money_str (p_amount p)))])
                 (write_status_history (b_id b) (Some (b_status b)) BS_CONFIRMED by
                    ''Advance payment verified.'' s1)))
      in (b2, snd (mark_booking_payment_paid now b2 (p_id p) by s2)))"

definition payment_by_order :: "string \<Rightarrow> 'x payments_db_scheme \<Rightarrow> payment option" where
  "payment_by_order order_id s = first_row (\<lambda>p. p_order_id p = Some order_id) (payments s)"

text \<open>The body of the transaction: whether the signature was valid, and the payment.\<close>

definition verify_payment_body ::
  "mac \<Rightarrow> string \<Rightarrow> timestamp \<Rightarrow> string \<Rightarrow> string \<Rightarrow> string \<Rightarrow> nat option \<Rightarrow> json \<Rightarrow>
     'x leads_db_scheme \<Rightarrow> error + ((bool \<times> payment) \<times> 'x leads_db_scheme)" where
  "verify_payment_body mac key_secret now order_id payment_id signature me payload s =
     (case payment_by_order order_id s of
        None \<Rightarrow> Inl (DoesNotExist ''Payment'')
      | Some p \<Rightarrow>
          (case get_booking (p_booking p) s of
             None \<Rightarrow> Inl (DoesNotExist ''Booking'')
           | Some b \<Rightarrow>
               if me \<noteq> None \<and> me \<noteq> Some (b_customer b)
               then Inl (ValidationError ''Payment was not found.'')
               else if p_amount p \<noteq> b_advance_required b
               then Inl (ValidationError ''Payment amount does not match booking advance.'')
               else if p_status p = PR_SUCCESS then Inr ((True, p), s)
               else (case verify_payment_signature mac key_secret order_id payment_id signature of
                       Inl e \<Rightarrow> Inl e
                     | Inr False \<Rightarrow>
                         (case mark_payment_failed p b payment_id payload s of
                            Inl e \<Rightarrow> Inl e
                          | Inr (p2, s1) \<Rightarrow> Inr ((False, p2), s1))
                     | Inr True \<Rightarrow>
                         let p2 = p\<lparr>p_payment_id := Some payment_id, p_signature_verified := True,
                                    p_status := PR_SUCCESS, p_paid_at := Some now,
                                    p_payload := redact_payload (or_empty payload)\<rparr>
                         in (case save_payment p2 s of
                               Inl e \<Rightarrow> Inl e
                             | Inr s1 \<Rightarrow> Inr ((True, p2), snd (confirm_booking_after_payment now b p2 me s1))))))"

text \<open>A wrong signature is recorded first and raised after the transaction has committed.\<close>

definition verify_razorpay_payment ::
  "mac \<Rightarrow> string \<Rightarrow> timestamp \<Rightarrow> string \<Rightarrow> string \<Rightarrow> string \<Rightarrow> nat option \<Rightarrow> json \<Rightarrow>
     'x leads_db_scheme \<Rightarrow> (error + payment) \<times> 'x leads_db_scheme" where
  "verify_razorpay_payment mac key_secret now order_id payment_id signature me payload s =
     (case verify_payment_body mac key_secret now order_id payment_id signature me payload s of
        Inl e \<Rightarrow> (Inl e, s)
      | Inr ((valid, p), s1) \<Rightarrow>
          (if valid then Inr p else Inl (ValidationError ''Payment verification failed.''), s1))"

section \<open>Refunds\<close>

definition refund_status :: "json \<Rightarrow> record_status" where
  "refund_status v =
     (let text = lower_str (if truthy v then py_str v else '''') in
      case map_of [(''processed'', PR_SUCCESS), (''failed'', PR_FAILED), (''pending'', PR_PENDING),
                   (''created'', PR_PENDING)] text of
        Some st \<Rightarrow> st
      | None \<Rightarrow> PR_PENDING)"

definition refunds_of :: "nat \<Rightarrow> 'x payments_db_scheme \<Rightarrow> payment list" where
  "refunds_of k s = filter (\<lambda>p. p_parent p = Some k) (payments s)"

definition refunded_total :: "nat \<Rightarrow> 'x payments_db_scheme \<Rightarrow> money" where
  "refunded_total k s = sum_rows p_amount (\<lambda>p. p_status p = PR_SUCCESS) (refunds_of k s)"

definition requested_total :: "nat \<Rightarrow> 'x payments_db_scheme \<Rightarrow> money" where
  "requested_total k s = sum_rows p_amount (\<lambda>p. p_status p \<noteq> PR_FAILED) (refunds_of k s)"

definition apply_refund_state ::
  "booking \<Rightarrow> payment \<Rightarrow> 'x payments_db_scheme \<Rightarrow> error + 'x payments_db_scheme" where
  "apply_refund_state b source s =
     (if refunded_total (p_id source) s \<ge> p_amount source then
        (case save_payment (source\<lparr>p_status := PR_REFUNDED\<rparr>) s of
           Inl e \<Rightarrow> Inl e
         | Inr s1 \<Rightarrow> Inr (save_booking (b\<lparr>b_payment_status := PS_REFUNDED, b_status := BS_REFUNDED\<rparr>) s1))
      else if list_ex (\<lambda>p. p_status p \<in> {PR_CREATED, PR_PENDING}) (refunds_of (p_id source) s)
      then Inr (save_booking (b\<lparr>b_status := BS_REFUND_PENDING\<rparr>) s)
      else if b_status b = BS_REFUND_PENDING
      then Inr (save_booking
             (b\<lparr>b_status := (if b_cancelled_at b \<noteq> None then BS_CANCELLED else BS_CONFIRMED)\<rparr>) s)
      else Inr s)"

definition refund_payload :: "payment \<Rightarrow> json" where
  "refund_payload r =
     JObj [(''refund_id'', JStr (nat_str (p_id r))), (''amount'', JStr (money_str (p_amount r)))]"

definition refund_receipt :: "(string \<Rightarrow> string) \<Rightarrow> nat \<Rightarrow> string \<Rightarrow> string" where
  "refund_receipt sha k key = ''refund-'' @ take 8 (nat_str k) @ ''-'' @ take 12 (sha key)"

text \<open>What follows the gateway's answer: the row, the state of the booking, the notifications.\<close>

definition record_refund ::
  "timestamp \<Rightarrow> booking \<Rightarrow> payment \<Rightarrow> money \<Rightarrow> string \<Rightarrow> json \<Rightarrow> string \<Rightarrow> 'x payments_db_scheme \<Rightarrow>
     error + (payment \<times> 'x payments_db_scheme)" where
  "record_refund now b source amount key answer rid s =
     (let status = refund_status (item ''status'' answer) in
      case create_payment
             ((blank_payment (b_id b))\<lparr>p_parent := Some (p_id source), p_refund_id := Some rid,
                p_amount := amount, p_currency := p_currency source, p_type := REFUND, p_status := status,
                p_payload := redact_payload answer, p_key := key,
                p_refunded_at := (if status = PR_SUCCESS then Some now else None)\<rparr>) s of
        Inl e \<Rightarrow> Inl e
      | Inr (r, s1) \<Rightarrow>
          (case apply_refund_state b source s1 of
             Inl e \<Rightarrow> Inl e
           | Inr s2 \<Rightarrow>
               let s3 = emit_notification_event NE_REFUND_INITIATED (Some (b_customer b)) (booking_ref b) []
                          (refund_payload r) s2
               in Inr (r, if status = PR_SUCCESS
                          then emit_notification_event NE_REFUND_COMPLETED (Some (b_customer b)) (booking_ref b) []
                                 (refund_payload r) s3
                          else s3)))"

definition create_refund ::
  "gateway \<Rightarrow> (string \<Rightarrow> string) \<Rightarrow> timestamp \<Rightarrow> nat \<Rightarrow> money \<Rightarrow> string \<Rightarrow> nat \<Rightarrow> string \<Rightarrow>
     'x payments_db_scheme \<Rightarrow> error + (payment \<times> 'x payments_db_scheme)" where
  "create_refund gw sha now pid amount key requested_by reason s =
     (case get_payment pid s of
        None \<Rightarrow> Inl (DoesNotExist ''Payment'')
      | Some source \<Rightarrow>
          (case get_booking (p_booking source) s of
             None \<Rightarrow> Inl (DoesNotExist ''Booking'')
           | Some b \<Rightarrow>
               if p_type source = REFUND \<or> p_status source \<notin> {PR_SUCCESS, PR_REFUNDED}
               then Inl (ValidationError ''Only a successful payment can be refunded.'')
               else if given '''' (p_payment_id source) = ''''
               then Inl (ValidationError ''This payment does not have a Razorpay payment reference.'')
               else case keyed_payment (b_id b) REFUND key s of
                 Some r \<Rightarrow> Inr (r, s)
               | None \<Rightarrow>
                   let remaining = p_amount source - requested_total (p_id source) s in
                   if amount \<le> 0 \<or> amount > remaining
                   then Inl (FieldError ''amount''
                          (''Refund amount must be between 0.01 and '' @ money_str remaining @ ''.''))
                   else (case ga_refund gw (given '''' (p_payment_id source))
                                (decimal_to_paise (amount_dec amount)) (refund_receipt sha (p_id source) key)
                                (JObj [(''booking_id'', JStr (nat_str (b_id b))),
                                       (''booking_number'', JStr (b_number b)),
                                       (''reason'', JStr (take 200 reason)),
                                       (''requested_by'', JStr (nat_str requested_by))]) of
                           Inl e \<Rightarrow> Inl e
                         | Inr answer \<Rightarrow>
                             (case provider_id answer of
                                Inl e \<Rightarrow> Inl e
                              | Inr rid \<Rightarrow> record_refund now b source amount key answer rid s))))"

definition reconcile_refund ::
  "gateway \<Rightarrow> timestamp \<Rightarrow> nat \<Rightarrow> 'x payments_db_scheme \<Rightarrow> error + (payment \<times> 'x payments_db_scheme)" where
  "reconcile_refund gw now rid s =
     (case get_payment rid s of
        None \<Rightarrow> Inl (DoesNotExist ''Payment'')
      | Some r \<Rightarrow>
          if p_type r \<noteq> REFUND then Inl (DoesNotExist ''Payment'')
          else case get_booking (p_booking r) s of
            None \<Rightarrow> Inl (DoesNotExist ''Booking'')
          | Some b \<Rightarrow>
              let parent = (case p_parent r of None \<Rightarrow> None | Some k \<Rightarrow> get_payment k s) in
              (case parent of
                 None \<Rightarrow> Inl (ValidationError ''Refund provider references are incomplete.'')
               | Some source \<Rightarrow>
                   if given '''' (p_refund_id r) = ''''
                   then Inl (ValidationError ''Refund provider references are incomplete.'')
                   else (case ga_fetch_refund gw (given '''' (p_refund_id r)) of
                           Inl e \<Rightarrow> Inl e
                         | Inr answer \<Rightarrow>
                             let status = refund_status (item ''status'' answer);
                                 r2 = r\<lparr>p_status := status, p_payload := redact_payload answer,
                                        p_refunded_at := (if status = PR_SUCCESS then Some now else None)\<rparr>
                             in (case save_payment r2 s of
                                   Inl e \<Rightarrow> Inl e
                                 | Inr s1 \<Rightarrow>
                                     (case apply_refund_state b source s1 of
                                        Inl e \<Rightarrow> Inl e
                                      | Inr s2 \<Rightarrow>
                                          Inr (r2, if p_status r \<noteq> PR_SUCCESS \<and> status = PR_SUCCESS
                                                   then emit_notification_event NE_REFUND_COMPLETED
                                                          (Some (b_customer b)) (booking_ref b) []
                                                          (refund_payload r2) s2
                                                   else s2))))))"

section \<open>The webhook\<close>

text \<open>\<open>value == n\<close>: a boolean compares equal to 0 or 1.\<close>

definition equals_int :: "json \<Rightarrow> int \<Rightarrow> bool" where
  "equals_int v n =
     (case v of JNum m \<Rightarrow> m = n | JBool b \<Rightarrow> (if b then 1 else 0) = n | _ \<Rightarrow> False)"

text \<open>
  The entity's field \<open>k\<close>, which raises when the payload does not have the shape of nested
  dictionaries.
\<close>

definition entity_field :: "string \<Rightarrow> string \<Rightarrow> json \<Rightarrow> error + json" where
  "entity_field kind k payload =
     (case webhook_entity kind payload of Inl e \<Rightarrow> Inl e | Inr entity \<Rightarrow> jget JNull k entity)"

definition process_payment_captured ::
  "mac \<Rightarrow> string \<Rightarrow> timestamp \<Rightarrow> json \<Rightarrow> 'x leads_db_scheme \<Rightarrow> (error + bool) \<times> 'x leads_db_scheme" where
  "process_payment_captured mac key_secret now payload s =
     (case (entity_field ''payment'' ''order_id'' payload, entity_field ''payment'' ''id'' payload,
            entity_field ''payment'' ''amount'' payload) of
        (Inr oid, Inr pid, Inr amount) \<Rightarrow>
          if \<not> truthy oid \<or> \<not> truthy pid
          then (Inl (ValidationError ''Webhook payment payload is incomplete.''), s)
          else (case payment_by_order (py_str oid) s of
                  None \<Rightarrow> (Inl (DoesNotExist ''Payment''), s)
                | Some p \<Rightarrow>
                    if \<not> equals_int amount (decimal_to_paise (amount_dec (p_amount p)))
                    then (Inl (ValidationError ''Webhook payment amount does not match.''), s)
                    else (case verify_razorpay_payment mac key_secret now (py_str oid) (py_str pid)
                                 (make_payment_signature mac key_secret (py_str oid) (py_str pid))
                                 None payload s of
                            (Inl e, s1) \<Rightarrow> (Inl e, s1)
                          | (Inr p2, s1) \<Rightarrow> (Inr True, s1)))
      | (Inl e, _, _) \<Rightarrow> (Inl e, s)
      | (_, Inl e, _) \<Rightarrow> (Inl e, s)
      | (_, _, Inl e) \<Rightarrow> (Inl e, s))"

definition process_payment_failed_webhook ::
  "json \<Rightarrow> 'x payments_db_scheme \<Rightarrow> error + 'x payments_db_scheme" where
  "process_payment_failed_webhook payload s =
     (case (entity_field ''payment'' ''order_id'' payload, entity_field ''payment'' ''id'' payload) of
        (Inr oid, Inr pid) \<Rightarrow>
          if \<not> truthy oid then Inl (ValidationError ''Webhook payment payload is incomplete.'')
          else (case payment_by_order (py_str oid) s of
                  None \<Rightarrow> Inl (DoesNotExist ''Payment'')
                | Some p \<Rightarrow>
                    (case get_booking (p_booking p) s of
                       None \<Rightarrow> Inl (DoesNotExist ''Booking'')
                     | Some b \<Rightarrow>
                         if p_status p = PR_SUCCESS then Inr s
                         else (case mark_payment_failed p b (if truthy pid then py_str pid else '''') payload s of
                                 Inl e \<Rightarrow> Inl e
                               | Inr (p2, s1) \<Rightarrow> Inr s1)))
      | (Inl e, _) \<Rightarrow> Inl e
      | (_, Inl e) \<Rightarrow> Inl e)"

text \<open>
  \<open>Decimal(entity.get("amount", 0)) / Decimal("100")\<close> as a stored amount: the number of paise. Text
  that is a whole number is read as one; the model takes no other decimal literal.
\<close>

definition amount_of_entity :: "json \<Rightarrow> error + money" where
  "amount_of_entity v =
     (case v of
        JNum n \<Rightarrow> Inr n
      | JBool b \<Rightarrow> Inr (if b then 1 else 0)
      | JStr x \<Rightarrow> (case parse_key x of Some n \<Rightarrow> Inr (int n) | None \<Rightarrow> Inl (ValueError ''InvalidOperation''))
      | _ \<Rightarrow> Inl (TypeError ''conversion to Decimal is not supported''))"

definition payment_by_reference :: "string \<Rightarrow> 'x payments_db_scheme \<Rightarrow> payment option" where
  "payment_by_reference ref s = first_row (\<lambda>p. p_payment_id p = Some ref) (payments s)"

definition refund_by_reference :: "string \<Rightarrow> 'x payments_db_scheme \<Rightarrow> payment option" where
  "refund_by_reference ref s = first_row (\<lambda>p. p_refund_id p = Some ref) (payments s)"

text \<open>The refund row of the event, created or updated, and whether it is new.\<close>

definition upsert_refund ::
  "timestamp \<Rightarrow> booking \<Rightarrow> payment \<Rightarrow> string \<Rightarrow> json \<Rightarrow> 'x payments_db_scheme \<Rightarrow>
     error + ((payment \<times> bool) \<times> 'x payments_db_scheme)" where
  "upsert_refund now b source rid entity s =
     (let status = refund_status (item ''status'' entity);
          refunded_at = (if status = PR_SUCCESS then Some now else None);
          amount_field = (case jget (JNum 0) ''amount'' entity of Inl e \<Rightarrow> JNull | Inr v \<Rightarrow> v);
          currency = item ''currency'' entity
      in case amount_of_entity amount_field of
           Inl e \<Rightarrow> Inl e
         | Inr amount \<Rightarrow>
             (case refund_by_reference rid s of
                Some r \<Rightarrow>
                  let r2 = r\<lparr>p_status := status, p_payload := redact_payload entity,
                             p_refunded_at := refunded_at\<rparr>
                  in (case save_payment r2 s of Inl e \<Rightarrow> Inl e | Inr s1 \<Rightarrow> Inr ((r2, False), s1))
              | None \<Rightarrow>
                  (case create_payment
                          ((blank_payment (b_id b))\<lparr>p_parent := Some (p_id source), p_refund_id := Some rid,
                             p_amount := amount,
                             p_currency := (if truthy currency then py_str currency else p_currency source),
                             p_type := REFUND, p_status := status, p_key := ''webhook-'' @ rid,
                             p_payload := redact_payload entity, p_refunded_at := refunded_at\<rparr>) s of
                     Inl e \<Rightarrow> Inl e
                   | Inr (r, s1) \<Rightarrow> Inr ((r, True), s1))))"

definition process_refund_webhook ::
  "timestamp \<Rightarrow> json \<Rightarrow> 'x payments_db_scheme \<Rightarrow> error + 'x payments_db_scheme" where
  "process_refund_webhook now payload s =
     (case webhook_entity ''refund'' payload of
        Inl e \<Rightarrow> Inl e
      | Inr entity \<Rightarrow>
          (case (jget JNull ''id'' entity, jget JNull ''payment_id'' entity) of
             (Inr rid, Inr ref) \<Rightarrow>
               if \<not> truthy rid \<or> \<not> truthy ref
               then Inl (ValidationError ''Webhook refund payload is incomplete.'')
               else (case payment_by_reference (py_str ref) s of
                       None \<Rightarrow> Inl (DoesNotExist ''Payment'')
                     | Some source \<Rightarrow>
                         (case get_booking (p_booking source) s of
                            None \<Rightarrow> Inl (DoesNotExist ''Booking'')
                          | Some b \<Rightarrow>
                              let previous = map_option p_status (refund_by_reference (py_str rid) s) in
                              (case upsert_refund now b source (py_str rid) entity s of
                                 Inl e \<Rightarrow> Inl e
                               | Inr ((r, created), s1) \<Rightarrow>
                                   (case apply_refund_state b source s1 of
                                      Inl e \<Rightarrow> Inl e
                                    | Inr s2 \<Rightarrow>
                                        let s3 = (if created
                                                  then emit_notification_event NE_REFUND_INITIATED
                                                         (Some (b_customer b)) (booking_ref b) []
                                                         (refund_payload r) s2
                                                  else s2)
                                        in Inr (if p_status r = PR_SUCCESS \<and>
                                                   (created \<or> previous \<noteq> Some PR_SUCCESS)
                                                then emit_notification_event NE_REFUND_COMPLETED
                                                       (Some (b_customer b)) (booking_ref b) []
                                                       (refund_payload r) s3
                                                else s3)))))
           | (Inl e, _) \<Rightarrow> Inl e
           | (_, Inl e) \<Rightarrow> Inl e))"

definition run_atomic :: "('s \<Rightarrow> error + 's) \<Rightarrow> 's \<Rightarrow> (error + bool) \<times> 's" where
  "run_atomic f s = (case f s of Inl e \<Rightarrow> (Inl e, s) | Inr s1 \<Rightarrow> (Inr True, s1))"

definition dispatch_webhook ::
  "mac \<Rightarrow> string \<Rightarrow> timestamp \<Rightarrow> string \<Rightarrow> json \<Rightarrow> 'x leads_db_scheme \<Rightarrow>
     (error + bool) \<times> 'x leads_db_scheme" where
  "dispatch_webhook mac key_secret now event payload s =
     (if event = ''payment.captured'' then process_payment_captured mac key_secret now payload s
      else if event = ''payment.failed'' then run_atomic (process_payment_failed_webhook payload) s
      else if event \<in> set [''refund.created'', ''refund.processed'', ''refund.failed'']
      then run_atomic (process_refund_webhook now payload) s
      else (Inr False, s))"

text \<open>
  The delivery is recorded by the hash of its body. \<open>begin_webhook\<close> is the first transaction: it
  decides whether the delivery was processed already, is being processed, or is now this call's.
\<close>

datatype webhook_turn = AlreadyProcessed | InProgress | Mine nat

definition find_webhook :: "string \<Rightarrow> 'x payments_db_scheme \<Rightarrow> webhook_event option" where
  "find_webhook h s = first_row (\<lambda>w. we_hash w = h) (webhook_events s)"

definition update_webhook :: "webhook_event \<Rightarrow> 'x payments_db_scheme \<Rightarrow> 'x payments_db_scheme" where
  "update_webhook w s = s\<lparr>webhook_events := save_row we_id w (webhook_events s)\<rparr>"

definition get_webhook :: "nat \<Rightarrow> 'x payments_db_scheme \<Rightarrow> webhook_event option" where
  "get_webhook k s = find_row we_id k (webhook_events s)"

definition insert_webhook :: "webhook_event \<Rightarrow> 'x payments_db_scheme \<Rightarrow> 'x payments_db_scheme" where
  "insert_webhook w s = s\<lparr>webhook_events := webhook_events s @ [w]\<rparr>"

interpretation webhook_table: row_table we_id webhook_events get_webhook update_webhook insert_webhook
  by unfold_locales (simp_all add: get_webhook_def update_webhook_def insert_webhook_def)

definition new_webhook :: "timestamp \<Rightarrow> string \<Rightarrow> string \<Rightarrow> nat \<Rightarrow> webhook_event" where
  "new_webhook now h event k =
     \<lparr>we_id = k, we_hash = h, we_event = event, we_status = PROCESSING, we_attempts = 0,
      we_last_error = '''', we_processed_at = None, we_updated_at = now\<rparr>"

definition begin_webhook ::
  "timestamp \<Rightarrow> string \<Rightarrow> string \<Rightarrow> 'x payments_db_scheme \<Rightarrow> webhook_turn \<times> 'x payments_db_scheme" where
  "begin_webhook now h event s =
     (let (w, s1) = (case find_webhook h s of
                       Some w \<Rightarrow> (w, s)
                     | None \<Rightarrow> let w = new_webhook now h event (new_id s) in (w, bump_id (insert_webhook w s)))
      in if we_status w = PROCESSED then (AlreadyProcessed, s1)
         else if we_status w = PROCESSING \<and> we_attempts w > 0 \<and> we_updated_at w \<ge> now - 5 * minute_us
         then (InProgress, s1)
         else (Mine (we_id w),
               update_webhook (w\<lparr>we_attempts := we_attempts w + 1, we_status := PROCESSING,
                                  we_last_error := '''', we_updated_at := now\<rparr>) s1))"

text \<open>\<open>update()\<close> of a query set writes the named columns of the row as it now is.\<close>

definition finish_webhook ::
  "nat \<Rightarrow> webhook_status \<Rightarrow> string \<Rightarrow> timestamp option \<Rightarrow> 'x payments_db_scheme \<Rightarrow> 'x payments_db_scheme" where
  "finish_webhook k status err at s =
     (case get_webhook k s of
        None \<Rightarrow> s
      | Some w \<Rightarrow> update_webhook (w\<lparr>we_status := status, we_last_error := err,
                    we_processed_at := (case at of None \<Rightarrow> we_processed_at w | Some t \<Rightarrow> Some t)\<rparr>) s)"

record webhook_answer =
  wa_processed :: bool
  wa_duplicate :: bool
  wa_event :: string

fun error_name :: "error \<Rightarrow> string" where
  "error_name (DoesNotExist m) = ''DoesNotExist''"
| "error_name (IntegrityError c) = ''IntegrityError''"
| "error_name (DatabaseError m) = ''DatabaseError''"
| "error_name (TypeError m) = ''TypeError''"
| "error_name (AttributeError m) = ''AttributeError''"
| "error_name (ValueError m) = ''InvalidOperation''"
| "error_name (KeyError m) = ''KeyError''"
| "error_name e = ''ValidationError''"

definition process_razorpay_webhook ::
  "mac \<Rightarrow> (string \<Rightarrow> string) \<Rightarrow> (string \<Rightarrow> json option) \<Rightarrow> string \<Rightarrow> string \<Rightarrow> timestamp \<Rightarrow> string \<Rightarrow>
     string \<Rightarrow> 'x leads_db_scheme \<Rightarrow> (error + webhook_answer) \<times> 'x leads_db_scheme" where
  "process_razorpay_webhook mac sha parse webhook_secret key_secret now body signature s =
     (case verify_webhook_signature mac webhook_secret body signature of
        Inl e \<Rightarrow> (Inl e, s)
      | Inr False \<Rightarrow> (Inl (ValidationError ''Invalid webhook signature.''), s)
      | Inr True \<Rightarrow>
          (case parse body of
             None \<Rightarrow> (Inl (ValidationError ''Webhook payload is not valid JSON.''), s)
           | Some payload \<Rightarrow>
               (case jget (JStr '''') ''event'' payload of
                  Inl e \<Rightarrow> (Inl e, s)
                | Inr ev \<Rightarrow>
                    let event = py_str ev in
                    (case begin_webhook now (sha body) event s of
                       (AlreadyProcessed, s1) \<Rightarrow>
                         (Inr \<lparr>wa_processed = True, wa_duplicate = True, wa_event = event\<rparr>, s1)
                     | (InProgress, s1) \<Rightarrow>
                         (Inr \<lparr>wa_processed = False, wa_duplicate = True, wa_event = event\<rparr>, s1)
                     | (Mine k, s1) \<Rightarrow>
                         (case dispatch_webhook mac key_secret now event payload s1 of
                            (Inl e, s2) \<Rightarrow> (Inl e, finish_webhook k WEBHOOK_FAILED (error_name e) None s2)
                          | (Inr done, s2) \<Rightarrow>
                              (Inr \<lparr>wa_processed = done, wa_duplicate = False, wa_event = event\<rparr>,
                               finish_webhook k PROCESSED '''' (Some now) s2))))))"

text \<open>\<open>tasks.py\<close>: the pending refunds, newest first and at most 500, one transaction each.\<close>

fun reconcile_each ::
  "gateway \<Rightarrow> timestamp \<Rightarrow> nat list \<Rightarrow> nat \<Rightarrow> 'x payments_db_scheme \<Rightarrow>
     (error + nat) \<times> 'x payments_db_scheme" where
  "reconcile_each gw now [] n s = (Inr n, s)"
| "reconcile_each gw now (k # ks) n s =
     (case reconcile_refund gw now k s of
        Inl e \<Rightarrow> (Inl e, s)
      | Inr (r, s1) \<Rightarrow> reconcile_each gw now ks (n + 1) s1)"

definition pending_refunds :: "'x payments_db_scheme \<Rightarrow> nat list" where
  "pending_refunds s =
     take 500 (map p_id (rev (filter (\<lambda>p. p_type p = REFUND \<and> p_status p \<in> {PR_CREATED, PR_PENDING} \<and>
                                         p_refund_id p \<noteq> None) (payments s))))"

definition reconcile_pending_refunds ::
  "gateway \<Rightarrow> timestamp \<Rightarrow> 'x payments_db_scheme \<Rightarrow> (error + nat) \<times> 'x payments_db_scheme" where
  "reconcile_pending_refunds gw now s = reconcile_each gw now (pending_refunds s) 0 s"

section \<open>Lemmas: what the payment services leave alone\<close>

text \<open>A payment service may change payments, bookings with their histories, leads, and the queued
  commit hooks.\<close>

definition pay_frame :: "'x leads_db_scheme \<Rightarrow> 'x leads_db_scheme \<Rightarrow> bool" where
  "pay_frame s s' =
     (users s' = users s \<and> services s' = services s \<and> time_slots s' = time_slots s \<and>
      webhook_events s' = webhook_events s \<and> invoices s' = invoices s \<and>
      invoice_sequences s' = invoice_sequences s \<and> next_id s \<le> next_id s' \<and>
      leads_db.more s' = leads_db.more s)"

lemma pay_frame_refl [simp]: "pay_frame s s"
  by (simp add: pay_frame_def)

lemma pay_frame_trans: "pay_frame s t \<Longrightarrow> pay_frame t u \<Longrightarrow> pay_frame s u"
  by (simp add: pay_frame_def)

lemma lead_pay_frame: "lead_frame s s' \<Longrightarrow> pay_frame s s'"
  by (simp add: lead_frame_def pay_frame_def)

lemma emit_keeps [simp]:
  "payments (emit_notification_event ev r bk ch pl s) = payments s"
  "bookings (emit_notification_event ev r bk ch pl s) = bookings s"
  "booking_histories (emit_notification_event ev r bk ch pl s) = booking_histories s"
  "next_id (emit_notification_event ev r bk ch pl s) = next_id s"
  "leads (emit_notification_event ev r bk ch pl l) = leads l"
  "pay_frame l (emit_notification_event ev r bk ch pl m) \<longleftrightarrow> pay_frame l m"
  by (simp_all add: emit_notification_event_def register_hook_def pay_frame_def)

lemma save_booking_keeps [simp]:
  "payments (save_booking b s) = payments s"
  "bookings (save_booking b s) = save_row b_id b (bookings s)"
  "booking_histories (save_booking b s) = booking_histories s"
  "next_id (save_booking b s) = next_id s"
  "leads (save_booking b l) = leads l"
  "pay_frame l (save_booking b m) \<longleftrightarrow> pay_frame l m"
  by (simp_all add: save_booking_def pay_frame_def)

lemma write_history_keeps [simp]:
  "payments (write_status_history k f t by n s) = payments s"
  "bookings (write_status_history k f t by n s) = bookings s"
  "leads (write_status_history k f t by n l) = leads l"
  "next_id s \<le> next_id (write_status_history k f t by n s)"
  "pay_frame l (write_status_history k f t by n l)"
  by (simp_all add: write_status_history_def bump_id_def pay_frame_def)

lemma payment_rows_keep [simp]:
  "bookings (save_payment_row p s) = bookings s"
  "bookings (bump_id (insert_payment_row p s)) = bookings s"
  "payments (save_payment_row p s) = save_row p_id p (payments s)"
  "leads (save_payment_row p l) = leads l"
  "next_id (save_payment_row p s) = next_id s"
  "pay_frame l (save_payment_row p m) \<longleftrightarrow> pay_frame l m"
  "pay_frame l (bump_id (insert_payment_row p l))"
  by (simp_all add: save_payment_row_def insert_payment_row_def bump_id_def pay_frame_def)

lemma payments_ok_more_ids:
  "payments_ok s \<Longrightarrow> payments s' = payments s \<Longrightarrow> next_id s \<le> next_id s' \<Longrightarrow> payments_ok s'"
  unfolding payments_ok_iff using order_less_le_trans by (simp, blast)

lemma find_row_save [simp]:
  "find_row key (key r) rows \<noteq> None \<Longrightarrow> find_row key (key r) (save_row key r rows) = Some r"
  by (auto simp: table_simps)

lemma confirm_booking_frame:
  assumes "confirm_booking_after_payment now b p by s = (b2, s')"
  shows "b2 = confirmed_booking now p b \<and> payments s' = payments s \<and>
         bookings s' = save_row b_id b2 (bookings s) \<and> pay_frame s s' \<and> (leads_ok s \<longrightarrow> leads_ok s')"
proof -
  let ?b2 = "confirmed_booking now p b"
  obtain t where t: "s' = snd (mark_booking_payment_paid now ?b2 (p_id p) by t)" and b2: "b2 = ?b2"
    and keeps: "payments t = payments s" "bookings t = save_row b_id ?b2 (bookings s)" "leads t = leads s"
      "next_id s \<le> next_id t" "pay_frame s t"
  proof
    let ?h = "write_status_history (b_id b) (Some (b_status b)) BS_CONFIRMED by
                ''Advance payment verified.'' (save_booking ?b2 s)"
    let ?t = "if b_status b = BS_CONFIRMED then save_booking ?b2 s
      else emit_notification_event NE_BOOKING_CONFIRMED (Some (b_customer ?b2)) (booking_ref ?b2) []
             (JObj [(''payment_id'', JStr (nat_str (p_id p)))])
             (emit_notification_event NE_PAYMENT_SUCCESSFUL (Some (b_customer ?b2)) (booking_ref ?b2) []
               (JObj [(''payment_id'', JStr (nat_str (p_id p))), (''amount'', JStr (money_str (p_amount p)))]) ?h)"
    show "s' = snd (mark_booking_payment_paid now ?b2 (p_id p) by ?t)" and "b2 = ?b2"
      using assms by (auto simp: confirm_booking_after_payment_def Let_def)
    have "pay_frame s ?h"
      by (rule pay_frame_trans [of s "save_booking ?b2 s"]) simp_all
    then show "pay_frame s ?t" by simp
    show "next_id s \<le> next_id ?t"
      using write_history_keeps(4) [of "save_booking ?b2 s"] by auto
  qed auto
  obtain r where "mark_booking_payment_paid now ?b2 (p_id p) by t = (r, s')"
    using t by (metis prod.collapse)
  from mark_booking_payment_paid_ok [OF this] show ?thesis
    using b2 keeps leads_ok_more_ids [of s t]
    by (auto simp: lead_frame_def intro: pay_frame_trans lead_pay_frame) (auto simp: pay_frame_def)
qed

section \<open>Lemmas: verifying a payment\<close>

definition verified_payment :: "timestamp \<Rightarrow> string \<Rightarrow> json \<Rightarrow> payment \<Rightarrow> payment" where
  "verified_payment now payment_id payload p =
     p\<lparr>p_payment_id := Some payment_id, p_signature_verified := True, p_status := PR_SUCCESS,
       p_paid_at := Some now, p_payload := redact_payload (or_empty payload)\<rparr>"

lemma verify_body_Inr:
  assumes "verify_payment_body mac ks now oid pid sg me payload s = Inr ((valid, q), s')"
  obtains p b where "payment_by_order oid s = Some p" and "get_booking (p_booking p) s = Some b"
    and "p_amount p = b_advance_required b" and "p_status p = PR_SUCCESS" and "valid" and "q = p" and "s' = s"
  | p b s1 where "payment_by_order oid s = Some p" and "get_booking (p_booking p) s = Some b"
    and "p_amount p = b_advance_required b" and "p_status p \<noteq> PR_SUCCESS" and "valid"
    and "mac ks (oid @ ''|'' @ pid) = sg" and "q = verified_payment now pid payload p"
    and "save_payment q s = Inr s1" and "s' = snd (confirm_booking_after_payment now b q me s1)"
  | p b where "payment_by_order oid s = Some p" and "get_booking (p_booking p) s = Some b"
    and "p_amount p = b_advance_required b" and "p_status p \<noteq> PR_SUCCESS" and "\<not> valid"
    and "mac ks (oid @ ''|'' @ pid) \<noteq> sg" and "mark_payment_failed p b pid payload s = Inr (q, s')"
proof -
  obtain p where p: "payment_by_order oid s = Some p"
    using assms by (cases "payment_by_order oid s") (simp_all add: verify_payment_body_def)
  obtain b where b: "get_booking (p_booking p) s = Some b"
    using assms p by (cases "get_booking (p_booking p) s") (simp_all add: verify_payment_body_def)
  have amount: "p_amount p = b_advance_required b"
    using assms p b by (simp add: verify_payment_body_def split: if_splits)
  note body = assms [unfolded verify_payment_body_def p option.case b]
  show ?thesis
  proof (cases "p_status p = PR_SUCCESS")
    case True
    with body show ?thesis by (intro that(1) [OF p b amount]) (auto split: if_splits)
  next
    case False
    have sig: "verify_payment_signature mac ks oid pid sg \<in> {Inr True, Inr False}"
      using body False by (cases "verify_payment_signature mac ks oid pid sg") (auto split: if_splits)
    then have eq: "verify_payment_signature mac ks oid pid sg = Inr (mac ks (oid @ ''|'' @ pid) = sg)"
      by (auto simp: verify_payment_signature_def make_payment_signature_def compare_digest_def split: if_splits)
    show ?thesis
    proof (cases "mac ks (oid @ ''|'' @ pid) = sg")
      case True
      then have "(case save_payment (verified_payment now pid payload p) s of Inl e \<Rightarrow> Inl e
          | Inr s1 \<Rightarrow> Inr ((True, verified_payment now pid payload p),
                            snd (confirm_booking_after_payment now b (verified_payment now pid payload p) me s1)))
          = Inr ((valid, q), s')"
        using body False eq by (simp add: verified_payment_def Let_def cong: sum.case_cong split: if_splits)
      with True show ?thesis
        by (cases "save_payment (verified_payment now pid payload p) s")
          (auto intro: that(2) [OF p b amount False])
    next
      case wrong: False
      then have "(case mark_payment_failed p b pid payload s of Inl e \<Rightarrow> Inl e
          | Inr (p2, s1) \<Rightarrow> Inr ((False, p2), s1)) = Inr ((valid, q), s')"
        using body False eq by (simp split: if_splits)
      with wrong show ?thesis
        by (cases "mark_payment_failed p b pid payload s")
          (auto intro: that(3) [OF p b amount False])
    qed
  qed
qed

lemma payment_by_orderD:
  "payment_by_order oid s = Some p \<Longrightarrow> p \<in> set (payments s) \<and> p_order_id p = Some oid"
  unfolding payment_by_order_def by (rule first_row_SomeD)

lemma payment_by_order_save:
  assumes "payment_by_order oid s = Some p" and "payments s' = save_row p_id q (payments s)"
    and "p_id q = p_id p" and "p_order_id q = p_order_id p"
  shows "payment_by_order oid s' = Some q"
  using assms first_row_save_row [of _ "payments s" p q p_id] payment_by_orderD [OF assms(1)]
  by (simp add: payment_by_order_def)

lemma mark_failed_Inr:
  assumes "mark_payment_failed p b pid payload s = Inr (q, s')"
  shows "p_status q = PR_FAILED \<and> p_id q = p_id p \<and> p_order_id q = p_order_id p \<and> p_amount q = p_amount p \<and>
         p_booking q = p_booking p \<and> payments s' = save_row p_id q (payments s) \<and> pay_frame s s' \<and> leads s' = leads s \<and>
         first_conflict q (payments s) = None \<and>
         (if b_status b \<in> {BS_PENDING_PAYMENT, BS_PAYMENT_FAILED}
          then bookings s' = save_row b_id (b\<lparr>b_status := BS_PAYMENT_FAILED, b_payment_status := PS_FAILED\<rparr>) (bookings s)
          else bookings s' = bookings s)"
proof -
  obtain s1 where s1: "save_payment q s = Inr s1"
    and q: "q = p\<lparr>p_status := PR_FAILED, p_payment_id := (if pid = '''' then p_payment_id p else Some pid),
                 p_payload := redact_payload (or_empty payload)\<rparr>"
    and s': "s' = (let s2 = (if b_status b \<in> {BS_PENDING_PAYMENT, BS_PAYMENT_FAILED}
                       then save_booking (b\<lparr>b_status := BS_PAYMENT_FAILED, b_payment_status := PS_FAILED\<rparr>) s1
                       else s1)
             in if p_status p = PR_FAILED then s2
                         else emit_notification_event NE_PAYMENT_FAILED (Some (b_customer b)) (booking_ref b) []
                                (JObj [(''payment_id'', JStr (nat_str (p_id p)))]) s2)"
    using assms by (auto simp: mark_payment_failed_def Let_def split: sum.splits)
  note s1 = save_payment_Inr [OF s1]
  have "pay_frame s s1" using s1 by simp
  then have "pay_frame s s'"
    unfolding s' Let_def by simp
  with s1 q s' show ?thesis by (auto simp: Let_def)
qed

lemma verify_payment_ok:
  assumes "verify_razorpay_payment mac ks now oid pid sg me payload s = (r, s')"
  shows "pay_frame s s' \<and> (payments_ok s \<longrightarrow> payments_ok s') \<and> (leads_ok s \<longrightarrow> leads_ok s')"
proof (cases "verify_payment_body mac ks now oid pid sg me payload s")
  case (Inl e)
  with assms show ?thesis by (simp add: verify_razorpay_payment_def)
next
  case (Inr z)
  obtain valid q t where z: "z = ((valid, q), t)" by (metis prod.collapse)
  with assms Inr have s': "s' = t" by (simp add: verify_razorpay_payment_def)
  have ok: "payments_ok s \<Longrightarrow> save_payment q s = Inr s1 \<Longrightarrow> payments u = payments s1 \<Longrightarrow>
      next_id s \<le> next_id u \<Longrightarrow> payments_ok u" for s1 and u :: "'a leads_db_scheme"
    using save_payment_ok [of q s s1] save_payment_Inr [of q s s1] payments_ok_more_ids [of s1 u] by simp
  from Inr z have body: "verify_payment_body mac ks now oid pid sg me payload s = Inr ((valid, q), t)" by simp
  show ?thesis unfolding s'
  proof (rule verify_body_Inr [OF body])
    assume "t = s"
    then show "pay_frame s t \<and> (payments_ok s \<longrightarrow> payments_ok t) \<and> (leads_ok s \<longrightarrow> leads_ok t)" by simp
  next
    fix p b s1
    assume saved: "save_payment q s = Inr s1" and t: "t = snd (confirm_booking_after_payment now b q me s1)"
    have conf: "confirm_booking_after_payment now b q me s1 =
        (fst (confirm_booking_after_payment now b q me s1), t)" using t by simp
    note c = confirm_booking_frame [OF conf]
    have "pay_frame s s1" "leads s1 = leads s" "next_id s1 = next_id s"
      using save_payment_Inr [OF saved] by simp_all
    with c have "pay_frame s t" using pay_frame_trans by blast
    with c ok [OF _ saved, of t] leads_ok_more_ids [of s s1] \<open>leads s1 = leads s\<close> \<open>next_id s1 = next_id s\<close>
    show "pay_frame s t \<and> (payments_ok s \<longrightarrow> payments_ok t) \<and> (leads_ok s \<longrightarrow> leads_ok t)"
      by (simp add: pay_frame_def)
  next
    fix p b
    assume failed: "mark_payment_failed p b pid payload s = Inr (q, t)"
    note m = mark_failed_Inr [OF failed]
    then have "save_payment q s = Inr (save_payment_row q s)" by (simp add: save_payment_def)
    from ok [OF _ this, of t] m leads_ok_more_ids [of s t]
    show "pay_frame s t \<and> (payments_ok s \<longrightarrow> payments_ok t) \<and> (leads_ok s \<longrightarrow> leads_ok t)"
      by (simp add: pay_frame_def)
  qed
qed

text \<open>A verification that is accepted either finds the payment paid already or pays it.\<close>

lemma verify_accepted:
  assumes "verify_razorpay_payment mac ks now oid pid sg me payload s = (Inr q, s')"
  obtains b where "payment_by_order oid s = Some q" and "get_booking (p_booking q) s = Some b"
    and "p_amount q = b_advance_required b" and "p_status q = PR_SUCCESS" and "s' = s"
  | p b where "payment_by_order oid s = Some p" and "get_booking (p_booking p) s = Some b"
    and "p_amount p = b_advance_required b" and "p_status p \<noteq> PR_SUCCESS"
    and "mac ks (oid @ ''|'' @ pid) = sg" and "q = verified_payment now pid payload p"
    and "payments s' = save_row p_id q (payments s)" and "pay_frame s s'"
    and "bookings s' = save_row b_id (confirmed_booking now q b) (bookings s)"
proof -
  have body: "verify_payment_body mac ks now oid pid sg me payload s = Inr ((True, q), s')"
    using assms by (auto simp: verify_razorpay_payment_def split: sum.splits if_splits)
  show thesis
  proof (rule verify_body_Inr [OF body])
    fix p b s1
    assume p: "payment_by_order oid s = Some p" "get_booking (p_booking p) s = Some b"
      "p_amount p = b_advance_required b" "p_status p \<noteq> PR_SUCCESS" "mac ks (oid @ ''|'' @ pid) = sg"
      "q = verified_payment now pid payload p" "save_payment q s = Inr s1"
      and s': "s' = snd (confirm_booking_after_payment now b q me s1)"
    have conf: "confirm_booking_after_payment now b q me s1 =
        (fst (confirm_booking_after_payment now b q me s1), s')" using s' by simp
    have "bookings s1 = bookings s" "payments s1 = save_row p_id q (payments s)" "pay_frame s s1"
      using save_payment_Inr [OF p(7)] by simp_all
    with confirm_booking_frame [OF conf] show thesis
      using pay_frame_trans by (intro that(2) [OF p(1-6)]) auto
  qed (auto intro: that(1))
qed

section \<open>Properties: verifying\<close>

text \<open>C4: A verification that is accepted leaves the payment of that order successful and stored; unless
  it was so before and nothing changed, the signature is the key's, and exactly the payment's booking is
  written: confirmed, partially paid, with the advance paid and the rest of the total due. Verifying the
  order again for no user, as the webhook does, with whatever signature, gives the same answer and changes
  nothing.\<close>

theorem verified_payment_confirms:
  assumes verified: "verify_razorpay_payment mac ks now oid pid sg me payload s = (Inr q, s')"
    and ok: "payments_ok s"
  shows "payments_ok s' \<and> p_status q = PR_SUCCESS \<and> payment_by_order oid s' = Some q \<and>
         (\<exists>b. get_booking (p_booking q) s = Some b \<and> p_amount q = b_advance_required b \<and>
            (s' = s \<or>
             mac ks (oid @ ''|'' @ pid) = sg \<and>
             get_booking (p_booking q) s' = Some (b\<lparr>b_advance_paid := b_advance_required b,
                b_balance_due := b_total b - b_advance_required b, b_payment_status := PS_PARTIALLY_PAID,
                b_status := BS_CONFIRMED, b_confirmed_at := Some now\<rparr>) \<and>
             (\<forall>k. k \<noteq> p_booking q \<longrightarrow> get_booking k s' = get_booking k s))) \<and>
         (\<forall>now2 pid2 sg2 payload2.
            verify_razorpay_payment mac ks now2 oid pid2 sg2 None payload2 s' = (Inr q, s'))"
proof -
  have again: "verify_razorpay_payment mac ks now2 oid pid2 sg2 None payload2 s' = (Inr q, s')"
    if "payment_by_order oid s' = Some q" "get_booking (p_booking q) s' = Some b2"
      "p_amount q = b_advance_required b2" "p_status q = PR_SUCCESS" for b2 now2 pid2 sg2 payload2
    using that by (simp add: verify_razorpay_payment_def verify_payment_body_def)
  show ?thesis
  proof (rule verify_accepted [OF verified])
    fix b
    assume "payment_by_order oid s = Some q" "get_booking (p_booking q) s = Some b"
      "p_amount q = b_advance_required b" "p_status q = PR_SUCCESS" "s' = s"
    with ok again show ?thesis by auto
  next
    fix p b
    assume p: "payment_by_order oid s = Some p" "get_booking (p_booking p) s = Some b"
      "p_amount p = b_advance_required b" "mac ks (oid @ ''|'' @ pid) = sg"
      "q = verified_payment now pid payload p" "payments s' = save_row p_id q (payments s)"
      "bookings s' = save_row b_id (confirmed_booking now q b) (bookings s)"
    have q: "p_booking q = p_booking p" "p_id q = p_id p" "p_order_id q = p_order_id p"
      "p_amount q = p_amount p" "p_status q = PR_SUCCESS"
      using p(5) by (simp_all add: verified_payment_def)
    have id: "b_id (confirmed_booking now q b) = p_booking q"
      using booking_table.get_key [OF p(2)] q by (simp add: confirmed_booking_def)
    have stored: "payment_by_order oid s' = Some q"
      using payment_by_order_save [OF p(1,6)] q by simp
    have mine: "get_booking (p_booking q) s' = Some (confirmed_booking now q b)"
      using p(2,7) q id by (auto simp: get_booking_def table_simps)
    have other: "get_booking k s' = get_booking k s" if "k \<noteq> p_booking q" for k
      using p(7) id that by (simp add: get_booking_def table_simps)
    have "p_amount q = b_advance_required (confirmed_booking now q b)"
      using p(3) q by (simp add: confirmed_booking_def)
    moreover have "confirmed_booking now q b = b\<lparr>b_advance_paid := b_advance_required b,
        b_balance_due := b_total b - b_advance_required b, b_payment_status := PS_PARTIALLY_PAID,
        b_status := BS_CONFIRMED, b_confirmed_at := Some now\<rparr>"
      using p(3) q by (simp add: confirmed_booking_def)
    ultimately show ?thesis
      using again [OF stored mine _ q(5)] verify_payment_ok [OF verified] ok stored mine other p q by auto
  qed
qed

definition sample_mac :: mac where
  "sample_mac secret message = secret @ ''#'' @ message"

definition sample_paying_db :: "booking list \<Rightarrow> payment list \<Rightarrow> leads_db" where
  "sample_paying_db bs ps = sample_leads_db [] bs ps []"

theorem verified_payment_confirms_witness:
  "\<exists>q s'. verify_razorpay_payment sample_mac ''k'' 9 ''order_1'' ''pay_1'' ''k#order_1|pay_1'' None JNull
            (sample_paying_db [sample_booking 7 BS_PENDING_PAYMENT] [sample_payment 31 PR_CREATED]) = (Inr q, s') \<and>
          payments_ok s' \<and> p_status q = PR_SUCCESS \<and>
          verify_razorpay_payment sample_mac ''k'' 10 ''order_1'' ''pay_2'' ''?'' None JNull s' = (Inr q, s')"
proof -
  let ?s = "sample_paying_db [sample_booking 7 BS_PENDING_PAYMENT] [sample_payment 31 PR_CREATED]"
  let ?r = "verify_razorpay_payment sample_mac ''k'' 9 ''order_1'' ''pay_1'' ''k#order_1|pay_1'' None JNull ?s"
  have "\<not> isl (fst ?r)" by code_simp
  then obtain q s' where s': "?r = (Inr q, s')" by (cases ?r; cases "fst ?r") auto
  have "payments_ok ?s" by code_simp
  from verified_payment_confirms [OF s' this] s' show ?thesis by blast
qed

lemma wrong_signature_changes:
  assumes called: "verify_razorpay_payment mac ks now oid pid sg me payload s = (r, s')"
    and wrong: "mac ks (oid @ ''|'' @ pid) \<noteq> sg"
  shows "(\<forall>q\<in>set (payments s'). p_status q = PR_SUCCESS \<longrightarrow> q \<in> set (payments s)) \<and>
         (\<forall>k b2. get_booking k s' = Some b2 \<longrightarrow>
            (\<exists>b. get_booking k s = Some b \<and>
               (b2 = b \<or> b_status b \<in> {BS_PENDING_PAYMENT, BS_PAYMENT_FAILED} \<and>
                        b2 = b\<lparr>b_status := BS_PAYMENT_FAILED, b_payment_status := PS_FAILED\<rparr>))) \<and>
         (s' = s \<or> r = Inl (ValidationError ''Payment verification failed.'') \<and>
            (\<exists>p. payment_by_order oid s' = Some p \<and> p_status p = PR_FAILED))"
proof (cases "verify_payment_body mac ks now oid pid sg me payload s")
  case (Inl e)
  with called show ?thesis by (auto simp: verify_razorpay_payment_def)
next
  case (Inr z)
  obtain valid q t where "z = ((valid, q), t)" by (metis prod.collapse)
  with called Inr have body: "verify_payment_body mac ks now oid pid sg me payload s = Inr ((valid, q), s')"
    and r: "r = (if valid then Inr q else Inl (ValidationError ''Payment verification failed.''))"
    by (simp_all add: verify_razorpay_payment_def)
  show ?thesis
  proof (rule verify_body_Inr [OF body])
    assume "s' = s"
    then show ?thesis by auto
  next
    fix p b
    assume p: "payment_by_order oid s = Some p" "get_booking (p_booking p) s = Some b" and "\<not> valid"
      and failed: "mark_payment_failed p b pid payload s = Inr (q, s')"
    note m = mark_failed_Inr [OF failed]
    have "payment_by_order oid s' = Some q"
      using payment_by_order_save [OF p(1), of s' q] m by simp
    moreover have "\<forall>x\<in>set (payments s'). p_status x = PR_SUCCESS \<longrightarrow> x \<in> set (payments s)"
      using m by (auto simp: in_set_save_row)
    moreover have "\<exists>b. get_booking k s = Some b \<and>
            (b2 = b \<or> b_status b \<in> {BS_PENDING_PAYMENT, BS_PAYMENT_FAILED} \<and>
                     b2 = b\<lparr>b_status := BS_PAYMENT_FAILED, b_payment_status := PS_FAILED\<rparr>)"
      if booking: "get_booking k s' = Some b2" for k b2
      using m booking booking_table.get_key [OF p(2)] p(2)
      by (cases "k = p_booking p") (auto simp: get_booking_def table_simps split: if_splits)
    ultimately show ?thesis using r m \<open>\<not> valid\<close> by simp
  qed (use wrong in auto)
qed

text \<open>Marking a payment as failed meets no constraint: a failed advance does not count as active.\<close>

lemma failed_row_free:
  assumes "payments_ok s" and "p \<in> set (payments s)"
    and "\<forall>q\<in>set (payments s). p_payment_id q = Some pid \<longrightarrow> p_id q = p_id p"
  shows "first_conflict (p\<lparr>p_status := PR_FAILED, p_payment_id := (if pid = '''' then p_payment_id p else Some pid),
           p_payload := data\<rparr>) (payments s) = None"
proof -
  have "payment_conflict p q = None" if "q \<in> set (payments s)" for q
    using assms(1,2) that by (simp add: payments_ok_iff)
  then show ?thesis
    using assms(3) by (fastforce simp: first_conflict_None payment_conflict_None same_reference_def active_advance_def)
qed

lemma wrong_signature_recorded:
  assumes wrong: "mac ks (oid @ ''|'' @ pid) \<noteq> sg"
    and p: "payment_by_order oid s = Some p" "get_booking (p_booking p) s = Some b"
      "p_amount p = b_advance_required b" "p_status p \<noteq> PR_SUCCESS"
    and me: "me = None \<or> me = Some (b_customer b)"
    and ascii: "ascii_str (mac ks (oid @ ''|'' @ pid))" "ascii_str sg"
    and ok: "payments_ok s" "\<forall>q\<in>set (payments s). p_payment_id q = Some pid \<longrightarrow> p_id q = p_id p"
  shows "\<exists>q s'. verify_razorpay_payment mac ks now oid pid sg me payload s =
             (Inl (ValidationError ''Payment verification failed.''), s') \<and>
           payment_by_order oid s' = Some q \<and> p_id q = p_id p \<and> p_status q = PR_FAILED \<and>
           (pid \<noteq> '''' \<longrightarrow> p_payment_id q = Some pid) \<and>
           (b_status b \<in> {BS_PENDING_PAYMENT, BS_PAYMENT_FAILED} \<longrightarrow>
              get_booking (p_booking p) s' = Some (b\<lparr>b_status := BS_PAYMENT_FAILED, b_payment_status := PS_FAILED\<rparr>))"
proof -
  let ?q = "p\<lparr>p_status := PR_FAILED, p_payment_id := (if pid = '''' then p_payment_id p else Some pid),
              p_payload := redact_payload (or_empty payload)\<rparr>"
  have "first_conflict ?q (payments s) = None"
    using failed_row_free [OF ok(1) _ ok(2)] payment_by_orderD [OF p(1)] by blast
  then obtain s' where failed: "mark_payment_failed p b pid payload s = Inr (?q, s')"
    by (simp add: mark_payment_failed_def save_payment_def Let_def)
  note m = mark_failed_Inr [OF failed]
  have "verify_payment_body mac ks now oid pid sg me payload s = Inr ((False, ?q), s')"
    using p me ascii wrong failed
    by (auto simp: verify_payment_body_def verify_payment_signature_def make_payment_signature_def compare_digest_def)
  then have "verify_razorpay_payment mac ks now oid pid sg me payload s =
      (Inl (ValidationError ''Payment verification failed.''), s')"
    by (simp add: verify_razorpay_payment_def)
  moreover have "payment_by_order oid s' = Some ?q"
    using payment_by_order_save [OF p(1), of s' ?q] m by simp
  moreover have "get_booking (p_booking p) s' = Some (b\<lparr>b_status := BS_PAYMENT_FAILED, b_payment_status := PS_FAILED\<rparr>)"
    if "b_status b \<in> {BS_PENDING_PAYMENT, BS_PAYMENT_FAILED}"
    using that m p(2) booking_table.get_key [OF p(2)] by (auto simp: get_booking_def table_simps)
  ultimately show ?thesis by (intro exI [of _ ?q] exI [of _ s']) simp
qed

text \<open>C5: A wrong signature confirms nothing: no payment becomes successful, and the only change to a
  booking is that one awaiting its payment is marked as failed to pay. The failure itself stays recorded
  although the call raises: of an order that awaits its payment (its row is not successful, the amount is
  the advance, the caller may see it, the two signatures are texts the comparison takes, and the payment
  reference is no other row's) the row is failed afterwards and carries the reference, and the booking, if
  it awaited its payment, has failed to pay.\<close>

theorem wrong_signature_confirms_nothing:
  assumes called: "verify_razorpay_payment mac ks now oid pid sg me payload s = (r, s')"
    and wrong: "mac ks (oid @ ''|'' @ pid) \<noteq> sg"
  shows "(\<forall>q\<in>set (payments s'). p_status q = PR_SUCCESS \<longrightarrow> q \<in> set (payments s)) \<and>
         (\<forall>k b2. get_booking k s' = Some b2 \<longrightarrow>
            (\<exists>b. get_booking k s = Some b \<and>
               (b2 = b \<or> b_status b \<in> {BS_PENDING_PAYMENT, BS_PAYMENT_FAILED} \<and>
                        b2 = b\<lparr>b_status := BS_PAYMENT_FAILED, b_payment_status := PS_FAILED\<rparr>))) \<and>
         (s' = s \<or> r = Inl (ValidationError ''Payment verification failed.'') \<and>
            (\<exists>p. payment_by_order oid s' = Some p \<and> p_status p = PR_FAILED)) \<and>
         (\<forall>p b. payment_by_order oid s = Some p \<and> get_booking (p_booking p) s = Some b \<and>
            p_amount p = b_advance_required b \<and> p_status p \<noteq> PR_SUCCESS \<and>
            (me = None \<or> me = Some (b_customer b)) \<and> ascii_str (mac ks (oid @ ''|'' @ pid)) \<and> ascii_str sg \<and>
            payments_ok s \<and> (\<forall>q\<in>set (payments s). p_payment_id q = Some pid \<longrightarrow> p_id q = p_id p) \<longrightarrow>
            r = Inl (ValidationError ''Payment verification failed.'') \<and>
            (\<exists>q. payment_by_order oid s' = Some q \<and> p_id q = p_id p \<and> p_status q = PR_FAILED \<and>
                 (pid \<noteq> '''' \<longrightarrow> p_payment_id q = Some pid)) \<and>
            (b_status b \<in> {BS_PENDING_PAYMENT, BS_PAYMENT_FAILED} \<longrightarrow>
               get_booking (p_booking p) s' = Some (b\<lparr>b_status := BS_PAYMENT_FAILED, b_payment_status := PS_FAILED\<rparr>)))"
proof -
  let ?recorded = "\<forall>p b. payment_by_order oid s = Some p \<and> get_booking (p_booking p) s = Some b \<and>
            p_amount p = b_advance_required b \<and> p_status p \<noteq> PR_SUCCESS \<and>
            (me = None \<or> me = Some (b_customer b)) \<and> ascii_str (mac ks (oid @ ''|'' @ pid)) \<and> ascii_str sg \<and>
            payments_ok s \<and> (\<forall>q\<in>set (payments s). p_payment_id q = Some pid \<longrightarrow> p_id q = p_id p) \<longrightarrow>
            r = Inl (ValidationError ''Payment verification failed.'') \<and>
            (\<exists>q. payment_by_order oid s' = Some q \<and> p_id q = p_id p \<and> p_status q = PR_FAILED \<and>
                 (pid \<noteq> '''' \<longrightarrow> p_payment_id q = Some pid)) \<and>
            (b_status b \<in> {BS_PENDING_PAYMENT, BS_PAYMENT_FAILED} \<longrightarrow>
               get_booking (p_booking p) s' = Some (b\<lparr>b_status := BS_PAYMENT_FAILED, b_payment_status := PS_FAILED\<rparr>))"
  have recorded: ?recorded
  proof (intro allI impI, elim conjE)
    fix p b
    assume "payment_by_order oid s = Some p" "get_booking (p_booking p) s = Some b"
      "p_amount p = b_advance_required b" "p_status p \<noteq> PR_SUCCESS" "me = None \<or> me = Some (b_customer b)"
      "ascii_str (mac ks (oid @ ''|'' @ pid))" "ascii_str sg" "payments_ok s"
      "\<forall>q\<in>set (payments s). p_payment_id q = Some pid \<longrightarrow> p_id q = p_id p"
    from wrong_signature_recorded [of mac ks oid pid sg s p b me now payload, OF wrong this] called
    show "r = Inl (ValidationError ''Payment verification failed.'') \<and>
            (\<exists>q. payment_by_order oid s' = Some q \<and> p_id q = p_id p \<and> p_status q = PR_FAILED \<and>
                 (pid \<noteq> '''' \<longrightarrow> p_payment_id q = Some pid)) \<and>
            (b_status b \<in> {BS_PENDING_PAYMENT, BS_PAYMENT_FAILED} \<longrightarrow>
               get_booking (p_booking p) s' = Some (b\<lparr>b_status := BS_PAYMENT_FAILED, b_payment_status := PS_FAILED\<rparr>))"
      by auto
  qed
  note changes = wrong_signature_changes [OF called wrong]
  show ?thesis
    by (rule conjI [OF conjunct1 [OF changes] conjI [OF conjunct1 [OF conjunct2 [OF changes]]
          conjI [OF conjunct2 [OF conjunct2 [OF changes]] recorded]]])
qed

theorem wrong_signature_confirms_nothing_witness:
  "\<exists>r s' q b2. verify_razorpay_payment sample_mac ''k'' 9 ''order_1'' ''pay_1'' ''forged'' None JNull
               (sample_paying_db [sample_booking 7 BS_PENDING_PAYMENT] [sample_payment 31 PR_CREATED]) = (r, s') \<and>
             isl r \<and> payment_by_order ''order_1'' s' = Some q \<and> p_status q = PR_FAILED \<and>
             get_booking 7 s' = Some b2 \<and> b_status b2 = BS_PAYMENT_FAILED \<and>
             (\<forall>q\<in>set (payments s'). p_status q = PR_SUCCESS \<longrightarrow> q \<in> set [sample_payment 31 PR_CREATED])"
proof -
  let ?p = "sample_payment 31 PR_CREATED" and ?b = "sample_booking 7 BS_PENDING_PAYMENT"
  let ?s = "sample_paying_db [?b] [?p]"
  let ?r = "verify_razorpay_payment sample_mac ''k'' 9 ''order_1'' ''pay_1'' ''forged'' None JNull ?s"
  obtain r s' where s': "?r = (r, s')" by (cases ?r)
  have "sample_mac ''k'' (''order_1'' @ ''|'' @ ''pay_1'') \<noteq> ''forged''" by code_simp
  note facts = wrong_signature_confirms_nothing [OF s' this]
  have g: "payment_by_order ''order_1'' ?s = Some ?p" "get_booking (p_booking ?p) ?s = Some ?b"
    "p_amount ?p = b_advance_required ?b" "p_status ?p \<noteq> PR_SUCCESS" "p_booking ?p = 7"
    "ascii_str (sample_mac ''k'' (''order_1'' @ ''|'' @ ''pay_1''))" "ascii_str ''forged''" "payments_ok ?s"
    "payments ?s = [?p]" "b_status ?b = BS_PENDING_PAYMENT" by code_simp+
  have "isl r \<and> (\<exists>q. payment_by_order ''order_1'' s' = Some q \<and> p_status q = PR_FAILED) \<and>
      get_booking 7 s' = Some (?b\<lparr>b_status := BS_PAYMENT_FAILED, b_payment_status := PS_FAILED\<rparr>)"
    using facts [THEN conjunct2, THEN conjunct2, THEN conjunct2, THEN spec [where x = ?p],
        THEN spec [where x = ?b], THEN mp] g by auto
  moreover have "\<forall>q\<in>set (payments s'). p_status q = PR_SUCCESS \<longrightarrow> q \<in> set [?p]"
    using conjunct1 [OF facts] g by simp
  ultimately show ?thesis using s' by (auto intro!: exI [of _ r] exI [of _ s'])
qed

text \<open>Only a payment that is still successful is answered without another look: the first verification
  of a payment that has been refunded since can be sent again, and confirms the booking a second time
  although the money is back with the customer.\<close>

theorem refunded_payment_can_be_replayed:
  assumes "payment_by_order oid s = Some p" and "p_status p = PR_REFUNDED" and "p_payment_id p = Some pid"
    and "get_booking (p_booking p) s = Some b" and "p_amount p = b_advance_required b"
    and "me = None \<or> me = Some (b_customer b)" and "ascii_str (mac ks (oid @ ''|'' @ pid))" and "payments_ok s"
    and "\<forall>q\<in>set (payments s). p_booking q = p_booking p \<longrightarrow> \<not> active_advance q"
  shows "\<exists>q s'. verify_razorpay_payment mac ks now oid pid (mac ks (oid @ ''|'' @ pid)) me payload s = (Inr q, s') \<and>
           p_id q = p_id p \<and> p_status q = PR_SUCCESS \<and>
           get_booking (p_booking p) s' = Some (confirmed_booking now q b) \<and>
           (\<forall>r\<in>set (payments s). p_id r \<noteq> p_id p \<longrightarrow> r \<in> set (payments s'))"
proof -
  let ?q = "verified_payment now pid payload p"
  have p: "p \<in> set (payments s)" using payment_by_orderD [OF assms(1)] by blast
  have "payment_conflict p q = None" if "q \<in> set (payments s)" for q
    using assms(8) p that by (simp add: payments_ok_iff)
  then have "first_conflict ?q (payments s) = None"
    using assms(3,9) by (fastforce simp: first_conflict_None payment_conflict_None same_reference_def verified_payment_def)
  then have saved: "save_payment ?q s = Inr (save_payment_row ?q s)" by (simp add: save_payment_def)
  let ?s1 = "save_payment_row ?q s"
  obtain b2 s' where conf: "confirm_booking_after_payment now b ?q me ?s1 = (b2, s')" by fastforce
  note c = confirm_booking_frame [OF conf]
  have "verify_payment_body mac ks now oid pid (mac ks (oid @ ''|'' @ pid)) me payload s = Inr ((True, ?q), s')"
    using assms(1,2,4-7) saved conf
    by (auto simp: verify_payment_body_def verify_payment_signature_def make_payment_signature_def
        compare_digest_def verified_payment_def Let_def)
  then have "verify_razorpay_payment mac ks now oid pid (mac ks (oid @ ''|'' @ pid)) me payload s = (Inr ?q, s')"
    by (simp add: verify_razorpay_payment_def)
  moreover have "get_booking (p_booking p) s' = Some (confirmed_booking now ?q b)"
    using c assms(4) booking_table.get_key [OF assms(4)]
    by (auto simp: get_booking_def table_simps confirmed_booking_def)
  moreover have "\<forall>r\<in>set (payments s). p_id r \<noteq> p_id p \<longrightarrow> r \<in> set (payments s')"
    using c by (auto simp: verified_payment_def save_row_def)
  moreover have "p_id ?q = p_id p" "p_status ?q = PR_SUCCESS" by (simp_all add: verified_payment_def)
  ultimately show ?thesis by blast
qed

theorem refunded_payment_can_be_replayed_witness:
  "\<exists>q s'. verify_razorpay_payment sample_mac ''k'' 9 ''order_1'' ''pay_1'' ''k#order_1|pay_1'' None JNull
            (sample_paying_db [sample_booking 7 BS_REFUNDED] [(sample_payment 31 PR_REFUNDED)\<lparr>p_payment_id := Some ''pay_1''\<rparr>])
            = (Inr q, s') \<and> p_status q = PR_SUCCESS"
proof -
  let ?p = "(sample_payment 31 PR_REFUNDED)\<lparr>p_payment_id := Some ''pay_1''\<rparr>" and ?b = "sample_booking 7 BS_REFUNDED"
  let ?s = "sample_paying_db [?b] [?p]"
  have "payment_by_order ''order_1'' ?s = Some ?p" "p_status ?p = PR_REFUNDED" "p_payment_id ?p = Some ''pay_1''"
    "get_booking (p_booking ?p) ?s = Some ?b" "p_amount ?p = b_advance_required ?b"
    "ascii_str (sample_mac ''k'' (''order_1'' @ ''|'' @ ''pay_1''))" "payments_ok ?s"
    "\<forall>q\<in>set (payments ?s). p_booking q = p_booking ?p \<longrightarrow> \<not> active_advance q" by code_simp+
  from refunded_payment_can_be_replayed [where mac = sample_mac and ks = "''k''" and me = None and now = 9 and
      payload = JNull, OF this(1-5) disjI1 [OF refl] this(6-8)]
  show ?thesis by (auto simp: sample_mac_def)
qed

text \<open>C36: A late payment can overbook: the verification of the payment of a booking that no longer holds its
  slot (cancelled, failed to pay, completed) confirms it whatever has happened to the slot, so that a slot
  that was full is promised once more than its capacity.\<close>

theorem late_payment_overbooks:
  assumes verified: "verify_razorpay_payment mac ks now oid pid sg me payload s = (Inr q, s')"
    and p: "payment_by_order oid s = Some p" "p_status p \<noteq> PR_SUCCESS"
    and b: "get_booking (p_booking p) s = Some b" "\<not> holds_capacity (b_status b)"
    and sl: "get_slot (b_slot b) s = Some sl" "count_reserved_bookings sl s = sl_capacity sl"
    and unique: "unique_rows b_id (bookings s)"
  shows "count_reserved_bookings sl s' = Suc (sl_capacity sl) \<and> \<not> capacity_ok s'"
proof (rule verify_accepted [OF verified])
  assume "payment_by_order oid s = Some q" "p_status q = PR_SUCCESS"
  with p show ?thesis by simp
next
  fix p' b'
  assume p': "payment_by_order oid s = Some p'" and b': "get_booking (p_booking p') s = Some b'"
    and rows: "bookings s' = save_row b_id (confirmed_booking now q b') (bookings s)" and frame: "pay_frame s s'"
  have "b' = b" using p p' b b' by simp
  let ?b2 = "confirmed_booking now q b"
  have id: "b_id ?b2 = b_id b" "b_slot ?b2 = b_slot b" "b_status ?b2 = BS_CONFIRMED"
    by (simp_all add: confirmed_booking_def)
  have "find_row b_id (b_id ?b2) (bookings s) = Some b"
    using b booking_table.get_key [OF b(1)] id by (simp add: get_booking_def)
  note count = count_rows_save_row [OF unique this, of "reserves (sl_id sl)"]
  have slot: "sl_id sl = b_slot b" using sl by (auto dest: slot_table.get_key)
  have "int (count_reserved_bookings sl s') = int (count_reserved_bookings sl s) + 1"
    using count rows \<open>b' = b\<close> id slot b(2)
    by (simp add: count_reserved_bookings_def reserves_def holds_capacity_def)
  then have "count_reserved_bookings sl s' = Suc (sl_capacity sl)" using sl by simp
  moreover have "sl \<in> set (time_slots s')"
    using frame slot_table.get_in_rows [OF sl(1)] by (simp add: pay_frame_def)
  ultimately show ?thesis by (force simp: capacity_ok_def list_all_iff)
qed

theorem late_payment_overbooks_witness:
  "\<exists>q s'. verify_razorpay_payment sample_mac ''k'' 9 ''order_1'' ''pay_1'' ''k#order_1|pay_1'' None JNull
            (sample_paying_db [sample_booking 7 BS_CANCELLED, sample_booking 8 BS_CONFIRMED,
               sample_booking 9 BS_CONFIRMED] [sample_payment 31 PR_CREATED]) = (Inr q, s') \<and>
          count_reserved_bookings (sample_slot 21) s' = 3 \<and> \<not> capacity_ok s'"
proof -
  let ?s = "sample_paying_db [sample_booking 7 BS_CANCELLED, sample_booking 8 BS_CONFIRMED,
               sample_booking 9 BS_CONFIRMED] [sample_payment 31 PR_CREATED]"
  let ?r = "verify_razorpay_payment sample_mac ''k'' 9 ''order_1'' ''pay_1'' ''k#order_1|pay_1'' None JNull ?s"
  have "\<not> isl (fst ?r)" by code_simp
  then obtain q s' where s': "?r = (Inr q, s')" by (cases ?r; cases "fst ?r") auto
  have p: "payment_by_order ''order_1'' ?s = Some (sample_payment 31 PR_CREATED)"
    "p_status (sample_payment 31 PR_CREATED) \<noteq> PR_SUCCESS"
    "get_booking (p_booking (sample_payment 31 PR_CREATED)) ?s = Some (sample_booking 7 BS_CANCELLED)"
    "\<not> holds_capacity (b_status (sample_booking 7 BS_CANCELLED))"
    "get_slot (b_slot (sample_booking 7 BS_CANCELLED)) ?s = Some (sample_slot 21)"
    "count_reserved_bookings (sample_slot 21) ?s = sl_capacity (sample_slot 21)"
    "unique_rows b_id (bookings ?s)"
    by code_simp+
  have "Suc (sl_capacity (sample_slot 21)) = 3" by (simp add: sample_slot_def)
  with late_payment_overbooks [OF s' p] s' show ?thesis by auto
qed

section \<open>Lemmas: refunds\<close>

lemma requested_total_rows:
  "requested_total k s = sum_rows p_amount (\<lambda>p. p_parent p = Some k \<and> p_status p \<noteq> PR_FAILED) (payments s)"
  by (simp add: requested_total_def refunds_of_def sum_rows_def conj_commute)

lemma apply_refund_Inr:
  assumes "apply_refund_state b source s = Inr s'"
  shows "(payments s' = payments s \<or>
          payments s' = save_row p_id (source\<lparr>p_status := PR_REFUNDED\<rparr>) (payments s)) \<and>
         (payments_ok s \<longrightarrow> payments_ok s') \<and> next_id s' = next_id s \<and>
         (\<forall>k. k \<noteq> b_id b \<longrightarrow> get_booking k s' = get_booking k s)"
proof (cases "refunded_total (p_id source) s \<ge> p_amount source")
  case True
  then obtain s1 where s1: "save_payment (source\<lparr>p_status := PR_REFUNDED\<rparr>) s = Inr s1"
    and s': "s' = save_booking (b\<lparr>b_payment_status := PS_REFUNDED, b_status := BS_REFUNDED\<rparr>) s1"
    using assms by (auto simp: apply_refund_state_def split: sum.splits)
  have "payments_ok s' = payments_ok s1" unfolding s' by (simp add: payments_ok_iff)
  with save_payment_ok [OF s1] have "payments_ok s \<longrightarrow> payments_ok s'" by blast
  moreover have "payments s' = save_row p_id (source\<lparr>p_status := PR_REFUNDED\<rparr>) (payments s)"
    "next_id s' = next_id s"
    using save_payment_Inr [OF s1] by (simp_all add: s')
  moreover have "get_booking k s' = get_booking k s" if "k \<noteq> b_id b" for k
    using save_payment_Inr [OF s1] that by (simp add: s' get_booking_def table_simps)
  ultimately show ?thesis by blast
next
  case False
  define b2 where "b2 = b\<lparr>b_status := (if list_ex (\<lambda>p. p_status p \<in> {PR_CREATED, PR_PENDING})
      (refunds_of (p_id source) s) then BS_REFUND_PENDING else if b_cancelled_at b \<noteq> None then BS_CANCELLED
      else BS_CONFIRMED)\<rparr>"
  have "s' = save_booking b2 s \<or> s' = s" and "b_id b2 = b_id b"
    using assms False by (simp_all add: apply_refund_state_def b2_def split: if_splits)
  moreover have "payments_ok (save_booking b2 s) = payments_ok s" by (simp add: payments_ok_iff)
  moreover have "get_booking k (save_booking b2 s) = get_booking k s" if "k \<noteq> b_id b" for k
    using that \<open>b_id b2 = b_id b\<close> by (simp add: get_booking_def table_simps)
  ultimately show ?thesis by auto
qed

text \<open>The status a refund leaves its booking in.\<close>

definition refunded_booking :: "booking \<Rightarrow> payment \<Rightarrow> 'x payments_db_scheme \<Rightarrow> booking" where
  "refunded_booking b source s =
     (if refunded_total (p_id source) s \<ge> p_amount source
      then b\<lparr>b_payment_status := PS_REFUNDED, b_status := BS_REFUNDED\<rparr>
      else if list_ex (\<lambda>p. p_status p \<in> {PR_CREATED, PR_PENDING}) (refunds_of (p_id source) s)
      then b\<lparr>b_status := BS_REFUND_PENDING\<rparr>
      else if b_status b = BS_REFUND_PENDING
      then b\<lparr>b_status := (if b_cancelled_at b \<noteq> None then BS_CANCELLED else BS_CONFIRMED)\<rparr>
      else b)"

lemma apply_refund_booking:
  assumes "apply_refund_state b source s = Inr s'" and "get_booking (b_id b) s = Some b"
  shows "get_booking (b_id b) s' = Some (refunded_booking b source s) \<and> b_id (refunded_booking b source s) = b_id b"
  using assms
  by (auto simp: apply_refund_state_def refunded_booking_def get_booking_def table_simps
      dest: save_payment_Inr split: if_splits sum.splits)

text \<open>A refund that is accepted was recorded under its key before, or is recorded now.\<close>

lemma create_refund_cases:
  assumes "create_refund gw sha now pid amount key by reason s = Inr (r, s')"
  obtains source b where "get_payment pid s = Some source" and "get_booking (p_booking source) s = Some b"
    and "p_type source \<noteq> REFUND" and "p_status source \<in> {PR_SUCCESS, PR_REFUNDED}"
    and "given '''' (p_payment_id source) \<noteq> ''''"
    and "keyed_payment (b_id b) REFUND key s = Some r" and "s' = s"
  | source b answer rid where "get_payment pid s = Some source" and "get_booking (p_booking source) s = Some b"
    and "p_type source \<noteq> REFUND" and "p_status source \<in> {PR_SUCCESS, PR_REFUNDED}"
    and "given '''' (p_payment_id source) \<noteq> ''''"
    and "0 < amount" and "amount \<le> p_amount source - requested_total (p_id source) s"
    and "record_refund now b source amount key answer rid s = Inr (r, s')"
proof -
  obtain source where source: "get_payment pid s = Some source"
    using assms by (cases "get_payment pid s") (simp_all add: create_refund_def)
  obtain b where b: "get_booking (p_booking source) s = Some b"
    using assms source by (cases "get_booking (p_booking source) s") (simp_all add: create_refund_def)
  note body = assms [unfolded create_refund_def source option.case b]
  have guards: "p_type source \<noteq> REFUND" "p_status source \<in> {PR_SUCCESS, PR_REFUNDED}"
    "given '''' (p_payment_id source) \<noteq> ''''"
    using body by (auto split: if_splits)
  show thesis
  proof (cases "keyed_payment (b_id b) REFUND key s")
    case (Some x)
    with body guards show thesis by (intro that(1) [OF source b guards]) auto
  next
    case None
    note body = body [unfolded None option.case Let_def]
    have "0 < amount" "amount \<le> p_amount source - requested_total (p_id source) s"
      using body guards by (auto split: if_splits)
    moreover obtain answer rid where "record_refund now b source amount key answer rid s = Inr (r, s')"
      using body guards by (auto split: if_splits sum.splits)
    ultimately show thesis by (rule that(2) [OF source b guards])
  qed
qed

lemma record_refund_steps:
  fixes s s' :: "'x payments_db_scheme"
  assumes "record_refund now b source amount key answer rid s = Inr (r, s')"
  obtains t u :: "'x payments_db_scheme" where "payments t = payments s @ [r]" and "bookings t = bookings s"
    and "next_id t = Suc (next_id s)" and "payments_ok s \<Longrightarrow> payments_ok t"
    and "p_id r = new_id s" and "p_booking r = b_id b" and "p_parent r = Some (p_id source)"
    and "p_amount r = amount" and "p_type r = REFUND" and "p_key r = key" and "p_refund_id r = Some rid"
    and "apply_refund_state b source t = Inr u" and "payments s' = payments u" and "bookings s' = bookings u"
    and "next_id s' = next_id u"
proof -
  let ?st = "refund_status (item ''status'' answer)"
  let ?r = "(blank_payment (b_id b))\<lparr>p_parent := Some (p_id source), p_refund_id := Some rid,
                p_amount := amount, p_currency := p_currency source, p_type := REFUND, p_status := ?st,
                p_payload := redact_payload answer, p_key := key,
                p_refunded_at := (if ?st = PR_SUCCESS then Some now else None)\<rparr>"
  obtain t u where t: "create_payment ?r s = Inr (r, t)" and u: "apply_refund_state b source t = Inr u"
    and s': "payments s' = payments u" "bookings s' = bookings u" "next_id s' = next_id u"
    using assms by (auto simp: record_refund_def Let_def split: sum.splits prod.splits if_splits)
  note c = create_payment_Inr [OF t]
  then have "bookings t = bookings s" "next_id t = Suc (next_id s)"
    by (simp_all add: bump_id_def insert_payment_row_def)
  moreover have "p_id r = new_id s" "p_booking r = b_id b" "p_parent r = Some (p_id source)" "p_amount r = amount"
    "p_type r = REFUND" "p_key r = key" "p_refund_id r = Some rid"
    using c by (simp_all add: blank_payment_def)
  moreover have "payments t = payments s @ [r]" using c by blast
  ultimately show thesis using create_payment_ok [OF t] u s' by (intro that [of t u])
qed

lemma record_refund_Inr:
  fixes s s' :: "'x payments_db_scheme"
  assumes "record_refund now b source amount key answer rid s = Inr (r, s')"
  shows "p_id r = new_id s \<and> p_booking r = b_id b \<and> p_parent r = Some (p_id source) \<and> p_amount r = amount \<and>
         p_type r = REFUND \<and> p_key r = key \<and> (payments_ok s \<longrightarrow> payments_ok s') \<and>
         (payments s' = payments s @ [r] \<or>
          payments s' = save_row p_id (source\<lparr>p_status := PR_REFUNDED\<rparr>) (payments s @ [r])) \<and>
         (\<forall>k. k \<noteq> b_id b \<longrightarrow> get_booking k s' = get_booking k s) \<and>
         (get_booking (b_id b) s = Some b \<longrightarrow> (\<exists>b2. get_booking (b_id b) s' = Some b2 \<and> b_id b2 = b_id b))"
proof (rule record_refund_steps [OF assms])
  fix t u :: "'x payments_db_scheme"
  assume t: "payments t = payments s @ [r]" "bookings t = bookings s" "payments_ok s \<Longrightarrow> payments_ok t"
    and r: "p_id r = new_id s" "p_booking r = b_id b" "p_parent r = Some (p_id source)" "p_amount r = amount"
      "p_type r = REFUND" "p_key r = key"
    and u: "apply_refund_state b source t = Inr u"
    and s': "payments s' = payments u" "bookings s' = bookings u" "next_id s' = next_id u"
  note a = apply_refund_Inr [OF u]
  have "payments_ok s'" if "payments_ok s"
    using t(3) [OF that] a s' payments_ok_more_ids [of u s'] by simp
  moreover have "payments s' = payments s @ [r] \<or>
      payments s' = save_row p_id (source\<lparr>p_status := PR_REFUNDED\<rparr>) (payments s @ [r])"
    using a s' t(1) by simp
  moreover have "get_booking k s' = get_booking k s" if "k \<noteq> b_id b" for k
    using a s' that t(2) by (simp add: get_booking_def)
  moreover have "\<exists>b2. get_booking (b_id b) s' = Some b2 \<and> b_id b2 = b_id b" if "get_booking (b_id b) s = Some b"
    using apply_refund_booking [OF u] that s' t(2) by (simp add: get_booking_def)
  ultimately show ?thesis using r by blast
qed

definition refunds_covered :: "'x payments_db_scheme \<Rightarrow> bool" where
  "refunds_covered s =
     list_all (\<lambda>p. p_type p \<noteq> REFUND \<longrightarrow> requested_total (p_id p) s \<le> p_amount p) (payments s)"

lemma save_row_append: "save_row key r (xs @ [y]) = save_row key r xs @ [if key y = key r then r else y]"
  by (simp add: save_row_def)

lemma reconcile_refund_Inr:
  fixes s s' :: "'x payments_db_scheme"
  assumes "reconcile_refund gw now k s = Inr (r2, s')" and "get_payment k s = Some r"
  shows "\<exists>b source (u :: 'x payments_db_scheme) w. get_booking (p_booking r) s = Some b \<and> p_parent r = Some (p_id source) \<and>
     get_payment (p_id source) s = Some source \<and> p_id r2 = p_id r \<and> p_parent r2 = p_parent r \<and>
     save_payment r2 s = Inr u \<and> apply_refund_state b source u = Inr w \<and>
     payments s' = payments w \<and> bookings s' = bookings w"
proof -
  obtain b source answer where b: "get_booking (p_booking r) s = Some b"
    and source: "\<exists>j. p_parent r = Some j \<and> get_payment j s = Some source"
    and answer: "p_type r = REFUND" "given '''' (p_refund_id r) \<noteq> ''''"
      "ga_fetch_refund gw (given '''' (p_refund_id r)) = Inr answer"
    using assms by (auto simp: reconcile_refund_def Let_def split: option.splits if_splits sum.splits)
  from source obtain j where j: "p_parent r = Some j" "get_payment j s = Some source" "p_id source = j"
    using payment_table.get_key by blast
  let ?st = "refund_status (item ''status'' answer)"
  let ?r2 = "r\<lparr>p_status := ?st, p_payload := redact_payload answer,
                p_refunded_at := (if ?st = PR_SUCCESS then Some now else None)\<rparr>"
  obtain u w where "save_payment ?r2 s = Inr u" "apply_refund_state b source u = Inr w" "r2 = ?r2"
    "payments s' = payments w" "bookings s' = bookings w"
    using assms b j answer by (auto simp: reconcile_refund_def Let_def split: sum.splits if_splits)
  with b j show ?thesis by auto
qed

lemma save_row_same: "unique_rows key rows \<Longrightarrow> x \<in> set rows \<Longrightarrow> save_row key x rows = rows"
  unfolding save_row_def by (rule map_idI) (auto simp: unique_rows_def distinct_map dest: inj_onD)

text \<open>The source of a refund is written back, with its status or with the one of a refunded payment.\<close>

lemma record_refund_source:
  assumes recorded: "record_refund now b source amount key answer rid s = Inr (r, s')" and ok: "payments_ok s"
    and source: "source \<in> set (payments s)"
  obtains source2 where "source2 = source \<or> source2 = source\<lparr>p_status := PR_REFUNDED\<rparr>"
    and "payments s' = save_row p_id source2 (payments s @ [r])"
    and "payments s' = save_row p_id source2 (payments s) @ [r]"
proof -
  note r = record_refund_Inr [OF recorded]
  have fresh: "p_id r \<noteq> p_id source" and unique: "unique_rows p_id (payments s @ [r])"
    using ok r source by (auto simp: payments_ok_iff new_id_def)
  then have "save_row p_id source (payments s @ [r]) = payments s @ [r]"
    using source by (intro save_row_same) auto
  moreover have "save_row p_id x (payments s @ [r]) = save_row p_id x (payments s) @ [r]" if "p_id x = p_id source" for x
    using fresh that by (simp add: save_row_def)
  ultimately show thesis using r that by (metis payment.select_convs(1) payment.update_convs(11) payment.surjective)
qed

lemma record_refund_total:
  assumes recorded: "record_refund now b source amount key answer rid s = Inr (r, s')" and ok: "payments_ok s"
    and source: "get_payment (p_id source) s = Some source" "p_status source \<in> {PR_SUCCESS, PR_REFUNDED}"
  shows "requested_total k s' =
           requested_total k s + (if k = p_id source \<and> p_status r \<noteq> PR_FAILED then amount else 0)"
proof -
  note r = record_refund_Inr [OF recorded]
  let ?P = "\<lambda>p. p_parent p = Some k \<and> p_status p \<noteq> PR_FAILED"
  have "unique_rows p_id (payments s @ [r])"
    using ok r by (auto simp: payments_ok_iff new_id_def)
  moreover have "find_row p_id (p_id source) (payments s @ [r]) = Some source"
    using source by (simp add: get_payment_def find_row_append)
  ultimately have "sum_rows p_amount ?P (save_row p_id (source\<lparr>p_status := PR_REFUNDED\<rparr>) (payments s @ [r])) =
      sum_rows p_amount ?P (payments s @ [r])"
    using source(2) by (auto simp: sum_rows_save_row)
  then show ?thesis
    using r by (cases "payments s' = payments s @ [r]") (simp_all add: requested_total_rows)
qed

text \<open>C7: Refunds never exceed what was paid: a refund request that is accepted keeps, for every payment,
  the sum of the refunds that have not failed within the payment's amount, and keeps the table's
  constraints; a new refund is counted once. Asking again with the same key answers with the same refund
  and changes nothing, whatever amount is asked for.\<close>

theorem refunds_stay_within_payment:
  assumes refund: "create_refund gw sha now pid amount key by reason s = Inr (r, s')"
    and ok: "payments_ok s" and covered: "refunds_covered s"
  shows "payments_ok s' \<and> refunds_covered s' \<and> p_type r = REFUND \<and>
         (s' = s \<or> 0 < amount \<and> p_amount r = amount \<and>
            requested_total pid s' = requested_total pid s + (if p_status r = PR_FAILED then 0 else amount)) \<and>
         (\<forall>gw2 now2 amount2 by2 reason2.
            create_refund gw2 sha now2 pid amount2 key by2 reason2 s' = Inr (r, s'))"
proof (rule create_refund_cases [OF refund])
  fix source b
  assume p: "get_payment pid s = Some source" "get_booking (p_booking source) s = Some b"
    "p_type source \<noteq> REFUND" "p_status source \<in> {PR_SUCCESS, PR_REFUNDED}"
    "given '''' (p_payment_id source) \<noteq> ''''"
    and keyed: "keyed_payment (b_id b) REFUND key s = Some r" and "s' = s"
  have "p_type r = REFUND" using keyed unfolding keyed_payment_def by (auto dest: last_row_SomeD)
  with p keyed \<open>s' = s\<close> ok covered show ?thesis by (auto simp: create_refund_def)
next
  fix source b answer rid
  assume p: "get_payment pid s = Some source" "get_booking (p_booking source) s = Some b"
    "p_type source \<noteq> REFUND" "p_status source \<in> {PR_SUCCESS, PR_REFUNDED}"
    "given '''' (p_payment_id source) \<noteq> ''''"
    and amount: "0 < amount" "amount \<le> p_amount source - requested_total (p_id source) s"
    and recorded: "record_refund now b source amount key answer rid s = Inr (r, s')"
  note r = record_refund_Inr [OF recorded]
  have id: "p_id source = pid" "source \<in> set (payments s)" using payment_table.get_in_rows [OF p(1)] by auto
  have fresh: "p_id r \<noteq> p_id x" if "x \<in> set (payments s)" for x
    using ok r that by (auto simp: payments_ok_iff new_id_def)
  have total: "requested_total k s' =
      requested_total k s + (if k = pid \<and> p_status r \<noteq> PR_FAILED then amount else 0)" for k
    using record_refund_total [OF recorded ok _ p(4)] p(1) id by simp
  from record_refund_source [OF recorded ok id(2)] obtain source2
    where source2: "source2 = source \<or> source2 = source\<lparr>p_status := PR_REFUNDED\<rparr>"
      and rows': "payments s' = save_row p_id source2 (payments s @ [r])"
        "payments s' = save_row p_id source2 (payments s) @ [r]" by blast
  from source2 have same: "p_id source2 = pid" "p_amount source2 = p_amount source" "p_booking source2 = p_booking source"
      "p_type source2 = p_type source" "p_payment_id source2 = p_payment_id source"
      "p_status source2 \<in> {PR_SUCCESS, PR_REFUNDED}"
    using id p(4) by auto
  have row: "get_payment pid s' = Some source2"
    using p(1) same(1) by (auto simp: get_payment_def rows'(2) find_row_append table_simps)
  have rows: "x = r \<or> x = source2 \<or> x \<in> set (payments s)" if "x \<in> set (payments s')" for x
    using that by (auto simp: rows'(2) in_set_save_row)
  have "requested_total (p_id x) s' \<le> p_amount x" if x: "x \<in> set (payments s')" "p_type x \<noteq> REFUND" for x
  proof (cases "p_id x = pid")
    case True
    have "x = source2 \<or> x \<in> set (payments s)" using rows [OF x(1)] x(2) r by auto
    then have "p_amount x = p_amount source"
      using True same id ok by (auto simp: payments_ok_iff unique_rows_def distinct_map dest: inj_onD)
    with total [of pid] True amount id show ?thesis by (auto split: if_splits)
  next
    case False
    then have "x \<in> set (payments s)" using rows [OF x(1)] x(2) r same by auto
    with covered x(2) total [of "p_id x"] False show ?thesis by (auto simp: refunds_covered_def list_all_iff)
  qed
  then have cover: "refunds_covered s'" by (auto simp: refunds_covered_def list_all_iff)
  have keyed: "keyed_payment (b_id b) REFUND key s' = Some r"
    using r by (simp add: keyed_payment_def last_row_def rows'(2))
  have "b_id b = p_booking source" using booking_table.get_key [OF p(2)] .
  with r p(2) same(3) obtain b' where b': "get_booking (p_booking source2) s' = Some b'" "b_id b' = b_id b"
    by metis
  have "create_refund gw2 sha now2 pid amount2 key by2 reason2 s' = Inr (r, s')" for gw2 now2 amount2 by2 reason2
    using row b' same p(3,5) keyed by (simp add: create_refund_def)
  with cover r ok amount total [of pid] show ?thesis by auto
qed

definition sample_refund_db :: "booking_status \<Rightarrow> leads_db" where
  "sample_refund_db st = sample_paying_db [sample_booking 7 st]
     [(sample_payment 31 PR_SUCCESS)\<lparr>p_payment_id := Some ''pay_1''\<rparr>]"

theorem refunds_stay_within_payment_witness:
  "\<exists>r s'. create_refund (local_gateway ''t'') (\<lambda>x. x) 9 31 5000 ''key-1'' 2 ''late'' (sample_refund_db BS_CANCELLED)
            = Inr (r, s') \<and> refunds_covered s' \<and> requested_total 31 s' = 5000 \<and>
          create_refund (local_gateway ''u'') (\<lambda>x. x) 10 31 9000 ''key-1'' 2 '''' s' = Inr (r, s')"
proof -
  let ?s = "sample_refund_db BS_CANCELLED"
  let ?r = "create_refund (local_gateway ''t'') (\<lambda>x. x) 9 31 5000 ''key-1'' 2 ''late'' ?s"
  have r: "\<not> isl ?r \<and> requested_total 31 (snd (projr ?r)) = 5000" by code_simp
  then obtain r s' where s': "?r = Inr (r, s')" by (blast dest: result_cases)
  have ok: "payments_ok ?s" "refunds_covered ?s" by code_simp+
  note all = refunds_stay_within_payment [OF s' ok]
  from r s' have "requested_total 31 s' = 5000" by simp
  with all s' show ?thesis by blast
qed

text \<open>A refund that fails reopens finished work: when a partial refund of a finished booking is pending
  and then turns out to have failed, with no other refund of the payment successful or pending, the booking
  is left confirmed, whatever it was before: completed, closed or in progress.\<close>

theorem failed_refund_reopens_work:
  fixes s s1 s2 :: "'x payments_db_scheme"
  assumes refund: "record_refund now b source amount key answer rid s = Inr (r, s1)"
    and s: "payments_ok s" "get_booking (b_id b) s = Some b" "b_cancelled_at b = None"
      "get_payment (p_id source) s = Some source" "p_status source \<in> {PR_SUCCESS, PR_REFUNDED}"
      "p_type source \<noteq> REFUND" "0 < p_amount source" "refunds_of (p_id source) s = []"
    and pending: "p_status r = PR_PENDING"
    and failed: "reconcile_refund gw now2 (p_id r) s1 = Inr (r2, s2)" "p_status r2 = PR_FAILED"
  shows "\<exists>b2. get_booking (b_id b) s2 = Some b2 \<and> b_status b2 = BS_CONFIRMED \<and> b_completed_at b2 = b_completed_at b"
proof -
  obtain t v :: "'x payments_db_scheme" where t: "payments t = payments s @ [r]" "bookings t = bookings s"
    and r: "p_id r = new_id s" "p_parent r = Some (p_id source)" "p_booking r = b_id b" "p_type r = REFUND"
      "p_refund_id r = Some rid"
    and applied: "apply_refund_state b source t = Inr v"
    and s1: "payments s1 = payments v" "bookings s1 = bookings v"
    by (rule record_refund_steps [OF refund]) blast
  have fresh: "p_id r \<noteq> p_id x" if "x \<in> set (payments s)" for x
    using s(1) r(1) that by (auto simp: payments_ok_iff new_id_def)
  have source: "source \<in> set (payments s)" using payment_table.get_in_rows [OF s(4)] by simp
  have none: "filter (\<lambda>p. p_parent p = Some (p_id source)) (payments s) = []"
    using s(8) by (simp add: refunds_of_def)
  then have "v = save_booking (b\<lparr>b_status := BS_REFUND_PENDING\<rparr>) t"
    using applied t(1) r(2) pending s(7) by (simp add: apply_refund_state_def refunded_total_def refunds_of_def)
  with s1 have rows: "payments s1 = payments s @ [r]" "bookings s1 = save_row b_id (b\<lparr>b_status := BS_REFUND_PENDING\<rparr>) (bookings s)"
    using t by simp_all
  let ?b1 = "b\<lparr>b_status := BS_REFUND_PENDING\<rparr>"
  have b1: "get_booking (b_id b) s1 = Some ?b1"
    using s(2) by (simp add: rows get_booking_def table_simps)
  have "find_row p_id (p_id r) (payments s) = None"
    using fresh by (auto simp: find_row_None_iff)
  then have found: "get_payment (p_id r) s1 = Some r" "get_payment (p_id source) s1 = Some source"
    using s(4) by (simp_all add: rows get_payment_def find_row_append)
  obtain b' source' u w where x: "get_booking (p_booking r) s1 = Some b'" "p_parent r = Some (p_id source')"
      "get_payment (p_id source') s1 = Some source'"
    and r2: "p_id r2 = p_id r" "p_parent r2 = p_parent r" and saved: "save_payment r2 s1 = Inr u"
    and applied2: "apply_refund_state b' source' u = Inr w" and s2: "bookings s2 = bookings w"
    using reconcile_refund_Inr [OF failed(1) found(1)] by blast
  have "source' = source" using x(2,3) r(2) found(2) by simp
  moreover have "b' = ?b1" using x(1) r(3) b1 by simp
  ultimately have w: "apply_refund_state ?b1 source u = Inr w" using applied2 by simp
  have u: "payments u = payments s @ [r2]" "bookings u = bookings s1"
    using save_payment_Inr [OF saved] rows fresh r2 by (simp_all add: save_row_append save_row_absent image_iff)
  have "refunded_booking ?b1 source u = ?b1\<lparr>b_status := BS_CONFIRMED\<rparr>"
    using failed(2) s(3,7) none u r2 r by (simp add: refunded_booking_def refunded_total_def refunds_of_def)
  with apply_refund_booking [OF w] b1 u s2 show ?thesis by (simp add: get_booking_def)
qed

theorem failed_refund_reopens_work_witness:
  "\<exists>r s1 r2 s2. record_refund 9 (sample_booking 7 BS_COMPLETED)
       ((sample_payment 31 PR_SUCCESS)\<lparr>p_payment_id := Some ''pay_1''\<rparr>) 5000 ''key-1''
       (JObj [(''status'', JStr ''pending'')]) ''rfnd_1'' (sample_refund_db BS_COMPLETED) = Inr (r, s1) \<and>
     reconcile_refund ((local_gateway ''t'')\<lparr>ga_fetch_refund := (\<lambda>x. Inr (JObj [(''status'', JStr ''failed'')]))\<rparr>)
       10 (p_id r) s1 = Inr (r2, s2) \<and>
     (\<exists>b2. get_booking 7 s2 = Some b2 \<and> b_status b2 = BS_CONFIRMED)"
proof -
  let ?s = "sample_refund_db BS_COMPLETED" and ?b = "sample_booking 7 BS_COMPLETED"
  let ?p = "(sample_payment 31 PR_SUCCESS)\<lparr>p_payment_id := Some ''pay_1''\<rparr>"
  let ?gw = "(local_gateway ''t'')\<lparr>ga_fetch_refund := (\<lambda>x. Inr (JObj [(''status'', JStr ''failed'')]))\<rparr>"
  let ?r1 = "record_refund 9 ?b ?p 5000 ''key-1'' (JObj [(''status'', JStr ''pending'')]) ''rfnd_1'' ?s"
  let ?r2 = "reconcile_refund ?gw 10 (p_id (fst (projr ?r1))) (snd (projr ?r1))"
  have steps: "\<not> isl ?r1 \<and> \<not> isl ?r2 \<and> p_status (fst (projr ?r1)) = PR_PENDING \<and>
      p_status (fst (projr ?r2)) = PR_FAILED" by code_simp
  then obtain r s1 where s1: "?r1 = Inr (r, s1)" by (blast dest: result_cases)
  from steps obtain r2 s2 where s2: "?r2 = Inr (r2, s2)" by (blast dest: result_cases)
  have ok: "payments_ok ?s" "get_booking (b_id ?b) ?s = Some ?b" "b_cancelled_at ?b = None"
    "get_payment (p_id ?p) ?s = Some ?p" "p_status ?p \<in> {PR_SUCCESS, PR_REFUNDED}"
    "p_type ?p \<noteq> REFUND" "0 < p_amount ?p" "refunds_of (p_id ?p) ?s = []" "b_id ?b = 7" by code_simp+
  have "reconcile_refund ?gw 10 (p_id r) s1 = Inr (r2, s2)" "p_status r = PR_PENDING" "p_status r2 = PR_FAILED"
    using steps s1 s2 by simp_all
  from failed_refund_reopens_work [OF s1 ok(1-8) this(2,1,3)] this(1) s1 ok(9) show ?thesis by metis
qed

section \<open>Properties: opening an order\<close>

lemma open_order_Inr:
  assumes "open_order gw b key s = Inr (q, s')"
  shows "p_type q = BOOKING_ADVANCE \<and> p_status q = PR_CREATED \<and> p_booking q = b_id b \<and> p_key q = key \<and>
         p_amount q = b_advance_required b \<and> payments s' = payments s @ [q] \<and> bookings s' = bookings s \<and>
         (payments_ok s \<longrightarrow> payments_ok s')"
proof -
  obtain oid order where created: "create_payment ((blank_payment (b_id b))\<lparr>p_order_id := Some oid,
      p_amount := b_advance_required b, p_payload := redact_payload order, p_key := key\<rparr>) s = Inr (q, s')"
    using assms by (auto simp: open_order_def split: sum.splits)
  note c = create_payment_Inr [OF created]
  then have "p_type q = BOOKING_ADVANCE" "p_status q = PR_CREATED" "p_booking q = b_id b" "p_key q = key"
    "p_amount q = b_advance_required b"
    by (simp_all add: blank_payment_def)
  moreover have "payments s' = payments s @ [q]" "bookings s' = bookings s"
    using c by (blast, simp add: bump_id_def insert_payment_row_def)
  ultimately show ?thesis using create_payment_ok [OF created] by blast
qed

lemma create_order_cases:
  assumes "create_advance_payment_order gw key_id k me key s = Inr ((p, a), s')"
  obtains b where "get_booking k s = Some b" and "b_customer b = me"
    and "b_status b \<in> {BS_PENDING_PAYMENT, BS_PAYMENT_FAILED}" and "a = order_response key_id p"
    and "keyed_payment k BOOKING_ADVANCE key s = Some p \<and> p_status p \<noteq> PR_FAILED \<and> s' = s \<or>
         keyed_payment k BOOKING_ADVANCE key s = None \<and> existing_advance k s = Some p \<and> p_status p \<noteq> PR_SUCCESS \<and>
           given '''' (p_order_id p) \<noteq> '''' \<and> s' = s \<or>
         open_order gw b key s = Inr (p, s')"
proof -
  obtain b where b: "get_booking k s = Some b"
    using assms by (cases "get_booking k s") (simp_all add: create_advance_payment_order_def)
  note body = assms [unfolded create_advance_payment_order_def b option.case]
  have guards: "b_customer b = me" "b_status b \<in> {BS_PENDING_PAYMENT, BS_PAYMENT_FAILED}"
    using body by (auto split: if_splits)
  have opened: "a = order_response key_id p \<and> open_order gw b key s = Inr (p, s')"
    if "(case open_order gw b key s of Inl e \<Rightarrow> Inl e
         | Inr (q, s1) \<Rightarrow> Inr ((q, order_response key_id q), s1)) = Inr ((p, a), s')"
    using that by (auto split: sum.splits)
  show thesis
  proof (cases "keyed_payment k BOOKING_ADVANCE key s")
    case (Some x)
    with body guards show thesis by (intro that [OF b guards]) (auto split: if_splits)
  next
    case None
    show thesis
    proof (cases "existing_advance k s")
      case e: None
      with body guards None opened show thesis by (intro that [OF b guards]) auto
    next
      case (Some x)
      with body guards None opened show thesis
        by (intro that [OF b guards]) (auto split: if_splits)
    qed
  qed
qed

text \<open>C8: Opening an order is idempotent: an accepted call answers for an advance of the caller's own
  booking that awaits payment; it either finds the row or adds exactly one for the required advance, the
  table keeps at most one open or paid advance for the booking, no booking changes, and the same call again
  gives the same answer without asking the gateway.\<close>

theorem order_opened_once:
  assumes opened: "create_advance_payment_order gw key_id k me key s = Inr ((p, a), s')" and ok: "payments_ok s"
  shows "payments_ok s' \<and> p \<in> set (payments s') \<and> p_booking p = k \<and> p_type p = BOOKING_ADVANCE \<and>
         bookings s' = bookings s \<and>
         (\<exists>b. get_booking k s = Some b \<and> b_customer b = me \<and>
            b_status b \<in> {BS_PENDING_PAYMENT, BS_PAYMENT_FAILED} \<and>
            (s' = s \<or> payments s' = payments s @ [p] \<and> p_amount p = b_advance_required b)) \<and>
         (\<forall>q\<in>set (payments s'). active_advance p \<and> active_advance q \<and> p_booking q = k \<longrightarrow> q = p) \<and>
         (\<forall>gw2. create_advance_payment_order gw2 key_id k me key s' = Inr ((p, a), s'))"
proof (rule create_order_cases [OF opened])
  fix b
  assume b: "get_booking k s = Some b" "b_customer b = me" "b_status b \<in> {BS_PENDING_PAYMENT, BS_PAYMENT_FAILED}"
    and a: "a = order_response key_id p"
    and how: "keyed_payment k BOOKING_ADVANCE key s = Some p \<and> p_status p \<noteq> PR_FAILED \<and> s' = s \<or>
         keyed_payment k BOOKING_ADVANCE key s = None \<and> existing_advance k s = Some p \<and> p_status p \<noteq> PR_SUCCESS \<and>
           given '''' (p_order_id p) \<noteq> '''' \<and> s' = s \<or>
         open_order gw b key s = Inr (p, s')"
  have id: "b_id b = k" using booking_table.get_key [OF b(1)] .
  have result: "payments_ok s' \<and> p \<in> set (payments s') \<and> p_booking p = k \<and> p_type p = BOOKING_ADVANCE \<and>
      bookings s' = bookings s \<and> (s' = s \<or> payments s' = payments s @ [p] \<and> p_amount p = b_advance_required b)"
    using how
  proof (elim disjE)
    assume "open_order gw b key s = Inr (p, s')"
    from open_order_Inr [OF this] ok id show ?thesis by auto
  qed (use ok in \<open>auto simp: keyed_payment_def existing_advance_def active_advance_def dest!: last_row_SomeD\<close>)
  have "create_advance_payment_order gw2 key_id k me key s' = Inr ((p, a), s')" for gw2
    using how
  proof (elim disjE)
    assume "open_order gw b key s = Inr (p, s')"
    note o = open_order_Inr [OF this]
    then have "keyed_payment k BOOKING_ADVANCE key s' = Some p" using id by (simp add: keyed_payment_def last_row_def)
    with o b a show ?thesis by (simp add: create_advance_payment_order_def get_booking_def)
  qed (use b a in \<open>auto simp: create_advance_payment_order_def\<close>)
  moreover have "q = p" if "q \<in> set (payments s')" "active_advance p \<and> active_advance q \<and> p_booking q = k" for q
    using payments_okD(1) [of s' q p] result that by auto
  ultimately show ?thesis using result b by blast
qed

theorem order_opened_once_witness:
  "\<exists>p a s'. create_advance_payment_order (local_gateway ''t'') ''rzp'' 7 1 ''key-1''
              (sample_paying_db [sample_booking 7 BS_PENDING_PAYMENT] []) = Inr ((p, a), s') \<and>
            payments s' = [p] \<and> p_amount p = 18000 \<and>
            create_advance_payment_order (local_gateway ''u'') ''rzp'' 7 1 ''key-1'' s' = Inr ((p, a), s')"
proof -
  let ?s = "sample_paying_db [sample_booking 7 BS_PENDING_PAYMENT] []"
  let ?r = "create_advance_payment_order (local_gateway ''t'') ''rzp'' 7 1 ''key-1'' ?s"
  have r: "\<not> isl ?r \<and> payments (snd (projr ?r)) = [fst (fst (projr ?r))] \<and>
      p_amount (fst (fst (projr ?r))) = 18000" by code_simp
  then obtain p a s' where s': "?r = Inr ((p, a), s')" by (metis result_cases prod.collapse)
  have "payments_ok ?s" by code_simp
  from order_opened_once [OF s' this] s' r show ?thesis by auto
qed

section \<open>Lemmas: the webhook\<close>

lemma save_payment_frame: "save_payment p s = Inr s' \<Longrightarrow> pay_frame s s'"
  by (drule save_payment_Inr) simp

lemma create_payment_frame: "create_payment data s = Inr (p, s') \<Longrightarrow> pay_frame s s'"
  by (drule create_payment_Inr) simp

lemma apply_refund_frame: "apply_refund_state b source s = Inr s' \<Longrightarrow> pay_frame s s'"
  by (auto simp: apply_refund_state_def dest: save_payment_frame split: if_splits sum.splits)

lemma upsert_refund_frame: "upsert_refund now b source rid entity s = Inr (z, s') \<Longrightarrow> pay_frame s s'"
  by (auto simp: upsert_refund_def Let_def dest: save_payment_frame create_payment_frame
      split: sum.splits option.splits)

lemma refund_webhook_frame:
  assumes "process_refund_webhook now payload s = Inr s'"
  shows "pay_frame s s'"
proof -
  obtain entity where entity: "webhook_entity ''refund'' payload = Inr entity"
    using assms by (cases "webhook_entity ''refund'' payload") (simp_all add: process_refund_webhook_def)
  obtain rid ref where ids: "jget JNull ''id'' entity = Inr rid" "jget JNull ''payment_id'' entity = Inr ref"
    using assms entity
    by (cases "jget JNull ''id'' entity"; cases "jget JNull ''payment_id'' entity")
      (simp_all add: process_refund_webhook_def)
  note body = assms [unfolded process_refund_webhook_def entity sum.case ids prod.case]
  obtain source where source: "payment_by_reference (py_str ref) s = Some source"
    using body by (cases "payment_by_reference (py_str ref) s") (simp_all split: if_splits)
  obtain b where b: "get_booking (p_booking source) s = Some b"
    using body source by (cases "get_booking (p_booking source) s") (simp_all split: if_splits)
  obtain r new t where t: "upsert_refund now b source (py_str rid) entity s = Inr ((r, new), t)"
    using body source b by (cases "upsert_refund now b source (py_str rid) entity s") (auto split: if_splits)
  obtain u where u: "apply_refund_state b source t = Inr u"
    using body source b t by (cases "apply_refund_state b source t") (auto split: if_splits)
  have "pay_frame s u"
    using upsert_refund_frame [OF t] apply_refund_frame [OF u] by (rule pay_frame_trans)
  then show ?thesis
    using body source b t u by (auto simp: Let_def split: if_splits)
qed

lemma failed_webhook_frame: "process_payment_failed_webhook payload s = Inr s' \<Longrightarrow> pay_frame s s'"
  by (auto simp: process_payment_failed_webhook_def dest!: mark_failed_Inr
      split: sum.splits option.splits if_splits)

lemma captured_webhook_frame: "process_payment_captured mac ks now payload s = (r, s') \<Longrightarrow> pay_frame s s'"
  unfolding process_payment_captured_def
  by (auto dest!: verify_payment_ok split: sum.splits option.splits if_splits prod.splits)

lemma dispatch_webhook_frame:
  assumes "dispatch_webhook mac ks now event payload s = (r, s')"
  shows "pay_frame s s'"
proof -
  have atomic: "pay_frame s t" if "run_atomic f s = (r, t)" and "\<And>u. f s = Inr u \<Longrightarrow> pay_frame s u" for f r t
    using that by (auto simp: run_atomic_def split: sum.splits)
  show ?thesis
    using assms captured_webhook_frame atomic failed_webhook_frame refund_webhook_frame
    unfolding dispatch_webhook_def by (metis Pair_inject pay_frame_refl)
qed

text \<open>Deliveries have distinct keys below the supply.\<close>

definition webhooks_ok :: "'x payments_db_scheme \<Rightarrow> bool" where
  "webhooks_ok s =
     (unique_rows we_id (webhook_events s) \<and> list_all (\<lambda>w. we_id w < next_id s) (webhook_events s))"

lemma webhook_simps [simp]:
  "webhook_events (update_webhook w s) = save_row we_id w (webhook_events s)"
  "next_id (update_webhook w s) = next_id s"
  by (simp_all add: update_webhook_def)

lemma update_webhook_ok:
  assumes "webhooks_ok s" and "\<exists>x\<in>set (webhook_events s). we_id x = we_id w"
  shows "webhooks_ok (update_webhook w s)"
  using assms by (auto simp: webhooks_ok_def list_all_iff in_set_save_row)

text \<open>The delivery of a call that goes on is stored under its hash.\<close>

lemma begin_webhook_mine:
  assumes begun: "begin_webhook now h event s = (Mine k, s')" and ok: "webhooks_ok s"
  shows "webhooks_ok s' \<and> (\<exists>w. find_webhook h s' = Some w \<and> we_id w = k)"
proof -
  obtain w s1 where w: "(w, s1) = (case find_webhook h s of Some w \<Rightarrow> (w, s)
      | None \<Rightarrow> let w = new_webhook now h event (new_id s) in (w, bump_id (insert_webhook w s)))"
    by (metis surj_pair)
  have first: "webhooks_ok s1 \<and> find_webhook h s1 = Some w"
  proof (cases "find_webhook h s")
    case None
    with w have s1: "webhook_events s1 = webhook_events s @ [w]" "next_id s1 = Suc (next_id s)"
      and id: "we_id w = next_id s" "we_hash w = h"
      by (simp_all add: Let_def insert_webhook_def bump_id_def new_webhook_def new_id_def)
    then have "find_webhook h s1 = Some w"
      using None by (auto simp: find_webhook_def first_row_def find_None_iff find_Some_iff nth_append)
    with s1 id ok show ?thesis by (auto simp: webhooks_ok_def list_all_iff)
  qed (use w ok in simp)
  let ?w2 = "w\<lparr>we_attempts := we_attempts w + 1, we_status := PROCESSING, we_last_error := '''', we_updated_at := now\<rparr>"
  have s': "s' = update_webhook ?w2 s1" "k = we_id w"
    using begun unfolding begin_webhook_def w [symmetric] by (auto split: if_splits)
  have in_rows: "w \<in> set (webhook_events s1)" "we_hash w = h"
    using first first_row_SomeD by (fastforce simp: find_webhook_def)+
  have "find_webhook h s' = Some ?w2"
    using first first_row_save_row [of "\<lambda>w. we_hash w = h" "webhook_events s1" w ?w2 we_id] in_rows
    by (simp add: find_webhook_def s')
  with first in_rows s' show ?thesis using update_webhook_ok [of s1 ?w2] by auto
qed

lemma finish_webhook_stored:
  assumes "find_webhook h s = Some w" and "webhooks_ok s"
  shows "webhooks_ok (finish_webhook (we_id w) st err at s) \<and>
         (\<exists>w2. find_webhook h (finish_webhook (we_id w) st err at s) = Some w2 \<and> we_status w2 = st)"
proof -
  have w: "w \<in> set (webhook_events s)" "we_hash w = h"
    using assms(1) first_row_SomeD by (fastforce simp: find_webhook_def)+
  then have row: "get_webhook (we_id w) s = Some w"
    using assms(2) by (simp add: get_webhook_def webhooks_ok_def find_row_unique)
  let ?w2 = "w\<lparr>we_status := st, we_last_error := err,
               we_processed_at := (case at of None \<Rightarrow> we_processed_at w | Some t \<Rightarrow> Some t)\<rparr>"
  have eq: "finish_webhook (we_id w) st err at s = update_webhook ?w2 s"
    by (simp add: finish_webhook_def row)
  have "find_webhook h (update_webhook ?w2 s) = Some ?w2"
    using assms(1) first_row_save_row [of "\<lambda>w. we_hash w = h" "webhook_events s" w ?w2 we_id] w
    by (simp add: find_webhook_def)
  with w eq update_webhook_ok [OF assms(2), of ?w2] show ?thesis by auto
qed

lemma begin_webhook_again:
  "find_webhook h s = Some w \<Longrightarrow> we_status w = PROCESSED \<Longrightarrow> begin_webhook now h event s = (AlreadyProcessed, s)"
  by (simp add: begin_webhook_def)

lemma begin_webhook_already:
  "begin_webhook now h event s = (AlreadyProcessed, s') \<Longrightarrow>
     s' = s \<and> (\<exists>w. find_webhook h s = Some w \<and> we_status w = PROCESSED)"
  by (auto simp: begin_webhook_def Let_def new_webhook_def split: option.splits if_splits)

section \<open>Properties: the webhook\<close>

text \<open>C6: A delivery is processed once: when a signed webhook call has returned (and did not find the
  same delivery in progress), the same body delivered again, at any later time, is answered as a processed
  duplicate and changes nothing; a body whose signature is wrong changes nothing and is refused.\<close>

theorem webhook_processed_once:
  assumes called: "process_razorpay_webhook mac sha parse wsec ks now body sg s = (Inr ans, s')"
    and ok: "webhooks_ok s" and mine: "wa_processed ans \<or> \<not> wa_duplicate ans"
  shows "webhooks_ok s' \<and>
         (\<forall>now2. process_razorpay_webhook mac sha parse wsec ks now2 body sg s' =
            (Inr \<lparr>wa_processed = True, wa_duplicate = True, wa_event = wa_event ans\<rparr>, s')) \<and>
         (\<forall>now2 sg2. sg2 \<noteq> sg \<longrightarrow>
            (\<exists>e. process_razorpay_webhook mac sha parse wsec ks now2 body sg2 s' = (Inl e, s')))"
proof -
  have signed: "verify_webhook_signature mac wsec body sg = Inr True"
    using called by (auto simp: process_razorpay_webhook_def split: sum.splits bool.splits)
  obtain payload where payload: "parse body = Some payload"
    using called signed by (cases "parse body") (simp_all add: process_razorpay_webhook_def)
  obtain ev where ev: "jget (JStr '''') ''event'' payload = Inr ev"
    using called signed payload by (cases "jget (JStr '''') ''event'' payload") (simp_all add: process_razorpay_webhook_def)
  note body = called [unfolded process_razorpay_webhook_def signed payload ev sum.case option.case bool.case Let_def]
  obtain turn s1 where turn: "begin_webhook now (sha body) (py_str ev) s = (turn, s1)" by (metis surj_pair)
  have stored: "webhooks_ok s' \<and> (\<exists>w. find_webhook (sha body) s' = Some w \<and> we_status w = PROCESSED) \<and>
      wa_event ans = py_str ev"
  proof (cases turn)
    case AlreadyProcessed
    with body turn begin_webhook_already ok show ?thesis by fastforce
  next
    case InProgress
    with body turn mine show ?thesis by auto
  next
    case (Mine k)
    obtain d s2 where d: "dispatch_webhook mac ks now (py_str ev) payload s1 = (Inr d, s2)"
      and s': "s' = finish_webhook k PROCESSED '''' (Some now) s2" "wa_event ans = py_str ev"
      using body turn Mine by (auto split: prod.splits sum.splits)
    from begin_webhook_mine [OF turn [unfolded Mine] ok] obtain w where
      w: "webhooks_ok s1" "find_webhook (sha body) s1 = Some w" "we_id w = k" by blast
    from dispatch_webhook_frame [OF d] w(1,2) have "webhooks_ok s2" "find_webhook (sha body) s2 = Some w"
      by (auto simp: pay_frame_def webhooks_ok_def find_webhook_def list_all_iff)
    from finish_webhook_stored [OF this(2,1)] w(3) s' show ?thesis by blast
  qed
  then obtain w where w: "find_webhook (sha body) s' = Some w" "we_status w = PROCESSED" by blast
  have "process_razorpay_webhook mac sha parse wsec ks now2 body sg s' =
      (Inr \<lparr>wa_processed = True, wa_duplicate = True, wa_event = wa_event ans\<rparr>, s')" for now2
    using stored begin_webhook_again [OF w, of now2 "py_str ev"]
    by (simp add: process_razorpay_webhook_def signed payload ev Let_def)
  moreover have "\<exists>e. process_razorpay_webhook mac sha parse wsec ks now2 body sg2 s' = (Inl e, s')"
    if "sg2 \<noteq> sg" for now2 sg2
    using signed that
    by (auto simp: process_razorpay_webhook_def verify_webhook_signature_def compare_digest_def split: if_splits)
  ultimately show ?thesis using stored by blast
qed

definition captured_payload :: "string \<Rightarrow> json option" where
  "captured_payload body = Some (JObj
     [(''event'', JStr ''payment.captured''),
      (''payload'', JObj [(''payment'', JObj [(''entity'', JObj
         [(''order_id'', JStr ''order_1''), (''id'', JStr ''pay_1''), (''amount'', JNum 18000)])])])])"

theorem webhook_processed_once_witness:
  "\<exists>ans s'. process_razorpay_webhook sample_mac (\<lambda>x. x) captured_payload ''w'' ''k'' 9 ''b'' ''w#b''
               (sample_paying_db [sample_booking 7 BS_PENDING_PAYMENT] [sample_payment 31 PR_CREATED]) = (Inr ans, s') \<and>
            map_option b_status (get_booking 7 s') = Some BS_CONFIRMED \<and>
            process_razorpay_webhook sample_mac (\<lambda>x. x) captured_payload ''w'' ''k'' 10 ''b'' ''w#b'' s' =
              (Inr \<lparr>wa_processed = True, wa_duplicate = True, wa_event = wa_event ans\<rparr>, s')"
proof -
  let ?s = "sample_paying_db [sample_booking 7 BS_PENDING_PAYMENT] [sample_payment 31 PR_CREATED]"
  let ?r = "process_razorpay_webhook sample_mac (\<lambda>x. x) captured_payload ''w'' ''k'' 9 ''b'' ''w#b'' ?s"
  have r: "\<not> isl (fst ?r) \<and> wa_processed (projr (fst ?r)) \<and>
      map_option b_status (get_booking 7 (snd ?r)) = Some BS_CONFIRMED" by code_simp
  then obtain ans s' where s': "?r = (Inr ans, s')" by (cases ?r; cases "fst ?r") auto
  have "webhooks_ok ?s" by code_simp
  moreover have "wa_processed ans \<or> \<not> wa_duplicate ans" using r s' by simp
  ultimately have "process_razorpay_webhook sample_mac (\<lambda>x. x) captured_payload ''w'' ''k'' 10 ''b'' ''w#b'' s' =
              (Inr \<lparr>wa_processed = True, wa_duplicate = True, wa_event = wa_event ans\<rparr>, s')"
    using webhook_processed_once [OF s'] by blast
  with s' r show ?thesis by (metis snd_conv)
qed

end
