(* ===== verification/Operations.thy ===== *)
theory Operations
  imports Payments
begin

text \<open>
  What administrators do with leads, \<open>apps/operations/services.py\<close> and the lead views: payment links,
  conversion into a work order, contacts, manual payments, scheduling, the status of a lead; the rules
  of a homepage banner.
\<close>

section \<open>Writing a lead\<close>

text \<open>
  \<open>lead.save(update_fields=...)\<close>: the row as this request sees it is validated, and the named columns,
  those \<open>columns\<close> sets, are written to the row as it is stored now; without a row it raises.
\<close>

definition update_lead ::
  "timestamp \<Rightarrow> (lead \<Rightarrow> lead) \<Rightarrow> lead \<Rightarrow> 'x leads_db_scheme \<Rightarrow> error + (lead \<times> 'x leads_db_scheme)" where
  "update_lead now columns l s =
     (let l2 = (columns l)\<lparr>l_updated_at := now\<rparr> in
      case lead_full_clean l2 s of
        [] \<Rightarrow> (case get_lead (l_id l) s of
                 None \<Rightarrow> Inl (DatabaseError ''Save with update_fields did not affect any rows.'')
               | Some row \<Rightarrow> Inr (l2, save_lead_row ((columns row)\<lparr>l_updated_at := now\<rparr>) s))
      | errs \<Rightarrow> Inl (FieldErrors errs))"

text \<open>\<open>"\n".join(part for part in [old, new] if part)\<close>\<close>

definition append_note :: "string \<Rightarrow> string \<Rightarrow> string" where
  "append_note old new = join_str [CHR 0x0A] (nonempty_parts [old, new])"

section \<open>Payment links\<close>

datatype payment_scope = FULL | ADVANCE

fun scope_lower :: "payment_scope \<Rightarrow> string" where
  "scope_lower FULL = ''full''"
| "scope_lower ADVANCE = ''advance''"

fun scope_title :: "payment_scope \<Rightarrow> string" where
  "scope_title FULL = ''Full''"
| "scope_title ADVANCE = ''Advance''"

fun scope_str :: "payment_scope \<Rightarrow> string" where
  "scope_str FULL = ''FULL''"
| "scope_str ADVANCE = ''ADVANCE''"

fun channel_str :: "notification_channel \<Rightarrow> string" where
  "channel_str NC_SMS = ''SMS''"
| "channel_str NC_EMAIL = ''EMAIL''"
| "channel_str NC_WHATSAPP = ''WHATSAPP''"
| "channel_str NC_IN_APP = ''IN_APP''"
| "channel_str NC_PUSH = ''PUSH''"

fun notification_status_str :: "notification_status \<Rightarrow> string" where
  "notification_status_str NS_QUEUED = ''QUEUED''"
| "notification_status_str NS_SENT = ''SENT''"
| "notification_status_str NS_DELIVERED = ''DELIVERED''"
| "notification_status_str NS_READ = ''READ''"
| "notification_status_str NS_FAILED = ''FAILED''"
| "notification_status_str NS_CANCELLED = ''CANCELLED''"

text \<open>\<open>rstrip('/')\<close>\<close>

definition lead_payment_url :: "string \<Rightarrow> lead \<Rightarrow> string" where
  "lead_payment_url frontend l =
     (let app = rstrip_slash (or_str frontend ''https://purplesquad.netlify.app'') in
      case l_converted_booking l of
        Some b \<Rightarrow> app @ ''/book/pay/'' @ nat_str b
      | None \<Rightarrow> app @ ''/support?lead='' @ nat_str (l_id l))"

text \<open>\<open>isoformat()\<close> of an aware time in UTC; microseconds are written when there are any.\<close>

definition iso_str :: "timestamp \<Rightarrow> string" where
  "iso_str t =
     (let us = t mod day_us; frac = us mod 1000000 in
      date_str (utc_date t) @ ''T'' @ hhmm_str us @ '':'' @
      pad_left 2 CHR ''0'' (nat_str (nat (us mod minute_us div 1000000))) @
      (if frac = 0 then '''' else ''.'' @ pad_left 6 CHR ''0'' (nat_str (nat frac))) @ ''+00:00'')"

definition link_amount :: "payment_scope \<Rightarrow> lead \<Rightarrow> money option" where
  "link_amount scope l = (if scope = FULL then l_quoted l else l_advance l)"

definition link_provider_id :: "payment_scope \<Rightarrow> lead \<Rightarrow> string" where
  "link_provider_id scope l = ''lead-link-'' @ nat_str (l_id l) @ ''-'' @ scope_lower scope"

definition link_still_valid :: "timestamp \<Rightarrow> payment_scope \<Rightarrow> lead \<Rightarrow> bool" where
  "link_still_valid now scope l =
     ((case l_link_expires_at l of None \<Rightarrow> False | Some t \<Rightarrow> t > now) \<and>
      l_link_url l \<noteq> '''' \<and> l_link_provider_id l = link_provider_id scope l)"

text \<open>The rupee sign, as the bytes of its UTF-8 form.\<close>

definition rupee_sign :: string where
  "rupee_sign = [CHR 0xE2, CHR 0x82, CHR 0xB9]"

definition link_notification ::
  "payment_scope \<Rightarrow> notification_channel \<Rightarrow> money \<Rightarrow> lead \<Rightarrow> nat \<Rightarrow> notification" where
  "link_notification scope channel amount l k =
     \<lparr>n_id = k, n_recipient = l_customer l, n_booking = l_converted_booking l,
      n_event = NE_PAYMENT_PENDING, n_channel = channel, n_status = NS_QUEUED, n_title = ''Payment link'',
      n_message = ''Purple Squad '' @ scope_lower scope @ '' payment link for '' @ rupee_sign @
        money_str amount @ '': '' @ l_link_url l,
      n_provider = '''', n_provider_message_id = '''', n_send_attempts = 0,
      n_payload = JObj [(''lead_id'', JStr (nat_str (l_id l))), (''payment_link_url'', JStr (l_link_url l)),
                        (''payment_scope'', JStr (scope_str scope)), (''amount'', JStr (money_str amount))],
      n_error_message = '''', n_sent_at = None\<rparr>"

text \<open>
  \<open>frontend\<close> and \<open>hours\<close> are the settings, \<open>pname\<close> and \<open>provider\<close> the notification provider, whose
  failure is recorded on the notification and not raised.
\<close>

definition send_lead_payment_link ::
  "string \<Rightarrow> int \<Rightarrow> string \<Rightarrow> provider \<Rightarrow> timestamp \<Rightarrow> lead \<Rightarrow> nat option \<Rightarrow> request option \<Rightarrow>
     notification_channel \<Rightarrow> payment_scope \<Rightarrow> 'x leads_db_scheme \<Rightarrow>
     error + ((lead \<times> bool) \<times> 'x leads_db_scheme)" where
  "send_lead_payment_link frontend hours pname provider now l by rq channel scope s =
     (if l_payment l = LP_PAID then Inl (ValidationError ''Lead is already paid.'')
      else case link_amount scope l of
        None \<Rightarrow> Inl (ValidationError (''Lead does not have a valid '' @ scope_lower scope @ '' amount.''))
      | Some amount \<Rightarrow>
          if amount \<le> 0
          then Inl (ValidationError (''Lead does not have a valid '' @ scope_lower scope @ '' amount.''))
          else if link_still_valid now scope l then Inr ((l, False), s)
          else
            let url = lead_payment_url frontend l;
                expires = now + hours * hour_us;
                columns = (\<lambda>x. x\<lparr>l_link_provider_id := link_provider_id scope l, l_link_url := url,
                                 l_link_expires_at := Some expires, l_payment := LP_LINK_SENT,
                                 l_last_activity_at := now\<rparr>)
            in case update_lead now columns l s of
                 Inl e \<Rightarrow> Inl e
               | Inr (l2, s1) \<Rightarrow>
                   let s2 = record_lead_activity (l_id l) LA_PAYMENT_LINK_CREATED
                              (JObj [(''payment_status'', JStr (lead_payment_str (l_payment l))),
                                     (''payment_link_url'', JBool (url \<noteq> ''''))])
                              (JObj [(''payment_status'', JStr (lead_payment_str (l_payment l2))),
                                     (''expires_at'', JStr (iso_str expires))])
                              (scope_title scope @ '' payment link created for unpaid lead.'') by rq s1;
                       n = link_notification scope channel amount l2 (new_id s2);
                       (answer, s3) = send_notification pname provider now False n
                                        (bump_id (insert_notification n s2));
                       sent = (case answer of Inl e \<Rightarrow> n | Inr m \<Rightarrow> m);
                       s4 = record_lead_activity (l_id l) LA_PAYMENT_LINK_SENT JNull
                              (JObj [(''notification_id'', JStr (nat_str (n_id sent))),
                                     (''channel'', JStr (channel_str channel)),
                                     (''status'', JStr (notification_status_str (n_status sent)))])
                              ''Payment link delivery attempted.'' by rq s3
                   in Inr ((l2, True),
                           audit_event AA_PAYMENT_LINK_CREATED ''lead'' (nat_str (l_id l)) by rq
                             (JObj [(''lead_id'', JStr (nat_str (l_id l))),
                                    (''channel'', JStr (channel_str channel))]) s4))"

section \<open>Work orders\<close>

text \<open>\<open>strptime(text, "%H:%M")\<close>: one or two digits each, an hour below 24 and a minute below 60.\<close>

definition parse_clock_part :: "nat \<Rightarrow> string \<Rightarrow> nat option" where
  "parse_clock_part limit x =
     (if x \<noteq> '''' \<and> length x \<le> 2 \<and> list_all is_digit x \<and> parse_nat x < limit then Some (parse_nat x)
      else None)"

definition parse_hhmm :: "string \<Rightarrow> time_of_day option" where
  "parse_hhmm x =
     (let hh = takeWhile (\<lambda>c. c \<noteq> CHR '':'') x;
          rest = dropWhile (\<lambda>c. c \<noteq> CHR '':'') x
      in case rest of
           [] \<Rightarrow> None
         | c # mm \<Rightarrow>
             (case (parse_clock_part 24 hh, parse_clock_part 60 mm) of
                (Some h, Some m) \<Rightarrow> Some (int h * hour_us + int m * minute_us)
              | _ \<Rightarrow> None))"

definition lead_area :: "string \<Rightarrow> 'x locations_db_scheme \<Rightarrow> service_area option" where
  "lead_area pincode s =
     least_area (filter (\<lambda>a. ar_postal_code a = pincode \<and> ar_active a) (service_areas s))"

text \<open>\<open>get_or_create\<close> of the customer, of the profile and of the address.\<close>

definition lead_customer :: "string \<Rightarrow> 'x accounts_db_scheme \<Rightarrow> user \<times> 'x accounts_db_scheme" where
  "lead_customer mobile s =
     (case user_by_phone mobile s of
        Some u \<Rightarrow> (u, s)
      | None \<Rightarrow>
          let u = (new_user mobile (new_id s))\<lparr>u_verified := True, u_password := UnusablePassword\<rparr>
          in (u, bump_id (insert_user u s)))"

definition lead_profile :: "nat \<Rightarrow> string \<Rightarrow> 'x accounts_db_scheme \<Rightarrow> 'x accounts_db_scheme" where
  "lead_profile uid name s =
     (case profile_of uid s of
        Some p \<Rightarrow> s
      | None \<Rightarrow>
          bump_id (s\<lparr>customer_profiles := customer_profiles s @
            [\<lparr>cp_id = new_id s, cp_user = uid, cp_display_name = name, cp_alternate_phone = ''''\<rparr>]\<rparr>))"

definition lead_address_row :: "lead \<Rightarrow> nat \<Rightarrow> service_area \<Rightarrow> bool \<Rightarrow> nat \<Rightarrow> address" where
  "lead_address_row l customer area is_default k =
     \<lparr>ad_id = k, ad_customer = customer, ad_label = ''Lead address'',
      ad_recipient_name = l_customer_name l, ad_phone = l_mobile l, ad_line_1 = l_address l,
      ad_line_2 = '''', ad_landmark = '''', ad_locality = '''', ad_city = l_city l,
      ad_state = ar_state area, ad_postal_code = l_pincode l, ad_country = ar_country area,
      ad_latitude = None, ad_longitude = None, ad_default = is_default, ad_active = True\<rparr>"

definition lead_address ::
  "lead \<Rightarrow> nat \<Rightarrow> service_area \<Rightarrow> 'x locations_db_scheme \<Rightarrow> error + (address \<times> 'x locations_db_scheme)" where
  "lead_address l customer area s =
     (case filter (\<lambda>a. ad_customer a = customer \<and> ad_phone a = l_mobile l \<and> ad_line_1 a = l_address l \<and>
                       ad_postal_code a = l_pincode l) (addresses s) of
        [a] \<Rightarrow> Inr (a, s)
      | [] \<Rightarrow>
          save_address
            (lead_address_row l customer area
               (\<not> list_ex (\<lambda>a. ad_customer a = customer) (addresses s)) (new_id s)) (bump_id s)
      | _ \<Rightarrow> Inl (APIException ''get() returned more than one Address''))"

text \<open>The slot starts at the parsed time and lasts an hour, past midnight on the clock.\<close>

definition lead_slot ::
  "nat \<Rightarrow> date \<Rightarrow> string \<Rightarrow> 'x scheduling_db_scheme \<Rightarrow> error + (time_slot \<times> 'x scheduling_db_scheme)" where
  "lead_slot area d text s =
     (case parse_hhmm text of
        None \<Rightarrow> Inl (ValueError ''time data does not match format'')
      | Some start \<Rightarrow>
          let stop = (start + hour_us) mod day_us in
          case first_row (\<lambda>sl. sl_area sl = area \<and> sl_date sl = d \<and> sl_start sl = start \<and> sl_end sl = stop)
                 (time_slots s) of
            Some sl \<Rightarrow> Inr (sl, s)
          | None \<Rightarrow>
              save_slot \<lparr>sl_id = new_id s, sl_area = area, sl_date = d, sl_start = start, sl_end = stop,
                         sl_capacity = 5, sl_active = True\<rparr> (bump_id s))"

text \<open>The booking made from the lead's own data.\<close>

definition booking_from_lead ::
  "timestamp \<Rightarrow> lead \<Rightarrow> string \<Rightarrow> 'x leads_db_scheme \<Rightarrow> error + (booking \<times> 'x leads_db_scheme)" where
  "booking_from_lead now l notes s =
     (case (l_service l, l_preferred_date l) of
        (None, _) \<Rightarrow> Inl (ValidationError ''Select a service before creating a work order.'')
      | (Some sv, None) \<Rightarrow> Inl (ValidationError ''Schedule the lead before creating a work order.'')
      | (Some sv, Some d) \<Rightarrow>
          if l_preferred_slot l = '''' then Inl (ValidationError ''Schedule the lead before creating a work order.'')
          else if l_address l = '''' \<or> l_city l = '''' \<or> l_pincode l = ''''
          then Inl (ValidationError ''A complete service address is required.'')
          else (case (lead_area (l_pincode l) s, get_service sv s) of
                  (None, _) \<Rightarrow> Inl (ValidationError ''The lead pincode is outside the active service area.'')
                | (Some area, None) \<Rightarrow> Inl (DoesNotExist ''Service'')
                | (Some area, Some v) \<Rightarrow>
                    if \<not> supports_service area v
                    then Inl (ValidationError ''The selected service is not available at this pincode.'')
                    else
                      let (u, s1) = lead_customer (l_mobile l) s;
                          s2 = lead_profile (u_id u) (l_customer_name l) s1
                      in case lead_address l (u_id u) area s2 of
                           Inl e \<Rightarrow> Inl e
                         | Inr (a, s3) \<Rightarrow>
                             (case lead_slot (ar_id area) d (l_preferred_slot l) s3 of
                                Inl e \<Rightarrow> Inl e
                              | Inr (sl, s4) \<Rightarrow>
                                  create_booking now u sv (ad_id a) (sl_id sl)
                                    \<lparr>br_problem = l_customer_notes l, br_customer_notes = notes,
                                     br_contact_phone = l_mobile l, br_quantity = 1\<rparr> s4)))"

text \<open>A quote replaces the amounts of a booking made from the lead.\<close>

definition quoted_booking :: "lead \<Rightarrow> money \<Rightarrow> booking \<Rightarrow> booking" where
  "quoted_booking l fee b =
     (case l_quoted l of
        None \<Rightarrow> b
      | Some q \<Rightarrow>
          b\<lparr>b_subtotal := q, b_discount := 0, b_training_fee := fee, b_tax := 0, b_total := q + fee,
            b_advance_required := (case l_advance l of None \<Rightarrow> b_advance_required b
                                                      | Some x \<Rightarrow> min x (q + fee)),
            b_balance_due := q + fee\<rparr>)"

definition confirm_work_order ::
  "booking \<Rightarrow> nat option \<Rightarrow> string \<Rightarrow> 'x bookings_db_scheme \<Rightarrow> booking \<times> 'x bookings_db_scheme" where
  "confirm_work_order b by notes s =
     (let b2 = b\<lparr>b_manual := True, b_status := BS_CONFIRMED\<rparr>;
          s1 = save_booking b2 s
      in (b2, if b_status b = BS_CONFIRMED then s1
              else write_status_history (b_id b) (Some (b_status b)) BS_CONFIRMED by
                     (or_str notes ''Work order created from lead by admin.'') s1))"

definition convert_lead_to_work_order ::
  "timestamp \<Rightarrow> lead \<Rightarrow> nat option \<Rightarrow> booking option \<Rightarrow> string \<Rightarrow> 'x leads_db_scheme \<Rightarrow>
     error + (lead \<times> 'x leads_db_scheme)" where
  "convert_lead_to_work_order now l by bo notes s =
     (if l_status l = LS_CONVERTED \<and> l_converted_booking l \<noteq> None then Inr (l, s)
      else
        let made = (case bo of
                      Some b \<Rightarrow> Inr (b, s)
                    | None \<Rightarrow>
                        (case booking_from_lead now l notes s of
                           Inl e \<Rightarrow> Inl e
                         | Inr (b, s1) \<Rightarrow>
                             let fee = (case l_service l of
                                          None \<Rightarrow> 0
                                        | Some sv \<Rightarrow> (case get_service sv s1 of None \<Rightarrow> 0
                                                                             | Some v \<Rightarrow> sv_training_fee v))
                             in Inr (quoted_booking l fee b, s1)))
        in case made of
             Inl e \<Rightarrow> Inl e
           | Inr (b, s1) \<Rightarrow>
               let (b2, s2) = confirm_work_order b by notes s1;
                   columns = (\<lambda>x. x\<lparr>l_customer := Some (b_customer b2), l_status := LS_CONVERTED,
                                    l_funnel := LF_BOOKED, l_converted_booking := Some (b_id b2),
                                    l_pending_booking := None,
                                    l_internal_notes := append_note (l_internal_notes l) notes,
                                    l_last_activity_at := now\<rparr>)
               in case update_lead now columns l s2 of
                    Inl e \<Rightarrow> Inl e
                  | Inr (l2, s3) \<Rightarrow>
                      Inr (l2, if l_status l = LS_CONVERTED then s3
                               else write_lead_history (l_id l) (Some (l_status l)) LS_CONVERTED by
                                      (or_str notes (''Work order '' @ b_number b2 @ '' created.'')) s3))"

section \<open>Contacts and manual payments\<close>

definition record_lead_contact ::
  "timestamp \<Rightarrow> lead \<Rightarrow> nat option \<Rightarrow> string \<Rightarrow> request option \<Rightarrow> 'x leads_db_scheme \<Rightarrow>
     error + (lead \<times> 'x leads_db_scheme)" where
  "record_lead_contact now l by note rq s =
     (let admin_notes = (if note = '''' then l_admin_notes l else append_note (l_admin_notes l) note);
          columns = (\<lambda>x. x\<lparr>l_last_contacted_at := Some now, l_last_activity_at := now,
                           l_admin_notes := admin_notes\<rparr>)
      in case update_lead now columns l s of
           Inl e \<Rightarrow> Inl e
         | Inr (l2, s1) \<Rightarrow> Inr (l2, record_lead_activity (l_id l) LA_CALL_COMPLETED JNull JNull note by rq s1))"

text \<open>\<open>method\<close> is one of the choices, which the serializer has checked.\<close>

definition manual_methods :: "string list" where
  "manual_methods = [''MANUAL_CASH'', ''MANUAL_UPI'', ''MANUAL_CARD'', ''MANUAL_BANK_TRANSFER'']"

definition manually_paid :: "money \<Rightarrow> booking \<Rightarrow> booking" where
  "manually_paid amount b =
     (let paid = b_advance_paid b + amount; due = max 0 (b_total b - paid)
      in b\<lparr>b_advance_paid := paid, b_balance_due := due,
           b_payment_status := (if due = 0 then PS_PAID else PS_PARTIALLY_PAID)\<rparr>)"

definition record_manual_lead_payment ::
  "timestamp \<Rightarrow> lead \<Rightarrow> nat option \<Rightarrow> money \<Rightarrow> string \<Rightarrow> string \<Rightarrow> date \<Rightarrow> string \<Rightarrow> request option \<Rightarrow>
     'x leads_db_scheme \<Rightarrow> error + ((lead \<times> payment) \<times> 'x leads_db_scheme)" where
  "record_manual_lead_payment now l by amount method reference payment_date note rq s =
     (if method \<notin> set manual_methods then Inl (ValidationError ''Unsupported manual payment method.'')
      else if reference = '''' \<and> note = ''''
      then Inl (ValidationError ''Add a transaction reference or note.'')
      else if amount \<le> 0 then Inl (ValidationError ''Amount must be greater than zero.'')
      else case l_converted_booking l of
        None \<Rightarrow> Inl (ValidationError ''Manual payment requires a linked booking.'')
      | Some k \<Rightarrow>
          (case get_booking k s of
             None \<Rightarrow> Inl (DoesNotExist ''Booking'')
           | Some b \<Rightarrow>
               (case create_payment
                       ((blank_payment k)\<lparr>p_provider := OFFLINE, p_amount := amount,
                          p_type := BOOKING_ADVANCE, p_status := PR_SUCCESS, p_signature_verified := True,
                          p_payload := JObj [(''method'', JStr method), (''reference'', JStr reference),
                                             (''payment_date'', JStr (date_str payment_date)),
                                             (''note'', JStr note)],
                          p_key := ''lead-manual-'' @ nat_str (l_id l) @ ''-'' @ or_str reference (seconds_str now),
                          p_paid_at := Some now\<rparr>) s of
                  Inl e \<Rightarrow> Inl e
                | Inr (p, s1) \<Rightarrow>
                    let s2 = save_booking (manually_paid amount b) s1;
                        columns = (\<lambda>x. x\<lparr>l_payment := LP_PAID, l_funnel := LF_PAID, l_last_activity_at := now\<rparr>)
                    in (case update_lead now columns l s2 of
                          Inl e \<Rightarrow> Inl e
                        | Inr (l2, s3) \<Rightarrow>
                            Inr ((l2, p),
                                 record_lead_activity (l_id l) LA_MANUAL_PAYMENT_RECORDED
                                   (JObj [(''payment_status'', JStr (lead_payment_str (l_payment l))),
                                          (''funnel_status'', JStr (funnel_str (l_funnel l)))])
                                   (JObj [(''amount'', JStr (money_str amount)), (''method'', JStr method),
                                          (''payment_id'', JStr (nat_str (p_id p)))])
                                   (or_str note reference) by rq s3)))))"

section \<open>The lead views\<close>

text \<open>
  \<open>perform_create\<close>. The request is not one transaction: the customer and the profile stay when the
  lead is refused. \<open>data\<close> holds the fields that were sent.
\<close>

definition create_lead_view ::
  "timestamp \<Rightarrow> lead \<Rightarrow> nat option \<Rightarrow> request option \<Rightarrow> 'x leads_db_scheme \<Rightarrow>
     (error + lead) \<times> 'x leads_db_scheme" where
  "create_lead_view now data me rq s =
     (let (u, s1) = lead_customer (l_mobile data) s;
          s2 = lead_profile (u_id u) (l_customer_name data) s1
      in case save_lead now (data\<lparr>l_id := new_id s2, l_created_by := me, l_customer := Some (u_id u),
                                  l_link_provider_id := ''''\<rparr>)
                (bump_id s2) of
           Inl e \<Rightarrow> (Inl e, s2)
         | Inr (l, s3) \<Rightarrow>
             (Inr l, audit_event AA_LEAD_CREATED ''lead'' (nat_str (l_id l)) me rq
                       (JObj [(''source'', JStr (source_str (l_source l))),
                              (''status'', JStr (lead_status_str (l_status l)))])
                       (write_lead_history (l_id l) None (l_status l) me ''Lead created from admin API.'' s3)))"

text \<open>\<open>perform_update\<close>: a change of the status is written to the history and audited as such.\<close>

definition update_lead_view ::
  "timestamp \<Rightarrow> lead \<Rightarrow> nat option \<Rightarrow> request option \<Rightarrow> 'x leads_db_scheme \<Rightarrow>
     error + (lead \<times> 'x leads_db_scheme)" where
  "update_lead_view now data me rq s =
     (case get_lead (l_id data) s of
        None \<Rightarrow> Inl (ErrorResponse 404 ''Not found.'')
      | Some old \<Rightarrow>
          (case save_lead now (data\<lparr>l_created_by := l_created_by old,
                                    l_link_provider_id := l_link_provider_id old\<rparr>) s of
             Inl e \<Rightarrow> Inl e
           | Inr (l, s1) \<Rightarrow>
               if l_status old = l_status l
               then Inr (l, audit_event AA_LEAD_UPDATED ''lead'' (nat_str (l_id l)) me rq
                              (JObj [(''status'', JStr (lead_status_str (l_status l)))]) s1)
               else Inr (l, audit_event AA_LEAD_STATUS_CHANGED ''lead'' (nat_str (l_id l)) me rq
                              (JObj [(''status'', JStr (lead_status_str (l_status l))),
                                     (''from_status'', JStr (lead_status_str (l_status old)))])
                              (write_lead_history (l_id l) (Some (l_status old)) (l_status l) me
                                 (l_internal_notes l) s1))))"

definition convert_view ::
  "timestamp \<Rightarrow> nat \<Rightarrow> nat option \<Rightarrow> string \<Rightarrow> nat option \<Rightarrow> request option \<Rightarrow> 'x leads_db_scheme \<Rightarrow>
     error + (lead \<times> 'x leads_db_scheme)" where
  "convert_view now k booking_id notes me rq s =
     (case get_lead k s of
        None \<Rightarrow> Inl (ErrorResponse 404 ''Not found.'')
      | Some l \<Rightarrow>
          (case (case booking_id of None \<Rightarrow> Inr None
                                  | Some b \<Rightarrow> (case get_booking b s of
                                                 None \<Rightarrow> Inl (FieldError ''booking_id'' ''Booking was not found.'')
                                               | Some x \<Rightarrow> Inr (Some x))) of
             Inl e \<Rightarrow> Inl e
           | Inr bo \<Rightarrow>
               (case convert_lead_to_work_order now l me bo notes s of
                  Inl e \<Rightarrow> Inl e
                | Inr (l2, s1) \<Rightarrow>
                    Inr (l2, audit_event AA_LEAD_CONVERTED ''lead'' (nat_str (l_id l2)) me rq
                               (JObj [(''booking_id'', JStr (case l_converted_booking l2 of
                                                              None \<Rightarrow> ''None'' | Some b \<Rightarrow> nat_str b))]) s1))))"

text \<open>The serializer has checked \<open>slot\<close> against \<open>HH:MM\<close>.\<close>

definition schedule_view ::
  "timestamp \<Rightarrow> nat \<Rightarrow> date \<Rightarrow> string \<Rightarrow> 'x leads_db_scheme \<Rightarrow> error + (lead \<times> 'x leads_db_scheme)" where
  "schedule_view now k d slot s =
     (case get_lead k s of
        None \<Rightarrow> Inl (ErrorResponse 404 ''Not found.'')
      | Some l \<Rightarrow>
          if d < localdate now then Inl (ErrorResponse 400 ''Schedule date cannot be in the past.'')
          else update_lead now
                 (\<lambda>x. x\<lparr>l_preferred_date := Some d, l_preferred_slot := slot, l_last_activity_at := now\<rparr>) l s)"

definition reminder_notification ::
  "notification_channel \<Rightarrow> lead \<Rightarrow> string \<Rightarrow> nat \<Rightarrow> notification" where
  "reminder_notification channel l service_name k =
     \<lparr>n_id = k, n_recipient = l_customer l,
      n_booking = (case l_converted_booking l of Some b \<Rightarrow> Some b | None \<Rightarrow> l_pending_booking l),
      n_event = NE_BOOKING_RECEIVED, n_channel = channel, n_status = NS_QUEUED,
      n_title = ''Purple Squad service reminder'',
      n_message = ''Hello '' @ l_customer_name l @ '', Purple Squad is following up on your '' @
        service_name @ '' request.'',
      n_provider = '''', n_provider_message_id = '''', n_send_attempts = 0,
      n_payload = JObj [(''lead_id'', JStr (nat_str (l_id l))), (''mobile'', JStr (l_mobile l))],
      n_error_message = '''', n_sent_at = None\<rparr>"

definition send_reminder ::
  "string \<Rightarrow> provider \<Rightarrow> timestamp \<Rightarrow> nat \<Rightarrow> notification_channel \<Rightarrow> 'x leads_db_scheme \<Rightarrow>
     error + (lead \<times> 'x leads_db_scheme)" where
  "send_reminder pname provider now k channel s =
     (case get_lead k s of
        None \<Rightarrow> Inl (ErrorResponse 404 ''Not found.'')
      | Some l \<Rightarrow>
          let name = (case l_service l of
                        None \<Rightarrow> ''service''
                      | Some sv \<Rightarrow> (case get_service sv s of None \<Rightarrow> ''service'' | Some v \<Rightarrow> sv_name v));
              n = reminder_notification channel l name (new_id s)
          in Inr (l, snd (send_notification pname provider now False n (bump_id (insert_notification n s)))))"

text \<open>Two saves: the follow-up time stays when the second one is refused.\<close>

definition record_contact_view ::
  "timestamp \<Rightarrow> nat \<Rightarrow> string \<Rightarrow> timestamp option \<Rightarrow> nat option \<Rightarrow> request option \<Rightarrow> 'x leads_db_scheme \<Rightarrow>
     (error + lead) \<times> 'x leads_db_scheme" where
  "record_contact_view now k note follow_up me rq s =
     (case get_lead k s of
        None \<Rightarrow> (Inl (ErrorResponse 404 ''Not found.''), s)
      | Some l \<Rightarrow>
          (case (case follow_up of
                   None \<Rightarrow> Inr (l, s)
                 | Some t \<Rightarrow> update_lead now (\<lambda>x. x\<lparr>l_follow_up_at := Some t\<rparr>) l s) of
             Inl e \<Rightarrow> (Inl e, s)
           | Inr (l1, s1) \<Rightarrow>
               (case record_lead_contact now l1 me note rq s1 of
                  Inl e \<Rightarrow> (Inl e, s1)
                | Inr (l2, s2) \<Rightarrow> (Inr l2, s2))))"

text \<open>The counts of \<open>summary\<close>; the follow-ups that are due leave out the last four steps.\<close>

record lead_summary =
  su_all :: nat
  su_visited :: nat
  su_cart_added :: nat
  su_unpaid :: nat
  su_paid :: nat
  su_booked :: nat
  su_follow_ups_due :: nat

definition lead_summary_of :: "timestamp \<Rightarrow> lead list \<Rightarrow> lead_summary" where
  "lead_summary_of now ls =
     (let step = (\<lambda>f. count_rows (\<lambda>l. l_funnel l = f) ls) in
      \<lparr>su_all = length ls, su_visited = step LF_VISITED, su_cart_added = step LF_CART_ADDED,
       su_unpaid = step LF_UNPAID, su_paid = step LF_PAID, su_booked = step LF_BOOKED,
       su_follow_ups_due =
         count_rows (\<lambda>l. (case l_follow_up_at l of None \<Rightarrow> False | Some t \<Rightarrow> localdate t \<le> localdate now) \<and>
                         l_funnel l \<notin> {LF_PAID, LF_BOOKED, LF_CANCELLED, LF_LOST}) ls\<rparr>)"

text \<open>What \<open>LeadSerializer\<close> computes: subtotal, training fee, total.\<close>

definition lead_subtotal :: "lead \<Rightarrow> 'x catalogue_db_scheme \<Rightarrow> money" where
  "lead_subtotal l s =
     (case l_quoted l of
        Some q \<Rightarrow> q
      | None \<Rightarrow> (case l_service l of
                   None \<Rightarrow> 0
                 | Some sv \<Rightarrow> (case get_service sv s of None \<Rightarrow> 0 | Some v \<Rightarrow> effective_price v)))"

definition lead_training_fee :: "lead \<Rightarrow> 'x catalogue_db_scheme \<Rightarrow> money" where
  "lead_training_fee l s =
     (case l_service l of
        None \<Rightarrow> 0
      | Some sv \<Rightarrow> (case get_service sv s of None \<Rightarrow> 0 | Some v \<Rightarrow> sv_training_fee v))"

definition lead_total :: "lead \<Rightarrow> 'x catalogue_db_scheme \<Rightarrow> money" where
  "lead_total l s = lead_subtotal l s + lead_training_fee l s"

section \<open>Homepage banners\<close>

datatype banner_placement = PL_MAIN | PL_PROMOTIONAL_CAROUSEL | PL_CATEGORY | PL_SERVICE_PAGE

record banner =
  bn_id :: nat
  bn_title :: string
  bn_button_link :: string
  bn_placement :: banner_placement
  bn_order :: nat
  bn_starts_at :: "timestamp option"
  bn_ends_at :: "timestamp option"
  bn_active :: bool

definition banner_clean :: "banner \<Rightarrow> (string \<times> string) list" where
  "banner_clean b =
     (if (case (bn_starts_at b, bn_ends_at b) of (Some x, Some y) \<Rightarrow> y \<le> x | _ \<Rightarrow> False)
      then [(''ends_at'', ''End date must be after start date.'')]
      else if bn_button_link b \<noteq> '''' \<and>
              \<not> (starts_with ''/'' (bn_button_link b) \<or> starts_with ''https://'' (bn_button_link b) \<or>
                 starts_with ''http://'' (bn_button_link b))
      then [(''button_link'', ''Use an internal path or full URL.'')]
      else [])"

definition is_live :: "timestamp \<Rightarrow> banner \<Rightarrow> bool" where
  "is_live now b =
     (bn_active b \<and> (case bn_starts_at b of None \<Rightarrow> True | Some t \<Rightarrow> t \<le> now) \<and>
      (case bn_ends_at b of None \<Rightarrow> True | Some t \<Rightarrow> t \<ge> now))"

text \<open>The public list: rows are kept oldest first, and the newest comes first among equals.\<close>

definition public_banners :: "timestamp \<Rightarrow> banner_placement \<Rightarrow> banner list \<Rightarrow> banner list" where
  "public_banners now placement bs =
     sort_key bn_order (rev (filter (\<lambda>b. bn_placement b = placement \<and> is_live now b) bs))"

section \<open>Lemmas: what the lead services write\<close>

lemma update_lead_Inr:
  assumes "update_lead now columns l s = Inr (l2, s')"
  shows "l2 = (columns l)\<lparr>l_updated_at := now\<rparr> \<and> lead_booking_ok l2 \<and> lead_frame s s' \<and>
         (\<exists>row. get_lead (l_id l) s = Some row) \<and>
         (\<forall>row. get_lead (l_id l) s = Some row \<and> l_id (columns row) = l_id row \<longrightarrow>
            get_lead (l_id l) s' = Some ((columns row)\<lparr>l_updated_at := now\<rparr>))"
proof -
  have clean: "lead_full_clean ((columns l)\<lparr>l_updated_at := now\<rparr>) s = []"
    and l2: "l2 = (columns l)\<lparr>l_updated_at := now\<rparr>"
    and found: "\<exists>row. get_lead (l_id l) s = Some row"
    and s': "\<And>row. get_lead (l_id l) s = Some row \<Longrightarrow> s' = save_lead_row ((columns row)\<lparr>l_updated_at := now\<rparr>) s"
    using assms by (auto simp: update_lead_def Let_def split: list.splits option.splits)
  have "get_lead (l_id l) s' = Some ((columns row)\<lparr>l_updated_at := now\<rparr>)"
    if "get_lead (l_id l) s = Some row" "l_id (columns row) = l_id row" for row
    using that s' lead_table.get_key [OF that(1)] lead_table.get_save_same [of "(columns row)\<lparr>l_updated_at := now\<rparr>" s row]
    by simp
  moreover have "lead_frame s s'"
    using found s' by (auto simp: lead_frame_def save_lead_row_def)
  ultimately show ?thesis using clean l2 found lead_clean_Nil by blast
qed

lemma confirm_work_order_frame:
  assumes "confirm_work_order b by notes s = (b2, s')"
  shows "b2 = b\<lparr>b_manual := True, b_status := BS_CONFIRMED\<rparr> \<and>
         bookings s' = save_row b_id b2 (bookings s) \<and> payments s' = payments s \<and>
         (get_booking (b_id b) s \<noteq> None \<longrightarrow> get_booking (b_id b) s' = Some b2)"
  using assms
  by (auto simp: confirm_work_order_def Let_def write_status_history_def save_booking_def bump_id_def get_booking_def
      table_simps)

text \<open>The booking made for a lead is a new row; the quote changes its amounts, not its key.\<close>

lemma booking_from_lead_Inr:
  assumes "booking_from_lead now l notes s = Inr (b, s')"
  shows "get_booking (b_id b) s' \<noteq> None \<and> b_status b = BS_PENDING_PAYMENT \<and> b \<in> set (bookings s')"
proof -
  obtain u sv a sl rq t where "create_booking now u sv a sl rq t = Inr (b, s')"
    using assms
    by (auto simp: booking_from_lead_def Let_def split: option.splits if_splits sum.splits prod.splits)
  then have "bookings s' = bookings t @ [b]" and "b_status b = BS_PENDING_PAYMENT"
    using create_booking_Inr by (blast, fastforce simp: new_booking_def dest: create_booking_Inr)
  then show ?thesis by (auto simp: get_booking_def find_row_None_iff)
qed

lemma quoted_booking_fields [simp]:
  "b_id (quoted_booking l fee b) = b_id b"
  "b_status (quoted_booking l fee b) = b_status b"
  "b_customer (quoted_booking l fee b) = b_customer b"
  by (simp_all add: quoted_booking_def split: option.split)

text \<open>The booking a lead is converted into, before it is confirmed.\<close>

lemma convert_lead_Inr:
  assumes converted: "convert_lead_to_work_order now l by bo notes s = Inr (l2, s')"
    and fresh: "\<not> (l_status l = LS_CONVERTED \<and> l_converted_booking l \<noteq> None)"
  obtains b s1 fee b2 s2 where
    "case bo of Some x \<Rightarrow> b = x \<and> s1 = s
     | None \<Rightarrow> \<exists>x. booking_from_lead now l notes s = Inr (x, s1) \<and> b = quoted_booking l fee x"
    and "confirm_work_order b by notes s1 = (b2, s2)" and "l_customer l2 = Some (b_customer b2)"
    and "l_status l2 = LS_CONVERTED" and "l_funnel l2 = LF_BOOKED" and "l_converted_booking l2 = Some (b_id b2)"
    and "l_pending_booking l2 = None" and "l_id l2 = l_id l"
    and "bookings s' = bookings s2" and "payments s' = payments s2"
proof -
  define fee where "fee t = (case l_service l of None \<Rightarrow> 0
     | Some sv \<Rightarrow> (case get_service sv t of None \<Rightarrow> 0 | Some v \<Rightarrow> sv_training_fee v))" for t :: "'a leads_db_scheme"
  define made where "made = (case bo of Some b \<Rightarrow> Inr (b, s)
     | None \<Rightarrow> (case booking_from_lead now l notes s of Inl e \<Rightarrow> Inl e
                | Inr (b, s1) \<Rightarrow> Inr (quoted_booking l (fee s1) b, s1)))"
  have step: "convert_lead_to_work_order now l by bo notes s =
      (case made of Inl e \<Rightarrow> Inl e
       | Inr (b, s1) \<Rightarrow>
           let (b2, s2) = confirm_work_order b by notes s1;
               columns = (\<lambda>x. x\<lparr>l_customer := Some (b_customer b2), l_status := LS_CONVERTED,
                                l_funnel := LF_BOOKED, l_converted_booking := Some (b_id b2),
                                l_pending_booking := None,
                                l_internal_notes := append_note (l_internal_notes l) notes,
                                l_last_activity_at := now\<rparr>)
           in case update_lead now columns l s2 of
                Inl e \<Rightarrow> Inl e
              | Inr (l2, s3) \<Rightarrow>
                  Inr (l2, if l_status l = LS_CONVERTED then s3
                           else write_lead_history (l_id l) (Some (l_status l)) LS_CONVERTED by
                                  (or_str notes (''Work order '' @ b_number b2 @ '' created.'')) s3))"
    unfolding convert_lead_to_work_order_def made_def fee_def Let_def if_not_P [OF fresh] ..
  obtain b s1 where made: "made = Inr (b, s1)"
    using converted step by (cases made) auto
  obtain b2 s2 where confirm: "confirm_work_order b by notes s1 = (b2, s2)" by (metis surj_pair)
  let ?columns = "\<lambda>x. x\<lparr>l_customer := Some (b_customer b2), l_status := LS_CONVERTED, l_funnel := LF_BOOKED,
     l_converted_booking := Some (b_id b2), l_pending_booking := None,
     l_internal_notes := append_note (l_internal_notes l) notes, l_last_activity_at := now\<rparr>"
  obtain s3 where up: "update_lead now ?columns l s2 = Inr (l2, s3)"
    and s': "s' = (if l_status l = LS_CONVERTED then s3
        else write_lead_history (l_id l) (Some (l_status l)) LS_CONVERTED by
               (or_str notes (''Work order '' @ b_number b2 @ '' created.'')) s3)"
    using converted unfolding step made sum.case prod.case confirm Let_def
    by (cases "update_lead now ?columns l s2") auto
  note u = update_lead_Inr [OF up]
  have "lead_frame s3 s'" unfolding s' by (simp add: write_lead_history_frame)
  with u have "bookings s' = bookings s2" "payments s' = payments s2" by (simp_all add: lead_frame_def)
  moreover have "l_customer l2 = Some (b_customer b2)" "l_status l2 = LS_CONVERTED" "l_funnel l2 = LF_BOOKED"
    "l_converted_booking l2 = Some (b_id b2)" "l_pending_booking l2 = None" "l_id l2 = l_id l"
    using u by simp_all
  moreover have "case bo of Some x \<Rightarrow> b = x \<and> s1 = s
     | None \<Rightarrow> \<exists>x. booking_from_lead now l notes s = Inr (x, s1) \<and> b = quoted_booking l (fee s1) x"
    using made by (auto simp: made_def split: option.splits sum.splits)
  ultimately show thesis using confirm that by blast
qed

section \<open>Properties\<close>

text \<open>C18: A converted lead has its work order: when a lead is converted it points to a stored booking that
  is confirmed and marked as manual, for the booking's customer; with a quote the new booking's total and
  balance are the quote plus the training fee. A booking that was given is confirmed whatever its status
  was, with everything else kept. Converting the lead again answers with it and changes nothing.\<close>

theorem lead_becomes_work_order:
  assumes converted: "convert_lead_to_work_order now l by bo notes s = Inr (l2, s')"
    and fresh: "\<not> (l_status l = LS_CONVERTED \<and> l_converted_booking l \<noteq> None)"
    and known: "\<forall>x. bo = Some x \<longrightarrow> get_booking (b_id x) s = Some x"
  shows "\<exists>b. l_status l2 = LS_CONVERTED \<and> l_converted_booking l2 = Some (b_id b) \<and>
           l_customer l2 = Some (b_customer b) \<and> get_booking (b_id b) s' = Some b \<and>
           b_status b = BS_CONFIRMED \<and> b_manual b \<and>
           (\<forall>x. bo = Some x \<longrightarrow> b = x\<lparr>b_manual := True, b_status := BS_CONFIRMED\<rparr>) \<and>
           (bo = None \<longrightarrow> (\<forall>q. l_quoted l = Some q \<longrightarrow>
              b_subtotal b = q \<and> b_total b = q + b_training_fee b \<and> b_balance_due b = b_total b)) \<and>
           (\<forall>now2 by2 bo2 notes2. convert_lead_to_work_order now2 l2 by2 bo2 notes2 s' = Inr (l2, s'))"
proof (rule convert_lead_Inr [OF converted fresh])
  fix b s1 fee b2 s2
  assume made: "case bo of Some x \<Rightarrow> b = x \<and> s1 = s
     | None \<Rightarrow> \<exists>x. booking_from_lead now l notes s = Inr (x, s1) \<and> b = quoted_booking l fee x"
    and confirm: "confirm_work_order b by notes s1 = (b2, s2)"
    and l2: "l_customer l2 = Some (b_customer b2)" "l_status l2 = LS_CONVERTED" "l_converted_booking l2 = Some (b_id b2)"
    and s': "bookings s' = bookings s2"
  note c = confirm_work_order_frame [OF confirm]
  have "get_booking (b_id b) s1 \<noteq> None"
  proof (cases bo)
    case None
    with made booking_from_lead_Inr show ?thesis by fastforce
  qed (use made known in simp)
  with c have "get_booking (b_id b2) s2 = Some b2" by (metis booking.select_convs(1) booking_table.get_key)
  with s' have "get_booking (b_id b2) s' = Some b2" by (simp add: get_booking_def)
  moreover have "convert_lead_to_work_order now2 l2 by2 bo2 notes2 s' = Inr (l2, s')" for now2 by2 bo2 notes2
    using l2 by (simp add: convert_lead_to_work_order_def)
  moreover have "b_subtotal b2 = q \<and> b_total b2 = q + b_training_fee b2 \<and> b_balance_due b2 = b_total b2"
    if "bo = None" "l_quoted l = Some q" for q
    using that made c by (auto simp: quoted_booking_def)
  moreover have "b2 = x\<lparr>b_manual := True, b_status := BS_CONFIRMED\<rparr>" if "bo = Some x" for x
    using that made c by simp
  ultimately show ?thesis using l2 c by (intro exI [of _ b2]) auto
qed

theorem lead_becomes_work_order_witness:
  "\<exists>l2 s'. convert_lead_to_work_order 5 (sample_lead 41) (Some 2) (Some (sample_booking 7 BS_CANCELLED)) ''ok''
             (sample_leads_db [] [sample_booking 7 BS_CANCELLED] [] [sample_lead 41]) = Inr (l2, s') \<and>
           l_converted_booking l2 = Some 7 \<and>
           get_booking 7 s' = Some ((sample_booking 7 BS_CANCELLED)\<lparr>b_manual := True, b_status := BS_CONFIRMED\<rparr>)"
proof -
  let ?b = "sample_booking 7 BS_CANCELLED"
  let ?s = "sample_leads_db [] [?b] [] [sample_lead 41]"
  let ?r = "convert_lead_to_work_order 5 (sample_lead 41) (Some 2) (Some ?b) ''ok'' ?s"
  have "\<not> isl ?r" by code_simp
  then obtain l2 s' where s': "?r = Inr (l2, s')" by (blast dest: result_cases)
  have fresh: "\<not> (l_status (sample_lead 41) = LS_CONVERTED \<and> l_converted_booking (sample_lead 41) \<noteq> None)"
    and "get_booking (b_id ?b) ?s = Some ?b" by code_simp+
  then have known: "\<forall>x. Some ?b = Some x \<longrightarrow> get_booking (b_id x) ?s = Some x" by simp
  have "b_id (?b\<lparr>b_manual := True, b_status := BS_CONFIRMED\<rparr>) = 7" by (simp add: sample_booking_def)
  with lead_becomes_work_order [OF s' fresh known] s' show ?thesis by auto
qed

text \<open>A manual payment is recorded once, and never beside an advance: an accepted call means that the
  booking had no open or successful advance; it adds exactly one successful offline payment of the positive
  amount, marks the booking paid exactly when the advance covers the total, and keeps the table's
  constraints. Where an order for the advance is open, or an advance was paid, the call fails on the
  table's uniqueness.\<close>

theorem manual_payment_excludes_advance:
  assumes ok: "payments_ok s" and b: "l_converted_booking l = Some k" "get_booking k s = Some b"
  shows "(\<forall>l2 p s'. record_manual_lead_payment now l by amount method ref d note rq s = Inr ((l2, p), s') \<longrightarrow>
            0 < amount \<and> payments s' = payments s @ [p] \<and> p_status p = PR_SUCCESS \<and> p_provider p = OFFLINE \<and>
            p_amount p = amount \<and> payments_ok s' \<and>
            (\<forall>q\<in>set (payments s). \<not> (active_advance q \<and> p_booking q = k)) \<and>
            get_booking k s' = Some (manually_paid amount b) \<and>
            (b_payment_status (manually_paid amount b) = PS_PAID \<longleftrightarrow> b_total b \<le> b_advance_paid b + amount)) \<and>
         ((\<exists>q\<in>set (payments s). active_advance q \<and> p_booking q = k) \<and> method \<in> set manual_methods \<and>
            (ref \<noteq> '''' \<or> note \<noteq> '''') \<and> 0 < amount \<longrightarrow>
            (\<exists>c. record_manual_lead_payment now l by amount method ref d note rq s = Inl (IntegrityError c)))"
proof -
  define data where "data = (blank_payment k)\<lparr>p_provider := OFFLINE, p_amount := amount,
      p_type := BOOKING_ADVANCE, p_status := PR_SUCCESS, p_signature_verified := True,
      p_payload := JObj [(''method'', JStr method), (''reference'', JStr ref),
                         (''payment_date'', JStr (date_str d)), (''note'', JStr note)],
      p_key := ''lead-manual-'' @ nat_str (l_id l) @ ''-'' @ or_str ref (seconds_str now), p_paid_at := Some now\<rparr>"
  have data: "active_advance (data\<lparr>p_id := x\<rparr>)" "p_booking (data\<lparr>p_id := x\<rparr>) = k" for x
    by (simp_all add: data_def active_advance_def blank_payment_def)
  have fresh: "new_id s \<noteq> p_id q" if "q \<in> set (payments s)" for q
    using ok that by (auto simp: payments_ok_iff new_id_def)
  have refused: "\<exists>c. create_payment data s = Inl (IntegrityError c)"
    if q: "q \<in> set (payments s)" "active_advance q" "p_booking q = k" for q
  proof -
    have "payment_conflict (data\<lparr>p_id := new_id s\<rparr>) q \<noteq> None"
      using q fresh data by (simp add: payment_conflict_None)
    then have "first_conflict (data\<lparr>p_id := new_id s\<rparr>) (payments s) \<noteq> None"
      using q(1) by (auto simp: first_conflict_None)
    then show ?thesis by (auto simp: create_payment_def Let_def)
  qed
  have accepted: "0 < amount \<and> (\<exists>s1. create_payment data s = Inr (p, s1) \<and>
      lead_frame (save_booking (manually_paid amount b) s1) s')"
    if "record_manual_lead_payment now l by amount method ref d note rq s = Inr ((l2, p), s')" for l2 p s'
  proof -
    from that obtain s1 s3 columns act prev new words where pos: "0 < amount"
      and s1: "create_payment data s = Inr (p, s1)"
      and up: "update_lead now columns l (save_booking (manually_paid amount b) s1) = Inr (l2, s3)"
      and s': "s' = record_lead_activity (l_id l) act prev new words by rq s3"
      by (auto simp: record_manual_lead_payment_def b data_def Let_def split: if_splits sum.splits)
    have "lead_frame (save_booking (manually_paid amount b) s1) s'"
      using update_lead_Inr [OF up] record_lead_activity_frame [of s3] s' lead_frame_trans by blast
    with pos s1 show ?thesis by blast
  qed
  have stored: "get_booking k (save_booking (manually_paid amount b) s1) = Some (manually_paid amount b)"
    if "bookings s1 = bookings s" for s1 :: "'a leads_db_scheme"
    using that b(2) booking_table.get_key [OF b(2)]
    by (auto simp: get_booking_def table_simps manually_paid_def Let_def)
  have paid: "b_payment_status (manually_paid amount b) = PS_PAID \<longleftrightarrow> b_total b \<le> b_advance_paid b + amount"
    by (auto simp: manually_paid_def Let_def)
  show ?thesis
  proof (intro conjI allI impI)
    fix l2 p s'
    assume "record_manual_lead_payment now l by amount method ref d note rq s = Inr ((l2, p), s')"
    from accepted [OF this] obtain s1 where s1: "0 < amount" "create_payment data s = Inr (p, s1)"
      "lead_frame (save_booking (manually_paid amount b) s1) s'" by blast
    note c = create_payment_Inr [OF s1(2)]
    have frame: "payments s' = payments s1" "bookings s' = bookings (save_booking (manually_paid amount b) s1)"
      "next_id s1 \<le> next_id s'"
      using s1(3) by (simp_all add: lead_frame_def)
    have "bookings s1 = bookings s" using c by (auto simp: bump_id_def insert_payment_row_def)
    from stored [OF this] have bk: "get_booking k s' = Some (manually_paid amount b)"
      unfolding get_booking_def frame(2) .
    have rows: "payments s' = payments s @ [p]" using c frame(1) by metis
    have "payments_ok s1" by (rule create_payment_ok [OF s1(2) ok])
    then have "payments_ok s'"
      using frame by (rule_tac payments_ok_more_ids)
    moreover have "p_status p = PR_SUCCESS" "p_provider p = OFFLINE" "p_amount p = amount"
      using c by (simp_all add: data_def blank_payment_def)
    moreover have "\<not> (active_advance q \<and> p_booking q = k)" if "q \<in> set (payments s)" for q
      using refused [OF that] s1(2) by auto
    ultimately show "0 < amount" "payments s' = payments s @ [p]" "p_status p = PR_SUCCESS" "p_provider p = OFFLINE"
      "p_amount p = amount" "payments_ok s'"
      "\<forall>q\<in>set (payments s). \<not> (active_advance q \<and> p_booking q = k)"
      "get_booking k s' = Some (manually_paid amount b)"
      "b_payment_status (manually_paid amount b) = PS_PAID \<longleftrightarrow> b_total b \<le> b_advance_paid b + amount"
      using s1(1) rows bk paid by blast+
  next
    assume a: "(\<exists>q\<in>set (payments s). active_advance q \<and> p_booking q = k) \<and> method \<in> set manual_methods \<and>
            (ref \<noteq> '''' \<or> note \<noteq> '''') \<and> 0 < amount"
    then obtain c where "create_payment data s = Inl (IntegrityError c)" using refused by blast
    with a b show "\<exists>c. record_manual_lead_payment now l by amount method ref d note rq s = Inl (IntegrityError c)"
      by (auto simp: record_manual_lead_payment_def data_def)
  qed
qed

theorem manual_payment_excludes_advance_witness:
  "\<exists>c. record_manual_lead_payment 5 ((sample_lead 41)\<lparr>l_status := LS_CONVERTED, l_converted_booking := Some 7\<rparr>)
     (Some 2) 90000 ''MANUAL_CASH'' ''r-1'' 20000 '''' None
     (sample_leads_db [] [sample_booking 7 BS_CONFIRMED] [sample_payment 31 PR_CREATED] []) = Inl (IntegrityError c)"
proof -
  let ?s = "sample_leads_db [] [sample_booking 7 BS_CONFIRMED] [sample_payment 31 PR_CREATED] []"
  let ?l = "(sample_lead 41)\<lparr>l_status := LS_CONVERTED, l_converted_booking := Some 7\<rparr>"
  have ok: "payments_ok ?s" "l_converted_booking ?l = Some 7" "get_booking 7 ?s = Some (sample_booking 7 BS_CONFIRMED)"
    by code_simp+
  have "list_ex (\<lambda>q. active_advance q \<and> p_booking q = 7) (payments ?s)" "''MANUAL_CASH'' \<in> set manual_methods"
    by code_simp+
  then have "(\<exists>q\<in>set (payments ?s). active_advance q \<and> p_booking q = 7) \<and> ''MANUAL_CASH'' \<in> set manual_methods \<and>
      (''r-1'' \<noteq> '''' \<or> '''' \<noteq> '''') \<and> (0::int) < 90000" by (simp add: list_ex_iff)
  with manual_payment_excludes_advance [OF ok, of 5 "Some 2" 90000 "''MANUAL_CASH''" "''r-1''" 20000 "''''" None]
  show ?thesis by blast
qed

section \<open>The time of a lead's appointment\<close>

lemma no_colon_digits: "list_all is_digit x \<Longrightarrow> \<forall>c\<in>set x. c \<noteq> CHR '':''"
proof -
  have "\<not> is_digit CHR '':''" by (simp add: is_digit_def)
  then show "list_all is_digit x \<Longrightarrow> \<forall>c\<in>set x. c \<noteq> CHR '':''" unfolding list_all_iff by metis
qed

lemma clock_digits: "list_all is_digit (pad_left 2 CHR ''0'' (nat_str n))"
  by (rule digits_pad [OF nat_str_digits])

lemma parse_hhmm_colon:
  assumes "list_all is_digit x"
  shows "parse_hhmm (x @ CHR '':'' # y) =
    (case (parse_clock_part 24 x, parse_clock_part 60 y) of
       (Some h, Some m) \<Rightarrow> Some (int h * hour_us + int m * minute_us) | _ \<Rightarrow> None)"
proof -
  have "takeWhile (\<lambda>c. c \<noteq> CHR '':'') (x @ CHR '':'' # y) = x"
    "dropWhile (\<lambda>c. c \<noteq> CHR '':'') (x @ CHR '':'' # y) = CHR '':'' # y"
    using no_colon_digits [OF assms] by (simp_all add: takeWhile_append2 dropWhile_append2)
  then show ?thesis by (simp add: parse_hhmm_def)
qed

lemma parse_clock_pad:
  assumes "n < limit" and "limit \<le> 100"
  shows "parse_clock_part limit (pad_left 2 CHR ''0'' (nat_str n)) = Some n"
proof -
  have "length (nat_str n) \<le> 2" using assms length_nat_str_le [of n 2] by simp
  moreover have "pad_left 2 CHR ''0'' (nat_str n) \<noteq> ''''" by (simp add: pad_left_def)
  ultimately show ?thesis using assms(1) clock_digits [of n] by (simp add: parse_clock_part_def)
qed

text \<open>The clock text of a lead's appointment round trips: the text of a time of day is read back as
  that time to the minute. The text that linking a booking writes into the lead, from and to, is never
  read: making a work order from such a lead fails on its slot.\<close>

theorem appointment_time_round_trip:
  assumes "0 \<le> t" and "t < day_us"
  shows "parse_hhmm (hhmm_str t) = Some (t - t mod minute_us) \<and>
         lead_slot area d (slot_text sl) s = Inl (ValueError ''time data does not match format'')"
proof
  let ?h = "nat (t div hour_us)" and ?m = "nat ((t mod hour_us) div minute_us)"
  have "?h < 24" "?m < 60" using assms by (simp_all add: hour_us_def minute_us_def day_us_def)
  moreover have "t div hour_us * hour_us + t mod hour_us div minute_us * minute_us = t - t mod minute_us"
  proof -
    have "t mod hour_us mod minute_us = t mod minute_us"
      by (rule mod_mod_cancel) (simp add: hour_us_def minute_us_def)
    with minus_mod_eq_div_mult [of "t mod hour_us" minute_us] minus_mod_eq_div_mult [of t hour_us] show ?thesis
      by simp
  qed
  moreover have "0 \<le> t div hour_us" "0 \<le> t mod hour_us div minute_us"
    using assms(1) by (simp_all add: hour_us_def minute_us_def pos_imp_zdiv_nonneg_iff)
  ultimately show "parse_hhmm (hhmm_str t) = Some (t - t mod minute_us)"
    using clock_digits by (simp add: hhmm_str_def parse_hhmm_colon parse_clock_pad)
  have "parse_clock_part 60 (pad_left 2 CHR ''0'' x @ CHR ''-'' # y) = None" for x y
    by (simp add: parse_clock_part_def is_digit_def)
  then show "lead_slot area d (slot_text sl) s = Inl (ValueError ''time data does not match format'')"
    using clock_digits
    by (simp add: lead_slot_def slot_text_def hhmm_str_def parse_hhmm_colon split: option.split)
qed

theorem appointment_time_round_trip_witness:
  "parse_hhmm (hhmm_str (9 * hour_us + 5 * minute_us + 7)) = Some (9 * hour_us + 5 * minute_us)"
proof -
  let ?t = "9 * hour_us + 5 * minute_us + 7"
  have "0 \<le> ?t" "?t < day_us" "?t - ?t mod minute_us = 9 * hour_us + 5 * minute_us"
    by (simp_all add: hour_us_def minute_us_def day_us_def)
  with conjunct1 [OF appointment_time_round_trip [of ?t 0 0 "sample_slot 21" sample_scheduling_db]] show ?thesis by simp
qed

end
