(* ===== verification/Payment_Life.thy ===== *)
theory Payment_Life
  imports Operations
begin

text \<open>
  The life of the payments table over every service that writes it: the orders, verifications, webhook
  deliveries, refunds and reconciliations of \<open>apps/payments\<close>, the collection of a balance in
  \<open>apps/bookings\<close> and the manual payments of \<open>apps/operations\<close>. The steps are whole requests, accepted
  or refused, and the invariant is written out here, not with the check that a write makes.
\<close>

section \<open>The ledger\<close>

text \<open>
  What two different rows have apart: each reference of the gateway, the one advance of a booking that
  is open or paid, and a key that is not blank.
\<close>

definition rows_apart :: "payment \<Rightarrow> payment \<Rightarrow> bool" where
  "rows_apart p q =
     ((p_order_id p = None \<or> p_order_id p \<noteq> p_order_id q) \<and>
      (p_payment_id p = None \<or> p_payment_id p \<noteq> p_payment_id q) \<and>
      (p_refund_id p = None \<or> p_refund_id p \<noteq> p_refund_id q) \<and>
      \<not> (p_booking p = p_booking q \<and> p_type p = BOOKING_ADVANCE \<and> p_type q = BOOKING_ADVANCE \<and>
         p_status p \<in> {PR_CREATED, PR_PENDING, PR_SUCCESS} \<and> p_status q \<in> {PR_CREATED, PR_PENDING, PR_SUCCESS}) \<and>
      (p_key p = '''' \<or> p_key p \<noteq> p_key q \<or> p_booking p \<noteq> p_booking q \<or> p_type p \<noteq> p_type q))"

text \<open>
  What a row is by itself and with its parent: a refund belongs to a payment of the same booking that is
  not a refund, and has no order or payment reference of its own; any other row has no parent and no refund
  reference, and if it went through the gateway and is successful, its signature was verified.
\<close>

definition row_sound :: "payment list \<Rightarrow> payment \<Rightarrow> bool" where
  "row_sound rows p =
     (if p_type p = REFUND
      then p_order_id p = None \<and> p_payment_id p = None \<and>
           list_ex (\<lambda>q. p_parent p = Some (p_id q) \<and> p_type q \<noteq> REFUND \<and> p_booking q = p_booking p) rows
      else p_refund_id p = None \<and> p_parent p = None \<and>
           (p_provider p = RAZORPAY \<and> p_status p = PR_SUCCESS \<longrightarrow>
            p_signature_verified p \<and> p_payment_id p \<noteq> None \<and> p_paid_at p \<noteq> None))"

definition ledger_ok :: "'x payments_db_scheme \<Rightarrow> bool" where
  "ledger_ok s =
     (unique_rows p_id (payments s) \<and> list_all (\<lambda>p. p_id p < next_id s) (payments s) \<and>
      list_all (\<lambda>p. list_all (\<lambda>q. p_id p = p_id q \<or> rows_apart p q) (payments s)) (payments s) \<and>
      list_all (row_sound (payments s)) (payments s))"

text \<open>What no service changes of a row: what was paid, for what, through whom, under which key.\<close>

definition revised :: "payment \<Rightarrow> payment \<Rightarrow> bool" where
  "revised p q =
     (p_id q = p_id p \<and> p_booking q = p_booking p \<and> p_type q = p_type p \<and> p_amount q = p_amount p \<and>
      p_currency q = p_currency p \<and> p_provider q = p_provider p \<and> p_order_id q = p_order_id p \<and>
      p_refund_id q = p_refund_id p \<and> p_parent q = p_parent p \<and> p_key q = p_key p)"

section \<open>Requests\<close>

text \<open>The secrets and libraries of a deployment.\<close>

record pay_world =
  pw_mac :: mac
  pw_sha :: "string \<Rightarrow> string"
  pw_parse :: "string \<Rightarrow> json option"
  pw_key_id :: string
  pw_key_secret :: string
  pw_webhook_secret :: string

datatype payment_call =
    Open_Order gateway nat nat string
  | Verify timestamp string string string "nat option" json
  | Deliver timestamp string string
  | Refund gateway timestamp nat money string nat string
  | Reconcile gateway timestamp nat
  | Reconcile_Pending gateway timestamp
  | Balance timestamp nat money string "nat option" string
  | Manual timestamp lead "nat option" money string string date string "request option"

text \<open>The database a request leaves, whether it was accepted or refused.\<close>

fun pay :: "pay_world \<Rightarrow> payment_call \<Rightarrow> 'x leads_db_scheme \<Rightarrow> 'x leads_db_scheme" where
  "pay w (Open_Order gw k me key) s =
     snd (atomic (create_advance_payment_order gw (pw_key_id w) k me key) s)"
| "pay w (Verify now oid pid sg me payload) s =
     snd (verify_razorpay_payment (pw_mac w) (pw_key_secret w) now oid pid sg me payload s)"
| "pay w (Deliver now body sg) s =
     snd (process_razorpay_webhook (pw_mac w) (pw_sha w) (pw_parse w) (pw_webhook_secret w) (pw_key_secret w)
            now body sg s)"
| "pay w (Refund gw now pid amount key by reason) s =
     snd (atomic (create_refund gw (pw_sha w) now pid amount key by reason) s)"
| "pay w (Reconcile gw now rid) s = snd (atomic (reconcile_refund gw now rid) s)"
| "pay w (Reconcile_Pending gw now) s = snd (reconcile_pending_refunds gw now s)"
| "pay w (Balance now k amount method by notes) s =
     snd (atomic (record_balance_collection now k amount method by notes) s)"
| "pay w (Manual now l by amount method ref d note rq) s =
     snd (atomic (record_manual_lead_payment now l by amount method ref d note rq) s)"

inductive paying :: "pay_world \<Rightarrow> 'x leads_db_scheme \<Rightarrow> 'x leads_db_scheme \<Rightarrow> bool"
  for w :: pay_world and s :: "'x leads_db_scheme" where
  paying_start: "paying w s s"
| paying_step: "paying w s t \<Longrightarrow> paying w s (pay w c t)"

section \<open>Lemmas: writing the ledger\<close>

lemma rows_apart_conflict: "payment_conflict p q = None \<longleftrightarrow> p_id p = p_id q \<or> rows_apart p q"
  by (auto simp: payment_conflict_None rows_apart_def same_reference_def active_advance_def)

lemma ledger_ok_iff:
  "ledger_ok s \<longleftrightarrow> payments_ok s \<and> (\<forall>p\<in>set (payments s). row_sound (payments s) p)"
  by (auto simp: ledger_ok_def payments_ok_iff list_all_iff rows_apart_conflict)

lemma revised_refl [simp]: "revised p p"
  by (simp add: revised_def)

lemma row_sound_append: "row_sound rows p \<Longrightarrow> row_sound (rows @ xs) p"
  by (auto simp: row_sound_def)

lemma row_sound_save:
  assumes "row_sound rows p" and "x \<in> set rows" and "revised x q" and "unique_rows p_id rows"
  shows "row_sound (save_row p_id q rows) p"
proof (cases "p_type p = REFUND")
  case True
  with assms(1) obtain y where y: "y \<in> set rows" "p_parent p = Some (p_id y)" "p_type y \<noteq> REFUND"
    "p_booking y = p_booking p" by (auto simp: row_sound_def list_ex_iff)
  have "\<exists>z\<in>set (save_row p_id q rows). p_id z = p_id y \<and> p_type z = p_type y \<and> p_booking z = p_booking y"
  proof (cases "p_id y = p_id q")
    case True
    with assms(2,3,4) y(1) have "y = x" by (auto simp: revised_def unique_rows_def distinct_map dest: inj_onD)
    with assms(2,3) show ?thesis by (auto simp: save_row_def revised_def intro!: bexI [of _ q])
  next
    case False
    with y(1) show ?thesis by (auto simp: save_row_def)
  qed
  then have "\<exists>z\<in>set (save_row p_id q rows). p_parent p = Some (p_id z) \<and> p_type z \<noteq> REFUND \<and>
      p_booking z = p_booking p"
    using y(2-4) by metis
  with True assms(1) show ?thesis by (simp add: row_sound_def list_ex_iff)
qed (use assms(1) in \<open>simp add: row_sound_def\<close>)

text \<open>A part of a request: it keeps the invariant and every row.\<close>

definition ledger_step :: "'x payments_db_scheme \<Rightarrow> 'x payments_db_scheme \<Rightarrow> bool" where
  "ledger_step s t =
     (ledger_ok s \<longrightarrow> ledger_ok t \<and> (\<forall>p\<in>set (payments s). \<exists>q\<in>set (payments t). revised p q))"

lemma ledger_step_refl [simp]: "ledger_step s s"
  by (auto simp: ledger_step_def intro: revised_refl)

lemma ledger_step_trans: "ledger_step s t \<Longrightarrow> ledger_step t u \<Longrightarrow> ledger_step s u"
  unfolding ledger_step_def revised_def by (metis (no_types, lifting))

lemma ledger_step_cong: "payments t = payments s \<Longrightarrow> next_id s \<le> next_id t \<Longrightarrow> ledger_step s t"
  using payments_ok_more_ids [of s t] by (auto simp: ledger_step_def ledger_ok_iff intro: revised_refl)

lemma create_ledger:
  assumes "create_payment data s = Inr (p, t)" and "row_sound (payments s) (data\<lparr>p_id := new_id s\<rparr>)"
  shows "ledger_step s t"
proof -
  note c = create_payment_Inr [OF assms(1)]
  with assms(2) create_payment_ok [OF assms(1)] row_sound_append show ?thesis
    unfolding ledger_step_def ledger_ok_iff by (auto intro: revised_refl)
qed

lemma save_ledger:
  assumes "save_payment q s = Inr t" and "p \<in> set (payments s)" and "revised p q"
    and "ledger_ok s \<Longrightarrow> row_sound (payments s) q"
  shows "ledger_step s t"
proof -
  note c = save_payment_Inr [OF assms(1)]
  have "ledger_ok t" if ok: "ledger_ok s"
  proof -
    have u: "unique_rows p_id (payments s)" using ok by (simp add: ledger_ok_def)
    have "row_sound (payments t) x" if "x \<in> set (payments t)" for x
      using that c row_sound_save [OF _ assms(2,3) u] assms(4) [OF ok] ok
      by (auto simp: ledger_ok_iff in_set_save_row)
    with save_payment_ok [OF assms(1)] ok show ?thesis by (simp add: ledger_ok_iff)
  qed
  moreover have "\<exists>y\<in>set (payments t). revised x y" if ok: "ledger_ok s" and x: "x \<in> set (payments s)" for x
  proof (cases "p_id x = p_id q")
    case True
    with ok x assms(2,3) have "x = p" by (auto simp: ledger_ok_def revised_def unique_rows_def distinct_map dest: inj_onD)
    with c assms(3) True imageI [OF assms(2), of p_id] show ?thesis
      by (auto simp: in_set_save_row intro!: bexI [of _ q])
  next
    case False
    with c x show ?thesis by (auto simp: in_set_save_row intro!: bexI [of _ x])
  qed
  ultimately show ?thesis by (simp add: ledger_step_def)
qed

lemma ledger_row: "ledger_ok s \<Longrightarrow> p \<in> set (payments s) \<Longrightarrow> row_sound (payments s) p"
  by (simp add: ledger_ok_iff)

text \<open>Rows found by the gateway's order or payment are no refunds.\<close>

lemma not_refund:
  "row_sound rows p \<Longrightarrow> p_order_id p = Some x \<Longrightarrow> p_type p \<noteq> REFUND"
  "row_sound rows p \<Longrightarrow> p_payment_id p = Some x \<Longrightarrow> p_type p \<noteq> REFUND"
  "row_sound rows p \<Longrightarrow> p_refund_id p = Some x \<Longrightarrow> p_type p = REFUND"
  by (auto simp: row_sound_def split: if_splits)

section \<open>Lemmas: the services\<close>

lemma open_order_ledger:
  assumes "open_order gw b key s = Inr (p, t)"
  shows "ledger_step s t"
proof -
  obtain order oid where "create_payment ((blank_payment (b_id b))\<lparr>p_order_id := Some oid,
      p_amount := b_advance_required b, p_payload := redact_payload order, p_key := key\<rparr>) s = Inr (p, t)"
    using assms by (auto simp: open_order_def split: sum.splits)
  then show ?thesis by (rule create_ledger) (simp add: row_sound_def blank_payment_def)
qed

lemma advance_order_ledger: "create_advance_payment_order gw key_id k me key s = Inr (z, t) \<Longrightarrow> ledger_step s t"
  by (auto simp: create_advance_payment_order_def dest: open_order_ledger split: option.splits if_splits sum.splits)

lemma mark_failed_ledger:
  assumes "mark_payment_failed p b pid payload s = Inr (q, t)" and "p \<in> set (payments s)" and "p_order_id p = Some oid"
  shows "ledger_step s t"
proof -
  obtain s1 where saved: "save_payment q s = Inr s1" "payments t = payments s1" "next_id t = next_id s1"
    and q: "q = p\<lparr>p_status := PR_FAILED, p_payment_id := (if pid = '''' then p_payment_id p else Some pid),
                 p_payload := redact_payload (or_empty payload)\<rparr>"
    using assms(1) by (auto simp: mark_payment_failed_def Let_def split: sum.splits if_splits)
  have "ledger_step s s1"
  proof (rule save_ledger [OF saved(1) assms(2)])
    show "revised p q" by (simp add: q revised_def)
    assume "ledger_ok s"
    note sound = ledger_row [OF this assms(2)]
    from sound not_refund(1) [OF sound assms(3)] show "row_sound (payments s) q"
      by (simp add: row_sound_def q)
  qed
  with ledger_step_cong [of t s1] saved show ?thesis by (metis le_refl ledger_step_trans ledger_step_cong)
qed

lemma confirm_ledger: "ledger_step s (snd (confirm_booking_after_payment now b p by s))"
proof -
  obtain b2 t where run: "confirm_booking_after_payment now b p by s = (b2, t)" by fastforce
  from confirm_booking_frame [OF run] show ?thesis
    by (intro ledger_step_cong) (simp_all add: run pay_frame_def)
qed

lemma verify_body_ledger:
  assumes "verify_payment_body mac ks now oid pid sg me payload s = Inr ((valid, q), t)"
  shows "ledger_step s t"
proof (rule verify_body_Inr [OF assms])
  fix p b s1
  assume p: "payment_by_order oid s = Some p" and q: "q = verified_payment now pid payload p"
    and saved: "save_payment q s = Inr s1" and t: "t = snd (confirm_booking_after_payment now b q me s1)"
  have mem: "p \<in> set (payments s)" "p_order_id p = Some oid" using payment_by_orderD [OF p] by simp_all
  have "ledger_step s s1"
  proof (rule save_ledger [OF saved mem(1)])
    show "revised p q" by (simp add: q revised_def verified_payment_def)
    assume "ledger_ok s"
    note sound = ledger_row [OF this mem(1)]
    from sound not_refund(1) [OF sound mem(2)] show "row_sound (payments s) q"
      by (simp add: row_sound_def q verified_payment_def)
  qed
  then show "ledger_step s t" unfolding t using confirm_ledger by (rule ledger_step_trans)
next
  fix p b
  assume "payment_by_order oid s = Some p" and failed: "mark_payment_failed p b pid payload s = Inr (q, t)"
  with payment_by_orderD show "ledger_step s t" by (blast intro: mark_failed_ledger [OF failed])
qed simp

lemma verify_ledger: "verify_razorpay_payment mac ks now oid pid sg me payload s = (r, t) \<Longrightarrow> ledger_step s t"
  by (auto simp: verify_razorpay_payment_def dest: verify_body_ledger split: sum.splits)

text \<open>The state of the refunded payment: its source is written as it was read.\<close>

lemma apply_refund_ledger:
  assumes "apply_refund_state b source s = Inr t" and "source \<in> set (payments s)" and "p_type source \<noteq> REFUND"
  shows "ledger_step s t"
proof (cases "refunded_total (p_id source) s \<ge> p_amount source")
  case True
  let ?q = "source\<lparr>p_status := PR_REFUNDED\<rparr>"
  obtain s1 where saved: "save_payment ?q s = Inr s1" and t: "payments t = payments s1" "next_id t = next_id s1"
    using assms(1) True by (auto simp: apply_refund_state_def split: sum.splits)
  have "ledger_step s s1"
  proof (rule save_ledger [OF saved assms(2)])
    show "revised source ?q" by (simp add: revised_def)
    show "row_sound (payments s) ?q" if "ledger_ok s"
      using ledger_row [OF that assms(2)] assms(3) by (simp add: row_sound_def)
  qed
  with t show ?thesis by (metis le_refl ledger_step_trans ledger_step_cong)
next
  case False
  with assms(1) have "payments t = payments s" "next_id t = next_id s"
    by (auto simp: apply_refund_state_def split: if_splits)
  then show ?thesis by (simp add: ledger_step_cong)
qed

lemma record_refund_ledger:
  assumes "record_refund now b source amount key answer rid s = Inr (r, t)" and "source \<in> set (payments s)"
    and "p_type source \<noteq> REFUND" and "p_booking source = b_id b"
  shows "ledger_step s t"
proof -
  let ?st = "refund_status (item ''status'' answer)"
  let ?r = "(blank_payment (b_id b))\<lparr>p_parent := Some (p_id source), p_refund_id := Some rid,
                p_amount := amount, p_currency := p_currency source, p_type := REFUND, p_status := ?st,
                p_payload := redact_payload answer, p_key := key,
                p_refunded_at := (if ?st = PR_SUCCESS then Some now else None)\<rparr>"
  obtain s1 s2 where made: "create_payment ?r s = Inr (r, s1)" and applied: "apply_refund_state b source s1 = Inr s2"
    and t: "payments t = payments s2" "next_id t = next_id s2"
    using assms(1) by (auto simp: record_refund_def Let_def split: sum.splits prod.splits if_splits)
  have "ledger_step s s1"
    using assms(2-4) by (intro create_ledger [OF made]) (auto simp: row_sound_def blank_payment_def list_ex_iff)
  moreover have "payments s1 = payments s @ [r]" using create_payment_Inr [OF made] by blast
  then have "ledger_step s1 s2"
    using assms(2,3) by (intro apply_refund_ledger [OF applied]) simp_all
  moreover have "ledger_step s2 t" using t by (simp add: ledger_step_cong)
  ultimately show ?thesis by (blast intro: ledger_step_trans)
qed

lemma create_refund_ledger:
  assumes "create_refund gw sha now pid amount key by reason s = Inr (r, t)"
  shows "ledger_step s t"
  using assms
proof (rule create_refund_cases)
  fix source b answer rid
  assume "get_payment pid s = Some source" and b: "get_booking (p_booking source) s = Some b"
    and "p_type source \<noteq> REFUND" and made: "record_refund now b source amount key answer rid s = Inr (r, t)"
  then show "ledger_step s t"
    using payment_table.get_in_rows booking_table.get_key [OF b] by (intro record_refund_ledger [OF made]) auto
qed simp

lemma reconcile_refund_ledger:
  assumes "reconcile_refund gw now k s = Inr (r2, t)"
  shows "ledger_step s t"
proof (cases "ledger_ok s")
  case ok: True
  obtain r b source answer j where r: "get_payment k s = Some r" "p_type r = REFUND"
    and source: "p_parent r = Some j" "get_payment j s = Some source"
    and answer: "get_booking (p_booking r) s = Some b" "given '''' (p_refund_id r) \<noteq> ''''"
      "ga_fetch_refund gw (given '''' (p_refund_id r)) = Inr answer"
    using assms by (auto simp: reconcile_refund_def Let_def split: option.splits if_splits sum.splits)
  let ?st = "refund_status (item ''status'' answer)"
  let ?r2 = "r\<lparr>p_status := ?st, p_payload := redact_payload answer,
                p_refunded_at := (if ?st = PR_SUCCESS then Some now else None)\<rparr>"
  obtain s1 s2 where saved: "save_payment ?r2 s = Inr s1" and applied: "apply_refund_state b source s1 = Inr s2"
    and t: "payments t = payments s2" "next_id t = next_id s2"
    using assms r source answer by (auto simp: reconcile_refund_def Let_def split: sum.splits if_splits)
  have mem: "r \<in> set (payments s)" "source \<in> set (payments s)" "p_id source = j"
    using r source payment_table.get_in_rows payment_table.get_key by blast+
  have parent: "p_type source \<noteq> REFUND"
  proof -
    obtain q where "q \<in> set (payments s)" "p_parent r = Some (p_id q)" "p_type q \<noteq> REFUND"
      using ledger_row [OF ok mem(1)] r(2) by (auto simp: row_sound_def list_ex_iff)
    with ok mem source show ?thesis by (auto simp: ledger_ok_def unique_rows_def distinct_map dest: inj_onD)
  qed
  have "ledger_step s s1"
  proof (rule save_ledger [OF saved mem(1)])
    show "revised r ?r2" by (simp add: revised_def)
    show "row_sound (payments s) ?r2" using ledger_row [OF ok mem(1)] r(2) by (simp add: row_sound_def)
  qed
  moreover have "p_id source \<noteq> p_id r"
    using ok mem r(2) parent by (auto simp: ledger_ok_def unique_rows_def distinct_map dest: inj_onD)
  then have "source \<in> set (payments s1)"
    using save_payment_Inr [OF saved] mem(2) by (simp add: in_set_save_row)
  then have "ledger_step s1 s2" using parent by (intro apply_refund_ledger [OF applied])
  moreover have "ledger_step s2 t" using t by (simp add: ledger_step_cong)
  ultimately show ?thesis by (blast intro: ledger_step_trans)
qed (simp add: ledger_step_def)

lemma reconcile_each_ledger: "reconcile_each gw now ks n s = (r, t) \<Longrightarrow> ledger_step s t"
proof (induction gw now ks n s rule: reconcile_each.induct)
  case (2 gw now k ks n s)
  then show ?case
    by (cases "reconcile_refund gw now k s") (auto dest: reconcile_refund_ledger intro: ledger_step_trans)
qed simp

lemma upsert_refund_ledger:
  assumes "upsert_refund now b source rid entity s = Inr ((r, new), t)" and "source \<in> set (payments s)"
    and "p_type source \<noteq> REFUND" and "p_booking source = b_id b" and "ledger_ok s"
  shows "ledger_step s t \<and> source \<in> set (payments t)"
proof (cases "refund_by_reference rid s")
  case None
  then obtain data where made: "create_payment data s = Inr (r, t)" and data: "p_type data = REFUND"
      "p_order_id data = None" "p_payment_id data = None" "p_parent data = Some (p_id source)" "p_booking data = b_id b"
    using assms(1) by (auto simp: upsert_refund_def Let_def blank_payment_def split: sum.splits prod.splits)
  have "row_sound (payments s) (data\<lparr>p_id := new_id s\<rparr>)"
    using data assms(2-4) by (auto simp: row_sound_def list_ex_iff)
  with create_ledger [OF made] create_payment_Inr [OF made] assms(2) show ?thesis by auto
next
  case (Some x)
  then have x: "x \<in> set (payments s)" "p_refund_id x = Some rid"
    unfolding refund_by_reference_def by (auto dest: first_row_SomeD)
  note sound = ledger_row [OF assms(5) x(1)]
  have refund: "p_type x = REFUND" using not_refund(3) [OF sound x(2)] .
  obtain q where saved: "save_payment q s = Inr t" and q: "revised x q" "p_payment_id q = p_payment_id x"
    using assms(1) Some
    by (auto simp: upsert_refund_def Let_def revised_def split: sum.splits prod.splits)
  have "row_sound (payments s) q"
    using sound refund q by (simp add: row_sound_def revised_def)
  then have "ledger_step s t" by (intro save_ledger [OF saved x(1) q(1)])
  moreover have "p_id source \<noteq> p_id q"
    using assms(2,3,5) x(1) refund q(1)
    by (auto simp: ledger_ok_def unique_rows_def distinct_map revised_def dest: inj_onD)
  then have "source \<in> set (payments t)"
    using save_payment_Inr [OF saved] assms(2) by (simp add: in_set_save_row)
  ultimately show ?thesis by blast
qed

lemma refund_webhook_ledger:
  assumes "process_refund_webhook now payload s = Inr t"
  shows "ledger_step s t"
proof (cases "ledger_ok s")
  case ok: True
  obtain entity where entity: "webhook_entity ''refund'' payload = Inr entity"
    using assms by (cases "webhook_entity ''refund'' payload") (simp_all add: process_refund_webhook_def)
  obtain rid ref where ids: "jget JNull ''id'' entity = Inr rid" "jget JNull ''payment_id'' entity = Inr ref"
    using assms entity
    by (cases "jget JNull ''id'' entity"; cases "jget JNull ''payment_id'' entity")
      (simp_all add: process_refund_webhook_def)
  note body = assms [unfolded process_refund_webhook_def entity sum.case ids prod.case]
  obtain source where source: "payment_by_reference (py_str ref) s = Some source"
    using body by (cases "payment_by_reference (py_str ref) s") (simp_all split: if_splits)
  obtain b where b: "get_booking (p_booking source) s = Some b"
    using body source by (cases "get_booking (p_booking source) s") (simp_all split: if_splits)
  obtain r new u where u: "upsert_refund now b source (py_str rid) entity s = Inr ((r, new), u)"
    using body source b by (cases "upsert_refund now b source (py_str rid) entity s") (auto split: if_splits)
  obtain v where v: "apply_refund_state b source u = Inr v"
    using body source b u by (cases "apply_refund_state b source u") (auto split: if_splits)
  have t: "payments t = payments v" "next_id t = next_id v"
    using body source b u v by (auto simp: Let_def split: if_splits)
  have mem: "source \<in> set (payments s)" "p_payment_id source = Some (py_str ref)"
    using source unfolding payment_by_reference_def by (auto dest: first_row_SomeD)
  have parent: "p_type source \<noteq> REFUND" using not_refund(2) [OF ledger_row [OF ok mem(1)] mem(2)] .
  note up = upsert_refund_ledger [OF u mem(1) parent booking_table.get_key [OF b, symmetric] ok]
  then have "ledger_step u v" using parent by (intro apply_refund_ledger [OF v]) simp_all
  moreover have "ledger_step v t" using t by (simp add: ledger_step_cong)
  ultimately show ?thesis using up by (blast intro: ledger_step_trans)
qed (simp add: ledger_step_def)

lemma failed_webhook_ledger: "process_payment_failed_webhook payload s = Inr t \<Longrightarrow> ledger_step s t"
  by (auto simp: process_payment_failed_webhook_def split: sum.splits option.splits if_splits
      dest: payment_by_orderD intro: mark_failed_ledger)

lemma captured_webhook_ledger: "process_payment_captured mac ks now payload s = (r, t) \<Longrightarrow> ledger_step s t"
  unfolding process_payment_captured_def
  by (auto dest: verify_ledger split: sum.splits option.splits if_splits prod.splits)

lemma dispatch_webhook_ledger:
  assumes "dispatch_webhook mac ks now ev payload s = (r, t)"
  shows "ledger_step s t"
proof -
  have atomic: "ledger_step s u" if "run_atomic f s = (x, u)" and "\<And>v. f s = Inr v \<Longrightarrow> ledger_step s v" for f x u
    using that by (auto simp: run_atomic_def split: sum.splits)
  show ?thesis
    using assms captured_webhook_ledger atomic failed_webhook_ledger refund_webhook_ledger
    unfolding dispatch_webhook_def by (metis Pair_inject ledger_step_refl)
qed

lemma begin_webhook_ledger: "begin_webhook now h ev s = (turn, t) \<Longrightarrow> ledger_step s t"
  by (auto simp: begin_webhook_def Let_def update_webhook_def insert_webhook_def bump_id_def
      split: option.splits if_splits prod.splits intro!: ledger_step_cong)

lemma finish_webhook_ledger: "ledger_step s (finish_webhook k st e at s)"
  by (auto simp: finish_webhook_def update_webhook_def split: option.split intro!: ledger_step_cong)

lemma webhook_ledger:
  assumes "process_razorpay_webhook mac sha parse ws ks now body sg s = (r, t)"
  shows "ledger_step s t"
proof -
  have "t = s \<or> (\<exists>h ev turn. begin_webhook now h ev s = (turn, t)) \<or>
      (\<exists>h ev k u payload r2 v st e at. begin_webhook now h ev s = (Mine k, u) \<and>
         dispatch_webhook mac ks now ev payload u = (r2, v) \<and> t = finish_webhook k st e at v)"
    using assms
    by (simp add: process_razorpay_webhook_def Let_def
        split: sum.splits bool.splits option.splits prod.splits webhook_turn.splits) blast+
  then show ?thesis
    using begin_webhook_ledger dispatch_webhook_ledger finish_webhook_ledger by (metis ledger_step_refl ledger_step_trans)
qed

lemma balance_ledger:
  assumes "record_balance_collection now k amount method by notes s = Inr (z, t)"
  shows "ledger_step s t"
proof -
  obtain data p s1 where made: "create_payment data s = Inr (p, s1)"
    and data: "p_type data = BALANCE" "p_refund_id data = None" "p_parent data = None" "p_provider data = OFFLINE"
    and t: "payments t = payments s1" "next_id s1 \<le> next_id t"
    using assms
    by (fastforce simp: record_balance_collection_def Let_def blank_payment_def write_status_history_def bump_id_def
        split: sum.splits if_splits prod.splits)
  have "ledger_step s s1" using data by (intro create_ledger [OF made]) (simp add: row_sound_def)
  moreover have "ledger_step s1 t" using t by (rule ledger_step_cong)
  ultimately show ?thesis by (rule ledger_step_trans)
qed

lemma manual_ledger:
  assumes "record_manual_lead_payment now l by amount method ref d note rq s = Inr (z, t)"
  shows "ledger_step s t"
proof -
  obtain data p s1 columns b l2 s3 act prev new words where made: "create_payment data s = Inr (p, s1)"
    and data: "p_type data = BOOKING_ADVANCE" "p_refund_id data = None" "p_parent data = None" "p_provider data = OFFLINE"
    and up: "update_lead now columns l (save_booking b s1) = Inr (l2, s3)"
    and t: "t = record_lead_activity (l_id l) act prev new words by rq s3"
    using assms
    by (fastforce simp: record_manual_lead_payment_def Let_def blank_payment_def
        split: sum.splits if_splits prod.splits option.splits)
  have "ledger_step s s1" using data by (intro create_ledger [OF made]) (simp add: row_sound_def)
  moreover have "lead_frame (save_booking b s1) t"
    using update_lead_Inr [OF up] record_lead_activity_frame [of s3] t lead_frame_trans by blast
  then have "ledger_step s1 t" by (intro ledger_step_cong) (simp_all add: lead_frame_def)
  ultimately show ?thesis by (rule ledger_step_trans)
qed

lemma atomic_ledger:
  assumes "\<And>x t. f s = Inr (x, t) \<Longrightarrow> ledger_step s t"
  shows "ledger_step s (snd (atomic f s))"
  using assms by (cases "f s") (auto simp: atomic_def)

lemma pay_ledger: "ledger_step s (pay w c s)"
proof (cases c)
  case (Verify now oid pid sg me payload)
  then show ?thesis by (simp add: verify_ledger [OF prod.collapse [symmetric]])
next
  case (Deliver now body sg)
  then show ?thesis by (simp add: webhook_ledger [OF prod.collapse [symmetric]])
next
  case (Reconcile_Pending gw now)
  then show ?thesis
    by (simp add: reconcile_pending_refunds_def reconcile_each_ledger [OF prod.collapse [symmetric]])
qed (auto intro!: atomic_ledger dest: advance_order_ledger create_refund_ledger reconcile_refund_ledger
      balance_ledger manual_ledger)

section \<open>Properties\<close>

text \<open>C13: The payments table stays a sound ledger over every request that writes it, accepted or refused,
  in any order and whatever the gateway and the deliveries say: keys are distinct; no two rows share an
  order, a payment or a refund of the gateway; a booking has at most one advance that is open or paid, and
  one row for an idempotency key and type; a successful gateway payment had its signature verified; a
  refund belongs to a payment of its booking that is no refund. No row is ever lost, and what it is for
  stays: its booking, type, amount, currency, provider, order, refund, parent and key.\<close>

theorem payments_stay_a_ledger:
  assumes "paying w s t" and "ledger_ok s"
  shows "ledger_ok t \<and> (\<forall>p\<in>set (payments s). \<exists>q\<in>set (payments t). revised p q)"
proof -
  from assms(1) have "ledger_step s t"
    by induction (auto intro: ledger_step_trans pay_ledger)
  with assms(2) show ?thesis by (simp add: ledger_step_def)
qed

definition sample_world :: pay_world where
  "sample_world =
     \<lparr>pw_mac = sample_mac, pw_sha = (\<lambda>x. x), pw_parse = (\<lambda>x. None), pw_key_id = ''i'', pw_key_secret = ''k'',
      pw_webhook_secret = ''w''\<rparr>"

text \<open>An order is opened, paid and refunded in part.\<close>

theorem payments_stay_a_ledger_witness:
  "\<exists>t. paying sample_world (sample_paying_db [sample_booking 7 BS_PENDING_PAYMENT] []) t \<and> ledger_ok t \<and>
     map (\<lambda>p. (p_type p, p_status p, p_amount p)) (payments t) =
       [(BOOKING_ADVANCE, PR_SUCCESS, 18000), (REFUND, PR_SUCCESS, 5000)]"
proof -
  let ?s = "sample_paying_db [sample_booking 7 BS_PENDING_PAYMENT] []" and ?w = sample_world
  let ?t1 = "pay ?w (Open_Order (local_gateway ''t'') 7 1 ''key-1'') ?s"
  let ?t2 = "pay ?w (Verify 9 ''order_t'' ''pay_1'' ''k#order_t|pay_1'' (Some 1) JNull) ?t1"
  let ?t3 = "pay ?w (Refund (local_gateway ''u'') 10 (next_id ?s) 5000 ''key-2'' 1 '''') ?t2"
  have "map (\<lambda>p. (p_type p, p_status p, p_amount p)) (payments ?t3) =
      [(BOOKING_ADVANCE, PR_SUCCESS, 18000), (REFUND, PR_SUCCESS, 5000)]" by code_simp
  moreover have run: "paying ?w ?s ?t3" by (intro paying.intros)
  moreover have "ledger_ok ?s" by code_simp
  note conjunct1 [OF payments_stay_a_ledger [OF run this]]
  ultimately show ?thesis by (intro exI [of _ ?t3] conjI)
qed

end
