(* ===== verification/Reviews.thy ===== *)
theory Reviews
  imports Technicians
begin

text \<open>Reviews, \<open>apps/reviews\<close>: one review of a completed booking by its customer.\<close>

record review =
  rv_id :: nat
  rv_booking :: nat
  rv_customer :: nat
  rv_technician :: "nat option"
  rv_rating :: int
  rv_comment :: string
  rv_visible :: bool

record reviews_db = technicians_db +
  reviews :: "review list"

definition get_review :: "nat \<Rightarrow> 'x reviews_db_scheme \<Rightarrow> review option" where
  "get_review k s = find_row rv_id k (reviews s)"

definition save_review_row :: "review \<Rightarrow> 'x reviews_db_scheme \<Rightarrow> 'x reviews_db_scheme" where
  "save_review_row r s = s\<lparr>reviews := save_row rv_id r (reviews s)\<rparr>"

definition insert_review_row :: "review \<Rightarrow> 'x reviews_db_scheme \<Rightarrow> 'x reviews_db_scheme" where
  "insert_review_row r s = s\<lparr>reviews := reviews s @ [r]\<rparr>"

interpretation review_table: row_table rv_id reviews get_review save_review_row insert_review_row
  by unfold_locales (simp_all add: get_review_def save_review_row_def insert_review_row_def)

definition create_review ::
  "nat \<Rightarrow> nat \<Rightarrow> int \<Rightarrow> string \<Rightarrow> 'x reviews_db_scheme \<Rightarrow> error + (review \<times> 'x reviews_db_scheme)" where
  "create_review k customer rating comment s =
     (let missing = Inl (ValidationError ''Booking was not found.'') in
      case get_booking k s of
        None \<Rightarrow> missing
      | Some b \<Rightarrow>
          if b_customer b \<noteq> customer then missing
          else if b_status b \<noteq> BS_COMPLETED
          then Inl (ValidationError ''Only completed bookings can be reviewed.'')
          else if list_ex (\<lambda>r. rv_booking r = k) (reviews s)
          then Inl (ValidationError ''Booking has already been reviewed.'')
          else
            let r = \<lparr>rv_id = new_id s, rv_booking = k, rv_customer = customer,
                     rv_technician = b_technician b, rv_rating = rating, rv_comment = comment,
                     rv_visible = True\<rparr>
            in Inr (r, bump_id (insert_review_row r s)))"

text \<open>The view: the serializer bounds the rating and refuses a blank comment.\<close>

definition create_review_view ::
  "nat \<Rightarrow> nat \<Rightarrow> int \<Rightarrow> string \<Rightarrow> 'x reviews_db_scheme \<Rightarrow> error + (review \<times> 'x reviews_db_scheme)" where
  "create_review_view k customer rating comment s =
     (let text = strip_str comment in
      if rating < 1 then Inl (FieldError ''rating'' ''Ensure this value is greater than or equal to 1.'')
      else if rating > 5 then Inl (FieldError ''rating'' ''Ensure this value is less than or equal to 5.'')
      else if text = '''' then Inl (FieldError ''comment'' ''This field may not be blank.'')
      else create_review k customer rating text s)"

definition service_reviews :: "nat \<Rightarrow> 'x reviews_db_scheme \<Rightarrow> review list" where
  "service_reviews sv s =
     rev (filter (\<lambda>r. rv_visible r \<and>
            (case get_booking (rv_booking r) s of None \<Rightarrow> False | Some b \<Rightarrow> b_service b = sv)) (reviews s))"

text \<open>An administrator may change the rating, the comment and the visibility.\<close>

definition moderate_review ::
  "nat \<Rightarrow> int option \<Rightarrow> string option \<Rightarrow> bool option \<Rightarrow> nat \<Rightarrow> request option \<Rightarrow>
     'x reviews_db_scheme \<Rightarrow> error + (review \<times> 'x reviews_db_scheme)" where
  "moderate_review k rating comment visible admin rq s =
     (case get_review k s of
        None \<Rightarrow> Inl (ErrorResponse 404 ''Not found.'')
      | Some r \<Rightarrow>
          if (case rating of None \<Rightarrow> False | Some x \<Rightarrow> x < 1 \<or> x > 5)
          then Inl (FieldError ''rating'' ''Ensure this value is between 1 and 5.'')
          else
            let r2 = r\<lparr>rv_rating := given (rv_rating r) rating,
                       rv_comment := given (rv_comment r) comment,
                       rv_visible := given (rv_visible r) visible\<rparr>;
                sent = (if rating = None then [] else [JStr ''rating'']) @
                       (if comment = None then [] else [JStr ''comment'']) @
                       (if visible = None then [] else [JStr ''is_visible''])
            in Inr (r2, audit_event AA_REVIEW_UPDATED ''review'' (nat_str k) (Some admin) rq
                          (JObj [(''fields'', JList sent)]) (save_review_row r2 s)))"

section \<open>One review for each booking\<close>

definition reviews_ok :: "'x reviews_db_scheme \<Rightarrow> bool" where
  "reviews_ok s = (unique_rows rv_booking (reviews s) \<and>
     list_all (\<lambda>r. 1 \<le> rv_rating r \<and> rv_rating r \<le> 5) (reviews s))"

definition review_rows_ok :: "'x reviews_db_scheme \<Rightarrow> bool" where
  "review_rows_ok s =
     (reviews_ok s \<and> unique_rows rv_id (reviews s) \<and> list_all (\<lambda>r. rv_id r < next_id s) (reviews s))"

lemma audit_event_reviews [simp]:
  "reviews (audit_event act rt rid actor rq m s) = reviews s"
  "bookings (audit_event act rt rid actor rq m s) = bookings s"
  "next_id (audit_event act rt rid actor rq m s) = next_id s"
  by (simp_all add: audit_event_def register_hook_def)

lemma create_review_view_Inr:
  assumes "create_review_view k customer rating comment s = Inr (r, s')"
  shows "\<exists>b. get_booking k s = Some b \<and> b_customer b = customer \<and> b_status b = BS_COMPLETED \<and>
           r = \<lparr>rv_id = new_id s, rv_booking = k, rv_customer = customer, rv_technician = b_technician b,
                rv_rating = rating, rv_comment = strip_str comment, rv_visible = True\<rparr> \<and>
           1 \<le> rating \<and> rating \<le> 5 \<and> strip_str comment \<noteq> '''' \<and>
           (\<forall>q\<in>set (reviews s). rv_booking q \<noteq> k) \<and> s' = bump_id (insert_review_row r s)"
  using assms
  by (auto simp: create_review_view_def create_review_def Let_def list_ex_iff split: if_splits option.splits)

lemma moderate_review_Inr:
  assumes "moderate_review k rating comment visible admin rq s = Inr (r2, s')"
  shows "\<exists>r. get_review k s = Some r \<and> rv_id r2 = rv_id r \<and> rv_booking r2 = rv_booking r \<and>
           rv_customer r2 = rv_customer r \<and> rv_technician r2 = rv_technician r \<and>
           (rv_rating r2 = rv_rating r \<or> 1 \<le> rv_rating r2 \<and> rv_rating r2 \<le> 5) \<and>
           reviews s' = save_row rv_id r2 (reviews s) \<and> next_id s' = next_id s"
  using assms
  by (auto simp: moderate_review_def Let_def save_review_row_def given_def split: if_splits option.splits)

lemma create_review_keeps:
  assumes created: "create_review_view k customer rating comment s = Inr (r, s')" and ok: "review_rows_ok s"
  shows "review_rows_ok s' \<and> get_review (rv_id r) s' = Some r \<and> set (reviews s') = insert r (set (reviews s))"
proof -
  obtain b :: booking where r: "r = \<lparr>rv_id = new_id s, rv_booking = k, rv_customer = customer, rv_technician = b_technician b,
                rv_rating = rating, rv_comment = strip_str comment, rv_visible = True\<rparr>"
    and rest: "1 \<le> rating" "rating \<le> 5" "\<forall>q\<in>set (reviews s). rv_booking q \<noteq> k"
      "s' = bump_id (insert_review_row r s)"
    using create_review_view_Inr [OF created] by blast
  have rows: "reviews s' = reviews s @ [r]" "next_id s' = Suc (next_id s)"
    using rest(4) by (simp_all add: bump_id_def insert_review_row_def)
  have fresh: "rv_id r \<notin> rv_id ` set (reviews s)"
    using ok r by (auto simp: review_rows_ok_def list_all_iff new_id_def)
  moreover have "rv_booking r \<notin> rv_booking ` set (reviews s)" using r rest(3) by auto
  ultimately have "review_rows_ok s'"
    using ok rows r rest by (auto simp: review_rows_ok_def reviews_ok_def list_all_iff new_id_def)
  moreover have "get_review (rv_id r) s' = Some r"
    using fresh rows by (simp add: get_review_def find_row_append find_row_None_iff [THEN iffD2])
  ultimately show ?thesis using rows by auto
qed

lemma moderate_review_keeps:
  assumes moderated: "moderate_review k rating comment visible admin rq s = Inr (r2, s')" and ok: "review_rows_ok s"
  shows "review_rows_ok s' \<and> rv_booking ` set (reviews s') = rv_booking ` set (reviews s)"
proof -
  obtain r where r: "get_review k s = Some r" "rv_id r2 = rv_id r" "rv_booking r2 = rv_booking r"
    "rv_rating r2 = rv_rating r \<or> 1 \<le> rv_rating r2 \<and> rv_rating r2 \<le> 5"
    and s': "reviews s' = save_row rv_id r2 (reviews s)" "next_id s' = next_id s"
    using moderate_review_Inr [OF moderated] by blast
  have row: "r \<in> set (reviews s)" using review_table.get_in_rows [OF r(1)] by simp
  have unique: "unique_rows rv_id (reviews s)" "distinct (map rv_booking (reviews s))"
    using ok by (simp_all add: review_rows_ok_def reviews_ok_def unique_rows_def)
  have other: "rv_booking x \<noteq> rv_booking r2" if "x \<in> set (reviews s)" "rv_id x \<noteq> rv_id r2" for x
    using unique(2) row that r(2,3) by (auto simp: distinct_map dest: inj_onD)
  have "distinct (map rv_booking (reviews s'))"
    unfolding s' by (rule distinct_save_row [OF unique(2,1) other])
  moreover have "1 \<le> rv_rating r2" "rv_rating r2 \<le> 5"
    using r(4) row ok by (auto simp: review_rows_ok_def reviews_ok_def list_all_iff)
  ultimately have "review_rows_ok s'"
    using ok s' r(2) row unique
    by (auto simp: review_rows_ok_def reviews_ok_def unique_rows_def [of rv_booking] list_all_iff in_set_save_row)
  moreover have "map rv_booking (reviews s') = map rv_booking (reviews s)"
    using unique(1) row r(2,3) unfolding s'(1) save_row_def
    by (auto simp: unique_rows_def distinct_map dest: inj_onD)
  ultimately show ?thesis by (metis list.set_map)
qed

text \<open>One review for a completed booking: creating and moderating keep one review for each booking with
  a rating from 1 to 5; a review that is accepted is the customer's own, of a completed booking and names
  its technician; and a booking that has a review, moderated or not, is not reviewed again by anyone.\<close>

theorem reviewed_once:
  assumes ok: "review_rows_ok s"
    and created: "create_review_view k customer rating comment s = Inr (r, s1)"
    and moderated: "moderate_review j rating2 comment2 visible admin rq s1 = Inr (r2, s2)"
  shows "review_rows_ok s2 \<and>
         (\<exists>b. get_booking k s = Some b \<and> b_customer b = customer \<and> b_status b = BS_COMPLETED \<and>
              rv_technician r = b_technician b) \<and>
         (\<forall>c x y. \<exists>e. create_review_view k c x y s2 = Inl e)"
proof -
  note c = create_review_keeps [OF created ok]
  note m = moderate_review_keeps [OF moderated conjunct1 [OF c]]
  obtain b where b: "get_booking k s = Some b" "b_customer b = customer" "b_status b = BS_COMPLETED"
    "rv_technician r = b_technician b" "rv_booking r = k"
    using create_review_view_Inr [OF created] by auto
  then have "k \<in> rv_booking ` set (reviews s2)" using c m by force
  then have "\<exists>e. create_review_view k c x y s2 = Inl e" for c x y
    using create_review_view_Inr [of k c x y s2] by (cases "create_review_view k c x y s2") fastforce+
  with b m show ?thesis by blast
qed

definition sample_reviews_db :: "booking_status \<Rightarrow> reviews_db" where
  "sample_reviews_db st = technicians_db.extend (sample_technicians_db [sample_booking 7 st])
     \<lparr>reviews = []\<rparr>"

theorem reviewed_once_witness:
  "\<exists>r s1 r2 s2. create_review_view 7 1 5 '' Good work '' (sample_reviews_db BS_COMPLETED) = Inr (r, s1) \<and>
     moderate_review (rv_id r) (Some 4) None (Some False) 2 None s1 = Inr (r2, s2) \<and> review_rows_ok s2 \<and>
     (\<exists>e. create_review_view 7 1 1 ''Again'' s2 = Inl e)"
proof -
  let ?s = "sample_reviews_db BS_COMPLETED"
  let ?r = "create_review_view 7 1 5 '' Good work '' ?s"
  let ?m = "moderate_review (rv_id (fst (projr ?r))) (Some 4) None (Some False) 2 None (snd (projr ?r))"
  have r: "\<not> isl ?r \<and> \<not> isl ?m" by code_simp
  then obtain r s1 where s1: "?r = Inr (r, s1)" by (blast dest: result_cases)
  from r obtain r2 s2 where "?m = Inr (r2, s2)" by (blast dest: result_cases)
  with s1 have s2: "moderate_review (rv_id r) (Some 4) None (Some False) 2 None s1 = Inr (r2, s2)" by simp
  have "review_rows_ok ?s" by code_simp
  from reviewed_once [OF this s1 s2] s1 s2 show ?thesis by blast
qed

end
