(* ===== verification/Cart.thy ===== *)
theory Cart
  imports Bookings
begin

text \<open>
  The cart and the checkout: \<open>apps/bookings/cart.py\<close>, \<open>apps/bookings/idempotency.py\<close>,
  \<open>common/idempotency.py\<close> and the booking views. A checkout is stored under the customer's
  idempotency key with a fingerprint of its body, and repeating it answers with the stored bookings.
  \<open>lock_customer\<close> only locks the customer's row and has no effect on the state.
\<close>

section \<open>Idempotency keys\<close>

text \<open>\<open>[A-Za-z0-9][A-Za-z0-9._:-]{7,127}\<close>\<close>

definition is_letter :: "char \<Rightarrow> bool" where
  "is_letter c =
     (c \<in> set ''ABCDEFGHIJKLMNOPQRSTUVWXYZ'' \<or> c \<in> set ''abcdefghijklmnopqrstuvwxyz'')"

definition valid_idempotency_key :: "string \<Rightarrow> bool" where
  "valid_idempotency_key key =
     (case key of
        [] \<Rightarrow> False
      | c # cs \<Rightarrow>
          (is_letter c \<or> is_digit c) \<and>
          list_all (\<lambda>x. is_letter x \<or> is_digit x \<or> x \<in> set ''._:-'') cs \<and>
          7 \<le> length cs \<and> length cs \<le> 127)"

definition idempotency_key_from_request :: "string \<Rightarrow> string \<Rightarrow> error + string" where
  "idempotency_key_from_request header fallback =
     (let key = or_str (strip_str header) fallback in
      if valid_idempotency_key key then Inr key
      else Inl (FieldError ''idempotency_key''
             ''Idempotency-Key must contain 8 to 128 letters, numbers, dots, colons, underscores, or hyphens.''))"

text \<open>\<open>dump\<close> is \<open>json.dumps\<close> with sorted keys, \<open>sha\<close> the hexadecimal SHA-256.\<close>

definition request_fingerprint :: "(string \<Rightarrow> string) \<Rightarrow> (json \<Rightarrow> string) \<Rightarrow> json \<Rightarrow> string" where
  "request_fingerprint sha dump payload = sha (dump payload)"

section \<open>Stored checkouts: \<open>bookings/idempotency.py\<close>\<close>

definition checkout_of :: "nat \<Rightarrow> string \<Rightarrow> 'x bookings_db_scheme \<Rightarrow> checkout_request option" where
  "checkout_of customer key s =
     first_row (\<lambda>c. cr_customer c = customer \<and> cr_key c = key) (checkout_requests s)"

definition get_or_create_checkout ::
  "nat \<Rightarrow> string \<Rightarrow> string \<Rightarrow> 'x bookings_db_scheme \<Rightarrow> checkout_request \<times> 'x bookings_db_scheme" where
  "get_or_create_checkout customer key fingerprint s =
     (case checkout_of customer key s of
        Some c \<Rightarrow> (c, s)
      | None \<Rightarrow>
          let c = \<lparr>cr_id = new_id s, cr_customer = customer, cr_key = key, cr_fingerprint = fingerprint,
                   cr_bookings = [], cr_completed_at = None\<rparr>
          in (c, bump_id (s\<lparr>checkout_requests := checkout_requests s @ [c]\<rparr>)))"

definition stored_bookings :: "nat \<Rightarrow> nat list \<Rightarrow> 'x bookings_db_scheme \<Rightarrow> booking list" where
  "stored_bookings customer ks s =
     concat (map (\<lambda>k. case get_booking k s of
                        None \<Rightarrow> []
                      | Some b \<Rightarrow> if b_customer b = customer then [b] else []) ks)"

definition begin_checkout_request ::
  "nat \<Rightarrow> string \<Rightarrow> string \<Rightarrow> 'x bookings_db_scheme \<Rightarrow>
     error + ((checkout_request \<times> booking list) \<times> 'x bookings_db_scheme)" where
  "begin_checkout_request customer key fingerprint s =
     (let (c, s1) = get_or_create_checkout customer key fingerprint s in
      if cr_fingerprint c \<noteq> fingerprint
      then Inl (FieldError ''idempotency_key''
             ''This Idempotency-Key was already used for a different checkout request.'')
      else if cr_completed_at c = None then Inr ((c, []), s1)
      else
        let bs = stored_bookings customer (cr_bookings c) s1 in
        if length bs \<noteq> length (cr_bookings c)
        then Inl (ValidationError
               ''A previous checkout result could not be restored. Please contact support.'')
        else Inr ((c, bs), s1))"

definition complete_checkout_request ::
  "timestamp \<Rightarrow> checkout_request \<Rightarrow> booking list \<Rightarrow> 'x bookings_db_scheme \<Rightarrow> 'x bookings_db_scheme" where
  "complete_checkout_request now c bs s =
     s\<lparr>checkout_requests :=
         save_row cr_id (c\<lparr>cr_bookings := map b_id bs, cr_completed_at := Some now\<rparr>) (checkout_requests s)\<rparr>"

section \<open>The cart\<close>

definition cart_of :: "nat \<Rightarrow> 'x bookings_db_scheme \<Rightarrow> cart_item list" where
  "cart_of customer s = filter (\<lambda>c. ci_customer c = customer) (cart_items s)"

definition cart_row :: "nat \<Rightarrow> nat \<Rightarrow> 'x bookings_db_scheme \<Rightarrow> cart_item option" where
  "cart_row customer sv s =
     first_row (\<lambda>c. ci_customer c = customer \<and> ci_service c = sv) (cart_items s)"

definition save_cart_item :: "cart_item \<Rightarrow> 'x bookings_db_scheme \<Rightarrow> 'x bookings_db_scheme" where
  "save_cart_item c s = s\<lparr>cart_items := save_row ci_id c (cart_items s)\<rparr>"

definition advance_is_paid :: "booking \<Rightarrow> bool" where
  "advance_is_paid b =
     (b_payment_status b \<in> {PS_PARTIALLY_PAID, PS_PAID} \<and> b_advance_paid b \<ge> b_advance_required b)"

text \<open>Items whose booking has its advance paid leave the cart.\<close>

definition drop_paid_items :: "nat \<Rightarrow> 'x bookings_db_scheme \<Rightarrow> 'x bookings_db_scheme" where
  "drop_paid_items customer s =
     s\<lparr>cart_items := filter (\<lambda>c. \<not> (ci_customer c = customer \<and>
         (case ci_booking c of
            None \<Rightarrow> False
          | Some k \<Rightarrow> (case get_booking k s of None \<Rightarrow> False | Some b \<Rightarrow> advance_is_paid b)))) (cart_items s)\<rparr>"

record cart_line =
  cln_service :: nat
  cln_slug :: string
  cln_name :: string
  cln_price :: money
  cln_advance :: money
  cln_available :: bool
  cln_base_price :: money
  cln_training_fee :: money
  cln_quantity :: nat
  cln_booking :: "nat option"

record cart_answer =
  ca_lines :: "cart_line list"
  ca_count :: nat
  ca_total :: money
  ca_advance_total :: money

text \<open>The price and the deposit of a row: its booking's, or what the service costs now.\<close>

definition cart_prices :: "service \<Rightarrow> nat \<Rightarrow> booking option \<Rightarrow> error + (money \<times> money \<times> money)" where
  "cart_prices v quantity ob =
     (case ob of
        Some b \<Rightarrow> Inr (b_training_fee b, b_total b, b_advance_required b)
      | None \<Rightarrow>
          let q = int quantity;
              fee = (if sv_training_fee_per_unit v then sv_training_fee v * q else sv_training_fee v);
              price = effective_price v * q + fee
          in if sv_advance_type v = PERCENTAGE then
               (case sv_advance_value v of
                  None \<Rightarrow> Inl (TypeError ''unsupported operand type(s) for *: Decimal and NoneType'')
                | Some pct \<Rightarrow> Inr (fee, price, percent_of price pct))
             else Inr (fee, price, min (sv_advance_amount v) price))"

definition cart_line_of :: "cart_item \<Rightarrow> 'x bookings_db_scheme \<Rightarrow> error + cart_line" where
  "cart_line_of c s =
     (case get_service (ci_service c) s of
        None \<Rightarrow> Inl (DoesNotExist ''Service'')
      | Some v \<Rightarrow>
          let ob = (case ci_booking c of None \<Rightarrow> None | Some k \<Rightarrow> get_booking k s);
              quantity = (case ob of Some b \<Rightarrow> b_quantity b | None \<Rightarrow> ci_quantity c)
          in (case cart_prices v quantity ob of
                Inl e \<Rightarrow> Inl e
              | Inr (fee, price, deposit) \<Rightarrow>
                  Inr \<lparr>cln_service = sv_id v, cln_slug = sv_slug v, cln_name = sv_name v, cln_price = price,
                       cln_advance = deposit,
                       cln_available = (sv_active v \<and>
                         (case get_category (sv_category v) s of None \<Rightarrow> False | Some cat \<Rightarrow> ca_active cat)),
                       cln_base_price = sv_base_price v * int quantity, cln_training_fee = fee,
                       cln_quantity = quantity, cln_booking = ci_booking c\<rparr>))"

fun cart_lines :: "cart_item list \<Rightarrow> 'x bookings_db_scheme \<Rightarrow> error + cart_line list" where
  "cart_lines [] s = Inr []"
| "cart_lines (c # cs) s =
     (case cart_line_of c s of
        Inl e \<Rightarrow> Inl e
      | Inr l \<Rightarrow> (case cart_lines cs s of Inl e \<Rightarrow> Inl e | Inr ls \<Rightarrow> Inr (l # ls)))"

definition cart_response ::
  "nat \<Rightarrow> 'x bookings_db_scheme \<Rightarrow> error + (cart_answer \<times> 'x bookings_db_scheme)" where
  "cart_response customer s =
     (let s1 = drop_paid_items customer s in
      case cart_lines (cart_of customer s1) s1 of
        Inl e \<Rightarrow> Inl e
      | Inr ls \<Rightarrow> Inr (\<lparr>ca_lines = ls, ca_count = length ls, ca_total = sum_list (map cln_price ls),
                       ca_advance_total = sum_list (map cln_advance ls)\<rparr>, s1))"

section \<open>Adding to the cart\<close>

record cart_add =
  cd_service_ids :: "nat list"
  cd_merge :: bool
  cd_booking_ids :: "(nat \<times> nat) list"
  cd_quantities :: "(nat \<times> nat) list"

definition validate_cart_add :: "cart_add \<Rightarrow> error option" where
  "validate_cart_add a =
     (if cd_service_ids a = []
      then Some (FieldError ''service_ids'' ''Ensure this field has at least 1 elements.'')
      else if length (cd_service_ids a) > 100
      then Some (FieldError ''service_ids'' ''Ensure this field has no more than 100 elements.'')
      else if list_ex (\<lambda>(k, q). q < 1 \<or> q > 20) (cd_quantities a)
      then Some (FieldError ''quantities'' ''Ensure this value is between 1 and 20.'')
      else None)"

text \<open>The default order of services: the category's position, their own, the name.\<close>

definition service_before :: "'x catalogue_db_scheme \<Rightarrow> service \<Rightarrow> service \<Rightarrow> bool" where
  "service_before s v w =
     (let pos = (\<lambda>x. case get_category (sv_category x) s of None \<Rightarrow> 0 | Some c \<Rightarrow> ca_order c) in
      pos v < pos w \<or>
      (pos v = pos w \<and>
       (sv_order v < sv_order w \<or> (sv_order v = sv_order w \<and> str_less (sv_name v) (sv_name w)))))"

definition available_services :: "nat list \<Rightarrow> 'x catalogue_db_scheme \<Rightarrow> service list" where
  "available_services ks s =
     sort_before (service_before s)
       (filter (\<lambda>v. sv_id v \<in> set ks \<and> sv_active v \<and>
          (case get_category (sv_category v) s of None \<Rightarrow> False | Some c \<Rightarrow> ca_active c)) (services s))"

definition ensure_cart_row ::
  "timestamp \<Rightarrow> nat \<Rightarrow> nat \<Rightarrow> 'x bookings_db_scheme \<Rightarrow> cart_item \<times> 'x bookings_db_scheme" where
  "ensure_cart_row now customer sv s =
     (case cart_row customer sv s of
        Some c \<Rightarrow> (c, s)
      | None \<Rightarrow>
          let c = \<lparr>ci_id = new_id s, ci_customer = customer, ci_service = sv, ci_quantity = 1,
                   ci_booking = None, ci_created_at = now\<rparr>
          in (c, bump_id (s\<lparr>cart_items := cart_items s @ [c]\<rparr>)))"

definition link_cart_booking ::
  "nat \<Rightarrow> cart_item \<Rightarrow> nat \<Rightarrow> 'x bookings_db_scheme \<Rightarrow> error + 'x bookings_db_scheme" where
  "link_cart_booking customer c k s =
     (case get_booking k s of
        None \<Rightarrow> Inl (ValidationError ''A saved booking could not be verified.'')
      | Some b \<Rightarrow>
          if b_customer b \<noteq> customer \<or> b_service b \<noteq> ci_service c
          then Inl (ValidationError ''A saved booking could not be verified.'')
          else if list_ex (\<lambda>d. ci_booking d = Some k \<and> ci_id d \<noteq> ci_id c) (cart_items s)
          then Inl (IntegrityError ''bookings_cartitem.booking_id'')
          else Inr (save_cart_item (c\<lparr>ci_booking := Some k\<rparr>) s))"

definition add_service_to_cart ::
  "timestamp \<Rightarrow> user \<Rightarrow> request option \<Rightarrow> cart_add \<Rightarrow> service \<Rightarrow> 'x leads_db_scheme \<Rightarrow>
     error + 'x leads_db_scheme" where
  "add_service_to_cart now u rq a v s =
     (let (c, s1) = ensure_cart_row now (u_id u) (sv_id v) s;
          requested = map_of (cd_quantities a) (sv_id v);
          c2 = (case requested of
                  Some q \<Rightarrow> if q \<noteq> 0 \<and> ci_booking c = None then c\<lparr>ci_quantity := q\<rparr> else c
                | None \<Rightarrow> c);
          s2 = (if c2 = c then s1 else save_cart_item c2 s1)
      in case mark_cart_added now u v rq s2 of
           Inl e \<Rightarrow> Inl e
         | Inr (l, s3) \<Rightarrow>
             (case map_of (cd_booking_ids a) (sv_id v) of
                Some k \<Rightarrow> if ci_booking c2 = None then link_cart_booking (u_id u) c2 k s3 else Inr s3
              | None \<Rightarrow> Inr s3))"

fun add_services_to_cart ::
  "timestamp \<Rightarrow> user \<Rightarrow> request option \<Rightarrow> cart_add \<Rightarrow> service list \<Rightarrow> 'x leads_db_scheme \<Rightarrow>
     error + 'x leads_db_scheme" where
  "add_services_to_cart now u rq a [] s = Inr s"
| "add_services_to_cart now u rq a (v # vs) s =
     (case add_service_to_cart now u rq a v s of
        Inl e \<Rightarrow> Inl e
      | Inr s1 \<Rightarrow> add_services_to_cart now u rq a vs s1)"

definition cart_add_view ::
  "timestamp \<Rightarrow> user \<Rightarrow> request option \<Rightarrow> cart_add \<Rightarrow> 'x leads_db_scheme \<Rightarrow>
     error + ((cart_answer \<times> nat list) \<times> 'x leads_db_scheme)" where
  "cart_add_view now u rq a s =
     (case validate_cart_add a of
        Some e \<Rightarrow> Inl e
      | None \<Rightarrow>
          let ids = remdups (cd_service_ids a); vs = available_services ids s in
          if length vs \<noteq> length ids \<and> \<not> cd_merge a
          then Inl (ValidationError ''One or more services are unavailable. Remove them and try again.'')
          else if length (remdups (map ci_service (cart_of (u_id u) s) @ map sv_id vs)) > 100
          then Inl (ValidationError ''Your cart can contain up to 100 services.'')
          else case add_services_to_cart now u rq a vs s of
            Inl e \<Rightarrow> Inl e
          | Inr s1 \<Rightarrow>
              (case cart_response (u_id u) s1 of
                 Inl e \<Rightarrow> Inl e
               | Inr (ans, s2) \<Rightarrow> Inr ((ans, filter (\<lambda>k. k \<notin> set (map sv_id vs)) ids), s2)))"

definition cart_delete_view ::
  "nat \<Rightarrow> nat \<Rightarrow> 'x bookings_db_scheme \<Rightarrow> error + (cart_answer \<times> 'x bookings_db_scheme)" where
  "cart_delete_view customer sv s =
     cart_response customer
       (s\<lparr>cart_items := filter (\<lambda>c. \<not> (ci_customer c = customer \<and> ci_service c = sv)) (cart_items s)\<rparr>)"

definition cart_quantity_view ::
  "nat \<Rightarrow> nat \<Rightarrow> nat \<Rightarrow> 'x bookings_db_scheme \<Rightarrow> error + (cart_answer \<times> 'x bookings_db_scheme)" where
  "cart_quantity_view customer sv quantity s =
     (if quantity < 1 \<or> quantity > 20 then Inl (FieldError ''quantity'' ''Ensure this value is between 1 and 20.'')
      else case cart_row customer sv s of
        None \<Rightarrow> Inl (ValidationError ''Cart item was not found.'')
      | Some c \<Rightarrow>
          if ci_booking c \<noteq> None
          then Inl (ValidationError ''Quantity cannot change after a booking has been created.'')
          else cart_response customer (save_cart_item (c\<lparr>ci_quantity := quantity\<rparr>) s))"

section \<open>Checkout\<close>

record selection =
  se_service :: nat
  se_address :: nat
  se_slot :: nat
  se_request :: booking_request

fun checkout_items ::
  "timestamp \<Rightarrow> user \<Rightarrow> selection list \<Rightarrow> 'x leads_db_scheme \<Rightarrow>
     error + (booking list \<times> 'x leads_db_scheme)" where
  "checkout_items now u [] s = Inr ([], s)"
| "checkout_items now u (sel # sels) s =
     (case cart_row (u_id u) (se_service sel) s of
        None \<Rightarrow> Inl (ValidationError
                  ''A selected service is no longer in your cart. Refresh and try again.'')
      | Some c \<Rightarrow>
          (case (case ci_booking c of
                   Some k \<Rightarrow>
                     (case get_booking k s of
                        None \<Rightarrow> Inl (DoesNotExist ''Booking'')
                      | Some b \<Rightarrow>
                          if b_status b \<notin> {BS_PENDING_PAYMENT, BS_PAYMENT_FAILED}
                          then Inl (ValidationError
                                 ''A cart booking has already changed. Refresh your cart before continuing.'')
                          else Inr (b, s))
                 | None \<Rightarrow>
                     (case create_booking now u (se_service sel) (se_address sel) (se_slot sel)
                             ((se_request sel)\<lparr>br_quantity := ci_quantity c\<rparr>) s of
                        Inl e \<Rightarrow> Inl e
                      | Inr (b, s1) \<Rightarrow> Inr (b, save_cart_item (c\<lparr>ci_booking := Some (b_id b)\<rparr>) s1))) of
             Inl e \<Rightarrow> Inl e
           | Inr (b, s2) \<Rightarrow>
               (case checkout_items now u sels s2 of
                  Inl e \<Rightarrow> Inl e
                | Inr (bs, s3) \<Rightarrow> Inr (b # bs, s3))))"

definition cart_checkout_view ::
  "(string \<Rightarrow> string) \<Rightarrow> (json \<Rightarrow> string) \<Rightarrow> timestamp \<Rightarrow> user \<Rightarrow> string \<Rightarrow> json \<Rightarrow> selection list \<Rightarrow>
     'x leads_db_scheme \<Rightarrow> error + ((booking list \<times> cart_answer) \<times> 'x leads_db_scheme)" where
  "cart_checkout_view sha dump now u header data sels s =
     (let ids = map se_service sels in
      if sels = [] then Inl (FieldError ''items'' ''This list may not be empty.'')
      else if length ids > 100 \<or> \<not> distinct ids
      then Inl (FieldError ''items'' ''Choose up to 100 different services.'')
      else
        let fp = request_fingerprint sha dump data in
        case idempotency_key_from_request header (''cart-'' @ fp) of
          Inl e \<Rightarrow> Inl e
        | Inr key \<Rightarrow>
            (case begin_checkout_request (u_id u) key fp s of
               Inl e \<Rightarrow> Inl e
             | Inr ((c, previous), s1) \<Rightarrow>
                 if previous \<noteq> [] then
                   (case cart_response (u_id u) s1 of
                      Inl e \<Rightarrow> Inl e
                    | Inr (ans, s2) \<Rightarrow> Inr ((previous, ans), s2))
                 else
                   (case checkout_items now u sels s1 of
                      Inl e \<Rightarrow> Inl e
                    | Inr (bs, s2) \<Rightarrow>
                        (case cart_response (u_id u) (complete_checkout_request now c bs s2) of
                           Inl e \<Rightarrow> Inl e
                         | Inr (ans, s3) \<Rightarrow> Inr ((bs, ans), s3)))))"

text \<open>\<open>BookingViewSet.create\<close>: one booking, stored under the same kind of key.\<close>

definition create_booking_view ::
  "(string \<Rightarrow> string) \<Rightarrow> (json \<Rightarrow> string) \<Rightarrow> timestamp \<Rightarrow> user \<Rightarrow> string \<Rightarrow> json \<Rightarrow> selection \<Rightarrow>
     'x leads_db_scheme \<Rightarrow> error + (booking \<times> 'x leads_db_scheme)" where
  "create_booking_view sha dump now u header data sel s =
     (let fp = request_fingerprint sha dump data; q = br_quantity (se_request sel) in
      if q < 1 \<or> q > 20 then Inl (FieldError ''quantity'' ''Ensure this value is between 1 and 20.'')
      else case idempotency_key_from_request header (''booking-'' @ fp) of
        Inl e \<Rightarrow> Inl e
      | Inr key \<Rightarrow>
          (case begin_checkout_request (u_id u) key fp s of
             Inl e \<Rightarrow> Inl e
           | Inr ((c, b # bs), s1) \<Rightarrow> Inr (b, s1)
           | Inr ((c, []), s1) \<Rightarrow>
               (case create_booking now u (se_service sel) (se_address sel) (se_slot sel) (se_request sel) s1 of
                  Inl e \<Rightarrow> Inl e
                | Inr (b, s2) \<Rightarrow> Inr (b, complete_checkout_request now c [b] s2))))"

section \<open>The booking views\<close>

text \<open>\<open>BookingViewSet\<close>: a customer finds only their own bookings.\<close>

definition cancel_booking_view ::
  "booking_config \<Rightarrow> timestamp \<Rightarrow> nat \<Rightarrow> nat \<Rightarrow> string \<Rightarrow> 'x scheduling_db_scheme \<Rightarrow>
     error + (booking \<times> 'x scheduling_db_scheme)" where
  "cancel_booking_view cfg now me k notes s =
     (case get_booking k s of
        None \<Rightarrow> Inl (ErrorResponse 404 ''Not found.'')
      | Some b \<Rightarrow>
          if b_customer b \<noteq> me then Inl (ErrorResponse 404 ''Not found.'')
          else cancel_booking cfg now k (Some me) notes CustomerActor s)"

definition reschedule_booking_view ::
  "booking_config \<Rightarrow> timestamp \<Rightarrow> nat \<Rightarrow> nat \<Rightarrow> nat \<Rightarrow> string \<Rightarrow> 'x scheduling_db_scheme \<Rightarrow>
     error + (booking \<times> 'x scheduling_db_scheme)" where
  "reschedule_booking_view cfg now me k slot_id notes s =
     (case get_booking k s of
        None \<Rightarrow> Inl (ErrorResponse 404 ''Not found.'')
      | Some b \<Rightarrow>
          if b_customer b \<noteq> me then Inl (ErrorResponse 404 ''Not found.'')
          else reschedule_booking cfg now k slot_id me notes s)"

datatype admin_operation = AdminStart | AdminComplete | AdminCancel

definition admin_booking_operation ::
  "booking_config \<Rightarrow> timestamp \<Rightarrow> admin_operation \<Rightarrow> nat \<Rightarrow> nat \<Rightarrow> string \<Rightarrow> request option \<Rightarrow>
     'x scheduling_db_scheme \<Rightarrow> error + (booking \<times> 'x scheduling_db_scheme)" where
  "admin_booking_operation cfg now op admin k notes rq s =
     (let (result, action) =
            (case op of
               AdminStart \<Rightarrow> (start_booking k (Some admin) notes s, AA_BOOKING_START)
             | AdminComplete \<Rightarrow> (complete_booking cfg now k (Some admin) notes s, AA_BOOKING_COMPLETE)
             | AdminCancel \<Rightarrow> (cancel_booking cfg now k (Some admin) notes AdminActor s, AA_BOOKING_CANCEL))
      in case result of
           Inl e \<Rightarrow> Inl e
         | Inr (b, s1) \<Rightarrow>
             Inr (b, audit_event action ''booking'' (nat_str (b_id b)) (Some admin) rq
                       (JObj [(''notes'', JStr notes)]) s1))"

definition close_work_order ::
  "nat \<Rightarrow> nat \<Rightarrow> string \<Rightarrow> request option \<Rightarrow> 'x payments_db_scheme \<Rightarrow>
     error + (booking \<times> 'x payments_db_scheme)" where
  "close_work_order admin k notes rq s =
     (case get_booking k s of
        None \<Rightarrow> Inl (ErrorResponse 404 ''Not found.'')
      | Some b \<Rightarrow>
          if \<not> b_manual b \<and> \<not> list_ex (\<lambda>p. p_booking p = k \<and> p_status p = PR_SUCCESS) (payments s)
          then Inl (ErrorResponse 404 ''Not found.'')
          else (case close_booking k (Some admin) notes s of
                  Inl e \<Rightarrow> Inl e
                | Inr (b2, s1) \<Rightarrow>
                    Inr (b2, audit_event AA_WORK_ORDER_CLOSE ''booking'' (nat_str k) (Some admin) rq
                               (JObj [(''notes'', JStr notes)]) s1)))"

definition record_balance_view ::
  "timestamp \<Rightarrow> nat \<Rightarrow> nat \<Rightarrow> money \<Rightarrow> string \<Rightarrow> string \<Rightarrow> request option \<Rightarrow> 'x payments_db_scheme \<Rightarrow>
     error + (booking \<times> 'x payments_db_scheme)" where
  "record_balance_view now admin k amount method notes rq s =
     (if method \<notin> set [''CASH'', ''UPI'', ''CARD_OFFLINE'', ''OTHER'']
      then Inl (FieldError ''method'' ''is not a valid choice.'')
      else case record_balance_collection now k amount method (Some admin) notes s of
        Inl e \<Rightarrow> Inl e
      | Inr ((b, p), s1) \<Rightarrow>
          Inr (b, audit_event AA_RECORD_BALANCE ''booking'' (nat_str k) (Some admin) rq
                    (JObj [(''amount'', PyObj (money_str amount)), (''method'', JStr method),
                           (''notes'', JStr notes)]) s1))"

section \<open>Lemmas: stored checkouts\<close>

text \<open>Stored checkouts have distinct keys below the supply, and so have the bookings; the bookings in a
  customer's cart are stored and the customer's own.\<close>

definition checkouts_ok :: "'x bookings_db_scheme \<Rightarrow> bool" where
  "checkouts_ok s =
     (unique_rows cr_id (checkout_requests s) \<and> list_all (\<lambda>c. cr_id c < next_id s) (checkout_requests s) \<and>
      unique_rows b_id (bookings s) \<and> list_all (\<lambda>b. b_id b < next_id s) (bookings s))"

definition booking_owned :: "nat \<Rightarrow> nat \<Rightarrow> 'x bookings_db_scheme \<Rightarrow> bool" where
  "booking_owned me k s = (case get_booking k s of None \<Rightarrow> False | Some b \<Rightarrow> b_customer b = me)"

definition cart_owned :: "nat \<Rightarrow> 'x bookings_db_scheme \<Rightarrow> bool" where
  "cart_owned me s =
     list_all (\<lambda>c. ci_customer c = me \<longrightarrow>
        (case ci_booking c of None \<Rightarrow> True | Some k \<Rightarrow> booking_owned me k s)) (cart_items s)"

lemma cart_ownedD:
  "cart_owned me s \<Longrightarrow> c \<in> set (cart_items s) \<Longrightarrow> ci_customer c = me \<Longrightarrow> ci_booking c = Some k \<Longrightarrow>
     booking_owned me k s"
  by (auto simp: cart_owned_def list_all_iff split: option.splits)

lemma begin_checkout_Inr:
  assumes "begin_checkout_request me key fp s = Inr ((c, bs), s1)" and "checkouts_ok s"
  shows "checkouts_ok s1 \<and> checkout_of me key s1 = Some c \<and> cr_fingerprint c = fp \<and>
         bookings s1 = bookings s \<and> cart_items s1 = cart_items s \<and>
         (bs \<noteq> [] \<longrightarrow> s1 = s \<and> cr_completed_at c \<noteq> None \<and>
            bs = stored_bookings me (cr_bookings c) s \<and> length bs = length (cr_bookings c))"
proof (cases "checkout_of me key s")
  case (Some c')
  with assms show ?thesis
    by (auto simp: begin_checkout_request_def get_or_create_checkout_def Let_def split: if_splits)
next
  case None
  let ?c = "\<lparr>cr_id = new_id s, cr_customer = me, cr_key = key, cr_fingerprint = fp, cr_bookings = [],
             cr_completed_at = None\<rparr>"
  have eq: "c = ?c" "bs = []" "s1 = bump_id (s\<lparr>checkout_requests := checkout_requests s @ [?c]\<rparr>)"
    using assms(1) None by (auto simp: begin_checkout_request_def get_or_create_checkout_def Let_def)
  have "checkouts_ok s1"
    using assms(2) by (auto simp: eq checkouts_ok_def bump_id_def new_id_def list_all_iff)
  moreover have "checkout_of me key s1 = Some c"
    using None
    by (simp add: eq checkout_of_def bump_id_def first_row_append first_row_def [of _ "[?c]"])
  ultimately show ?thesis by (simp add: eq bump_id_def)
qed

lemma begin_checkout_again:
  "checkout_of me key s = Some c \<Longrightarrow> cr_fingerprint c = fp \<Longrightarrow> cr_completed_at c \<noteq> None \<Longrightarrow>
     length (stored_bookings me (cr_bookings c) s) = length (cr_bookings c) \<Longrightarrow>
     begin_checkout_request me key fp s = Inr ((c, stored_bookings me (cr_bookings c) s), s)"
  by (auto simp: begin_checkout_request_def get_or_create_checkout_def)

lemma stored_bookings_all:
  "(\<And>b. b \<in> set bs \<Longrightarrow> get_booking (b_id b) s = Some b \<and> b_customer b = me) \<Longrightarrow>
     stored_bookings me (map b_id bs) s = bs"
  by (induction bs) (simp_all add: stored_bookings_def)

lemma complete_checkout_stored:
  assumes "checkout_of me key s = Some c" and "checkouts_ok s"
  shows "checkout_of me key (complete_checkout_request now c bs s) =
           Some (c\<lparr>cr_bookings := map b_id bs, cr_completed_at := Some now\<rparr>) \<and>
         checkouts_ok (complete_checkout_request now c bs s)"
proof -
  let ?c = "c\<lparr>cr_bookings := map b_id bs, cr_completed_at := Some now\<rparr>"
  have "c \<in> set (checkout_requests s)" "cr_customer c = me \<and> cr_key c = key"
    using first_row_SomeD [OF assms(1) [unfolded checkout_of_def]] by simp_all
  moreover from this have "checkout_of me key (complete_checkout_request now c bs s) = Some ?c"
    using assms(1) first_row_save_row [of "\<lambda>c. cr_customer c = me \<and> cr_key c = key" "checkout_requests s" c ?c cr_id]
    by (simp add: checkout_of_def complete_checkout_request_def)
  ultimately show ?thesis
    using assms(2) by (auto simp: checkouts_ok_def complete_checkout_request_def list_all_iff in_set_save_row)
qed

section \<open>Lemmas: the items of a checkout\<close>

lemma cart_rowD: "cart_row me sv s = Some c \<Longrightarrow> c \<in> set (cart_items s) \<and> ci_customer c = me \<and> ci_service c = sv"
  unfolding cart_row_def by (drule first_row_SomeD) simp

lemma get_booking_grows:
  "bookings s' = bookings s @ new \<Longrightarrow> get_booking k s = Some b \<Longrightarrow> get_booking k s' = Some b"
  by (simp add: get_booking_def find_row_append)

lemma booking_owned_grows:
  "bookings s' = bookings s @ new \<Longrightarrow> booking_owned me k s \<Longrightarrow> booking_owned me k s'"
  by (auto simp: booking_owned_def get_booking_grows split: option.splits)

text \<open>What one item of a checkout does: it finds the booking of its cart row or makes it.\<close>

lemma checkout_item:
  assumes item: "checkout_items now u (sel # sels) s = Inr (bs, s')" and ok: "checkouts_ok s"
    and owned: "cart_owned (u_id u) s"
  obtains b s1 bs1 where "bs = b # bs1" and "checkout_items now u sels s1 = Inr (bs1, s')"
    and "checkouts_ok s1" and "cart_owned (u_id u) s1" and "get_booking (b_id b) s1 = Some b"
    and "b_customer b = u_id u" and "\<exists>new. bookings s1 = bookings s @ new \<and> length new \<le> 1"
    and "checkout_requests s1 = checkout_requests s"
proof -
  obtain c where c: "cart_row (u_id u) (se_service sel) s = Some c"
    using item by (cases "cart_row (u_id u) (se_service sel) s") simp_all
  note row = cart_rowD [OF c]
  show thesis
  proof (cases "ci_booking c")
    case (Some k)
    then obtain b where b: "get_booking k s = Some b"
      using item c by (cases "get_booking k s") simp_all
    then obtain bs1 where "bs = b # bs1" "checkout_items now u sels s = Inr (bs1, s')"
      using item c Some by (auto split: if_splits sum.splits)
    moreover have "b_customer b = u_id u"
      using cart_ownedD [OF owned _ _ Some] row b by (simp add: booking_owned_def)
    moreover have "get_booking (b_id b) s = Some b" using b booking_table.get_key [OF b] by simp
    ultimately show thesis using ok owned by (intro that [of b bs1 s]) auto
  next
    case None
    obtain b s0 where made: "create_booking now u (se_service sel) (se_address sel) (se_slot sel)
        ((se_request sel)\<lparr>br_quantity := ci_quantity c\<rparr>) s = Inr (b, s0)"
      using item c None by (auto split: sum.splits)
    let ?s1 = "save_cart_item (c\<lparr>ci_booking := Some (b_id b)\<rparr>) s0"
    obtain bs1 where rest: "bs = b # bs1" "checkout_items now u sels ?s1 = Inr (bs1, s')"
      using item c None made by (auto split: sum.splits)
    from create_booking_Inr [OF made] have b: "b_customer b = u_id u" "b_id b = next_id s"
      and s0: "bookings s0 = bookings s @ [b]" "b_id b < next_id s0" "next_id s \<le> next_id s0"
        "cart_items s0 = cart_items s" "checkout_requests s0 = checkout_requests s"
      by (auto simp: new_booking_def new_id_def)
    have s1: "bookings ?s1 = bookings s @ [b]" "next_id ?s1 = next_id s0" "checkout_requests ?s1 = checkout_requests s"
      "cart_items ?s1 = save_row ci_id (c\<lparr>ci_booking := Some (b_id b)\<rparr>) (cart_items s)"
      using s0 by (simp_all add: save_cart_item_def)
    have ok1: "checkouts_ok ?s1"
      using ok b s0 s1 by (fastforce simp: checkouts_ok_def list_all_iff)
    then have mine: "get_booking (b_id b) ?s1 = Some b"
      using s1(1) by (simp add: checkouts_ok_def get_booking_def find_row_unique)
    have "cart_owned (u_id u) ?s1"
      unfolding cart_owned_def list_all_iff
    proof
      fix d
      assume "d \<in> set (cart_items ?s1)"
      then have "d \<in> set (cart_items s) \<or> d = c\<lparr>ci_booking := Some (b_id b)\<rparr>"
        using s1(4) by (auto simp: in_set_save_row)
      then show "ci_customer d = u_id u \<longrightarrow>
        (case ci_booking d of None \<Rightarrow> True | Some k \<Rightarrow> booking_owned (u_id u) k ?s1)"
      proof
        assume "d \<in> set (cart_items s)"
        from cart_ownedD [OF owned this] show ?thesis
          using booking_owned_grows [OF s1(1)] by (simp split: option.split)
      qed (use mine b in \<open>simp add: booking_owned_def\<close>)
    qed
    with rest ok1 mine b s1 show thesis by (intro that [of b bs1 ?s1]) auto
  qed
qed

lemma checkout_items_Inr:
  assumes "checkout_items now u sels s = Inr (bs, s')" and "checkouts_ok s" and "cart_owned (u_id u) s"
  shows "length bs = length sels \<and> checkouts_ok s' \<and> checkout_requests s' = checkout_requests s \<and>
         (\<exists>new. bookings s' = bookings s @ new \<and> length new \<le> length sels) \<and>
         (\<forall>b\<in>set bs. get_booking (b_id b) s' = Some b \<and> b_customer b = u_id u)"
  using assms
proof (induction sels arbitrary: s bs)
  case Nil
  then show ?case by simp
next
  case (Cons sel sels)
  show ?case
  proof (rule checkout_item [OF Cons.prems])
    fix b s1 bs1
    assume b: "bs = b # bs1" "checkout_items now u sels s1 = Inr (bs1, s')" "checkouts_ok s1"
        "cart_owned (u_id u) s1" "get_booking (b_id b) s1 = Some b" "b_customer b = u_id u"
        "checkout_requests s1 = checkout_requests s"
      and "\<exists>new. bookings s1 = bookings s @ new \<and> length new \<le> 1"
    then obtain new where new: "bookings s1 = bookings s @ new" "length new \<le> 1" by blast
    note ih = Cons.IH [OF b(2-4)]
    then obtain more where more: "bookings s' = bookings s1 @ more" "length more \<le> length sels" by blast
    have "get_booking (b_id b) s' = Some b" using get_booking_grows [OF more(1) b(5)] .
    moreover have "bookings s' = bookings s @ (new @ more)" "length (new @ more) \<le> length (sel # sels)"
      using new more by simp_all
    moreover have "length bs = length (sel # sels)" "checkout_requests s' = checkout_requests s"
      using b(1,7) ih by simp_all
    ultimately show ?thesis using b(1,6) ih by (metis set_ConsD)
  qed
qed

lemma get_booking_cart: "get_booking k (s\<lparr>cart_items := xs\<rparr>) = get_booking k s"
  by (simp add: get_booking_def)

lemma cart_owned_cong:
  assumes "bookings s' = bookings s" and "cart_items s' = cart_items s"
  shows "cart_owned me s' = cart_owned me s"
proof -
  have "booking_owned me k s' = booking_owned me k s" for k
    using assms(1) by (simp add: booking_owned_def get_booking_def)
  with assms(2) show ?thesis by (simp add: cart_owned_def cong: option.case_cong)
qed

lemma cart_response_Inr:
  assumes "cart_response me s = Inr (ans, s')"
  shows "cart_response me s' = Inr (ans, s') \<and> bookings s' = bookings s \<and>
         checkout_requests s' = checkout_requests s \<and> next_id s' = next_id s"
proof -
  have s': "s' = drop_paid_items me s"
    and lines: "cart_lines (cart_of me s') s' = Inr (ca_lines ans)"
    and ans: "ans = \<lparr>ca_lines = ca_lines ans, ca_count = length (ca_lines ans),
        ca_total = sum_list (map cln_price (ca_lines ans)), ca_advance_total = sum_list (map cln_advance (ca_lines ans))\<rparr>"
    using assms by (auto simp: cart_response_def Let_def split: sum.splits)
  have keep: "bookings s' = bookings s" "checkout_requests s' = checkout_requests s" "next_id s' = next_id s"
    by (simp_all add: s' drop_paid_items_def)
  have "drop_paid_items me s' = s'"
    unfolding s' drop_paid_items_def by (simp add: get_booking_cart cong: option.case_cong)
  with lines ans have "cart_response me s' = Inr (ans, s')" by (simp add: cart_response_def Let_def)
  with keep show ?thesis by blast
qed

lemma stored_bookings_cong: "bookings s' = bookings s \<Longrightarrow> stored_bookings me ks s' = stored_bookings me ks s"
  by (simp add: stored_bookings_def get_booking_def)

section \<open>Properties\<close>

text \<open>C9: A checkout is made once for its idempotency key: an accepted checkout adds at most one booking for
  each selected item; the same request sent again, at any later time, answers with the same bookings and the
  same cart and changes nothing; the key with another body is refused and changes nothing.\<close>

theorem checkout_made_once:
  assumes checkout: "cart_checkout_view sha dump now u header data sels s = Inr ((bs, ans), s')"
    and ok: "checkouts_ok s" and owned: "cart_owned (u_id u) s"
  shows "checkouts_ok s' \<and> (\<exists>new. bookings s' = bookings s @ new \<and> length new \<le> length sels) \<and>
         (\<forall>now2. cart_checkout_view sha dump now2 u header data sels s' = Inr ((bs, ans), s')) \<and>
         (\<forall>now2 data2 sels2. strip_str header \<noteq> '''' \<and> sha (dump data2) \<noteq> sha (dump data) \<longrightarrow>
            (\<exists>e. cart_checkout_view sha dump now2 u header data2 sels2 s' = Inl e))"
proof -
  define fp where "fp = request_fingerprint sha dump data"
  have sels: "sels \<noteq> []" "\<not> (length (map se_service sels) > 100 \<or> \<not> distinct (map se_service sels))"
    using checkout by (auto simp: cart_checkout_view_def Let_def split: if_splits)
  obtain key where key: "idempotency_key_from_request header (''cart-'' @ fp) = Inr key"
    using checkout sels
    by (cases "idempotency_key_from_request header (''cart-'' @ fp)") (auto simp: cart_checkout_view_def Let_def fp_def)
  have view: "cart_checkout_view sha dump n u header data sels t =
      (case begin_checkout_request (u_id u) key fp t of
         Inl e \<Rightarrow> Inl e
       | Inr ((c, previous), s1) \<Rightarrow>
           if previous \<noteq> [] then
             (case cart_response (u_id u) s1 of Inl e \<Rightarrow> Inl e | Inr (ans, s2) \<Rightarrow> Inr ((previous, ans), s2))
           else
             (case checkout_items n u sels s1 of
                Inl e \<Rightarrow> Inl e
              | Inr (bs, s2) \<Rightarrow>
                  (case cart_response (u_id u) (complete_checkout_request n c bs s2) of
                     Inl e \<Rightarrow> Inl e
                   | Inr (ans, s3) \<Rightarrow> Inr ((bs, ans), s3))))" for n t
    using sels key unfolding cart_checkout_view_def Let_def fp_def by simp
  obtain c previous s1 where begun: "begin_checkout_request (u_id u) key fp s = Inr ((c, previous), s1)"
    using checkout unfolding view by (cases "begin_checkout_request (u_id u) key fp s") auto
  note b = begin_checkout_Inr [OF begun ok]
  have outcome: "\<exists>t d. cart_response (u_id u) t = Inr (ans, s') \<and> checkouts_ok t \<and> bs \<noteq> [] \<and>
      checkout_of (u_id u) key t = Some d \<and> cr_fingerprint d = fp \<and> cr_completed_at d \<noteq> None \<and>
      stored_bookings (u_id u) (cr_bookings d) t = bs \<and> length bs = length (cr_bookings d) \<and>
      (\<exists>new. bookings t = bookings s @ new \<and> length new \<le> length sels)"
  proof (cases "previous = []")
    case False
    then have "cart_response (u_id u) s = Inr (ans, s')" "bs = previous" "s1 = s"
      using checkout b unfolding view begun by (auto split: sum.splits)
    with b False show ?thesis by (intro exI [of _ s] exI [of _ c]) auto
  next
    case True
    obtain s2 where items: "checkout_items now u sels s1 = Inr (bs, s2)"
      and resp: "cart_response (u_id u) (complete_checkout_request now c bs s2) = Inr (ans, s')"
      using checkout True unfolding view begun by (auto split: sum.splits)
    have owned1: "cart_owned (u_id u) s1"
      using owned b cart_owned_cong [of s1 s] by simp
    from checkout_items_Inr [OF items _ owned1] b
    have len: "length bs = length sels" and ok2: "checkouts_ok s2"
      and same: "checkout_requests s2 = checkout_requests s1"
      and stored: "\<forall>x\<in>set bs. get_booking (b_id x) s2 = Some x \<and> b_customer x = u_id u"
      and new: "\<exists>new. bookings s2 = bookings s @ new \<and> length new \<le> length sels" by auto
    have "checkout_of (u_id u) key s2 = Some c" using b same by (simp add: checkout_of_def)
    note comp = complete_checkout_stored [OF this ok2, of now bs]
    have rows: "bookings (complete_checkout_request now c bs s2) = bookings s2"
      by (simp add: complete_checkout_request_def)
    have "stored_bookings (u_id u) (map b_id bs) (complete_checkout_request now c bs s2) = bs"
      using stored stored_bookings_all [of bs s2 "u_id u"] stored_bookings_cong [OF rows] by simp
    with comp resp b len sels new rows show ?thesis
      by (intro exI [of _ "complete_checkout_request now c bs s2"]
          exI [of _ "c\<lparr>cr_bookings := map b_id bs, cr_completed_at := Some now\<rparr>"]) auto
  qed
  from outcome obtain t d where resp: "cart_response (u_id u) t = Inr (ans, s')" and okt: "checkouts_ok t" and bs: "bs \<noteq> []"
    and d: "checkout_of (u_id u) key t = Some d" "cr_fingerprint d = fp" "cr_completed_at d \<noteq> None"
      "stored_bookings (u_id u) (cr_bookings d) t = bs" "length bs = length (cr_bookings d)"
    and new: "\<exists>new. bookings t = bookings s @ new \<and> length new \<le> length sels" by blast
  note r = cart_response_Inr [OF resp]
  then have d': "checkout_of (u_id u) key s' = Some d" "stored_bookings (u_id u) (cr_bookings d) s' = bs"
    using d stored_bookings_cong [of s' t] by (simp_all add: checkout_of_def)
  have "begin_checkout_request (u_id u) key fp s' = Inr ((d, bs), s')"
    using begin_checkout_again [OF d'(1) d(2,3)] d'(2) d(5) by simp
  then have "cart_checkout_view sha dump now2 u header data sels s' = Inr ((bs, ans), s')" for now2
    unfolding view using bs r by simp
  moreover have "\<exists>e. cart_checkout_view sha dump now2 u header data2 sels2 s' = Inl e"
    if "strip_str header \<noteq> ''''" "sha (dump data2) \<noteq> sha (dump data)" for now2 data2 sels2
  proof -
    have "idempotency_key_from_request header (''cart-'' @ request_fingerprint sha dump data2) = Inr key"
      using key that(1) by (simp add: idempotency_key_from_request_def or_str_def)
    moreover have "\<exists>e. begin_checkout_request (u_id u) key (request_fingerprint sha dump data2) s' = Inl e"
      using d' d(2) that(2)
      by (simp add: begin_checkout_request_def get_or_create_checkout_def request_fingerprint_def fp_def)
    ultimately show ?thesis by (auto simp: cart_checkout_view_def Let_def)
  qed
  moreover have "checkouts_ok s'" using okt r by (simp add: checkouts_ok_def)
  ultimately show ?thesis using new r by auto
qed

definition sample_cart_db :: leads_db where
  "sample_cart_db = (sample_leads_db [sample_user 1 CUSTOMER []] [] [] [])\<lparr>cart_items :=
     [\<lparr>ci_id = 61, ci_customer = 1, ci_service = 4, ci_quantity = 2, ci_booking = None, ci_created_at = 0\<rparr>]\<rparr>"

definition sample_selection :: selection where
  "sample_selection = \<lparr>se_service = 4, se_address = 11, se_slot = 21,
     se_request = \<lparr>br_problem = '''', br_customer_notes = '''', br_contact_phone = '''', br_quantity = 1\<rparr>\<rparr>"

theorem checkout_made_once_witness:
  "\<exists>bs ans s'. cart_checkout_view (\<lambda>x. x) (\<lambda>x. ''body'') 0 (sample_user 1 CUSTOMER []) ''key-00001'' JNull
       [sample_selection] sample_cart_db = Inr ((bs, ans), s') \<and> map b_quantity bs = [2] \<and>
     cart_checkout_view (\<lambda>x. x) (\<lambda>x. ''body'') 5 (sample_user 1 CUSTOMER []) ''key-00001'' JNull
       [sample_selection] s' = Inr ((bs, ans), s')"
proof -
  let ?u = "sample_user 1 CUSTOMER []"
  let ?r = "cart_checkout_view (\<lambda>x. x) (\<lambda>x. ''body'') 0 ?u ''key-00001'' JNull [sample_selection] sample_cart_db"
  have "case ?r of Inl e \<Rightarrow> False | Inr ((bs, ans), s') \<Rightarrow> map b_quantity bs = [2]" by code_simp
  then obtain bs ans s' where s': "?r = Inr ((bs, ans), s')" "map b_quantity bs = [2]"
    by (auto split: sum.splits prod.splits)
  have "checkouts_ok sample_cart_db" "cart_owned (u_id ?u) sample_cart_db" by code_simp+
  note again = checkout_made_once [OF s'(1) this, THEN conjunct2, THEN conjunct2, THEN conjunct1, rule_format, of 5]
  show ?thesis by (intro exI conjI) (rule s'(1), rule s'(2), rule again)
qed

end
