(* ===== verification/Catalogue_Views.thy ===== *)
theory Catalogue_Views
  imports Reviews Operations Cart
begin

text \<open>
  The catalogue's handlers, \<open>apps/catalogue/views.py\<close>, with the images and the frequent questions that
  refer to it: the public lists and their filters, the administrator's changes with their audit events,
  and the deletion of rows with the rules of the foreign keys. Media storage is a parameter: whether
  it accepts an upload.
\<close>

section \<open>Images and questions\<close>

record upload =
  up_name :: string
  up_content_type :: string
  up_size :: int

record service_image =
  im_id :: nat
  im_service :: nat
  im_image :: string
  im_alt :: string
  im_order :: nat
  im_active :: bool

record faq =
  fq_id :: nat
  fq_question :: string
  fq_answer :: string
  fq_category :: "nat option"
  fq_service :: "nat option"
  fq_order :: nat
  fq_active :: bool

text \<open>\<open>service_pictures\<close> holds the image fields of a service, by its key.\<close>

record storefront_db = reviews_db +
  service_images :: "service_image list"
  service_pictures :: "(nat \<times> (string \<times> string) list) list"
  faqs :: "faq list"

definition max_image_size_bytes :: int where
  "max_image_size_bytes = 5 * 1024 * 1024"

definition allowed_image_content_types :: "string list" where
  "allowed_image_content_types = [''image/jpeg'', ''image/png'', ''image/webp'']"

definition validate_uploaded_image :: "upload option \<Rightarrow> string option" where
  "validate_uploaded_image file =
     (case file of
        None \<Rightarrow> None
      | Some f \<Rightarrow>
          if up_content_type f \<notin> set allowed_image_content_types
          then Some ''Upload a JPEG, PNG, or WebP image.''
          else if up_size f > max_image_size_bytes then Some ''Image size cannot exceed 5 MB.''
          else None)"

definition media_storage_error :: error where
  "media_storage_error =
     FieldErrors [(''image'', ''Image storage rejected the upload. Verify the Cloudinary cloud name, API key, and API secret.'')]"

definition picture_fields :: "string list" where
  "picture_fields =
     [''cover_image'', ''landing_thumbnail'', ''popup_cover_image'', ''popup_content_image'', ''list_image'']"

definition pictures_of :: "nat \<Rightarrow> 'x storefront_db_scheme \<Rightarrow> (string \<times> string) list" where
  "pictures_of k s = (case map_of (service_pictures s) k of None \<Rightarrow> [] | Some ps \<Rightarrow> ps)"

definition picture :: "string \<Rightarrow> (string \<times> string) list \<Rightarrow> string" where
  "picture field ps = (case map_of ps field of None \<Rightarrow> '''' | Some name \<Rightarrow> name)"

fun check_uploads :: "(string \<times> upload) list \<Rightarrow> error option" where
  "check_uploads [] = None"
| "check_uploads ((field, f) # ups) =
     (case validate_uploaded_image (Some f) of
        Some msg \<Rightarrow> Some (FieldError field msg)
      | None \<Rightarrow> check_uploads ups)"

definition store_pictures ::
  "(upload \<Rightarrow> bool) \<Rightarrow> nat \<Rightarrow> (string \<times> upload) list \<Rightarrow> 'x storefront_db_scheme \<Rightarrow> error + 'x storefront_db_scheme" where
  "store_pictures stored k ups s =
     (if list_ex (\<lambda>(field, f). \<not> stored f) ups then Inl media_storage_error
      else Inr (s\<lparr>service_pictures :=
             (k, fold (\<lambda>(field, f). set_item field (up_name f)) ups (pictures_of k s)) #
             filter (\<lambda>(i, ps). i \<noteq> k) (service_pictures s)\<rparr>))"

section \<open>The public lists\<close>

definition icontains :: "string \<Rightarrow> string \<Rightarrow> bool" where
  "icontains sub x = contains_str (lower_str sub) (lower_str x)"

definition category_before :: "category \<Rightarrow> category \<Rightarrow> bool" where
  "category_before c d = (ca_order c < ca_order d \<or> (ca_order c = ca_order d \<and> str_less (ca_name c) (ca_name d)))"

definition list_categories :: "'x catalogue_db_scheme \<Rightarrow> category list" where
  "list_categories s = sort_before category_before (filter ca_active (categories s))"

text \<open>The service is active and so is its category: \<open>filter(is_active=True, category__is_active=True)\<close>.\<close>

definition is_public :: "'x catalogue_db_scheme \<Rightarrow> service \<Rightarrow> bool" where
  "is_public s v =
     (sv_active v \<and> (case get_category (sv_category v) s of None \<Rightarrow> False | Some c \<Rightarrow> ca_active c))"

record service_query =
  qs_category :: string
  qs_featured :: "string option"
  qs_search :: string
  qs_postal_code :: string
  qs_city :: string

definition truthy_param :: "string \<Rightarrow> bool" where
  "truthy_param x = (lower_str x \<in> {''1'', ''true'', ''yes''})"

definition in_category :: "string \<Rightarrow> 'x catalogue_db_scheme \<Rightarrow> service \<Rightarrow> bool" where
  "in_category slug s v =
     (case get_category (sv_category v) s of None \<Rightarrow> False | Some c \<Rightarrow> ca_slug c = slug)"

text \<open>An area that does not configure its services offers all of them.\<close>

definition offered_at :: "string \<Rightarrow> 'x locations_db_scheme \<Rightarrow> service \<Rightarrow> bool" where
  "offered_at code s v =
     (case get_active_service_area code s of
        None \<Rightarrow> False
      | Some a \<Rightarrow> if ar_services_configured a then sv_id v \<in> set (ar_services a) else True)"

definition offered_in_city :: "string \<Rightarrow> 'x locations_db_scheme \<Rightarrow> service \<Rightarrow> bool" where
  "offered_in_city city s v =
     list_ex (\<lambda>a. sv_id v \<in> set (ar_services a) \<and> lower_str (ar_city a) = lower_str city \<and> ar_active a)
       (service_areas s)"

definition matches_query :: "service_query \<Rightarrow> 'x locations_db_scheme \<Rightarrow> service \<Rightarrow> bool" where
  "matches_query q s v =
     (let city = strip_str (qs_city q) in
      is_public s v \<and>
      (qs_category q = '''' \<or> in_category (qs_category q) s v) \<and>
      (case qs_featured q of None \<Rightarrow> True | Some x \<Rightarrow> sv_featured v = truthy_param x) \<and>
      (qs_search q = '''' \<or> icontains (strip_str (qs_search q)) (sv_name v)) \<and>
      (qs_postal_code q = '''' \<or> offered_at (qs_postal_code q) s v) \<and>
      (city = '''' \<or> qs_postal_code q \<noteq> '''' \<or> offered_in_city city s v))"

definition list_services :: "service_query \<Rightarrow> 'x locations_db_scheme \<Rightarrow> service list" where
  "list_services q s = sort_before (service_before s) (filter (matches_query q s) (services s))"

definition service_detail :: "string \<Rightarrow> 'x catalogue_db_scheme \<Rightarrow> error + service" where
  "service_detail slug s =
     (case List.find (\<lambda>v. is_public s v \<and> sv_slug v = slug) (services s) of
        None \<Rightarrow> Inl (ErrorResponse 404 ''Not found.'')
      | Some v \<Rightarrow> Inr v)"

text \<open>\<open>PublicFAQListView\<close>: the questions of a service, those of a category as such, or the general ones.\<close>

definition faq_before :: "faq \<Rightarrow> faq \<Rightarrow> bool" where
  "faq_before f g =
     (fq_order f < fq_order g \<or> (fq_order f = fq_order g \<and> str_less (fq_question f) (fq_question g)))"

definition list_faqs :: "string \<Rightarrow> string \<Rightarrow> 'x storefront_db_scheme \<Rightarrow> error + faq list" where
  "list_faqs service_id category_id s =
     (let shown = (\<lambda>p. sort_before faq_before (filter (\<lambda>f. fq_active f \<and> p f) (faqs s))) in
      if service_id \<noteq> '''' then
        (case parse_key service_id of
           None \<Rightarrow> Inl (InvalidUuid service_id)
         | Some k \<Rightarrow> Inr (shown (\<lambda>f. fq_service f = Some k)))
      else if category_id \<noteq> '''' then
        (case parse_key category_id of
           None \<Rightarrow> Inl (InvalidUuid category_id)
         | Some k \<Rightarrow> Inr (shown (\<lambda>f. fq_category f = Some k \<and> fq_service f = None)))
      else Inr (shown (\<lambda>f. fq_category f = None \<and> fq_service f = None)))"

section \<open>Categories\<close>

record category_attrs =
  cg_name :: "string option"
  cg_slug :: "string option"
  cg_order :: "nat option"
  cg_active :: "bool option"
  cg_image :: "upload option"

definition check_category_attrs ::
  "nat \<Rightarrow> bool \<Rightarrow> category_attrs \<Rightarrow> 'x catalogue_db_scheme \<Rightarrow> error option" where
  "check_category_attrs k creating a s =
     (if creating \<and> cg_name a = None then Some (FieldError ''name'' ''This field is required.'')
      else if creating \<and> cg_slug a = None then Some (FieldError ''slug'' ''This field is required.'')
      else if list_ex (\<lambda>c. Some (ca_slug c) = cg_slug a \<and> ca_id c \<noteq> k) (categories s)
      then Some (FieldError ''slug'' ''service category with this slug already exists.'')
      else map_option (FieldError ''image'') (validate_uploaded_image (cg_image a)))"

definition set_category :: "category_attrs \<Rightarrow> category \<Rightarrow> category" where
  "set_category a c =
     c\<lparr>ca_name := given (ca_name c) (cg_name a), ca_slug := given (ca_slug c) (cg_slug a),
       ca_order := given (ca_order c) (cg_order a), ca_active := given (ca_active c) (cg_active a)\<rparr>"

definition image_rejected :: "(upload \<Rightarrow> bool) \<Rightarrow> upload option \<Rightarrow> bool" where
  "image_rejected stored file = (case file of None \<Rightarrow> False | Some f \<Rightarrow> \<not> stored f)"

definition category_audit ::
  "audit_action \<Rightarrow> category \<Rightarrow> string \<Rightarrow> string \<Rightarrow> nat \<Rightarrow> request option \<Rightarrow> 'x audit_db_scheme \<Rightarrow> 'x audit_db_scheme" where
  "category_audit action c field text actor rq s =
     audit_event action ''service_category'' (nat_str (ca_id c)) (Some actor) rq (JObj [(field, JStr text)]) s"

definition create_category ::
  "(upload \<Rightarrow> bool) \<Rightarrow> category_attrs \<Rightarrow> nat \<Rightarrow> request option \<Rightarrow> 'x catalogue_db_scheme \<Rightarrow>
     error + (category \<times> 'x catalogue_db_scheme)" where
  "create_category stored a actor rq s =
     (case check_category_attrs (new_id s) True a s of
        Some e \<Rightarrow> Inl e
      | None \<Rightarrow>
          if image_rejected stored (cg_image a) then Inl media_storage_error
          else let c = set_category a \<lparr>ca_id = new_id s, ca_name = '''', ca_slug = '''', ca_order = 0, ca_active = True\<rparr>
               in Inr (c, category_audit AA_CATEGORY_CREATED c ''slug'' (ca_slug c) actor rq
                            (bump_id (s\<lparr>categories := categories s @ [c]\<rparr>))))"

definition update_category ::
  "(upload \<Rightarrow> bool) \<Rightarrow> nat \<Rightarrow> category_attrs \<Rightarrow> nat \<Rightarrow> request option \<Rightarrow> 'x catalogue_db_scheme \<Rightarrow>
     error + (category \<times> 'x catalogue_db_scheme)" where
  "update_category stored k a actor rq s =
     (case get_category k s of
        None \<Rightarrow> Inl (ErrorResponse 404 ''Not found.'')
      | Some old \<Rightarrow>
          (case check_category_attrs k False a s of
             Some e \<Rightarrow> Inl e
           | None \<Rightarrow>
               if image_rejected stored (cg_image a) then Inl media_storage_error
               else let c = set_category a old
                    in Inr (c, category_audit (if ca_active c then AA_CATEGORY_UPDATED else AA_CATEGORY_DEACTIVATED)
                                 c ''slug'' (ca_slug c) actor rq (s\<lparr>categories := save_row ca_id c (categories s)\<rparr>))))"

text \<open>A category with services is switched off instead of deleted; questions lose a deleted one.\<close>

definition destroy_category ::
  "nat \<Rightarrow> nat \<Rightarrow> request option \<Rightarrow> 'x storefront_db_scheme \<Rightarrow> error + 'x storefront_db_scheme" where
  "destroy_category k actor rq s =
     (case get_category k s of
        None \<Rightarrow> Inl (ErrorResponse 404 ''Not found.'')
      | Some c \<Rightarrow>
          if list_ex (\<lambda>v. sv_category v = k) (services s)
          then let c2 = c\<lparr>ca_active := False\<rparr>
               in Inr (category_audit AA_CATEGORY_DEACTIVATED c2 ''reason'' ''category_has_services'' actor rq
                         (s\<lparr>categories := save_row ca_id c2 (categories s)\<rparr>))
          else Inr (s\<lparr>categories := filter (\<lambda>d. ca_id d \<noteq> k) (categories s),
                      faqs := map (\<lambda>f. if fq_category f = Some k then f\<lparr>fq_category := None\<rparr> else f) (faqs s)\<rparr>))"

section \<open>Services\<close>

record service_write =
  sw_attrs :: service_attrs
  sw_uploads :: "(string \<times> upload) list"

definition check_service_write :: "bool \<Rightarrow> service_write \<Rightarrow> 'x catalogue_db_scheme \<Rightarrow> error option" where
  "check_service_write creating w s =
     (let a = sw_attrs w in
      if creating \<and> at_category a = None then Some (FieldError ''category'' ''This field is required.'')
      else if (case at_category a of None \<Rightarrow> False | Some c \<Rightarrow> get_category c s = None)
      then Some (FieldError ''category'' ''Invalid pk - object does not exist.'')
      else check_uploads (sw_uploads w))"

definition service_metadata :: "service \<Rightarrow> (string \<times> json) list" where
  "service_metadata v =
     [(''slug'', JStr (sv_slug v)), (''base_price'', PyObj (money_str (sv_base_price v)))]"

definition create_service_view ::
  "(upload \<Rightarrow> bool) \<Rightarrow> service_write \<Rightarrow> nat \<Rightarrow> request option \<Rightarrow> 'x storefront_db_scheme \<Rightarrow>
     error + (service \<times> 'x storefront_db_scheme)" where
  "create_service_view stored w actor rq s =
     (case check_service_write True w s of
        Some e \<Rightarrow> Inl e
      | None \<Rightarrow>
          (case create_service (sw_attrs w) s of
             Inl e \<Rightarrow> Inl e
           | Inr (v, s1) \<Rightarrow>
               (case store_pictures stored (sv_id v) (sw_uploads w) s1 of
                  Inl e \<Rightarrow> Inl e
                | Inr s2 \<Rightarrow>
                    Inr (v, audit_event AA_SERVICE_CREATED ''service'' (nat_str (sv_id v)) (Some actor) rq
                              (JObj (service_metadata v)) s2))))"

text \<open>What an update is recorded as: a price goes before an image, an image before the status.\<close>

definition service_update_action ::
  "service \<Rightarrow> (string \<times> string) list \<Rightarrow> service \<Rightarrow> (string \<times> string) list \<Rightarrow> audit_action" where
  "service_update_action old old_pictures v pictures =
     (if sv_base_price v \<noteq> sv_base_price old \<or> sv_selling_price v \<noteq> sv_selling_price old
      then AA_SERVICE_PRICE_CHANGED
      else if list_ex (\<lambda>f. picture f pictures \<noteq> picture f old_pictures) picture_fields
      then AA_SERVICE_IMAGE_CHANGED
      else if \<not> sv_active v then AA_SERVICE_DEACTIVATED
      else AA_SERVICE_UPDATED)"

definition update_service_view ::
  "(upload \<Rightarrow> bool) \<Rightarrow> nat \<Rightarrow> service_write \<Rightarrow> nat \<Rightarrow> request option \<Rightarrow> 'x storefront_db_scheme \<Rightarrow>
     error + (service \<times> 'x storefront_db_scheme)" where
  "update_service_view stored k w actor rq s =
     (case get_service k s of
        None \<Rightarrow> Inl (ErrorResponse 404 ''Not found.'')
      | Some old \<Rightarrow>
          (case check_service_write False w s of
             Some e \<Rightarrow> Inl e
           | None \<Rightarrow>
               (case update_service k (sw_attrs w) s of
                  Inl e \<Rightarrow> Inl e
                | Inr (v, s1) \<Rightarrow>
                    (case store_pictures stored k (sw_uploads w) s1 of
                       Inl e \<Rightarrow> Inl e
                     | Inr s2 \<Rightarrow>
                         Inr (v, audit_event (service_update_action old (pictures_of k s) v (pictures_of k s2))
                                   ''service'' (nat_str k) (Some actor) rq
                                   (JObj (service_metadata v @
                                     [(''selling_price'', case sv_selling_price v of
                                         None \<Rightarrow> JNull | Some p \<Rightarrow> PyObj (money_str p))])) s2)))))"

text \<open>
  Deleting a row of \<open>Service\<close>: bookings, cart items and the items of packages protect it; images go
  with it, areas and technicians drop it from their lists, leads and questions keep no service.
\<close>

definition protected_service :: "nat \<Rightarrow> 'x bookings_db_scheme \<Rightarrow> bool" where
  "protected_service k s =
     (list_ex (\<lambda>b. b_service b = k) (bookings s) \<or> list_ex (\<lambda>c. ci_service c = k) (cart_items s) \<or>
      list_ex (\<lambda>i. pi_service i = k) (package_items s))"

definition unlink_service :: "nat \<Rightarrow> 'x storefront_db_scheme \<Rightarrow> 'x storefront_db_scheme" where
  "unlink_service k s =
     s\<lparr>services := filter (\<lambda>v. sv_id v \<noteq> k) (services s),
       service_images := filter (\<lambda>i. im_service i \<noteq> k) (service_images s),
       service_pictures := filter (\<lambda>(i, ps). i \<noteq> k) (service_pictures s),
       service_areas := map (\<lambda>a. a\<lparr>ar_services := removeAll k (ar_services a)\<rparr>) (service_areas s),
       technicians := map (\<lambda>t. t\<lparr>t_services := removeAll k (t_services t)\<rparr>) (technicians s),
       leads := map (\<lambda>l. if l_service l = Some k then l\<lparr>l_service := None\<rparr> else l) (leads s),
       faqs := map (\<lambda>f. if fq_service f = Some k then f\<lparr>fq_service := None\<rparr> else f) (faqs s)\<rparr>"

definition delete_service :: "nat \<Rightarrow> 'x storefront_db_scheme \<Rightarrow> error + 'x storefront_db_scheme" where
  "delete_service k s =
     (if protected_service k s then Inl (IntegrityError ''ProtectedError'') else Inr (unlink_service k s))"

definition destroy_service ::
  "nat \<Rightarrow> nat \<Rightarrow> request option \<Rightarrow> 'x storefront_db_scheme \<Rightarrow> error + 'x storefront_db_scheme" where
  "destroy_service k actor rq s =
     (case get_service k s of
        None \<Rightarrow> Inl (ErrorResponse 404 ''Not found.'')
      | Some v \<Rightarrow>
          if list_ex (\<lambda>b. b_service b = k) (bookings s)
          then (case save_service (v\<lparr>sv_active := False\<rparr>) s of
                  Inl e \<Rightarrow> Inl e
                | Inr (v2, s1) \<Rightarrow>
                    Inr (audit_event AA_SERVICE_DEACTIVATED ''service'' (nat_str k) (Some actor) rq
                           (JObj [(''reason'', JStr ''service_has_bookings'')]) s1))
          else delete_service k s)"

text \<open>\<open>short\<close> gives the short description of a service, which the rows leave out.\<close>

definition list_admin_services ::
  "(nat \<Rightarrow> string) \<Rightarrow> string \<Rightarrow> string \<Rightarrow> 'x catalogue_db_scheme \<Rightarrow> error + service list" where
  "list_admin_services short search category s =
     (let term = strip_str search; cat = strip_str category;
          found = (\<lambda>v. term = '''' \<or> icontains term (sv_name v) \<or> icontains term (sv_slug v) \<or>
                       icontains term (short (sv_id v)))
      in if cat = '''' then Inr (sort_before (service_before s) (filter found (services s)))
         else case parse_key cat of
           None \<Rightarrow> Inl (InvalidUuid cat)
         | Some k \<Rightarrow> Inr (sort_before (service_before s) (filter (\<lambda>v. found v \<and> sv_category v = k) (services s))))"

section \<open>The images of a service\<close>

record image_attrs =
  ia_image :: "upload option"
  ia_alt :: "string option"
  ia_order :: "nat option"
  ia_active :: "bool option"

definition image_audit ::
  "service_image \<Rightarrow> string \<Rightarrow> nat \<Rightarrow> request option \<Rightarrow> 'x audit_db_scheme \<Rightarrow> 'x audit_db_scheme" where
  "image_audit i operation actor rq s =
     audit_event AA_SERVICE_IMAGE_CHANGED ''service'' (nat_str (im_service i)) (Some actor) rq
       (JObj [(''image_id'', JStr (nat_str (im_id i))), (''operation'', JStr operation)]) s"

definition check_image_attrs :: "bool \<Rightarrow> image_attrs \<Rightarrow> error option" where
  "check_image_attrs creating a =
     (if creating \<and> ia_image a = None then Some (FieldError ''image'' ''No file was submitted.'')
      else if length (given '''' (ia_alt a)) > 255
      then Some (FieldError ''alt_text'' ''Ensure this field has no more than 255 characters.'')
      else map_option (FieldError ''image'') (validate_uploaded_image (ia_image a)))"

definition set_image :: "image_attrs \<Rightarrow> service_image \<Rightarrow> service_image" where
  "set_image a i =
     i\<lparr>im_image := given (im_image i) (map_option up_name (ia_image a)), im_alt := given (im_alt i) (ia_alt a),
       im_order := given (im_order i) (ia_order a), im_active := given (im_active i) (ia_active a)\<rparr>"

definition list_images :: "nat \<Rightarrow> 'x storefront_db_scheme \<Rightarrow> service_image list" where
  "list_images k s = sort_key im_order (filter (\<lambda>i. im_service i = k) (service_images s))"

definition get_image :: "nat \<Rightarrow> nat \<Rightarrow> 'x storefront_db_scheme \<Rightarrow> service_image option" where
  "get_image k i s = find_row im_id i (filter (\<lambda>x. im_service x = k) (service_images s))"

definition create_image ::
  "(upload \<Rightarrow> bool) \<Rightarrow> nat \<Rightarrow> image_attrs \<Rightarrow> nat \<Rightarrow> request option \<Rightarrow> 'x storefront_db_scheme \<Rightarrow>
     error + (service_image \<times> 'x storefront_db_scheme)" where
  "create_image stored k a actor rq s =
     (case check_image_attrs True a of
        Some e \<Rightarrow> Inl e
      | None \<Rightarrow>
          if get_service k s = None then Inl (ErrorResponse 404 ''Not found.'')
          else if image_rejected stored (ia_image a) then Inl media_storage_error
          else let i = set_image a \<lparr>im_id = new_id s, im_service = k, im_image = '''', im_alt = '''', im_order = 0,
                                    im_active = True\<rparr>
               in Inr (i, image_audit i ''created'' actor rq
                            (bump_id (s\<lparr>service_images := service_images s @ [i]\<rparr>))))"

definition update_image ::
  "(upload \<Rightarrow> bool) \<Rightarrow> nat \<Rightarrow> nat \<Rightarrow> image_attrs \<Rightarrow> nat \<Rightarrow> request option \<Rightarrow> 'x storefront_db_scheme \<Rightarrow>
     error + (service_image \<times> 'x storefront_db_scheme)" where
  "update_image stored k i a actor rq s =
     (case get_image k i s of
        None \<Rightarrow> Inl (ErrorResponse 404 ''Not found.'')
      | Some old \<Rightarrow>
          (case check_image_attrs False a of
             Some e \<Rightarrow> Inl e
           | None \<Rightarrow>
               if image_rejected stored (ia_image a) then Inl media_storage_error
               else let x = set_image a old
                    in Inr (x, image_audit x ''updated'' actor rq
                                 (s\<lparr>service_images := save_row im_id x (service_images s)\<rparr>))))"

definition destroy_image ::
  "nat \<Rightarrow> nat \<Rightarrow> nat \<Rightarrow> request option \<Rightarrow> 'x storefront_db_scheme \<Rightarrow> error + 'x storefront_db_scheme" where
  "destroy_image k i actor rq s =
     (case get_image k i s of
        None \<Rightarrow> Inl (ErrorResponse 404 ''Not found.'')
      | Some x \<Rightarrow>
          Inr (image_audit x ''deleted'' actor rq
                 (s\<lparr>service_images := filter (\<lambda>y. im_id y \<noteq> i) (service_images s)\<rparr>)))"

section \<open>Packages\<close>

definition list_packages :: "string option \<Rightarrow> 'x catalogue_db_scheme \<Rightarrow> package list" where
  "list_packages active s =
     sort_before (\<lambda>p q. str_less (pk_name p) (pk_name q))
       (filter (\<lambda>p. case active of None \<Rightarrow> True | Some x \<Rightarrow> pk_active p = truthy_param x) (packages s))"

definition check_package_services :: "(nat \<times> int \<times> nat) list option \<Rightarrow> 'x catalogue_db_scheme \<Rightarrow> error option" where
  "check_package_services items s =
     (if list_ex (\<lambda>(k, n, ord). get_service k s = None) (given [] items)
      then Some (FieldError ''service'' ''Invalid pk - object does not exist.'') else None)"

definition package_audit ::
  "audit_action \<Rightarrow> package \<Rightarrow> (string \<times> json) list \<Rightarrow> nat \<Rightarrow> request option \<Rightarrow> 'x audit_db_scheme \<Rightarrow>
     'x audit_db_scheme" where
  "package_audit action p extra actor rq s =
     audit_event action ''package'' (nat_str (pk_id p)) (Some actor) rq (JObj ((''slug'', JStr (pk_slug p)) # extra)) s"

definition create_package_view ::
  "package \<Rightarrow> (nat \<times> int \<times> nat) list option \<Rightarrow> nat \<Rightarrow> request option \<Rightarrow> 'x catalogue_db_scheme \<Rightarrow>
     error + (package \<times> 'x catalogue_db_scheme)" where
  "create_package_view data items actor rq s =
     (case check_package_services items s of
        Some e \<Rightarrow> Inl e
      | None \<Rightarrow>
          (case create_package data items s of
             Inl e \<Rightarrow> Inl e
           | Inr (p, s1) \<Rightarrow>
               Inr (p, package_audit AA_PACKAGE_CREATED p [(''bundle_price'', PyObj (money_str (pk_bundle_price p)))]
                         actor rq s1)))"

definition update_package_view ::
  "package \<Rightarrow> (nat \<times> int \<times> nat) list option \<Rightarrow> nat \<Rightarrow> request option \<Rightarrow> 'x catalogue_db_scheme \<Rightarrow>
     error + (package \<times> 'x catalogue_db_scheme)" where
  "update_package_view data items actor rq s =
     (if get_package (pk_id data) s = None then Inl (ErrorResponse 404 ''Not found.'')
      else case check_package_services items s of
        Some e \<Rightarrow> Inl e
      | None \<Rightarrow>
          (case update_package data items s of
             Inl e \<Rightarrow> Inl e
           | Inr (p, s1) \<Rightarrow>
               Inr (p, package_audit AA_PACKAGE_UPDATED p
                         [(''bundle_price'', PyObj (money_str (pk_bundle_price p))), (''is_active'', JBool (pk_active p))]
                         actor rq s1)))"

text \<open>The items go with their package.\<close>

definition destroy_package ::
  "nat \<Rightarrow> nat \<Rightarrow> request option \<Rightarrow> 'x catalogue_db_scheme \<Rightarrow> error + 'x catalogue_db_scheme" where
  "destroy_package k actor rq s =
     (case get_package k s of
        None \<Rightarrow> Inl (ErrorResponse 404 ''Not found.'')
      | Some p \<Rightarrow>
          Inr (package_audit AA_PACKAGE_DELETED p [] actor rq
                 (s\<lparr>packages := filter (\<lambda>q. pk_id q \<noteq> k) (packages s),
                    package_items := filter (\<lambda>i. pi_package i \<noteq> k) (package_items s)\<rparr>)))"

section \<open>Lemmas: the references of the catalogue\<close>

text \<open>Every reference to a category, a service or a package leads to a row.\<close>

definition has_key :: "('r \<Rightarrow> nat) \<Rightarrow> 'r list \<Rightarrow> nat \<Rightarrow> bool" where
  "has_key key rows k = list_ex (\<lambda>r. key r = k) rows"

lemma has_key_save [simp]: "has_key key (save_row key r rows) = has_key key rows"
proof
  show "has_key key (save_row key r rows) k = has_key key rows k" for k
    by (induction rows) (auto simp: has_key_def save_row_def)
qed

lemma has_key_filter [simp]:
  "has_key key (filter (\<lambda>r. key r \<noteq> j) rows) = (\<lambda>k. k \<noteq> j \<and> has_key key rows k)"
  by (auto simp: has_key_def list_ex_iff fun_eq_iff)

lemma has_key_find: "find_row key k rows \<noteq> None \<Longrightarrow> has_key key rows k"
  by (auto simp: has_key_def find_row_def find_None_iff list_ex_iff)

definition references_ok :: "'x storefront_db_scheme \<Rightarrow> bool" where
  "references_ok s =
     (let live = has_key sv_id (services s) in
      list_all (\<lambda>v. has_key ca_id (categories s) (sv_category v)) (services s) \<and>
      list_all (\<lambda>b. live (b_service b)) (bookings s) \<and>
      list_all (\<lambda>c. live (ci_service c)) (cart_items s) \<and>
      list_all (\<lambda>i. live (pi_service i) \<and> has_key pk_id (packages s) (pi_package i)) (package_items s) \<and>
      list_all (\<lambda>i. live (im_service i)) (service_images s) \<and>
      list_all (\<lambda>a. list_all live (ar_services a)) (service_areas s) \<and>
      list_all (\<lambda>t. list_all live (t_services t)) (technicians s) \<and>
      list_all (\<lambda>l. pred_option live (l_service l)) (leads s) \<and>
      list_all (\<lambda>f. pred_option live (fq_service f) \<and> pred_option (has_key ca_id (categories s)) (fq_category f))
        (faqs s))"

lemma audit_event_storefront [simp]:
  "categories (audit_event act rt rid actor rq m s) = categories s"
  "services (audit_event act rt rid actor rq m s) = services s"
  "packages (audit_event act rt rid actor rq m s) = packages s"
  "package_items (audit_event act rt rid actor rq m s) = package_items s"
  "get_service k (audit_event act rt rid actor rq m s) = get_service k s"
  for s :: "'x catalogue_db_scheme"
  by (simp_all add: audit_event_def register_hook_def get_service_def)

lemma audit_event_references [simp]:
  "references_ok (audit_event act rt rid actor rq m s) = references_ok s"
  by (simp add: references_ok_def audit_event_def register_hook_def)

lemma category_saved_references:
  "references_ok s \<Longrightarrow> references_ok (s\<lparr>categories := save_row ca_id c (categories s)\<rparr>)"
  by (simp add: references_ok_def)

lemma service_saved_references:
  assumes "references_ok s" and "has_key ca_id (categories s) (sv_category v)"
  shows "references_ok (s\<lparr>services := save_row sv_id v (services s)\<rparr>)"
proof -
  have "list_all (\<lambda>w. has_key ca_id (categories s) (sv_category w)) (save_row sv_id v (services s))"
    using assms by (auto simp: references_ok_def save_row_def list_all_iff Let_def)
  with assms(1) show ?thesis by (simp add: references_ok_def Let_def)
qed

lemma references_kept:
  "list_all P xs \<Longrightarrow> (\<And>x. x \<in> set xs \<Longrightarrow> P x \<Longrightarrow> Q (f x)) \<Longrightarrow> list_all Q (map f xs)"
  by (auto simp: list_all_iff)

lemma destroyed_category_references:
  assumes "destroy_category k actor rq s = Inr s'" and "references_ok s"
  shows "references_ok s'"
proof (cases "list_ex (\<lambda>v. sv_category v = k) (services s)")
  case True
  with assms show ?thesis
    by (auto simp: destroy_category_def category_audit_def Let_def intro!: category_saved_references
        split: option.splits)
next
  case False
  with assms(1) have s': "s' = s\<lparr>categories := filter (\<lambda>d. ca_id d \<noteq> k) (categories s),
      faqs := map (\<lambda>f. if fq_category f = Some k then f\<lparr>fq_category := None\<rparr> else f) (faqs s)\<rparr>"
    by (simp add: destroy_category_def split: option.splits)
  note ok = assms(2) [unfolded references_ok_def Let_def]
  have "list_all (\<lambda>v. has_key ca_id (categories s') (sv_category v)) (services s')"
    using False ok by (auto simp: s' list_all_iff list_ex_iff)
  moreover have "list_all (\<lambda>f. pred_option (has_key sv_id (services s')) (fq_service f) \<and>
      pred_option (has_key ca_id (categories s')) (fq_category f)) (faqs s')"
    using ok unfolding s' by (auto simp: pred_option_def elim!: references_kept split: if_splits)
  ultimately show ?thesis using ok by (simp add: references_ok_def s')
qed

lemma unlinked_service_references:
  assumes "references_ok s" and "\<not> protected_service k s"
  shows "references_ok (unlink_service k s)"
proof -
  note ok = assms(1) [unfolded references_ok_def Let_def]
  let ?live = "\<lambda>j. j \<noteq> k \<and> has_key sv_id (services s) j"
  have rows: "list_all (\<lambda>b. ?live (b_service b)) (bookings s)" "list_all (\<lambda>c. ?live (ci_service c)) (cart_items s)"
    "list_all (\<lambda>i. ?live (pi_service i) \<and> has_key pk_id (packages s) (pi_package i)) (package_items s)"
    "list_all (\<lambda>i. ?live (im_service i)) (filter (\<lambda>i. im_service i \<noteq> k) (service_images s))"
    "list_all (\<lambda>v. has_key ca_id (categories s) (sv_category v)) (filter (\<lambda>v. sv_id v \<noteq> k) (services s))"
    using ok assms(2) by (auto simp: protected_service_def list_all_iff list_ex_iff)
  have lists: "list_all ?live (removeAll k js)" if "list_all (has_key sv_id (services s)) js" for js
    using that by (auto simp: list_all_iff)
  show ?thesis
    unfolding references_ok_def Let_def unlink_service_def
    using ok rows by (auto simp: pred_option_def lists elim!: references_kept split: if_splits)
qed

section \<open>Properties\<close>

definition postal_query :: "string \<Rightarrow> service_query" where
  "postal_query code =
     \<lparr>qs_category = '''', qs_featured = None, qs_search = '''', qs_postal_code = code, qs_city = ''''\<rparr>"

definition city_query :: "string \<Rightarrow> service_query" where
  "city_query city =
     \<lparr>qs_category = '''', qs_featured = None, qs_search = '''', qs_postal_code = '''', qs_city = city\<rparr>"

lemma listed_by_code:
  "code \<noteq> '''' \<Longrightarrow> v \<in> set (list_services (postal_query code) s) \<longleftrightarrow>
     v \<in> set (services s) \<and> is_public s v \<and>
     (\<exists>a. get_active_service_area code s = Some a \<and> supports_service a v)"
  by (auto simp: list_services_def postal_query_def matches_query_def offered_at_def supports_service_def Let_def
      strip_str_def split: option.splits if_splits)

lemma active_service_iff:
  assumes "unique_rows sv_id (services s)"
  shows "get_active_service (sv_id v) s = Inr v \<longleftrightarrow> v \<in> set (services s) \<and> is_public s v"
proof -
  have "get_active_service k s = Inr v \<longleftrightarrow> get_service k s = Some v \<and> is_public s v" for k
    by (auto simp: get_active_service_def is_public_def Let_def split: option.splits if_splits)
  then show ?thesis
    using service_table.get_of_row [OF assms, of v] service_table.get_in_rows [of "sv_id v" s v] by auto
qed

lemma active_service_same:
  assumes "unique_rows sv_id (services s)" and "v \<in> set (services s)" and "get_active_service (sv_id v) s = Inr w"
  shows "w = v"
  using assms service_table.get_of_row [OF assms(1,2)]
  by (auto simp: get_active_service_def Let_def split: option.splits if_splits)

text \<open>Of a service of the table and a free slot of the area of the address, a booking is accepted if the
  service is active, the area supports it and its amounts can be computed.\<close>

lemma create_booking_at_slot:
  assumes "unique_rows sv_id (services s)" and "v \<in> set (services s)"
    and "get_customer_address (u_id u) address_id s = Inr a"
    and "get_active_service_area (ad_postal_code a) s = Some area"
    and "lock_slot_for_reservation now slot_id s = Inr sl" and "sl_area sl = ar_id area"
    and "generate_booking_number (localdate now) s = Inr (x, t)" and "\<forall>b\<in>set (bookings s). b_number b \<noteq> x"
  shows "if is_public s v \<and> supports_service area v
         then (case booking_amounts v (br_quantity rq) of
                 Inl e \<Rightarrow> create_booking now u (sv_id v) address_id slot_id rq s = Inl e
               | Inr am \<Rightarrow> \<exists>r. create_booking now u (sv_id v) address_id slot_id rq s = Inr r)
         else isl (create_booking now u (sv_id v) address_id slot_id rq s)"
proof (cases "is_public s v \<and> supports_service area v")
  case True
  then have "get_active_service (sv_id v) s = Inr v"
    using active_service_iff [OF assms(1)] assms(2) by simp
  moreover have "lock_and_validate_slot now slot_id a v s = Inr sl"
    using assms(4-6) True by (simp add: lock_and_validate_slot_def)
  ultimately show ?thesis
    using True create_booking_checked [OF _ assms(3) _ assms(7,8)] by simp
next
  case False
  have "isl (create_booking now u (sv_id v) address_id slot_id rq s)"
  proof (cases "get_active_service (sv_id v) s")
    case (Inr w)
    with active_service_same [OF assms(1,2)] have w: "w = v" by blast
    with Inr active_service_iff [OF assms(1)] False have "\<not> supports_service area v" by blast
    with Inr w assms(3,4) show ?thesis by (simp add: create_booking_def lock_and_validate_slot_def)
  qed (simp add: create_booking_def)
  with False show ?thesis by argo
qed

lemma listed_service_booked:
  assumes "unique_rows sv_id (services s)" and "code \<noteq> ''''"
    and "normalize_postal_code (ad_postal_code a) = normalize_postal_code code"
    and g: "v \<in> set (services s)" "get_customer_address (u_id u) address_id s = Inr a"
      "get_active_service_area (ad_postal_code a) s = Some ar"
      "lock_slot_for_reservation now slot_id s = Inr sl" "sl_area sl = ar_id ar"
      "generate_booking_number (localdate now) s = Inr (x, t)" "\<forall>b\<in>set (bookings s). b_number b \<noteq> x"
  shows "((\<exists>r. create_booking now u (sv_id v) address_id slot_id rq s = Inr r) \<longleftrightarrow>
            v \<in> set (list_services (postal_query code) s) \<and>
            \<not> (sv_advance_type v = PERCENTAGE \<and> sv_advance_value v = None)) \<and>
         (v \<in> set (list_services (postal_query code) s) \<and>
          sv_advance_type v = PERCENTAGE \<and> sv_advance_value v = None \<longrightarrow>
            create_booking now u (sv_id v) address_id slot_id rq s =
              Inl (TypeError ''unsupported operand type(s) for *: Decimal and NoneType''))"
proof -
  have "get_active_service_area code s = Some ar"
    using assms(3) g(3) by (simp add: get_active_service_area_def)
  then have listed: "v \<in> set (list_services (postal_query code) s) \<longleftrightarrow> is_public s v \<and> supports_service ar v"
    using g(1) by (simp add: listed_by_code [OF assms(2)])
  note r = create_booking_at_slot [OF assms(1) g, of rq]
  show ?thesis
  proof (cases "is_public s v \<and> supports_service ar v")
    case False
    with r have "isl (create_booking now u (sv_id v) address_id slot_id rq s)" by argo
    with False listed show ?thesis by (auto simp: isl_def)
  next
    case True
    with r booking_amounts_Inl [of v "br_quantity rq"] listed
      booking_amounts_Inl [of v "br_quantity rq" "TypeError ''unsupported operand type(s) for *: Decimal and NoneType''"]
    show ?thesis
      by (cases "booking_amounts v (br_quantity rq)") auto
  qed
qed

text \<open>C22: What the shop lists can be booked: for a postal code the public list has exactly the services that
  creating a booking accepts at an address with that code, and every free slot of the area found for the
  address can be locked for it. At such a slot, with a number left in the month, \<open>create_booking\<close> accepts a
  service of the table exactly if it is listed and not a percentage service without a value; that one
  kind is listed and refused: booking it raises a \<open>TypeError\<close>.\<close>

theorem listed_services_are_bookable:
  assumes "unique_rows sv_id (services s)" and "code \<noteq> ''''"
    and "normalize_postal_code (ad_postal_code a) = normalize_postal_code code"
  shows "(v \<in> set (list_services (postal_query code) s) \<longleftrightarrow>
            get_active_service (sv_id v) s = Inr v \<and>
            (\<exists>area. get_active_service_area (ad_postal_code a) s = Some area \<and> supports_service area v)) \<and>
         (\<forall>area now k sl.
            v \<in> set (list_services (postal_query code) s) \<and>
            get_active_service_area (ad_postal_code a) s = Some area \<and>
            lock_slot_for_reservation now k s = Inr sl \<and> sl_area sl = ar_id area \<longrightarrow>
            lock_and_validate_slot now k a v s = Inr sl) \<and>
         (\<forall>area now u address_id slot_id sl rq x t.
            v \<in> set (services s) \<and> get_customer_address (u_id u) address_id s = Inr a \<and>
            get_active_service_area (ad_postal_code a) s = Some area \<and>
            lock_slot_for_reservation now slot_id s = Inr sl \<and> sl_area sl = ar_id area \<and>
            generate_booking_number (localdate now) s = Inr (x, t) \<and> (\<forall>b\<in>set (bookings s). b_number b \<noteq> x) \<longrightarrow>
            ((\<exists>r. create_booking now u (sv_id v) address_id slot_id rq s = Inr r) \<longleftrightarrow>
               v \<in> set (list_services (postal_query code) s) \<and>
               \<not> (sv_advance_type v = PERCENTAGE \<and> sv_advance_value v = None)) \<and>
            (v \<in> set (list_services (postal_query code) s) \<and>
             sv_advance_type v = PERCENTAGE \<and> sv_advance_value v = None \<longrightarrow>
               create_booking now u (sv_id v) address_id slot_id rq s =
                 Inl (TypeError ''unsupported operand type(s) for *: Decimal and NoneType'')))"
proof -
  have area: "get_active_service_area (ad_postal_code a) s = get_active_service_area code s"
    using assms(3) by (simp add: get_active_service_area_def)
  note service = active_service_iff [OF assms(1)]
  have listed: "(v \<in> set (list_services (postal_query code) s) \<longleftrightarrow>
            get_active_service (sv_id v) s = Inr v \<and>
            (\<exists>area. get_active_service_area (ad_postal_code a) s = Some area \<and> supports_service area v)) \<and>
         (\<forall>area now k sl.
            v \<in> set (list_services (postal_query code) s) \<and>
            get_active_service_area (ad_postal_code a) s = Some area \<and>
            lock_slot_for_reservation now k s = Inr sl \<and> sl_area sl = ar_id area \<longrightarrow>
            lock_and_validate_slot now k a v s = Inr sl)"
    unfolding area listed_by_code [OF assms(2)] service by (auto simp: lock_and_validate_slot_def area)
  show ?thesis
    by (rule conjI [OF conjunct1 [OF listed] conjI [OF conjunct2 [OF listed]]])
      (intro allI impI, elim conjE, rule listed_service_booked [OF assms]; assumption)
qed

definition sample_storefront_db :: "booking list \<Rightarrow> storefront_db" where
  "sample_storefront_db bs = reviews_db.extend
     (technicians_db.extend (sample_technicians_db bs) \<lparr>reviews = []\<rparr>)
     \<lparr>service_images = [], service_pictures = [], faqs = []\<rparr>"

theorem listed_services_are_bookable_witness:
  "sample_service \<in> set (list_services (postal_query ''411 001'') (sample_technicians_db [])) \<and>
   (\<exists>r. create_booking 0 (sample_user 1 CUSTOMER []) (sv_id sample_service) 11 21
      \<lparr>br_problem = '''', br_customer_notes = '''', br_contact_phone = '''', br_quantity = 1\<rparr>
      (sample_technicians_db []) = Inr r)"
proof -
  let ?s = "sample_technicians_db []" and ?a = "sample_address 11 True"
  have "unique_rows sv_id (services ?s)" by code_simp
  moreover have "normalize_postal_code (ad_postal_code ?a) = normalize_postal_code ''411 001''" by code_simp
  moreover have "get_active_service (sv_id sample_service) ?s = Inr sample_service"
    "get_active_service_area (ad_postal_code ?a) ?s = Some sample_area" "supports_service sample_area sample_service"
    by code_simp+
  moreover have g: "sample_service \<in> set (services ?s)" "get_customer_address (u_id (sample_user 1 CUSTOMER [])) 11 ?s = Inr ?a"
    "get_active_service_area (ad_postal_code ?a) ?s = Some sample_area"
    "lock_slot_for_reservation 0 21 ?s = Inr (sample_slot 21)" "sl_area (sample_slot 21) = ar_id sample_area"
    "bookings ?s = []" "sv_advance_value sample_service \<noteq> None" by code_simp+
  moreover obtain x t where "generate_booking_number (localdate 0) ?s = Inr (x, t)"
  proof -
    have "\<not> isl (generate_booking_number (localdate 0) ?s)" by code_simp
    then show ?thesis using that by (blast dest: result_cases)
  qed
  ultimately show ?thesis
    using listed_services_are_bookable [of ?s "''411 001''" ?a sample_service, THEN conjunct1]
      listed_services_are_bookable [of ?s "''411 001''" ?a sample_service, THEN conjunct2, THEN conjunct2,
        THEN spec [where x = sample_area], THEN spec [where x = 0], THEN spec [where x = "sample_user 1 CUSTOMER []"],
        THEN spec [where x = 11], THEN spec [where x = 21], THEN spec [where x = "sample_slot 21"],
        THEN spec [where x = "\<lparr>br_problem = '''', br_customer_notes = '''', br_contact_phone = '''', br_quantity = 1\<rparr>"],
        THEN spec [where x = x], THEN spec [where x = t], THEN mp] by simp
qed

text \<open>A search by city hides what can be booked: an area that never configured its services offers all
  of them, and the list for its postal code shows every public service, but the list for its city shows
  only the services some active area of the city has in its table.\<close>

theorem city_search_hides_services:
  assumes "v \<in> set (services s)" and "is_public s v" and "strip_str city \<noteq> ''''"
    and "get_active_service_area code s = Some area" and "\<not> ar_services_configured area" and "code \<noteq> ''''"
    and "\<And>a. a \<in> set (service_areas s) \<Longrightarrow> ar_active a \<Longrightarrow>
           lower_str (ar_city a) = lower_str (strip_str city) \<Longrightarrow> sv_id v \<notin> set (ar_services a)"
  shows "v \<in> set (list_services (postal_query code) s) \<and> v \<notin> set (list_services (city_query city) s)"
proof
  show "v \<in> set (list_services (postal_query code) s)"
    using assms by (auto simp: listed_by_code supports_service_def)
  show "v \<notin> set (list_services (city_query city) s)"
    using assms(3,7)
    by (auto simp: list_services_def city_query_def matches_query_def offered_in_city_def Let_def list_ex_iff)
qed

theorem city_search_hides_services_witness:
  "sample_service \<in> set (list_services (postal_query ''411001'') sample_scheduling_db) \<and>
   sample_service \<notin> set (list_services (city_query ''Pune'') sample_scheduling_db)"
proof (rule city_search_hides_services [of _ _ _ _ sample_area])
  show "sample_service \<in> set (services sample_scheduling_db)" "is_public sample_scheduling_db sample_service"
    "get_active_service_area ''411001'' sample_scheduling_db = Some sample_area"
    "strip_str ''Pune'' \<noteq> ''''" by code_simp+
  show "\<not> ar_services_configured sample_area" "''411001'' \<noteq> ''''" by (simp_all add: sample_area_def)
  have "service_areas sample_scheduling_db = [sample_area]" by code_simp
  then show "sv_id sample_service \<notin> set (ar_services a)" if "a \<in> set (service_areas sample_scheduling_db)" for a
    using that by (simp add: sample_area_def)
qed

text \<open>C25: Deleting a category or a service through the administration leaves no dangling reference: bookings,
  cart items, packages, images, areas, technicians, leads and questions still refer to rows that exist. A
  service that was ever booked is kept and only switched off, and a deleted one is gone.\<close>

theorem deletion_keeps_references:
  assumes "destroy_service k actor rq s = Inr s' \<or> destroy_category c actor rq s = Inr s'" and "references_ok s"
  shows "references_ok s' \<and> bookings s' = bookings s \<and>
         (destroy_service k actor rq s = Inr s' \<longrightarrow>
            (if list_ex (\<lambda>b. b_service b = k) (bookings s)
             then map_option sv_active (get_service k s') = Some False else get_service k s' = None))"
proof -
  have cat: "references_ok s' \<and> bookings s' = bookings s" if "destroy_category c actor rq s = Inr s'"
    using that destroyed_category_references [OF that assms(2)]
    by (auto simp: destroy_category_def category_audit_def audit_event_def register_hook_def Let_def
        split: option.splits if_splits)
  have srv: "references_ok s' \<and> bookings s' = bookings s \<and>
      (if list_ex (\<lambda>b. b_service b = k) (bookings s)
       then map_option sv_active (get_service k s') = Some False else get_service k s' = None)"
    if run: "destroy_service k actor rq s = Inr s'"
  proof -
    from run obtain v where v: "get_service k s = Some v" by (auto simp: destroy_service_def split: option.splits)
    then have key: "sv_id v = k" and mem: "v \<in> set (services s)"
      using service_table.get_in_rows by blast+
    show ?thesis
    proof (cases "list_ex (\<lambda>b. b_service b = k) (bookings s)")
      case True
      let ?v = "v\<lparr>sv_active := False\<rparr>"
      from run v True obtain s1 where saved: "save_service ?v s = Inr (?v, s1)"
        and s': "s' = audit_event AA_SERVICE_DEACTIVATED ''service'' (nat_str k) (Some actor) rq
           (JObj [(''reason'', JStr ''service_has_bookings'')]) s1"
        by (auto simp: destroy_service_def save_service_def split: sum.splits list.splits)
      have s1: "s1 = s\<lparr>services := save_row sv_id ?v (services s)\<rparr>"
        using saved v key by (auto simp: save_service_def save_service_row_def split: list.splits)
      have "has_key ca_id (categories s) (sv_category ?v)"
        using assms(2) mem by (auto simp: references_ok_def list_all_iff Let_def)
      from service_saved_references [OF assms(2) this] have "references_ok s1" by (simp add: s1)
      moreover have "get_service k s1 = Some ?v" using save_service_sound [OF saved] key by simp
      ultimately show ?thesis
        using True by (simp add: s' s1)
    next
      case False
      then have "\<not> protected_service k s" "s' = unlink_service k s"
        using run v by (auto simp: destroy_service_def delete_service_def split: if_splits)
      with False unlinked_service_references [OF assms(2)] show ?thesis
        by (auto simp: get_service_def find_row_def unlink_service_def find_None_iff)
    qed
  qed
  from assms(1) cat srv show ?thesis by blast
qed

theorem deletion_keeps_references_witness:
  "\<exists>s'. destroy_service 4 2 None (sample_storefront_db []) = Inr s' \<and> references_ok s' \<and> get_service 4 s' = None"
proof -
  let ?run = "destroy_service 4 2 None (sample_storefront_db [])"
  have "case ?run of Inl e \<Rightarrow> False | Inr s' \<Rightarrow> True" by code_simp
  then obtain s' where s': "?run = Inr s'" by (cases ?run) auto
  have "references_ok (sample_storefront_db [])" "\<not> list_ex (\<lambda>b. b_service b = 4) (bookings (sample_storefront_db []))"
    by code_simp+
  with deletion_keeps_references [OF disjI1 [OF s']] s' show ?thesis by auto
qed

text \<open>Every change of a price is on record: an update of a service by an administrator registers exactly
  one audit event, with the service, the administrator and the prices after the update, and it is
  recorded as a change of price if and only if one of the two prices changed.\<close>

theorem price_changes_are_audited:
  assumes "update_service_view stored k w actor rq s = Inr (v, s')" and "get_service k s = Some old"
  shows "\<exists>a. on_commit s' = on_commit s @ [WriteAudit a] \<and> a_actor a = Some actor \<and>
           a_resource_id a = nat_str k \<and>
           item ''base_price'' (a_metadata a) = JStr (money_str (sv_base_price v)) \<and>
           item ''selling_price'' (a_metadata a) =
             (case sv_selling_price v of None \<Rightarrow> JNull | Some p \<Rightarrow> JStr (money_str p)) \<and>
           (a_action a = AA_SERVICE_PRICE_CHANGED \<longleftrightarrow>
              sv_base_price v \<noteq> sv_base_price old \<or> sv_selling_price v \<noteq> sv_selling_price old)"
proof -
  obtain s1 s2 where saved: "update_service k (sw_attrs w) s = Inr (v, s1)"
    and stored: "store_pictures stored k (sw_uploads w) s1 = Inr s2"
    and s': "s' = audit_event (service_update_action old (pictures_of k s) v (pictures_of k s2))
        ''service'' (nat_str k) (Some actor) rq (JObj (service_metadata v @ [(''selling_price'',
          case sv_selling_price v of None \<Rightarrow> JNull | Some p \<Rightarrow> PyObj (money_str p))])) s2"
    using assms by (auto simp: update_service_view_def split: option.splits sum.splits prod.splits)
  have "on_commit s1 = on_commit s"
    using saved by (auto simp: update_service_def save_service_def insert_service_row_def save_service_row_def
        split: option.splits sum.splits prod.splits list.splits if_splits)
  moreover have "on_commit s2 = on_commit s1"
    using stored by (auto simp: store_pictures_def split: if_splits)
  moreover have "audit_sensitive ''slug'' = False" "audit_sensitive ''base_price'' = False"
    "audit_sensitive ''selling_price'' = False" by code_simp+
  ultimately show ?thesis
    by (cases "sv_selling_price v")
      (simp_all add: s' audit_event_def service_metadata_def item_def service_update_action_def)
qed

definition price_write :: service_write where
  "price_write = \<lparr>sw_attrs = no_attrs\<lparr>at_selling_price := Some (Some 80000)\<rparr>, sw_uploads = []\<rparr>"

theorem price_changes_are_audited_witness:
  "\<exists>v s' a. update_service_view (\<lambda>f. True) 4 price_write 2 None (sample_storefront_db []) = Inr (v, s') \<and>
     on_commit s' = on_commit (sample_storefront_db []) @ [WriteAudit a] \<and> a_action a = AA_SERVICE_PRICE_CHANGED"
proof -
  let ?run = "update_service_view (\<lambda>f. True) 4 price_write 2 None (sample_storefront_db [])"
  have ok: "case ?run of Inl e \<Rightarrow> False | Inr (v, s') \<Rightarrow> sv_selling_price v \<noteq> sv_selling_price sample_service" by code_simp
  then obtain v s' where s': "?run = Inr (v, s')" by (cases ?run) auto
  have "get_service 4 (sample_storefront_db []) = Some sample_service" by code_simp
  from price_changes_are_audited [OF s' this] ok s' show ?thesis by auto
qed

text \<open>A service in a package or in somebody's cart cannot be deleted and is not switched off either:
  unless it was booked, the handler runs into the protection of the foreign key and refuses.\<close>

theorem packaged_service_cannot_be_destroyed:
  assumes "get_service k s = Some v" and "\<not> list_ex (\<lambda>b. b_service b = k) (bookings s)"
    and "list_ex (\<lambda>i. pi_service i = k) (package_items s) \<or> list_ex (\<lambda>c. ci_service c = k) (cart_items s)"
  shows "destroy_service k actor rq s = Inl (IntegrityError ''ProtectedError'')"
  using assms by (auto simp: destroy_service_def delete_service_def protected_service_def)

theorem packaged_service_cannot_be_destroyed_witness:
  "destroy_service 4 2 None ((sample_storefront_db [])\<lparr>package_items :=
     [\<lparr>pi_id = 60, pi_package = 61, pi_service = 4, pi_quantity = 1, pi_order = 0\<rparr>]\<rparr>) =
   Inl (IntegrityError ''ProtectedError'')"
  by (rule packaged_service_cannot_be_destroyed [of _ _ sample_service]) code_simp+

text \<open>Deleting a service can lock its leads: a lead that asked for it is left without a service, and
  when its customer has another active lead, the first can no longer be saved, whatever is changed in it.\<close>

theorem deleted_service_locks_lead:
  assumes "delete_service k s = Inr s'" and "l \<in> set (leads s)" and "l_service l = Some k"
    and "m \<in> set (leads s)" and "l_id m \<noteq> l_id l" and "is_active_lead m" and "l_mobile m = l_mobile l"
    and "l_id l2 = l_id l" and "l_service l2 = None" and "l_mobile l2 = l_mobile l" and "is_active_lead l2"
  shows "l\<lparr>l_service := None\<rparr> \<in> set (leads s') \<and> isl (save_lead now l2 s')"
proof
  have leads: "leads s' = map (\<lambda>l. if l_service l = Some k then l\<lparr>l_service := None\<rparr> else l) (leads s)"
    using assms(1) by (auto simp: delete_service_def unlink_service_def split: if_splits)
  show "l\<lparr>l_service := None\<rparr> \<in> set (leads s')" using assms(2,3) by (force simp: leads)
  let ?m = "if l_service m = Some k then m\<lparr>l_service := None\<rparr> else m"
  have "?m \<in> set (leads s')" using assms(4) by (simp only: leads set_map) (rule imageI)
  moreover have "duplicate_lead (l2\<lparr>l_updated_at := now\<rparr>) ?m"
    using assms(5-10) by (simp add: duplicate_lead_def is_active_lead_def)
  ultimately have "list_ex (duplicate_lead (l2\<lparr>l_updated_at := now\<rparr>)) (leads s')"
    unfolding list_ex_iff by blast
  then show "isl (save_lead now l2 s')"
    using assms(11) lead_clean_Nil [of "l2\<lparr>l_updated_at := now\<rparr>" s']
    by (auto simp: save_lead_def is_active_lead_def Let_def split: list.splits)
qed

theorem deleted_service_locks_lead_witness:
  "isl (save_lead 9 ((sample_lead 71)\<lparr>l_service := None, l_internal_notes := ''Called''\<rparr>)
     (unlink_service 4 ((sample_storefront_db [])\<lparr>leads :=
        [(sample_lead 71)\<lparr>l_service := Some 4\<rparr>, (sample_lead 72)\<lparr>l_service := None\<rparr>]\<rparr>)))"
proof -
  let ?s = "(sample_storefront_db [])\<lparr>leads :=
        [(sample_lead 71)\<lparr>l_service := Some 4\<rparr>, (sample_lead 72)\<lparr>l_service := None\<rparr>]\<rparr>"
  have free: "\<not> protected_service 4 ?s" by code_simp
  have facts: "is_active_lead ((sample_lead 72)\<lparr>l_service := None\<rparr>)" "l_mobile (sample_lead 72) = l_mobile (sample_lead 71)"
    "l_id (sample_lead 72) \<noteq> l_id (sample_lead 71)"
    "is_active_lead ((sample_lead 71)\<lparr>l_service := None, l_internal_notes := ''Called''\<rparr>)"
    by code_simp+
  have "delete_service 4 ?s = Inr (unlink_service 4 ?s)" using free by (simp add: delete_service_def)
  from deleted_service_locks_lead [OF this, of "(sample_lead 71)\<lparr>l_service := Some 4\<rparr>"
      "(sample_lead 72)\<lparr>l_service := None\<rparr>" "(sample_lead 71)\<lparr>l_service := None, l_internal_notes := ''Called''\<rparr>" 9]
  show ?thesis using facts by simp
qed

end
