(* ===== verification/Reports.thy ===== *)
theory Reports
  imports Catalogue_Views
begin

text \<open>
  The read side of the administrators' desk, the views of \<open>apps/operations/views.py\<close> that only query: the
  filtered list of leads with its summary and its export, the dashboard with its cache, the search, the
  report, and the lists and audited writes of banners. The time a row was created is an argument,
  \<open>created\<close>, from the row's key. Rows are kept oldest first, so that \<open>order_by("-created_at")\<close> is \<open>rev\<close>.
\<close>

section \<open>Dates and identifiers in a query string\<close>

text \<open>
  A date of a query: year, month and day with dashes, checked against the calendar. (Python's
  \<open>fromisoformat\<close> also reads compact and week dates, which are refused here.)
\<close>

definition civil_day :: "int \<Rightarrow> int \<Rightarrow> int \<Rightarrow> date" where
  "civil_day y m d =
     (let y2 = (if m \<le> 2 then y - 1 else y);
          era = y2 div 400;
          yoe = y2 mod 400;
          doy = (153 * (if m > 2 then m - 3 else m + 9) + 2) div 5 + d - 1;
          doe = yoe * 365 + yoe div 4 - yoe div 100 + doy
      in era * 146097 + doe - 719468)"

definition split_dash :: "string \<Rightarrow> string \<times> string" where
  "split_dash x = (takeWhile (\<lambda>c. c \<noteq> CHR ''-'') x, drop 1 (dropWhile (\<lambda>c. c \<noteq> CHR ''-'') x))"

definition parse_date :: "string \<Rightarrow> date option" where
  "parse_date x =
     (let (yy, rest) = split_dash x;
          (mm, dd) = split_dash rest;
          y = int (parse_nat yy); m = int (parse_nat mm); d = int (parse_nat dd);
          day = civil_day y m d
      in if length yy = 4 \<and> length mm \<in> {1, 2} \<and> length dd \<in> {1, 2} \<and>
            list_all is_digit (yy @ mm @ dd) \<and> y \<ge> 1 \<and> civil_of day = (y, m, d)
         then Some day else None)"

text \<open>An optional parameter: empty means no filter, and a value that cannot be read is an error.\<close>

definition date_param :: "string \<Rightarrow> error + date option" where
  "date_param x =
     (if x = '''' then Inr None
      else case parse_date x of
             None \<Rightarrow> Inl (ValidationError ''The value has an invalid date format.'')
           | Some d \<Rightarrow> Inr (Some d))"

definition key_param :: "string \<Rightarrow> error + nat option" where
  "key_param x =
     (if x = '''' then Inr None
      else case parse_key x of None \<Rightarrow> Inl (InvalidUuid x) | Some k \<Rightarrow> Inr (Some k))"

definition within_dates :: "date option \<Rightarrow> date option \<Rightarrow> timestamp \<Rightarrow> bool" where
  "within_dates from until t =
     ((case from of None \<Rightarrow> True | Some d \<Rightarrow> d \<le> localdate t) \<and>
      (case until of None \<Rightarrow> True | Some d \<Rightarrow> localdate t \<le> d))"

section \<open>The list of leads\<close>

record lead_query =
  lq_status :: string
  lq_funnel :: string
  lq_payment :: string
  lq_source :: string
  lq_assigned_to :: string
  lq_service :: string
  lq_service_search :: string
  lq_city :: string
  lq_mobile :: string
  lq_request_id :: string
  lq_created_from :: string
  lq_created_to :: string
  lq_follow_up_date :: string
  lq_search :: string
  lq_ordering :: string

text \<open>The parameters that have to be read first, in the order in which the view reads them.\<close>

record lead_filter =
  lf_assigned :: "nat option"
  lf_service :: "nat option"
  lf_from :: "date option"
  lf_to :: "date option"
  lf_follow_up :: "date option"

definition read_lead_query :: "lead_query \<Rightarrow> error + lead_filter" where
  "read_lead_query q =
     (case key_param (lq_assigned_to q) of Inl e \<Rightarrow> Inl e | Inr a \<Rightarrow>
      case key_param (lq_service q) of Inl e \<Rightarrow> Inl e | Inr v \<Rightarrow>
      case date_param (lq_created_from q) of Inl e \<Rightarrow> Inl e | Inr f \<Rightarrow>
      case date_param (lq_created_to q) of Inl e \<Rightarrow> Inl e | Inr t \<Rightarrow>
      case date_param (lq_follow_up_date q) of Inl e \<Rightarrow> Inl e | Inr u \<Rightarrow>
        Inr \<lparr>lf_assigned = a, lf_service = v, lf_from = f, lf_to = t, lf_follow_up = u\<rparr>)"

definition booking_number_has :: "string \<Rightarrow> nat option \<Rightarrow> 'x bookings_db_scheme \<Rightarrow> bool" where
  "booking_number_has term k s =
     (case k of
        None \<Rightarrow> False
      | Some i \<Rightarrow> (case get_booking i s of None \<Rightarrow> False | Some b \<Rightarrow> icontains term (b_number b)))"

definition service_name_has :: "string \<Rightarrow> nat option \<Rightarrow> 'x catalogue_db_scheme \<Rightarrow> bool" where
  "service_name_has term k s =
     (case k of
        None \<Rightarrow> False
      | Some i \<Rightarrow> (case get_service i s of None \<Rightarrow> False | Some v \<Rightarrow> icontains term (sv_name v)))"

definition lead_bookings_have :: "string \<Rightarrow> lead \<Rightarrow> 'x bookings_db_scheme \<Rightarrow> bool" where
  "lead_bookings_have term l s =
     (booking_number_has term (l_converted_booking l) s \<or> booking_number_has term (l_pending_booking l) s)"

definition matches_choices :: "lead_query \<Rightarrow> lead_filter \<Rightarrow> lead \<Rightarrow> bool" where
  "matches_choices q f l =
     ((if lq_status q = ''OPEN'' then is_active_lead l
       else lq_status q = '''' \<or> lead_status_str (l_status l) = lq_status q) \<and>
      (lq_funnel q = '''' \<or> funnel_str (l_funnel l) = lq_funnel q) \<and>
      (lq_payment q = '''' \<or> lead_payment_str (l_payment l) = lq_payment q) \<and>
      (lq_source q = '''' \<or> source_str (l_source l) = lq_source q) \<and>
      (lf_assigned f = None \<or> l_staff l = lf_assigned f) \<and>
      (lf_service f = None \<or> l_service l = lf_service f))"

definition matches_texts :: "lead_query \<Rightarrow> 'x leads_db_scheme \<Rightarrow> lead \<Rightarrow> bool" where
  "matches_texts q s l =
     (let svc = strip_str (lq_service_search q); city = strip_str (lq_city q);
          mobile = strip_str (lq_mobile q); rid = strip_str (lq_request_id q)
      in (svc = '''' \<or> service_name_has svc (l_service l) s) \<and>
         (city = '''' \<or> icontains city (l_city l)) \<and>
         (mobile = '''' \<or> icontains mobile (l_mobile l)) \<and>
         (rid = '''' \<or> icontains rid (nat_str (l_id l)) \<or> lead_bookings_have rid l s))"

definition matches_dates :: "(nat \<Rightarrow> timestamp) \<Rightarrow> lead_filter \<Rightarrow> lead \<Rightarrow> bool" where
  "matches_dates created f l =
     (within_dates (lf_from f) (lf_to f) (created (l_id l)) \<and>
      (case lf_follow_up f of
         None \<Rightarrow> True
       | Some d \<Rightarrow> (case l_follow_up_at l of None \<Rightarrow> False | Some t \<Rightarrow> localdate t = d)))"

definition matches_search :: "lead_query \<Rightarrow> 'x leads_db_scheme \<Rightarrow> lead \<Rightarrow> bool" where
  "matches_search q s l =
     (let term = strip_str (lq_search q) in
      lq_search q = '''' \<or> icontains term (l_customer_name l) \<or> icontains term (l_mobile l) \<or>
      icontains term (nat_str (l_id l)) \<or> lead_bookings_have term l s \<or>
      service_name_has term (l_service l) s)"

text \<open>
  The order. An absent follow-up time counts as the latest, as in PostgreSQL; rows that are equal come
  in some order, here the order of the table.
\<close>

definition follow_up_key :: "lead \<Rightarrow> bool \<times> timestamp" where
  "follow_up_key l = (case l_follow_up_at l of None \<Rightarrow> (True, 0) | Some t \<Rightarrow> (False, t))"

definition follow_up_before :: "lead \<Rightarrow> lead \<Rightarrow> bool" where
  "follow_up_before l m =
     (let (a, x) = follow_up_key l; (b, y) = follow_up_key m in (\<not> a \<and> b) \<or> (a = b \<and> x < y))"

definition lead_before :: "(nat \<Rightarrow> timestamp) \<Rightarrow> string \<Rightarrow> lead \<Rightarrow> lead \<Rightarrow> bool" where
  "lead_before created order l m =
     (if order = ''created_at'' then created (l_id l) < created (l_id m)
      else if order = ''-created_at'' then created (l_id m) < created (l_id l)
      else if order = ''last_activity_at'' then l_last_activity_at l < l_last_activity_at m
      else if order = ''follow_up_at'' then follow_up_before l m
      else if order = ''-follow_up_at'' then follow_up_before m l
      else if order = ''customer_name'' then str_less (l_customer_name l) (l_customer_name m)
      else if order = ''-customer_name'' then str_less (l_customer_name m) (l_customer_name l)
      else l_last_activity_at m < l_last_activity_at l)"

definition lead_matches ::
  "(nat \<Rightarrow> timestamp) \<Rightarrow> lead_query \<Rightarrow> lead_filter \<Rightarrow> 'x leads_db_scheme \<Rightarrow> lead \<Rightarrow> bool" where
  "lead_matches created q f s l =
     (matches_choices q f l \<and> matches_texts q s l \<and> matches_dates created f l \<and> matches_search q s l)"

definition list_leads ::
  "(nat \<Rightarrow> timestamp) \<Rightarrow> lead_query \<Rightarrow> 'x leads_db_scheme \<Rightarrow> error + lead list" where
  "list_leads created q s =
     (case read_lead_query q of
        Inl e \<Rightarrow> Inl e
      | Inr f \<Rightarrow>
          Inr (sort_before (lead_before created (lq_ordering q))
                (filter (lead_matches created q f s) (leads s))))"

definition lead_summary_view ::
  "(nat \<Rightarrow> timestamp) \<Rightarrow> timestamp \<Rightarrow> lead_query \<Rightarrow> 'x leads_db_scheme \<Rightarrow> error + lead_summary" where
  "lead_summary_view created now q s =
     (case list_leads created q s of Inl e \<Rightarrow> Inl e | Inr ls \<Rightarrow> Inr (lead_summary_of now ls))"

section \<open>The export\<close>

text \<open>
  \<open>csv.writer\<close> with its default dialect, for rows of two fields or more: a field with a comma, a quote
  or a line break is quoted, and its quotes are doubled.
\<close>

definition csv_special :: "char \<Rightarrow> bool" where
  "csv_special c = (c = CHR '','' \<or> c = CHR 0x22 \<or> c = CHR 0x0D \<or> c = CHR 0x0A)"

definition csv_field :: "string \<Rightarrow> string" where
  "csv_field x =
     (if list_ex csv_special x
      then [CHR 0x22] @ concat (map (\<lambda>c. if c = CHR 0x22 then [c, c] else [c]) x) @ [CHR 0x22]
      else x)"

definition csv_row :: "string list \<Rightarrow> string" where
  "csv_row fs = join_str '','' (map csv_field fs) @ [CHR 0x0D, CHR 0x0A]"

definition csv_text :: "string list list \<Rightarrow> string" where
  "csv_text rows = concat (map csv_row rows)"

text \<open>\<open>csv.reader\<close> of the same dialect: the field and the row read so far, and whether a quote is open.\<close>

fun csv_scan :: "bool \<Rightarrow> string \<Rightarrow> string list \<Rightarrow> string \<Rightarrow> string list list" where
  "csv_scan quoted f row [] = (if f = '''' \<and> row = [] then [] else [row @ [f]])"
| "csv_scan quoted f row (c # xs) =
     (if quoted then
        (if c \<noteq> CHR 0x22 then csv_scan True (f @ [c]) row xs
         else case xs of
                [] \<Rightarrow> csv_scan False f row []
              | d # ys \<Rightarrow> if d = CHR 0x22 then csv_scan True (f @ [d]) row ys else csv_scan False f row (d # ys))
      else if c = CHR '','' then csv_scan False '''' (row @ [f]) xs
      else if c = CHR 0x22 \<and> f = '''' then csv_scan True f row xs
      else if c = CHR 0x0D \<or> c = CHR 0x0A then
        (if f = '''' \<and> row = [] then csv_scan False '''' [] xs
         else (row @ [f]) # csv_scan False '''' [] xs)
      else csv_scan False (f @ [c]) row xs)"

text \<open>\<open>str\<close> of an aware time in UTC, and \<open>value or ""\<close>, which drops an amount of zero.\<close>

definition datetime_str :: "timestamp \<Rightarrow> string" where
  "datetime_str t = map (\<lambda>c. if c = CHR ''T'' then CHR '' '' else c) (iso_str t)"

definition amount_or_empty :: "money option \<Rightarrow> string" where
  "amount_or_empty m = (case m of None \<Rightarrow> '''' | Some x \<Rightarrow> if x = 0 then '''' else money_str x)"

definition service_name_of :: "string \<Rightarrow> nat option \<Rightarrow> 'x catalogue_db_scheme \<Rightarrow> string" where
  "service_name_of absent k s =
     (case k of
        None \<Rightarrow> absent
      | Some i \<Rightarrow> (case get_service i s of None \<Rightarrow> absent | Some v \<Rightarrow> sv_name v))"

definition export_header :: "string list" where
  "export_header = [''Lead ID'', ''Customer'', ''Mobile'', ''Service'', ''Source'', ''Funnel status'',
     ''Payment status'', ''Amount'', ''Last activity'', ''Follow-up'']"

definition export_row :: "'x leads_db_scheme \<Rightarrow> lead \<Rightarrow> string list" where
  "export_row s l =
     [nat_str (l_id l), l_customer_name l, l_mobile l, service_name_of '''' (l_service l) s,
      source_str (l_source l), funnel_str (l_funnel l), lead_payment_str (l_payment l),
      amount_or_empty (l_quoted l), datetime_str (l_last_activity_at l),
      (case l_follow_up_at l of None \<Rightarrow> '''' | Some t \<Rightarrow> datetime_str t)]"

definition export_leads ::
  "(nat \<Rightarrow> timestamp) \<Rightarrow> lead_query \<Rightarrow> 'x leads_db_scheme \<Rightarrow> error + string" where
  "export_leads created q s =
     (case list_leads created q s of
        Inl e \<Rightarrow> Inl e
      | Inr ls \<Rightarrow> Inr (csv_text (export_header # map (export_row s) (take 1000 ls))))"


section \<open>The dashboard\<close>

record dashboard =
  da_daily_gmv :: money
  da_active :: nat
  da_available_technicians :: nat
  da_open_unassigned_leads :: nat
  da_leads_today :: nat
  da_follow_ups_due :: nat
  da_bookings_today :: nat
  da_confirmed :: nat
  da_payment_pending :: nat
  da_unassigned :: nat
  da_upcoming :: nat
  da_failed_notifications :: nat
  da_recent :: "booking list"
  da_pending_items :: "booking list"
  da_unassigned_items :: "booking list"

definition in_service :: "booking \<Rightarrow> bool" where
  "in_service b =
     (b_status b \<in> {BS_CONFIRMED, BS_TECHNICIAN_ASSIGNED, BS_TECHNICIAN_EN_ROUTE, BS_IN_PROGRESS})"

definition is_unassigned :: "booking \<Rightarrow> bool" where
  "is_unassigned b = (in_service b \<and> b_technician b = None)"

definition is_upcoming :: "date \<Rightarrow> booking \<Rightarrow> bool" where
  "is_upcoming today b =
     (today \<le> b_service_date b \<and> b_service_date b \<le> today + 7 \<and>
      b_status b \<notin> {BS_COMPLETED, BS_CLOSED, BS_CANCELLED, BS_REFUNDED})"

definition earned_on :: "date \<Rightarrow> payment \<Rightarrow> bool" where
  "earned_on d p =
     (p_status p = PR_SUCCESS \<and> p_type p \<in> {BOOKING_ADVANCE, BALANCE} \<and>
      (case p_paid_at p of None \<Rightarrow> False | Some t \<Rightarrow> localdate t = d))"

definition can_take_jobs :: "'x accounts_db_scheme \<Rightarrow> technician \<Rightarrow> bool" where
  "can_take_jobs s t =
     ((case get_user (t_user t) s of None \<Rightarrow> False | Some u \<Rightarrow> u_active u) \<and> t_active t \<and> t_available t \<and>
      t_availability t = TA_AVAILABLE \<and> t_verification t = TV_VERIFIED)"

definition slot_start_of :: "booking \<Rightarrow> 'x scheduling_db_scheme \<Rightarrow> time_of_day" where
  "slot_start_of b s = (case get_slot (b_slot b) s of None \<Rightarrow> 0 | Some sl \<Rightarrow> sl_start sl)"

definition service_time_before :: "'x scheduling_db_scheme \<Rightarrow> booking \<Rightarrow> booking \<Rightarrow> bool" where
  "service_time_before s b c =
     (b_service_date b < b_service_date c \<or>
      (b_service_date b = b_service_date c \<and> slot_start_of b s < slot_start_of c s))"

definition dashboard_summary ::
  "(nat \<Rightarrow> timestamp) \<Rightarrow> timestamp \<Rightarrow> 'x technicians_db_scheme \<Rightarrow> dashboard" where
  "dashboard_summary created now s =
     (let today = localdate now;
          among = (\<lambda>p. count_rows p (bookings s));
          newest = (\<lambda>p. take 6 (rev (filter p (bookings s))))
      in \<lparr>da_daily_gmv = sum_rows p_amount (earned_on today) (payments s),
          da_active = among in_service,
          da_available_technicians = count_rows (can_take_jobs s) (technicians s),
          da_open_unassigned_leads = count_rows (\<lambda>l. is_active_lead l \<and> l_staff l = None) (leads s),
          da_leads_today = count_rows (\<lambda>l. localdate (created (l_id l)) = today) (leads s),
          da_follow_ups_due = count_rows (\<lambda>l. is_active_lead l \<and>
             (case l_follow_up_at l of None \<Rightarrow> False | Some t \<Rightarrow> t \<le> now)) (leads s),
          da_bookings_today = among (\<lambda>b. localdate (created (b_id b)) = today),
          da_confirmed = among (\<lambda>b. b_status b = BS_CONFIRMED),
          da_payment_pending = among (\<lambda>b. b_payment_status b = PS_UNPAID),
          da_unassigned = among is_unassigned,
          da_upcoming = among (is_upcoming today),
          da_failed_notifications = count_rows (\<lambda>n. n_status n = NS_FAILED) (notifications s),
          da_recent = newest (\<lambda>b. True),
          da_pending_items = newest (\<lambda>b. b_payment_status b = PS_UNPAID),
          da_unassigned_items =
            take 6 (sort_before (service_time_before s) (filter is_unassigned (bookings s)))\<rparr>)"

text \<open>The cache of the dashboard, by the date in its key: the answer and when it expires.\<close>

type_synonym dashboard_cache = "date \<Rightarrow> (dashboard \<times> timestamp) option"

definition dashboard_timeout :: int where
  "dashboard_timeout = 30 * 1000000"

definition dashboard_view ::
  "(nat \<Rightarrow> timestamp) \<Rightarrow> timestamp \<Rightarrow> 'x technicians_db_scheme \<Rightarrow> dashboard_cache \<Rightarrow>
     dashboard \<times> dashboard_cache" where
  "dashboard_view created now s cache =
     (let today = localdate now;
          fresh = dashboard_summary created now s
      in case cache today of
           Some (d, expires) \<Rightarrow>
             if now < expires then (d, cache) else (fresh, cache(today \<mapsto> (fresh, now + dashboard_timeout)))
         | None \<Rightarrow> (fresh, cache(today \<mapsto> (fresh, now + dashboard_timeout))))"

section \<open>The search\<close>

datatype result_kind = WORK_ORDER | LEAD_RESULT | CUSTOMER_RESULT

record search_result =
  sr_kind :: result_kind
  sr_id :: nat
  sr_title :: string
  sr_subtitle :: string
  sr_url :: string

definition display_name_of :: "nat \<Rightarrow> 'x accounts_db_scheme \<Rightarrow> string option" where
  "display_name_of uid s = map_option cp_display_name (profile_of uid s)"

text \<open>The name a result shows: the profile's, or the first and last name, or nothing.\<close>

definition shown_name :: "user \<Rightarrow> 'x accounts_db_scheme \<Rightarrow> string" where
  "shown_name u s =
     or_str (strip_str (given '''' (display_name_of (u_id u) s)))
       (strip_str (join_str '' '' (nonempty_parts [u_first_name u, u_last_name u])))"

definition user_has :: "string \<Rightarrow> user \<Rightarrow> 'x accounts_db_scheme \<Rightarrow> bool" where
  "user_has term u s =
     (icontains term (u_phone u) \<or> icontains term (u_first_name u) \<or> icontains term (u_last_name u) \<or>
      (case display_name_of (u_id u) s of None \<Rightarrow> False | Some n \<Rightarrow> icontains term n))"

definition booking_has :: "string \<Rightarrow> booking \<Rightarrow> 'x accounts_db_scheme \<Rightarrow> bool" where
  "booking_has term b s =
     (icontains term (b_number b) \<or>
      (case get_user (b_customer b) s of None \<Rightarrow> False | Some u \<Rightarrow> user_has term u s))"

definition has_successful_payment :: "'x payments_db_scheme \<Rightarrow> booking \<Rightarrow> bool" where
  "has_successful_payment s b = list_ex (\<lambda>p. p_booking p = b_id b \<and> p_status p = PR_SUCCESS) (payments s)"

text \<open>The middle dot between the two parts of a subtitle.\<close>

definition dotted :: "string \<Rightarrow> string \<Rightarrow> string" where
  "dotted a b = a @ [CHR '' '', CHR 0xB7, CHR '' ''] @ b"

definition work_order_result :: "'x bookings_db_scheme \<Rightarrow> booking \<Rightarrow> search_result" where
  "work_order_result s b =
     (let phone_name = (case get_user (b_customer b) s of
                          None \<Rightarrow> '''' | Some u \<Rightarrow> or_str (shown_name u s) (u_phone u))
      in \<lparr>sr_kind = WORK_ORDER, sr_id = b_id b, sr_title = b_number b,
          sr_subtitle = dotted phone_name (service_name_of '''' (Some (b_service b)) s),
          sr_url = ''/admin/work-orders/'' @ nat_str (b_id b)\<rparr>)"

definition lead_result :: "'x leads_db_scheme \<Rightarrow> lead \<Rightarrow> search_result" where
  "lead_result s l =
     \<lparr>sr_kind = LEAD_RESULT, sr_id = l_id l, sr_title = or_str (l_customer_name l) (l_mobile l),
      sr_subtitle = dotted (l_mobile l) (service_name_of ''General enquiry'' (l_service l) s),
      sr_url = ''/admin/leads/'' @ nat_str (l_id l)\<rparr>"

definition customer_result :: "'x accounts_db_scheme \<Rightarrow> user \<Rightarrow> search_result" where
  "customer_result s u =
     \<lparr>sr_kind = CUSTOMER_RESULT, sr_id = u_id u, sr_title = or_str (shown_name u s) (u_phone u),
      sr_subtitle = u_phone u, sr_url = ''/admin/customers?customer='' @ nat_str (u_id u)\<rparr>"

definition global_search :: "string \<Rightarrow> 'x leads_db_scheme \<Rightarrow> string \<times> search_result list" where
  "global_search q s =
     (let query = strip_str q in
      if length query < 2 then (query, [])
      else
        let orders = take 8 (rev (filter (\<lambda>b. has_successful_payment s b \<and> booking_has query b s) (bookings s)));
            found = take 8 (rev (filter (\<lambda>l. icontains query (l_mobile l) \<or> icontains query (l_customer_name l) \<or>
                                              lead_bookings_have query l s) (leads s)));
            customers = take 8 (filter (\<lambda>u. u_role u = CUSTOMER \<and> user_has query u s) (users s))
        in (query, take 20 (map (work_order_result s) orders @ map (lead_result s) found @
                            map (customer_result s) customers)))"

section \<open>The report\<close>

record admin_report =
  rp_bookings :: nat
  rp_completed :: nat
  rp_cancelled :: nat
  rp_payment_pending :: nat
  rp_revenue :: money
  rp_advance :: money
  rp_balance :: money
  rp_refunds :: money
  rp_unassigned :: nat
  rp_rating_sum :: int
  rp_rating_count :: nat

text \<open>The average rating is the quotient of the last two fields, and 0 without reviews.\<close>

definition admin_report_of ::
  "(nat \<Rightarrow> timestamp) \<Rightarrow> date option \<Rightarrow> date option \<Rightarrow> 'x reviews_db_scheme \<Rightarrow> admin_report" where
  "admin_report_of created from until s =
     (let bs = filter (\<lambda>b. within_dates from until (created (b_id b))) (bookings s);
          ps = filter (\<lambda>p. p_status p = PR_SUCCESS \<and> within_dates from until (created (p_id p))) (payments s);
          paid = (\<lambda>t. sum_rows p_amount (\<lambda>p. p_type p = t) ps)
      in \<lparr>rp_bookings = length bs,
          rp_completed = count_rows (\<lambda>b. b_status b \<in> {BS_COMPLETED, BS_CLOSED}) bs,
          rp_cancelled = count_rows (\<lambda>b. b_status b = BS_CANCELLED) bs,
          rp_payment_pending = count_rows (\<lambda>b. b_payment_status b = PS_UNPAID) bs,
          rp_revenue = sum_rows p_amount (\<lambda>p. True) ps,
          rp_advance = paid BOOKING_ADVANCE, rp_balance = paid BALANCE, rp_refunds = paid REFUND,
          rp_unassigned = count_rows (\<lambda>b. b_status b = BS_CONFIRMED \<and> b_technician b = None) bs,
          rp_rating_sum = sum_rows rv_rating (\<lambda>r. True) (reviews s),
          rp_rating_count = length (reviews s)\<rparr>)"

definition reports_summary_view ::
  "(nat \<Rightarrow> timestamp) \<Rightarrow> string \<Rightarrow> string \<Rightarrow> 'x reviews_db_scheme \<Rightarrow> error + admin_report" where
  "reports_summary_view created date_from date_to s =
     (case date_param date_from of Inl e \<Rightarrow> Inl e | Inr f \<Rightarrow>
      case date_param date_to of Inl e \<Rightarrow> Inl e | Inr t \<Rightarrow> Inr (admin_report_of created f t s))"

section \<open>Banners for the administrator\<close>

record desk_db = storefront_db +
  banners :: "banner list"

fun placement_str :: "banner_placement \<Rightarrow> string" where
  "placement_str PL_MAIN = ''MAIN''"
| "placement_str PL_PROMOTIONAL_CAROUSEL = ''PROMOTIONAL_CAROUSEL''"
| "placement_str PL_CATEGORY = ''CATEGORY''"
| "placement_str PL_SERVICE_PAGE = ''SERVICE_PAGE''"

definition banner_before :: "banner \<Rightarrow> banner \<Rightarrow> bool" where
  "banner_before a b =
     (str_less (placement_str (bn_placement a)) (placement_str (bn_placement b)) \<or>
      (bn_placement a = bn_placement b \<and> bn_order a < bn_order b))"

definition list_banners ::
  "timestamp \<Rightarrow> string \<Rightarrow> string \<Rightarrow> string \<Rightarrow> 'x desk_db_scheme \<Rightarrow> banner list" where
  "list_banners now placement active live s =
     sort_before banner_before (rev (filter (\<lambda>b.
       (placement = '''' \<or> placement_str (bn_placement b) = placement) \<and>
       (active \<notin> {''true'', ''false''} \<or> bn_active b = (active = ''true'')) \<and>
       (live \<noteq> ''true'' \<or> is_live now b)) (banners s)))"

definition banner_audit ::
  "audit_action \<Rightarrow> banner \<Rightarrow> nat \<Rightarrow> request option \<Rightarrow> 'x audit_db_scheme \<Rightarrow> 'x audit_db_scheme" where
  "banner_audit action b actor rq s =
     audit_event action ''homepage_banner'' (nat_str (bn_id b)) (Some actor) rq
       (JObj [(''placement'', JStr (placement_str (bn_placement b))), (''is_active'', JBool (bn_active b))]) s"

definition create_banner ::
  "banner \<Rightarrow> nat \<Rightarrow> request option \<Rightarrow> 'x desk_db_scheme \<Rightarrow> error + (banner \<times> 'x desk_db_scheme)" where
  "create_banner data actor rq s =
     (let b = data\<lparr>bn_id := new_id s\<rparr> in
      case banner_clean b of
        [] \<Rightarrow> Inr (b, banner_audit AA_BANNER_CREATED b actor rq (bump_id (s\<lparr>banners := banners s @ [b]\<rparr>)))
      | errs \<Rightarrow> Inl (FieldErrors errs))"

definition update_banner ::
  "nat \<Rightarrow> (banner \<Rightarrow> banner) \<Rightarrow> nat \<Rightarrow> request option \<Rightarrow> 'x desk_db_scheme \<Rightarrow> error + (banner \<times> 'x desk_db_scheme)" where
  "update_banner k change actor rq s =
     (case find_row bn_id k (banners s) of
        None \<Rightarrow> Inl (ErrorResponse 404 ''Not found.'')
      | Some old \<Rightarrow>
          let b = (change old)\<lparr>bn_id := k\<rparr> in
          case banner_clean b of
            [] \<Rightarrow> Inr (b, banner_audit AA_BANNER_UPDATED b actor rq (s\<lparr>banners := save_row bn_id b (banners s)\<rparr>))
          | errs \<Rightarrow> Inl (FieldErrors errs))"

definition list_admin_faqs :: "string \<Rightarrow> 'x storefront_db_scheme \<Rightarrow> faq list" where
  "list_admin_faqs search s =
     sort_before faq_before
       (filter (\<lambda>f. search = '''' \<or> icontains (strip_str search) (fq_question f)) (faqs s))"


section \<open>Lemmas\<close>

lemma csv_scan_plain:
  "list_all (\<lambda>c. \<not> csv_special c) x \<Longrightarrow> csv_scan False f row (x @ rest) = csv_scan False (f @ x) row rest"
  by (induction x arbitrary: f) (auto simp: csv_special_def)

lemma csv_scan_quoted:
  assumes "\<And>zs. rest \<noteq> CHR 0x22 # zs"
  shows "csv_scan True f row (concat (map (\<lambda>c. if c = CHR 0x22 then [c, c] else [c]) x) @ CHR 0x22 # rest) =
           csv_scan False (f @ x) row rest"
proof (induction x arbitrary: f)
  case Nil
  show ?case using assms by (cases rest) auto
next
  case (Cons c x)
  show ?case using Cons.IH [of "f @ [c]"] by (cases "c = CHR 0x22") simp_all
qed

lemma csv_scan_field:
  assumes "\<And>zs. rest \<noteq> CHR 0x22 # zs"
  shows "csv_scan False '''' row (csv_field x @ rest) = csv_scan False x row rest"
proof (cases "list_ex csv_special x")
  case True
  then show ?thesis using csv_scan_quoted [OF assms, of "''''" row x] by (simp add: csv_field_def)
next
  case False
  then have "list_all (\<lambda>c. \<not> csv_special c) x" by (simp add: list_ex_iff list_all_iff)
  then show ?thesis using False csv_scan_plain [of x "''''" row rest] by (simp add: csv_field_def)
qed

lemma csv_scan_fields:
  assumes "fs \<noteq> []" and "row \<noteq> [] \<or> length fs \<ge> 2"
  shows "csv_scan False '''' row (csv_row fs @ rest) = (row @ fs) # csv_scan False '''' [] rest"
  using assms
proof (induction fs arbitrary: row)
  case Nil
  then show ?case by simp
next
  case (Cons x fs)
  show ?case
  proof (cases fs)
    case Nil
    then have "row \<noteq> []" using Cons.prems by simp
    then show ?thesis using Nil by (simp add: csv_row_def csv_scan_field)
  next
    case (Cons y ys)
    have "csv_row (x # fs) @ rest = csv_field x @ CHR '','' # (csv_row fs @ rest)"
      using Cons by (simp add: csv_row_def)
    moreover have "csv_scan False '''' row (csv_field x @ CHR '','' # (csv_row fs @ rest)) =
                     csv_scan False '''' (row @ [x]) (csv_row fs @ rest)"
      by (subst csv_scan_field) simp_all
    ultimately show ?thesis using Cons.IH [of "row @ [x]"] Cons by simp
  qed
qed

text \<open>Rows of two fields or more are read back from what was written.\<close>

lemma csv_scan_text: "\<forall>r\<in>set rows. length r \<ge> 2 \<Longrightarrow> csv_scan False '''' [] (csv_text rows) = rows"
proof (induction rows)
  case Nil
  then show ?case by (simp add: csv_text_def)
next
  case (Cons r rows)
  then have "r \<noteq> []" "length r \<ge> 2" by auto
  then show ?case using Cons csv_scan_fields [of r "[]" "csv_text rows"] by (simp add: csv_text_def)
qed

lemma sum_rows_by_type:
  "sum_rows f P ps = sum_rows f (\<lambda>p. P p \<and> p_type p = BOOKING_ADVANCE) ps +
     sum_rows f (\<lambda>p. P p \<and> p_type p = BALANCE) ps + sum_rows f (\<lambda>p. P p \<and> p_type p = REFUND) ps"
proof (induction ps)
  case (Cons p ps)
  then show ?case by (cases "p_type p") auto
qed simp

text \<open>What the dashboard's cache holds after the requests \<open>log\<close>, each with its time and database.\<close>

fun dashboard_cache_after ::
  "(nat \<Rightarrow> timestamp) \<Rightarrow> (timestamp \<times> 'x technicians_db_scheme) list \<Rightarrow> dashboard_cache" where
  "dashboard_cache_after created [] = Map.empty"
| "dashboard_cache_after created ((now, s) # log) =
     snd (dashboard_view created now s (dashboard_cache_after created log))"

lemma dashboard_cached:
  "dashboard_cache_after created log d = Some (summary, expires) \<Longrightarrow>
     \<exists>(t, s)\<in>set log. summary = dashboard_summary created t s \<and> localdate t = d \<and> expires = t + dashboard_timeout"
proof (induction log arbitrary: summary expires d)
  case (Cons request log)
  obtain now s where request: "request = (now, s)" by (cases request)
  let ?c = "dashboard_cache_after created log"
  from Cons.prems have "?c d = Some (summary, expires) \<or>
      (d = localdate now \<and> summary = dashboard_summary created now s \<and> expires = now + dashboard_timeout)"
    by (auto simp: request dashboard_view_def Let_def split: option.splits if_splits prod.splits)
  then show ?case
    using Cons.IH by (force simp: request)
qed simp

text \<open>Where a search result comes from.\<close>

lemma search_result_cases:
  assumes "r \<in> set (snd (global_search q s))"
  obtains b where "b \<in> set (bookings s)" "has_successful_payment s b" "booking_has (strip_str q) b s"
      "r = work_order_result s b"
  | l where "l \<in> set (leads s)" "r = lead_result s l"
  | u where "u \<in> set (users s)" "u_role u = CUSTOMER" "user_has (strip_str q) u s" "r = customer_result s u"
proof -
  have long: "\<not> length (strip_str q) < 2" using assms by (auto simp: global_search_def Let_def split: if_splits)
  have "r \<in> set (map (work_order_result s) (take 8 (rev (filter (\<lambda>b. has_successful_payment s b \<and>
               booking_has (strip_str q) b s) (bookings s)))) @
            map (lead_result s) (take 8 (rev (filter (\<lambda>l. icontains (strip_str q) (l_mobile l) \<or>
               icontains (strip_str q) (l_customer_name l) \<or> lead_bookings_have (strip_str q) l s) (leads s)))) @
            map (customer_result s) (take 8 (filter (\<lambda>u. u_role u = CUSTOMER \<and> user_has (strip_str q) u s) (users s))))"
    using assms long by (auto simp: global_search_def Let_def dest!: in_set_takeD)
  then show ?thesis using that by (auto dest!: in_set_takeD)
qed

lemma search_result_kinds [simp]:
  "sr_kind (work_order_result s b) = WORK_ORDER" "sr_id (work_order_result s b) = b_id b"
  "sr_kind (lead_result s l) = LEAD_RESULT" "sr_kind (customer_result s u) = CUSTOMER_RESULT"
  "sr_id (customer_result s u) = u_id u"
  by (simp_all add: work_order_result_def lead_result_def customer_result_def Let_def)

section \<open>Properties\<close>

text \<open>C27: The export of leads is read back by any reader of the format: its text gives the header and one row
  of ten fields for each of the first thousand leads of the filtered list, whatever commas, quotes and
  line breaks the customers' names have.\<close>

theorem exported_leads_read_back:
  assumes "export_leads created q s = Inr x"
  shows "\<exists>ls. list_leads created q s = Inr ls \<and>
           csv_scan False '''' [] x = export_header # map (export_row s) (take 1000 ls)"
proof -
  obtain ls where ls: "list_leads created q s = Inr ls"
    and x: "x = csv_text (export_header # map (export_row s) (take 1000 ls))"
    using assms by (auto simp: export_leads_def split: sum.splits)
  have "\<forall>r\<in>set (export_header # map (export_row s) (take 1000 ls)). length r \<ge> 2"
    by (auto simp: export_header_def export_row_def)
  then show ?thesis using ls csv_scan_text x by blast
qed

definition all_leads :: lead_query where
  "all_leads = \<lparr>lq_status = '''', lq_funnel = '''', lq_payment = '''', lq_source = '''', lq_assigned_to = '''',
     lq_service = '''', lq_service_search = '''', lq_city = '''', lq_mobile = '''', lq_request_id = '''',
     lq_created_from = '''', lq_created_to = '''', lq_follow_up_date = '''', lq_search = '''', lq_ordering = ''''\<rparr>"

definition quoted_name_db :: storefront_db where
  "quoted_name_db = (sample_storefront_db [])\<lparr>leads :=
     [(sample_lead 71)\<lparr>l_customer_name := [CHR 0x22] @ ''Rao, A.'' @ [CHR 0x22]\<rparr>]\<rparr>"

theorem exported_leads_read_back_witness:
  "\<exists>x. export_leads (\<lambda>k. 0) all_leads quoted_name_db = Inr x \<and>
       map (\<lambda>r. r ! 1) (csv_scan False '''' [] x) = [''Customer'', [CHR 0x22] @ ''Rao, A.'' @ [CHR 0x22]]"
proof -
  let ?ls = "[(sample_lead 71)\<lparr>l_customer_name := [CHR 0x22] @ ''Rao, A.'' @ [CHR 0x22]\<rparr>]"
  have list: "list_leads (\<lambda>k. 0) all_leads quoted_name_db = Inr ?ls" by code_simp
  then obtain x where x: "export_leads (\<lambda>k. 0) all_leads quoted_name_db = Inr x" by (simp add: export_leads_def)
  from exported_leads_read_back [OF this] list
  have "csv_scan False '''' [] x = export_header # map (export_row quoted_name_db) (take 1000 ?ls)" by auto
  then show ?thesis using x by (auto simp: export_header_def export_row_def)
qed

text \<open>C29: The dashboard is never stale by half a minute: whatever requests came before, at whatever times and
  on whatever states of the database, the answer is the summary of one of them or of this one, made on
  the same day and less than thirty seconds ago.\<close>

theorem dashboard_is_fresh:
  "\<exists>(t, s')\<in>set ((now, s) # log).
     fst (dashboard_view created now s (dashboard_cache_after created log)) = dashboard_summary created t s' \<and>
     localdate t = localdate now \<and> now < t + 30 * 1000000"
proof (cases "dashboard_cache_after created log (localdate now)")
  case None
  then show ?thesis by (auto simp: dashboard_view_def Let_def)
next
  case (Some e)
  obtain d expires where e: "e = (d, expires)" by (cases e)
  from dashboard_cached [OF Some [unfolded e]] obtain t s' where
    ts: "(t, s') \<in> set log" "d = dashboard_summary created t s'" "localdate t = localdate now"
    "expires = t + dashboard_timeout" by blast
  show ?thesis
  proof (cases "now < expires")
    case True
    then show ?thesis using Some ts by (auto simp: e dashboard_view_def dashboard_timeout_def Let_def)
  next
    case False
    then show ?thesis using Some by (auto simp: e dashboard_view_def Let_def)
  qed
qed

text \<open>The revenue of the report is not what was kept: it is the sum of the advances, the balances and the
  refunds, so that a refund raises it.\<close>

theorem report_adds_refunds:
  "rp_revenue (admin_report_of created from until s) =
     rp_advance (admin_report_of created from until s) + rp_balance (admin_report_of created from until s) +
     rp_refunds (admin_report_of created from until s)"
  using sum_rows_by_type [of p_amount "\<lambda>p. True"] by (simp add: admin_report_of_def Let_def)

text \<open>The search shows at most twenty records, nothing for a single character, work orders only when they
  have a successful payment and match, and of the users only matching customers.\<close>

theorem search_is_confined:
  assumes "r \<in> set (snd (global_search q s))"
  shows "length (snd (global_search q s)) \<le> 20 \<and> length (strip_str q) \<ge> 2 \<and>
         (sr_kind r = WORK_ORDER \<longrightarrow> (\<exists>b\<in>set (bookings s). sr_id r = b_id b \<and> has_successful_payment s b \<and>
            booking_has (strip_str q) b s)) \<and>
         (sr_kind r = CUSTOMER_RESULT \<longrightarrow> (\<exists>u\<in>set (users s). sr_id r = u_id u \<and> u_role u = CUSTOMER \<and>
            user_has (strip_str q) u s))"
proof -
  have bounds: "length (snd (global_search q s)) \<le> 20 \<and> length (strip_str q) \<ge> 2"
    using assms by (auto simp: global_search_def Let_def split: if_splits)
  from assms show ?thesis by (cases rule: search_result_cases) (use bounds in auto)
qed

definition searched_db :: storefront_db where
  "searched_db = (sample_storefront_db [sample_booking 7 BS_CONFIRMED])\<lparr>payments := [sample_payment 41 PR_SUCCESS]\<rparr>"

theorem search_is_confined_witness:
  "\<exists>r\<in>set (snd (global_search ''ps24'' searched_db)). sr_kind r = WORK_ORDER \<and>
     (\<exists>b\<in>set (bookings searched_db). sr_id r = b_id b \<and> has_successful_payment searched_db b)"
proof -
  have "list_ex (\<lambda>r. sr_kind r = WORK_ORDER) (snd (global_search ''ps24'' searched_db))" by code_simp
  then obtain r where r: "r \<in> set (snd (global_search ''ps24'' searched_db))" "sr_kind r = WORK_ORDER"
    by (auto simp: list_ex_iff)
  from search_is_confined [OF r(1)] r show ?thesis by blast
qed

end
