(* ===== verification/Invoices.thy ===== *)
theory Invoices
  imports Payments
begin

text \<open>
  Invoices, \<open>apps/payments/invoices.py\<close>: one invoice for a booking, numbered within the financial year
  that begins in April.
\<close>

record business =
  bu_name :: string
  bu_gstin :: string
  bu_address :: string

text \<open>\<open>str(start + 1)[-2:]\<close>\<close>

definition last_two :: "string \<Rightarrow> string" where
  "last_two x = drop (length x - 2) x"

definition financial_year :: "date \<Rightarrow> string" where
  "financial_year d =
     (let start = (if month_of d \<ge> 4 then year_of d else year_of d - 1)
      in int_str start @ ''-'' @ last_two (int_str (start + 1)))"

definition get_invoice :: "nat \<Rightarrow> 'x payments_db_scheme \<Rightarrow> invoice option" where
  "get_invoice k s = find_row in_id k (invoices s)"

definition invoice_of :: "nat \<Rightarrow> 'x payments_db_scheme \<Rightarrow> invoice option" where
  "invoice_of k s = first_row (\<lambda>i. in_booking i = k) (invoices s)"

text \<open>The next number of the year; the sequence row is created at 0.\<close>

definition next_invoice_number ::
  "string \<Rightarrow> 'x payments_db_scheme \<Rightarrow> nat \<times> 'x payments_db_scheme" where
  "next_invoice_number fy s =
     (case find_row is_year fy (invoice_sequences s) of
        None \<Rightarrow> (1, s\<lparr>invoice_sequences := invoice_sequences s @ [\<lparr>is_year = fy, is_number = 1\<rparr>]\<rparr>)
      | Some q \<Rightarrow>
          let n = is_number q + 1
          in (n, s\<lparr>invoice_sequences := save_row is_year (q\<lparr>is_number := n\<rparr>) (invoice_sequences s)\<rparr>))"

definition invoice_customer_name :: "user \<Rightarrow> 'x accounts_db_scheme \<Rightarrow> string" where
  "invoice_customer_name u s =
     (let display = strip_str (case profile_of (u_id u) s of None \<Rightarrow> '''' | Some p \<Rightarrow> cp_display_name p);
          full = strip_str (join_str '' '' (nonempty_parts [u_first_name u, u_last_name u]))
      in or_str display (or_str full (u_phone u)))"

definition invoice_number :: "string \<Rightarrow> nat \<Rightarrow> string" where
  "invoice_number fy n = ''PS/'' @ fy @ ''/'' @ pad_left 6 CHR ''0'' (nat_str n)"

definition new_invoice ::
  "business \<Rightarrow> timestamp \<Rightarrow> booking \<Rightarrow> user \<Rightarrow> string \<Rightarrow> string \<Rightarrow> nat \<Rightarrow> nat \<Rightarrow> invoice" where
  "new_invoice bu now b u name fy n k =
     (let cgst = half_of (b_tax b) in
      \<lparr>in_id = k, in_booking = b_id b, in_number = invoice_number fy n, in_year = fy,
       in_seller_name = bu_name bu, in_seller_gstin = bu_gstin bu, in_seller_address = bu_address bu,
       in_customer_name = name, in_customer_phone = u_phone u,
       in_taxable = b_subtotal b - b_discount b, in_cgst = cgst, in_sgst = b_tax b - cgst,
       in_igst = 0, in_total = b_total b, in_issued_at = now\<rparr>)"

text \<open>\<open>timezone.now().date()\<close> is the date in UTC, whatever the time zone of the business.\<close>

definition issue_invoice ::
  "business \<Rightarrow> timestamp \<Rightarrow> nat \<Rightarrow> 'x payments_db_scheme \<Rightarrow> error + (invoice \<times> 'x payments_db_scheme)" where
  "issue_invoice bu now k s =
     (case get_booking k s of
        None \<Rightarrow> Inl (DoesNotExist ''Booking'')
      | Some b \<Rightarrow>
          (case invoice_of k s of
             Some i \<Rightarrow> Inr (i, s)
           | None \<Rightarrow>
               if b_payment_status b \<noteq> PS_PAID \<and> b_status b \<noteq> BS_COMPLETED
               then Inl (ValidationError ''Invoice is available after full payment or service completion.'')
               else case get_user (b_customer b) s of
                 None \<Rightarrow> Inl (DoesNotExist ''User'')
               | Some u \<Rightarrow>
                   let fy = financial_year (utc_date now);
                       (n, s1) = next_invoice_number fy s;
                       i = new_invoice bu now b u (invoice_customer_name u s) fy n (new_id s1)
                   in if list_ex (\<lambda>j. in_number j = in_number i) (invoices s1)
                      then Inl (IntegrityError ''payments_invoice.invoice_number'')
                      else Inr (i, bump_id (s1\<lparr>invoices := invoices s1 @ [i]\<rparr>))))"

text \<open>
  The lines of the document that depend on the data, as \<open>render_invoice_pdf\<close> draws them; the layout
  is the drawing library's.
\<close>

definition title_case_words :: "string \<Rightarrow> string" where
  "title_case_words x =
     join_str '' '' (map (\<lambda>w. case w of [] \<Rightarrow> [] | c # cs \<Rightarrow> c # lower_str cs) (split_words x))"

definition month_abbreviations :: "string list" where
  "month_abbreviations =
     [''Jan'', ''Feb'', ''Mar'', ''Apr'', ''May'', ''Jun'', ''Jul'', ''Aug'', ''Sep'', ''Oct'', ''Nov'', ''Dec'']"

text \<open>\<open>strftime("%d %b %Y")\<close> of an instant in UTC.\<close>

definition invoice_date_str :: "timestamp \<Rightarrow> string" where
  "invoice_date_str at =
     (let d = utc_date at
      in pad_left 2 CHR ''0'' (nat_str (nat (day_of d))) @ '' '' @
         month_abbreviations ! nat (month_of d - 1) @ '' '' @ int_str (year_of d))"

definition invoice_lines :: "invoice \<Rightarrow> string \<Rightarrow> string \<Rightarrow> string list" where
  "invoice_lines i booking_number service_name =
     (let title = (if in_seller_gstin i = '''' then ''PAYMENT RECEIPT'' else ''TAX INVOICE'');
          amount = (\<lambda>m. ''INR '' @ money_str m)
      in [title_case_words title @ '' '' @ in_number i, title, in_seller_name i,
          take 90 (in_seller_address i)] @
         (if in_seller_gstin i = '''' then [] else [''GSTIN: '' @ in_seller_gstin i]) @
         [in_number i, invoice_date_str (in_issued_at i), ''Billed to'', in_customer_name i, in_customer_phone i,
          ''Booking: '' @ booking_number, ''Service'', ''Amount'', take 70 service_name,
          amount (in_taxable i), ''CGST'', amount (in_cgst i), ''SGST'', amount (in_sgst i),
          ''IGST'', amount (in_igst i), ''Total'', amount (in_total i),
          ''Computer-generated invoice. No signature is required.''])"

section \<open>Invoice numbers\<close>

definition invoice_serial :: "string \<Rightarrow> 'x payments_db_scheme \<Rightarrow> nat" where
  "invoice_serial fy s =
     (case find_row is_year fy (invoice_sequences s) of None \<Rightarrow> 0 | Some q \<Rightarrow> is_number q)"

lemma next_invoice_number_serial:
  assumes "next_invoice_number fy s = (n, s')"
  shows "n = Suc (invoice_serial fy s) \<and> invoice_serial fy s' = n \<and>
         (\<forall>y. y \<noteq> fy \<longrightarrow> invoice_serial y s' = invoice_serial y s) \<and>
         (\<exists>qs. s' = s\<lparr>invoice_sequences := qs\<rparr>)"
proof (cases "find_row is_year fy (invoice_sequences s)")
  case None
  with assms show ?thesis
    by (auto simp: next_invoice_number_def invoice_serial_def find_row_append split: option.splits)
next
  case (Some q)
  then have "is_year q = fy" by (auto dest: find_row_SomeD)
  with assms Some show ?thesis
    by (auto simp: next_invoice_number_def invoice_serial_def Let_def table_simps)
qed

text \<open>The second source of serial numbers: the invoices of a financial year.\<close>

interpretation invoice_serials: serial_source "\<lambda>s. Some (next_invoice_number fy s)" "invoice_serial fy"
  by unfold_locales (use next_invoice_number_serial in blast)

lemma no_slash_digits: "list_all is_digit x \<Longrightarrow> CHR ''/'' \<notin> set x"
  by (auto simp: list_all_iff is_digit_def)

lemma no_slash_int_str: "CHR ''/'' \<notin> set (int_str z)"
  using no_slash_digits [OF nat_str_digits] by (auto simp: int_str_def)

lemma no_slash_financial_year: "CHR ''/'' \<notin> set (financial_year d)"
proof -
  have "set (last_two x) \<subseteq> set x" for x by (simp add: last_two_def set_drop_subset)
  then show ?thesis using no_slash_int_str by (auto simp: financial_year_def Let_def)
qed

text \<open>A number tells its year and its serial.\<close>

lemma invoice_number_inj:
  assumes "CHR ''/'' \<notin> set fy" and "CHR ''/'' \<notin> set fy2"
  shows "invoice_number fy n = invoice_number fy2 m \<longleftrightarrow> fy = fy2 \<and> n = m"
proof
  assume eq: "invoice_number fy n = invoice_number fy2 m"
  let ?x = "pad_left 6 CHR ''0'' (nat_str n)" and ?y = "pad_left 6 CHR ''0'' (nat_str m)"
  have "fy @ CHR ''/'' # ?x = fy2 @ CHR ''/'' # ?y" using eq by (simp add: invoice_number_def)
  moreover have "CHR ''/'' \<notin> set ?x"
    using no_slash_digits [OF digits_pad [OF nat_str_digits]] by blast
  ultimately have "fy = fy2" and "?x = ?y" using assms(1) by (simp_all add: append_Cons_eq_iff)
  from \<open>?x = ?y\<close> have "parse_nat ?x = parse_nat ?y" by (rule arg_cong)
  then have "n = m" unfolding parse_nat_pad parse_nat_str .
  with \<open>fy = fy2\<close> show "fy = fy2 \<and> n = m" by simp
qed simp

text \<open>The invariant: one invoice for a booking, distinct numbers, each of them drawn in its year.\<close>

definition drawn_number :: "invoice \<Rightarrow> 'x payments_db_scheme \<Rightarrow> bool" where
  "drawn_number i s =
     (CHR ''/'' \<notin> set (in_year i) \<and>
      list_ex (\<lambda>n. in_number i = invoice_number (in_year i) n) [1..<Suc (invoice_serial (in_year i) s)])"

definition invoices_ok :: "'x payments_db_scheme \<Rightarrow> bool" where
  "invoices_ok s =
     (distinct (map in_booking (invoices s)) \<and> distinct (map in_number (invoices s)) \<and>
      list_all (\<lambda>i. drawn_number i s) (invoices s))"

lemma drawn_number_iff:
  "drawn_number i s \<longleftrightarrow> CHR ''/'' \<notin> set (in_year i) \<and>
     (\<exists>n. 1 \<le> n \<and> n \<le> invoice_serial (in_year i) s \<and> in_number i = invoice_number (in_year i) n)"
  by (auto simp: drawn_number_def list_ex_iff less_Suc_eq_le)

lemma invoice_ofD: "invoice_of k s = Some i \<Longrightarrow> i \<in> set (invoices s) \<and> in_booking i = k"
  unfolding invoice_of_def by (rule first_row_SomeD)

text \<open>What the steps of a new invoice are; the next number is free.\<close>

lemma issue_invoice_new:
  fixes now :: timestamp
  assumes "get_booking k s = Some b" and "invoice_of k s = None"
    and "b_payment_status b = PS_PAID \<or> b_status b = BS_COMPLETED" and "get_user (b_customer b) s = Some u"
    and ok: "invoices_ok s"
    and fy_def: "fy = financial_year (utc_date now)"
  obtains s1 i where "next_invoice_number fy s = (Suc (invoice_serial fy s), s1)"
    and "i = new_invoice bu now b u (invoice_customer_name u s) fy (Suc (invoice_serial fy s)) (new_id s1)"
    and "in_number i \<notin> in_number ` set (invoices s)"
    and "issue_invoice bu now k s = Inr (i, bump_id (s1\<lparr>invoices := invoices s1 @ [i]\<rparr>))"
    and "invoices s1 = invoices s"
proof -
  obtain n s1 where n: "next_invoice_number fy s = (n, s1)" by (metis surj_pair)
  note serial = next_invoice_number_serial [OF n]
  define i where "i = new_invoice bu now b u (invoice_customer_name u s) fy n (new_id s1)"
  have i: "in_number i = invoice_number fy n" by (simp add: i_def new_invoice_def Let_def)
  have rows: "invoices s1 = invoices s" using serial by auto
  have fy: "CHR ''/'' \<notin> set fy" by (simp add: fy_def no_slash_financial_year)
  have differ: "in_number j \<noteq> in_number i" if "j \<in> set (invoices s)" for j
  proof -
    from ok that have "drawn_number j s" by (simp add: invoices_ok_def list_all_iff)
    then obtain m where m: "CHR ''/'' \<notin> set (in_year j)" "m \<le> invoice_serial (in_year j) s"
      "in_number j = invoice_number (in_year j) m" by (auto simp: drawn_number_iff)
    show ?thesis
    proof
      assume "in_number j = in_number i"
      then have "fy = in_year j \<and> n = m" using i m fy invoice_number_inj by simp
      with serial m(2) show False by auto
    qed
  qed
  then have fresh: "in_number i \<notin> in_number ` set (invoices s)" by force
  have none: "\<not> list_ex (\<lambda>j. in_number j = in_number i) (invoices s1)"
    using differ rows by (simp add: list_ex_iff)
  have "\<not> (b_payment_status b \<noteq> PS_PAID \<and> b_status b \<noteq> BS_COMPLETED)" using assms(3) by blast
  then have "issue_invoice bu now k s =
      (if list_ex (\<lambda>j. in_number j = in_number i) (invoices s1)
       then Inl (IntegrityError ''payments_invoice.invoice_number'')
       else Inr (i, bump_id (s1\<lparr>invoices := invoices s1 @ [i]\<rparr>)))"
    using n unfolding issue_invoice_def assms(1,2,4) option.case Let_def fy_def [symmetric] i_def
    by (simp only: if_False prod.case)
  with none have "issue_invoice bu now k s = Inr (i, bump_id (s1\<lparr>invoices := invoices s1 @ [i]\<rparr>))"
    by (simp only: if_False)
  with fresh n rows serial show thesis by (intro that [of s1 i]) (simp_all add: i_def)
qed

section \<open>Properties\<close>

text \<open>C17: Invoice numbers never clash: in a state whose invoices carry numbers drawn from their years'
  sequences, issuing an invoice never runs into the uniqueness of the numbers, and keeps one invoice for
  each booking, distinct numbers and the sequences ahead of them.\<close>

theorem invoice_numbers_never_clash:
  assumes ok: "invoices_ok s"
  shows "issue_invoice bu now k s \<noteq> Inl (IntegrityError c) \<and>
         (\<forall>i s'. issue_invoice bu now k s = Inr (i, s') \<longrightarrow> invoices_ok s')"
proof (cases "\<exists>b u. get_booking k s = Some b \<and> invoice_of k s = None \<and>
    (b_payment_status b = PS_PAID \<or> b_status b = BS_COMPLETED) \<and> get_user (b_customer b) s = Some u")
  case True
  then obtain b u where b: "get_booking k s = Some b" "invoice_of k s = None"
    "b_payment_status b = PS_PAID \<or> b_status b = BS_COMPLETED" "get_user (b_customer b) s = Some u" by blast
  define fy where "fy = financial_year (utc_date now)"
  define n where "n = Suc (invoice_serial fy s)"
  from issue_invoice_new [OF b ok fy_def, of bu] obtain s1 i where
    drawn: "next_invoice_number fy s = (n, s1)" and free: "in_number i \<notin> in_number ` set (invoices s)"
    and i: "i = new_invoice bu now b u (invoice_customer_name u s) fy n (new_id s1)"
    and issued: "issue_invoice bu now k s = Inr (i, bump_id (s1\<lparr>invoices := invoices s1 @ [i]\<rparr>))"
    and rows: "invoices s1 = invoices s" unfolding n_def by blast
  let ?s' = "bump_id (s1\<lparr>invoices := invoices s1 @ [i]\<rparr>)"
  have fields: "in_booking i = k" "in_year i = fy" "in_number i = invoice_number fy n"
    using i booking_table.get_key [OF b(1)] by (simp_all add: new_invoice_def Let_def)
  have "k \<notin> in_booking ` set (invoices s)"
    using b(2) by (auto simp: invoice_of_def first_row_None_iff)
  moreover have serial: "invoice_serial y ?s' = (if y = fy then n else invoice_serial y s)" for y
    using next_invoice_number_serial [OF drawn] by (simp add: invoice_serial_def bump_id_def)
  have "drawn_number j ?s'" if "j \<in> set (invoices s)" for j
    using ok that serial by (fastforce simp: invoices_ok_def list_all_iff drawn_number_iff n_def)
  moreover have "drawn_number i ?s'"
    using fields serial no_slash_financial_year by (auto simp: drawn_number_iff fy_def n_def)
  ultimately have "invoices_ok ?s'"
    using ok free fields rows by (auto simp: invoices_ok_def list_all_iff bump_id_def)
  with issued show ?thesis by simp
next
  case False
  with ok show ?thesis by (auto simp: issue_invoice_def split: option.splits if_splits)
qed

definition sample_invoice_db :: "booking_status \<Rightarrow> leads_db" where
  "sample_invoice_db st =
     sample_leads_db [sample_user 1 CUSTOMER []] [sample_booking 7 st, sample_booking 8 st] [] []"

definition sample_business :: business where
  "sample_business = \<lparr>bu_name = ''PS'', bu_gstin = '''', bu_address = ''Chennai''\<rparr>"

theorem invoice_numbers_never_clash_witness:
  "\<exists>i s'. issue_invoice sample_business 0 7 (sample_invoice_db BS_COMPLETED) = Inr (i, s') \<and>
     invoices_ok s' \<and> in_number i = ''PS/1969-70/000001''"
proof -
  let ?s = "sample_invoice_db BS_COMPLETED"
  let ?r = "issue_invoice sample_business 0 7 ?s"
  have r: "case ?r of Inl e \<Rightarrow> False | Inr (i, s') \<Rightarrow> in_number i = ''PS/1969-70/000001''" by code_simp
  then obtain i s' where s': "?r = Inr (i, s')" "in_number i = ''PS/1969-70/000001''"
    by (auto split: sum.splits)
  have "invoices_ok ?s" by code_simp
  with invoice_numbers_never_clash [of ?s] s' show ?thesis by blast
qed

text \<open>An invoice is issued once and adds up: an accepted call answers with the booking's one invoice;
  a new one is only made for a booking paid in full or completed, splits the tax into two halves that sum
  to it exactly and differ by at most a paisa, and its lines miss the total by the training fee when the
  total is price plus fee. Asking again, at any time, gives the same invoice and changes nothing.\<close>

theorem invoice_issued_once:
  assumes issued: "issue_invoice bu now k s = Inr (i, s')" and ok: "invoices_ok s"
  shows "in_booking i = k \<and> invoice_of k s' = Some i \<and>
         (\<forall>bu2 now2. issue_invoice bu2 now2 k s' = Inr (i, s')) \<and>
         (\<exists>b. get_booking k s = Some b \<and>
            (s' = s \<or>
             (b_payment_status b = PS_PAID \<or> b_status b = BS_COMPLETED) \<and>
             in_total i = b_total b \<and> in_cgst i + in_sgst i + in_igst i = b_tax b \<and>
             \<bar>in_cgst i - in_sgst i\<bar> \<le> 1 \<and>
             in_total i - (in_taxable i + in_cgst i + in_sgst i + in_igst i) =
               b_total b - (b_subtotal b - b_discount b + b_tax b)))"
proof -
  obtain b where b: "get_booking k s = Some b"
    using issued by (cases "get_booking k s") (simp_all add: issue_invoice_def)
  have again: "issue_invoice bu2 now2 k t = Inr (j, t)"
    if "get_booking k t = Some b" "invoice_of k t = Some j" for bu2 now2 j and t :: "'a payments_db_scheme"
    using that by (simp add: issue_invoice_def)
  show ?thesis
  proof (cases "invoice_of k s")
    case (Some j)
    with issued b have "i = j" "s' = s" by (simp_all add: issue_invoice_def)
    with Some again [OF b] b invoice_ofD [OF Some] show ?thesis by simp
  next
    case None
    obtain u where paid: "b_payment_status b = PS_PAID \<or> b_status b = BS_COMPLETED"
      and u: "get_user (b_customer b) s = Some u"
      using issued b None by (auto simp: issue_invoice_def split: if_splits option.splits)
    obtain s1 n fy name j where
      s': "s' = bump_id (s1\<lparr>invoices := invoices s1 @ [i]\<rparr>)" and rows: "invoices s1 = invoices s"
      and drawn: "next_invoice_number fy s = (n, s1)" and i: "i = new_invoice bu now b u name fy n j"
      using issued by (rule_tac issue_invoice_new [OF b None paid u ok refl, of now bu]) auto
    have key: "in_booking i = k" using i booking_table.get_key [OF b] by (simp add: new_invoice_def Let_def)
    have "invoice_of k s' = Some i"
      using None key rows by (simp add: s' invoice_of_def bump_id_def first_row_append first_row_def [of _ "[i]"])
    moreover have "get_booking k s' = Some b"
      using next_invoice_number_serial [OF drawn] b by (auto simp: s' get_booking_def bump_id_def)
    moreover have "in_total i = b_total b" "in_cgst i + in_sgst i + in_igst i = b_tax b"
      "\<bar>in_cgst i - in_sgst i\<bar> \<le> 1" "in_taxable i = b_subtotal b - b_discount b"
      using i half_of_split [of "b_tax b"] by (simp_all add: new_invoice_def Let_def)
    ultimately show ?thesis using key again b paid by auto
  qed
qed

theorem invoice_issued_once_witness:
  "\<exists>i s'. issue_invoice sample_business 0 7 (sample_invoice_db BS_COMPLETED) = Inr (i, s') \<and>
     in_booking i = 7 \<and> issue_invoice sample_business 86400000000 7 s' = Inr (i, s')"
proof -
  let ?s = "sample_invoice_db BS_COMPLETED"
  have "\<not> isl (issue_invoice sample_business 0 7 ?s)" by code_simp
  then obtain i s' where s': "issue_invoice sample_business 0 7 ?s = Inr (i, s')" by (blast dest: result_cases)
  have "invoices_ok ?s" by code_simp
  with invoice_issued_once [OF s'] s' show ?thesis by blast
qed

end
