(* ===== verification/Payment_Views.thy ===== *)
theory Payment_Views
  imports Invoices Cart
begin

text \<open>
  The payment endpoints, \<open>apps/payments/views.py\<close>: orders, refunds, reconciliation, verification, the
  invoice download and the webhook, with their idempotency keys and the audit events they register.
\<close>

section \<open>Orders and refunds\<close>

text \<open>\<open>header\<close> is the Idempotency-Key header, blank when it was not sent.\<close>

definition advance_order_view ::
  "gateway \<Rightarrow> string \<Rightarrow> nat \<Rightarrow> nat \<Rightarrow> string \<Rightarrow> 'x payments_db_scheme \<Rightarrow>
     error + (order_answer \<times> 'x payments_db_scheme)" where
  "advance_order_view gw key_id me k header s =
     (case get_booking k s of
        None \<Rightarrow> Inl (ErrorResponse 404 ''BOOKING_NOT_FOUND'')
      | Some b \<Rightarrow>
          if b_customer b \<noteq> me then Inl (ErrorResponse 404 ''BOOKING_NOT_FOUND'')
          else (case idempotency_key_from_request header (''payment-'' @ nat_str k) of
                  Inl e \<Rightarrow> Inl e
                | Inr key \<Rightarrow>
                    (case create_advance_payment_order gw key_id k me key s of
                       Inl e \<Rightarrow> Inl e
                     | Inr ((p, response), s1) \<Rightarrow> Inr (response, s1))))"

definition admin_advance_order_view ::
  "gateway \<Rightarrow> string \<Rightarrow> nat \<Rightarrow> nat \<Rightarrow> string \<Rightarrow> request option \<Rightarrow> 'x payments_db_scheme \<Rightarrow>
     error + (order_answer \<times> 'x payments_db_scheme)" where
  "admin_advance_order_view gw key_id me k header rq s =
     (case get_booking k s of
        None \<Rightarrow> Inl (ErrorResponse 404 ''BOOKING_NOT_FOUND'')
      | Some b \<Rightarrow>
          (case idempotency_key_from_request header (''admin-payment-'' @ nat_str k) of
             Inl e \<Rightarrow> Inl e
           | Inr key \<Rightarrow>
               (case create_advance_payment_order gw key_id k (b_customer b) key s of
                  Inl e \<Rightarrow> Inl e
                | Inr ((p, response), s1) \<Rightarrow>
                    Inr (response,
                         audit_event AA_PAYMENT_LINK_CREATED ''booking'' (nat_str k) (Some me) rq
                           (JObj [(''payment_id'', JStr (nat_str (p_id p)))]) s1))))"

definition refund_view ::
  "gateway \<Rightarrow> (string \<Rightarrow> string) \<Rightarrow> timestamp \<Rightarrow> nat \<Rightarrow> nat \<Rightarrow> money \<Rightarrow> string \<Rightarrow> string \<Rightarrow>
     request option \<Rightarrow> 'x payments_db_scheme \<Rightarrow> error + (payment \<times> 'x payments_db_scheme)" where
  "refund_view gw sha now me pid amount reason header rq s =
     (case get_payment pid s of
        None \<Rightarrow> Inl (ErrorResponse 404 ''Not found.'')
      | Some source \<Rightarrow>
          (case idempotency_key_from_request header (''refund-'' @ nat_str pid) of
             Inl e \<Rightarrow> Inl e
           | Inr key \<Rightarrow>
               (case create_refund gw sha now pid amount key me reason s of
                  Inl e \<Rightarrow> Inl e
                | Inr (r, s1) \<Rightarrow>
                    Inr (r, audit_event AA_REFUND_CREATED ''payment'' (nat_str (p_id r)) (Some me) rq
                              (JObj [(''source_payment_id'', JStr (nat_str pid)),
                                     (''amount'', JStr (money_str (p_amount r)))]) s1))))"

fun record_status_str :: "record_status \<Rightarrow> string" where
  "record_status_str PR_CREATED = ''CREATED''"
| "record_status_str PR_PENDING = ''PENDING''"
| "record_status_str PR_SUCCESS = ''SUCCESS''"
| "record_status_str PR_FAILED = ''FAILED''"
| "record_status_str PR_REFUNDED = ''REFUNDED''"

definition reconcile_refund_view ::
  "gateway \<Rightarrow> timestamp \<Rightarrow> nat \<Rightarrow> nat \<Rightarrow> request option \<Rightarrow> 'x payments_db_scheme \<Rightarrow>
     error + (payment \<times> 'x payments_db_scheme)" where
  "reconcile_refund_view gw now me k rq s =
     (case get_payment k s of
        None \<Rightarrow> Inl (ErrorResponse 404 ''Not found.'')
      | Some p \<Rightarrow>
          (case reconcile_refund gw now k s of
             Inl e \<Rightarrow> Inl e
           | Inr (r, s1) \<Rightarrow>
               Inr (r, audit_event AA_REFUND_RECONCILED ''payment'' (nat_str (p_id r)) (Some me) rq
                         (JObj [(''status'', JStr (record_status_str (p_status r)))]) s1)))"

section \<open>Verification and invoices\<close>

record verify_answer =
  va_payment :: nat
  va_booking :: nat
  va_payment_status :: record_status
  va_booking_status :: booking_status

definition payment_verify_view ::
  "mac \<Rightarrow> string \<Rightarrow> timestamp \<Rightarrow> nat \<Rightarrow> string \<Rightarrow> string \<Rightarrow> string \<Rightarrow> json \<Rightarrow> 'x leads_db_scheme \<Rightarrow>
     (error + verify_answer) \<times> 'x leads_db_scheme" where
  "payment_verify_view mac key_secret now me order_id payment_id signature data s =
     (case verify_razorpay_payment mac key_secret now order_id payment_id signature (Some me) data s of
        (Inl (DoesNotExist m), s1) \<Rightarrow>
          (Inl (if m = ''Payment'' then ErrorResponse 404 ''PAYMENT_NOT_FOUND'' else DoesNotExist m), s1)
      | (Inl e, s1) \<Rightarrow> (Inl e, s1)
      | (Inr p, s1) \<Rightarrow>
          (case get_booking (p_booking p) s1 of
             None \<Rightarrow> (Inl (DoesNotExist ''Booking''), s1)
           | Some b \<Rightarrow>
               (Inr \<lparr>va_payment = p_id p, va_booking = p_booking p, va_payment_status = p_status p,
                     va_booking_status = b_status b\<rparr>, s1)))"

text \<open>The name of the downloaded file; \<open>own\<close> is the customer, \<open>None\<close> for an administrator.\<close>

definition invoice_filename :: "invoice \<Rightarrow> string" where
  "invoice_filename i = map (\<lambda>c. if c = CHR ''/'' then CHR ''-'' else c) (in_number i) @ ''.pdf''"

definition invoice_download_view ::
  "business \<Rightarrow> timestamp \<Rightarrow> nat option \<Rightarrow> nat \<Rightarrow> 'x payments_db_scheme \<Rightarrow>
     error + ((invoice \<times> string) \<times> 'x payments_db_scheme)" where
  "invoice_download_view bu now own k s =
     (case get_booking k s of
        None \<Rightarrow> Inl (ErrorResponse 404 ''Not found.'')
      | Some b \<Rightarrow>
          if own \<noteq> None \<and> own \<noteq> Some (b_customer b) then Inl (ErrorResponse 404 ''Not found.'')
          else (case issue_invoice bu now k s of
                  Inl e \<Rightarrow> Inl e
                | Inr (i, s1) \<Rightarrow> Inr ((i, invoice_filename i), s1)))"

section \<open>The webhook endpoint\<close>

definition max_webhook_body_bytes :: nat where
  "max_webhook_body_bytes = 256 * 1024"

definition webhook_audit ::
  "audit_action \<Rightarrow> request option \<Rightarrow> json \<Rightarrow> 'x audit_db_scheme \<Rightarrow> 'x audit_db_scheme" where
  "webhook_audit action rq metadata s = audit_event action ''payment_webhook'' '''' None rq metadata s"

definition razorpay_webhook ::
  "mac \<Rightarrow> (string \<Rightarrow> string) \<Rightarrow> (string \<Rightarrow> json option) \<Rightarrow> string \<Rightarrow> string \<Rightarrow> timestamp \<Rightarrow>
     request option \<Rightarrow> string \<Rightarrow> string \<Rightarrow> 'x leads_db_scheme \<Rightarrow> (error + webhook_answer) \<times> 'x leads_db_scheme" where
  "razorpay_webhook mac sha parse webhook_secret key_secret now rq body signature s =
     (if signature = '''' then
        (Inl (ValidationError ''Webhook signature is required.''),
         webhook_audit AA_PAYMENT_WEBHOOK_REJECTED rq (JObj [(''reason'', JStr ''missing_signature'')]) s)
      else if length body > max_webhook_body_bytes then
        (Inl (ValidationError ''Webhook payload is too large.''),
         webhook_audit AA_PAYMENT_WEBHOOK_REJECTED rq
           (JObj [(''reason'', JStr ''payload_too_large''), (''size_bytes'', JNum (int (length body)))]) s)
      else
        let s1 = webhook_audit AA_PAYMENT_WEBHOOK_RECEIVED rq (JObj [(''has_signature'', JBool True)]) s
        in case process_razorpay_webhook mac sha parse webhook_secret key_secret now body signature s1 of
             (Inl e, s2) \<Rightarrow>
               (Inl e, webhook_audit AA_PAYMENT_WEBHOOK_REJECTED rq (JObj [(''has_signature'', JBool True)]) s2)
           | (Inr answer, s2) \<Rightarrow> (Inr answer, s2))"

end
