(* ===== verification/Admin_Lists.thy ===== *)
theory Admin_Lists
  imports Reports Payment_Views
begin

text \<open>
  What customers and administrators are shown of the tables: the serializers of a booking
  (\<open>bookings/serializers.py\<close>) and the filtered lists of the views of every component. \<open>created\<close> and
  \<open>updated\<close> give the times of a row by its key; rows are kept oldest first.
\<close>

section \<open>Values as the framework renders them\<close>

text \<open>A time in the local zone: \<open>isoformat()\<close> with the offset of India; a time of day without one.\<close>

definition local_iso_str :: "timestamp \<Rightarrow> string" where
  "local_iso_str t =
     (let x = iso_str (t + zone_us) in take (length x - 6) x @ ''+05:30'')"

definition clock_str :: "time_of_day \<Rightarrow> string" where
  "clock_str t = hhmm_str t @ '':'' @ pad_left 2 CHR ''0'' (nat_str (nat (t mod minute_us div 1000000)))"

definition time_json :: "timestamp option \<Rightarrow> json" where
  "time_json t = (case t of None \<Rightarrow> JNull | Some x \<Rightarrow> JStr (local_iso_str x))"

definition money_json :: "money \<Rightarrow> json" where
  "money_json m = JStr (money_str m)"

definition key_json :: "nat \<Rightarrow> json" where
  "key_json k = JStr (nat_str k)"

fun payment_status_str :: "payment_status \<Rightarrow> string" where
  "payment_status_str PS_UNPAID = ''UNPAID''"
| "payment_status_str PS_PARTIALLY_PAID = ''PARTIALLY_PAID''"
| "payment_status_str PS_PAID = ''PAID''"
| "payment_status_str PS_FAILED = ''FAILED''"
| "payment_status_str PS_REFUNDED = ''REFUNDED''"

fun payment_type_str :: "payment_type \<Rightarrow> string" where
  "payment_type_str BOOKING_ADVANCE = ''BOOKING_ADVANCE''"
| "payment_type_str BALANCE = ''BALANCE''"
| "payment_type_str REFUND = ''REFUND''"

fun event_str :: "notification_event \<Rightarrow> string" where
  "event_str NE_BOOKING_RECEIVED = ''BOOKING_RECEIVED''"
| "event_str NE_PAYMENT_PENDING = ''PAYMENT_PENDING''"
| "event_str NE_PAYMENT_SUCCESSFUL = ''PAYMENT_SUCCESSFUL''"
| "event_str NE_PAYMENT_FAILED = ''PAYMENT_FAILED''"
| "event_str NE_BOOKING_CONFIRMED = ''BOOKING_CONFIRMED''"
| "event_str NE_BOOKING_RESCHEDULED = ''BOOKING_RESCHEDULED''"
| "event_str NE_TECHNICIAN_ASSIGNED = ''TECHNICIAN_ASSIGNED''"
| "event_str NE_TECHNICIAN_CHANGED = ''TECHNICIAN_CHANGED''"
| "event_str NE_BOOKING_CANCELLED = ''BOOKING_CANCELLED''"
| "event_str NE_TECHNICIAN_EN_ROUTE = ''TECHNICIAN_EN_ROUTE''"
| "event_str NE_TECHNICIAN_ARRIVED = ''TECHNICIAN_ARRIVED''"
| "event_str NE_SERVICE_STARTED = ''SERVICE_STARTED''"
| "event_str NE_SERVICE_COMPLETED = ''SERVICE_COMPLETED''"
| "event_str NE_BALANCE_PAYMENT_PENDING = ''BALANCE_PAYMENT_PENDING''"
| "event_str NE_BALANCE_PAYMENT_SUCCESSFUL = ''BALANCE_PAYMENT_SUCCESSFUL''"
| "event_str NE_REFUND_INITIATED = ''REFUND_INITIATED''"
| "event_str NE_REFUND_COMPLETED = ''REFUND_COMPLETED''"
| "event_str NE_REVIEW_REQUEST = ''REVIEW_REQUEST''"

fun audit_action_str :: "audit_action \<Rightarrow> string" where
  "audit_action_str AA_BOOKING_START = ''ADMIN_BOOKING_START''"
| "audit_action_str AA_BOOKING_COMPLETE = ''ADMIN_BOOKING_COMPLETE''"
| "audit_action_str AA_BOOKING_CANCEL = ''ADMIN_BOOKING_CANCEL''"
| "audit_action_str AA_WORK_ORDER_CLOSE = ''ADMIN_WORK_ORDER_CLOSE''"
| "audit_action_str AA_RECORD_BALANCE = ''ADMIN_RECORD_BALANCE''"
| "audit_action_str AA_PAYMENT_LINK_CREATED = ''ADMIN_PAYMENT_LINK_CREATED''"
| "audit_action_str AA_REFUND_CREATED = ''ADMIN_REFUND_CREATED''"
| "audit_action_str AA_REFUND_RECONCILED = ''ADMIN_REFUND_RECONCILED''"
| "audit_action_str AA_TECHNICIAN_ASSIGN = ''TECHNICIAN_ASSIGN''"
| "audit_action_str AA_TECHNICIAN_CREATED = ''TECHNICIAN_CREATED''"
| "audit_action_str AA_TECHNICIAN_UPDATED = ''TECHNICIAN_UPDATED''"
| "audit_action_str AA_TECHNICIAN_VERIFICATION_CHANGED = ''TECHNICIAN_VERIFICATION_CHANGED''"
| "audit_action_str AA_TECHNICIAN_AVAILABILITY_CHANGED = ''TECHNICIAN_AVAILABILITY_CHANGED''"
| "audit_action_str AA_TECHNICIAN_ASSIGNMENT_REMOVED = ''TECHNICIAN_ASSIGNMENT_REMOVED''"
| "audit_action_str AA_TECHNICIAN_LEAVE_CREATED = ''TECHNICIAN_LEAVE_CREATED''"
| "audit_action_str AA_TECHNICIAN_LEAVE_APPROVED = ''TECHNICIAN_LEAVE_APPROVED''"
| "audit_action_str AA_TECHNICIAN_LEAVE_REJECTED = ''TECHNICIAN_LEAVE_REJECTED''"
| "audit_action_str AA_PAYMENT_WEBHOOK_RECEIVED = ''PAYMENT_WEBHOOK_RECEIVED''"
| "audit_action_str AA_PAYMENT_WEBHOOK_REJECTED = ''PAYMENT_WEBHOOK_REJECTED''"
| "audit_action_str AA_PERMISSION_DENIED = ''PERMISSION_DENIED''"
| "audit_action_str AA_SERVICE_CREATED = ''SERVICE_CREATED''"
| "audit_action_str AA_SERVICE_UPDATED = ''SERVICE_UPDATED''"
| "audit_action_str AA_SERVICE_DEACTIVATED = ''SERVICE_DEACTIVATED''"
| "audit_action_str AA_SERVICE_PRICE_CHANGED = ''SERVICE_PRICE_CHANGED''"
| "audit_action_str AA_SERVICE_IMAGE_CHANGED = ''SERVICE_IMAGE_CHANGED''"
| "audit_action_str AA_CATEGORY_CREATED = ''CATEGORY_CREATED''"
| "audit_action_str AA_CATEGORY_UPDATED = ''CATEGORY_UPDATED''"
| "audit_action_str AA_CATEGORY_DEACTIVATED = ''CATEGORY_DEACTIVATED''"
| "audit_action_str AA_PACKAGE_CREATED = ''PACKAGE_CREATED''"
| "audit_action_str AA_PACKAGE_UPDATED = ''PACKAGE_UPDATED''"
| "audit_action_str AA_PACKAGE_DELETED = ''PACKAGE_DELETED''"
| "audit_action_str AA_LEAD_CREATED = ''LEAD_CREATED''"
| "audit_action_str AA_LEAD_UPDATED = ''LEAD_UPDATED''"
| "audit_action_str AA_LEAD_STATUS_CHANGED = ''LEAD_STATUS_CHANGED''"
| "audit_action_str AA_LEAD_CONVERTED = ''LEAD_CONVERTED''"
| "audit_action_str AA_BANNER_CREATED = ''BANNER_CREATED''"
| "audit_action_str AA_BANNER_UPDATED = ''BANNER_UPDATED''"
| "audit_action_str AA_BANNER_PUBLICATION_CHANGED = ''BANNER_PUBLICATION_CHANGED''"
| "audit_action_str AA_FAQ_CREATED = ''FAQ_CREATED''"
| "audit_action_str AA_FAQ_UPDATED = ''FAQ_UPDATED''"
| "audit_action_str AA_REVIEW_UPDATED = ''REVIEW_UPDATED''"
| "audit_action_str AA_CUSTOMER_SUPPORT_NOTE_CREATED = ''CUSTOMER_SUPPORT_NOTE_CREATED''"
| "audit_action_str AA_STAFF_CREATED = ''STAFF_CREATED''"
| "audit_action_str AA_STAFF_UPDATED = ''STAFF_UPDATED''"

section \<open>Bookings\<close>

definition service_ref :: "'x catalogue_db_scheme \<Rightarrow> nat \<Rightarrow> json" where
  "service_ref s k =
     (case get_service k s of
        None \<Rightarrow> JNull
      | Some v \<Rightarrow> JObj [(''id'', key_json k), (''name'', JStr (sv_name v)), (''slug'', JStr (sv_slug v))])"

definition slot_ref :: "'x scheduling_db_scheme \<Rightarrow> nat \<Rightarrow> json" where
  "slot_ref s k =
     (case get_slot k s of
        None \<Rightarrow> JNull
      | Some sl \<Rightarrow> JObj [(''id'', key_json k), (''start_time'', JStr (clock_str (sl_start sl))),
                         (''end_time'', JStr (clock_str (sl_end sl)))])"

definition history_json :: "(nat \<Rightarrow> timestamp) \<Rightarrow> booking_history \<Rightarrow> json" where
  "history_json created h =
     JObj [(''id'', key_json (h_id h)),
           (''from_status'', JStr (case h_from h of None \<Rightarrow> '''' | Some st \<Rightarrow> status_str st)),
           (''to_status'', JStr (status_str (h_to h))), (''notes'', JStr (h_notes h)),
           (''created_at'', time_json (Some (created (h_id h))))]"

definition booking_fields ::
  "(nat \<Rightarrow> timestamp) \<Rightarrow> (nat \<Rightarrow> timestamp) \<Rightarrow> 'x scheduling_db_scheme \<Rightarrow> booking \<Rightarrow> (string \<times> json) list" where
  "booking_fields created updated s b =
     [(''id'', key_json (b_id b)), (''booking_number'', JStr (b_number b)),
      (''service'', service_ref s (b_service b)), (''address_snapshot'', b_address_snapshot b),
      (''service_date'', JStr (date_str (b_service_date b))), (''time_slot'', slot_ref s (b_slot b)),
      (''problem_description'', JStr (b_problem b)), (''contact_phone'', JStr (b_contact_phone b)),
      (''quantity'', JNum (int (b_quantity b))), (''subtotal'', money_json (b_subtotal b)),
      (''discount_amount'', money_json (b_discount b)), (''training_fee'', money_json (b_training_fee b)),
      (''tax_amount'', money_json (b_tax b)), (''total_amount'', money_json (b_total b)),
      (''advance_required'', money_json (b_advance_required b)), (''advance_paid'', money_json (b_advance_paid b)),
      (''balance_due'', money_json (b_balance_due b)), (''balance_collected'', money_json (b_balance_collected b)),
      (''payment_status'', JStr (payment_status_str (b_payment_status b))),
      (''booking_status'', JStr (status_str (b_status b))),
      (''customer_notes'', JStr (b_customer_notes b)), (''admin_notes'', JStr (b_admin_notes b)),
      (''confirmed_at'', time_json (b_confirmed_at b)), (''completed_at'', time_json (b_completed_at b)),
      (''cancelled_at'', time_json (b_cancelled_at b)), (''is_manual_work_order'', JBool (b_manual b)),
      (''created_at'', time_json (Some (created (b_id b)))), (''updated_at'', time_json (Some (updated (b_id b)))),
      (''status_history'', JList (map (history_json created) (history_of (b_id b) s)))]"

definition booking_json ::
  "(nat \<Rightarrow> timestamp) \<Rightarrow> (nat \<Rightarrow> timestamp) \<Rightarrow> 'x scheduling_db_scheme \<Rightarrow> booking \<Rightarrow> json" where
  "booking_json created updated s b = JObj (booking_fields created updated s b)"

text \<open>What the administrators' serializer adds.\<close>

definition customer_name_of :: "'x bookings_db_scheme \<Rightarrow> booking \<Rightarrow> string" where
  "customer_name_of s b =
     (case get_user (b_customer b) s of None \<Rightarrow> '''' | Some u \<Rightarrow> or_str (shown_name u s) (u_phone u))"

definition customer_phone_of :: "'x bookings_db_scheme \<Rightarrow> booking \<Rightarrow> string" where
  "customer_phone_of s b =
     or_str (b_contact_phone b) (case get_user (b_customer b) s of None \<Rightarrow> '''' | Some u \<Rightarrow> u_phone u)"

definition technician_ref :: "'x technicians_db_scheme \<Rightarrow> nat option \<Rightarrow> json" where
  "technician_ref s k =
     (case k of
        None \<Rightarrow> JNull
      | Some uid \<Rightarrow>
          let phone = (case get_user uid s of None \<Rightarrow> '''' | Some u \<Rightarrow> u_phone u);
              profile = first_row (\<lambda>t. t_user t = uid) (technicians s)
          in JObj [(''id'', case profile of None \<Rightarrow> JNull | Some t \<Rightarrow> key_json (t_id t)),
                   (''user_id'', key_json uid),
                   (''name'', JStr (case profile of None \<Rightarrow> phone | Some t \<Rightarrow> t_display_name t)),
                   (''phone'', JStr (case profile of None \<Rightarrow> phone | Some t \<Rightarrow> t_phone t))])"

definition paid_before :: "payment \<Rightarrow> payment \<Rightarrow> bool" where
  "paid_before p q =
     (case (p_paid_at p, p_paid_at q) of
        (Some x, Some y) \<Rightarrow> x < y
      | (Some x, None) \<Rightarrow> True
      | _ \<Rightarrow> False)"

definition booking_paid_at :: "'x payments_db_scheme \<Rightarrow> booking \<Rightarrow> timestamp option" where
  "booking_paid_at s b =
     (case sort_before paid_before
             (filter (\<lambda>p. p_booking p = b_id b \<and> p_status p = PR_SUCCESS) (payments s)) of
        [] \<Rightarrow> None
      | p # ps \<Rightarrow> p_paid_at p)"

definition admin_booking_json ::
  "(nat \<Rightarrow> timestamp) \<Rightarrow> (nat \<Rightarrow> timestamp) \<Rightarrow> 'x technicians_db_scheme \<Rightarrow> booking \<Rightarrow> json" where
  "admin_booking_json created updated s b =
     JObj (booking_fields created updated s b @
       [(''customer_name'', JStr (customer_name_of s b)), (''customer_phone'', JStr (customer_phone_of s b)),
        (''service_category'', case get_service (b_service b) s of
            None \<Rightarrow> JNull
          | Some v \<Rightarrow> (case get_category (sv_category v) s of None \<Rightarrow> JNull | Some c \<Rightarrow> JStr (ca_name c))),
        (''assigned_technician'', technician_ref s (b_technician b)),
        (''paid_at'', time_json (booking_paid_at s b))])"

text \<open>The customer's own bookings: \<open>BookingViewSet\<close>.\<close>

definition own_bookings :: "nat \<Rightarrow> 'x bookings_db_scheme \<Rightarrow> booking list" where
  "own_bookings me s = rev (filter (\<lambda>b. b_customer b = me) (bookings s))"

definition list_own_bookings ::
  "(nat \<Rightarrow> timestamp) \<Rightarrow> (nat \<Rightarrow> timestamp) \<Rightarrow> nat \<Rightarrow> 'x scheduling_db_scheme \<Rightarrow> json" where
  "list_own_bookings created updated me s = JList (map (booking_json created updated s) (own_bookings me s))"

definition retrieve_own_booking ::
  "(nat \<Rightarrow> timestamp) \<Rightarrow> (nat \<Rightarrow> timestamp) \<Rightarrow> nat \<Rightarrow> nat \<Rightarrow> 'x scheduling_db_scheme \<Rightarrow> error + json" where
  "retrieve_own_booking created updated me k s =
     (case List.find (\<lambda>b. b_id b = k) (own_bookings me s) of
        None \<Rightarrow> Inl (ErrorResponse 404 ''Not found.'')
      | Some b \<Rightarrow> Inr (booking_json created updated s b))"

text \<open>The administrators' lists: \<open>AdminBookingViewSet\<close> and \<open>AdminWorkOrderViewSet\<close>.\<close>

definition list_admin_bookings :: "string \<Rightarrow> string \<Rightarrow> 'x bookings_db_scheme \<Rightarrow> booking list" where
  "list_admin_bookings status search s =
     rev (filter (\<lambda>b. (status = '''' \<or> status_str (b_status b) = status) \<and>
                      (search = '''' \<or> booking_has (strip_str search) b s)) (bookings s))"

definition is_work_order :: "'x payments_db_scheme \<Rightarrow> booking \<Rightarrow> bool" where
  "is_work_order s b = (has_successful_payment s b \<or> b_manual b)"

definition list_work_orders :: "string \<Rightarrow> string \<Rightarrow> string \<Rightarrow> 'x payments_db_scheme \<Rightarrow> booking list" where
  "list_work_orders status payment_status search s =
     (let term = strip_str search in
      sort_before (service_time_before s)
        (filter (\<lambda>b. is_work_order s b \<and>
                     (status = '''' \<or> status_str (b_status b) = status) \<and>
                     (payment_status = '''' \<or> payment_status_str (b_payment_status b) = payment_status) \<and>
                     (term = '''' \<or> booking_has term b s)) (bookings s)))"

section \<open>Payments, notifications, reviews, the audit log\<close>

definition list_payments :: "string \<Rightarrow> string \<Rightarrow> string \<Rightarrow> 'x payments_db_scheme \<Rightarrow> payment list" where
  "list_payments status type search s =
     rev (filter (\<lambda>p. (status = '''' \<or> record_status_str (p_status p) = status) \<and>
                      (type = '''' \<or> payment_type_str (p_type p) = type) \<and>
                      (search = '''' \<or> booking_number_has (strip_str search) (Some (p_booking p)) s)) (payments s))"

definition list_notifications ::
  "string \<Rightarrow> string \<Rightarrow> string \<Rightarrow> string \<Rightarrow> 'x bookings_db_scheme \<Rightarrow> notification list" where
  "list_notifications status event channel search s =
     (let term = strip_str search in
      rev (filter (\<lambda>n. (status = '''' \<or> notification_status_str (n_status n) = status) \<and>
                       (event = '''' \<or> event_str (n_event n) = event) \<and>
                       (channel = '''' \<or> channel_str (n_channel n) = channel) \<and>
                       (search = '''' \<or> icontains term (n_title n) \<or> icontains term (n_message n) \<or>
                        booking_number_has term (n_booking n) s)) (notifications s)))"

definition list_reviews :: "string \<Rightarrow> string \<Rightarrow> 'x reviews_db_scheme \<Rightarrow> review list" where
  "list_reviews visible search s =
     (let term = strip_str search in
      rev (filter (\<lambda>r. (visible \<notin> {''true'', ''false''} \<or> rv_visible r = (visible = ''true'')) \<and>
                       (search = '''' \<or> icontains term (rv_comment r) \<or>
                        booking_number_has term (Some (rv_booking r)) s \<or>
                        (case get_user (rv_customer r) s of None \<Rightarrow> False | Some u \<Rightarrow> icontains term (u_phone u)) \<or>
                        (case get_booking (rv_booking r) s of
                           None \<Rightarrow> False | Some b \<Rightarrow> service_name_has term (Some (b_service b)) s)))
             (reviews s)))"

definition list_audit_logs ::
  "string \<Rightarrow> string \<Rightarrow> string \<Rightarrow> 'x accounts_db_scheme \<Rightarrow> audit_log list" where
  "list_audit_logs action resource_type search s =
     (let term = strip_str search in
      rev (filter (\<lambda>a. (action = '''' \<or> audit_action_str (a_action a) = action) \<and>
                       (resource_type = '''' \<or> a_resource_type a = resource_type) \<and>
                       (search = '''' \<or>
                        (case a_actor a of
                           None \<Rightarrow> False
                         | Some k \<Rightarrow> (case get_user k s of None \<Rightarrow> False | Some u \<Rightarrow> icontains term (u_phone u))) \<or>
                        icontains term (a_resource_id a) \<or> icontains term (a_request_id a) \<or>
                        (case a_ip_address a of None \<Rightarrow> False | Some ip \<Rightarrow> icontains term ip))) (audit_logs s)))"

section \<open>Customers\<close>

record customer_row =
  cr_user :: user
  cr_bookings :: nat
  cr_spent :: "money option"
  cr_last_booking :: "timestamp option"

text \<open>The annotations: the count, the sum of the totals and the latest time over all of their bookings.\<close>

definition latest :: "timestamp list \<Rightarrow> timestamp option" where
  "latest ts = (if ts = [] then None else Some (Max (set ts)))"

definition customer_row_of :: "(nat \<Rightarrow> timestamp) \<Rightarrow> 'x bookings_db_scheme \<Rightarrow> user \<Rightarrow> customer_row" where
  "customer_row_of created s u =
     (let bs = filter (\<lambda>b. b_customer b = u_id u) (bookings s) in
      \<lparr>cr_user = u, cr_bookings = length bs,
       cr_spent = (if bs = [] then None else Some (sum_rows b_total (\<lambda>b. True) bs)),
       cr_last_booking = latest (map (created \<circ> b_id) bs)\<rparr>)"

definition list_customers ::
  "(nat \<Rightarrow> timestamp) \<Rightarrow> string \<Rightarrow> 'x bookings_db_scheme \<Rightarrow> customer_row list" where
  "list_customers created search s =
     (let term = strip_str search in
      map (customer_row_of created s)
        (rev (filter (\<lambda>u. u_role u = CUSTOMER \<and>
           (search = '''' \<or> icontains term (u_phone u) \<or> icontains term (u_first_name u) \<or>
            icontains term (u_last_name u))) (users s))))"

text \<open>A customer's history: at most twenty of each kind, and of each booking at most ten payments.\<close>

record customer_history =
  ch_user :: user
  ch_addresses :: "address list"
  ch_leads :: "lead list"
  ch_bookings :: "booking list"
  ch_payments :: "payment list"
  ch_notifications :: "notification list"
  ch_reviews :: "review list"
  ch_notes :: "support_note list"

definition address_order :: "address \<Rightarrow> address \<Rightarrow> bool" where
  "address_order a b = (ad_default a \<and> \<not> ad_default b)"

definition customer_history_of :: "nat \<Rightarrow> 'x reviews_db_scheme \<Rightarrow> error + customer_history" where
  "customer_history_of k s =
     (case get_user k s of
        None \<Rightarrow> Inl (ErrorResponse 404 ''Not found.'')
      | Some u \<Rightarrow>
          if u_role u \<noteq> CUSTOMER then Inl (ErrorResponse 404 ''Not found.'')
          else
            let bs = take 20 (own_bookings k s)
            in Inr \<lparr>ch_user = u,
                    ch_addresses = take 20 (sort_before address_order
                                     (rev (filter (\<lambda>a. ad_customer a = k) (addresses s)))),
                    ch_leads = take 20 (rev (filter (\<lambda>l. l_mobile l = u_phone u) (leads s))),
                    ch_bookings = bs,
                    ch_payments = concat (map (\<lambda>b. take 10 (rev (filter (\<lambda>p. p_booking p = b_id b) (payments s)))) bs),
                    ch_notifications = take 20 (rev (filter (\<lambda>n. n_recipient n = Some k) (notifications s))),
                    ch_reviews = take 20 (rev (filter (\<lambda>r. rv_customer r = k) (reviews s))),
                    ch_notes = rev (filter (\<lambda>n. sn_customer n = k) (support_notes s))\<rparr>)"

text \<open>The customer's own saved addresses: \<open>AddressViewSet\<close>.\<close>

definition own_addresses :: "nat \<Rightarrow> 'x locations_db_scheme \<Rightarrow> address list" where
  "own_addresses me s =
     sort_before address_order (rev (filter (\<lambda>a. ad_customer a = me \<and> ad_active a) (addresses s)))"

section \<open>Technicians, leaves, slots and areas\<close>

definition list_active_technicians :: "'x technicians_db_scheme \<Rightarrow> technician list" where
  "list_active_technicians s =
     sort_before (\<lambda>t u. str_less (t_display_name t) (t_display_name u)) (filter t_active (technicians s))"

text \<open>With a booking the list holds the technicians that are eligible for it.\<close>

definition list_technicians :: "string \<Rightarrow> 'x technicians_db_scheme \<Rightarrow> error + technician list" where
  "list_technicians booking_id s =
     (if booking_id = '''' then Inr (list_active_technicians s)
      else case parse_key booking_id of
        None \<Rightarrow> Inl (InvalidUuid booking_id)
      | Some k \<Rightarrow>
          (case get_booking k s of
             None \<Rightarrow> Inr []
           | Some b \<Rightarrow>
               (case (get_slot (b_slot b) s, get_address (b_address b) s) of
                  (Some sl, Some a) \<Rightarrow>
                    let eligible = map t_id (get_eligible_technicians b sl a s)
                    in Inr (filter (\<lambda>t. t_id t \<in> set eligible) (list_active_technicians s))
                | _ \<Rightarrow> Inl (DoesNotExist ''TimeSlot''))))"

definition list_leaves :: "string \<Rightarrow> string \<Rightarrow> 'x technicians_db_scheme \<Rightarrow> error + leave list" where
  "list_leaves technician status s =
     (case key_param technician of
        Inl e \<Rightarrow> Inl e
      | Inr k \<Rightarrow>
          let st = upper_str status in
          Inr (sort_before (\<lambda>l m. lv_start m < lv_start l)
            (filter (\<lambda>l. (k = None \<or> Some (lv_technician l) = k) \<and>
               (st = ''PENDING'' \<longrightarrow> lv_active l \<and> lv_approved_by l = None) \<and>
               (st = ''APPROVED'' \<longrightarrow> lv_active l \<and> lv_approved_by l \<noteq> None) \<and>
               (st = ''REJECTED'' \<longrightarrow> \<not> lv_active l)) (leaves s))))"

definition slot_before :: "time_slot \<Rightarrow> time_slot \<Rightarrow> bool" where
  "slot_before a b = (sl_date a < sl_date b \<or> (sl_date a = sl_date b \<and> sl_start a < sl_start b))"

definition list_admin_slots :: "string \<Rightarrow> string \<Rightarrow> 'x scheduling_db_scheme \<Rightarrow> error + time_slot list" where
  "list_admin_slots area date s =
     (case key_param area of Inl e \<Rightarrow> Inl e | Inr k \<Rightarrow>
      case date_param date of Inl e \<Rightarrow> Inl e | Inr d \<Rightarrow>
        Inr (sort_before slot_before
          (filter (\<lambda>sl. (k = None \<or> Some (sl_area sl) = k) \<and> (d = None \<or> Some (sl_date sl) = d)) (time_slots s))))"

definition area_name_before :: "service_area \<Rightarrow> service_area \<Rightarrow> bool" where
  "area_name_before a b =
     (str_less (ar_city a) (ar_city b) \<or>
      (ar_city a = ar_city b \<and>
       (str_less (ar_name a) (ar_name b) \<or>
        (ar_name a = ar_name b \<and> str_less (ar_postal_code a) (ar_postal_code b)))))"

definition list_public_areas :: "string \<Rightarrow> 'x locations_db_scheme \<Rightarrow> service_area list" where
  "list_public_areas city s =
     (let c = strip_str city in
      sort_before area_name_before
        (filter (\<lambda>a. ar_active a \<and> (c = '''' \<or> lower_str (ar_city a) = lower_str c)) (service_areas s)))"

definition list_admin_areas :: "'x locations_db_scheme \<Rightarrow> service_area list" where
  "list_admin_areas s = sort_before area_before (service_areas s)"


section \<open>Lemmas\<close>

lemma replace_assignment_succeeds:
  assumes "assignments_ok s"
  shows "\<exists>a s'. replace_assignment now b t by notes reason s = Inr (a, s')"
proof (cases "active_assignment (b_id b) s")
  case None
  then have "filter (active_for (b_id b)) (assignments s) = []"
    by (simp add: active_assignment_def max_row_None_iff)
  then have "\<not> list_ex (active_for (b_id b)) (assignments s)" by (auto simp: list_ex_iff filter_empty_conv)
  then show ?thesis using None by (simp add: replace_assignment_def create_assignment_def Let_def)
next
  case (Some p)
  from active_assignmentD [OF Some] have p: "p \<in> set (assignments s)" "active_for (b_id b) p" by auto
  let ?s = "save_assignment_row (p\<lparr>as_unassigned_at := Some now\<rparr>) s"
  have "\<not> active_for (b_id b) x" if x: "x \<in> set (assignments ?s)" for x
  proof
    assume active: "active_for (b_id b) x"
    then have "x \<noteq> p\<lparr>as_unassigned_at := Some now\<rparr>" by (auto simp: active_for_def)
    with x have "x \<in> set (assignments s)" "as_id x \<noteq> as_id p"
      by (auto simp: save_assignment_row_def in_set_save_row)
    then have "x \<in> set (filter (active_for (b_id b)) (assignments s))" using active by simp
    with assignments_ok_one [OF assms p] have "x = p" by simp
    with \<open>as_id x \<noteq> as_id p\<close> show False by simp
  qed
  then have "\<not> list_ex (active_for (b_id b)) (assignments ?s)" by (auto simp: list_ex_iff)
  then show ?thesis using Some by (auto simp: replace_assignment_def create_assignment_def Let_def)
qed

lemma assign_technician_iff:
  assumes "get_booking k s = Some b" and "b_status b \<in> {BS_CONFIRMED, BS_TECHNICIAN_ASSIGNED}"
    and "get_technician tid s = Some t" and "get_slot (b_slot b) s = Some sl"
    and "get_address (b_address b) s = Some a" and "assignments_ok s"
  shows "(\<exists>r. assign_technician now k tid by notes reason s = Inr r) \<longleftrightarrow>
           get_technician_eligibility_errors t b sl a s = []"
proof (cases "get_technician_eligibility_errors t b sl a s")
  case Nil
  obtain x s' where "replace_assignment now b t by notes reason s = Inr (x, s')"
    using replace_assignment_succeeds [OF assms(6)] by blast
  with assms Nil show ?thesis by (simp add: assign_technician_def Let_def)
next
  case (Cons err errs)
  with assms show ?thesis by (simp add: assign_technician_def)
qed

lemma in_eligible:
  "t \<in> set (get_eligible_technicians b sl a s) \<longleftrightarrow>
     t \<in> set (technicians s) \<and> get_technician_eligibility_errors t b sl a s = []"
  using eligibility_none [of t b sl a s] by (auto simp: get_eligible_technicians_def)

lemma has_successful_payment_cong:
  "b_id c = b_id b \<Longrightarrow> has_successful_payment s c \<Longrightarrow> has_successful_payment s b"
  by (simp add: has_successful_payment_def)

section \<open>Properties\<close>



text \<open>Customers see only their own bookings: the list holds the bookings whose customer they are, and a
  booking of somebody else is not found.\<close>

theorem customers_see_own_bookings:
  assumes "retrieve_own_booking created updated me k s = Inr j"
  shows "\<exists>b\<in>set (bookings s). b_customer b = me \<and> b_id b = k \<and> j = booking_json created updated s b \<and>
           b \<in> set (own_bookings me s)"
proof -
  obtain b where b: "List.find (\<lambda>b. b_id b = k) (own_bookings me s) = Some b"
    and j: "j = booking_json created updated s b"
    using assms by (auto simp: retrieve_own_booking_def split: option.splits)
  from find_SomeD [OF b] j show ?thesis by (auto simp: own_bookings_def)
qed

theorem customers_see_own_bookings_witness:
  "\<exists>j. retrieve_own_booking (\<lambda>k. 0) (\<lambda>k. 0) 1 7 (sample_storefront_db [sample_booking 7 BS_CONFIRMED]) = Inr j \<and>
     (\<exists>b\<in>set (own_bookings 1 (sample_storefront_db [sample_booking 7 BS_CONFIRMED])). b_id b = 7)"
proof -
  let ?s = "sample_storefront_db [sample_booking 7 BS_CONFIRMED]"
  have "\<not> isl (retrieve_own_booking (\<lambda>k. 0) (\<lambda>k. 0) 1 7 ?s)" by code_simp
  then obtain j where j: "retrieve_own_booking (\<lambda>k. 0) (\<lambda>k. 0) 1 7 ?s = Inr j"
    by (cases "retrieve_own_booking (\<lambda>k. 0) (\<lambda>k. 0) 1 7 ?s") auto
  from customers_see_own_bookings [OF this] j show ?thesis by blast
qed

text \<open>What an administrator notes about a booking is shown to its customer: the field is part of the
  answer to the customer's own request.\<close>

theorem customers_read_admin_notes:
  assumes "b \<in> set (bookings s)" and "b_customer b = me" and "unique_rows b_id (bookings s)"
  shows "\<exists>j. retrieve_own_booking created updated me (b_id b) s = Inr j \<and>
           item ''admin_notes'' j = JStr (b_admin_notes b)"
proof -
  have b: "b \<in> set (own_bookings me s)" using assms(1,2) by (simp add: own_bookings_def)
  have "List.find (\<lambda>c. b_id c = b_id b) (own_bookings me s) = Some b"
  proof (cases "List.find (\<lambda>c. b_id c = b_id b) (own_bookings me s)")
    case None
    then show ?thesis using b by (auto simp: find_None_iff)
  next
    case (Some c)
    from find_SomeD [OF this] have c: "c \<in> set (bookings s)" "b_id c = b_id b" by (auto simp: own_bookings_def)
    have "find_row b_id (b_id b) (bookings s) = Some c" using find_row_unique [OF assms(3) c(1)] c(2) by simp
    with find_row_unique [OF assms(3,1)] have "c = b" by simp
    with Some show ?thesis by simp
  qed
  then show ?thesis by (simp add: retrieve_own_booking_def booking_json_def booking_fields_def item_def)
qed

theorem customers_read_admin_notes_witness:
  "\<exists>j. retrieve_own_booking (\<lambda>k. 0) (\<lambda>k. 0) 1 7
          (sample_storefront_db [(sample_booking 7 BS_CONFIRMED)\<lparr>b_admin_notes := ''rude''\<rparr>]) = Inr j \<and>
       item ''admin_notes'' j = JStr ''rude''"
proof -
  let ?b = "(sample_booking 7 BS_CONFIRMED)\<lparr>b_admin_notes := ''rude''\<rparr>"
  have rows: "bookings (sample_storefront_db [?b]) = [?b]" by code_simp
  have "b_customer ?b = 1" "b_id ?b = 7" by code_simp+
  with customers_read_admin_notes [of ?b "sample_storefront_db [?b]" 1 "\<lambda>k. 0" "\<lambda>k. 0"] rows
  show ?thesis by (simp add: unique_rows_def)
qed

text \<open>A work order made by hand is listed, but the search does not find it before it is paid, by no query.\<close>

theorem manual_work_order_not_found:
  assumes "b \<in> set (bookings s)" and "b_manual b" and "\<not> has_successful_payment s b"
  shows "b \<in> set (list_work_orders '''' '''' '''' s) \<and>
         (\<forall>r\<in>set (snd (global_search q s)). sr_kind r = WORK_ORDER \<longrightarrow> sr_id r \<noteq> b_id b)"
proof
  show "b \<in> set (list_work_orders '''' '''' '''' s)"
    using assms by (simp add: list_work_orders_def is_work_order_def strip_str_def Let_def)
  show "\<forall>r\<in>set (snd (global_search q s)). sr_kind r = WORK_ORDER \<longrightarrow> sr_id r \<noteq> b_id b"
  proof (intro ballI impI)
    fix r
    assume r: "r \<in> set (snd (global_search q s))" and kind: "sr_kind r = WORK_ORDER"
    from r show "sr_id r \<noteq> b_id b"
    proof (cases rule: search_result_cases)
      case (1 c)
      with assms(3) has_successful_payment_cong [of c b s] show ?thesis by auto
    qed (use kind in auto)
  qed
qed

theorem manual_work_order_not_found_witness:
  "list_work_orders '''' '''' '''' (sample_storefront_db [(sample_booking 7 BS_CONFIRMED)\<lparr>b_manual := True\<rparr>]) \<noteq> [] \<and>
   (\<forall>r\<in>set (snd (global_search ''PS24100001'' (sample_storefront_db [(sample_booking 7 BS_CONFIRMED)\<lparr>b_manual := True\<rparr>]))).
      sr_kind r = WORK_ORDER \<longrightarrow> sr_id r \<noteq> 7)"
proof -
  let ?b = "(sample_booking 7 BS_CONFIRMED)\<lparr>b_manual := True\<rparr>"
  let ?s = "sample_storefront_db [?b]"
  have "bookings ?s = [?b]" "\<not> has_successful_payment ?s ?b" "b_id ?b = 7" by code_simp+
  with manual_work_order_not_found [of ?b ?s "''PS24100001''"] show ?thesis by auto
qed

text \<open>The amount a customer is said to have spent is what their bookings would have cost: a cancelled
  booking for which nothing was paid counts with its whole total.\<close>

theorem customer_spending_counts_cancelled:
  assumes "u \<in> set (users s)" and "u_role u = CUSTOMER" and "b \<in> set (bookings s)" and "b_customer b = u_id u"
    and "b_status b = BS_CANCELLED" and "b_advance_paid b = 0" and "b_balance_collected b = 0"
    and "\<forall>c\<in>set (bookings s). b_total c \<ge> 0"
  shows "\<exists>row\<in>set (list_customers created '''' s). cr_user row = u \<and>
           (\<exists>m. cr_spent row = Some m \<and> m \<ge> b_total b)"
proof -
  let ?bs = "filter (\<lambda>b. b_customer b = u_id u) (bookings s)"
  have "customer_row_of created s u \<in> set (list_customers created '''' s)"
    using assms(1,2) by (simp add: list_customers_def Let_def)
  moreover have "b_total b \<le> sum_rows b_total (\<lambda>b. True) ?bs"
    using assms(3,4,8) by (intro sum_rows_member) auto
  moreover have "?bs \<noteq> []" using assms(3,4) by (auto simp: filter_empty_conv)
  ultimately show ?thesis
    by (intro bexI [of _ "customer_row_of created s u"]) (auto simp: customer_row_of_def Let_def)
qed

theorem customer_spending_counts_cancelled_witness:
  "\<exists>row\<in>set (list_customers (\<lambda>k. 0) '''' (sample_storefront_db [sample_booking 7 BS_CANCELLED])).
     \<exists>m. cr_spent row = Some m \<and> m \<ge> 90000"
proof -
  let ?s = "sample_storefront_db [sample_booking 7 BS_CANCELLED]"
  have "bookings ?s = [sample_booking 7 BS_CANCELLED]" "users ?s = [sample_user 1 CUSTOMER []]" by code_simp+
  with customer_spending_counts_cancelled [of "sample_user 1 CUSTOMER []" ?s "sample_booking 7 BS_CANCELLED" "\<lambda>k. 0"]
  show ?thesis by (fastforce simp: sample_booking_def sample_user_def)
qed

end
