(* ===== verification/Seed_Data.thy ===== *)
theory Seed_Data
  imports Catalogue
begin

text \<open>
  The launch data: the categories and services of \<open>seed_catalogue.py\<close> and the areas of
  \<open>service_area_data.py\<close>, in the order of the files. Prices are in paise. The descriptions of the services
  are left out, as they are in the rows of the catalogue.
\<close>

section \<open>The catalogue\<close>

record seed_service =
  ss_category :: string
  ss_name :: string
  ss_slug :: string
  ss_base :: money
  ss_selling :: "money option"
  ss_advance :: money
  ss_duration :: nat
  ss_featured :: bool
  ss_popular :: bool
  ss_order :: nat

definition seed_row ::
  "string \<Rightarrow> string \<Rightarrow> string \<Rightarrow> money \<Rightarrow> money option \<Rightarrow> money \<Rightarrow> nat \<Rightarrow> bool \<Rightarrow> bool \<Rightarrow> nat \<Rightarrow> seed_service" where
  "seed_row category name slug base selling advance duration featured popular pos =
     \<lparr>ss_category = category, ss_name = name, ss_slug = slug, ss_base = base, ss_selling = selling,
      ss_advance = advance, ss_duration = duration, ss_featured = featured, ss_popular = popular,
      ss_order = pos\<rparr>"

text \<open>Slug, name and position of a category.\<close>

definition category_data :: "(string \<times> string \<times> nat) list" where
  "category_data =
     [(''home-appliances-repair'', ''Home Appliances Repair'', 1),
      (''cleaning'', ''Cleaning'', 2),
      (''home-maintenance'', ''Home Maintenance'', 3)]"

definition seed_services_1 :: "seed_service list" where
  "seed_services_1 =
     [seed_row ''home-appliances-repair'' ''AC Service''
        ''ac-service'' 69900 (Some 49900) 14900 60 True True 1,
      seed_row ''home-appliances-repair'' ''Washing Machine Repair & Service''
        ''washing-machine-repair-service'' 59900 (Some 44900) 14900 60 True True 2,
      seed_row ''home-appliances-repair'' ''Refrigerator Repair & Services''
        ''refrigerator-repair-services'' 69900 (Some 49900) 14900 60 True True 3,
      seed_row ''home-appliances-repair'' ''TV Repair & Services''
        ''tv-repair-services'' 59900 (Some 44900) 14900 60 False True 4,
      seed_row ''home-appliances-repair'' ''Geyser Repair & Services''
        ''geyser-repair-services'' 59900 (Some 44900) 14900 60 False False 5,
      seed_row ''home-appliances-repair'' ''Water Purifier Repair & Services''
        ''water-purifier-repair-services'' 59900 (Some 44900) 14900 60 False True 6,
      seed_row ''home-appliances-repair'' ''Microwave Oven Repair & Services''
        ''microwave-oven-repair-services'' 59900 (Some 44900) 14900 60 False False 7,
      seed_row ''home-appliances-repair'' ''Dishwasher Repair & Service''
        ''dishwasher-repair-service'' 69900 (Some 54900) 19900 75 False False 8]"

definition seed_services_2 :: "seed_service list" where
  "seed_services_2 =
     [seed_row ''home-appliances-repair'' ''TV Wall Mount Installation''
        ''tv-wall-mount-installation'' 79900 (Some 59900) 19900 75 False True 9,
      seed_row ''home-appliances-repair'' ''CCTV Cameras Repair and Installation''
        ''cctv-cameras-repair-installation'' 99900 (Some 79900) 24900 90 False False 10,
      seed_row ''cleaning'' ''Chimney Cleaning & Services''
        ''chimney-cleaning-services'' 89900 (Some 69900) 19900 75 True True 1,
      seed_row ''cleaning'' ''Full House Cleaning''
        ''full-house-cleaning'' 249900 (Some 199900) 49900 240 True True 2,
      seed_row ''cleaning'' ''Bathroom Cleaning''
        ''bathroom-cleaning'' 69900 (Some 49900) 14900 60 True True 3,
      seed_row ''cleaning'' ''Water Tank Cleaning''
        ''water-tank-cleaning'' 129900 (Some 99900) 24900 120 False True 4,
      seed_row ''home-appliances-repair'' ''AC Inspection Charge''
        ''ac-inspection-charge'' 29900 None 10000 45 True True 11,
      seed_row ''home-appliances-repair'' ''AC Installation''
        ''ac-installation'' 189900 None 10000 150 True True 12]"

definition seed_services_3 :: "seed_service list" where
  "seed_services_3 =
     [seed_row ''home-appliances-repair'' ''AC Uninstallation''
        ''ac-uninstallation'' 99900 None 10000 90 False True 13,
      seed_row ''home-appliances-repair'' ''AC Repair & Gas Refill''
        ''ac-repair-gas-refill'' 279900 None 10000 120 True True 14,
      seed_row ''home-appliances-repair'' ''Foam Jet AC Service''
        ''foam-jet-ac-service'' 99900 None 10000 75 True True 15,
      seed_row ''home-appliances-repair'' ''Full AC Chemical Wash''
        ''full-ac-chemical-wash'' 249900 None 10000 120 True True 16,
      seed_row ''home-appliances-repair'' ''AC Uninstallation & Installation''
        ''ac-uninstallation-installation'' 270000 None 10000 240 False True 17,
      seed_row ''home-appliances-repair'' ''AC Installation & Full AC Chemical Wash''
        ''ac-installation-full-ac-chemical-wash'' 409900 None 10000 240 False True 18,
      seed_row ''home-appliances-repair'' ''Geyser Installation''
        ''geyser-installation'' 50000 None 10000 75 False False 19,
      seed_row ''home-appliances-repair'' ''TV Wall Mount - Up to 26 inch''
        ''tv-wall-mount-up-to-26-inch'' 39900 None 10000 60 False False 20]"

definition seed_services_4 :: "seed_service list" where
  "seed_services_4 =
     [seed_row ''home-appliances-repair'' ''TV Wall Mount - 32 to 43 inch''
        ''tv-wall-mount-32-to-43-inch'' 59900 None 10000 75 False False 21,
      seed_row ''home-appliances-repair'' ''TV Wall Mount - 46 to 55 inch''
        ''tv-wall-mount-46-to-55-inch'' 69900 None 10000 90 False False 22,
      seed_row ''home-appliances-repair'' ''TV Wall Mount - 56 to 65 inch''
        ''tv-wall-mount-56-to-65-inch'' 89900 None 10000 105 False False 23,
      seed_row ''home-appliances-repair'' ''TV Wall Mount - Over 75 inch''
        ''tv-wall-mount-over-75-inch'' 189900 None 10000 150 False False 24,
      seed_row ''cleaning'' ''Deep Cleaning - Wall-mount Chimney''
        ''deep-cleaning-wall-mount-chimney'' 119900 None 10000 90 True True 25,
      seed_row ''cleaning'' ''Deep Cleaning - Island Chimney''
        ''deep-cleaning-island-chimney'' 149900 None 10000 120 False True 26,
      seed_row ''cleaning'' ''Chimney Installation - Wall-mount Chimney''
        ''chimney-installation-wall-mount-chimney'' 69900 None 10000 90 False True 27,
      seed_row ''cleaning'' ''Chimney Installation - Island Chimney''
        ''chimney-installation-island-chimney'' 149900 None 10000 150 False False 28]"

definition seed_services_5 :: "seed_service list" where
  "seed_services_5 =
     [seed_row ''cleaning'' ''Overhead Water Tank Cleaning - Up to 1000 Litres''
        ''overhead-water-tank-cleaning-up-to-1000-litres'' 77900 None 10000 90 True True 29,
      seed_row ''cleaning'' ''Overhead Water Tank Cleaning - 1000 to 3000 Litres''
        ''overhead-water-tank-cleaning-1000-to-3000-litres'' 104900 None 10000 120 False True 30,
      seed_row ''cleaning'' ''Overhead Water Tank Cleaning - 3000 to 6000 Litres''
        ''overhead-water-tank-cleaning-3000-to-6000-litres'' 144900 None 10000 150 False True 31,
      seed_row ''cleaning'' ''Overhead Water Tank Cleaning - 6000 to 10000 Litres''
        ''overhead-water-tank-cleaning-6000-to-10000-litres'' 249900 None 10000 180 False False 32,
      seed_row ''cleaning'' ''Overhead Concrete Water Tank Cleaning - Up to 1000 Litres''
        ''overhead-concrete-water-tank-cleaning-up-to-1000-litres'' 119900 None 10000 120 False False 33,
      seed_row ''cleaning'' ''Overhead Concrete Water Tank Cleaning - 1000 to 3000 Litres''
        ''overhead-concrete-water-tank-cleaning-1000-to-3000-litres'' 149900 None 10000 150 False False 34,
      seed_row ''cleaning'' ''Underground Sump Cleaning - Up to 5000 Litres''
        ''underground-sump-cleaning-up-to-5000-litres'' 139900 None 10000 150 True True 35,
      seed_row ''cleaning'' ''Underground Sump Cleaning - 5000 to 8000 Litres''
        ''underground-sump-cleaning-5000-to-8000-litres'' 189900 None 10000 180 False True 36]"

definition seed_services_6 :: "seed_service list" where
  "seed_services_6 =
     [seed_row ''cleaning'' ''Underground Sump Cleaning - 8000 to 12000 Litres''
        ''underground-sump-cleaning-8000-to-12000-litres'' 234900 None 10000 210 False False 37,
      seed_row ''cleaning'' ''Underground Sump Cleaning - 12000 to 20000 Litres''
        ''underground-sump-cleaning-12000-to-20000-litres'' 389900 None 10000 240 False False 38,
      seed_row ''home-maintenance'' ''Mosquito Net Inspection Charge''
        ''mosquito-net-inspection-charge'' 30000 None 10000 45 False False 39,
      seed_row ''home-maintenance'' ''Sofa Repair Inspection Charge''
        ''sofa-repair-inspection-charge'' 30000 None 10000 45 False False 40]"

definition seed_services :: "seed_service list" where
  "seed_services = seed_services_1 @ seed_services_2 @ seed_services_3 @ seed_services_4 @ seed_services_5 @
     seed_services_6"

record core_service =
  cs_slug :: string
  cs_name :: string
  cs_category :: string
  cs_price :: money
  cs_order :: nat

definition core_row :: "string \<Rightarrow> string \<Rightarrow> string \<Rightarrow> money \<Rightarrow> nat \<Rightarrow> core_service" where
  "core_row slug name category price pos =
     \<lparr>cs_slug = slug, cs_name = name, cs_category = category, cs_price = price, cs_order = pos\<rparr>"

definition core_category_data :: "(string \<times> string \<times> nat) list" where
  "core_category_data =
     [(''ac-services'', ''AC'', 1),
      (''washing-machine-services'', ''Washing Machine'', 2),
      (''refrigerator-services'', ''Refrigerator'', 3)]"

definition core_services :: "core_service list" where
  "core_services =
     [core_row ''ac-service'' ''AC Repairs''
        ''ac-services'' 49900 1,
      core_row ''foam-jet-ac-service'' ''AC Foam Jet Clean''
        ''ac-services'' 99900 2,
      core_row ''full-ac-chemical-wash'' ''AC Chemical Wash''
        ''ac-services'' 249900 3,
      core_row ''ac-repair-gas-refill'' ''AC Gas Refill''
        ''ac-services'' 279900 4,
      core_row ''ac-installation'' ''AC Installation''
        ''ac-services'' 189900 5,
      core_row ''ac-uninstallation'' ''AC Uninstallation''
        ''ac-services'' 99900 6,
      core_row ''washing-machine-repair-service'' ''Washing Machine Repair''
        ''washing-machine-services'' 44900 1,
      core_row ''washing-machine-installation'' ''Washing Machine Installation''
        ''washing-machine-services'' 59900 2,
      core_row ''washing-machine-uninstallation'' ''Washing Machine Uninstallation''
        ''washing-machine-services'' 49900 3,
      core_row ''refrigerator-repair-services'' ''Refrigerator Inspection''
        ''refrigerator-services'' 49900 1,
      core_row ''refrigerator-installation-uninstallation'' ''Refrigerator Installation / Uninstallation''
        ''refrigerator-services'' 69900 2]"

text \<open>Slugs of earlier catalogues, which the command switches off unless they are used again.\<close>

definition retired_services :: "string list" where
  "retired_services =
     [''triming'', ''ac-deep-cleaning'', ''ac-general-service'', ''ac-not-cooling-repair'',
      ''ac-water-leakage-repair'', ''ac-installation-standard'', ''ac-uninstallation'', ''ac-gas-refill'',
      ''ac-inspection-visit'']"

definition retired_categories :: "string list" where
  "retired_categories =
     [''laan-cleaning'', ''ac-service'', ''ac-repair'', ''ac-installation'', ''gas-refill'', ''inspection'']"

section \<open>The service areas\<close>

text \<open>Postal codes and names.\<close>

definition chennai_service_areas :: "(string \<times> string) list" where
  "chennai_service_areas =
     [(''600001'', ''Broadway / George Town / Mannadi / Parry'' @ [CHR 0x27] @ ''s Corner''),
      (''600002'', ''Pudupet''),
      (''600003'', ''Park Town / Periamet''),
      (''600004'', ''Mylapore''),
      (''600005'', ''Triplicane''),
      (''600006'', ''Thousand Lights''),
      (''600008'', ''Egmore''),
      (''600011'', ''Perambur / Sembiam''),
      (''600012'', ''Basin Bridge / Jamalia / Kosapet / Otteri / Pattalam / Pulianthope''),
      (''600013'', ''Royapuram''),
      (''600015'', ''Saidapet''),
      (''600016'', ''Alandur''),
      (''600017'', ''T. Nagar''),
      (''600018'', ''Teynampet''),
      (''600019'', ''Tiruvottiyur''),
      (''600020'', ''Adyar''),
      (''600021'', ''Korukkupet / Old Washermenpet''),
      (''600023'', ''Ayanavaram''),
      (''600026'', ''Vadapalani''),
      (''600030'', ''Aminjikarai''),
      (''600031'', ''Chetpet''),
      (''600032'', ''Defence Colony / Guindy''),
      (''600033'', ''West Mambalam''),
      (''600037'', ''Mogappair / Nolambur''),
      (''600038'', ''ICF Colony''),
      (''600039'', ''M.K.B. Nagar / T.V.K. Nagar / Vyasarpadi''),
      (''600040'', ''Anna Nagar / Thirumangalam''),
      (''600041'', ''Kottivakkam / Neelankarai / Palavakkam / Thiruvanmiyur''),
      (''600042'', ''Velachery''),
      (''600043'', ''Pallavaram''),
      (''600044'', ''Chromepet / Nagalkeni''),
      (''600045'', ''Kadaperi / Tambaram''),
      (''600048'', ''Mudichur / Vandalur / Varadharajapuram''),
      (''600049'', ''Villivakkam''),
      (''600050'', ''Padi''),
      (''600051'', ''Madhavaram Milk Colony / Selavoyal''),
      (''600052'', ''Naravarikuppam / Red Hills''),
      (''600053'', ''Ambattur / Pudur''),
      (''600054'', ''Avadi''),
      (''600056'', ''CMDA Colony / Iyyapanthangal / Poonamallee''),
      (''600057'', ''Ennore / Kathivakkam''),
      (''600059'', ''Irumbuliyur''),
      (''600060'', ''Madhavaram / Manjambakkam / Vallalar Nagar''),
      (''600061'', ''Nanganallur''),
      (''600062'', ''Thirumullaivayal''),
      (''600063'', ''Peerkankaranai / Perungalathur''),
      (''600064'', ''Hastinapuram''),
      (''600066'', ''Puzhal / Surapet''),
      (''600068'', ''Manali / Mathur (MMDA / Periya Mathur / China Mathur)''),
      (''600069'', ''Kundrathur / Sikkarayapuram''),
      (''600072'', ''Pattabiram''),
      (''600073'', ''Selaiyur''),
      (''600074'', ''Pozhichur''),
      (''600075'', ''Pammal''),
      (''600076'', ''Korattur''),
      (''600077'', ''Ayappakkam / Thiruverkadu''),
      (''600078'', ''K.K. Nagar / M.G.R. Nagar / Nesapakkam''),
      (''600081'', ''New Washermenpet / Tondiarpet''),
      (''600083'', ''Ashok Nagar''),
      (''600086'', ''Gopalapuram''),
      (''600087'', ''Alwarthirunagar / Valasaravakkam''),
      (''600088'', ''Adambakkam''),
      (''600089'', ''Nandambakkam / Ramapuram''),
      (''600090'', ''Besant Nagar''),
      (''600091'', ''Madipakkam''),
      (''600092'', ''Virugambakkam''),
      (''600093'', ''Saligramam''),
      (''600095'', ''Maduravoyal''),
      (''600096'', ''Perungudi''),
      (''600097'', ''Thoraipakkam''),
      (''600098'', ''Mannurpet''),
      (''600099'', ''Kathirvedu / Lakshmipuram''),
      (''600100'', ''Medavakkam / Pallikaranai''),
      (''600103'', ''Manali New Town''),
      (''600106'', ''Arumbakkam''),
      (''600107'', ''Koyambedu / Nerkundrum''),
      (''600110'', ''Ponniammanmedu''),
      (''600113'', ''Taramani''),
      (''600114'', ''Pazhavanthangal''),
      (''600115'', ''Injambakkam''),
      (''600116'', ''Alapakkam / Karambakkam / M.G.R. Garden / Porur''),
      (''600117'', ''Keelkattalai / Kovilambakkam''),
      (''600118'', ''Erukanchery / Kodungaiyur / Moolakadai''),
      (''600119'', ''Sholinganallur''),
      (''600122'', ''Kolappakkam / Kovur / Mangadu''),
      (''600124'', ''Thirumazhisai''),
      (''600125'', ''Mowlivakkam / Mugalivakkam''),
      (''600127'', ''Mambakkam''),
      (''600128'', ''Gerugambakkam''),
      (''600130'', ''Navalur''),
      (''601203'', ''Minjur''),
      (''602024'', ''Thirunindravur''),
      (''603103'', ''Kelambakkam''),
      (''603202'', ''Guduvanchery''),
      (''603210'', ''Urapakkam'')]"

definition coimbatore_service_areas :: "(string \<times> string) list" where
  "coimbatore_service_areas =
     [(''641001'', ''Coimbatore Central''),
      (''641002'', ''RS Puram''),
      (''641004'', ''Peelamedu''),
      (''641011'', ''Saibaba Colony''),
      (''641012'', ''Gandhipuram''),
      (''641018'', ''Race Course''),
      (''641035'', ''Saravanampatti''),
      (''641041'', ''Vadavalli'')]"

record launch_area =
  lc_name :: string
  lc_city :: string
  lc_state :: string
  lc_postal_code :: string

definition launch_service_areas :: "launch_area list" where
  "launch_service_areas =
     map (\<lambda>(code, name). \<lparr>lc_name = name, lc_city = ''Chennai'', lc_state = ''Tamil Nadu'', lc_postal_code = code\<rparr>)
       chennai_service_areas @
     map (\<lambda>(code, name). \<lparr>lc_name = name, lc_city = ''Coimbatore'', lc_state = ''Tamil Nadu'', lc_postal_code = code\<rparr>)
       coimbatore_service_areas"

end
