(* ===== verification/Seeds.thy ===== *)
theory Seeds
  imports Seed_Data Catalogue_Views
begin

text \<open>
  The commands that load the launch data: \<open>seed_catalogue.py\<close> and \<open>seed_service_areas.py\<close>. A command is
  not a transaction: when a row is refused it stops, and what it wrote before stays.
\<close>

section \<open>A loop of writes\<close>

text \<open>One write after the other, up to the first that is refused.\<close>

fun each :: "('i \<Rightarrow> 's \<Rightarrow> error + ('a \<times> 's)) \<Rightarrow> 'i list \<Rightarrow> 's \<Rightarrow> (error + 'a list) \<times> 's" where
  "each put [] s = (Inr [], s)"
| "each put (i # is) s =
     (case put i s of
        Inl e \<Rightarrow> (Inl e, s)
      | Inr (a, s1) \<Rightarrow>
          (case each put is s1 of
             (Inl e, s2) \<Rightarrow> (Inl e, s2)
           | (Inr as, s2) \<Rightarrow> (Inr (a # as), s2)))"

section \<open>\<open>seed_catalogue\<close>\<close>

definition category_by_slug :: "string \<Rightarrow> 'x catalogue_db_scheme \<Rightarrow> category option" where
  "category_by_slug slug s = find_row ca_slug slug (categories s)"

definition service_by_slug :: "string \<Rightarrow> 'x catalogue_db_scheme \<Rightarrow> service option" where
  "service_by_slug slug s = find_row sv_slug slug (services s)"

text \<open>\<open>ServiceCategory.objects.update_or_create\<close>; a category is saved without \<open>full_clean\<close>.\<close>

definition seed_category ::
  "string \<times> string \<times> nat \<Rightarrow> 'x catalogue_db_scheme \<Rightarrow> error + (nat \<times> 'x catalogue_db_scheme)" where
  "seed_category entry s =
     (case entry of (slug, name, pos) \<Rightarrow>
      case category_by_slug slug s of
        Some c \<Rightarrow>
          let c2 = c\<lparr>ca_name := name, ca_order := pos, ca_active := True\<rparr>
          in Inr (ca_id c, s\<lparr>categories := save_row ca_id c2 (categories s)\<rparr>)
      | None \<Rightarrow>
          let c = \<lparr>ca_id = new_id s, ca_name = name, ca_slug = slug, ca_order = pos, ca_active = True\<rparr>
          in Inr (ca_id c, bump_id (s\<lparr>categories := categories s @ [c]\<rparr>)))"

definition seeded_service :: "nat \<Rightarrow> seed_service \<Rightarrow> service \<Rightarrow> service" where
  "seeded_service category r v =
     v\<lparr>sv_category := category, sv_name := ss_name r, sv_slug := ss_slug r, sv_base_price := ss_base r,
       sv_selling_price := ss_selling r, sv_advance_amount := ss_advance r, sv_duration := ss_duration r,
       sv_featured := ss_featured r, sv_popular := ss_popular r, sv_active := True, sv_order := ss_order r\<rparr>"

text \<open>\<open>Service.objects.update_or_create\<close>; the columns that the data does not name keep their values.\<close>

definition seed_service_row ::
  "(string \<times> nat) list \<Rightarrow> seed_service \<Rightarrow> 'x catalogue_db_scheme \<Rightarrow> error + (service \<times> 'x catalogue_db_scheme)" where
  "seed_service_row cats r s =
     (case map_of cats (ss_category r) of
        None \<Rightarrow> Inl (KeyError (ss_category r))
      | Some c \<Rightarrow>
          (case service_by_slug (ss_slug r) s of
             Some v \<Rightarrow> save_service (seeded_service c r v) s
           | None \<Rightarrow> save_service (seeded_service c r (blank_service (new_id s))) (bump_id s)))"

definition new_core_service :: "nat \<Rightarrow> core_service \<Rightarrow> nat \<Rightarrow> service" where
  "new_core_service category r k =
     (blank_service k)\<lparr>sv_category := category, sv_name := cs_name r, sv_slug := cs_slug r,
        sv_base_price := cs_price r, sv_selling_price := None, sv_advance_amount := 9900,
        sv_advance_type := FIXED, sv_advance_value := Some 9900, sv_duration := 60, sv_active := True,
        sv_order := cs_order r\<rparr>"

definition updated_core_service :: "nat \<Rightarrow> core_service \<Rightarrow> service \<Rightarrow> service" where
  "updated_core_service category r v =
     v\<lparr>sv_category := category, sv_name := cs_name r, sv_order := cs_order r, sv_active := True\<rparr>"

text \<open>\<open>Service.objects.get_or_create\<close> for the core services, and the update of one that exists.\<close>

definition seed_core_service ::
  "(string \<times> nat) list \<Rightarrow> core_service \<Rightarrow> 'x catalogue_db_scheme \<Rightarrow> error + (service \<times> 'x catalogue_db_scheme)" where
  "seed_core_service cats r s =
     (case map_of cats (cs_category r) of
        None \<Rightarrow> Inl (KeyError (cs_category r))
      | Some c \<Rightarrow>
          (case service_by_slug (cs_slug r) s of
             Some v \<Rightarrow> save_service (updated_core_service c r v) s
           | None \<Rightarrow> save_service (new_core_service c r (new_id s)) (bump_id s)))"

text \<open>\<open>area.services.add(*ids)\<close> for the active areas: what is missing is added.\<close>

definition offer_services :: "nat list \<Rightarrow> service_area \<Rightarrow> service_area" where
  "offer_services ids a =
     (if ar_active a then a\<lparr>ar_services := ar_services a @ filter (\<lambda>k. k \<notin> set (ar_services a)) ids\<rparr> else a)"

definition retire_services :: "'x catalogue_db_scheme \<Rightarrow> 'x catalogue_db_scheme" where
  "retire_services s =
     (let kept = map ss_slug seed_services @ map cs_slug core_services in
      s\<lparr>services := map (\<lambda>v. if sv_slug v \<in> set retired_services \<and> sv_slug v \<notin> set kept
                              then v\<lparr>sv_active := False\<rparr> else v) (services s)\<rparr>)"

definition retire_categories :: "'x catalogue_db_scheme \<Rightarrow> 'x catalogue_db_scheme" where
  "retire_categories s =
     s\<lparr>categories := map (\<lambda>c. if ca_slug c \<in> set retired_categories \<and> ca_slug c \<notin> set (map fst category_data)
                               then c\<lparr>ca_active := False\<rparr> else c) (categories s)\<rparr>"

definition seed_catalogue :: "'x locations_db_scheme \<Rightarrow> (error + unit) \<times> 'x locations_db_scheme" where
  "seed_catalogue s =
     (case each seed_category category_data s of
        (Inl e, s1) \<Rightarrow> (Inl e, s1)
      | (Inr ids, s1) \<Rightarrow>
     case each (seed_service_row (zip (map fst category_data) ids)) seed_services s1 of
        (Inl e, s2) \<Rightarrow> (Inl e, s2)
      | (Inr vs, s2) \<Rightarrow>
     case each seed_category core_category_data s2 of
        (Inl e, s3) \<Rightarrow> (Inl e, s3)
      | (Inr core_ids, s3) \<Rightarrow>
     case each (seed_core_service (zip (map fst core_category_data) core_ids)) core_services s3 of
        (Inl e, s4) \<Rightarrow> (Inl e, s4)
      | (Inr core, s4) \<Rightarrow>
          (Inr (), retire_categories (retire_services
             (s4\<lparr>service_areas := map (offer_services (map sv_id core)) (service_areas s4)\<rparr>))))"

section \<open>\<open>seed_service_areas\<close>\<close>

definition area_at :: "string \<times> string \<Rightarrow> 'x locations_db_scheme \<Rightarrow> service_area option" where
  "area_at place s = find_row (\<lambda>a. (ar_country a, ar_postal_code a)) place (service_areas s)"

definition seed_area ::
  "launch_area \<Rightarrow> 'x locations_db_scheme \<Rightarrow> error + (service_area \<times> 'x locations_db_scheme)" where
  "seed_area r s =
     (case area_at (''India'', lc_postal_code r) s of
        Some a \<Rightarrow>
          save_area (a\<lparr>ar_name := lc_name r, ar_city := lc_city r, ar_state := lc_state r, ar_active := True\<rparr>) s
      | None \<Rightarrow>
          save_area \<lparr>ar_id = new_id s, ar_name = lc_name r, ar_city = lc_city r, ar_state = lc_state r,
                     ar_country = ''India'', ar_postal_code = lc_postal_code r, ar_services = [],
                     ar_services_configured = False, ar_active = True\<rparr> (bump_id s))"

definition seed_service_areas :: "bool \<Rightarrow> 'x locations_db_scheme \<Rightarrow> (error + service_area list) \<times> 'x locations_db_scheme" where
  "seed_service_areas keep_existing s =
     (let codes = map lc_postal_code launch_service_areas;
          s1 = (if keep_existing then s
                else s\<lparr>service_areas := map (\<lambda>a. if ar_postal_code a \<in> set codes then a
                                                 else a\<lparr>ar_active := False\<rparr>) (service_areas s)\<rparr>)
      in each seed_area launch_service_areas s1)"


section \<open>Lemmas: writing a row by its natural key\<close>

text \<open>
  A table whose rows have a number and a natural key, a slug or a place: both are distinct, and the next
  number is free.
\<close>

definition keyed :: "('r \<Rightarrow> nat) \<Rightarrow> ('r \<Rightarrow> 'n) \<Rightarrow> nat \<Rightarrow> 'r list \<Rightarrow> bool" where
  "keyed number name n rows =
     (unique_rows number rows \<and> unique_rows name rows \<and> list_all (\<lambda>r. number r < n) rows)"

lemma find_row_iff: "unique_rows name rows \<Longrightarrow> find_row name x rows = Some r \<longleftrightarrow> r \<in> set rows \<and> name r = x"
  using find_row_unique find_row_SomeD by metis

lemma option_eqI: "(\<And>r. a = Some r \<longleftrightarrow> b = Some r) \<Longrightarrow> a = b"
  by (cases a; cases b) auto

lemma distinct_names_save_row:
  assumes "unique_rows name rows" and "old \<in> set rows" and "number new = number old" and "name new = name old"
    and "unique_rows number rows"
  shows "unique_rows name (save_row number new rows)"
proof -
  have "map name (save_row number new rows) = map name rows"
  proof -
    have "name new = name r" if "r \<in> set rows" "number r = number new" for r
    proof -
      have "r = old" using that assms(2,3,5) find_row_unique [of number rows] by (metis option.inject)
      then show ?thesis using assms(4) by simp
    qed
    then show ?thesis by (auto simp: save_row_def)
  qed
  then show ?thesis using assms(1) by (simp add: unique_rows_def)
qed

lemma keyed_save:
  assumes keyed: "keyed number name n rows" and old: "find_row name x rows = Some old"
    and same: "number new = number old" "name new = x"
  shows "keyed number name n (save_row number new rows) \<and>
         find_row name x (save_row number new rows) = Some new \<and>
         (\<forall>y. y \<noteq> x \<longrightarrow> find_row name y (save_row number new rows) = find_row name y rows)"
proof -
  have u: "unique_rows number rows" "unique_rows name rows" and less: "list_all (\<lambda>r. number r < n) rows"
    using keyed by (simp_all add: keyed_def)
  have o: "old \<in> set rows" "name old = x" using find_row_SomeD [OF old] by auto
  have names: "unique_rows name (save_row number new rows)"
    using distinct_names_save_row [OF u(2) o(1) same(1) _ u(1)] same(2) o(2) by simp
  have "keyed number name n (save_row number new rows)"
    using names u(1) less o(1) same(1) by (auto simp: keyed_def list_all_iff in_set_save_row)
  moreover have "find_row name x (save_row number new rows) = Some new"
    using o(1) same by (auto simp: find_row_iff [OF names] in_set_save_row)
  moreover have "find_row name y (save_row number new rows) = find_row name y rows" if "y \<noteq> x" for y
  proof (rule option_eqI)
    fix r
    have "number r \<noteq> number new" if "r \<in> set rows" "name r = y"
    proof
      assume "number r = number new"
      then have "r = old" using that(1) o(1) same(1) u(1) find_row_unique [of number rows] by (metis option.inject)
      with \<open>y \<noteq> x\<close> that(2) o(2) show False by simp
    qed
    then show "find_row name y (save_row number new rows) = Some r \<longleftrightarrow> find_row name y rows = Some r"
      using \<open>y \<noteq> x\<close> same(2) by (auto simp: find_row_iff [OF names] find_row_iff [OF u(2)] in_set_save_row)
  qed
  ultimately show ?thesis by blast
qed

lemma keyed_insert:
  assumes keyed: "keyed number name n rows" and "find_row name x rows = None" and "number new = n" "name new = x"
  shows "keyed number name (Suc n) (rows @ [new]) \<and> find_row name x (rows @ [new]) = Some new \<and>
         (\<forall>y. y \<noteq> x \<longrightarrow> find_row name y (rows @ [new]) = find_row name y rows)"
proof -
  have "n \<notin> number ` set rows" using keyed by (auto simp: keyed_def list_all_iff)
  moreover have "x \<notin> name ` set rows" using assms(2) by (simp add: find_row_None_iff)
  moreover have "list_all (\<lambda>r. number r < Suc n) rows" using keyed by (auto simp: keyed_def list_all_iff)
  ultimately have "keyed number name (Suc n) (rows @ [new])"
    using keyed assms(3,4) by (simp add: keyed_def)
  then show ?thesis using assms(2,4) by (auto simp: find_row_append split: option.split)
qed

lemma keyed_mono: "keyed number name n rows \<Longrightarrow> n \<le> m \<Longrightarrow> keyed number name m rows"
  by (auto simp: keyed_def list_all_iff)

text \<open>What every such write promises, and what the loop of them therefore does.\<close>

locale natural_upsert =
  fixes lookup :: "'n \<Rightarrow> 's \<Rightarrow> 'r option"
    and key :: "'i \<Rightarrow> 'n"
    and put :: "'i \<Rightarrow> 's \<Rightarrow> error + ('a \<times> 's)"
    and inv :: "'s \<Rightarrow> bool"
    and good :: "'i \<Rightarrow> bool"
    and written :: "'i \<Rightarrow> 'r option \<Rightarrow> 'a \<Rightarrow> 'r \<Rightarrow> bool"
    and rest :: "'s \<Rightarrow> 'o"
  assumes put_ok: "inv s \<Longrightarrow> good i \<Longrightarrow>
    \<exists>a s' r. put i s = Inr (a, s') \<and> inv s' \<and> lookup (key i) s' = Some r \<and>
      written i (lookup (key i) s) a r \<and> (\<forall>n. n \<noteq> key i \<longrightarrow> lookup n s' = lookup n s) \<and> rest s' = rest s"
begin

lemma each_ok:
  "inv s \<Longrightarrow> list_all good is \<Longrightarrow> distinct (map key is) \<Longrightarrow>
     \<exists>as s'. each put is s = (Inr as, s') \<and> inv s' \<and> rest s' = rest s \<and>
       list_all2 (\<lambda>i a. \<exists>r. lookup (key i) s' = Some r \<and> written i (lookup (key i) s) a r) is as \<and>
       (\<forall>n. n \<notin> key ` set is \<longrightarrow> lookup n s' = lookup n s)"
proof (induction "is" arbitrary: s)
  case Nil
  then show ?case by simp
next
  case (Cons i "is")
  obtain a s1 r where one: "put i s = Inr (a, s1)" "inv s1" "lookup (key i) s1 = Some r"
      "written i (lookup (key i) s) a r" "\<And>n. n \<noteq> key i \<Longrightarrow> lookup n s1 = lookup n s" "rest s1 = rest s"
    using put_ok [of s i] Cons.prems by auto
  obtain as s' where more: "each put is s1 = (Inr as, s')" "inv s'" "rest s' = rest s1"
      "list_all2 (\<lambda>i a. \<exists>r. lookup (key i) s' = Some r \<and> written i (lookup (key i) s1) a r) is as"
      "\<And>n. n \<notin> key ` set is \<Longrightarrow> lookup n s' = lookup n s1"
    using Cons.IH [OF one(2)] Cons.prems by auto
  have fresh: "key i \<notin> key ` set is" using Cons.prems(3) by simp
  have "list_all2 (\<lambda>i a. \<exists>r. lookup (key i) s' = Some r \<and> written i (lookup (key i) s) a r) is as"
    using more(4)
  proof (rule list.rel_mono_strong)
    fix j b
    assume j: "j \<in> set is" and "\<exists>r. lookup (key j) s' = Some r \<and> written j (lookup (key j) s1) b r"
    moreover have "key j \<noteq> key i" using imageI [OF j, of key] fresh by auto
    ultimately show "\<exists>r. lookup (key j) s' = Some r \<and> written j (lookup (key j) s) b r" using one(5) by auto
  qed
  moreover have "lookup (key i) s' = Some r" using more(5) fresh one(3) by simp
  ultimately show ?case using one more by (auto simp: image_iff)
qed

end


section \<open>Lemmas: the four kinds of rows\<close>

definition seeds_ok :: "'x locations_db_scheme \<Rightarrow> bool" where
  "seeds_ok s =
     (keyed sv_id sv_slug (next_id s) (services s) \<and> list_all sound_service (services s) \<and>
      keyed ca_id ca_slug (next_id s) (categories s) \<and> keyed ar_id area_place (next_id s) (service_areas s) \<and>
      list_all (\<lambda>a. normalize_postal_code (ar_postal_code a) = ar_postal_code a) (service_areas s))"

lemma sound_service_clean: "sound_service v \<Longrightarrow> service_clean v = []"
  by (auto simp: service_clean_def sound_service_def effective_price_def split: option.splits)

lemma seeds_ok_bump: "seeds_ok s \<Longrightarrow> seeds_ok (bump_id s)"
  by (auto simp: seeds_ok_def bump_id_def elim: keyed_mono)

definition category_written :: "string \<times> string \<times> nat \<Rightarrow> category option \<Rightarrow> nat \<Rightarrow> category \<Rightarrow> bool" where
  "category_written entry old k c =
     (k = ca_id c \<and> ca_slug c = fst entry \<and> ca_name c = fst (snd entry) \<and> ca_order c = snd (snd entry) \<and> ca_active c)"

interpretation category_seeding:
  natural_upsert category_by_slug fst seed_category seeds_ok "\<lambda>i. True" category_written
    "\<lambda>s. (services s, service_areas s)"
proof
  fix s :: "'a locations_db_scheme" and i :: "string \<times> string \<times> nat"
  assume ok: "seeds_ok s"
  obtain slug name pos where i: "i = (slug, name, pos)" by (cases i)
  have cats: "keyed ca_id ca_slug (next_id s) (categories s)" using ok by (simp add: seeds_ok_def)
  show "\<exists>a s' r. seed_category i s = Inr (a, s') \<and> seeds_ok s' \<and> category_by_slug (fst i) s' = Some r \<and>
      category_written i (category_by_slug (fst i) s) a r \<and>
      (\<forall>n. n \<noteq> fst i \<longrightarrow> category_by_slug n s' = category_by_slug n s) \<and>
      (services s', service_areas s') = (services s, service_areas s)"
  proof (cases "category_by_slug slug s")
    case (Some c)
    let ?c = "c\<lparr>ca_name := name, ca_order := pos, ca_active := True\<rparr>"
    let ?s = "s\<lparr>categories := save_row ca_id ?c (categories s)\<rparr>"
    have slug: "ca_slug c = slug" using find_row_SomeD [OF Some [unfolded category_by_slug_def]] by simp
    from keyed_save [OF cats Some [unfolded category_by_slug_def], of ?c] slug
    have rows: "keyed ca_id ca_slug (next_id s) (categories ?s)" "category_by_slug slug ?s = Some ?c"
      "\<And>n. n \<noteq> slug \<Longrightarrow> category_by_slug n ?s = category_by_slug n s"
      by (auto simp: category_by_slug_def)
    moreover have "seeds_ok ?s" using ok rows(1) by (simp add: seeds_ok_def)
    moreover have "seed_category i s = Inr (ca_id c, ?s)" using Some by (simp add: i seed_category_def Let_def)
    ultimately show ?thesis using slug by (auto simp: i category_written_def)
  next
    case None
    let ?c = "\<lparr>ca_id = new_id s, ca_name = name, ca_slug = slug, ca_order = pos, ca_active = True\<rparr>"
    let ?s = "bump_id (s\<lparr>categories := categories s @ [?c]\<rparr>)"
    from keyed_insert [OF cats None [unfolded category_by_slug_def], of ?c]
    have rows: "keyed ca_id ca_slug (next_id ?s) (categories ?s)" "category_by_slug slug ?s = Some ?c"
      "\<And>n. n \<noteq> slug \<Longrightarrow> category_by_slug n ?s = category_by_slug n s"
      by (auto simp: category_by_slug_def new_id_def bump_id_def)
    moreover have "seeds_ok ?s" using seeds_ok_bump [OF ok] rows(1) by (simp add: seeds_ok_def bump_id_def)
    moreover have "seed_category i s = Inr (new_id s, ?s)" using None by (simp add: i seed_category_def Let_def)
    moreover have "services ?s = services s" "service_areas ?s = service_areas s" by (simp_all add: bump_id_def)
    ultimately show ?thesis by (auto simp: i category_written_def)
  qed
qed

text \<open>Saving a sound service under its slug.\<close>

lemma save_service_old:
  assumes ok: "seeds_ok s" and old: "service_by_slug slug s = Some old"
    and v: "sv_id v = sv_id old" "sv_slug v = slug" "sound_service v"
  shows "\<exists>s'. save_service v s = Inr (v, s') \<and> seeds_ok s' \<and> service_by_slug slug s' = Some v \<and>
           (\<forall>n. n \<noteq> slug \<longrightarrow> service_by_slug n s' = service_by_slug n s) \<and>
           (categories s', service_areas s') = (categories s, service_areas s)"
proof -
  have keyed: "keyed sv_id sv_slug (next_id s) (services s)" using ok by (simp add: seeds_ok_def)
  have o: "old \<in> set (services s)" "sv_slug old = slug"
    using find_row_SomeD [OF old [unfolded service_by_slug_def]] by auto
  have "sv_id w = sv_id v" if "w \<in> set (services s)" "sv_slug w = sv_slug v" for w
  proof -
    have "w = old" using that v(2) o keyed find_row_unique [of sv_slug "services s"]
      by (metis keyed_def option.inject)
    then show ?thesis using v(1) by simp
  qed
  then have "service_full_clean v s = []"
    using sound_service_clean [OF v(3)] by (auto simp: service_full_clean_def list_ex_iff)
  moreover have "get_service (sv_id v) s \<noteq> None"
    using o(1) v(1) by (auto simp: get_service_def find_row_None_iff)
  ultimately have "save_service v s = Inr (v, save_service_row v s)" by (auto simp: save_service_def)
  moreover from keyed_save [OF keyed, of slug old v] old v
  have "keyed sv_id sv_slug (next_id s) (save_row sv_id v (services s)) \<and>
        find_row sv_slug slug (save_row sv_id v (services s)) = Some v \<and>
        (\<forall>y. y \<noteq> slug \<longrightarrow> find_row sv_slug y (save_row sv_id v (services s)) = find_row sv_slug y (services s))"
    by (simp add: service_by_slug_def)
  moreover have "list_all sound_service (save_row sv_id v (services s))"
    using ok v(3) by (auto simp: seeds_ok_def save_row_def list_all_iff)
  ultimately show ?thesis
    using ok by (intro exI [of _ "save_service_row v s"]) (simp add: save_service_row_def service_by_slug_def seeds_ok_def)
qed

lemma save_service_new:
  assumes ok: "seeds_ok s" and new: "service_by_slug slug s = None"
    and v: "sv_id v = new_id s" "sv_slug v = slug" "sound_service v"
  shows "\<exists>s'. save_service v (bump_id s) = Inr (v, s') \<and> seeds_ok s' \<and> service_by_slug slug s' = Some v \<and>
           (\<forall>n. n \<noteq> slug \<longrightarrow> service_by_slug n s' = service_by_slug n s) \<and>
           (categories s', service_areas s') = (categories s, service_areas s)"
proof -
  have keyed: "keyed sv_id sv_slug (next_id s) (services s)" using ok by (simp add: seeds_ok_def)
  have "\<not> list_ex (\<lambda>w. sv_slug w = sv_slug v \<and> sv_id w \<noteq> sv_id v) (services s)"
    using new v(2) by (auto simp: service_by_slug_def find_row_None_iff list_ex_iff image_iff)
  then have "service_full_clean v (bump_id s) = []"
    using sound_service_clean [OF v(3)] by (simp add: service_full_clean_def bump_id_def)
  moreover have "get_service (sv_id v) (bump_id s) = None"
    using keyed v(1) by (auto simp: get_service_def find_row_None_iff keyed_def list_all_iff new_id_def bump_id_def)
  ultimately have "save_service v (bump_id s) = Inr (v, insert_service_row v (bump_id s))"
    by (simp add: save_service_def)
  moreover from keyed_insert [OF keyed, of slug v] new v
  have "keyed sv_id sv_slug (Suc (next_id s)) (services s @ [v]) \<and> find_row sv_slug slug (services s @ [v]) = Some v \<and>
        (\<forall>y. y \<noteq> slug \<longrightarrow> find_row sv_slug y (services s @ [v]) = find_row sv_slug y (services s))"
    by (simp add: service_by_slug_def new_id_def)
  ultimately show ?thesis
    using seeds_ok_bump [OF ok] v(3)
    by (intro exI [of _ "insert_service_row v (bump_id s)"])
      (simp add: insert_service_row_def service_by_slug_def seeds_ok_def bump_id_def)
qed


text \<open>The rows of the data that can be written: the prices are sound and the category is known.\<close>

definition sound_seed :: "(string \<times> nat) list \<Rightarrow> seed_service \<Rightarrow> bool" where
  "sound_seed cats r =
     (let price = (case ss_selling r of None \<Rightarrow> ss_base r | Some p \<Rightarrow> p) in
      ss_category r \<in> fst ` set cats \<and> 0 \<le> ss_base r \<and> 0 \<le> ss_advance r \<and> ss_advance r \<le> price)"

definition service_seeded ::
  "(string \<times> nat) list \<Rightarrow> seed_service \<Rightarrow> service option \<Rightarrow> service \<Rightarrow> service \<Rightarrow> bool" where
  "service_seeded cats r old a v =
     (a = v \<and> (\<exists>c k. map_of cats (ss_category r) = Some c \<and>
        v = seeded_service c r (case old of Some w \<Rightarrow> w | None \<Rightarrow> blank_service k)))"

lemma seeded_service_fields [simp]:
  "sv_id (seeded_service c r v) = sv_id v" "sv_slug (seeded_service c r v) = ss_slug r"
  "sv_category (seeded_service c r v) = c" "sv_name (seeded_service c r v) = ss_name r"
  "sv_active (seeded_service c r v)" "sv_base_price (seeded_service c r v) = ss_base r"
  "sv_selling_price (seeded_service c r v) = ss_selling r" "sv_advance_amount (seeded_service c r v) = ss_advance r"
  "sv_advance_type (seeded_service c r v) = sv_advance_type v"
  "sv_advance_value (seeded_service c r v) = sv_advance_value v"
  "sv_training_fee (seeded_service c r v) = sv_training_fee v"
  by (simp_all add: seeded_service_def)

lemma sound_seeded:
  "sound_seed cats r \<Longrightarrow> sound_service v \<Longrightarrow> sound_service (seeded_service c r v)"
  by (cases "ss_selling r"; cases "sv_advance_value v") (simp_all add: sound_seed_def sound_service_def effective_price_def)

lemma sound_blank: "sound_service (blank_service k)"
  by (simp add: sound_service_def blank_service_def effective_price_def)

lemma sound_of_slug: "seeds_ok s \<Longrightarrow> service_by_slug slug s = Some v \<Longrightarrow> sound_service v"
  using find_row_SomeD [of sv_slug slug "services s" v] by (simp add: service_by_slug_def seeds_ok_def list_all_iff)

lemma map_of_known: "x \<in> fst ` set kvs \<Longrightarrow> \<exists>v. map_of kvs x = Some v"
  by (metis map_of_eq_None_iff not_None_eq)

interpretation service_seeding:
  natural_upsert service_by_slug ss_slug "seed_service_row cats" seeds_ok "sound_seed cats" "service_seeded cats"
    "\<lambda>s. (categories s, service_areas s)" for cats
proof
  fix s :: "'a locations_db_scheme" and i
  assume ok: "seeds_ok s" and good: "sound_seed cats i"
  obtain c where c: "map_of cats (ss_category i) = Some c"
    using good map_of_known by (force simp: sound_seed_def Let_def)
  show "\<exists>a s' r. seed_service_row cats i s = Inr (a, s') \<and> seeds_ok s' \<and> service_by_slug (ss_slug i) s' = Some r \<and>
      service_seeded cats i (service_by_slug (ss_slug i) s) a r \<and>
      (\<forall>n. n \<noteq> ss_slug i \<longrightarrow> service_by_slug n s' = service_by_slug n s) \<and>
      (categories s', service_areas s') = (categories s, service_areas s)"
  proof (cases "service_by_slug (ss_slug i) s")
    case (Some v)
    have "sound_service (seeded_service c i v)" by (rule sound_seeded [OF good sound_of_slug [OF ok Some]])
    from save_service_old [OF ok Some _ _ this] obtain s' where
      "save_service (seeded_service c i v) s = Inr (seeded_service c i v, s')" "seeds_ok s'"
      "service_by_slug (ss_slug i) s' = Some (seeded_service c i v)"
      "\<forall>n. n \<noteq> ss_slug i \<longrightarrow> service_by_slug n s' = service_by_slug n s"
      "(categories s', service_areas s') = (categories s, service_areas s)" by auto
    with Some c show ?thesis by (auto simp: seed_service_row_def service_seeded_def)
  next
    case None
    let ?v = "seeded_service c i (blank_service (new_id s))"
    have "sound_service ?v" by (rule sound_seeded [OF good sound_blank])
    from save_service_new [OF ok None _ _ this] obtain s' where
      "save_service ?v (bump_id s) = Inr (?v, s')" "seeds_ok s'" "service_by_slug (ss_slug i) s' = Some ?v"
      "\<forall>n. n \<noteq> ss_slug i \<longrightarrow> service_by_slug n s' = service_by_slug n s"
      "(categories s', service_areas s') = (categories s, service_areas s)" by (auto simp: blank_service_def)
    with None c show ?thesis by (auto simp: seed_service_row_def service_seeded_def)
  qed
qed

definition sound_core :: "(string \<times> nat) list \<Rightarrow> core_service \<Rightarrow> bool" where
  "sound_core cats r = (cs_category r \<in> fst ` set cats \<and> 9900 \<le> cs_price r)"

definition core_seeded ::
  "(string \<times> nat) list \<Rightarrow> core_service \<Rightarrow> service option \<Rightarrow> service \<Rightarrow> service \<Rightarrow> bool" where
  "core_seeded cats r old a v =
     (a = v \<and> (\<exists>c k. map_of cats (cs_category r) = Some c \<and>
        v = (case old of Some w \<Rightarrow> updated_core_service c r w | None \<Rightarrow> new_core_service c r k)))"

interpretation core_seeding:
  natural_upsert service_by_slug cs_slug "seed_core_service cats" seeds_ok "sound_core cats" "core_seeded cats"
    "\<lambda>s. (categories s, service_areas s)" for cats
proof
  fix s :: "'a locations_db_scheme" and i
  assume ok: "seeds_ok s" and good: "sound_core cats i"
  obtain c where c: "map_of cats (cs_category i) = Some c"
    using good map_of_known by (force simp: sound_core_def)
  show "\<exists>a s' r. seed_core_service cats i s = Inr (a, s') \<and> seeds_ok s' \<and> service_by_slug (cs_slug i) s' = Some r \<and>
      core_seeded cats i (service_by_slug (cs_slug i) s) a r \<and>
      (\<forall>n. n \<noteq> cs_slug i \<longrightarrow> service_by_slug n s' = service_by_slug n s) \<and>
      (categories s', service_areas s') = (categories s, service_areas s)"
  proof (cases "service_by_slug (cs_slug i) s")
    case (Some v)
    let ?v = "updated_core_service c i v"
    have "sound_service ?v" "sv_id ?v = sv_id v" "sv_slug ?v = cs_slug i"
      using sound_of_slug [OF ok Some] find_row_SomeD [OF Some [unfolded service_by_slug_def]]
      by (simp_all add: updated_core_service_def sound_service_def effective_price_def split: option.splits)
    from save_service_old [OF ok Some this(2,3,1)] obtain s' where
      "save_service ?v s = Inr (?v, s')" "seeds_ok s'" "service_by_slug (cs_slug i) s' = Some ?v"
      "\<forall>n. n \<noteq> cs_slug i \<longrightarrow> service_by_slug n s' = service_by_slug n s"
      "(categories s', service_areas s') = (categories s, service_areas s)" by auto
    with Some c show ?thesis by (auto simp: seed_core_service_def core_seeded_def)
  next
    case None
    let ?v = "new_core_service c i (new_id s)"
    have "sound_service ?v" "sv_id ?v = new_id s" "sv_slug ?v = cs_slug i"
      using good by (simp_all add: new_core_service_def sound_service_def effective_price_def blank_service_def
          sound_core_def)
    from save_service_new [OF ok None this(2,3,1)] obtain s' where
      "save_service ?v (bump_id s) = Inr (?v, s')" "seeds_ok s'" "service_by_slug (cs_slug i) s' = Some ?v"
      "\<forall>n. n \<noteq> cs_slug i \<longrightarrow> service_by_slug n s' = service_by_slug n s"
      "(categories s', service_areas s') = (categories s, service_areas s)" by auto
    with None c show ?thesis by (auto simp: seed_core_service_def core_seeded_def)
  qed
qed

text \<open>The data is sound: every row has a known category and an advance within its price, and no slug twice.\<close>

lemma seed_services_sound:
  "list_all (sound_seed [(''home-appliances-repair'', a), (''cleaning'', b), (''home-maintenance'', c)]) seed_services"
  by (simp add: seed_services_def seed_services_1_def seed_services_2_def seed_services_3_def seed_services_4_def
      seed_services_5_def seed_services_6_def seed_row_def sound_seed_def)

lemma core_services_sound:
  "list_all (sound_core [(''ac-services'', a), (''washing-machine-services'', b), (''refrigerator-services'', c)])
     core_services"
  by (simp add: core_services_def core_row_def sound_core_def)

lemma seed_slugs_distinct: "distinct (map ss_slug seed_services)"
  by code_simp

lemma core_slugs_distinct: "distinct (map cs_slug core_services)"
  by code_simp


section \<open>Lemmas: the whole command\<close>

lemma list_all2_left: "list_all2 P xs ys \<Longrightarrow> x \<in> set xs \<Longrightarrow> \<exists>y\<in>set ys. P x y"
  by (induction rule: list_all2_induct) auto

lemma list_all2_right: "list_all2 P xs ys \<Longrightarrow> y \<in> set ys \<Longrightarrow> \<exists>x\<in>set xs. P x y"
  by (induction rule: list_all2_induct) auto

lemma find_row_map:
  "(\<And>r. name (f r) = name r) \<Longrightarrow> find_row name x (map f rows) = map_option f (find_row name x rows)"
  by (induction rows) auto

lemma keyed_map:
  assumes "\<And>r. number (f r) = number r" and "\<And>r. name (f r) = name r" and "keyed number name n rows"
  shows "keyed number name n (map f rows)"
proof -
  have "map number (map f rows) = map number rows" "map name (map f rows) = map name rows"
    using assms(1,2) by simp_all
  then show ?thesis using assms by (simp add: keyed_def unique_rows_def list_all_iff del: map_map)
qed

lemma sound_service_active [simp]: "sound_service (v\<lparr>sv_active := b\<rparr>) = sound_service v"
  by (auto simp: sound_service_def effective_price_def split: option.splits)

definition kept_slug :: "string \<Rightarrow> bool" where
  "kept_slug x = (x \<in> ss_slug ` set seed_services \<or> x \<in> cs_slug ` set core_services)"

lemma retire_services_ok:
  assumes "seeds_ok s"
  shows "seeds_ok (retire_services s) \<and>
         (\<forall>x. kept_slug x \<longrightarrow> service_by_slug x (retire_services s) = service_by_slug x s)"
proof -
  let ?f = "\<lambda>v. if sv_slug v \<in> set retired_services \<and> \<not> kept_slug (sv_slug v) then v\<lparr>sv_active := False\<rparr> else v"
  have f: "retire_services s = s\<lparr>services := map ?f (services s)\<rparr>"
    by (simp add: retire_services_def kept_slug_def)
  have "keyed sv_id sv_slug (next_id s) (map ?f (services s))"
    using assms by (intro keyed_map) (auto simp: seeds_ok_def)
  moreover have "list_all sound_service (map ?f (services s))"
    using assms by (auto simp: seeds_ok_def list_all_iff)
  moreover have "service_by_slug x (retire_services s) = service_by_slug x s" if "kept_slug x" for x
  proof -
    have "service_by_slug x (retire_services s) = map_option ?f (service_by_slug x s)"
      unfolding f service_by_slug_def by (simp add: find_row_map)
    then show ?thesis
      using that find_row_SomeD [of sv_slug x "services s"]
      by (cases "service_by_slug x s") (auto simp: service_by_slug_def)
  qed
  ultimately show ?thesis using assms unfolding f by (simp add: seeds_ok_def)
qed

lemma retire_categories_ok:
  assumes "seeds_ok s"
  shows "seeds_ok (retire_categories s) \<and> services (retire_categories s) = services s \<and>
         service_areas (retire_categories s) = service_areas s"
proof -
  let ?f = "\<lambda>c. if ca_slug c \<in> set retired_categories \<and> ca_slug c \<notin> set (map fst category_data)
                 then c\<lparr>ca_active := False\<rparr> else c"
  have "keyed ca_id ca_slug (next_id s) (map ?f (categories s))"
    using assms by (intro keyed_map) (auto simp: seeds_ok_def)
  then show ?thesis using assms by (simp add: seeds_ok_def retire_categories_def)
qed

lemma offer_services_ok:
  assumes "seeds_ok s"
  shows "seeds_ok (s\<lparr>service_areas := map (offer_services ids) (service_areas s)\<rparr>)"
proof -
  have "keyed ar_id area_place (next_id s) (map (offer_services ids) (service_areas s))"
    using assms by (intro keyed_map) (auto simp: seeds_ok_def offer_services_def area_place_def)
  moreover have "list_all (\<lambda>a. normalize_postal_code (ar_postal_code a) = ar_postal_code a)
      (map (offer_services ids) (service_areas s))"
    using assms by (auto simp: seeds_ok_def list_all_iff offer_services_def)
  ultimately show ?thesis using assms by (simp add: seeds_ok_def)
qed

text \<open>
  The command runs to its end. \<open>core\<close> are the core services; a service of the first list has its prices,
  and its advance's type and value are those it had.
\<close>

definition seeded_as :: "seed_service \<Rightarrow> service option \<Rightarrow> service \<Rightarrow> bool" where
  "seeded_as r old v =
     (sv_active v \<and> sv_base_price v = ss_base r \<and> sv_selling_price v = ss_selling r \<and>
      sv_advance_amount v = ss_advance r \<and>
      sv_advance_type v = (case old of Some w \<Rightarrow> sv_advance_type w | None \<Rightarrow> FIXED) \<and>
      sv_advance_value v = (case old of Some w \<Rightarrow> sv_advance_value w | None \<Rightarrow> None))"

lemma seeded_as_core: "seeded_as r old v \<Longrightarrow> seeded_as r old (updated_core_service c i v)"
  by (simp add: seeded_as_def updated_core_service_def)

lemma seed_catalogue_runs:
  assumes "seeds_ok s"
  obtains s' core where "seed_catalogue s = (Inr (), s')" "seeds_ok s'"
    "\<forall>r\<in>set seed_services.
       \<exists>v. service_by_slug (ss_slug r) s' = Some v \<and> seeded_as r (service_by_slug (ss_slug r) s) v"
    "list_all2 (\<lambda>r v. service_by_slug (cs_slug r) s' = Some v \<and> sv_active v \<and> sv_name v = cs_name r)
       core_services core"
    "service_areas s' = map (offer_services (map sv_id core)) (service_areas s)"
proof -
  have cd: "distinct (map fst category_data)" "distinct (map fst core_category_data)"
    by (simp_all add: category_data_def core_category_data_def)
  obtain ids s1 where s1: "each seed_category category_data s = (Inr ids, s1)" "seeds_ok s1"
      "(services s1, service_areas s1) = (services s, service_areas s)" "length ids = 3"
    using category_seeding.each_ok [OF assms _ cd(1)]
    by (auto simp: list_all_iff category_data_def dest!: list_all2_lengthD)
  let ?cats = "zip (map fst category_data) ids"
  obtain a b c where "ids = [a, b, c]" using s1(4) by (auto simp: numeral_3_eq_3 length_Suc_conv)
  then have good: "list_all (sound_seed ?cats) seed_services"
    using seed_services_sound [of a b c] by (simp add: category_data_def)
  obtain vs s2 where s2: "each (seed_service_row ?cats) seed_services s1 = (Inr vs, s2)" "seeds_ok s2"
      "(categories s2, service_areas s2) = (categories s1, service_areas s1)"
      "list_all2 (\<lambda>r v. \<exists>w. service_by_slug (ss_slug r) s2 = Some w \<and>
         service_seeded ?cats r (service_by_slug (ss_slug r) s1) v w) seed_services vs"
    using service_seeding.each_ok [OF s1(2) good seed_slugs_distinct] by blast
  obtain core_ids s3 where s3: "each seed_category core_category_data s2 = (Inr core_ids, s3)" "seeds_ok s3"
      "(services s3, service_areas s3) = (services s2, service_areas s2)" "length core_ids = 3"
    using category_seeding.each_ok [OF s2(2) _ cd(2)]
    by (auto simp: list_all_iff core_category_data_def dest!: list_all2_lengthD)
  let ?core_cats = "zip (map fst core_category_data) core_ids"
  obtain a2 b2 c2 where "core_ids = [a2, b2, c2]" using s3(4) by (auto simp: numeral_3_eq_3 length_Suc_conv)
  then have good2: "list_all (sound_core ?core_cats) core_services"
    using core_services_sound [of a2 b2 c2] by (simp add: core_category_data_def)
  obtain core s4 where s4: "each (seed_core_service ?core_cats) core_services s3 = (Inr core, s4)" "seeds_ok s4"
      "(categories s4, service_areas s4) = (categories s3, service_areas s3)"
      "list_all2 (\<lambda>r v. \<exists>w. service_by_slug (cs_slug r) s4 = Some w \<and>
         core_seeded ?core_cats r (service_by_slug (cs_slug r) s3) v w) core_services core"
      "\<And>n. n \<notin> cs_slug ` set core_services \<Longrightarrow> service_by_slug n s4 = service_by_slug n s3"
    using core_seeding.each_ok [OF s3(2) good2 core_slugs_distinct] by blast
  let ?s5 = "s4\<lparr>service_areas := map (offer_services (map sv_id core)) (service_areas s4)\<rparr>"
  let ?s' = "retire_categories (retire_services ?s5)"
  have run: "seed_catalogue s = (Inr (), ?s')" using s1(1) s2(1) s3(1) s4(1) by (simp add: seed_catalogue_def)
  have s5: "seeds_ok ?s5" by (rule offer_services_ok [OF s4(2)])
  from retire_services_ok [OF s5] have s6: "seeds_ok (retire_services ?s5)"
    "\<And>x. kept_slug x \<Longrightarrow> service_by_slug x (retire_services ?s5) = service_by_slug x s4"
    by (auto simp: service_by_slug_def)
  from retire_categories_ok [OF s6(1)] have s': "seeds_ok ?s'"
    "\<And>x. kept_slug x \<Longrightarrow> service_by_slug x ?s' = service_by_slug x s4"
    and areas: "service_areas ?s' = service_areas (retire_services ?s5)"
    using s6(2) by (auto simp: service_by_slug_def)
  have "service_areas s4 = service_areas s" using s1(3) s2(3) s3(3) s4(3) by simp
  then have areas': "service_areas ?s' = map (offer_services (map sv_id core)) (service_areas s)"
    using areas by (simp add: retire_services_def)
  have old: "service_by_slug x s1 = service_by_slug x s" "service_by_slug x s3 = service_by_slug x s2" for x
    using s1(3) s3(3) by (simp_all add: service_by_slug_def)
  have seeded: "\<exists>v. service_by_slug (ss_slug r) ?s' = Some v \<and> seeded_as r (service_by_slug (ss_slug r) s) v"
    if r: "r \<in> set seed_services" for r
  proof -
    obtain c k where "service_by_slug (ss_slug r) s2 =
        Some (seeded_service c r (case service_by_slug (ss_slug r) s of Some w \<Rightarrow> w | None \<Rightarrow> blank_service k))"
      using list_all2_left [OF s2(4) r] by (auto simp: service_seeded_def old)
    then obtain v where v: "service_by_slug (ss_slug r) s2 = Some v" "seeded_as r (service_by_slug (ss_slug r) s) v"
      by (cases "service_by_slug (ss_slug r) s") (auto simp: seeded_as_def blank_service_def)
    have "\<exists>v. service_by_slug (ss_slug r) s4 = Some v \<and> seeded_as r (service_by_slug (ss_slug r) s) v"
    proof (cases "ss_slug r \<in> cs_slug ` set core_services")
      case True
      then obtain i where i: "i \<in> set core_services" "ss_slug r = cs_slug i" by auto
      from list_all2_left [OF s4(4) i(1)] v show ?thesis
        by (auto simp: core_seeded_def old i(2) [symmetric] intro: seeded_as_core)
    next
      case False
      then show ?thesis using s4(5) v old by simp
    qed
    then show ?thesis using s'(2) r by (simp add: kept_slug_def)
  qed
  have "list_all2 (\<lambda>r v. service_by_slug (cs_slug r) ?s' = Some v \<and> sv_active v \<and> sv_name v = cs_name r)
      core_services core"
    using s4(4)
  proof (rule list.rel_mono_strong)
    fix r v
    assume "r \<in> set core_services" and "\<exists>w. service_by_slug (cs_slug r) s4 = Some w \<and>
         core_seeded ?core_cats r (service_by_slug (cs_slug r) s3) v w"
    then show "service_by_slug (cs_slug r) ?s' = Some v \<and> sv_active v \<and> sv_name v = cs_name r"
      using s'(2) [of "cs_slug r"]
      by (auto simp: kept_slug_def core_seeded_def updated_core_service_def new_core_service_def split: option.splits)
  qed
  then show ?thesis using that run s'(1) seeded areas' by blast
qed


section \<open>Lemmas: the areas\<close>

lemma area_at_place: "area_at p s = find_row area_place p (service_areas s)"
  unfolding area_at_def area_place_def ..

lemma save_area_free:
  assumes "normalize_postal_code (ar_postal_code a) = ar_postal_code a"
    and "\<not> list_ex (\<lambda>b. area_place b = area_place a \<and> ar_id b \<noteq> ar_id a) (service_areas s)"
  shows "save_area a s = Inr (a, s\<lparr>service_areas := (if get_area (ar_id a) s = None then service_areas s @ [a]
                                                       else save_row ar_id a (service_areas s))\<rparr>)"
proof -
  have "a\<lparr>ar_postal_code := normalize_postal_code (ar_postal_code a)\<rparr> = a" using assms(1) by (cases a) simp
  then show ?thesis using assms(2) by (simp add: save_area_def Let_def area_place_def)
qed

definition launch_place :: "launch_area \<Rightarrow> string \<times> string" where
  "launch_place r = (''India'', lc_postal_code r)"

definition area_seeded :: "launch_area \<Rightarrow> service_area option \<Rightarrow> service_area \<Rightarrow> service_area \<Rightarrow> bool" where
  "area_seeded r old a b =
     (a = b \<and> ar_active b \<and> ar_name b = lc_name r \<and> ar_city b = lc_city r \<and> ar_state b = lc_state r \<and>
      ar_services b = (case old of Some x \<Rightarrow> ar_services x | None \<Rightarrow> []))"

interpretation area_seeding:
  natural_upsert area_at launch_place seed_area seeds_ok
    "\<lambda>r :: launch_area. normalize_postal_code (lc_postal_code r) = lc_postal_code r" area_seeded "\<lambda>s. (services s, categories s)"
proof
  fix s :: "'a locations_db_scheme" and i :: launch_area
  assume ok: "seeds_ok s" and good: "normalize_postal_code (lc_postal_code i) = lc_postal_code i"
  let ?p = "launch_place i"
  have keyed: "keyed ar_id area_place (next_id s) (service_areas s)" using ok by (simp add: seeds_ok_def)
  show "\<exists>a s' r. seed_area i s = Inr (a, s') \<and> seeds_ok s' \<and> area_at ?p s' = Some r \<and>
      area_seeded i (area_at ?p s) a r \<and> (\<forall>n. n \<noteq> ?p \<longrightarrow> area_at n s' = area_at n s) \<and>
      (services s', categories s') = (services s, categories s)"
  proof (cases "area_at ?p s")
    case (Some a)
    let ?a = "a\<lparr>ar_name := lc_name i, ar_city := lc_city i, ar_state := lc_state i, ar_active := True\<rparr>"
    let ?s = "s\<lparr>service_areas := save_row ar_id ?a (service_areas s)\<rparr>"
    have a: "a \<in> set (service_areas s)" "area_place a = ?p"
      using find_row_SomeD [OF Some [unfolded area_at_place]] by auto
    have same: "normalize_postal_code (ar_postal_code a) = ar_postal_code a"
      using ok a(1) by (auto simp: seeds_ok_def list_all_iff)
    have place: "area_place ?a = ?p" using a(2) by (simp add: area_place_def)
    have "ar_id b = ar_id a" if "b \<in> set (service_areas s)" "area_place b = area_place a" for b
    proof -
      have "find_row area_place (area_place a) (service_areas s) = Some b"
        using that keyed find_row_unique [of area_place "service_areas s" b] by (simp add: keyed_def)
      then show ?thesis using find_row_unique [of area_place "service_areas s" a] a(1) keyed by (simp add: keyed_def)
    qed
    then have "\<not> list_ex (\<lambda>b. area_place b = area_place ?a \<and> ar_id b \<noteq> ar_id ?a) (service_areas s)"
      using place a(2) by (auto simp: list_ex_iff)
    moreover have "get_area (ar_id ?a) s \<noteq> None" using a(1) by (auto simp: get_area_def find_row_None_iff)
    ultimately have "save_area ?a s = Inr (?a, ?s)" using save_area_free [of ?a s] same by auto
    then have "seed_area i s = Inr (?a, ?s)" using Some by (simp add: seed_area_def launch_place_def)
    moreover from keyed_save [OF keyed Some [unfolded area_at_place] _ place]
    have rows: "keyed ar_id area_place (next_id s) (service_areas ?s)" "area_at ?p ?s = Some ?a"
      "\<And>n. n \<noteq> ?p \<Longrightarrow> area_at n ?s = area_at n s"
      by (simp_all add: area_at_place del: split_paired_All)
    moreover have "seeds_ok ?s"
      using ok rows(1) same by (auto simp: seeds_ok_def list_all_iff in_set_save_row)
    ultimately show ?thesis using Some by (auto simp: area_seeded_def)
  next
    case None
    let ?a = "\<lparr>ar_id = new_id s, ar_name = lc_name i, ar_city = lc_city i, ar_state = lc_state i,
               ar_country = ''India'', ar_postal_code = lc_postal_code i, ar_services = [],
               ar_services_configured = False, ar_active = True\<rparr>"
    let ?s = "(bump_id s)\<lparr>service_areas := service_areas s @ [?a]\<rparr>"
    have place: "area_place ?a = ?p" by (simp add: area_place_def launch_place_def)
    have "\<not> list_ex (\<lambda>b. area_place b = area_place ?a \<and> ar_id b \<noteq> ar_id ?a) (service_areas (bump_id s))"
      using None place by (auto simp: area_at_place find_row_None_iff list_ex_iff bump_id_def image_iff)
    moreover have "get_area (ar_id ?a) (bump_id s) = None"
      using keyed by (auto simp: get_area_def find_row_None_iff keyed_def list_all_iff new_id_def bump_id_def)
    ultimately have "save_area ?a (bump_id s) = Inr (?a, ?s)"
      using save_area_free [of ?a "bump_id s"] good by (simp add: bump_id_def)
    then have "seed_area i s = Inr (?a, ?s)" using None by (simp add: seed_area_def launch_place_def)
    moreover from keyed_insert [OF keyed None [unfolded area_at_place], of ?a] place
    have rows: "keyed ar_id area_place (next_id ?s) (service_areas ?s)" "area_at ?p ?s = Some ?a"
      "\<And>n. n \<noteq> ?p \<Longrightarrow> area_at n ?s = area_at n s"
      by (simp_all add: area_at_place new_id_def bump_id_def del: split_paired_All)
    moreover have "seeds_ok ?s" using seeds_ok_bump [OF ok] rows(1) good by (simp add: seeds_ok_def bump_id_def)
    moreover have "services ?s = services s" "categories ?s = categories s" by (simp_all add: bump_id_def)
    ultimately show ?thesis using None by (auto simp: area_seeded_def)
  qed
qed

lemma launch_codes_normal:
  "list_all (\<lambda>r. normalize_postal_code (lc_postal_code r) = lc_postal_code r) launch_service_areas"
  by code_simp

lemma launch_places_distinct: "distinct (map launch_place launch_service_areas)"
  by code_simp


section \<open>Properties\<close>

text \<open>C37: Loading the catalogue never stops half-way: from a sound price list it runs to its end and leaves a
  sound one, in which every service of the data is active with the prices of the data, whatever an
  administrator had set, and every core service is active under its name.\<close>

theorem seeding_fills_the_catalogue:
  assumes "seeds_ok s"
  shows "\<exists>s'. seed_catalogue s = (Inr (), s') \<and> seeds_ok s' \<and>
           (\<forall>r\<in>set seed_services. \<exists>v. service_by_slug (ss_slug r) s' = Some v \<and> sv_active v \<and>
              sv_base_price v = ss_base r \<and> sv_selling_price v = ss_selling r \<and> sv_advance_amount v = ss_advance r) \<and>
           (\<forall>r\<in>set core_services. \<exists>v. service_by_slug (cs_slug r) s' = Some v \<and> sv_active v \<and> sv_name v = cs_name r)"
proof -
  obtain s' core where s': "seed_catalogue s = (Inr (), s')" "seeds_ok s'"
    "\<forall>r\<in>set seed_services.
       \<exists>v. service_by_slug (ss_slug r) s' = Some v \<and> seeded_as r (service_by_slug (ss_slug r) s) v"
    "list_all2 (\<lambda>r v. service_by_slug (cs_slug r) s' = Some v \<and> sv_active v \<and> sv_name v = cs_name r)
       core_services core"
    "service_areas s' = map (offer_services (map sv_id core)) (service_areas s)"
    by (rule seed_catalogue_runs [OF assms]) (rule that)
  have "\<exists>v. service_by_slug (ss_slug r) s' = Some v \<and> sv_active v \<and> sv_base_price v = ss_base r \<and>
           sv_selling_price v = ss_selling r \<and> sv_advance_amount v = ss_advance r" if "r \<in> set seed_services" for r
    using s'(3) that by (auto simp: seeded_as_def)
  moreover have "\<exists>v. service_by_slug (cs_slug r) s' = Some v \<and> sv_active v \<and> sv_name v = cs_name r"
    if "r \<in> set core_services" for r
    using list_all2_left [OF s'(4) that] by blast
  ultimately show ?thesis using s'(1,2) by blast
qed

theorem seeding_fills_the_catalogue_witness:
  "\<exists>s'. seed_catalogue sample_locations_db = (Inr (), s') \<and>
        map_option sv_base_price (service_by_slug ''geyser-repair-services'' s') = Some 59900"
proof -
  have ok: "seeds_ok sample_locations_db" by code_simp
  let ?r = "seed_row ''home-appliances-repair'' ''Geyser Repair & Services'' ''geyser-repair-services''
              59900 (Some 44900) 14900 60 False False 5"
  have "?r \<in> set seed_services" by (simp add: seed_services_def seed_services_1_def)
  moreover have "ss_slug ?r = ''geyser-repair-services''" "ss_base ?r = 59900" by (simp_all add: seed_row_def)
  ultimately show ?thesis using seeding_fills_the_catalogue [OF ok] by fastforce
qed

text \<open>The command breaks what the administration keeps: a service whose advance is a percentage keeps its
  type and percentage but is given the data's fixed amount as its advance.\<close>

theorem seeding_desynchronises_advance:
  assumes "seeds_ok s" and "r \<in> set seed_services" and "service_by_slug (ss_slug r) s = Some w"
    and "sv_advance_type w = PERCENTAGE" and "sv_advance_value w = Some x"
  shows "\<exists>v. service_by_slug (ss_slug r) (snd (seed_catalogue s)) = Some v \<and> sv_advance_type v = PERCENTAGE \<and>
             sv_advance_value v = Some x \<and> sv_advance_amount v = ss_advance r"
proof -
  obtain s' core where s': "seed_catalogue s = (Inr (), s')" "seeds_ok s'"
    "\<forall>r\<in>set seed_services.
       \<exists>v. service_by_slug (ss_slug r) s' = Some v \<and> seeded_as r (service_by_slug (ss_slug r) s) v"
    "list_all2 (\<lambda>r v. service_by_slug (cs_slug r) s' = Some v \<and> sv_active v \<and> sv_name v = cs_name r)
       core_services core"
    "service_areas s' = map (offer_services (map sv_id core)) (service_areas s)"
    by (rule seed_catalogue_runs [OF assms(1)]) (rule that)
  from bspec [OF s'(3) assms(2)] assms s'(1) show ?thesis by (auto simp: seeded_as_def)
qed

definition percent_db :: locations_db where
  "percent_db = sample_locations_db\<lparr>services := [sample_service\<lparr>sv_slug := ''geyser-repair-services''\<rparr>]\<rparr>"

theorem seeding_desynchronises_advance_witness:
  "\<exists>v. service_by_slug ''geyser-repair-services'' (snd (seed_catalogue percent_db)) = Some v \<and>
       sv_advance_value v = Some 2000 \<and> sv_advance_amount v = 14900 \<and> percent_of 44900 2000 = 8980"
proof -
  let ?r = "seed_row ''home-appliances-repair'' ''Geyser Repair & Services'' ''geyser-repair-services''
              59900 (Some 44900) 14900 60 False False 5"
  have ok: "seeds_ok percent_db" by code_simp
  have r: "?r \<in> set seed_services" by (simp add: seed_services_def seed_services_1_def)
  have old: "service_by_slug (ss_slug ?r) percent_db = Some (sample_service\<lparr>sv_slug := ''geyser-repair-services''\<rparr>)"
    by code_simp
  from seeding_desynchronises_advance [OF ok r old, of 2000] show ?thesis
    by (auto simp: seed_row_def sample_service_def percent_of_def half_even_def)
qed

text \<open>After both commands on areas without services the search by city finds the core services only: the
  other launch services are active, and no area's list has them.\<close>

theorem city_search_shows_core_services:
  assumes "seeds_ok s" and "\<forall>a\<in>set (service_areas s). ar_services a = []" and "strip_str city \<noteq> ''''"
    and "v \<in> set (list_services (city_query city) (snd (seed_catalogue s)))"
  shows "sv_slug v \<in> cs_slug ` set core_services"
proof -
  obtain s' core where s': "seed_catalogue s = (Inr (), s')" "seeds_ok s'"
    "\<forall>r\<in>set seed_services.
       \<exists>v. service_by_slug (ss_slug r) s' = Some v \<and> seeded_as r (service_by_slug (ss_slug r) s) v"
    "list_all2 (\<lambda>r v. service_by_slug (cs_slug r) s' = Some v \<and> sv_active v \<and> sv_name v = cs_name r)
       core_services core"
    "service_areas s' = map (offer_services (map sv_id core)) (service_areas s)"
    by (rule seed_catalogue_runs [OF assms(1)]) (rule that)
  have v: "v \<in> set (services s')" and "offered_in_city (strip_str city) s' v"
    using assms(3,4) s'(1) by (auto simp: list_services_def city_query_def matches_query_def Let_def)
  then obtain a where "a \<in> set (service_areas s')" "sv_id v \<in> set (ar_services a)"
    by (auto simp: offered_in_city_def list_ex_iff)
  then have "sv_id v \<in> sv_id ` set core"
    using assms(2) s'(5) by (auto simp: offer_services_def split: if_splits)
  then obtain w where w: "w \<in> set core" "sv_id w = sv_id v" by auto
  from list_all2_right [OF s'(4) w(1)] obtain r where
    r: "r \<in> set core_services" "service_by_slug (cs_slug r) s' = Some w" by auto
  have w': "w \<in> set (services s')" "sv_slug w = cs_slug r"
    using find_row_SomeD [OF r(2) [unfolded service_by_slug_def]] by auto
  have unique: "unique_rows sv_id (services s')" using s'(2) by (simp add: seeds_ok_def keyed_def)
  have "find_row sv_id (sv_id v) (services s') = Some w"
    using find_row_unique [OF unique w'(1)] unfolding w(2) .
  with find_row_unique [OF unique v] have "w = v" by simp
  then show ?thesis using r(1) w'(2) by auto
qed

theorem city_search_shows_core_services_witness:
  "\<forall>v\<in>set (list_services (city_query ''Chennai'')
        (snd (seed_catalogue (sample_locations_db\<lparr>service_areas := [sample_area\<lparr>ar_services := []\<rparr>]\<rparr>)))).
      sv_slug v \<noteq> ''geyser-repair-services''"
proof
  let ?s = "sample_locations_db\<lparr>service_areas := [sample_area\<lparr>ar_services := []\<rparr>]\<rparr>"
  have ok: "seeds_ok ?s" "strip_str ''Chennai'' \<noteq> ''''" by code_simp+
  fix v
  assume "v \<in> set (list_services (city_query ''Chennai'') (snd (seed_catalogue ?s)))"
  from city_search_shows_core_services [OF ok(1) _ ok(2) this]
  show "sv_slug v \<noteq> ''geyser-repair-services''" by (auto simp: core_services_def core_row_def)
qed

text \<open>Loading the areas makes each launch area exist once, active and in its city. Without the option to
  keep the others, no other area stays active; with it, every other area is what it was.\<close>

theorem launch_areas_are_seeded:
  assumes "seeds_ok s"
  shows "\<exists>as s'. seed_service_areas keep s = (Inr as, s') \<and> seeds_ok s' \<and>
           (\<forall>r\<in>set launch_service_areas. \<exists>a. area_at (launch_place r) s' = Some a \<and> ar_active a \<and> ar_city a = lc_city r) \<and>
           (\<not> keep \<longrightarrow> (\<forall>a\<in>set (service_areas s'). ar_active a \<longrightarrow>
              ar_postal_code a \<in> lc_postal_code ` set launch_service_areas)) \<and>
           (keep \<longrightarrow> (\<forall>p. p \<notin> launch_place ` set launch_service_areas \<longrightarrow> area_at p s' = area_at p s))"
proof -
  let ?codes = "lc_postal_code ` set launch_service_areas"
  let ?f = "\<lambda>a. if ar_postal_code a \<in> ?codes then a else a\<lparr>ar_active := False\<rparr>"
  define s1 where "s1 = (if keep then s else s\<lparr>service_areas := map ?f (service_areas s)\<rparr>)"
  have run: "seed_service_areas keep s = each seed_area launch_service_areas s1"
    by (simp add: seed_service_areas_def s1_def)
  have "keyed ar_id area_place (next_id s) (map ?f (service_areas s))"
    using assms by (intro keyed_map) (auto simp: seeds_ok_def area_place_def)
  then have ok: "seeds_ok s1" using assms by (auto simp: s1_def seeds_ok_def list_all_iff)
  obtain as s' where s': "each seed_area launch_service_areas s1 = (Inr as, s')" "seeds_ok s'"
    "list_all2 (\<lambda>i a. \<exists>r. area_at (launch_place i) s' = Some r \<and> area_seeded i (area_at (launch_place i) s1) a r)
       launch_service_areas as"
    "\<And>n. n \<notin> launch_place ` set launch_service_areas \<Longrightarrow> area_at n s' = area_at n s1"
    using area_seeding.each_ok [OF ok launch_codes_normal launch_places_distinct] by blast
  have seeded: "\<exists>a. area_at (launch_place r) s' = Some a \<and> ar_active a \<and> ar_city a = lc_city r"
    if "r \<in> set launch_service_areas" for r
    using list_all2_left [OF s'(3) that] by (auto simp: area_seeded_def)
  have "ar_postal_code a \<in> ?codes" if "\<not> keep" "a \<in> set (service_areas s')" "ar_active a" for a
  proof (cases "area_place a \<in> launch_place ` set launch_service_areas")
    case True
    then show ?thesis by (auto simp: area_place_def launch_place_def)
  next
    case False
    have "area_at (area_place a) s' = Some a"
      using that(2) s'(2) find_row_unique [of area_place "service_areas s'" a]
      by (simp add: area_at_place seeds_ok_def keyed_def)
    then have "a \<in> set (service_areas s1)"
      using s'(4) [OF False] find_row_SomeD [of area_place "area_place a" "service_areas s1" a]
      by (simp add: area_at_place)
    then show ?thesis using that(1,3) by (auto simp: s1_def split: if_splits)
  qed
  moreover have "area_at p s' = area_at p s" if "keep" "p \<notin> launch_place ` set launch_service_areas" for p
    using s'(4) [OF that(2)] that(1) by (simp add: s1_def)
  ultimately show ?thesis using run s'(1,2) seeded by auto
qed

theorem launch_areas_are_seeded_witness:
  "\<exists>as s'. seed_service_areas False sample_locations_db = (Inr as, s') \<and>
     (\<forall>a\<in>set (service_areas s'). ar_active a \<longrightarrow> ar_postal_code a \<noteq> ''411001'')"
proof -
  have ok: "seeds_ok sample_locations_db" by code_simp
  have "list_all (\<lambda>r. lc_postal_code r \<noteq> ''411001'') launch_service_areas" by code_simp
  then have "''411001'' \<notin> lc_postal_code ` set launch_service_areas" by (auto simp: list_all_iff)
  moreover obtain as s' where "seed_service_areas False sample_locations_db = (Inr as, s')"
    "\<forall>a\<in>set (service_areas s'). ar_active a \<longrightarrow> ar_postal_code a \<in> lc_postal_code ` set launch_service_areas"
    using launch_areas_are_seeded [OF ok, of False] by blast
  ultimately show ?thesis by metis
qed

end
