(* ===== verification/Admin_Site.thy ===== *)
theory Admin_Site
  imports Admin_Lists Seeds
begin

text \<open>
  The code the application adds to the framework's administration pages (the \<open>admin.py\<close> files): what is
  done when a lead, a banner, a question, a technician, a leave or a service is saved, the actions on selected
  rows, and the operations board on the index page. The page validates the form and then calls \<open>save_model\<close>
  within one transaction; an action on the list runs outside of one. What the forms show is the framework's.
\<close>

section \<open>Leads\<close>

text \<open>\<open>LeadAdmin.save_model\<close>; \<open>obj\<close> is the row as the form leaves it, \<open>change\<close> tells an edit from a new row.\<close>

definition save_lead_model ::
  "timestamp \<Rightarrow> nat \<Rightarrow> request option \<Rightarrow> lead \<Rightarrow> bool \<Rightarrow> 'x leads_db_scheme \<Rightarrow> error + (lead \<times> 'x leads_db_scheme)" where
  "save_lead_model now me rq obj change s =
     (let previous = (if change then map_option l_status (get_lead (l_id obj) s) else None);
          obj1 = (if change then obj
                  else obj\<lparr>l_id := new_id s,
                           l_created_by := Some (case l_created_by obj of None \<Rightarrow> me | Some u \<Rightarrow> u)\<rparr>)
      in case save_lead now obj1 (if change then s else bump_id s) of
           Inl e \<Rightarrow> Inl e
         | Inr (l, s1) \<Rightarrow>
             if \<not> change
             then Inr (l, audit_event AA_LEAD_CREATED ''lead'' (nat_str (l_id l)) (Some me) rq
                            (JObj [(''source'', JStr (source_str (l_source l))),
                                   (''status'', JStr (lead_status_str (l_status l)))])
                            (write_lead_history (l_id l) None (l_status l) (Some me) ''Lead created.'' s1))
             else case previous of
               None \<Rightarrow> Inr (l, audit_event AA_LEAD_UPDATED ''lead'' (nat_str (l_id l)) (Some me) rq
                                (JObj [(''status'', JStr (lead_status_str (l_status l)))]) s1)
             | Some old \<Rightarrow>
                 if old = l_status l
                 then Inr (l, audit_event AA_LEAD_UPDATED ''lead'' (nat_str (l_id l)) (Some me) rq
                                (JObj [(''status'', JStr (lead_status_str (l_status l)))]) s1)
                 else Inr (l, audit_event
                                (if l_status l = LS_CONVERTED then AA_LEAD_CONVERTED else AA_LEAD_STATUS_CHANGED)
                                ''lead'' (nat_str (l_id l)) (Some me) rq
                                (JObj [(''status'', JStr (lead_status_str (l_status l))),
                                       (''from_status'', JStr (lead_status_str old))])
                                (write_lead_history (l_id l) (Some old) (l_status l) (Some me)
                                   (l_internal_notes l) s1)))"

text \<open>
  \<open>_bulk_status\<close>: one lead of the loop, and the loop over the selected leads that are not in the status yet.
  \<open>picked\<close> is the queryset of the action: the filter of the page and the rows that were ticked.
\<close>

definition mark_lead ::
  "timestamp \<Rightarrow> lead_status \<Rightarrow> string \<Rightarrow> nat \<Rightarrow> request option \<Rightarrow> lead \<Rightarrow> 'x leads_db_scheme \<Rightarrow>
     error + (lead \<times> 'x leads_db_scheme)" where
  "mark_lead now status label me rq l s =
     (case save_lead now (l\<lparr>l_status := status\<rparr>) s of
        Inl e \<Rightarrow> Inl e
      | Inr (l2, s1) \<Rightarrow>
          Inr (l2, audit_event AA_LEAD_STATUS_CHANGED ''lead'' (nat_str (l_id l2)) (Some me) rq
                     (JObj [(''from_status'', JStr (lead_status_str (l_status l))),
                            (''status'', JStr (lead_status_str status))])
                     (write_lead_history (l_id l2) (Some (l_status l)) status (Some me)
                        (''Marked '' @ label @ '' from admin list.'') s1)))"

definition to_mark :: "lead_status \<Rightarrow> (lead \<Rightarrow> bool) \<Rightarrow> 'x leads_db_scheme \<Rightarrow> lead list" where
  "to_mark status picked s = filter (\<lambda>l. picked l \<and> l_status l \<noteq> status) (leads s)"

definition bulk_status ::
  "timestamp \<Rightarrow> lead_status \<Rightarrow> string \<Rightarrow> nat \<Rightarrow> request option \<Rightarrow> (lead \<Rightarrow> bool) \<Rightarrow> 'x leads_db_scheme \<Rightarrow>
     (error + string) \<times> 'x leads_db_scheme" where
  "bulk_status now status label me rq picked s =
     (case each (mark_lead now status label me rq) (to_mark status picked s) s of
        (Inl e, s1) \<Rightarrow> (Inl e, s1)
      | (Inr ls, s1) \<Rightarrow> (Inr (nat_str (length ls) @ '' leads marked '' @ label @ ''.''), s1))"

definition mark_contacted ::
  "timestamp \<Rightarrow> nat \<Rightarrow> request option \<Rightarrow> (lead \<Rightarrow> bool) \<Rightarrow> 'x leads_db_scheme \<Rightarrow> (error + string) \<times> 'x leads_db_scheme" where
  "mark_contacted now = bulk_status now LS_CONTACTED ''contacted''"

definition mark_interested ::
  "timestamp \<Rightarrow> nat \<Rightarrow> request option \<Rightarrow> (lead \<Rightarrow> bool) \<Rightarrow> 'x leads_db_scheme \<Rightarrow> (error + string) \<times> 'x leads_db_scheme" where
  "mark_interested now = bulk_status now LS_INTERESTED ''interested''"

definition mark_follow_up ::
  "timestamp \<Rightarrow> nat \<Rightarrow> request option \<Rightarrow> (lead \<Rightarrow> bool) \<Rightarrow> 'x leads_db_scheme \<Rightarrow> (error + string) \<times> 'x leads_db_scheme" where
  "mark_follow_up now = bulk_status now LS_FOLLOW_UP ''follow-up''"

definition mark_lost ::
  "timestamp \<Rightarrow> nat \<Rightarrow> request option \<Rightarrow> (lead \<Rightarrow> bool) \<Rightarrow> 'x leads_db_scheme \<Rightarrow> (error + string) \<times> 'x leads_db_scheme" where
  "mark_lost now = bulk_status now LS_LOST ''lost''"

definition mark_closed ::
  "timestamp \<Rightarrow> nat \<Rightarrow> request option \<Rightarrow> (lead \<Rightarrow> bool) \<Rightarrow> 'x leads_db_scheme \<Rightarrow> (error + string) \<times> 'x leads_db_scheme" where
  "mark_closed now = bulk_status now LS_CLOSED ''closed''"

section \<open>Banners and questions\<close>

definition save_banner_model ::
  "nat \<Rightarrow> request option \<Rightarrow> banner \<Rightarrow> bool \<Rightarrow> 'x desk_db_scheme \<Rightarrow> error + (banner \<times> 'x desk_db_scheme)" where
  "save_banner_model me rq obj change s =
     (let b = (if change then obj else obj\<lparr>bn_id := new_id s\<rparr>) in
      case banner_clean b of
        [] \<Rightarrow> Inr (b, banner_audit (if change then AA_BANNER_UPDATED else AA_BANNER_CREATED) b me rq
                     (if change then s\<lparr>banners := save_row bn_id b (banners s)\<rparr>
                      else bump_id (s\<lparr>banners := banners s @ [b]\<rparr>)))
      | errs \<Rightarrow> Inl (FieldErrors errs))"

text \<open>
  \<open>full_clean\<close> of a question: the texts, and the constraint \<open>unique_active_faq_context\<close>, which as a rule of
  the database does not compare a question that lacks the category or the service.
\<close>

definition faq_full_clean :: "faq \<Rightarrow> 'x storefront_db_scheme \<Rightarrow> (string \<times> string) list" where
  "faq_full_clean f s =
     add_error (fq_active f \<and> fq_category f \<noteq> None \<and> fq_service f \<noteq> None \<and>
                list_ex (\<lambda>g. fq_active g \<and> fq_question g = fq_question f \<and> fq_category g = fq_category f \<and>
                             fq_service g = fq_service f \<and> fq_id g \<noteq> fq_id f) (faqs s))
       ''__all__'' ''Constraint unique_active_faq_context is violated.''
     (add_error (fq_answer f = '''') ''answer'' ''This field cannot be blank.''
     (add_error (fq_question f = '''') ''question'' ''This field cannot be blank.'' []))"

definition save_faq_model ::
  "nat \<Rightarrow> request option \<Rightarrow> faq \<Rightarrow> bool \<Rightarrow> 'x storefront_db_scheme \<Rightarrow> error + (faq \<times> 'x storefront_db_scheme)" where
  "save_faq_model me rq obj change s =
     (let f = (if change then obj else obj\<lparr>fq_id := new_id s\<rparr>) in
      case faq_full_clean f s of
        [] \<Rightarrow> Inr (f, audit_event (if change then AA_FAQ_UPDATED else AA_FAQ_CREATED) ''faq'' (nat_str (fq_id f))
                     (Some me) rq (JObj [(''is_active'', JBool (fq_active f))])
                     (if change then s\<lparr>faqs := save_row fq_id f (faqs s)\<rparr>
                      else bump_id (s\<lparr>faqs := faqs s @ [f]\<rparr>)))
      | errs \<Rightarrow> Inl (FieldErrors errs))"

section \<open>Technicians and leaves\<close>

fun verification_str :: "verification_status \<Rightarrow> string" where
  "verification_str TV_PENDING = ''PENDING''"
| "verification_str TV_UNDER_REVIEW = ''UNDER_REVIEW''"
| "verification_str TV_VERIFIED = ''VERIFIED''"
| "verification_str TV_REJECTED = ''REJECTED''"
| "verification_str TV_SUSPENDED = ''SUSPENDED''"

fun availability_str :: "availability_status \<Rightarrow> string" where
  "availability_str TA_AVAILABLE = ''AVAILABLE''"
| "availability_str TA_BUSY = ''BUSY''"
| "availability_str TA_ON_LEAVE = ''ON_LEAVE''"
| "availability_str TA_OFFLINE = ''OFFLINE''"
| "availability_str TA_SUSPENDED = ''SUSPENDED''"

definition technician_metadata :: "technician \<Rightarrow> (string \<times> json) list" where
  "technician_metadata t =
     [(''employee_code'', JStr (t_code t)),
      (''verification_status'', JStr (verification_str (t_verification t))),
      (''availability_status'', JStr (availability_str (t_availability t)))]"

definition save_technician_model ::
  "nat \<Rightarrow> request option \<Rightarrow> technician \<Rightarrow> bool \<Rightarrow> 'x technicians_db_scheme \<Rightarrow>
     error + (technician \<times> 'x technicians_db_scheme)" where
  "save_technician_model me rq obj change s =
     (let previous = (if change then get_technician (t_id obj) s else None);
          obj1 = (if change then obj else obj\<lparr>t_id := new_id s\<rparr>)
      in case save_technician obj1 (if change then s else bump_id s) of
           Inl e \<Rightarrow> Inl e
         | Inr (t, s1) \<Rightarrow>
             let event = (\<lambda>action more.
                   audit_event action ''technician'' (nat_str (t_id t)) (Some me) rq
                     (JObj (technician_metadata t @ more)) s1)
             in Inr (t, case previous of
                  None \<Rightarrow> event (if change then AA_TECHNICIAN_UPDATED else AA_TECHNICIAN_CREATED) []
                | Some p \<Rightarrow>
                    if t_verification p \<noteq> t_verification t
                    then event AA_TECHNICIAN_VERIFICATION_CHANGED
                           [(''from_verification_status'', JStr (verification_str (t_verification p)))]
                    else if t_availability p \<noteq> t_availability t
                    then event AA_TECHNICIAN_AVAILABILITY_CHANGED
                           [(''from_availability_status'', JStr (availability_str (t_availability p)))]
                    else event AA_TECHNICIAN_UPDATED []))"

text \<open>The columns \<open>_set_status\<close> writes; one that is not given is left as it is.\<close>

record status_change =
  sc_verification :: "verification_status option"
  sc_availability :: "availability_status option"
  sc_active :: "bool option"
  sc_available :: "bool option"
  sc_label :: string

definition change_status :: "status_change \<Rightarrow> technician \<Rightarrow> technician" where
  "change_status c t =
     t\<lparr>t_verification := given (t_verification t) (sc_verification c),
       t_availability := given (t_availability t) (sc_availability c),
       t_active := given (t_active t) (sc_active c),
       t_available := given (t_available t) (sc_available c)\<rparr>"

text \<open>
  \<open>_set_status\<close>. \<open>queryset.update\<close> writes the rows without \<open>save\<close>, and the loop after it evaluates the queryset,
  with the filter of the page, on the rows as they are then.
\<close>

definition set_status ::
  "status_change \<Rightarrow> nat \<Rightarrow> request option \<Rightarrow> (technician \<Rightarrow> bool) \<Rightarrow> 'x technicians_db_scheme \<Rightarrow>
     string \<times> 'x technicians_db_scheme" where
  "set_status c me rq picked s =
     (let s1 = s\<lparr>technicians := map (\<lambda>t. if picked t then change_status c t else t) (technicians s)\<rparr>;
          event = (\<lambda>t. audit_event
                     (if sc_verification c = None then AA_TECHNICIAN_AVAILABILITY_CHANGED
                      else AA_TECHNICIAN_VERIFICATION_CHANGED)
                     ''technician'' (nat_str (t_id t)) (Some me) rq (JObj [(''bulk_action'', JStr (sc_label c))]))
      in (nat_str (count_rows picked (technicians s)) @ '' technicians marked '' @ sc_label c @ ''.'',
          fold event (filter picked (technicians s1)) s1))"

definition approval :: status_change where
  "approval = \<lparr>sc_verification = Some TV_VERIFIED, sc_availability = Some TA_AVAILABLE, sc_active = Some True,
               sc_available = Some True, sc_label = ''approved''\<rparr>"

definition rejection :: status_change where
  "rejection = \<lparr>sc_verification = Some TV_REJECTED, sc_availability = None, sc_active = Some False,
                sc_available = Some False, sc_label = ''rejected''\<rparr>"

definition suspension :: status_change where
  "suspension = \<lparr>sc_verification = Some TV_SUSPENDED, sc_availability = Some TA_SUSPENDED, sc_active = Some False,
                 sc_available = Some False, sc_label = ''suspended''\<rparr>"

definition reactivation :: status_change where
  "reactivation = \<lparr>sc_verification = Some TV_UNDER_REVIEW, sc_availability = Some TA_OFFLINE,
                   sc_active = Some True, sc_available = Some False, sc_label = ''reactivated''\<rparr>"

definition approve_technicians ::
  "nat \<Rightarrow> request option \<Rightarrow> (technician \<Rightarrow> bool) \<Rightarrow> 'x technicians_db_scheme \<Rightarrow> string \<times> 'x technicians_db_scheme" where
  "approve_technicians = set_status approval"

definition reject_technicians ::
  "nat \<Rightarrow> request option \<Rightarrow> (technician \<Rightarrow> bool) \<Rightarrow> 'x technicians_db_scheme \<Rightarrow> string \<times> 'x technicians_db_scheme" where
  "reject_technicians = set_status rejection"

definition suspend_technicians ::
  "nat \<Rightarrow> request option \<Rightarrow> (technician \<Rightarrow> bool) \<Rightarrow> 'x technicians_db_scheme \<Rightarrow> string \<times> 'x technicians_db_scheme" where
  "suspend_technicians = set_status suspension"

definition reactivate_technicians ::
  "nat \<Rightarrow> request option \<Rightarrow> (technician \<Rightarrow> bool) \<Rightarrow> 'x technicians_db_scheme \<Rightarrow> string \<times> 'x technicians_db_scheme" where
  "reactivate_technicians = set_status reactivation"

definition save_leave_model ::
  "nat \<Rightarrow> request option \<Rightarrow> leave \<Rightarrow> bool \<Rightarrow> 'x technicians_db_scheme \<Rightarrow> error + (leave \<times> 'x technicians_db_scheme)" where
  "save_leave_model me rq obj change s =
     (let obj1 = (case lv_approved_by obj of None \<Rightarrow> obj\<lparr>lv_approved_by := Some me\<rparr> | Some u \<Rightarrow> obj) in
      case save_leave (if change then obj1 else obj1\<lparr>lv_id := new_id s\<rparr>) (if change then s else bump_id s) of
        Inl e \<Rightarrow> Inl e
      | Inr (l, s1) \<Rightarrow>
          Inr (l, audit_event AA_TECHNICIAN_LEAVE_CREATED ''technician_leave'' (nat_str (lv_id l)) (Some me) rq
                    (JObj [(''technician_id'', JStr (nat_str (lv_technician l))),
                           (''is_active'', JBool (lv_active l))]) s1))"

section \<open>Services\<close>

text \<open>
  The price fields of the form: decimals with the places that were typed. The quotient of a decimal by 100 is
  exact, with as few places more as it needs.
\<close>

record service_form =
  sf_base :: decimal
  sf_selling :: "decimal option"
  sf_value :: "decimal option"

definition div_hundred :: "decimal \<Rightarrow> decimal" where
  "div_hundred a =
     (if coeff a mod 100 = 0 then Dec (coeff a div 100) (places a)
      else if coeff a mod 10 = 0 then Dec (coeff a div 10) (places a + 1)
      else Dec (coeff a) (places a + 2))"

definition form_price :: "service_form \<Rightarrow> decimal" where
  "form_price f = (case sf_selling f of None \<Rightarrow> sf_base f | Some p \<Rightarrow> p)"

text \<open>\<open>obj.advance_payment_value or 0\<close>: a zero of any form is the integer 0.\<close>

definition form_value :: "service_form \<Rightarrow> decimal" where
  "form_value f = (case sf_value f of None \<Rightarrow> Dec 0 0 | Some x \<Rightarrow> if coeff x = 0 then Dec 0 0 else x)"

definition form_advance :: "advance_type \<Rightarrow> service_form \<Rightarrow> decimal" where
  "form_advance kind f =
     (if kind = PERCENTAGE then div_hundred (dec_mul (form_price f) (form_value f)) else form_value f)"

text \<open>The validator of a field with ten digits, two of them after the point.\<close>

definition decimal_error :: "decimal \<Rightarrow> string option" where
  "decimal_error d =
     (let digits = max (length (nat_str (nat \<bar>coeff d\<bar>))) (places d) in
      if digits > 10 then Some ''Ensure that there are no more than 10 digits in total.''
      else if places d > 2 then Some ''Ensure that there are no more than 2 decimal places.''
      else if digits - places d > 8 then Some ''Ensure that there are no more than 8 digits before the decimal point.''
      else None)"

definition paise :: "decimal \<Rightarrow> money" where
  "paise d = coeff (quantize 2 d)"

text \<open>\<open>ServiceAdmin.save_model\<close>; \<open>obj\<close> has the other columns of the form.\<close>

definition save_service_model ::
  "service_form \<Rightarrow> service \<Rightarrow> bool \<Rightarrow> 'x catalogue_db_scheme \<Rightarrow> error + (service \<times> 'x catalogue_db_scheme)" where
  "save_service_model f obj change s =
     (let advance = form_advance (sv_advance_type obj) f;
          v = obj\<lparr>sv_id := (if change then sv_id obj else new_id s), sv_base_price := paise (sf_base f),
                  sv_selling_price := map_option paise (sf_selling f),
                  sv_advance_value := map_option paise (sf_value f), sv_advance_amount := paise advance\<rparr>
      in case decimal_error advance of
           Some msg \<Rightarrow> Inl (FieldErrors [(''advance_amount'', msg)])
         | None \<Rightarrow> save_service v (if change then s else bump_id s))"

section \<open>Notifications\<close>

text \<open>The actions on selected notifications: failed ones are sent again, queued ones are cancelled.\<close>

definition retry_failed_notifications ::
  "string \<Rightarrow> provider \<Rightarrow> timestamp \<Rightarrow> (notification \<Rightarrow> bool) \<Rightarrow> 'x notifications_db_scheme \<Rightarrow>
     string \<times> 'x notifications_db_scheme" where
  "retry_failed_notifications pname provider now picked s =
     (let ns = filter (\<lambda>n. picked n \<and> n_status n = NS_FAILED) (notifications s) in
      (''Retried '' @ nat_str (length ns) @ '' failed notifications.'',
       fold (\<lambda>n s. snd (send_notification pname provider now False n s)) ns s))"

definition cancel_queued_notifications ::
  "(notification \<Rightarrow> bool) \<Rightarrow> 'x notifications_db_scheme \<Rightarrow> string \<times> 'x notifications_db_scheme" where
  "cancel_queued_notifications picked s =
     (let hit = (\<lambda>n. picked n \<and> n_status n = NS_QUEUED) in
      (''Cancelled '' @ nat_str (count_rows hit (notifications s)) @ '' queued notifications.'',
       s\<lparr>notifications := map (\<lambda>n. if hit n then n\<lparr>n_status := NS_CANCELLED\<rparr> else n) (notifications s)\<rparr>))"

section \<open>The board on the index page\<close>

record operations_board =
  ob_leads_today :: nat
  ob_new_leads :: nat
  ob_follow_ups_today :: nat
  ob_bookings_today :: nat
  ob_confirmed :: nat
  ob_payment_pending :: nat
  ob_payments_today :: money
  ob_awaiting_technician :: nat
  ob_upcoming :: nat
  ob_cancelled :: nat
  ob_recent_leads :: "lead list"
  ob_recent_bookings :: "booking list"
  ob_pending_bookings :: "booking list"
  ob_follow_ups_due :: "lead list"
  ob_unassigned :: "booking list"
  ob_failed_notifications :: "notification list"

definition awaits_technician :: "booking \<Rightarrow> bool" where
  "awaits_technician b = (b_status b = BS_CONFIRMED \<and> b_technician b = None)"

definition build_operations_board ::
  "(nat \<Rightarrow> timestamp) \<Rightarrow> timestamp \<Rightarrow> 'x leads_db_scheme \<Rightarrow> operations_board" where
  "build_operations_board created now s =
     (let today = localdate now;
          bookings_with = (\<lambda>p. count_rows p (bookings s));
          newest = (\<lambda>p. take 5 (rev (filter p (bookings s))))
      in \<lparr>ob_leads_today = count_rows (\<lambda>l. localdate (created (l_id l)) = today) (leads s),
          ob_new_leads = count_rows (\<lambda>l. l_status l = LS_NEW) (leads s),
          ob_follow_ups_today = count_rows (\<lambda>l. is_active_lead l \<and>
            (case l_follow_up_at l of None \<Rightarrow> False | Some t \<Rightarrow> localdate t = today)) (leads s),
          ob_bookings_today = bookings_with (\<lambda>b. localdate (created (b_id b)) = today),
          ob_confirmed = bookings_with (\<lambda>b. b_status b = BS_CONFIRMED),
          ob_payment_pending = bookings_with (\<lambda>b. b_payment_status b = PS_UNPAID),
          ob_payments_today = sum_rows p_amount (\<lambda>p. p_status p = PR_SUCCESS \<and>
            (case p_paid_at p of None \<Rightarrow> False | Some t \<Rightarrow> localdate t = today)) (payments s),
          ob_awaiting_technician = bookings_with awaits_technician,
          ob_upcoming = bookings_with (\<lambda>b. today + 1 \<le> b_service_date b \<and> b_service_date b \<le> today + 7 \<and>
            b_status b \<noteq> BS_CANCELLED),
          ob_cancelled = bookings_with (\<lambda>b. b_status b = BS_CANCELLED),
          ob_recent_leads = take 5 (rev (leads s)),
          ob_recent_bookings = newest (\<lambda>b. True),
          ob_pending_bookings = newest (\<lambda>b. b_payment_status b = PS_UNPAID),
          ob_follow_ups_due = take 5 (sort_before follow_up_before
            (filter (is_follow_up_due now) (leads s))),
          ob_unassigned = take 5 (sort_before (\<lambda>b c. b_service_date b < b_service_date c)
            (filter awaits_technician (bookings s))),
          ob_failed_notifications = take 5 (rev (filter (\<lambda>n. n_status n = NS_FAILED) (notifications s)))\<rparr>)"

text \<open>\<open>operations_admin_index\<close> adds the board for whoever may see leads.\<close>

definition operations_admin_index ::
  "(string \<Rightarrow> bool) \<Rightarrow> (nat \<Rightarrow> timestamp) \<Rightarrow> timestamp \<Rightarrow> 'x leads_db_scheme \<Rightarrow> operations_board option" where
  "operations_admin_index has_perm created now s =
     (if has_perm ''operations.view_lead'' then Some (build_operations_board created now s) else None)"


section \<open>Lemmas: marking leads\<close>

text \<open>What a mark leaves of a lead, and of the table when the leads \<open>ks\<close> are marked.\<close>

definition marked :: "timestamp \<Rightarrow> lead_status \<Rightarrow> lead \<Rightarrow> lead" where
  "marked now status l = l\<lparr>l_status := status, l_updated_at := now\<rparr>"

definition mark_all :: "timestamp \<Rightarrow> lead_status \<Rightarrow> lead list \<Rightarrow> lead list \<Rightarrow> lead list" where
  "mark_all now status = save_batch l_id (marked now status)"

definition mark_step :: "lead_history \<Rightarrow> nat \<times> lead_status option \<times> lead_status \<times> nat option" where
  "mark_step h = (lh_lead h, lh_from h, lh_to h, lh_changed_by h)"

lemma mark_all_Nil [simp]: "mark_all now status [] rows = rows"
  by (simp add: mark_all_def save_batch_def)

lemma marked_id [simp]: "l_id (marked now status l) = l_id l"
  by (simp add: marked_def)

lemma mark_all_Cons:
  assumes "unique_rows l_id rows" and "l \<in> set rows" and "l_id l \<notin> l_id ` set ks"
  shows "mark_all now status ks (save_row l_id (marked now status l) rows) = mark_all now status (l # ks) rows"
  using save_batch_Cons [OF assms, of "marked now status"] by (simp add: mark_all_def)

lemma mark_lead_Inr:
  assumes "mark_lead now status label me rq l s = Inr (m, s')" and "leads_ok s" and "l \<in> set (leads s)"
  shows "leads_ok s' \<and> leads s' = save_row l_id (marked now status l) (leads s) \<and>
         length (on_commit s') = length (on_commit s) + 1 \<and>
         (\<exists>h. lead_histories s' = lead_histories s @ [h] \<and> mark_step h = (l_id l, Some (l_status l), status, Some me))"
proof -
  obtain s1 where saved: "save_lead now (l\<lparr>l_status := status\<rparr>) s = Inr (m, s1)"
    and s': "s' = audit_event AA_LEAD_STATUS_CHANGED ''lead'' (nat_str (l_id m)) (Some me) rq
                 (JObj [(''from_status'', JStr (lead_status_str (l_status l))),
                        (''status'', JStr (lead_status_str status))])
                 (write_lead_history (l_id m) (Some (l_status l)) status (Some me)
                    (''Marked '' @ label @ '' from admin list.'') s1)"
    using assms(1) by (auto simp: mark_lead_def split: sum.splits)
  have known: "get_lead (l_id l) s \<noteq> None"
    using assms(3) by (auto simp: get_lead_def find_row_None_iff)
  have bound: "l_id l < next_id s" using assms(2,3) by (auto simp: leads_ok_def list_all_iff)
  note inr = save_lead_Inr [OF saved]
  have "leads_ok s1" using save_lead_ok [OF saved assms(2)] bound by simp
  moreover have "lead_histories s1 = lead_histories s"
    using saved by (auto simp: save_lead_def Let_def insert_lead_row_def save_lead_row_def split: list.splits if_splits)
  moreover have "next_id s1 \<le> next_id s'" "leads s' = leads s1"
    by (simp_all add: s' write_lead_history_def audit_event_def register_hook_def bump_id_def)
  ultimately show ?thesis using inr known leads_ok_more_ids [of s1 s']
    by (auto simp: s' write_lead_history_def audit_event_def register_hook_def bump_id_def lead_frame_def
        mark_step_def marked_def)
qed

lemma mark_leads:
  assumes "each (mark_lead now status label me rq) ls s = (r, s')" and "leads_ok s" and "distinct (map l_id ls)"
    and "set ls \<subseteq> set (leads s)"
  shows "leads_ok s' \<and>
         (\<exists>n\<le>length ls. leads s' = mark_all now status (take n ls) (leads s) \<and>
            length (on_commit s') = length (on_commit s) + n \<and> (isl r \<longleftrightarrow> n < length ls) \<and>
            (\<exists>hs. lead_histories s' = lead_histories s @ hs \<and>
               map mark_step hs = map (\<lambda>l. (l_id l, Some (l_status l), status, Some me)) (take n ls)))"
  using assms
proof (induction ls arbitrary: r s s')
  case Nil
  then show ?case by auto
next
  case (Cons l ls)
  show ?case
  proof (cases "mark_lead now status label me rq l s")
    case (Inl e)
    with Cons.prems show ?thesis by (auto intro!: exI [of _ 0])
  next
    case (Inr x)
    obtain m s1 where x: "mark_lead now status label me rq l s = Inr (m, s1)" using Inr by (cases x) auto
    have "l \<in> set (leads s)" using Cons.prems(4) by simp
    note step = mark_lead_Inr [OF x Cons.prems(2) this]
    obtain r1 where run: "each (mark_lead now status label me rq) ls s1 = (r1, s')" and r1: "isl r1 = isl r"
      using Cons.prems(1) x by (auto split: prod.splits sum.splits)
    have "set ls \<subseteq> set (leads s1)"
    proof
      fix k assume k: "k \<in> set ls"
      then have "l_id k \<noteq> l_id l" "k \<in> set (leads s)" using Cons.prems(3,4) by (auto simp: rev_image_eqI)
      then show "k \<in> set (leads s1)" using step by (auto simp: in_set_save_row)
    qed
    then obtain n hs where n: "leads_ok s'" "n \<le> length ls" "leads s' = mark_all now status (take n ls) (leads s1)"
      "length (on_commit s') = length (on_commit s1) + n" "isl r1 \<longleftrightarrow> n < length ls"
      "lead_histories s' = lead_histories s1 @ hs"
      "map mark_step hs = map (\<lambda>l. (l_id l, Some (l_status l), status, Some me)) (take n ls)"
      using Cons.IH [OF run] step Cons.prems(3) by auto
    obtain h where h: "lead_histories s1 = lead_histories s @ [h]"
      "mark_step h = (l_id l, Some (l_status l), status, Some me)" using step by blast
    have "l_id l \<notin> l_id ` set (take n ls)" using Cons.prems(3) by (auto dest: in_set_takeD)
    then have "leads s' = mark_all now status (take (Suc n) (l # ls)) (leads s)"
      using mark_all_Cons [of "leads s" l "take n ls"] Cons.prems(2,4) step n(3) by (simp add: leads_ok_def)
    moreover have "lead_histories s' = lead_histories s @ (h # hs)"
      "map mark_step (h # hs) = map (\<lambda>l. (l_id l, Some (l_status l), status, Some me)) (take (Suc n) (l # ls))"
      using n h by simp_all
    ultimately show ?thesis using n step r1 by (intro conjI exI [of _ "Suc n"]) (auto simp del: map_append list.map)
  qed
qed

lemma bulk_status_marks:
  assumes "bulk_status now status label me rq picked s = (r, s')" and "leads_ok s"
  shows "leads_ok s' \<and>
         (\<exists>n\<le>length (to_mark status picked s). leads s' = mark_all now status (take n (to_mark status picked s)) (leads s) \<and>
            length (on_commit s') = length (on_commit s) + n \<and> (isl r \<longleftrightarrow> n < length (to_mark status picked s)) \<and>
            (\<exists>hs. lead_histories s' = lead_histories s @ hs \<and>
               map mark_step hs =
                 map (\<lambda>l. (l_id l, Some (l_status l), status, Some me)) (take n (to_mark status picked s))))"
proof -
  obtain r1 where run: "each (mark_lead now status label me rq) (to_mark status picked s) s = (r1, s')"
    and r1: "isl r1 = isl r"
    using assms(1) by (auto simp: bulk_status_def split: prod.splits sum.splits)
  have "distinct (map l_id (to_mark status picked s))" "set (to_mark status picked s) \<subseteq> set (leads s)"
    using assms(2) by (auto simp: to_mark_def leads_ok_def unique_rows_def distinct_map inj_on_def)
  from mark_leads [OF run assms(2) this] r1 show ?thesis by simp
qed


section \<open>Lemmas: technicians\<close>

lemma fold_audits:
  "technicians (fold (\<lambda>t. audit_event act rt (rid t) actor rq m) ts s) = technicians s \<and>
   length (on_commit (fold (\<lambda>t. audit_event act rt (rid t) actor rq m) ts s)) = length (on_commit s) + length ts"
  by (induction ts arbitrary: s) (simp_all add: audit_event_def register_hook_def)

lemma set_status_technicians:
  assumes "set_status c me rq picked s = (msg, s')"
  shows "technicians s' = map (\<lambda>t. if picked t then change_status c t else t) (technicians s) \<and>
         length (on_commit s') = length (on_commit s) + length (filter picked (technicians s'))"
  using assms by (auto simp: set_status_def Let_def fold_audits)

lemma change_status_id [simp]: "t_id (change_status c t) = t_id t"
  by (simp add: change_status_def)

definition bulk_changes :: "status_change list" where
  "bulk_changes = [approval, rejection, suspension, reactivation]"

lemma change_status_clean:
  "c \<in> set bulk_changes \<Longrightarrow> technician_clean t = [] \<Longrightarrow> technician_clean (change_status c t) = []"
  by (auto simp: bulk_changes_def change_status_def given_def approval_def rejection_def suspension_def reactivation_def
      technician_clean_def split: if_splits)

lemma ineligible_not_assigned:
  assumes "get_technician k s = Some t" and "\<not> t_active t"
  shows "isl (assign_technician now b k by notes reason s)"
proof -
  have "get_technician_eligibility_errors t x sl a s \<noteq> []" for x sl a
    using eligibility_none [of t x sl a s] assms(2) by blast
  with assms(1) show ?thesis
    by (auto simp: assign_technician_def Let_def split: option.splits list.splits if_splits)
qed

lemma listed_technicians_active: "list_technicians x s = Inr ts \<Longrightarrow> t \<in> set ts \<Longrightarrow> t_active t \<and> t \<in> set (technicians s)"
  by (auto simp: list_technicians_def list_active_technicians_def Let_def split: if_splits option.splits)

section \<open>Lemmas: services and the board\<close>

lemma div_hundred_places: "places (div_hundred a) \<ge> places a"
  by (simp add: div_hundred_def)

lemma decimal_error_places: "places d > 2 \<Longrightarrow> decimal_error d \<noteq> None"
  by (simp add: decimal_error_def Let_def)

text \<open>What sending a notification makes of its row.\<close>

definition resent :: "string \<Rightarrow> provider \<Rightarrow> timestamp \<Rightarrow> notification \<Rightarrow> notification" where
  "resent pname provider now n =
     (let n1 = n\<lparr>n_send_attempts := n_send_attempts n + 1\<rparr> in
      case provider n1 of
        Inl exc \<Rightarrow> n1\<lparr>n_status := NS_FAILED, n_provider := pname, n_error_message := exc\<rparr>
      | Inr (prov, msg) \<Rightarrow> n1\<lparr>n_status := NS_SENT, n_provider := prov, n_provider_message_id := msg,
                               n_sent_at := Some now, n_error_message := ''''\<rparr>)"

lemma resent_props [simp]:
  "n_id (resent pname provider now n) = n_id n"
  "n_send_attempts (resent pname provider now n) = n_send_attempts n + 1"
  "n_status (resent pname provider now n) = NS_SENT \<or> n_status (resent pname provider now n) = NS_FAILED"
  by (auto simp: resent_def Let_def split: sum.splits)

lemma send_resent:
  "snd (send_notification pname provider now False n s) = save_notification (resent pname provider now n) s"
  by (auto simp: send_notification_def resent_def Let_def split: sum.splits)

lemma resend_all:
  "notifications (fold (\<lambda>n s. snd (send_notification pname provider now False n s)) ns s) =
     fold (\<lambda>n. save_row n_id (resent pname provider now n)) ns (notifications s)"
  by (induction ns arbitrary: s) (simp_all add: send_resent save_notification_def)

section \<open>Properties\<close>

text \<open>Marking selected leads keeps the rules of the leads and leaves a full record: with an invariant table, the
  leads up to the first that is refused are set to the status and nothing else changes; each of them gets one
  row of history, from its own status, and one audit event. The action fails exactly when one was refused.\<close>

theorem marked_leads_are_recorded:
  assumes "bulk_status now status label me rq picked s = (r, s')" and "leads_ok s"
  shows "leads_ok s' \<and>
         (\<exists>n\<le>length (to_mark status picked s).
            let ls = take n (to_mark status picked s) in
            (isl r \<longleftrightarrow> n < length (to_mark status picked s)) \<and>
            leads s' = map (\<lambda>l. if l_id l \<in> l_id ` set ls
                                then l\<lparr>l_status := status, l_updated_at := now\<rparr> else l) (leads s) \<and>
            length (on_commit s') = length (on_commit s) + length ls \<and>
            (\<exists>hs. lead_histories s' = lead_histories s @ hs \<and>
               map (\<lambda>h. (lh_lead h, lh_from h, lh_to h, lh_changed_by h)) hs =
               map (\<lambda>l. (l_id l, Some (l_status l), status, Some me)) ls))"
proof -
  have step: "mark_step = (\<lambda>h. (lh_lead h, lh_from h, lh_to h, lh_changed_by h))" by (simp add: mark_step_def fun_eq_iff)
  let ?ls = "to_mark status picked s"
  from bulk_status_marks [OF assms, unfolded step mark_all_def save_batch_def marked_def]
  obtain n hs where n: "leads_ok s'" "n \<le> length ?ls" "isl r \<longleftrightarrow> n < length ?ls"
    "leads s' = map (\<lambda>l. if l_id l \<in> l_id ` set (take n ?ls)
                         then l\<lparr>l_status := status, l_updated_at := now\<rparr> else l) (leads s)"
    "length (on_commit s') = length (on_commit s) + n" "lead_histories s' = lead_histories s @ hs"
    "map (\<lambda>h. (lh_lead h, lh_from h, lh_to h, lh_changed_by h)) hs =
     map (\<lambda>l. (l_id l, Some (l_status l), status, Some me)) (take n ?ls)"
    by (elim conjE exE) (rule that)
  have len: "length (take n ?ls) = n" using n(2) by simp
  show ?thesis
    unfolding Let_def by (intro conjI exI [of _ n] exI [of _ hs]) (rule n | simp only: len n)+
qed

theorem marked_leads_are_recorded_witness:
  "\<exists>r s'. mark_lost 5 2 None (\<lambda>l. True) (sample_leads_db [] [] [] [sample_lead 41]) = (r, s') \<and> leads_ok s' \<and> \<not> isl r"
proof -
  let ?s = "sample_leads_db [] [] [] [sample_lead 41]"
  obtain r s' where run: "mark_lost 5 2 None (\<lambda>l. True) ?s = (r, s')" by (cases "mark_lost 5 2 None (\<lambda>l. True) ?s")
  have "leads_ok ?s" by code_simp
  moreover have "\<not> isl (fst (mark_lost 5 2 None (\<lambda>l. True) ?s))" by code_simp
  ultimately show ?thesis
    using marked_leads_are_recorded [of 5 LS_LOST "''lost''" 2 None "\<lambda>l. True" ?s r s'] run by (auto simp: mark_lost_def)
qed

text \<open>A converted lead among the selected ones stops the action half-way: the leads before it stay marked, the
  others are not, and the administrator gets an error page.\<close>

theorem converted_lead_stops_marks:
  assumes "leads_ok s" and "l \<in> set (leads s)" and "picked l" and "l_converted_booking l \<noteq> None"
    and "status \<noteq> LS_CONVERTED"
  shows "isl (fst (bulk_status now status label me rq picked s))"
proof (rule ccontr)
  obtain r s' where run: "bulk_status now status label me rq picked s = (r, s')"
    by (cases "bulk_status now status label me rq picked s")
  assume "\<not> isl (fst (bulk_status now status label me rq picked s))"
  then have "\<not> isl r" by (simp add: run)
  with bulk_status_marks [OF run assms(1)]
  have s': "leads_ok s'" "leads s' = mark_all now status (to_mark status picked s) (leads s)" by auto
  have "l_status l = LS_CONVERTED"
    using assms(1,2,4) by (auto simp: leads_ok_def list_all_iff lead_booking_ok_def)
  then have "l \<in> set (to_mark status picked s)" using assms(2,3,5) by (auto simp: to_mark_def)
  then have "marked now status l \<in> set (leads s')"
    using assms(2) by (auto simp: s'(2) mark_all_def save_batch_def intro!: image_eqI [of _ _ l])
  then show False
    using s'(1) assms(4,5) by (auto simp: leads_ok_def list_all_iff lead_booking_ok_def marked_def)
qed

definition converted_lead :: lead where
  "converted_lead = (sample_lead 41)\<lparr>l_status := LS_CONVERTED, l_converted_booking := Some 7\<rparr>"

theorem converted_lead_stops_marks_witness:
  "isl (fst (mark_lost 5 2 None (\<lambda>l. True) (sample_leads_db [] [] [] [(sample_lead 42)\<lparr>l_mobile := ''1''\<rparr>, converted_lead])))"
proof -
  let ?s = "sample_leads_db [] [] [] [(sample_lead 42)\<lparr>l_mobile := ''1''\<rparr>, converted_lead]"
  have "leads_ok ?s" "converted_lead \<in> set (leads ?s)" "l_converted_booking converted_lead \<noteq> None" by code_simp+
  from converted_lead_stops_marks [OF this(1,2) TrueI this(3)] show ?thesis by (simp add: mark_lost_def)
qed

text \<open>The four actions on technicians write past the validation of a profile, but keep it: profiles that were
  valid are valid after any of them.\<close>

theorem bulk_changes_keep_profiles_valid:
  assumes "c \<in> set bulk_changes" and "set_status c me rq picked s = (msg, s')"
    and "\<forall>t\<in>set (technicians s). technician_clean t = []"
  shows "\<forall>t\<in>set (technicians s'). technician_clean t = []"
  using set_status_technicians [OF assms(2)] assms(3) change_status_clean [OF assms(1)] by auto

theorem bulk_changes_keep_profiles_valid_witness:
  "\<exists>msg s'. suspend_technicians 2 None (\<lambda>t. True) (sample_technicians_db []) = (msg, s') \<and>
            (\<forall>t\<in>set (technicians s'). technician_clean t = [])"
proof -
  let ?s = "sample_technicians_db []"
  obtain msg s' where run: "suspend_technicians 2 None (\<lambda>t. True) ?s = (msg, s')"
    by (cases "suspend_technicians 2 None (\<lambda>t. True) ?s")
  have "suspension \<in> set bulk_changes" by (simp add: bulk_changes_def)
  moreover have "list_all (\<lambda>t. technician_clean t = []) (technicians ?s)" by code_simp
  ultimately show ?thesis
    using bulk_changes_keep_profiles_valid [of suspension 2 None "\<lambda>t. True" ?s msg s'] run
    by (simp add: suspend_technicians_def list_all_iff)
qed

text \<open>C40: A technician who was suspended or rejected gets no more jobs: no list of technicians shows them, for no
  booking, and every attempt to assign them is refused.\<close>

theorem suspended_technicians_get_no_jobs:
  assumes "suspend_technicians me rq picked s = (msg, s') \<or> reject_technicians me rq picked s = (msg, s')"
    and "unique_rows t_id (technicians s)" and "t \<in> set (technicians s)" and "picked t"
  shows "(\<forall>x ts. list_technicians x s' = Inr ts \<longrightarrow> t_id t \<notin> t_id ` set ts) \<and>
         isl (assign_technician now b (t_id t) by notes reason s')"
proof -
  obtain c where c: "set_status c me rq picked s = (msg, s')" "sc_active c = Some False"
    using assms(1) by (auto simp: suspend_technicians_def reject_technicians_def suspension_def rejection_def)
  have rows: "technicians s' = map (\<lambda>t. if picked t then change_status c t else t) (technicians s)"
    using set_status_technicians [OF c(1)] by blast
  have same: "v = t" if "v \<in> set (technicians s)" "t_id v = t_id t" for v
    using that assms(2,3) by (auto simp: unique_rows_def distinct_map dest: inj_onD)
  have inactive: "\<not> t_active u" if u: "u \<in> set (technicians s')" "t_id u = t_id t" for u
  proof -
    obtain v where v: "v \<in> set (technicians s)" "u = (if picked v then change_status c v else v)" using u(1) rows by auto
    then have "v = t" using u(2) by (intro same) (auto split: if_splits)
    then show ?thesis using v assms(4) c(2) by (simp add: change_status_def given_def)
  qed
  have "isl (assign_technician now b (t_id t) by notes reason s')"
  proof (cases "get_technician (t_id t) s'")
    case None
    then show ?thesis by (auto simp: assign_technician_def split: option.splits)
  next
    case (Some u)
    then have "u \<in> set (technicians s')" "t_id u = t_id t"
      by (auto simp: get_technician_def dest: find_row_SomeD)
    then show ?thesis using ineligible_not_assigned [OF Some] inactive by blast
  qed
  moreover have "t_id t \<notin> t_id ` set ts" if "list_technicians x s' = Inr ts" for x ts
    using listed_technicians_active [OF that] inactive by force
  ultimately show ?thesis by blast
qed

theorem suspended_technicians_get_no_jobs_witness:
  "\<exists>msg s'. suspend_technicians 2 None (\<lambda>t. True) (sample_technicians_db []) = (msg, s') \<and>
            isl (assign_technician 5 7 51 (Some 2) '''' '''' s')"
proof -
  let ?s = "sample_technicians_db []"
  obtain msg s' where run: "suspend_technicians 2 None (\<lambda>t. True) ?s = (msg, s')"
    by (cases "suspend_technicians 2 None (\<lambda>t. True) ?s")
  have "unique_rows t_id (technicians ?s)" "sample_technician \<in> set (technicians ?s)" "t_id sample_technician = 51"
    by code_simp+
  with suspended_technicians_get_no_jobs [OF disjI1 [OF run] this(1,2) TrueI, of 5 7 "Some 2" "''''" "''''"] run
  show ?thesis by auto
qed

text \<open>An action on a filtered list is not audited: when the page shows the technicians of one verification status
  and the action gives them another, all of them are changed and no event is written, because the loop that
  writes the events runs through the filter again.\<close>

theorem filtered_action_is_not_audited:
  assumes "set_status c me rq (\<lambda>t. t_verification t = v \<and> ticked t) s = (msg, s')"
    and "sc_verification c = Some w" and "w \<noteq> v"
  shows "(\<forall>t\<in>set (technicians s). t_verification t = v \<and> ticked t \<longrightarrow> change_status c t \<in> set (technicians s')) \<and>
         on_commit s' = on_commit s"
proof
  note s' = set_status_technicians [OF assms(1)]
  show "\<forall>t\<in>set (technicians s). t_verification t = v \<and> ticked t \<longrightarrow> change_status c t \<in> set (technicians s')"
    using s' by auto
  let ?s1 = "s\<lparr>technicians := map (\<lambda>t. if t_verification t = v \<and> ticked t then change_status c t else t) (technicians s)\<rparr>"
  have none: "filter (\<lambda>t. t_verification t = v \<and> ticked t) (technicians ?s1) = []"
    using assms(2,3) by (auto simp: filter_empty_conv change_status_def given_def)
  show "on_commit s' = on_commit s"
    using assms(1) none by (auto simp: set_status_def Let_def)
qed

theorem filtered_action_is_not_audited_witness:
  "\<exists>msg s'. approve_technicians 2 None (\<lambda>t. t_verification t = TV_PENDING \<and> True)
      ((sample_technicians_db [])\<lparr>technicians := [sample_technician\<lparr>t_verification := TV_PENDING\<rparr>]\<rparr>) = (msg, s') \<and>
      on_commit s' = []"
proof -
  let ?s = "(sample_technicians_db [])\<lparr>technicians := [sample_technician\<lparr>t_verification := TV_PENDING\<rparr>]\<rparr>"
  obtain msg s' where run: "approve_technicians 2 None (\<lambda>t. t_verification t = TV_PENDING \<and> True) ?s = (msg, s')"
    by (cases "approve_technicians 2 None (\<lambda>t. t_verification t = TV_PENDING \<and> True) ?s")
  have "sc_verification approval = Some TV_VERIFIED" "on_commit ?s = []" by code_simp+
  with filtered_action_is_not_audited [OF run [unfolded approve_technicians_def] this(1)] run show ?thesis by auto
qed


text \<open>A service with a percentage as its advance cannot be saved as the page shows it: with the price and the
  percentage in the two decimal places that stored values have, their product has four, and the validator of
  the advance refuses it after the form was accepted, which is an error page.\<close>

theorem shown_percentage_cannot_be_saved:
  assumes "sv_advance_type obj = PERCENTAGE" and "places (form_price f) = 2"
    and "sf_value f = Some x" and "places x = 2" and "coeff x \<noteq> 0"
  shows "isl (save_service_model f obj change s)"
proof -
  have "places (form_advance PERCENTAGE f) > 2"
    using assms div_hundred_places [of "dec_mul (form_price f) (form_value f)"]
    by (simp add: form_advance_def form_value_def dec_mul_def)
  then have "decimal_error (form_advance (sv_advance_type obj) f) \<noteq> None"
    using assms(1) decimal_error_places by simp
  then show ?thesis by (auto simp: save_service_model_def Let_def)
qed

theorem shown_percentage_cannot_be_saved_witness:
  "save_service_model \<lparr>sf_base = Dec 100 2, sf_selling = None, sf_value = Some (Dec 100 2)\<rparr>
     sample_service True sample_catalogue_db =
     Inl (FieldErrors [(''advance_amount'', ''Ensure that there are no more than 2 decimal places.'')]) \<and>
   \<not> isl (save_service_model \<lparr>sf_base = Dec 100 2, sf_selling = None, sf_value = Some (Dec 1 0)\<rparr>
     sample_service True sample_catalogue_db)"
proof
  let ?f = "\<lparr>sf_base = Dec 100 2, sf_selling = None, sf_value = Some (Dec 100 2)\<rparr>"
  have "sv_advance_type sample_service = PERCENTAGE" by code_simp
  then have "isl (save_service_model ?f sample_service True sample_catalogue_db)"
    by (rule shown_percentage_cannot_be_saved [where x = "Dec 100 2"]) (simp_all add: form_price_def)
  then show "save_service_model ?f sample_service True sample_catalogue_db =
     Inl (FieldErrors [(''advance_amount'', ''Ensure that there are no more than 2 decimal places.'')])"
    by code_simp
qed code_simp

text \<open>Whoever saves a pending leave on the page approves it, whatever they changed, and every such edit is
  audited as the creation of a leave.\<close>

theorem editing_a_leave_approves_it:
  assumes "save_leave_model me rq obj True s = Inr (l, s')" and "lv_approved_by obj = None"
  shows "l = obj\<lparr>lv_approved_by := Some me\<rparr> \<and>
         (\<exists>a. on_commit s' = on_commit s @ [WriteAudit a] \<and> a_action a = AA_TECHNICIAN_LEAVE_CREATED)"
  using assms
  by (auto simp: save_leave_model_def save_leave_def Let_def audit_event_def register_hook_def split: if_splits)

definition pending_leave :: leave where
  "pending_leave = \<lparr>lv_id = 5, lv_technician = 51, lv_start = 10, lv_end = 20, lv_reason = ''Travel'',
                    lv_approved_by = None, lv_review_note = '''', lv_active = True\<rparr>"

theorem editing_a_leave_approves_it_witness:
  "\<exists>l s'. save_leave_model 2 None (pending_leave\<lparr>lv_reason := ''Visit''\<rparr>) True
            ((sample_technicians_db [])\<lparr>leaves := [pending_leave]\<rparr>) = Inr (l, s') \<and> lv_approved_by l = Some 2"
proof -
  let ?r = "save_leave_model 2 None (pending_leave\<lparr>lv_reason := ''Visit''\<rparr>) True
              ((sample_technicians_db [])\<lparr>leaves := [pending_leave]\<rparr>)"
  have "\<not> isl ?r" by code_simp
  then obtain l s' where run: "?r = Inr (l, s')" by (cases ?r) auto
  have "lv_approved_by (pending_leave\<lparr>lv_reason := ''Visit''\<rparr>) = None" by (simp add: pending_leave_def)
  from editing_a_leave_approves_it [OF run this] run show ?thesis by simp
qed

text \<open>The two boards disagree about the same day: what the index page calls the payments received is the amount
  the dashboard shows and the refunds of the day on top.\<close>

theorem board_adds_refunds:
  "ob_payments_today (build_operations_board created now s) =
     da_daily_gmv (dashboard_summary created now s) +
     sum_rows p_amount (\<lambda>p. p_status p = PR_SUCCESS \<and> p_type p = REFUND \<and>
       (case p_paid_at p of None \<Rightarrow> False | Some t \<Rightarrow> localdate t = localdate now)) (payments s)"
proof -
  have "sum_rows p_amount (\<lambda>p. p_status p = PR_SUCCESS \<and> paid p) ps =
          sum_rows p_amount (\<lambda>p. p_status p = PR_SUCCESS \<and> p_type p \<in> {BOOKING_ADVANCE, BALANCE} \<and> paid p) ps +
          sum_rows p_amount (\<lambda>p. p_status p = PR_SUCCESS \<and> p_type p = REFUND \<and> paid p) ps" for paid ps
  proof (induction ps)
    case (Cons p ps)
    then show ?case by (cases "p_type p") auto
  qed simp
  moreover have "earned_on d = (\<lambda>p. p_status p = PR_SUCCESS \<and> p_type p \<in> {BOOKING_ADVANCE, BALANCE} \<and>
      (case p_paid_at p of None \<Rightarrow> False | Some t \<Rightarrow> localdate t = d))" for d
    by (simp add: earned_on_def fun_eq_iff)
  ultimately show ?thesis by (simp add: build_operations_board_def dashboard_summary_def Let_def)
qed

text \<open>A question that is for no category or for no service may be entered again and again: the constraint that
  keeps active questions apart never refuses it.\<close>

theorem general_questions_may_repeat:
  assumes "fq_category f = None \<or> fq_service f = None" and "fq_question f \<noteq> ''''" and "fq_answer f \<noteq> ''''"
  shows "\<exists>g s'. save_faq_model me rq f False s = Inr (g, s') \<and> g = f\<lparr>fq_id := new_id s\<rparr> \<and> faqs s' = faqs s @ [g]"
  using assms
  by (auto simp: save_faq_model_def faq_full_clean_def add_error_def Let_def audit_event_def register_hook_def bump_id_def)

theorem general_questions_may_repeat_witness:
  "\<exists>g s'. save_faq_model 2 None
      \<lparr>fq_id = 0, fq_question = ''Why?'', fq_answer = ''So.'', fq_category = None, fq_service = None,
       fq_order = 0, fq_active = True\<rparr> False (sample_storefront_db []) = Inr (g, s') \<and>
      faqs s' = faqs (sample_storefront_db []) @ [g]"
  using general_questions_may_repeat
    [of "\<lparr>fq_id = 0, fq_question = ''Why?'', fq_answer = ''So.'', fq_category = None, fq_service = None,
         fq_order = 0, fq_active = True\<rparr>" 2 None "sample_storefront_db []"]
  by auto

text \<open>Sending failed notifications again tries each selected one once: its attempts go up by one and it is sent or
  failed, and every other notification is what it was.\<close>

theorem failed_notifications_retried_once:
  assumes "retry_failed_notifications pname provider now picked s = (msg, s')" and "unique_rows n_id (notifications s)"
  shows "list_all2 (\<lambda>n m. if picked n \<and> n_status n = NS_FAILED
            then n_id m = n_id n \<and> n_send_attempts m = n_send_attempts n + 1 \<and> n_status m \<in> {NS_SENT, NS_FAILED}
            else m = n) (notifications s) (notifications s')"
proof -
  let ?ns = "filter (\<lambda>n. picked n \<and> n_status n = NS_FAILED) (notifications s)"
  have dist: "distinct (map n_id ?ns)" using assms(2) by (simp add: unique_rows_def distinct_map_filter)
  have "notifications s' = fold (\<lambda>n. save_row n_id (resent pname provider now n)) ?ns (notifications s)"
    using assms(1) by (auto simp: retry_failed_notifications_def Let_def resend_all)
  also have "\<dots> = save_batch n_id (resent pname provider now) ?ns (notifications s)"
    by (rule fold_saves [OF assms(2) _ dist]) (simp_all add: filter_is_subset)
  finally have rows: "notifications s' = save_batch n_id (resent pname provider now) ?ns (notifications s)" .
  have found: "n \<in> set ?ns" if "n \<in> set (notifications s)" "n_id n \<in> n_id ` set ?ns" for n
  proof -
    from that(2) obtain m where m: "m \<in> set ?ns" "n_id n = n_id m" by blast
    then have "n = m" using that(1) assms(2) by (auto simp: unique_rows_def distinct_map dest: inj_onD)
    with m(1) show ?thesis by simp
  qed
  have hit: "n_id n \<in> n_id ` set ?ns \<longleftrightarrow> picked n \<and> n_status n = NS_FAILED" if n: "n \<in> set (notifications s)" for n
  proof
    assume "n_id n \<in> n_id ` set ?ns"
    with n have "n \<in> set ?ns" by (rule found)
    then show "picked n \<and> n_status n = NS_FAILED" by simp
  next
    assume "picked n \<and> n_status n = NS_FAILED"
    with n have "n \<in> set ?ns" by simp
    then show "n_id n \<in> n_id ` set ?ns" by (rule imageI)
  qed
  show ?thesis
    unfolding rows save_batch_def list_all2_map2 list_all2_same
  proof
    fix n assume n: "n \<in> set (notifications s)"
    show "if picked n \<and> n_status n = NS_FAILED
          then n_id (if n_id n \<in> n_id ` set ?ns then resent pname provider now n else n) = n_id n \<and>
               n_send_attempts (if n_id n \<in> n_id ` set ?ns then resent pname provider now n else n) =
                 n_send_attempts n + 1 \<and>
               n_status (if n_id n \<in> n_id ` set ?ns then resent pname provider now n else n) \<in> {NS_SENT, NS_FAILED}
          else (if n_id n \<in> n_id ` set ?ns then resent pname provider now n else n) = n"
      unfolding hit [OF n] using resent_props [of pname provider now n] by simp
  qed
qed

theorem failed_notifications_retried_once_witness:
  "\<exists>msg s'. retry_failed_notifications ''P'' (\<lambda>n. Inl ''down'') 5 (\<lambda>n. True)
      (sample_notifications_db [sample_notification 3 NS_FAILED, sample_notification 4 NS_SENT]) = (msg, s') \<and>
      map n_send_attempts (notifications s') = [1, 0]"
proof -
  let ?s = "sample_notifications_db [sample_notification 3 NS_FAILED, sample_notification 4 NS_SENT]"
  let ?r = "retry_failed_notifications ''P'' (\<lambda>n. Inl ''down'') 5 (\<lambda>n. True) ?s"
  obtain msg s' where run: "?r = (msg, s')" by (cases ?r)
  have rows: "unique_rows n_id (notifications ?s)" by code_simp
  from failed_notifications_retried_once [OF run rows] run show ?thesis
    by (auto simp: sample_notifications_db_def sample_notification_def list_all2_Cons1)
qed

end
