(* ===== verification/Data_Migrations.thy ===== *)
theory Data_Migrations
  imports Admin_Site
begin

text \<open>
  The migrations that change data (\<open>RunPython\<close> under \<open>apps/*/migrations\<close>). They use the historical models,
  which have no validation of their own, so a save writes the row as it is. The rest of the migrations is
  generated from the models.
\<close>

section \<open>Accounts, areas and technicians\<close>

definition admin_phone_number :: string where
  "admin_phone_number = ''+916362365344''"

definition promote_admin :: "'x accounts_db_scheme \<Rightarrow> 'x accounts_db_scheme" where
  "promote_admin s =
     s\<lparr>users := map (\<lambda>u. if u_phone u = admin_phone_number
                         then u\<lparr>u_role := ADMIN, u_staff := True, u_verified := True, u_active := True\<rparr>
                         else u) (users s)\<rparr>"

definition preserve_existing_service_coverage :: "'x locations_db_scheme \<Rightarrow> 'x locations_db_scheme" where
  "preserve_existing_service_coverage s =
     (let ids = map sv_id (filter sv_active (services s)) in
      s\<lparr>service_areas := map (\<lambda>a. a\<lparr>ar_services := ar_services a @
                                       filter (\<lambda>k. k \<notin> set (ar_services a)) ids\<rparr>) (service_areas s)\<rparr>)"

definition launch_cities :: "string list" where
  "launch_cities = [''Chennai'', ''Coimbatore'']"

definition deactivate_non_launch_cities :: "'x locations_db_scheme \<Rightarrow> 'x locations_db_scheme" where
  "deactivate_non_launch_cities s =
     s\<lparr>service_areas := map (\<lambda>a. if ar_city a \<in> set launch_cities then a else a\<lparr>ar_active := False\<rparr>)
                           (service_areas s)\<rparr>"

definition mark_existing_active_technicians_verified :: "'x technicians_db_scheme \<Rightarrow> 'x technicians_db_scheme" where
  "mark_existing_active_technicians_verified s =
     s\<lparr>technicians := map (\<lambda>t. if t_active t then t\<lparr>t_verification := TV_VERIFIED\<rparr> else t) (technicians s)\<rparr>"

section \<open>Payments\<close>

text \<open>
  One round of a loop of \<open>resolve_existing_payment_duplicates\<close>: of the rows with \<open>P\<close>, newest first and then
  in the given order, the first is kept and the others are saved as \<open>repair\<close> makes them.
\<close>

definition keep_first ::
  "('r \<Rightarrow> 'r \<Rightarrow> bool) \<Rightarrow> ('r \<Rightarrow> 'k) \<Rightarrow> ('r \<Rightarrow> bool) \<Rightarrow> ('r \<Rightarrow> 'r) \<Rightarrow> 'r list \<Rightarrow> 'r list" where
  "keep_first before key P repair rows =
     (case sort_before before (rev (filter P rows)) of
        [] \<Rightarrow> rows
      | r # dups \<Rightarrow> fold (\<lambda>d. save_row key (repair d)) dups rows)"

text \<open>\<open>order_by("-status", "-created_at")\<close>\<close>

definition status_before :: "payment \<Rightarrow> payment \<Rightarrow> bool" where
  "status_before p q = str_less (record_status_str (p_status q)) (record_status_str (p_status p))"

definition fail_duplicates :: "nat \<Rightarrow> payment list \<Rightarrow> payment list" where
  "fail_duplicates k =
     keep_first status_before p_id (\<lambda>p. p_booking p = k \<and> active_advance p) (\<lambda>p. p\<lparr>p_status := PR_FAILED\<rparr>)"

definition clear_duplicates :: "nat \<times> payment_type \<times> string \<Rightarrow> payment list \<Rightarrow> payment list" where
  "clear_duplicates g =
     keep_first (\<lambda>p q. False) p_id (\<lambda>p. p_key p \<noteq> '''' \<and> (p_booking p, p_type p, p_key p) = g)
       (\<lambda>p. p\<lparr>p_key := ''''\<rparr>)"

definition resolve_existing_payment_duplicates :: "payment list \<Rightarrow> payment list" where
  "resolve_existing_payment_duplicates ps =
     (let ps1 = fold fail_duplicates (map p_booking (rev (filter active_advance ps))) ps
      in fold clear_duplicates
           (map (\<lambda>p. (p_booking p, p_type p, p_key p)) (rev (filter (\<lambda>p. p_key p \<noteq> '''') ps1))) ps1)"

section \<open>The catalogue\<close>

definition map_core_service ::
  "(string \<times> nat) list \<Rightarrow> core_service \<Rightarrow> 'x catalogue_db_scheme \<Rightarrow> error + (service \<times> 'x catalogue_db_scheme)" where
  "map_core_service cats r s =
     (case map_of cats (cs_category r) of
        None \<Rightarrow> Inl (KeyError (cs_category r))
      | Some c \<Rightarrow>
          (case service_by_slug (cs_slug r) s of
             Some v \<Rightarrow> let v2 = updated_core_service c r v in Inr (v2, save_service_row v2 s)
           | None \<Rightarrow> let v = new_core_service c r (new_id s) in Inr (v, insert_service_row v (bump_id s))))"

text \<open>The two lists of the migration are those of \<open>seed_catalogue\<close>.\<close>

definition map_populated_catalogue :: "'x locations_db_scheme \<Rightarrow> (error + unit) \<times> 'x locations_db_scheme" where
  "map_populated_catalogue s =
     (if services s = [] then (Inr (), s)
      else case each seed_category core_category_data s of
        (Inl e, s1) \<Rightarrow> (Inl e, s1)
      | (Inr ids, s1) \<Rightarrow>
     case each (map_core_service (zip (map fst core_category_data) ids)) core_services s1 of
        (Inl e, s2) \<Rightarrow> (Inl e, s2)
      | (Inr core, s2) \<Rightarrow>
          (Inr (), s2\<lparr>service_areas := map (offer_services (map sv_id core)) (service_areas s2)\<rparr>))"


section \<open>Lemmas: sorting\<close>

lemma distinct_insert_before:
  "distinct (map f (insert_before before r xs)) \<longleftrightarrow> f r \<notin> f ` set xs \<and> distinct (map f xs)"
  by (induction xs) auto

lemma distinct_sort_before: "distinct (map f (sort_before before xs)) \<longleftrightarrow> distinct (map f xs)"
  by (induction xs) (auto simp: distinct_insert_before)

lemma sorted_insert_before:
  "sorted (map f xs) \<Longrightarrow> sorted (map f (insert_before (\<lambda>p q. f p < f q) r xs))" for f :: "'r \<Rightarrow> nat"
  by (induction xs) auto

lemma sorted_sort_before: "sorted (map f (sort_before (\<lambda>p q. f p < f q) xs))" for f :: "'r \<Rightarrow> nat"
  by (induction xs) (simp_all add: sorted_insert_before)

lemma sort_before_first:
  "sort_before (\<lambda>p q. f p < f q) xs = r # ds \<Longrightarrow> x \<in> set xs \<Longrightarrow> f r \<le> f x" for f :: "'r \<Rightarrow> nat"
  using sorted_sort_before [of f xs] set_sort_before [of "\<lambda>p q. f p < f q" xs] by auto

section \<open>Lemmas: repaired groups of rows\<close>

definition at_most_one :: "('r \<Rightarrow> 'k) \<Rightarrow> ('r \<Rightarrow> bool) \<Rightarrow> 'r list \<Rightarrow> bool" where
  "at_most_one key P rows = (\<forall>x\<in>set rows. \<forall>y\<in>set rows. P x \<and> P y \<longrightarrow> key x = key y)"

text \<open>
  Two loops with one contract: a repaired row keeps its key and is in no group any more, so that repairing one
  group leaves every other group as small as it was.
\<close>

locale group_repair =
  fixes before :: "'r \<Rightarrow> 'r \<Rightarrow> bool"
    and key :: "'r \<Rightarrow> 'k"
    and grp :: "'g \<Rightarrow> 'r \<Rightarrow> bool"
    and repair :: "'r \<Rightarrow> 'r"
  assumes key_repair: "key (repair r) = key r"
    and repaired: "\<not> grp g (repair r)"
begin

lemma round_cases:
  assumes "unique_rows key rows"
  shows "(keep_first before key (grp g) repair rows = rows \<and> filter (grp g) rows = []) \<or>
         (\<exists>r dups. sort_before before (rev (filter (grp g) rows)) = r # dups \<and> key r \<notin> key ` set dups \<and>
            set (r # dups) = set (filter (grp g) rows) \<and>
            keep_first before key (grp g) repair rows = save_batch key repair dups rows)"
proof (cases "sort_before before (rev (filter (grp g) rows))")
  case Nil
  then have "set (filter (grp g) rows) = {}" by (metis empty_set set_rev set_sort_before)
  then have "filter (grp g) rows = []" by simp
  with Nil show ?thesis by (simp add: keep_first_def)
next
  case (Cons r dups)
  have members: "set (r # dups) = set (filter (grp g) rows)" by (metis Cons set_rev set_sort_before)
  have "distinct (map key (rev (filter (grp g) rows)))"
    using assms by (simp add: unique_rows_def distinct_map_filter rev_map [symmetric])
  then have dist: "distinct (map key (r # dups))" using distinct_sort_before Cons by metis
  have "keep_first before key (grp g) repair rows = fold (\<lambda>d. save_row key (repair d)) dups rows"
    by (simp add: keep_first_def Cons)
  also have "\<dots> = save_batch key repair dups rows"
    using members dist by (intro fold_saves [OF assms]) (auto simp: key_repair)
  finally show ?thesis using Cons members dist by auto
qed

lemma round_member:
  assumes "unique_rows key rows" and "x \<in> set (keep_first before key (grp g) repair rows)"
  shows "x \<in> set rows \<or> (\<exists>z\<in>set rows. x = repair z)"
  using round_cases [OF assms(1), of g] assms(2) by (auto simp: save_batch_def split: if_splits)

lemma round_unique:
  assumes "unique_rows key rows"
  shows "unique_rows key (keep_first before key (grp g) repair rows)"
proof -
  have "map key (save_batch key repair ds rows) = map key rows" for ds
    by (simp add: save_batch_def key_repair)
  then show ?thesis using round_cases [OF assms, of g] assms by (auto simp: unique_rows_def)
qed

lemma round_keeps_small:
  assumes "unique_rows key rows" and "at_most_one key P rows" and "\<And>z. P (repair z) \<Longrightarrow> P z"
  shows "at_most_one key P (keep_first before key (grp g) repair rows)"
proof -
  have "\<exists>z\<in>set rows. P z \<and> key z = key x" if "x \<in> set (keep_first before key (grp g) repair rows)" "P x" for x
    using round_member [OF assms(1) that(1)] that(2) assms(3) key_repair by metis
  then show ?thesis using assms(2) unfolding at_most_one_def by metis
qed

lemma round_at_most_one:
  assumes "unique_rows key rows"
  shows "at_most_one key (grp g) (keep_first before key (grp g) repair rows)"
  using round_cases [OF assms, of g]
proof (elim disjE conjE exE)
  assume "keep_first before key (grp g) repair rows = rows" "filter (grp g) rows = []"
  then show ?thesis by (simp add: at_most_one_def filter_empty_conv)
next
  fix r dups
  assume members: "set (r # dups) = set (filter (grp g) rows)"
    and batch: "keep_first before key (grp g) repair rows = save_batch key repair dups rows"
  have "x = r" if x: "x \<in> set (save_batch key repair dups rows)" "grp g x" for x
  proof -
    from x(1) obtain z where z: "z \<in> set rows" "x = (if key z \<in> key ` set dups then repair z else z)"
      by (auto simp: save_batch_def)
    with x(2) repaired have "x = z" "z \<notin> set dups" by (auto split: if_splits)
    moreover have "z \<in> set (r # dups)" using members z(1) x(2) \<open>x = z\<close> by simp
    ultimately show ?thesis by simp
  qed
  then show ?thesis unfolding batch at_most_one_def by blast
qed

lemma round_outside:
  assumes "unique_rows key rows" and "x \<in> set rows" and "\<not> grp g x"
  shows "x \<in> set (keep_first before key (grp g) repair rows)"
  using round_cases [OF assms(1), of g]
proof (elim disjE conjE exE)
  fix r dups
  assume members: "set (r # dups) = set (filter (grp g) rows)"
    and batch: "keep_first before key (grp g) repair rows = save_batch key repair dups rows"
  have "key x \<notin> key ` set dups"
  proof
    assume "key x \<in> key ` set dups"
    then obtain d where d: "d \<in> set dups" "key x = key d" by auto
    then have "d \<in> set rows" "grp g d" using members by auto
    then have "x = d" using d(2) assms(1,2) by (auto simp: unique_rows_def distinct_map dest: inj_onD)
    with \<open>grp g d\<close> assms(3) show False by simp
  qed
  then show ?thesis unfolding batch save_batch_def using assms(2) by (auto intro!: image_eqI [of _ _ x])
qed (simp add: assms(2))

lemma round_first:
  assumes "unique_rows key rows" and "x \<in> set rows" and "grp g x"
  shows "\<exists>r ds. sort_before before (rev (filter (grp g) rows)) = r # ds \<and> grp g r \<and>
           r \<in> set (keep_first before key (grp g) repair rows)"
  using round_cases [OF assms(1), of g]
proof (elim disjE conjE exE)
  assume "filter (grp g) rows = []"
  with assms(2,3) show ?thesis by (simp add: filter_empty_conv)
next
  fix r dups
  assume r: "sort_before before (rev (filter (grp g) rows)) = r # dups" "key r \<notin> key ` set dups"
    and members: "set (r # dups) = set (filter (grp g) rows)"
    and batch: "keep_first before key (grp g) repair rows = save_batch key repair dups rows"
  have "r \<in> set rows" "grp g r" using members by auto
  moreover have "r = (if key r \<in> key ` set dups then repair r else r)" by (simp only: r(2) if_False)
  ultimately have "r \<in> set (keep_first before key (grp g) repair rows)"
    unfolding batch save_batch_def set_map by (intro image_eqI)
  with r(1) \<open>grp g r\<close> show ?thesis by blast
qed

lemma round_survivor:
  assumes "unique_rows key rows" and "x \<in> set rows"
  shows "x \<in> set (keep_first before key (grp g) repair rows) \<or> repair x \<in> set (keep_first before key (grp g) repair rows)"
proof -
  have "x \<in> set (save_batch key repair ds rows) \<or> repair x \<in> set (save_batch key repair ds rows)" for ds
  proof -
    have "(if key x \<in> key ` set ds then repair x else x) \<in> set (save_batch key repair ds rows)"
      unfolding save_batch_def set_map by (rule imageI [OF assms(2)])
    then show ?thesis by (cases "key x \<in> key ` set ds") simp_all
  qed
  with round_cases [OF assms(1), of g] assms(2) show ?thesis by metis
qed

lemma rounds_unique: "unique_rows key rows \<Longrightarrow> unique_rows key (fold (\<lambda>g. keep_first before key (grp g) repair) gs rows)"
  by (induction gs arbitrary: rows) (simp_all add: round_unique)

lemma rounds_keep_small:
  "unique_rows key rows \<Longrightarrow> at_most_one key P rows \<Longrightarrow> (\<And>z. P (repair z) \<Longrightarrow> P z) \<Longrightarrow>
     at_most_one key P (fold (\<lambda>g. keep_first before key (grp g) repair) gs rows)"
  by (induction gs arbitrary: rows) (simp_all add: round_unique round_keeps_small)

lemma rounds_at_most_one:
  assumes "unique_rows key rows" and "\<forall>x\<in>set rows. grp h x \<longrightarrow> h \<in> set gs"
  shows "at_most_one key (grp h) (fold (\<lambda>g. keep_first before key (grp g) repair) gs rows)"
proof (cases "h \<in> set gs")
  case True
  then obtain us vs where gs: "gs = us @ h # vs" by (meson split_list)
  let ?rows = "fold (\<lambda>g. keep_first before key (grp g) repair) us rows"
  have u: "unique_rows key ?rows" by (rule rounds_unique [OF assms(1)])
  show ?thesis
    using rounds_keep_small [OF round_unique [OF u] round_at_most_one [OF u], of h vs] repaired by (simp add: gs)
next
  case False
  then have "at_most_one key (grp h) rows" using assms(2) by (auto simp: at_most_one_def)
  then show ?thesis using rounds_keep_small [OF assms(1), of "grp h" gs] repaired by simp
qed

end

definition advance_of :: "nat \<Rightarrow> payment \<Rightarrow> bool" where
  "advance_of k p = (p_booking p = k \<and> active_advance p)"

definition keyed_as :: "nat \<times> payment_type \<times> string \<Rightarrow> payment \<Rightarrow> bool" where
  "keyed_as g p = (p_key p \<noteq> '''' \<and> (p_booking p, p_type p, p_key p) = g)"

interpretation advances: group_repair status_before p_id advance_of "\<lambda>p. p\<lparr>p_status := PR_FAILED\<rparr>"
  by unfold_locales (simp_all add: advance_of_def active_advance_def)

interpretation keys: group_repair "\<lambda>p q. False" p_id keyed_as "\<lambda>p. p\<lparr>p_key := ''''\<rparr>"
  by unfold_locales (simp_all add: keyed_as_def)

lemma fail_duplicates_round:
  "fail_duplicates k = keep_first status_before p_id (advance_of k) (\<lambda>p. p\<lparr>p_status := PR_FAILED\<rparr>)"
  by (simp add: fail_duplicates_def advance_of_def [abs_def])

lemma clear_duplicates_round:
  "clear_duplicates g = keep_first (\<lambda>p q. False) p_id (keyed_as g) (\<lambda>p. p\<lparr>p_key := ''''\<rparr>)"
  by (simp add: clear_duplicates_def keyed_as_def [abs_def])

fun status_rank :: "record_status \<Rightarrow> nat" where
  "status_rank PR_SUCCESS = 0"
| "status_rank PR_REFUNDED = 1"
| "status_rank PR_PENDING = 2"
| "status_rank PR_FAILED = 3"
| "status_rank PR_CREATED = 4"

lemma status_before_rank: "status_before = (\<lambda>p q. status_rank (p_status p) < status_rank (p_status q))"
proof -
  have "str_less (record_status_str b) (record_status_str a) \<longleftrightarrow> status_rank a < status_rank b" for a b
    by (cases a; cases b) (code_simp, simp?)+
  then show ?thesis by (simp add: status_before_def fun_eq_iff)
qed

text \<open>The advance that stands for a booking: a successful one if there was one.\<close>

definition standing :: "bool \<Rightarrow> nat \<Rightarrow> payment list \<Rightarrow> bool" where
  "standing paid k ps = (\<exists>p\<in>set ps. advance_of k p \<and> (paid \<longrightarrow> p_status p = PR_SUCCESS))"

lemma fail_duplicates_standing:
  assumes "unique_rows p_id ps" and "standing paid k ps"
  shows "standing paid k (fail_duplicates h ps)"
proof -
  obtain p where p: "p \<in> set ps" "advance_of k p" "paid \<longrightarrow> p_status p = PR_SUCCESS"
    using assms(2) by (auto simp: standing_def)
  show ?thesis
  proof (cases "h = k")
    case True
    obtain r ds where r: "sort_before status_before (rev (filter (advance_of k) ps)) = r # ds" "advance_of k r"
      "r \<in> set (fail_duplicates h ps)"
      using advances.round_first [OF assms(1) p(1,2)] True by (auto simp: fail_duplicates_round)
    have "status_rank (p_status r) \<le> status_rank (p_status p)"
      using sort_before_first [of "\<lambda>p. status_rank (p_status p)", OF r(1) [unfolded status_before_rank]] p(1,2) by simp
    then have "paid \<longrightarrow> p_status r = PR_SUCCESS" using p(3) by (cases "p_status r") auto
    with r show ?thesis by (auto simp: standing_def)
  next
    case False
    then have "\<not> advance_of h p" using p(2) by (auto simp: advance_of_def)
    from advances.round_outside [OF assms(1) p(1) this] p show ?thesis
      by (auto simp: standing_def fail_duplicates_round)
  qed
qed

lemma clear_duplicates_standing:
  assumes "unique_rows p_id ps" and "standing paid k ps"
  shows "standing paid k (clear_duplicates g ps)"
proof -
  obtain p where p: "p \<in> set ps" "advance_of k p" "paid \<longrightarrow> p_status p = PR_SUCCESS"
    using assms(2) by (auto simp: standing_def)
  have "p \<in> set (clear_duplicates g ps) \<or> p\<lparr>p_key := ''''\<rparr> \<in> set (clear_duplicates g ps)"
    using keys.round_survivor [OF assms(1) p(1)] by (simp add: clear_duplicates_round)
  moreover have "advance_of k (p\<lparr>p_key := ''''\<rparr>)" "paid \<longrightarrow> p_status (p\<lparr>p_key := ''''\<rparr>) = PR_SUCCESS"
    using p by (simp_all add: advance_of_def active_advance_def)
  ultimately show ?thesis using p unfolding standing_def by blast
qed

lemma fails_standing: "unique_rows p_id ps \<Longrightarrow> standing paid k ps \<Longrightarrow> standing paid k (fold fail_duplicates hs ps)"
proof (induction hs arbitrary: ps)
  case (Cons h hs)
  then show ?case
    using fail_duplicates_standing advances.round_unique [OF Cons.prems(1), of h] by (simp add: fail_duplicates_round)
qed simp

lemma clears_standing: "unique_rows p_id ps \<Longrightarrow> standing paid k ps \<Longrightarrow> standing paid k (fold clear_duplicates gs ps)"
proof (induction gs arbitrary: ps)
  case (Cons g gs)
  then show ?case
    using clear_duplicates_standing keys.round_unique [OF Cons.prems(1), of g] by (simp add: clear_duplicates_round)
qed simp

section \<open>Lemmas: the catalogue\<close>

lemma map_core_service_seeds:
  assumes ok: "seeds_ok s" and good: "sound_core cats i"
  shows "map_core_service cats i s = seed_core_service cats i s"
proof -
  obtain a s' where run: "seed_core_service cats i s = Inr (a, s')"
    using core_seeding.put_ok [OF assms] by blast
  have free: "get_service (new_id s) (bump_id s) = None"
    using ok by (auto simp: seeds_ok_def keyed_def get_service_def bump_id_def new_id_def find_row_None_iff list_all_iff)
  show ?thesis
  proof (cases "service_by_slug (cs_slug i) s")
    case None
    with run free show ?thesis
      by (auto simp: map_core_service_def seed_core_service_def save_service_def Let_def new_core_service_def
          blank_service_def split: option.splits list.splits)
  next
    case (Some v)
    then have "get_service (sv_id v) s \<noteq> None"
      by (auto simp: service_by_slug_def get_service_def find_row_None_iff dest: find_row_SomeD)
    with run Some show ?thesis
      by (auto simp: map_core_service_def seed_core_service_def save_service_def Let_def updated_core_service_def
          split: option.splits list.splits)
  qed
qed

interpretation core_mapping:
  natural_upsert service_by_slug cs_slug "map_core_service cats" seeds_ok "sound_core cats" "core_seeded cats"
    "\<lambda>s. (categories s, service_areas s)" for cats
  by unfold_locales (simp only: map_core_service_seeds core_seeding.put_ok)

section \<open>Properties\<close>

text \<open>C38: The migration prepares the payments for the constraints that follow it: whatever duplicates there were,
  afterwards no booking has two active advances and no two payments of a booking and type share a key; and
  no booking loses its advance, which is a successful one if it had any.\<close>

theorem repaired_payments_meet_constraints:
  assumes "unique_rows p_id ps"
  shows "let ps' = resolve_existing_payment_duplicates ps in
         (\<forall>p\<in>set ps'. \<forall>q\<in>set ps'. p_id p \<noteq> p_id q \<and> p_booking p = p_booking q \<longrightarrow>
            \<not> (active_advance p \<and> active_advance q) \<and>
            \<not> (p_key p \<noteq> '''' \<and> p_key p = p_key q \<and> p_type p = p_type q)) \<and>
         (\<forall>p\<in>set ps. active_advance p \<longrightarrow>
            (\<exists>q\<in>set ps'. p_booking q = p_booking p \<and> active_advance q \<and>
               (p_status p = PR_SUCCESS \<longrightarrow> p_status q = PR_SUCCESS)))"
proof -
  define ps1 where "ps1 = fold fail_duplicates (map p_booking (rev (filter active_advance ps))) ps"
  define gs where "gs = map (\<lambda>p. (p_booking p, p_type p, p_key p)) (rev (filter (\<lambda>p. p_key p \<noteq> '''') ps1))"
  define ps' where "ps' = fold clear_duplicates gs ps1"
  have res: "resolve_existing_payment_duplicates ps = ps'"
    by (simp add: resolve_existing_payment_duplicates_def ps1_def gs_def ps'_def Let_def)
  have u1: "unique_rows p_id ps1"
    using advances.rounds_unique [OF assms] by (simp add: ps1_def fail_duplicates_round [abs_def])
  have advance: "at_most_one p_id (advance_of k) ps'" for k
  proof -
    have "at_most_one p_id (advance_of k) ps1"
      using advances.rounds_at_most_one [OF assms, of k "map p_booking (rev (filter active_advance ps))"]
      by (auto simp: ps1_def fail_duplicates_round [abs_def] advance_of_def)
    then show ?thesis
      unfolding ps'_def clear_duplicates_round [abs_def]
      by (rule keys.rounds_keep_small [OF u1]) (simp add: advance_of_def active_advance_def)
  qed
  have key: "at_most_one p_id (keyed_as g) ps'" for g
    using keys.rounds_at_most_one [OF u1, of g gs]
    by (auto simp: ps'_def clear_duplicates_round [abs_def] keyed_as_def gs_def)
  have apart: "\<not> (active_advance p \<and> active_advance q) \<and> \<not> (p_key p \<noteq> '''' \<and> p_key p = p_key q \<and> p_type p = p_type q)"
    if "p \<in> set ps'" "q \<in> set ps'" "p_id p \<noteq> p_id q" "p_booking p = p_booking q" for p q
  proof -
    let ?g = "(p_booking p, p_type p, p_key p)"
    have "\<not> (advance_of (p_booking p) p \<and> advance_of (p_booking p) q)"
      using advance [of "p_booking p"] that(1-3) unfolding at_most_one_def by blast
    moreover have "\<not> (keyed_as ?g p \<and> keyed_as ?g q)"
      using key [of ?g] that(1-3) unfolding at_most_one_def by blast
    ultimately show ?thesis using that(4) by (simp add: advance_of_def keyed_as_def) metis
  qed
  have stands: "\<exists>q\<in>set ps'. p_booking q = p_booking p \<and> active_advance q \<and> (p_status p = PR_SUCCESS \<longrightarrow> p_status q = PR_SUCCESS)"
    if "p \<in> set ps" "active_advance p" for p
  proof -
    have "standing (p_status p = PR_SUCCESS) (p_booking p) ps" using that by (auto simp: standing_def advance_of_def)
    then have "standing (p_status p = PR_SUCCESS) (p_booking p) ps'"
      unfolding ps'_def by (intro clears_standing [OF u1]) (simp add: ps1_def fails_standing [OF assms])
    then show ?thesis by (auto simp: standing_def advance_of_def)
  qed
  have "\<forall>p\<in>set ps'. \<forall>q\<in>set ps'. p_id p \<noteq> p_id q \<and> p_booking p = p_booking q \<longrightarrow>
      \<not> (active_advance p \<and> active_advance q) \<and> \<not> (p_key p \<noteq> '''' \<and> p_key p = p_key q \<and> p_type p = p_type q)"
    by (intro ballI impI, elim conjE) (rule apart)
  moreover have "\<forall>p\<in>set ps. active_advance p \<longrightarrow>
      (\<exists>q\<in>set ps'. p_booking q = p_booking p \<and> active_advance q \<and> (p_status p = PR_SUCCESS \<longrightarrow> p_status q = PR_SUCCESS))"
    by (intro ballI impI) (rule stands)
  ultimately show ?thesis unfolding res Let_def by (rule conjI)
qed

definition twice_paid :: "payment list" where
  "twice_paid = [sample_payment 1 PR_SUCCESS, sample_payment 2 PR_SUCCESS, (sample_payment 3 PR_CREATED)\<lparr>p_key := ''''\<rparr>]"

theorem repaired_payments_meet_constraints_witness:
  "\<exists>q\<in>set (resolve_existing_payment_duplicates twice_paid). active_advance q \<and> p_status q = PR_SUCCESS"
proof -
  have "unique_rows p_id twice_paid" by code_simp
  moreover have "sample_payment 1 PR_SUCCESS \<in> set twice_paid"
    by (simp add: twice_paid_def)
  moreover have "active_advance (sample_payment 1 PR_SUCCESS)" by code_simp
  ultimately obtain q where "q \<in> set (resolve_existing_payment_duplicates twice_paid)" "active_advance q"
      "p_status (sample_payment 1 PR_SUCCESS) = PR_SUCCESS \<longrightarrow> p_status q = PR_SUCCESS"
    using conjunct2 [OF repaired_payments_meet_constraints [of twice_paid, unfolded Let_def]] by blast
  then show ?thesis by (auto simp: sample_payment_def)
qed

text \<open>Of two advances that were both paid, the migration calls the older one failed: the money received for it
  is in no sum any more, and it can no longer be refunded.\<close>

theorem second_payment_is_called_failed:
  "map p_status twice_paid = [PR_SUCCESS, PR_SUCCESS, PR_CREATED] \<and>
   map (\<lambda>p. (p_id p, p_status p, p_key p)) (resolve_existing_payment_duplicates twice_paid) =
     [(1, PR_FAILED, ''''), (2, PR_SUCCESS, ''payment-7''), (3, PR_FAILED, '''')]"
  by code_simp

text \<open>Mapping the catalogue onto the core services changes a populated catalogue like the command that loads it:
  it runs to its end, keeps the price list sound, makes every core service active under its name, and every
  active area offers all of them, beside what it offered.\<close>

theorem mapping_offers_core_services:
  assumes "seeds_ok s" and "services s \<noteq> []"
  shows "\<exists>s' ids. map_populated_catalogue s = (Inr (), s') \<and> seeds_ok s' \<and>
           list_all2 (\<lambda>r k. \<exists>v. service_by_slug (cs_slug r) s' = Some v \<and> sv_id v = k \<and> sv_active v \<and>
             sv_name v = cs_name r) core_services ids \<and>
           service_areas s' = map (offer_services ids) (service_areas s) \<and>
           (\<forall>a\<in>set (service_areas s'). ar_active a \<longrightarrow> set ids \<subseteq> set (ar_services a))"
proof -
  obtain ids s1 where s1: "each seed_category core_category_data s = (Inr ids, s1)" "seeds_ok s1"
      "(services s1, service_areas s1) = (services s, service_areas s)" "length ids = 3"
    using category_seeding.each_ok [OF assms(1), of core_category_data]
    by (auto simp: list_all_iff core_category_data_def dest!: list_all2_lengthD)
  let ?cats = "zip (map fst core_category_data) ids"
  obtain a b c where "ids = [a, b, c]" using s1(4) by (auto simp: numeral_3_eq_3 length_Suc_conv)
  then have good: "list_all (sound_core ?cats) core_services"
    using core_services_sound [of a b c] by (simp add: core_category_data_def)
  obtain core s2 where s2: "each (map_core_service ?cats) core_services s1 = (Inr core, s2)" "seeds_ok s2"
      "(categories s2, service_areas s2) = (categories s1, service_areas s1)"
      "list_all2 (\<lambda>r v. \<exists>w. service_by_slug (cs_slug r) s2 = Some w \<and>
         core_seeded ?cats r (service_by_slug (cs_slug r) s1) v w) core_services core"
    using core_mapping.each_ok [OF s1(2) good core_slugs_distinct] by blast
  let ?s' = "s2\<lparr>service_areas := map (offer_services (map sv_id core)) (service_areas s2)\<rparr>"
  have run: "map_populated_catalogue s = (Inr (), ?s')"
    using assms(2) s1(1) s2(1) by (simp add: map_populated_catalogue_def)
  have "list_all2 (\<lambda>r v. service_by_slug (cs_slug r) ?s' = Some v \<and> sv_active v \<and> sv_name v = cs_name r) core_services core"
    using s2(4) by (rule list.rel_mono_strong)
      (auto simp: core_seeded_def updated_core_service_def new_core_service_def service_by_slug_def split: option.splits)
  then have "list_all2 (\<lambda>r k. \<exists>v. service_by_slug (cs_slug r) ?s' = Some v \<and> sv_id v = k \<and> sv_active v \<and>
      sv_name v = cs_name r) core_services (map sv_id core)"
    by (auto simp: list_all2_map2 elim!: list.rel_mono_strong)
  then show ?thesis
    using run offer_services_ok [OF s2(2)] s2(3) s1(3)
    by (intro exI [of _ ?s'] exI [of _ "map sv_id core"]) (auto simp: offer_services_def)
qed

theorem mapping_offers_core_services_witness:
  "\<exists>s' ids. map_populated_catalogue sample_locations_db = (Inr (), s') \<and> seeds_ok s' \<and> length ids = 11 \<and>
     (\<forall>a\<in>set (service_areas s'). ar_active a \<longrightarrow> set ids \<subseteq> set (ar_services a))"
proof -
  have "seeds_ok sample_locations_db" "services sample_locations_db \<noteq> []" "length core_services = 11" by code_simp+
  from mapping_offers_core_services [OF this(1,2)] obtain s' ids where
    "map_populated_catalogue sample_locations_db = (Inr (), s')" "seeds_ok s'" "length core_services = length ids"
    "\<forall>a\<in>set (service_areas s'). ar_active a \<longrightarrow> set ids \<subseteq> set (ar_services a)"
    by (elim exE conjE) (rule that, assumption+, drule list_all2_lengthD, assumption+)
  with \<open>length core_services = 11\<close> show ?thesis by (intro exI [of _ s'] exI [of _ ids]) simp
qed

text \<open>What could be booked before areas had lists of services can be booked after the migration that gives them
  lists: every area supports every active service, even once its list is in force.\<close>

theorem existing_coverage_is_preserved:
  assumes "a \<in> set (service_areas (preserve_existing_service_coverage s))" and "v \<in> set (services s)" and "sv_active v"
  shows "supports_service a v \<and> supports_service (a\<lparr>ar_services_configured := True\<rparr>) v"
  using assms by (auto simp: preserve_existing_service_coverage_def supports_service_def Let_def)

theorem existing_coverage_is_preserved_witness:
  "\<exists>a\<in>set (service_areas (preserve_existing_service_coverage sample_locations_db)).
     \<exists>v\<in>set (services sample_locations_db). supports_service (a\<lparr>ar_services_configured := True\<rparr>) v"
proof -
  let ?s = "sample_locations_db"
  have "service_areas (preserve_existing_service_coverage ?s) \<noteq> []" "services ?s \<noteq> []" "list_all sv_active (services ?s)"
    by code_simp+
  then obtain a as v vs where rows: "service_areas (preserve_existing_service_coverage ?s) = a # as" "services ?s = v # vs"
      "sv_active v"
    by (auto simp: neq_Nil_conv)
  then have "supports_service (a\<lparr>ar_services_configured := True\<rparr>) v"
    using existing_coverage_is_preserved [of a ?s v] by simp
  with rows show ?thesis by (metis list.set_intros(1))
qed

text \<open>Switching off the areas outside of the launch cities does not touch the launch: after the areas are loaded
  and the migration has run, every launch area is active.\<close>

theorem launch_areas_survive_migration:
  assumes "seeds_ok s" and "r \<in> set launch_service_areas"
  shows "\<exists>a. area_at (launch_place r) (deactivate_non_launch_cities (snd (seed_service_areas keep s))) = Some a \<and>
             ar_active a"
proof -
  let ?f = "\<lambda>a. if ar_city a \<in> set launch_cities then a else a\<lparr>ar_active := False\<rparr>"
  obtain as s' a where run: "seed_service_areas keep s = (Inr as, s')"
    and a: "area_at (launch_place r) s' = Some a" "ar_active a" "ar_city a = lc_city r"
    using launch_areas_are_seeded [OF assms(1), of keep] assms(2) by (elim exE conjE) (drule (1) bspec, elim exE conjE, rule that)
  have "list_all (\<lambda>r. lc_city r \<in> set launch_cities) launch_service_areas" by code_simp
  then have "ar_city a \<in> set launch_cities" using assms(2) a(3) by (simp add: list_all_iff)
  moreover have "area_at (launch_place r) (deactivate_non_launch_cities s') = map_option ?f (area_at (launch_place r) s')"
    unfolding area_at_place deactivate_non_launch_cities_def by (simp add: find_row_map area_place_def)
  ultimately show ?thesis using a(1,2) by (simp add: run)
qed

theorem launch_areas_survive_migration_witness:
  "\<exists>a. area_at (launch_place (hd launch_service_areas))
         (deactivate_non_launch_cities (snd (seed_service_areas False sample_locations_db))) = Some a \<and> ar_active a"
proof -
  have "seeds_ok sample_locations_db" by code_simp
  moreover have "launch_service_areas \<noteq> []" by code_simp
  then have "hd launch_service_areas \<in> set launch_service_areas" by simp
  ultimately show ?thesis by (rule launch_areas_survive_migration)
qed

end
