(* ===== verification/Row_Json.thy ===== *)
theory Row_Json
  imports Admin_Lists
begin

text \<open>
  The rows as the API shows them: the serializers of reviews, payments, notifications, audit events,
  leaves, leads, areas, addresses, slots, closures, users and customers. Together with the lists of \<open>Admin_Lists\<close> they say what each reader is shown.
\<close>

section \<open>Fields\<close>

definition opt_key_json :: "nat option \<Rightarrow> json" where
  "opt_key_json k = (case k of None \<Rightarrow> JNull | Some x \<Rightarrow> key_json x)"

definition opt_str_json :: "string option \<Rightarrow> json" where
  "opt_str_json x = (case x of None \<Rightarrow> JNull | Some y \<Rightarrow> JStr y)"

definition opt_money_json :: "money option \<Rightarrow> json" where
  "opt_money_json m = (case m of None \<Rightarrow> JNull | Some x \<Rightarrow> money_json x)"

text \<open>
  A read-only field with a dotted source is left out of the answer when the reference it goes
  through is null.
\<close>

definition dotted_field :: "string \<Rightarrow> string option \<Rightarrow> (string \<times> json) list" where
  "dotted_field name v = (case v of None \<Rightarrow> [] | Some x \<Rightarrow> [(name, JStr x)])"

definition phone_of :: "'x accounts_db_scheme \<Rightarrow> nat option \<Rightarrow> string option" where
  "phone_of s k = (case k of None \<Rightarrow> None | Some u \<Rightarrow> map_option u_phone (get_user u s))"

definition number_of :: "'x bookings_db_scheme \<Rightarrow> nat option \<Rightarrow> string option" where
  "number_of s k = (case k of None \<Rightarrow> None | Some b \<Rightarrow> map_option b_number (get_booking b s))"

definition times_of :: "(nat \<Rightarrow> timestamp) \<Rightarrow> (nat \<Rightarrow> timestamp) \<Rightarrow> nat \<Rightarrow> (string \<times> json) list" where
  "times_of created updated k =
     [(''created_at'', time_json (Some (created k))), (''updated_at'', time_json (Some (updated k)))]"

section \<open>Reviews\<close>

text \<open>\<open>get_customer\<close> and \<open>get_technician\<close>: the key and the phone number.\<close>

definition user_ref :: "'x accounts_db_scheme \<Rightarrow> nat option \<Rightarrow> json" where
  "user_ref s k =
     (case k of
        None \<Rightarrow> JNull
      | Some u \<Rightarrow> JObj [(''id'', key_json u), (''phone_number'', opt_str_json (phone_of s k))])"

definition review_fields ::
  "(nat \<Rightarrow> timestamp) \<Rightarrow> (nat \<Rightarrow> timestamp) \<Rightarrow> 'x reviews_db_scheme \<Rightarrow> review \<Rightarrow> (string \<times> json) list" where
  "review_fields created updated s r =
     [(''id'', key_json (rv_id r)), (''booking'', key_json (rv_booking r)),
      (''customer'', user_ref s (Some (rv_customer r))), (''technician'', user_ref s (rv_technician r)),
      (''rating'', JNum (rv_rating r)), (''comment'', JStr (rv_comment r)),
      (''is_visible'', JBool (rv_visible r))] @ times_of created updated (rv_id r)"

definition review_json ::
  "(nat \<Rightarrow> timestamp) \<Rightarrow> (nat \<Rightarrow> timestamp) \<Rightarrow> 'x reviews_db_scheme \<Rightarrow> review \<Rightarrow> json" where
  "review_json created updated s r = JObj (review_fields created updated s r)"

definition admin_review_json ::
  "(nat \<Rightarrow> timestamp) \<Rightarrow> (nat \<Rightarrow> timestamp) \<Rightarrow> 'x reviews_db_scheme \<Rightarrow> review \<Rightarrow> json" where
  "admin_review_json created updated s r =
     JObj (review_fields created updated s r @
       dotted_field ''booking_number'' (number_of s (Some (rv_booking r))) @
       dotted_field ''service_name''
         (case get_booking (rv_booking r) s of
            None \<Rightarrow> None | Some b \<Rightarrow> map_option sv_name (get_service (b_service b) s)))"

text \<open>\<open>ServiceReviewListView\<close>, which asks for no permission.\<close>

definition service_review_list ::
  "(nat \<Rightarrow> timestamp) \<Rightarrow> (nat \<Rightarrow> timestamp) \<Rightarrow> nat \<Rightarrow> 'x reviews_db_scheme \<Rightarrow> json" where
  "service_review_list created updated sv s = JList (map (review_json created updated s) (service_reviews sv s))"

section \<open>Payments, notifications, audit events\<close>

fun provider_str :: "payment_provider \<Rightarrow> string" where
  "provider_str RAZORPAY = ''RAZORPAY''"
| "provider_str OFFLINE = ''OFFLINE''"

definition payment_json ::
  "(nat \<Rightarrow> timestamp) \<Rightarrow> (nat \<Rightarrow> timestamp) \<Rightarrow> 'x payments_db_scheme \<Rightarrow> payment \<Rightarrow> json" where
  "payment_json created updated s p =
     JObj ([(''id'', key_json (p_id p)), (''booking'', key_json (p_booking p))] @
       dotted_field ''booking_number'' (number_of s (Some (p_booking p))) @
       dotted_field ''customer_phone''
         (case get_booking (p_booking p) s of None \<Rightarrow> None | Some b \<Rightarrow> phone_of s (Some (b_customer b))) @
       [(''provider'', JStr (provider_str (p_provider p))),
        (''provider_order_id'', opt_str_json (p_order_id p)),
        (''provider_payment_id'', opt_str_json (p_payment_id p)),
        (''provider_refund_id'', opt_str_json (p_refund_id p)),
        (''parent_payment'', opt_key_json (p_parent p)), (''amount'', money_json (p_amount p)),
        (''currency'', JStr (p_currency p)), (''payment_type'', JStr (payment_type_str (p_type p))),
        (''status'', JStr (record_status_str (p_status p))),
        (''signature_verified'', JBool (p_signature_verified p)),
        (''idempotency_key'', JStr (p_key p)), (''paid_at'', time_json (p_paid_at p)),
        (''refunded_at'', time_json (p_refunded_at p))] @ times_of created updated (p_id p))"

definition notification_json ::
  "(nat \<Rightarrow> timestamp) \<Rightarrow> (nat \<Rightarrow> timestamp) \<Rightarrow> 'x bookings_db_scheme \<Rightarrow> notification \<Rightarrow> json" where
  "notification_json created updated s n =
     JObj ([(''id'', key_json (n_id n)), (''recipient'', opt_key_json (n_recipient n))] @
       dotted_field ''recipient_phone'' (phone_of s (n_recipient n)) @
       [(''booking'', opt_key_json (n_booking n))] @
       dotted_field ''booking_number'' (number_of s (n_booking n)) @
       [(''event'', JStr (event_str (n_event n))), (''channel'', JStr (channel_str (n_channel n))),
        (''status'', JStr (notification_status_str (n_status n))), (''title'', JStr (n_title n)),
        (''message'', JStr (n_message n)), (''provider'', JStr (n_provider n)),
        (''provider_message_id'', JStr (n_provider_message_id n)),
        (''send_attempts'', JNum (int (n_send_attempts n))), (''payload'', n_payload n),
        (''error_message'', JStr (n_error_message n)), (''sent_at'', time_json (n_sent_at n))] @
       times_of created updated (n_id n))"

definition audit_log_json ::
  "(nat \<Rightarrow> timestamp) \<Rightarrow> (nat \<Rightarrow> timestamp) \<Rightarrow> 'x accounts_db_scheme \<Rightarrow> audit_log \<Rightarrow> json" where
  "audit_log_json created updated s a =
     JObj ([(''id'', key_json (a_id a)), (''actor'', opt_key_json (a_actor a))] @
       dotted_field ''actor_phone'' (phone_of s (a_actor a)) @
       [(''action'', JStr (audit_action_str (a_action a))),
        (''resource_type'', JStr (a_resource_type a)), (''resource_id'', JStr (a_resource_id a)),
        (''request_id'', JStr (a_request_id a)), (''ip_address'', opt_str_json (a_ip_address a)),
        (''user_agent'', JStr (a_user_agent a)), (''metadata'', a_metadata a)] @
       times_of created updated (a_id a))"

section \<open>Leaves\<close>

definition leave_status :: "leave \<Rightarrow> string" where
  "leave_status l =
     (if \<not> lv_active l then ''REJECTED''
      else if lv_approved_by l \<noteq> None then ''APPROVED'' else ''PENDING'')"

definition leave_json ::
  "(nat \<Rightarrow> timestamp) \<Rightarrow> (nat \<Rightarrow> timestamp) \<Rightarrow> 'x technicians_db_scheme \<Rightarrow> leave \<Rightarrow> json" where
  "leave_json created updated s l =
     JObj ([(''id'', key_json (lv_id l)), (''technician'', key_json (lv_technician l))] @
       dotted_field ''technician_name'' (map_option t_display_name (get_technician (lv_technician l) s)) @
       dotted_field ''technician_employee_code'' (map_option t_code (get_technician (lv_technician l) s)) @
       [(''start_at'', time_json (Some (lv_start l))), (''end_at'', time_json (Some (lv_end l))),
        (''reason'', JStr (lv_reason l)), (''status'', JStr (leave_status l)),
        (''approved_by'', opt_key_json (lv_approved_by l))] @
       dotted_field ''approved_by_phone'' (phone_of s (lv_approved_by l)) @
       [(''review_note'', JStr (lv_review_note l)), (''is_active'', JBool (lv_active l))] @
       times_of created updated (lv_id l))"

section \<open>Leads\<close>

fun temperature_str :: "lead_temperature \<Rightarrow> string" where
  "temperature_str HOT = ''HOT''"
| "temperature_str WARM = ''WARM''"
| "temperature_str COLD = ''COLD''"

fun lead_action_str :: "lead_action \<Rightarrow> string" where
  "lead_action_str LA_SERVICE_VIEWED = ''SERVICE_VIEWED''"
| "lead_action_str LA_ADDED_TO_CART = ''ADDED_TO_CART''"
| "lead_action_str LA_CHECKOUT_STARTED = ''CHECKOUT_STARTED''"
| "lead_action_str LA_BOOKING_CREATED = ''BOOKING_CREATED''"
| "lead_action_str LA_PAYMENT_LINK_CREATED = ''PAYMENT_LINK_CREATED''"
| "lead_action_str LA_PAYMENT_LINK_SENT = ''PAYMENT_LINK_SENT''"
| "lead_action_str LA_PAYMENT_CONFIRMED = ''PAYMENT_CONFIRMED''"
| "lead_action_str LA_STATUS_CHANGED = ''STATUS_CHANGED''"
| "lead_action_str LA_CALL_COMPLETED = ''CALL_COMPLETED''"
| "lead_action_str LA_NOTE_ADDED = ''NOTE_ADDED''"
| "lead_action_str LA_LEAD_ASSIGNED = ''LEAD_ASSIGNED''"
| "lead_action_str LA_LEAD_MERGED = ''LEAD_MERGED''"
| "lead_action_str LA_MANUAL_PAYMENT_RECORDED = ''MANUAL_PAYMENT_RECORDED''"

definition lead_history_json :: "(nat \<Rightarrow> timestamp) \<Rightarrow> lead_history \<Rightarrow> json" where
  "lead_history_json created h =
     JObj [(''id'', key_json (lh_id h)),
           (''from_status'', JStr (case lh_from h of None \<Rightarrow> '''' | Some st \<Rightarrow> lead_status_str st)),
           (''to_status'', JStr (lead_status_str (lh_to h))),
           (''changed_by'', opt_key_json (lh_changed_by h)), (''notes'', JStr (lh_notes h)),
           (''created_at'', time_json (Some (created (lh_id h))))]"

definition lead_activity_json ::
  "(nat \<Rightarrow> timestamp) \<Rightarrow> 'x accounts_db_scheme \<Rightarrow> lead_activity \<Rightarrow> json" where
  "lead_activity_json created s a =
     JObj ([(''id'', key_json (la_id a)), (''action'', JStr (lead_action_str (la_action a))),
            (''previous_value'', la_previous a), (''new_value'', la_new a), (''note'', JStr (la_note a)),
            (''performed_by'', opt_key_json (la_performed_by a))] @
       dotted_field ''performed_by_phone'' (phone_of s (la_performed_by a)) @
       [(''ip_address'', opt_str_json (la_ip a)), (''created_at'', time_json (Some (created (la_id a))))])"

text \<open>The computed fields. An amount that is the number 0 and not a decimal is shown as a number.\<close>

definition lead_service :: "lead \<Rightarrow> 'x catalogue_db_scheme \<Rightarrow> service option" where
  "lead_service l s = (case l_service l of None \<Rightarrow> None | Some k \<Rightarrow> get_service k s)"

definition lead_booking_number :: "'x bookings_db_scheme \<Rightarrow> lead \<Rightarrow> string" where
  "lead_booking_number s l =
     (case (case l_converted_booking l of Some k \<Rightarrow> Some k | None \<Rightarrow> l_pending_booking l) of
        None \<Rightarrow> ''''
      | Some k \<Rightarrow> (case get_booking k s of None \<Rightarrow> '''' | Some b \<Rightarrow> b_number b))"

definition lead_number :: "lead \<Rightarrow> string" where
  "lead_number l = ''LD-'' @ upper_str (takeWhile (\<lambda>c. c \<noteq> CHR ''-'') (nat_str (l_id l)))"

definition lead_line_items :: "'x catalogue_db_scheme \<Rightarrow> lead \<Rightarrow> json" where
  "lead_line_items s l =
     JList (case lead_service l s of
              None \<Rightarrow> []
            | Some v \<Rightarrow>
                [JObj [(''service_id'', key_json (sv_id v)),
                       (''package_name'', JStr (or_str (l_package l) (sv_name v))), (''quantity'', JNum 1),
                       (''unit_cost'', money_json (case l_quoted l of Some q \<Rightarrow> q | None \<Rightarrow> effective_price v))]])"

definition amount_json :: "bool \<Rightarrow> money \<Rightarrow> json" where
  "amount_json decimal m = (if decimal then money_json m else JNum 0)"

definition lead_json ::
  "(nat \<Rightarrow> timestamp) \<Rightarrow> (nat \<Rightarrow> timestamp) \<Rightarrow> 'x leads_db_scheme \<Rightarrow> lead \<Rightarrow> json" where
  "lead_json created updated s l =
     (let served = lead_service l s \<noteq> None; quoted = l_quoted l \<noteq> None in
      JObj
       ([(''id'', key_json (l_id l)), (''lead_number'', JStr (lead_number l)),
         (''customer'', opt_key_json (l_customer l)), (''customer_name'', JStr (l_customer_name l)),
         (''primary_mobile'', JStr (l_mobile l)), (''alternate_mobile'', JStr (l_alternate_mobile l)),
         (''email'', JStr (l_email l)), (''required_service'', opt_key_json (l_service l))] @
        dotted_field ''service_name'' (map_option sv_name (lead_service l s)) @
        [(''package'', JStr (l_package l)), (''address'', JStr (l_address l)), (''city'', JStr (l_city l)),
         (''pincode'', JStr (l_pincode l)), (''source'', JStr (source_str (l_source l))),
         (''status'', JStr (lead_status_str (l_status l))),
         (''funnel_status'', JStr (funnel_str (l_funnel l))),
         (''payment_status'', JStr (lead_payment_str (l_payment l))),
         (''lead_temperature'', JStr (temperature_str (l_temperature l))),
         (''assigned_staff'', opt_key_json (l_staff l))] @
        dotted_field ''assigned_staff_phone'' (phone_of s (l_staff l)) @
        [(''preferred_callback_at'', time_json (l_callback_at l)),
         (''preferred_date'', opt_str_json (map_option date_str (l_preferred_date l))),
         (''preferred_slot'', JStr (l_preferred_slot l)), (''quoted_amount'', opt_money_json (l_quoted l)),
         (''advance_amount'', opt_money_json (l_advance l)), (''balance_amount'', opt_money_json (l_balance l)),
         (''payment_link_url'', JStr (l_link_url l)), (''payment_link_provider_id'', JStr (l_link_provider_id l)),
         (''payment_link_expires_at'', time_json (l_link_expires_at l)),
         (''last_contacted_at'', time_json (l_last_contacted_at l)),
         (''follow_up_at'', time_json (l_follow_up_at l)), (''customer_notes'', JStr (l_customer_notes l)),
         (''internal_notes'', JStr (l_internal_notes l)), (''admin_notes'', JStr (l_admin_notes l)),
         (''lost_reason'', JStr (l_lost_reason l)), (''first_seen_at'', time_json (Some (l_first_seen_at l))),
         (''last_activity_at'', time_json (Some (l_last_activity_at l))),
         (''converted_booking'', opt_key_json (l_converted_booking l)),
         (''pending_booking'', opt_key_json (l_pending_booking l)),
         (''booking_number'', JStr (lead_booking_number s l)), (''line_items'', lead_line_items s l),
         (''subtotal'', amount_json (quoted \<or> served) (lead_subtotal l s)), (''tax_amount'', JNum 0),
         (''training_fee'', amount_json served (lead_training_fee l s)),
         (''total_amount'', amount_json (quoted \<or> served) (lead_total l s)),
         (''created_by'', opt_key_json (l_created_by l))] @ times_of created updated (l_id l) @
        [(''status_history'', JList (map (lead_history_json created)
                                       (filter (\<lambda>h. lh_lead h = l_id l) (lead_histories s)))),
         (''activities'', JList (map (lead_activity_json created s)
                                   (filter (\<lambda>a. la_lead a = l_id l) (lead_activities s))))]))"

section \<open>Areas, addresses, slots, closures\<close>

definition area_fields :: "service_area \<Rightarrow> (string \<times> json) list" where
  "area_fields a =
     [(''id'', key_json (ar_id a)), (''name'', JStr (ar_name a)), (''city'', JStr (ar_city a)),
      (''state'', JStr (ar_state a)), (''country'', JStr (ar_country a)),
      (''postal_code'', JStr (ar_postal_code a))]"

definition area_json :: "service_area \<Rightarrow> json" where
  "area_json a = JObj (area_fields a)"

text \<open>\<open>get_services\<close>: ordered by the place of the category, the place of the service, the name.\<close>

definition covered_services :: "'x catalogue_db_scheme \<Rightarrow> service_area \<Rightarrow> service list" where
  "covered_services s a =
     sort_before (service_before s) (filter (\<lambda>v. sv_id v \<in> set (ar_services a)) (services s))"

definition admin_area_json ::
  "(nat \<Rightarrow> timestamp) \<Rightarrow> (nat \<Rightarrow> timestamp) \<Rightarrow> 'x catalogue_db_scheme \<Rightarrow> service_area \<Rightarrow> json" where
  "admin_area_json created updated s a =
     JObj (area_fields a @
       [(''is_active'', JBool (ar_active a)),
        (''services'', JList (map (\<lambda>v. JObj [(''id'', key_json (sv_id v)), (''name'', JStr (sv_name v)),
                                            (''slug'', JStr (sv_slug v))]) (covered_services s a)))] @
       times_of created updated (ar_id a))"

definition address_json :: "(nat \<Rightarrow> timestamp) \<Rightarrow> (nat \<Rightarrow> timestamp) \<Rightarrow> address \<Rightarrow> json" where
  "address_json created updated a =
     JObj ([(''id'', key_json (ad_id a)), (''label'', JStr (ad_label a)),
            (''recipient_name'', JStr (ad_recipient_name a)), (''phone'', JStr (ad_phone a)),
            (''address_line_1'', JStr (ad_line_1 a)), (''address_line_2'', JStr (ad_line_2 a)),
            (''landmark'', JStr (ad_landmark a)), (''locality'', JStr (ad_locality a)),
            (''city'', JStr (ad_city a)), (''state'', JStr (ad_state a)),
            (''postal_code'', JStr (ad_postal_code a)), (''country'', JStr (ad_country a)),
            (''latitude'', opt_str_json (map_option degrees_str (ad_latitude a))),
            (''longitude'', opt_str_json (map_option degrees_str (ad_longitude a))),
            (''is_default'', JBool (ad_default a))] @ times_of created updated (ad_id a))"

definition slot_fields :: "'x bookings_db_scheme \<Rightarrow> time_slot \<Rightarrow> (string \<times> json) list" where
  "slot_fields s sl =
     [(''id'', key_json (sl_id sl)), (''service_area'', key_json (sl_area sl)),
      (''date'', JStr (date_str (sl_date sl))), (''start_time'', JStr (clock_str (sl_start sl))),
      (''end_time'', JStr (clock_str (sl_end sl))), (''capacity'', JNum (int (sl_capacity sl))),
      (''available_capacity'', JNum (get_available_capacity sl s))]"

definition slot_json :: "'x bookings_db_scheme \<Rightarrow> time_slot \<Rightarrow> json" where
  "slot_json s sl = JObj (slot_fields s sl)"

definition admin_slot_json :: "'x bookings_db_scheme \<Rightarrow> time_slot \<Rightarrow> json" where
  "admin_slot_json s sl =
     JObj (slot_fields s sl @
       dotted_field ''service_area_name'' (map_option ar_name (get_area (sl_area sl) s)) @
       [(''is_active'', JBool (sl_active sl))])"

fun closure_type_str :: "closure_type \<Rightarrow> string" where
  "closure_type_str HOLIDAY = ''HOLIDAY''"
| "closure_type_str BLACKOUT = ''BLACKOUT''"
| "closure_type_str EMERGENCY = ''EMERGENCY''"

definition closure_json ::
  "(nat \<Rightarrow> timestamp) \<Rightarrow> (nat \<Rightarrow> timestamp) \<Rightarrow> 'x locations_db_scheme \<Rightarrow> closure \<Rightarrow> json" where
  "closure_json created updated s c =
     JObj ([(''id'', key_json (cl_id c)), (''service_area'', opt_key_json (cl_area c))] @
       dotted_field ''service_area_name''
         (case cl_area c of None \<Rightarrow> None | Some k \<Rightarrow> map_option ar_name (get_area k s)) @
       [(''closure_type'', JStr (closure_type_str (cl_type c))),
        (''start_date'', JStr (date_str (cl_start c))), (''end_date'', JStr (date_str (cl_end c))),
        (''reason'', JStr (cl_reason c)), (''is_active'', JBool (cl_active c))] @
       times_of created updated (cl_id c))"

section \<open>Users, customers, staff\<close>

text \<open>Groups are known by their names; \<open>gid\<close> gives the key of a group.\<close>

definition groups_json :: "(string \<Rightarrow> int) \<Rightarrow> user \<Rightarrow> json" where
  "groups_json gid u = JList (map (\<lambda>g. JObj [(''id'', JNum (gid g)), (''name'', JStr g)]) (u_groups u))"

text \<open>A user without a profile is shown with a null one: the reverse reference is not found.\<close>

definition profile_json :: "'x accounts_db_scheme \<Rightarrow> user \<Rightarrow> json" where
  "profile_json s u =
     (case profile_of (u_id u) s of
        None \<Rightarrow> JNull
      | Some p \<Rightarrow> JObj [(''id'', key_json (cp_id p)), (''display_name'', JStr (cp_display_name p)),
                        (''alternate_phone'', JStr (cp_alternate_phone p))])"

definition user_fields ::
  "(nat \<Rightarrow> timestamp) \<Rightarrow> (nat \<Rightarrow> timestamp) \<Rightarrow> (string \<Rightarrow> int) \<Rightarrow> 'x accounts_db_scheme \<Rightarrow> user \<Rightarrow>
     (string \<times> json) list" where
  "user_fields created updated gid s u =
     [(''id'', key_json (u_id u)), (''phone_number'', JStr (u_phone u)), (''email'', opt_str_json (u_email u)),
      (''first_name'', JStr (u_first_name u)), (''last_name'', JStr (u_last_name u)),
      (''role'', JStr (role_str (u_role u))), (''is_verified'', JBool (u_verified u)),
      (''customer_profile'', profile_json s u),
      (''groups'', if u_staff u then groups_json gid u else JList [])] @ times_of created updated (u_id u)"

definition customer_json ::
  "(nat \<Rightarrow> timestamp) \<Rightarrow> (nat \<Rightarrow> timestamp) \<Rightarrow> (string \<Rightarrow> int) \<Rightarrow> 'x accounts_db_scheme \<Rightarrow> customer_row \<Rightarrow> json" where
  "customer_json created updated gid s r =
     JObj (user_fields created updated gid s (cr_user r) @
       [(''is_active'', JBool (u_active (cr_user r))), (''total_bookings'', JNum (int (cr_bookings r))),
        (''total_amount_spent'', opt_money_json (cr_spent r)),
        (''last_booking_at'', time_json (cr_last_booking r))])"

definition staff_json ::
  "(nat \<Rightarrow> timestamp) \<Rightarrow> (nat \<Rightarrow> timestamp) \<Rightarrow> (string \<Rightarrow> int) \<Rightarrow> user \<Rightarrow> json" where
  "staff_json created updated gid u =
     JObj ([(''id'', key_json (u_id u)), (''phone_number'', JStr (u_phone u)), (''email'', opt_str_json (u_email u)),
            (''first_name'', JStr (u_first_name u)), (''last_name'', JStr (u_last_name u)),
            (''role'', JStr (role_str (u_role u))), (''is_verified'', JBool (u_verified u)),
            (''is_active'', JBool (u_active u)), (''is_staff'', JBool (u_staff u)),
            (''is_superuser'', JBool (u_superuser u)), (''groups'', groups_json gid u)] @
           times_of created updated (u_id u))"

definition support_note_json ::
  "(nat \<Rightarrow> timestamp) \<Rightarrow> (nat \<Rightarrow> timestamp) \<Rightarrow> 'x accounts_db_scheme \<Rightarrow> support_note \<Rightarrow> json" where
  "support_note_json created updated s n =
     JObj ([(''id'', key_json (sn_id n)), (''customer'', key_json (sn_customer n)), (''note'', JStr (sn_note n)),
            (''created_by'', opt_key_json (sn_created_by n))] @
           dotted_field ''created_by_phone'' (phone_of s (sn_created_by n)) @ times_of created updated (sn_id n))"

text \<open>A time put into the answer as it is, by no field, is rendered in UTC.\<close>

definition utc_json :: "timestamp option \<Rightarrow> json" where
  "utc_json t =
     (case t of None \<Rightarrow> JNull | Some x \<Rightarrow> let y = iso_str x in JStr (take (length y - 6) y @ ''Z''))"

definition history_rows ::
  "(nat \<Rightarrow> timestamp) \<Rightarrow> customer_history \<Rightarrow> (string \<times> json) list" where
  "history_rows created h =
     [(''addresses'', JList (map (\<lambda>a. JObj
         [(''id'', key_json (ad_id a)), (''label'', JStr (ad_label a)),
          (''recipient_name'', JStr (ad_recipient_name a)), (''city'', JStr (ad_city a)),
          (''postal_code'', JStr (ad_postal_code a)), (''is_default'', JBool (ad_default a)),
          (''is_active'', JBool (ad_active a))]) (ch_addresses h))),
      (''leads'', JList (map (\<lambda>l. JObj
         [(''id'', key_json (l_id l)), (''customer_name'', JStr (l_customer_name l)),
          (''primary_mobile'', JStr (l_mobile l)), (''status'', JStr (lead_status_str (l_status l))),
          (''source'', JStr (source_str (l_source l))),
          (''created_at'', utc_json (Some (created (l_id l))))]) (ch_leads h))),
      (''bookings'', JList (map (\<lambda>b. JObj
         [(''id'', key_json (b_id b)), (''booking_number'', JStr (b_number b)),
          (''service_date'', JStr (date_str (b_service_date b))),
          (''booking_status'', JStr (status_str (b_status b))),
          (''payment_status'', JStr (payment_status_str (b_payment_status b))),
          (''total_amount'', money_json (b_total b)),
          (''created_at'', utc_json (Some (created (b_id b))))]) (ch_bookings h))),
      (''payments'', JList (map (\<lambda>p. JObj
         [(''id'', key_json (p_id p)), (''booking'', key_json (p_booking p)), (''amount'', money_json (p_amount p)),
          (''payment_type'', JStr (payment_type_str (p_type p))),
          (''status'', JStr (record_status_str (p_status p))),
          (''paid_at'', utc_json (p_paid_at p))]) (ch_payments h))),
      (''notifications'', JList (map (\<lambda>n. JObj
         [(''id'', key_json (n_id n)), (''event'', JStr (event_str (n_event n))),
          (''channel'', JStr (channel_str (n_channel n))),
          (''status'', JStr (notification_status_str (n_status n))),
          (''created_at'', utc_json (Some (created (n_id n)))),
          (''sent_at'', utc_json (n_sent_at n))]) (ch_notifications h))),
      (''reviews'', JList (map (\<lambda>r. JObj
         [(''id'', key_json (rv_id r)), (''rating'', JNum (rv_rating r)), (''is_visible'', JBool (rv_visible r)),
          (''created_at'', utc_json (Some (created (rv_id r))))]) (ch_reviews h)))]"

definition customer_history_json ::
  "(nat \<Rightarrow> timestamp) \<Rightarrow> (nat \<Rightarrow> timestamp) \<Rightarrow> (string \<Rightarrow> int) \<Rightarrow> 'x accounts_db_scheme \<Rightarrow>
     customer_history \<Rightarrow> json" where
  "customer_history_json created updated gid s h =
     JObj (user_fields created updated gid s (ch_user h) @ [(''is_active'', JBool (u_active (ch_user h)))] @
           history_rows created h @
           [(''support_notes'', JList (map (support_note_json created updated s) (ch_notes h)))])"

section \<open>Lemmas\<close>

lemma phone_of_get: "get_user k s = Some u \<Longrightarrow> phone_of s (Some k) = Some (u_phone u)"
  by (simp add: phone_of_def)

lemma shown_leave_status: "item ''status'' (leave_json created updated s l) = JStr (leave_status l)"
  by (simp add: leave_json_def item_def dotted_field_def split: option.split)

text \<open>A booking's lead carries its service and its total.\<close>

lemma linked_lead_fields:
  assumes "link_booking_to_lead now b rq s = (Inr l, s')"
  shows "l_service l = Some (b_service b) \<and> l_quoted l = Some (b_total b) \<and> services s' = services s"
proof -
  obtain u sl where u: "get_user (b_customer b) s = Some u" and sl: "get_slot (b_slot b) s = Some sl"
    using assms by (auto simp: link_booking_to_lead_def split: option.splits)
  define ev where "ev = \<lparr>le_source = LSO_CHECKOUT, le_funnel = LF_BOOKED,
       le_payment = (if b_advance_required b > 0 then LP_PENDING else LP_NOT_REQUIRED),
       le_action = LA_BOOKING_CREATED, le_note = ''Booking '' @ b_number b @ '' created.''\<rparr>"
  obtain l0 s1 s2 where
    up: "upsert_lead now (u_phone u) (customer_name u s) (Some (b_service b)) (Some (u_id u)) ev rq s = Inr (l0, s1)"
    and saved: "save_lead now (booked_lead b sl l0) s1 = Inr (l, s2)"
    using assms u sl by (auto simp: link_booking_to_lead_def ev_def split: sum.splits)
  have "l_service l0 = Some (b_service b)"
    using upsert_lead_Inr [OF up] by (auto simp: upsert_base_props dest!: save_lead_Inr)
  with save_lead_Inr [OF saved] have "l_service l = Some (b_service b) \<and> l_quoted l = Some (b_total b)"
    by (simp add: booked_lead_def)
  with link_booking_to_lead_ok [OF assms] show ?thesis by (simp add: lead_frame_def)
qed

section \<open>Properties\<close>

text \<open>A quoted lead counts the training fee twice: a booking's total, which contains the fee, becomes the
  quoted amount of its lead, and the serializer adds the fee of the service to it again.\<close>

theorem booked_lead_counts_fee_twice:
  assumes "link_booking_to_lead now b rq s = (Inr l, s')" and "get_service (b_service b) s = Some v"
  shows "item ''total_amount'' (lead_json created updated s' l) = money_json (b_total b + sv_training_fee v)"
proof -
  note fields = linked_lead_fields [OF assms(1)]
  then have "get_service (b_service b) s' = Some v" using assms(2) by (simp add: get_service_def)
  with fields have "lead_total l s' = b_total b + sv_training_fee v"
    by (simp add: lead_total_def lead_subtotal_def lead_training_fee_def)
  with fields show ?thesis
    by (simp add: lead_json_def item_def amount_json_def dotted_field_def times_of_def Let_def split: option.split)
qed

theorem booked_lead_counts_fee_twice_witness:
  "\<exists>l s'. link_booking_to_lead 5 (sample_booking 7 BS_CONFIRMED) None (sample_storefront_db []) = (Inr l, s') \<and>
     item ''total_amount'' (lead_json (\<lambda>k. 0) (\<lambda>k. 0) s' l) = money_json 95000"
proof -
  let ?r = "link_booking_to_lead 5 (sample_booking 7 BS_CONFIRMED) None (sample_storefront_db [])"
  have "\<not> isl (fst ?r)" by code_simp
  then obtain l s' where r: "?r = (Inr l, s')" by (cases ?r; cases "fst ?r") auto
  have "get_service (b_service (sample_booking 7 BS_CONFIRMED)) (sample_storefront_db []) = Some sample_service"
    by code_simp
  from booked_lead_counts_fee_twice [OF r this] r show ?thesis
    by (simp add: sample_booking_def sample_service_def)
qed

text \<open>The public list of a service's reviews, which needs no account, shows with every review the phone
  number of the customer who wrote it.\<close>

theorem public_reviews_show_phone_numbers:
  assumes "r \<in> set (service_reviews sv s)" and "get_user (rv_customer r) s = Some u"
  shows "\<exists>rows j. service_review_list created updated sv s = JList rows \<and> j \<in> set rows \<and>
           item ''id'' j = key_json (rv_id r) \<and> item ''phone_number'' (item ''customer'' j) = JStr (u_phone u)"
  using assms
  by (auto simp: service_review_list_def review_json_def review_fields_def item_def user_ref_def
      phone_of_get opt_str_json_def intro!: bexI [of _ r])

theorem public_reviews_show_phone_numbers_witness:
  "\<exists>rows j. service_review_list (\<lambda>k. 0) (\<lambda>k. 0) 4 ((sample_reviews_db BS_COMPLETED)\<lparr>reviews :=
       [\<lparr>rv_id = 3, rv_booking = 7, rv_customer = 1, rv_technician = None, rv_rating = 5, rv_comment = ''ok'',
         rv_visible = True\<rparr>]\<rparr>) = JList rows \<and> j \<in> set rows \<and>
     item ''phone_number'' (item ''customer'' j) = JStr (u_phone (sample_user 1 CUSTOMER []))"
proof -
  let ?r = "\<lparr>rv_id = 3, rv_booking = 7, rv_customer = 1, rv_technician = None, rv_rating = 5,
             rv_comment = ''ok'', rv_visible = True\<rparr>"
  let ?s = "(sample_reviews_db BS_COMPLETED)\<lparr>reviews := [?r]\<rparr>"
  have "service_reviews 4 ?s = [?r]" "get_user (rv_customer ?r) ?s = Some (sample_user 1 CUSTOMER [])"
    by code_simp+
  with public_reviews_show_phone_numbers [of ?r 4 ?s "sample_user 1 CUSTOMER []" "\<lambda>k. 0" "\<lambda>k. 0"]
  show ?thesis by auto
qed

text \<open>The filter of the leaves and the status shown agree: asked for a status, the list holds exactly the
  leaves whose serializer shows that status.\<close>

theorem leave_filter_matches_status:
  assumes "list_leaves technician status s = Inr ls" and "upper_str status \<in> {''PENDING'', ''APPROVED'', ''REJECTED''}"
    and "key_param technician = Inr k"
  shows "l \<in> set ls \<longleftrightarrow>
           l \<in> set (leaves s) \<and> (k = None \<or> Some (lv_technician l) = k) \<and>
           item ''status'' (leave_json created updated s l) = JStr (upper_str status)"
proof -
  have rows: "l \<in> set ls \<longleftrightarrow> l \<in> set (leaves s) \<and> (k = None \<or> Some (lv_technician l) = k) \<and>
      (upper_str status = ''PENDING'' \<longrightarrow> lv_active l \<and> lv_approved_by l = None) \<and>
      (upper_str status = ''APPROVED'' \<longrightarrow> lv_active l \<and> lv_approved_by l \<noteq> None) \<and>
      (upper_str status = ''REJECTED'' \<longrightarrow> \<not> lv_active l)"
    using assms(1,3) by (auto simp: list_leaves_def Let_def)
  from assms(2) consider "upper_str status = ''PENDING''" | "upper_str status = ''APPROVED''"
    | "upper_str status = ''REJECTED''" by blast
  then show ?thesis by cases (simp_all add: rows shown_leave_status leave_status_def)
qed

theorem leave_filter_matches_status_witness:
  "\<exists>ls. list_leaves '''' ''pending'' ((sample_technicians_db [])\<lparr>leaves := [\<lparr>lv_id = 1, lv_technician = 31,
       lv_start = 0, lv_end = 9, lv_reason = '''', lv_approved_by = None, lv_review_note = '''', lv_active = True\<rparr>]\<rparr>) = Inr ls \<and>
     ls \<noteq> [] \<and> (\<forall>l\<in>set ls. item ''status'' (leave_json (\<lambda>k. 0) (\<lambda>k. 0) (sample_technicians_db []) l) = JStr ''PENDING'')"
proof -
  let ?l = "\<lparr>lv_id = 1, lv_technician = 31, lv_start = 0, lv_end = 9, lv_reason = '''', lv_approved_by = None,
             lv_review_note = '''', lv_active = True\<rparr>"
  let ?s = "(sample_technicians_db [])\<lparr>leaves := [?l]\<rparr>"
  have facts: "list_leaves '''' ''pending'' ?s = Inr [?l]" "upper_str ''pending'' = ''PENDING''" "key_param '''' = Inr None"
    by code_simp+
  have "leaves ?s = [?l]" by simp
  with leave_filter_matches_status [OF facts(1) _ facts(3), of ?l "\<lambda>k. 0" "\<lambda>k. 0"] facts(2)
  have "item ''status'' (leave_json (\<lambda>k. 0) (\<lambda>k. 0) ?s ?l) = JStr ''PENDING''" by simp
  then show ?thesis using facts(1) by (simp add: shown_leave_status)
qed

text \<open>No secret is shown in the audit log: what the list shows of an event holds no sensitive key whose
  value is not the mask, at any depth, because the metadata were redacted before they were stored.\<close>

theorem shown_audit_events_are_redacted:
  assumes "audit_clean s" and "a \<in> set (list_audit_logs action resource_type search s)"
  shows "\<not> exposed audit_sensitive (audit_log_json created updated s a)"
proof -
  have "\<not> exposed audit_sensitive (a_metadata a)"
    using assms by (auto simp: audit_clean_def list_audit_logs_def list_all_iff Let_def)
  moreover have "\<not> audit_sensitive k" if "k \<in> set [''id'', ''actor'', ''actor_phone'', ''action'', ''resource_type'',
      ''resource_id'', ''request_id'', ''ip_address'', ''user_agent'', ''metadata'', ''created_at'', ''updated_at'']" for k
  proof -
    have "list_all (\<lambda>k. \<not> audit_sensitive k) [''id'', ''actor'', ''actor_phone'', ''action'', ''resource_type'',
      ''resource_id'', ''request_id'', ''ip_address'', ''user_agent'', ''metadata'', ''created_at'', ''updated_at'']"
      by code_simp
    with that show ?thesis by (auto simp: list_all_iff)
  qed
  ultimately show ?thesis
    by (simp add: audit_log_json_def dotted_field_def times_of_def key_json_def opt_key_json_def opt_str_json_def
        time_json_def split: option.split)
qed

theorem shown_audit_events_are_redacted_witness:
  "\<not> exposed audit_sensitive (audit_log_json (\<lambda>k. 0) (\<lambda>k. 0)
     (write_audit \<lparr>a_id = 0, a_actor = None, a_action = AA_PERMISSION_DENIED, a_resource_type = ''view'', a_resource_id = '''',
        a_request_id = '''', a_ip_address = None, a_user_agent = '''', a_metadata = redact_mapping (JObj [(''token'', JStr ''x'')])\<rparr>
       (sample_storefront_db []))
     \<lparr>a_id = new_id (sample_storefront_db []), a_actor = None, a_action = AA_PERMISSION_DENIED, a_resource_type = ''view'', a_resource_id = '''',
        a_request_id = '''', a_ip_address = None, a_user_agent = '''', a_metadata = redact_mapping (JObj [(''token'', JStr ''x'')])\<rparr>)"
  by (rule shown_audit_events_are_redacted [of _ _ "''''" "''''" "''''"]) code_simp+

text \<open>No list of customers or staff and no history tells anything about a password: users who differ in
  nothing else are shown alike.\<close>

theorem shown_users_hide_passwords:
  "staff_json created updated gid (u\<lparr>u_password := p\<rparr>) = staff_json created updated gid u"
  "customer_json created updated gid s (r\<lparr>cr_user := (cr_user r)\<lparr>u_password := p\<rparr>\<rparr>) =
     customer_json created updated gid s r"
  "customer_history_json created updated gid s (h\<lparr>ch_user := (ch_user h)\<lparr>u_password := p\<rparr>\<rparr>) =
     customer_history_json created updated gid s h"
  by (simp_all add: staff_json_def customer_json_def customer_history_json_def user_fields_def
      profile_json_def groups_json_def history_rows_def)

end
