(* ===== verification/Patterns.thy ===== *)
theory Patterns
  imports Json
begin

text \<open>
  The regular expressions of the code and their use by \<open>re.sub\<close> and \<open>re.search\<close>: a backtracking
  matcher for sequences of repeated character classes, which is the shape of every pattern that is
  substituted in \<open>common/logging.py\<close> and \<open>locations/providers.py\<close>. The lemmas show that a
  substitution terminates, what it leaves behind, and that it does not join or cut runs of digits.
\<close>

section \<open>Matching\<close>

text \<open>
  \<open>Item c lo hi\<close> is \<open>[c]{lo,hi}\<close>, greedy; \<open>hi = None\<close> has no upper bound. A pattern has alternatives,
  tried in order, and may forbid a class of characters right before (\<open>(?<!\<dots>)\<close>) and right after
  (\<open>(?!\<dots>)\<close>) the match.
\<close>

datatype rx_item = Item "char \<Rightarrow> bool" nat "nat option"

record rx =
  rx_before :: "char \<Rightarrow> bool"
  rx_alts :: "rx_item list list"
  rx_after :: "char \<Rightarrow> bool"

fun first_some :: "'b option list \<Rightarrow> 'b option" where
  "first_some [] = None"
| "first_some (None # xs) = first_some xs"
| "first_some (Some y # xs) = Some y"

definition head_in :: "(char \<Rightarrow> bool) \<Rightarrow> string \<Rightarrow> bool" where
  "head_in c s = (case s of [] \<Rightarrow> False | x # _ \<Rightarrow> c x)"

definition prev_in :: "(char \<Rightarrow> bool) \<Rightarrow> char option \<Rightarrow> bool" where
  "prev_in c p = (case p of None \<Rightarrow> False | Some x \<Rightarrow> c x)"

definition most :: "nat option \<Rightarrow> nat \<Rightarrow> nat" where
  "most hi n = (case hi of None \<Rightarrow> n | Some h \<Rightarrow> min h n)"

text \<open>How often an item can match at the head of a text, the most first.\<close>

definition counts :: "(char \<Rightarrow> bool) \<Rightarrow> nat \<Rightarrow> nat option \<Rightarrow> string \<Rightarrow> nat list" where
  "counts c lo hi s = rev [lo ..< Suc (most hi (length (takeWhile c s)))]"

text \<open>The matched text of each item, for the first way to match that backtracking finds.\<close>

fun match_items :: "(char \<Rightarrow> bool) \<Rightarrow> rx_item list \<Rightarrow> string \<Rightarrow> string list option" where
  "match_items after [] s = (if head_in after s then None else Some [])"
| "match_items after (Item c lo hi # items) s =
     first_some (map (\<lambda>n. map_option (\<lambda>segs. take n s # segs) (match_items after items (drop n s)))
                     (counts c lo hi s))"

definition match_here :: "rx \<Rightarrow> char option \<Rightarrow> string \<Rightarrow> string list option" where
  "match_here p prev s =
     (if prev_in (rx_before p) prev then None
      else first_some (map (\<lambda>items. match_items (rx_after p) items s) (rx_alts p)))"

text \<open>\<open>re.search\<close>: the segments of the leftmost match.\<close>

fun rx_search :: "rx \<Rightarrow> char option \<Rightarrow> string \<Rightarrow> string list option" where
  "rx_search p prev [] = match_here p prev []"
| "rx_search p prev (c # cs) =
     (case match_here p prev (c # cs) of
        Some segs \<Rightarrow> Some segs
      | None \<Rightarrow> rx_search p (Some c) cs)"

text \<open>
  \<open>re.sub\<close>: every match, from left to right, is replaced by \<open>rep\<close> of its segments, and the search goes
  on behind it. An empty match replaces nothing here; the patterns of the code have none
  (\<open>match_here_nonempty\<close>).
\<close>

function (sequential) rx_sub :: "rx \<Rightarrow> (string list \<Rightarrow> string) \<Rightarrow> char option \<Rightarrow> string \<Rightarrow> string" where
  "rx_sub p rep prev [] = []"
| "rx_sub p rep prev (c # cs) =
     (case match_here p prev (c # cs) of
        None \<Rightarrow> c # rx_sub p rep (Some c) cs
      | Some segs \<Rightarrow>
          (let w = concat segs in
           if w = [] then c # rx_sub p rep (Some c) cs
           else rep segs @ rx_sub p rep (Some (last w)) (drop (length w) (c # cs))))"
  by pat_completeness auto
termination
  by (relation "measure (\<lambda>(p, rep, prev, s). length s)") (auto simp: Suc_le_eq)

definition rx_replace :: "rx \<Rightarrow> (string list \<Rightarrow> string) \<Rightarrow> string \<Rightarrow> string" where
  "rx_replace p rep s = rx_sub p rep None s"

definition nothing :: "char \<Rightarrow> bool" where
  "nothing c = False"

definition one :: "(char \<Rightarrow> bool) \<Rightarrow> rx_item" where
  "one c = Item c 1 (Some 1)"

text \<open>A literal, with and without \<open>re.IGNORECASE\<close>.\<close>

definition lit :: "string \<Rightarrow> rx_item list" where
  "lit xs = map (\<lambda>x. one (\<lambda>c. c = x)) xs"

definition lit_ci :: "string \<Rightarrow> rx_item list" where
  "lit_ci xs = map (\<lambda>x. one (\<lambda>c. lower_char c = lower_char x)) xs"

section \<open>Lemmas: a match\<close>

lemma first_some_SomeD: "first_some xs = Some y \<Longrightarrow> Some y \<in> set xs"
  by (induction xs rule: first_some.induct) auto

lemma first_some_single [simp]: "first_some [x] = x"
  by (cases x) auto

lemma first_some_None_iff: "first_some xs = None \<longleftrightarrow> (\<forall>x\<in>set xs. x = None)"
  by (induction xs rule: first_some.induct) auto

lemma in_counts: "n \<in> set (counts c lo hi s) \<longleftrightarrow> lo \<le> n \<and> n \<le> most hi (length (takeWhile c s))"
  by (auto simp: counts_def)

lemma most_le: "most hi n \<le> n"
  by (simp add: most_def split: option.split)

text \<open>The segments of a match are what the text starts with, and each is in its class.\<close>

lemma match_items_Cons:
  assumes "match_items after (Item c lo hi # items) s = Some segs"
  obtains n rest where "segs = take n s # rest" "match_items after items (drop n s) = Some rest"
    "lo \<le> n" "n \<le> most hi (length (takeWhile c s))"
proof -
  from assms obtain n where "lo \<le> n" "n \<le> most hi (length (takeWhile c s))"
    and "map_option (\<lambda>segs. take n s # segs) (match_items after items (drop n s)) = Some segs"
    by (auto dest!: first_some_SomeD simp: in_counts simp del: map_option_eq_Some)
  with that show ?thesis by auto
qed

lemma match_items_split:
  "match_items after items s = Some segs \<Longrightarrow>
     \<exists>rest. s = concat segs @ rest \<and> \<not> head_in after rest"
proof (induction items arbitrary: s segs)
  case Nil
  then show ?case by (auto split: if_splits)
next
  case (Cons it items)
  obtain c lo hi where it: "it = Item c lo hi" by (cases it)
  from Cons.prems obtain n segs2 where segs: "segs = take n s # segs2"
    and rest: "match_items after items (drop n s) = Some segs2"
    unfolding it by (rule match_items_Cons)
  from Cons.IH [OF rest] obtain rest where "drop n s = concat segs2 @ rest" "\<not> head_in after rest"
    by blast
  then have "s = take n s @ concat segs2 @ rest" by (metis append_take_drop_id)
  with segs \<open>\<not> head_in after rest\<close> show ?case by (intro exI [of _ rest]) simp
qed

lemma set_take_takeWhile: "n \<le> length (takeWhile c s) \<Longrightarrow> x \<in> set (take n s) \<Longrightarrow> c x"
  by (induction s arbitrary: n) (auto simp: take_Cons split: if_splits nat.splits)

fun item_ok :: "rx_item \<Rightarrow> string \<Rightarrow> bool" where
  "item_ok (Item c lo hi) x = (list_all c x \<and> lo \<le> length x \<and> (case hi of None \<Rightarrow> True | Some h \<Rightarrow> length x \<le> h))"

lemma match_items_segments:
  "match_items after items s = Some segs \<Longrightarrow> list_all2 item_ok items segs"
proof (induction items arbitrary: s segs)
  case Nil
  then show ?case by (auto split: if_splits)
next
  case (Cons it items)
  obtain c lo hi where it: "it = Item c lo hi" by (cases it)
  from Cons.prems obtain n rest where segs: "segs = take n s # rest"
    and rest: "match_items after items (drop n s) = Some rest" and lo: "lo \<le> n"
    and n: "n \<le> most hi (length (takeWhile c s))"
    unfolding it by (rule match_items_Cons)
  have n1: "n \<le> length (takeWhile c s)"
    using n most_le le_trans by blast
  then have "n \<le> length s"
    using length_takeWhile_le le_trans by blast
  then show ?case
    using lo n n1 Cons.IH [OF rest]
    by (auto simp: segs it list_all_iff set_take_takeWhile most_def split: option.splits)
qed

text \<open>Where every item but the last is one character, nothing has to be given back.\<close>

lemma match_items_one:
  "match_items after (one c # items) s =
     (case s of [] \<Rightarrow> None
      | x # xs \<Rightarrow> if c x then map_option (\<lambda>segs. [x] # segs) (match_items after items xs) else None)"
  by (cases s) (auto simp: one_def counts_def most_def)

lemma match_items_nil: "match_items after [] s = (if head_in after s then None else Some [])"
  by simp

lemma match_here_split:
  assumes "match_here p prev s = Some segs"
  shows "\<exists>rest. s = concat segs @ rest \<and> \<not> head_in (rx_after p) rest \<and> \<not> prev_in (rx_before p) prev"
proof -
  from assms obtain items where "match_items (rx_after p) items s = Some segs"
    by (auto simp: match_here_def dest!: first_some_SomeD split: if_splits)
  then show ?thesis
    using assms match_items_split by (fastforce simp: match_here_def split: if_splits)
qed

section \<open>Lemmas: maximal runs of a class of characters\<close>

function (sequential) pieces :: "(char \<Rightarrow> bool) \<Rightarrow> string \<Rightarrow> string list" where
  "pieces c [] = []"
| "pieces c (x # xs) =
     (if c x then (x # takeWhile c xs) # pieces c (dropWhile c xs) else pieces c xs)"
  by pat_completeness auto
termination
  by (relation "measure (\<lambda>(c, s). length s)") (auto simp: less_Suc_eq_le length_dropWhile_le)

definition ends_in :: "(char \<Rightarrow> bool) \<Rightarrow> string \<Rightarrow> bool" where
  "ends_in c x = (x \<noteq> [] \<and> c (last x))"

lemma pieces_run: "x \<noteq> [] \<Longrightarrow> list_all c x \<Longrightarrow> \<not> head_in c rest \<Longrightarrow> pieces c (x @ rest) = x # pieces c rest"
proof (induction x)
  case (Cons y ys)
  then have "takeWhile c (ys @ rest) = ys" and "dropWhile c (ys @ rest) = rest"
    by (auto simp: list_all_iff head_in_def takeWhile_append2 dropWhile_append2 split: list.splits)
  with Cons show ?case by simp
qed simp

lemma pieces_none: "list_all (\<lambda>x. \<not> c x) x \<Longrightarrow> pieces c (x @ rest) = pieces c rest"
  by (induction x) auto

lemma last_dropWhile: "dropWhile c xs \<noteq> [] \<Longrightarrow> last (dropWhile c xs) = last xs"
  by (induction xs) auto

lemma pieces_append:
  "\<not> ends_in c a \<or> \<not> head_in c b \<Longrightarrow> pieces c (a @ b) = pieces c a @ pieces c b"
proof (induction c a rule: pieces.induct)
  case (1 c)
  then show ?case by simp
next
  case (2 c x xs)
  show ?case
  proof (cases "c x")
    case False
    with 2 show ?thesis by (auto simp: ends_in_def split: if_splits)
  next
    case True
    show ?thesis
    proof (cases "dropWhile c xs = []")
      case True
      then have all: "\<forall>y\<in>set xs. c y" by simp
      then have "ends_in c (x # xs)" using \<open>c x\<close> by (auto simp: ends_in_def)
      with 2(3) have "\<not> head_in c b" by blast
      then have "pieces c ((x # xs) @ b) = (x # xs) # pieces c b"
        by (intro pieces_run) (use all \<open>c x\<close> in \<open>auto simp: list_all_iff\<close>)
      moreover have "pieces c ((x # xs) @ []) = (x # xs) # pieces c []"
        by (intro pieces_run) (use all \<open>c x\<close> in \<open>auto simp: list_all_iff head_in_def\<close>)
      ultimately show ?thesis by (simp only: append_Nil2 pieces.simps(1) append.simps)
    next
      case False
      then obtain y where y: "y \<in> set xs" "\<not> c y" by auto
      have "ends_in c (dropWhile c xs) = ends_in c (x # xs)"
        using False last_dropWhile [of c xs] by (auto simp: ends_in_def)
      with 2(1) [OF \<open>c x\<close>] 2(3) y \<open>c x\<close> show ?thesis
        by (simp add: takeWhile_append1 dropWhile_append1)
    qed
  qed
qed

lemma pieces_all: "p \<in> set (pieces c s) \<Longrightarrow> p \<noteq> [] \<and> list_all c p"
proof (induction c s rule: pieces.induct)
  case (2 c x xs)
  have "\<forall>y\<in>set (takeWhile c xs). c y" by (auto dest: set_takeWhileD)
  with 2 show ?case by (cases "c x") (auto simp: list_all_iff)
qed simp

text \<open>
  Substituting a pattern that is bounded by the class on both sides leaves the other runs of the class
  as they were: nothing is cut or joined.
\<close>

lemma rx_sub_pieces:
  assumes "rx_before p = c" and "rx_after p = c" and none: "\<And>segs. list_all (\<lambda>x. \<not> c x) (rep segs)"
    and "ends_in c x \<longrightarrow> prev_in c prev"
  shows "set (pieces c (x @ rx_sub p rep prev s)) \<subseteq> set (pieces c (x @ s))"
  using assms
proof (induction p rep prev s arbitrary: x rule: rx_sub.induct)
  case (1 p rep prev)
  then show ?case by simp
next
  case (2 p rep prev y ys)
  note prems = "2.prems"
  have step: "set (pieces c ((x @ [y]) @ rx_sub p rep (Some y) ys)) \<subseteq> set (pieces c ((x @ [y]) @ ys))"
    if "match_here p prev (y # ys) = None \<or>
        (\<exists>segs. match_here p prev (y # ys) = Some segs \<and> concat segs = [])"
    using that
  proof
    assume "match_here p prev (y # ys) = None"
    then show ?thesis
      by (rule "2.IH"(1) [OF _ prems(1-3)]) (simp add: ends_in_def prev_in_def)
  next
    assume "\<exists>segs. match_here p prev (y # ys) = Some segs \<and> concat segs = []"
    then obtain segs where "match_here p prev (y # ys) = Some segs" "concat segs = []" by blast
    then show ?thesis
      by (rule "2.IH"(2) [OF _ refl _ prems(1-3)]) (simp add: ends_in_def prev_in_def)
  qed
  show ?case
  proof (cases "match_here p prev (y # ys)")
    case None
    with step show ?thesis by simp
  next
    case (Some segs)
    let ?w = "concat segs"
    show ?thesis
    proof (cases "?w = []")
      case True
      with Some step show ?thesis by (simp add: Let_def)
    next
      case False
      from match_here_split [OF Some] prems(1,2) obtain rest where rest: "y # ys = ?w @ rest"
        and after: "\<not> head_in c rest" and before: "\<not> prev_in c prev" by metis
      then have x: "\<not> ends_in c x" using prems(4) by blast
      have r: "\<not> ends_in c (rep segs)"
        using prems(3) [of segs] by (auto simp: ends_in_def list_all_iff)
      have drop: "drop (length ?w) (y # ys) = rest" by (simp add: rest)
      have "set (pieces c (rep segs @ rx_sub p rep (Some (last ?w)) rest)) \<subseteq> set (pieces c (rep segs @ rest))"
        by (rule "2.IH"(3) [OF Some refl False prems(1-3), unfolded drop]) (use r in blast)
      also have "pieces c (rep segs @ rest) = pieces c rest"
        using prems(3) [of segs] by (rule pieces_none)
      finally have "set (pieces c (x @ rep segs @ rx_sub p rep (Some (last ?w)) rest)) \<subseteq>
          set (pieces c x) \<union> set (pieces c rest)"
        using x by (auto simp: pieces_append)
      also have "\<dots> \<subseteq> set (pieces c (x @ ?w @ rest))"
        using x after by (simp add: pieces_append) blast
      finally have "set (pieces c (x @ rep segs @ rx_sub p rep (Some (last ?w)) rest)) \<subseteq>
          set (pieces c (x @ y # ys))" by (simp only: rest)
      moreover have "rx_sub p rep prev (y # ys) = rep segs @ rx_sub p rep (Some (last ?w)) rest"
        by (simp add: Some Let_def False drop del: concat_eq_Nil_conv)
      ultimately show ?thesis by simp
    qed
  qed
qed

section \<open>Masking what follows a key\<close>

text \<open>The pattern \<open>(key)([\<dots>]+)\<close>, ignoring case, and the replacement \<open>\1***\<close>.\<close>

definition key_pattern :: "(char \<Rightarrow> bool) \<Rightarrow> string \<Rightarrow> rx" where
  "key_pattern c key = \<lparr>rx_before = nothing, rx_alts = [lit_ci key @ [Item c 1 None]], rx_after = nothing\<rparr>"

definition mask_last :: "string list \<Rightarrow> string" where
  "mask_last segs = concat (butlast segs) @ ''***''"

definition same_ci :: "string \<Rightarrow> string \<Rightarrow> bool" where
  "same_ci x y = (map lower_char x = map lower_char y)"

lemma no_after [simp]: "\<not> head_in nothing s" "\<not> prev_in nothing pr"
  by (simp_all add: head_in_def prev_in_def nothing_def split: list.split option.split)

text \<open>What the greedy item takes: the whole run.\<close>

lemma match_items_run:
  "match_items nothing [Item c 1 None] s =
     (if takeWhile c s = [] then None else Some [takeWhile c s])"
proof (cases "takeWhile c s")
  case Nil
  then show ?thesis by (simp add: counts_def most_def)
next
  case (Cons x xs)
  then have "counts c 1 None s = length (takeWhile c s) # rev [1..<length (takeWhile c s)]"
    by (simp add: counts_def most_def)
  moreover have "take (length (takeWhile c s)) s = takeWhile c s"
    by (rule takeWhile_eq_take [symmetric])
  ultimately show ?thesis using Cons by simp
qed

lemma match_items_lit_ci:
  "match_items after (lit_ci key @ items) s =
     (if same_ci (take (length key) s) key
      then map_option (\<lambda>segs. map (\<lambda>x. [x]) (take (length key) s) @ segs)
             (match_items after items (drop (length key) s))
      else None)"
proof (induction key arbitrary: s)
  case Nil
  then show ?case by (cases "match_items after items s") (simp_all add: lit_ci_def same_ci_def)
next
  case (Cons k key)
  then show ?case
    by (cases s) (auto simp: lit_ci_def same_ci_def match_items_one option.map_comp o_def)
qed

lemma match_here_key:
  "match_here (key_pattern c key) prev s =
     (if same_ci (take (length key) s) key \<and> takeWhile c (drop (length key) s) \<noteq> []
      then Some (map (\<lambda>x. [x]) (take (length key) s) @ [takeWhile c (drop (length key) s)]) else None)"
  by (simp add: match_here_def key_pattern_def match_items_lit_ci match_items_run del: match_items.simps One_nat_def)

text \<open>What the substitution does within one run of the class.\<close>

fun mask_key :: "string \<Rightarrow> string \<Rightarrow> string" where
  "mask_key key [] = []"
| "mask_key key (x # xs) =
     (if same_ci (take (length key) (x # xs)) key \<and> length key < length (x # xs)
      then take (length key) (x # xs) @ ''***''
      else x # mask_key key xs)"

lemma concat_singles [simp]: "concat (map (\<lambda>x. [x]) xs) = xs"
  by (induction xs) auto

text \<open>The class contains the letters of the key in either case, and the mask.\<close>

definition key_class :: "(char \<Rightarrow> bool) \<Rightarrow> string \<Rightarrow> bool" where
  "key_class c key =
     (key \<noteq> [] \<and> c CHR ''*'' \<and> (\<forall>x. lower_char x \<in> lower_char ` set key \<longrightarrow> c x))"

lemma list_all_take: "list_all c xs \<Longrightarrow> list_all c (take n xs)"
  and list_all_drop: "list_all c xs \<Longrightarrow> list_all c (drop n xs)"
  by (metis append_take_drop_id list_all_append)+

lemma same_ci_in_class: "key_class c key \<Longrightarrow> same_ci x key \<Longrightarrow> list_all c x"
  by (auto simp: key_class_def same_ci_def list_all_iff) (metis imageI list.set_map)

lemma same_ci_length: "same_ci x y \<Longrightarrow> length x = length y"
  unfolding same_ci_def by (metis length_map)

lemma rx_sub_prev: "rx_before p = nothing \<Longrightarrow> rx_sub p rep prev s = rx_replace p rep s"
  by (cases s) (simp_all add: rx_replace_def match_here_def)

lemma rx_replace_Cons:
  assumes "rx_before p = nothing"
  shows "rx_replace p rep (c # cs) =
    (case match_here p None (c # cs) of
       None \<Rightarrow> c # rx_replace p rep cs
     | Some segs \<Rightarrow>
         (let w = concat segs in
          if w = [] then c # rx_replace p rep cs
          else rep segs @ rx_replace p rep (drop (length w) (c # cs))))"
  unfolding rx_replace_def [of p rep "c # cs"] rx_sub.simps rx_sub_prev [OF assms] by (rule refl)

lemma key_pattern_free [simp]: "rx_before (key_pattern c key) = nothing"
  by (simp add: key_pattern_def)

lemma sub_key_outside:
  assumes "key_class c key" and "\<not> head_in c rest"
  shows "rx_replace (key_pattern c key) rep rest =
    (case rest of [] \<Rightarrow> [] | y # ys \<Rightarrow> y # rx_replace (key_pattern c key) rep ys)"
proof (cases rest)
  case (Cons y ys)
  have "\<not> same_ci (take (length key) rest) key"
  proof
    assume "same_ci (take (length key) rest) key"
    with assms(1) have "list_all c (take (length key) rest)" by (rule same_ci_in_class)
    with assms Cons show False by (cases key) (auto simp: key_class_def head_in_def)
  qed
  then have "match_here (key_pattern c key) None rest = None"
    by (simp add: match_here_key)
  with Cons show ?thesis by (simp add: rx_replace_Cons)
qed (simp add: rx_replace_def)

lemma sub_key_run:
  assumes "key_class c key" and "list_all c f" and "\<not> head_in c rest"
  shows "rx_replace (key_pattern c key) mask_last (f @ rest) =
    mask_key key f @ rx_replace (key_pattern c key) mask_last rest"
  using assms(2)
proof (induction f)
  case (Cons x f)
  let ?p = "key_pattern c key" and ?n = "length key" and ?s = "(x # f) @ rest"
  have whole: "take ?n ?s = take ?n (x # f) \<and> ?n \<le> length (x # f)" if "same_ci (take ?n ?s) key"
  proof -
    from assms(1) that have all: "list_all c (take ?n ?s)" by (rule same_ci_in_class)
    have len: "?n \<le> length ?s" using same_ci_length [OF that] by (simp add: min_def split: if_splits)
    have "?n \<le> length (x # f)"
    proof (rule ccontr)
      assume "\<not> ?n \<le> length (x # f)"
      with len obtain y ys where "rest = y # ys" "y \<in> set (take ?n ?s)"
        by (cases rest) (auto simp: take_Cons' take_append simp del: append_Cons)
      with all assms(3) show False by (auto simp: list_all_iff head_in_def)
    qed
    then show ?thesis by (simp only: take_append) simp
  qed
  have tail: "takeWhile c (drop ?n ?s) = drop ?n (x # f)" if "?n \<le> length (x # f)"
  proof -
    have "list_all c (drop ?n (x # f))"
      using Cons.prems by (rule list_all_drop)
    moreover have "drop ?n ?s = drop ?n (x # f) @ rest" using that by (simp only: drop_append) simp
    moreover have "takeWhile c rest = []" using assms(3) by (cases rest) (simp_all add: head_in_def)
    ultimately show ?thesis by (simp add: list_all_iff takeWhile_append2 del: append_Cons)
  qed
  show ?case
  proof (cases "same_ci (take ?n (x # f)) key \<and> ?n < length (x # f)")
    case True
    then have "match_here ?p None ?s = Some (map (\<lambda>x. [x]) (take ?n (x # f)) @ [drop ?n (x # f)])"
      using tail by (simp add: match_here_key del: append_Cons)
    then have "rx_replace ?p mask_last ?s = (take ?n (x # f) @ ''***'') @ rx_replace ?p mask_last rest"
      using True by (simp add: rx_replace_Cons Let_def mask_last_def)
    with True show ?thesis by simp
  next
    case False
    have "match_here ?p None ?s = None"
    proof (cases "same_ci (take ?n ?s) key")
      case True
      with whole False have "?n = length (x # f)" by (simp del: take_Cons)
      with tail have "takeWhile c (drop ?n ?s) = []" by simp
      then show ?thesis by (simp only: match_here_key) simp
    next
      case False
      then show ?thesis by (simp only: match_here_key) simp
    qed
    then have "rx_replace ?p mask_last ?s = x # rx_replace ?p mask_last (f @ rest)"
      by (simp add: rx_replace_Cons)
    moreover have "mask_key key (x # f) = x # mask_key key f"
      by (simp only: mask_key.simps if_not_P [OF False])
    ultimately show ?thesis using Cons by simp
  qed
qed simp

lemma mask_key_in_class: "key_class c key \<Longrightarrow> list_all c f \<Longrightarrow> list_all c (mask_key key f)"
proof (induction f)
  case (Cons x f)
  then show ?case
    using list_all_take [OF Cons.prems(2), of "length key"]
    by (auto simp: key_class_def simp del: take_Cons)
qed simp

lemma mask_key_not_Nil: "key \<noteq> [] \<Longrightarrow> f \<noteq> [] \<Longrightarrow> mask_key key f \<noteq> []"
  by (cases f) auto

text \<open>The substitution works run by run.\<close>

lemma pieces_sub_key:
  assumes "key_class c key"
  shows "pieces c (rx_replace (key_pattern c key) mask_last s) = map (mask_key key) (pieces c s)"
  using assms
proof (induction c s rule: pieces.induct)
  case (1 c)
  then show ?case by (simp add: rx_replace_def)
next
  case (2 c x xs)
  let ?p = "key_pattern c key"
  show ?case
  proof (cases "c x")
    case False
    then have "rx_replace ?p mask_last (x # xs) = x # rx_replace ?p mask_last xs"
      using sub_key_outside [OF 2(3), of "x # xs" mask_last] by (simp add: head_in_def)
    with False 2 show ?thesis by simp
  next
    case True
    let ?f = "x # takeWhile c xs" and ?rest = "dropWhile c xs"
    have f: "list_all c ?f" using True by (auto simp: list_all_iff dest: set_takeWhileD)
    have rest: "\<not> head_in c ?rest"
      by (auto simp: head_in_def dropWhile_eq_Cons_conv split: list.split)
    have "rx_replace ?p mask_last (?f @ ?rest) = mask_key key ?f @ rx_replace ?p mask_last ?rest"
      using 2(3) f rest by (rule sub_key_run)
    moreover have "\<not> head_in c (rx_replace ?p mask_last ?rest)"
      unfolding sub_key_outside [OF 2(3) rest, of mask_last] using rest
      by (auto simp: head_in_def split: list.split)
    ultimately have "pieces c (rx_replace ?p mask_last (?f @ ?rest)) =
        mask_key key ?f # pieces c (rx_replace ?p mask_last ?rest)"
      using mask_key_in_class [OF 2(3) f] 2(3) by (simp add: pieces_run mask_key_not_Nil key_class_def del: mask_key.simps)
    with True 2 show ?thesis by simp
  qed
qed

section \<open>What is left in the clear\<close>

text \<open>A run leaks a key when the key stands in it with anything but the mask behind it.\<close>

fun run_leaks :: "string \<Rightarrow> string \<Rightarrow> bool" where
  "run_leaks key [] = False"
| "run_leaks key (x # xs) =
     ((same_ci (take (length key) (x # xs)) key \<and>
       drop (length key) (x # xs) \<noteq> [] \<and> drop (length key) (x # xs) \<noteq> ''***'') \<or>
      run_leaks key xs)"

definition text_leaks :: "(char \<Rightarrow> bool) \<Rightarrow> string \<Rightarrow> string \<Rightarrow> bool" where
  "text_leaks c key s = list_ex (run_leaks key) (pieces c s)"

lemma run_leaks_iff:
  assumes "key \<noteq> []"
  shows "run_leaks key f \<longleftrightarrow> (\<exists>a k b. f = a @ k @ b \<and> same_ci k key \<and> b \<noteq> [] \<and> b \<noteq> ''***'')"
proof (induction f)
  case Nil
  then show ?case by simp
next
  case (Cons x xs)
  show ?case
  proof
    assume "run_leaks key (x # xs)"
    then consider "same_ci (take (length key) (x # xs)) key" "drop (length key) (x # xs) \<noteq> []"
        "drop (length key) (x # xs) \<noteq> ''***''"
      | "run_leaks key xs" by auto
    then show "\<exists>a k b. x # xs = a @ k @ b \<and> same_ci k key \<and> b \<noteq> [] \<and> b \<noteq> ''***''"
    proof cases
      case 1
      then show ?thesis
        by (intro exI [of _ "[]"] exI [of _ "take (length key) (x # xs)"] exI [of _ "drop (length key) (x # xs)"])
          (simp del: take_Cons drop_Cons)
    next
      case 2
      with Cons.IH obtain a k b where "xs = a @ k @ b \<and> same_ci k key \<and> b \<noteq> [] \<and> b \<noteq> ''***''" by blast
      then have "x # xs = (x # a) @ k @ b \<and> same_ci k key \<and> b \<noteq> [] \<and> b \<noteq> ''***''" by simp
      then show ?thesis by blast
    qed
  next
    assume "\<exists>a k b. x # xs = a @ k @ b \<and> same_ci k key \<and> b \<noteq> [] \<and> b \<noteq> ''***''"
    then obtain a k b where f: "x # xs = a @ k @ b" and k: "same_ci k key" "b \<noteq> []" "b \<noteq> ''***''" by blast
    show "run_leaks key (x # xs)"
    proof (cases a)
      case Nil
      then have "take (length key) (x # xs) = k" "drop (length key) (x # xs) = b"
        using f same_ci_length [OF k(1)] by simp_all
      with k show ?thesis by (simp del: take_Cons drop_Cons)
    next
      case (Cons y ys)
      with f k have "run_leaks key xs" using Cons.IH by auto
      then show ?thesis by simp
    qed
  qed
qed

lemma mask_key_cases:
  assumes "key \<noteq> []"
  shows "(mask_key key f = f \<and> (\<forall>a k b. f = a @ k @ b \<and> same_ci k key \<longrightarrow> b = [])) \<or>
    (\<exists>a k b. f = a @ k @ b \<and> same_ci k key \<and> b \<noteq> [] \<and> mask_key key f = a @ k @ ''***'' \<and>
       (\<forall>a2 k2 b2. f = a2 @ k2 @ b2 \<and> same_ci k2 key \<and> b2 \<noteq> [] \<longrightarrow> length a \<le> length a2))"
proof (induction f)
  case Nil
  then show ?case by simp
next
  case (Cons x xs)
  let ?n = "length key" and ?s = "x # xs"
  show ?case
  proof (cases "same_ci (take ?n ?s) key \<and> ?n < length ?s")
    case True
    then have "mask_key key ?s = [] @ take ?n ?s @ ''***''" by simp
    moreover have "?s = [] @ take ?n ?s @ drop ?n ?s" by (simp only: append_Nil append_take_drop_id)
    moreover have "drop ?n ?s \<noteq> []" using True by (simp del: drop_Cons)
    ultimately show ?thesis using True
      by - (rule disjI2, rule exI [of _ "[]"], rule exI [of _ "take ?n ?s"], rule exI [of _ "drop ?n ?s"], simp)
  next
    case False
    have later: "\<exists>ys. a = x # ys" if "?s = a @ k @ b" "same_ci k key" "b \<noteq> []" for a k b
    proof (cases a)
      case Nil
      with that False same_ci_length [OF that(2)] show ?thesis by simp
    next
      case (Cons y ys)
      with that show ?thesis by simp
    qed
    from Cons.IH show ?thesis
    proof
      assume rest: "mask_key key xs = xs \<and> (\<forall>a k b. xs = a @ k @ b \<and> same_ci k key \<longrightarrow> b = [])"
      have "b = []" if s: "?s = a @ k @ b" "same_ci k key" for a k b
      proof (rule ccontr)
        assume "b \<noteq> []"
        with s obtain ys where "a = x # ys" using later by blast
        with s have "xs = ys @ k @ b" by simp
        with s(2) rest \<open>b \<noteq> []\<close> show False by blast
      qed
      moreover have "mask_key key ?s = ?s" by (simp only: mask_key.simps if_not_P [OF False] rest)
      ultimately show ?thesis by blast
    next
      assume "\<exists>a k b. xs = a @ k @ b \<and> same_ci k key \<and> b \<noteq> [] \<and> mask_key key xs = a @ k @ ''***'' \<and>
       (\<forall>a2 k2 b2. xs = a2 @ k2 @ b2 \<and> same_ci k2 key \<and> b2 \<noteq> [] \<longrightarrow> length a \<le> length a2)"
      then obtain a k b where xs: "xs = a @ k @ b" "same_ci k key" "b \<noteq> []" "mask_key key xs = a @ k @ ''***''"
        and least: "\<And>a2 k2 b2. xs = a2 @ k2 @ b2 \<Longrightarrow> same_ci k2 key \<Longrightarrow> b2 \<noteq> [] \<Longrightarrow> length a \<le> length a2"
        by blast
      have "mask_key key ?s = (x # a) @ k @ ''***''"
        by (simp only: mask_key.simps if_not_P [OF False] xs(4) append_Cons)
      moreover have "length (x # a) \<le> length a2" if s2: "?s = a2 @ k2 @ b2" "same_ci k2 key" "b2 \<noteq> []" for a2 k2 b2
      proof -
        obtain ys where "a2 = x # ys" using later [OF s2] by blast
        with s2 least [of ys k2 b2] show ?thesis by simp
      qed
      moreover have "?s = (x # a) @ k @ b" using xs(1) by simp
      ultimately show ?thesis using xs(2,3)
        by (intro disjI2 exI conjI allI impI) (assumption+, blast)
    qed
  qed
qed

text \<open>Keys that end with the equality sign do not reach into a mask.\<close>

definition assignment_key :: "string \<Rightarrow> bool" where
  "assignment_key key = (key \<noteq> [] \<and> last key = CHR ''='')"

lemma lower_char_eq_sign [simp]: "lower_char x = CHR ''='' \<longleftrightarrow> x = CHR ''=''"
proof
  assume low: "lower_char x = CHR ''=''"
  then have "(of_char (lower_char x) :: nat) = 61" by simp
  moreover have "(of_char (lower_char x) :: nat) = of_char x \<or> 97 \<le> (of_char (lower_char x) :: nat)"
    by (auto simp: lower_char_def Let_def)
  ultimately have "(of_char (lower_char x) :: nat) = of_char x" by auto
  with low show "x = CHR ''=''"
    by (metis of_char_eq_iff)
qed (simp add: lower_char_def)

lemma lower_char_sign [simp]: "lower_char CHR ''='' = CHR ''=''"
  by simp

lemma same_ci_last: "assignment_key key \<Longrightarrow> same_ci k key \<Longrightarrow> k \<noteq> [] \<and> last k = CHR ''=''"
  by (cases k rule: rev_cases; cases key rule: rev_cases)
    (auto simp: assignment_key_def same_ci_def)

lemma mask_key_no_leak:
  assumes key: "assignment_key key" "assignment_key q" and q: "q = key \<or> \<not> run_leaks q f"
  shows "\<not> run_leaks q (mask_key key f)"
proof
  have ne: "key \<noteq> []" "q \<noteq> []" using key by (simp_all add: assignment_key_def)
  assume leak: "run_leaks q (mask_key key f)"
  from mask_key_cases [OF ne(1), of f] show False
  proof
    assume "mask_key key f = f \<and> (\<forall>a k b. f = a @ k @ b \<and> same_ci k key \<longrightarrow> b = [])"
    with leak q show False by (auto simp: run_leaks_iff ne)
  next
    assume "\<exists>a k b. f = a @ k @ b \<and> same_ci k key \<and> b \<noteq> [] \<and> mask_key key f = a @ k @ ''***'' \<and>
       (\<forall>a2 k2 b2. f = a2 @ k2 @ b2 \<and> same_ci k2 key \<and> b2 \<noteq> [] \<longrightarrow> length a \<le> length a2)"
    then obtain a k b where f: "f = a @ k @ b" "same_ci k key" "b \<noteq> []" "mask_key key f = a @ k @ ''***''"
      and least: "\<And>a2 k2 b2. f = a2 @ k2 @ b2 \<Longrightarrow> same_ci k2 key \<Longrightarrow> b2 \<noteq> [] \<Longrightarrow> length a \<le> length a2"
      by blast
    from leak f(4) obtain a2 k2 b2 where eq: "(a @ k) @ ''***'' = (a2 @ k2) @ b2" and k2: "same_ci k2 q"
      and b2: "b2 \<noteq> []" "b2 \<noteq> ''***''" by (auto simp: run_leaks_iff ne)
    obtain us where "a @ k = (a2 @ k2) @ us \<and> us @ ''***'' = b2 \<or> (a @ k) @ us = a2 @ k2 \<and> ''***'' = us @ b2"
      using eq by (rule append_eq_append_conv2 [THEN iffD1, THEN exE])
    then show False
    proof (elim disjE conjE)
      assume us: "(a @ k) @ us = a2 @ k2" "''***'' = us @ b2"
      then have "us \<noteq> []" using b2 by auto
      then have "last us = last (a2 @ k2)" using us(1) last_appendR [OF \<open>us \<noteq> []\<close>, of "a @ k"] by simp
      moreover have "last (a2 @ k2) = CHR ''=''" using same_ci_last [OF key(2) k2] by simp
      moreover have "last us \<in> set ''***''" unfolding us(2) using \<open>us \<noteq> []\<close> by simp
      ultimately show False by simp
    next
      assume us: "a @ k = (a2 @ k2) @ us" "us @ ''***'' = b2"
      then have "us \<noteq> []" using b2 by auto
      have f2: "f = a2 @ k2 @ (us @ b)" using f(1) us(1) by (metis append.assoc)
      show False using q
      proof
        assume "q = key"
        with k2 f2 \<open>us \<noteq> []\<close> least have "length a \<le> length a2" by blast
        moreover have "length k = length k2" using f(2) k2 \<open>q = key\<close> same_ci_length by metis
        moreover have "length (a @ k) = length ((a2 @ k2) @ us)" by (simp only: us(1))
        ultimately show False using \<open>us \<noteq> []\<close> by simp
      next
        assume "\<not> run_leaks q f"
        moreover have "last us = CHR ''=''"
          using same_ci_last [OF key(1) f(2)] us(1) \<open>us \<noteq> []\<close> by (metis last_appendR)
        then have "us @ b \<noteq> ''***''" using \<open>us \<noteq> []\<close>
          by (cases us; cases "tl us"; cases "tl (tl us)") (auto split: if_splits)
        ultimately show False using f2 k2 \<open>us \<noteq> []\<close> ne by (auto simp: run_leaks_iff)
      qed
    qed
  qed
qed

lemma text_leaks_sub:
  assumes "key_class c key" "assignment_key key" "assignment_key q" "q = key \<or> \<not> text_leaks c q s"
  shows "\<not> text_leaks c q (rx_replace (key_pattern c key) mask_last s)"
  using assms mask_key_no_leak by (auto simp: text_leaks_def pieces_sub_key list_ex_iff)

section \<open>Functions that keep runs\<close>

text \<open>
  A function on texts that cuts, joins and makes no run of a class: what no run of the argument is, no
  run of the result is. The substitutions between the first pattern of a chain and its result have this
  contract.
\<close>

locale run_keeping =
  fixes c :: "char \<Rightarrow> bool"
    and f :: "string \<Rightarrow> string"
  assumes keep: "set (pieces c (f x)) \<subseteq> set (pieces c x)"
begin

lemma absent: "list_all (\<lambda>r. \<not> P r) (pieces c x) \<Longrightarrow> list_all (\<lambda>r. \<not> P r) (pieces c (f x))"
  using keep by (auto simp: list_all_iff)

lemma no_new: "r \<in> set (pieces c (f x)) \<Longrightarrow> r \<in> set (pieces c x)"
  using keep by blast

end

text \<open>The words of a text are its runs of other characters than white space.\<close>

lemma pieces_head:
  "pieces c s = (if takeWhile c s = [] then [] else [takeWhile c s]) @ pieces c (dropWhile c s)"
  by (cases s) auto

lemma words_aux_pieces:
  "words_aux w s =
     (let v = rev w @ takeWhile (\<lambda>c. \<not> is_space c) s in if v = [] then [] else [v]) @
     pieces (\<lambda>c. \<not> is_space c) (dropWhile (\<lambda>c. \<not> is_space c) s)"
proof (induction w s rule: words_aux.induct)
  case (1 w)
  then show ?case by simp
next
  case (2 w c cs)
  show ?case
  proof (cases "is_space c")
    case True
    then have "words_aux [] cs = pieces (\<lambda>c. \<not> is_space c) cs"
      using 2(1,2) by (subst pieces_head, cases "w = []") (simp_all add: Let_def)
    with True show ?thesis by simp
  next
    case False
    with 2(3) show ?thesis by simp
  qed
qed

lemma split_words_pieces: "split_words s = pieces (\<lambda>c. \<not> is_space c) s"
  by (cases s) (auto simp: split_words_def words_aux_pieces)

lemma pieces_join_words:
  "set (pieces c (join_str '' '' ws)) \<subseteq> (\<Union>w\<in>set ws. set (pieces c w))" if "\<not> c CHR '' ''"
proof (induction ws rule: induct_list012)
  case (3 x y zs)
  have "pieces c (x @ '' '' @ join_str '' '' (y # zs)) = pieces c x @ pieces c ('' '' @ join_str '' '' (y # zs))"
    using that by (intro pieces_append) (simp add: head_in_def)
  also have "pieces c ('' '' @ join_str '' '' (y # zs)) = pieces c (join_str '' '' (y # zs))"
    using that by (intro pieces_none) simp
  finally show ?case using 3(2) by auto
qed simp_all

lemma pieces_of_words:
  assumes "\<And>x. c x \<Longrightarrow> \<not> is_space x"
  shows "(\<Union>w\<in>set (pieces (\<lambda>c. \<not> is_space c) s). set (pieces c w)) \<subseteq> set (pieces c s)"
  using assms
proof (induction "\<lambda>c. \<not> is_space c" s rule: pieces.induct)
  case (2 x xs)
  let ?ns = "\<lambda>c. \<not> is_space c"
  show ?case
  proof (cases "is_space x")
    case True
    with 2 show ?thesis by auto
  next
    case False
    have "\<not> head_in c (dropWhile ?ns xs)"
      using 2(3) by (auto simp: head_in_def dropWhile_eq_Cons_conv split: list.split)
    then have "pieces c ((x # takeWhile ?ns xs) @ dropWhile ?ns xs) =
        pieces c (x # takeWhile ?ns xs) @ pieces c (dropWhile ?ns xs)"
      by (intro pieces_append) blast
    then have "pieces c (x # xs) = pieces c (x # takeWhile ?ns xs) @ pieces c (dropWhile ?ns xs)"
      by simp
    moreover have "(\<Union>w\<in>set (pieces ?ns (dropWhile ?ns xs)). set (pieces c w)) \<subseteq> set (pieces c (dropWhile ?ns xs))"
      using 2(1) False 2(3) by blast
    ultimately show ?thesis using False by auto
  qed
qed simp

end
