(* ===== verification/Web.thy ===== *)
theory Web
  imports Accounts Patterns
begin

text \<open>
  What every request passes, \<open>common/\<close>: the filter that removes secrets from log records, the error
  envelope, the middleware, the keys of the throttles, the check of the security challenge, the health
  check and the deployment checks. The framework's own exception handler, the hash and the HTTP client
  are parameters.
\<close>

section \<open>Log records: \<open>logging.py\<close>, \<open>monitoring.py\<close>\<close>

text \<open>\<open>[^,\s]\<close>\<close>

definition value_char :: "char \<Rightarrow> bool" where
  "value_char x = (x \<noteq> CHR '','' \<and> \<not> is_space x)"

definition sensitive_keys :: "string list" where
  "sensitive_keys = [''authorization='', ''token='', ''signature='', ''secret='']"

definition sensitive_patterns :: "rx list" where
  "sensitive_patterns = map (key_pattern value_char) sensitive_keys"

definition redact_string :: "string \<Rightarrow> string" where
  "redact_string x = fold (\<lambda>p t. rx_replace p mask_last t) sensitive_patterns x"

definition redact_text :: "json \<Rightarrow> json" where
  "redact_text v = (case v of JStr x \<Rightarrow> JStr (redact_string x) | _ \<Rightarrow> v)"

text \<open>
  A record's arguments are a tuple, or one dictionary for a message with named fields; iterating over a
  dictionary gives its keys.
\<close>

record log_record =
  lr_msg :: json
  lr_args :: json

definition log_filter :: "log_record \<Rightarrow> log_record" where
  "log_filter r =
     (let r1 = r\<lparr>lr_msg := redact_text (lr_msg r)\<rparr> in
      if truthy (lr_args r)
      then r1\<lparr>lr_args := JList (map redact_text
             (case lr_args r of JList vs \<Rightarrow> vs | JObj kvs \<Rightarrow> map (JStr \<circ> fst) kvs | _ \<Rightarrow> []))\<rparr>
      else r1)"

text \<open>\<open>report_operational_failure\<close>: the context it logs, every value cut to 256 characters.\<close>

definition safe_context :: "(json \<times> json) list \<Rightarrow> (string \<times> json) list" where
  "safe_context context =
     fold (\<lambda>(k, v) d. set_item (py_str k) (JStr (take 256 (py_str v))) d) context []"

section \<open>Error responses: \<open>exceptions.py\<close>\<close>

text \<open>
  What a view raises, as far as the handler tells apart: an exception of the framework with its status,
  its data and the \<open>public_code\<close> of its class; a missing object; a model's \<open>ValidationError\<close>, with a
  dictionary of messages or a list; a violated constraint; anything else.
\<close>

datatype raised =
    ApiRaised nat json string
  | Http404Raised
  | DjangoValidation "(string \<times> json) list option" "json list"
  | IntegrityRaised
  | OtherRaised string

definition default_error_codes :: "(nat \<times> string) list" where
  "default_error_codes =
     [(400, ''VALIDATION_ERROR''), (401, ''AUTHENTICATION_REQUIRED''), (403, ''PERMISSION_DENIED''),
      (404, ''NOT_FOUND''), (405, ''METHOD_NOT_ALLOWED''), (429, ''THROTTLED'')]"

fun public_code :: "raised \<Rightarrow> string" where
  "public_code (ApiRaised n d c) = c"
| "public_code e = ''''"

fun first_message :: "json list \<Rightarrow> string" where
  "first_message [] = ''Validation error.''"
| "first_message (JList (v # vs) # rest) = py_str v"
| "first_message (JStr x # rest) = x"
| "first_message (v # rest) = first_message rest"

definition extract_message :: "json \<Rightarrow> string" where
  "extract_message data =
     (case data of
        JObj kvs \<Rightarrow>
          (case item ''detail'' data of
             JNull \<Rightarrow> first_message (map snd kvs)
           | d \<Rightarrow> py_str d)
      | JList vs \<Rightarrow> ''Validation error.''
      | JStr x \<Rightarrow> x
      | _ \<Rightarrow> ''An error occurred.'')"

definition extract_details :: "json \<Rightarrow> json" where
  "extract_details data =
     (case data of
        JObj kvs \<Rightarrow> if kvs \<noteq> [] \<and> list_all (\<lambda>kv. fst kv = ''detail'') kvs then JObj [] else data
      | _ \<Rightarrow> data)"

definition error_envelope :: "string \<Rightarrow> json \<Rightarrow> json" where
  "error_envelope code data =
     JObj [(''error'', JObj [(''code'', JStr code), (''message'', JStr (extract_message data)),
                             (''details'', extract_details data)])]"

text \<open>The framework's response, or the one for what the framework does not handle.\<close>

definition base_response ::
  "(raised \<Rightarrow> (nat \<times> json) option) \<Rightarrow> raised \<Rightarrow> (nat \<times> json) option" where
  "base_response exception_handler exc =
     (case exception_handler exc of
        Some r \<Rightarrow> Some r
      | None \<Rightarrow>
          (case exc of
             Http404Raised \<Rightarrow> Some (404, JObj [(''detail'', JStr ''Not found.'')])
           | DjangoValidation (Some d) ms \<Rightarrow> Some (400, JObj d)
           | DjangoValidation None ms \<Rightarrow> Some (400, JObj [(''non_field_errors'', JList ms)])
           | IntegrityRaised \<Rightarrow>
               Some (400, JObj [(''non_field_errors'', JList [JStr
                 ''This change conflicts with an existing record or database constraint.''])])
           | _ \<Rightarrow> None))"

definition error_code :: "raised \<Rightarrow> nat \<Rightarrow> string" where
  "error_code exc status =
     or_str (public_code exc)
       (case map_of default_error_codes status of None \<Rightarrow> ''API_ERROR'' | Some c \<Rightarrow> c)"

definition standard_exception_handler ::
  "(raised \<Rightarrow> (nat \<times> json) option) \<Rightarrow> raised \<Rightarrow> (nat \<times> json) option" where
  "standard_exception_handler exception_handler exc =
     (case base_response exception_handler exc of
        None \<Rightarrow> None
      | Some (status, data) \<Rightarrow> Some (status, error_envelope (error_code exc status) data))"

section \<open>The middleware: \<open>middleware.py\<close>\<close>

definition process_exception :: "string \<Rightarrow> string \<Rightarrow> (nat \<times> json) option" where
  "process_exception path request_id =
     (if \<not> starts_with ''/api/'' path then None
      else Some (500, JObj [(''error'', JObj
             [(''code'', JStr ''SERVER_ERROR''),
              (''message'', JStr
                 ''Purple Squad backend hit a server error. Check backend logs with this request ID.''),
              (''request_id'', JStr request_id)])]))"

text \<open>
  \<open>RequestIDMiddleware\<close>: the id is the client's header or a new one, and it is on the request while the
  view runs, in the response header and in the log line.
\<close>

record http_response =
  hr_status :: nat
  hr_body :: json
  hr_headers :: "(string \<times> string) list"

definition request_id_call ::
  "(string \<Rightarrow> string option) \<Rightarrow> string \<Rightarrow> string \<Rightarrow> (string \<Rightarrow> http_response) \<Rightarrow> http_response \<times> string" where
  "request_id_call meta header fresh get_response =
     (let request_id = (case meta header of None \<Rightarrow> fresh | Some x \<Rightarrow> or_str x fresh);
          response = get_response request_id
      in (response\<lparr>hr_headers := set_item ''X-Request-ID'' request_id (hr_headers response)\<rparr>, request_id))"

text \<open>A view's outcome through the exception handler and then the middleware.\<close>

definition respond ::
  "(raised \<Rightarrow> (nat \<times> json) option) \<Rightarrow> string \<Rightarrow> string \<Rightarrow> raised + (nat \<times> json) \<Rightarrow> (nat \<times> json) option" where
  "respond exception_handler path request_id outcome =
     (case outcome of
        Inr r \<Rightarrow> Some r
      | Inl exc \<Rightarrow>
          (case standard_exception_handler exception_handler exc of
             Some r \<Rightarrow> Some r
           | None \<Rightarrow> process_exception path request_id))"

section \<open>Throttles: \<open>throttles.py\<close>\<close>

text \<open>\<open>str.isalnum\<close> in Latin-1.\<close>

definition is_alnum :: "char \<Rightarrow> bool" where
  "is_alnum c =
     (let n = (of_char c :: nat) in
      is_digit c \<or> (65 \<le> n \<and> n \<le> 90) \<or> (97 \<le> n \<and> n \<le> 122) \<or>
      n \<in> set [170, 178, 179, 181, 185, 186, 188, 189, 190] \<or> (192 \<le> n \<and> n \<noteq> 215 \<and> n \<noteq> 247))"

definition throttle_text :: "json \<Rightarrow> string" where
  "throttle_text v =
     filter (\<lambda>c. is_alnum c \<or> c \<in> set ''-_'') (lower_str (if truthy v then py_str v else ''''))"

definition opaque_identifier :: "(string \<Rightarrow> string) \<Rightarrow> string \<Rightarrow> json \<Rightarrow> string" where
  "opaque_identifier sha secret_key v =
     (let normalized = throttle_text v in
      if normalized = '''' then ''missing'' else sha (secret_key @ '':'' @ normalized))"

datatype throttle =
    LoginIP | LoginPhone | OtpSendIP | OtpSendPhone | OtpVerifyIP | OtpVerifyPhone | MfaChallenge
  | PaymentIP | LocationIP

fun throttle_scope :: "throttle \<Rightarrow> string" where
  "throttle_scope LoginIP = ''login_ip''"
| "throttle_scope LoginPhone = ''login_phone''"
| "throttle_scope OtpSendIP = ''otp_send_ip''"
| "throttle_scope OtpSendPhone = ''otp_send_phone''"
| "throttle_scope OtpVerifyIP = ''otp_verify_ip''"
| "throttle_scope OtpVerifyPhone = ''otp_verify_phone''"
| "throttle_scope MfaChallenge = ''otp_verify_phone''"
| "throttle_scope PaymentIP = ''payment_ip''"
| "throttle_scope LocationIP = ''location_ip''"

text \<open>The field of the body a throttle counts by; \<open>None\<close> for the throttles of an address.\<close>

fun request_field :: "throttle \<Rightarrow> string option" where
  "request_field LoginPhone = Some ''phone_number''"
| "request_field OtpSendPhone = Some ''phone_number''"
| "request_field OtpVerifyPhone = Some ''phone_number''"
| "request_field MfaChallenge = Some ''challenge_id''"
| "request_field t = None"

text \<open>\<open>cache_format\<close> and \<open>ident\<close>, the client's address, are the framework's.\<close>

definition throttle_cache_key ::
  "(string \<Rightarrow> string \<Rightarrow> string) \<Rightarrow> (string \<Rightarrow> string) \<Rightarrow> string \<Rightarrow> throttle \<Rightarrow> string \<Rightarrow> json \<Rightarrow> string" where
  "throttle_cache_key cache_format sha secret_key t ident data =
     cache_format (throttle_scope t)
       (case request_field t of
          None \<Rightarrow> ident
        | Some f \<Rightarrow> opaque_identifier sha secret_key (item f data))"

section \<open>The security challenge: \<open>turnstile.py\<close>\<close>

text \<open>The answer is an error or nothing; an action that is a list or a dictionary cannot be hashed.\<close>

definition verify_turnstile ::
  "bool \<Rightarrow> string \<Rightarrow> http_post \<Rightarrow> string \<Rightarrow> string \<Rightarrow> string \<Rightarrow> error option" where
  "verify_turnstile required secret_key post token remote_ip expected_action =
     (let failed = Some (FieldError ''captcha_token'' ''Security verification failed. Please try again.'');
          unavailable = Some (FieldError ''captcha_token'' ''Security verification is temporarily unavailable.'')
      in if \<not> required then None
      else if token = ''''
      then Some (FieldError ''captcha_token'' ''Complete the security check before requesting an OTP.'')
      else case post (JObj [(''secret'', JStr secret_key), (''response'', JStr token), (''remoteip'', JStr remote_ip)]) of
        Inl exc \<Rightarrow> unavailable
      | Inr (status, None) \<Rightarrow> unavailable
      | Inr (status, Some result) \<Rightarrow>
          if status \<ge> 400 then failed
          else case result of
            JObj kvs \<Rightarrow>
              if \<not> truthy (item ''success'' result) then failed
              else (case item ''action'' result of
                      JNull \<Rightarrow> None
                    | JStr a \<Rightarrow> if a = '''' \<or> a = expected_action then None else failed
                    | JList vs \<Rightarrow> Some (TypeError ''unhashable type'')
                    | JObj d \<Rightarrow> Some (TypeError ''unhashable type'')
                    | _ \<Rightarrow> failed)
          | _ \<Rightarrow> Some (AttributeError ''get''))"

section \<open>Health and deployment checks: \<open>views.py\<close>, \<open>checks.py\<close>\<close>

text \<open>
  What the probes find: whether the database answers, the migration plan (\<open>None\<close> when reading it
  fails, else whether something is pending), what the cache gives back (\<open>None\<close> when it fails).
\<close>

definition health_check :: "bool \<Rightarrow> bool option \<Rightarrow> string option \<Rightarrow> nat \<times> json" where
  "health_check database pending cached =
     (let migrations = (if \<not> database then ''unknown''
                        else case pending of None \<Rightarrow> ''unknown'' | Some True \<Rightarrow> ''pending'' | Some False \<Rightarrow> ''ok'');
          cache = (if cached = Some ''ok'' then ''ok'' else ''unavailable'');
          healthy = (database \<and> migrations = ''ok'' \<and> cache = ''ok'')
      in (if healthy then 200 else 503,
          JObj [(''status'', JStr (if healthy then ''ok'' else ''degraded'')),
                (''checks'', JObj [(''database'', JStr (if database then ''ok'' else ''unavailable'')),
                                   (''migrations'', JStr migrations), (''cache'', JStr cache)])]))"

definition not_found :: "nat \<times> json" where
  "not_found = (404, JObj [(''error'', JObj [(''code'', JStr ''NOT_FOUND''), (''message'', JStr ''Not found.''),
                                             (''details'', JObj [])])])"

definition provider_secret_checks :: "bool \<Rightarrow> string \<Rightarrow> string \<Rightarrow> string list \<Rightarrow> string list" where
  "provider_secret_checks debug key_secret webhook_secret cors_origins =
     (if debug then []
      else (if key_secret = '''' \<or> key_secret = ''test_razorpay_secret'' then [''purple_squad.E001''] else []) @
           (if webhook_secret = '''' \<or> webhook_secret = ''test_razorpay_webhook_secret''
            then [''purple_squad.E002''] else []) @
           (if cors_origins = [] then [''purple_squad.W001''] else []))"

section \<open>Lemmas\<close>

lemma not_value_char_lower: "\<not> value_char x \<Longrightarrow> lower_char x = x"
  by (auto simp: value_char_def is_space_def lower_char_def Let_def)

lemma key_class_value:
  assumes "key \<noteq> []" and "list_all (\<lambda>c. value_char (lower_char c)) key"
  shows "key_class value_char key"
proof -
  have "value_char x" if "lower_char x \<in> lower_char ` set key" for x
  proof (rule ccontr)
    assume "\<not> value_char x"
    then have "lower_char x = x" by (rule not_value_char_lower)
    with that assms(2) \<open>\<not> value_char x\<close> show False by (auto simp: list_all_iff)
  qed
  moreover have "value_char CHR ''*''" by code_simp
  ultimately show ?thesis using assms(1) by (simp add: key_class_def)
qed

lemma sensitive_keys_ok: "key \<in> set sensitive_keys \<Longrightarrow> key_class value_char key \<and> assignment_key key"
proof -
  have "list_all (\<lambda>key. key \<noteq> [] \<and> list_all (\<lambda>c. value_char (lower_char c)) key \<and> assignment_key key) sensitive_keys"
    by code_simp
  then show "key \<in> set sensitive_keys \<Longrightarrow> key_class value_char key \<and> assignment_key key"
    using key_class_value by (auto simp: list_all_iff)
qed

text \<open>One pattern after the other: a later one uncovers nothing that an earlier one has masked.\<close>

lemma fold_masks:
  assumes "\<forall>key\<in>set keys. key_class value_char key \<and> assignment_key key" and "assignment_key q"
    and "q \<in> set keys \<or> \<not> text_leaks value_char q x"
  shows "\<not> text_leaks value_char q (fold (\<lambda>p t. rx_replace p mask_last t) (map (key_pattern value_char) keys) x)"
  using assms
proof (induction keys arbitrary: x)
  case Nil
  then show ?case by simp
next
  case (Cons key keys)
  have "q \<in> set keys \<or> \<not> text_leaks value_char q (rx_replace (key_pattern value_char key) mask_last x)"
    using Cons.prems text_leaks_sub [of value_char key q x] by auto
  with Cons show ?case by simp
qed

lemma redact_string_masks: "key \<in> set sensitive_keys \<Longrightarrow> \<not> text_leaks value_char key (redact_string x)"
  unfolding redact_string_def sensitive_patterns_def
  by (rule fold_masks) (auto dest: sensitive_keys_ok)

definition json_leaks :: "json \<Rightarrow> bool" where
  "json_leaks v = (case v of JStr x \<Rightarrow> list_ex (\<lambda>key. text_leaks value_char key x) sensitive_keys | _ \<Rightarrow> False)"

lemma redact_text_no_leak: "\<not> json_leaks (redact_text v)"
  by (cases v) (auto simp: json_leaks_def redact_text_def list_ex_iff redact_string_masks)

lemma error_code_not_Nil [simp]: "error_code exc status \<noteq> []"
proof -
  have "list_all (\<lambda>kv. snd kv \<noteq> '''') default_error_codes" by code_simp
  then show ?thesis
    by (auto simp: error_code_def or_str_def list_all_iff dest!: map_of_SomeD split: option.split)
qed

lemma is_digit_alnum: "is_digit c \<Longrightarrow> is_alnum c"
  by (simp add: is_alnum_def Let_def)

lemma lower_digit: "is_digit c \<Longrightarrow> lower_char c = c"
  by (auto simp: is_digit_def lower_char_def Let_def)

text \<open>The throttle's text of a spelling the phone number check accepts.\<close>

lemma phone_chars: "e164 x \<Longrightarrow> c \<in> set x \<Longrightarrow> c = CHR ''+'' \<or> is_digit c"
  by (auto simp: e164_def list_all_iff split: list.splits)

lemma throttle_char:
  assumes "is_space c \<or> c = CHR ''+'' \<or> is_digit c"
  shows "lower_char c = c \<and> (is_alnum c \<or> c \<in> set ''-_'' \<longleftrightarrow> \<not> is_space c \<and> c \<noteq> CHR ''+'')"
  using assms
proof (elim disjE)
  assume sp: "is_space c"
  then have "lower_char c = c" by (intro not_value_char_lower) (simp add: value_char_def)
  moreover have "\<not> is_digit c" using sp is_digit_not_space by blast
  moreover have "\<not> is_alnum c" using sp \<open>\<not> is_digit c\<close> by (auto simp: is_alnum_def is_space_def Let_def)
  moreover have "c \<notin> set ''-_''" using sp by (auto simp: is_space_def)
  ultimately show ?thesis using sp by blast
next
  assume "c = CHR ''+''"
  moreover have "lower_char CHR ''+'' = CHR ''+'' \<and> \<not> is_alnum CHR ''+''" by code_simp
  ultimately show ?thesis by simp
next
  assume d: "is_digit c"
  then have "c \<noteq> CHR ''+''" by (auto simp: is_digit_def)
  with d show ?thesis by (simp add: lower_digit is_digit_alnum is_digit_not_space)
qed

lemma throttle_filter:
  "\<forall>c\<in>set x. is_space c \<or> c = CHR ''+'' \<or> is_digit c \<Longrightarrow>
     filter (\<lambda>c. is_alnum c \<or> c \<in> set ''-_'') (lower_str x) = mobile_of (remove_spaces x)"
proof (induction x)
  case (Cons c x)
  then have IH: "filter (\<lambda>c. is_alnum c \<or> c \<in> set ''-_'') (lower_str x) = mobile_of (remove_spaces x)" by simp
  have c: "lower_char c = c \<and> (is_alnum c \<or> c \<in> set ''-_'' \<longleftrightarrow> \<not> is_space c \<and> c \<noteq> CHR ''+'')"
    using Cons.prems by (intro throttle_char) simp
  have "lower_str (c # x) = c # lower_str x" using c by (simp add: lower_str_def)
  moreover have "mobile_of (remove_spaces (c # x)) =
      (if \<not> is_space c \<and> c \<noteq> CHR ''+'' then c # mobile_of (remove_spaces x) else mobile_of (remove_spaces x))"
    by (simp add: mobile_of_def remove_spaces_def)
  ultimately show ?case using c by (simp only: filter.simps IH)
qed (simp add: lower_str_def remove_spaces_def mobile_of_def)

lemma normalize_phoneD: "normalize_phone_number x = Inr p \<Longrightarrow> p = remove_spaces x \<and> e164 p"
  by (auto simp: normalize_phone_number_def Let_def split: if_splits)

lemma throttle_text_phone:
  assumes "normalize_phone_number x = Inr p"
  shows "throttle_text (JStr x) = mobile_of p"
proof -
  note p = normalize_phoneD [OF assms]
  have "is_space c \<or> c = CHR ''+'' \<or> is_digit c" if "c \<in> set x" for c
  proof (cases "is_space c")
    case False
    with that p have "c \<in> set p" by (simp add: remove_spaces_def)
    with p phone_chars show ?thesis by blast
  qed simp
  then have "filter (\<lambda>c. is_alnum c \<or> c \<in> set ''-_'') (lower_str x) = mobile_of (remove_spaces x)"
    by (intro throttle_filter) blast
  moreover have "x \<noteq> ''''" using p by (auto simp: remove_spaces_def e164_def)
  ultimately show ?thesis using p by (simp add: throttle_text_def py_str_def)
qed

lemma mobile_of_inj: "e164 p \<Longrightarrow> e164 q \<Longrightarrow> mobile_of p = mobile_of q \<Longrightarrow> p = q"
proof -
  have id: "mobile_of p = tl p \<and> p = CHR ''+'' # tl p" if "e164 p" for p
  proof -
    from that obtain d ds where p: "p = CHR ''+'' # d # ds" "is_digit d" "list_all is_digit ds"
      by (auto simp: e164_def split: list.splits)
    have "x \<noteq> CHR ''+''" if "is_digit x" for x using that by (auto simp: is_digit_def)
    with p have "filter (\<lambda>c. c \<noteq> CHR ''+'') (d # ds) = d # ds"
      by (intro filter_True) (auto simp: list_all_iff)
    with p show ?thesis by (simp add: mobile_of_def)
  qed
  show "e164 p \<Longrightarrow> e164 q \<Longrightarrow> mobile_of p = mobile_of q \<Longrightarrow> p = q"
    using id by metis
qed

section \<open>Properties\<close>

text \<open>C39: No log line carries a secret: after the filter, in the message and in every argument that is a
  text, what stands behind \<open>authorization=\<close>, \<open>token=\<close>, \<open>signature=\<close> or \<open>secret=\<close>, in any case, up
  to the next comma or white space, is the mask or nothing; so no pattern undoes another one.\<close>

theorem log_secrets_masked:
  "\<not> json_leaks (lr_msg (log_filter r)) \<and>
   (case lr_args (log_filter r) of
      JList vs \<Rightarrow> list_all (\<lambda>v. \<not> json_leaks v) vs
    | v \<Rightarrow> \<not> truthy v)"
proof (cases "truthy (lr_args r)")
  case True
  then show ?thesis by (simp add: log_filter_def Let_def list_all_iff redact_text_no_leak)
next
  case False
  then show ?thesis
    by (cases "lr_args r") (simp_all add: log_filter_def Let_def redact_text_no_leak)
qed

text \<open>Every outcome of a request under \<open>/api/\<close> is a response: an error comes as an envelope with a code
  that is not empty, a message and details, with the status of the framework's own response, and an
  exception that nothing handles becomes a 500 whose body does not depend on what was raised.\<close>

theorem api_errors_are_enveloped:
  assumes "starts_with ''/api/'' path"
  shows "case base_response exception_handler exc of
      Some (status, data) \<Rightarrow>
        respond exception_handler path rid (Inl exc) =
          Some (status, JObj [(''error'', JObj [(''code'', JStr (error_code exc status)),
            (''message'', JStr (extract_message data)), (''details'', extract_details data)])]) \<and>
        error_code exc status \<noteq> ''''
    | None \<Rightarrow>
        respond exception_handler path rid (Inl exc) = process_exception path rid \<and>
        process_exception path rid \<noteq> None"
  using assms
  by (auto simp: respond_def standard_exception_handler_def error_envelope_def process_exception_def
      split: option.split)

theorem api_errors_are_enveloped_witness:
  "respond (\<lambda>e. None) ''/api/v1/x/'' ''r'' (Inl Http404Raised) =
     Some (404, JObj [(''error'', JObj [(''code'', JStr ''NOT_FOUND''), (''message'', JStr ''Not found.''),
       (''details'', JObj [])])])"
  using api_errors_are_enveloped [of "''/api/v1/x/''" "\<lambda>e. None" "''r''" Http404Raised]
  by (simp add: base_response_def error_code_def or_str_def default_error_codes_def extract_message_def
      extract_details_def item_def py_str_def)

text \<open>The throttles that count by phone number cannot be evaded by spelling the number differently:
  whatever spelling of a number the login accepts, the key is that of its digits, so two spellings share
  a counter, and two numbers are counted apart.\<close>

theorem phone_throttle_counts_the_number:
  assumes "normalize_phone_number x = Inr p" and "normalize_phone_number y = Inr q"
  shows "opaque_identifier sha key (JStr x) = sha (key @ '':'' @ mobile_of p) \<and>
         (throttle_text (JStr x) = throttle_text (JStr y)) = (p = q)"
proof -
  have "mobile_of p \<noteq> ''''"
    using normalize_phoneD [OF assms(1)]
    by (auto simp: mobile_of_def e164_def is_digit_def filter_empty_conv split: list.splits)
  moreover have "(mobile_of p = mobile_of q) = (p = q)"
    using mobile_of_inj normalize_phoneD assms by blast
  ultimately show ?thesis
    using assms by (simp add: opaque_identifier_def Let_def throttle_text_phone)
qed

theorem phone_throttle_counts_the_number_witness:
  "opaque_identifier (\<lambda>x. x) ''k'' (JStr ''+91 98765 43210'') = ''k:919876543210''"
proof -
  have "normalize_phone_number ''+91 98765 43210'' = Inr ''+919876543210''" by code_simp
  from phone_throttle_counts_the_number [OF this this, of "\<lambda>x. x" "''k''"]
  show ?thesis by (simp add: mobile_of_def)
qed

text \<open>
  The passwordless access of customers accepts more spellings, any text with ten digits in it, and its
  throttle counts each spelling apart.
\<close>

theorem customer_access_throttle_evaded:
  "normalize_phone_number (customer_access_phone ''9876543210'') = Inr ''+919876543210'' \<and>
   normalize_phone_number (customer_access_phone ''98765-43210'') = Inr ''+919876543210'' \<and>
   throttle_text (JStr ''9876543210'') \<noteq> throttle_text (JStr ''98765-43210'')"
  by code_simp

end
