(* ===== verification/Settings.thy ===== *)
theory Settings
  imports Web
begin

text \<open>
  The settings, \<open>config/settings\<close>: how they are read from the environment and what production refuses
  to start with. The readers of the environment library (\<open>env\<close>, \<open>env.bool\<close>) are parameters; the three
  readers the repository defines are modelled. Of the settings the model has those that are checked,
  shown to administrators or used elsewhere in the model.
\<close>

section \<open>Reading the environment\<close>

type_synonym environ = "string \<Rightarrow> string option"

record env_reader =
  er_str :: "string \<Rightarrow> string \<Rightarrow> string"
  er_bool :: "string \<Rightarrow> bool \<Rightarrow> bool"

text \<open>\<open>text.split(sep)\<close> for one character, and \<open>value.rstrip("/")\<close>.\<close>

fun split_on :: "char \<Rightarrow> string \<Rightarrow> string list" where
  "split_on sep [] = [[]]"
| "split_on sep (c # cs) =
     (if c = sep then [] # split_on sep cs
      else case split_on sep cs of [] \<Rightarrow> [[c]] | w # ws \<Rightarrow> (c # w) # ws)"

fun csv_env :: "environ \<Rightarrow> string list \<Rightarrow> bool \<Rightarrow> string list" where
  "csv_env e [] strip = []"
| "csv_env e (name # names) strip =
     (case e name of
        None \<Rightarrow> csv_env e names strip
      | Some raw \<Rightarrow>
          let values = nonempty_parts (map strip_str (split_on CHR '','' raw)) in
          if strip then map rstrip_slash values else values)"

definition truthy_words :: "string list" where
  "truthy_words = [''1'', ''true'', ''t'', ''yes'', ''y'', ''on'']"

definition falsy_words :: "string list" where
  "falsy_words = [''0'', ''false'', ''f'', ''no'', ''n'', ''off'']"

text \<open>The left side is the message of the \<open>RuntimeError\<close>.\<close>

fun bool_env :: "environ \<Rightarrow> string list \<Rightarrow> bool \<Rightarrow> string + bool" where
  "bool_env e [] d = Inr d"
| "bool_env e (name # names) d =
     (case e name of
        None \<Rightarrow> bool_env e names d
      | Some raw \<Rightarrow>
          let normalized = lower_str (strip_str raw) in
          if normalized \<in> set truthy_words then Inr True
          else if normalized \<in> set falsy_words then Inr False
          else Inl (name @ '' must be a boolean value.''))"

fun string_env :: "environ \<Rightarrow> string list \<Rightarrow> string \<Rightarrow> string" where
  "string_env e [] d = d"
| "string_env e (name # names) d =
     (case e name of None \<Rightarrow> string_env e names d | Some raw \<Rightarrow> strip_str raw)"

section \<open>\<open>base.py\<close>\<close>

record site =
  st_secret_key :: string
  st_debug :: bool
  st_allowed_hosts :: "string list"
  st_cors_origins :: "string list"
  st_csrf_origins :: "string list"
  st_signing_key :: string
  st_otp_provider :: string
  st_msg91_auth_key :: string
  st_msg91_template_id :: string
  st_msg91_number :: string
  st_msg91_template_name :: string
  st_msg91_namespace :: string
  st_msg91_notification_template :: string
  st_msg91_webhook_secret :: string
  st_turnstile_secret :: string
  st_require_turnstile :: bool
  st_admin_mfa_enabled :: bool
  st_dev_phone_login :: bool
  st_razorpay_key_id :: string
  st_razorpay_key_secret :: string
  st_razorpay_webhook_secret :: string
  st_razorpay_adapter :: string
  st_notification_provider :: string
  st_require_balance :: bool
  st_show_api_docs :: bool
  st_django_admin :: bool
  st_use_cloudinary :: bool
  st_cloudinary_url :: string
  st_cloudinary_name :: string
  st_cloudinary_key :: string
  st_cloudinary_secret :: string
  st_secure_cookies :: bool

definition base_settings :: "environ \<Rightarrow> env_reader \<Rightarrow> string + site" where
  "base_settings e r =
     (let secret = string_env e [''DJANGO_SECRET_KEY'', ''SECRET_KEY''] ''unsafe-local-development-key'' in
      case bool_env e [''DJANGO_DEBUG'', ''DEBUG''] False of
        Inl msg \<Rightarrow> Inl msg
      | Inr debug \<Rightarrow> Inr
          \<lparr>st_secret_key = secret,
           st_debug = debug,
           st_allowed_hosts = csv_env e [''DJANGO_ALLOWED_HOSTS'', ''ALLOWED_HOSTS''] False,
           st_cors_origins = csv_env e [''CORS_ALLOWED_ORIGINS''] True,
           st_csrf_origins = csv_env e [''CSRF_TRUSTED_ORIGINS''] True,
           st_signing_key = er_str r ''JWT_SIGNING_KEY'' secret,
           st_otp_provider = er_str r ''OTP_AUTH_PROVIDER'' ''apps.accounts.otp.providers.Msg91OtpProvider'',
           st_msg91_auth_key = er_str r ''MSG91_AUTH_KEY'' '''',
           st_msg91_template_id = er_str r ''MSG91_TEMPLATE_ID'' '''',
           st_msg91_number = er_str r ''MSG91_WHATSAPP_INTEGRATED_NUMBER'' '''',
           st_msg91_template_name = er_str r ''MSG91_WHATSAPP_TEMPLATE_NAME'' '''',
           st_msg91_namespace = er_str r ''MSG91_WHATSAPP_TEMPLATE_NAMESPACE'' '''',
           st_msg91_notification_template = er_str r ''MSG91_WHATSAPP_NOTIFICATION_TEMPLATE_NAME'' '''',
           st_msg91_webhook_secret = er_str r ''MSG91_WEBHOOK_SECRET'' '''',
           st_turnstile_secret = er_str r ''TURNSTILE_SECRET_KEY'' '''',
           st_require_turnstile = er_bool r ''REQUIRE_TURNSTILE_FOR_OTP'' False,
           st_admin_mfa_enabled = er_bool r ''ADMIN_MFA_ENABLED'' False,
           st_dev_phone_login = er_bool r ''DEV_PHONE_LOGIN_ENABLED'' False,
           st_razorpay_key_id = er_str r ''RAZORPAY_KEY_ID'' '''',
           st_razorpay_key_secret = er_str r ''RAZORPAY_KEY_SECRET'' ''test_razorpay_secret'',
           st_razorpay_webhook_secret = er_str r ''RAZORPAY_WEBHOOK_SECRET'' ''test_razorpay_webhook_secret'',
           st_razorpay_adapter = er_str r ''RAZORPAY_ADAPTER'' ''apps.payments.providers.LocalRazorpayAdapter'',
           st_notification_provider =
             er_str r ''NOTIFICATION_PROVIDER'' ''apps.notifications.providers.LocalNotificationProvider'',
           st_require_balance = er_bool r ''BOOKING_REQUIRE_BALANCE_BEFORE_COMPLETION'' True,
           st_show_api_docs = er_bool r ''SHOW_API_DOCS'' debug,
           st_django_admin = er_bool r ''ENABLE_DJANGO_ADMIN'' debug,
           st_use_cloudinary = False, st_cloudinary_url = '''', st_cloudinary_name = '''',
           st_cloudinary_key = '''', st_cloudinary_secret = '''',
           st_secure_cookies = False\<rparr>)"

section \<open>\<open>production.py\<close>, \<open>local.py\<close>\<close>

definition ends_with :: "string \<Rightarrow> string \<Rightarrow> bool" where
  "ends_with suffix x = starts_with (rev suffix) (rev x)"

definition env_set :: "environ \<Rightarrow> string \<Rightarrow> bool" where
  "env_set e name = (case e name of None \<Rightarrow> False | Some x \<Rightarrow> x \<noteq> '''')"

text \<open>The settings that production sets itself.\<close>

definition production_site :: "env_reader \<Rightarrow> site \<Rightarrow> site" where
  "production_site r st =
     st\<lparr>st_signing_key := er_str r ''JWT_SIGNING_KEY'' '''',
        st_show_api_docs := er_bool r ''SHOW_API_DOCS'' False,
        st_django_admin := False,
        st_use_cloudinary := er_bool r ''USE_CLOUDINARY_MEDIA'' True,
        st_cloudinary_url := er_str r ''CLOUDINARY_URL'' '''',
        st_cloudinary_name := er_str r ''CLOUDINARY_CLOUD_NAME'' '''',
        st_cloudinary_key := er_str r ''CLOUDINARY_API_KEY'' '''',
        st_cloudinary_secret := er_str r ''CLOUDINARY_API_SECRET'' '''',
        st_secure_cookies := True\<rparr>"

text \<open>
  The refusals in the order of the file, each with its condition and its message; the first one that
  holds is raised.
\<close>

definition production_refusals :: "environ \<Rightarrow> env_reader \<Rightarrow> site \<Rightarrow> (bool \<times> string) list" where
  "production_refusals e r st =
     (let otp = (er_bool r ''REQUIRE_OTP_PROVIDER_CONFIG'' False \<and>
                 ends_with ''Msg91OtpProvider'' (st_otp_provider st));
          whatsapp = (er_bool r ''REQUIRE_OTP_PROVIDER_CONFIG'' False \<and>
                      ends_with ''Msg91WhatsAppNotificationProvider'' (st_notification_provider st))
      in [(st_debug st, ''DEBUG must be false in production.''),
          (\<not> env_set e ''DATABASE_URL'', ''DATABASE_URL must be set in production.''),
          (er_str r ''REDIS_URL'' '''' = '''', ''REDIS_URL must be set in production for shared throttling.''),
          (st_signing_key st = '''' \<or> st_signing_key st = st_secret_key st,
           ''JWT_SIGNING_KEY must be set to a dedicated production secret.''),
          (st_secret_key st = ''unsafe-local-development-key'', ''DJANGO_SECRET_KEY must be set in production.''),
          (st_allowed_hosts st = [], ''ALLOWED_HOSTS must be set in production.''),
          (st_cors_origins st = [], ''CORS_ALLOWED_ORIGINS must be set in production.''),
          (st_csrf_origins st = [], ''CSRF_TRUSTED_ORIGINS must be set in production.''),
          (st_razorpay_key_id st = '''', ''RAZORPAY_KEY_ID must be set in production.''),
          (st_razorpay_key_secret st = '''', ''RAZORPAY_KEY_SECRET must be set in production.''),
          (ends_with ''LocalRazorpayAdapter'' (st_razorpay_adapter st),
           ''RAZORPAY_ADAPTER must use RazorpayApiAdapter in production.''),
          (st_use_cloudinary st \<and> st_cloudinary_url st = '''' \<and>
             \<not> (st_cloudinary_name st \<noteq> '''' \<and> st_cloudinary_key st \<noteq> '''' \<and> st_cloudinary_secret st \<noteq> ''''),
           ''Cloudinary media storage must be configured in production.''),
          (otp \<and> st_msg91_auth_key st = '''', ''MSG91_AUTH_KEY must be set in production.''),
          (otp \<and> st_msg91_template_id st = '''', ''MSG91_TEMPLATE_ID must be set in production.''),
          (otp \<and> st_msg91_number st = '''', ''MSG91_WHATSAPP_INTEGRATED_NUMBER must be set in production.''),
          (otp \<and> st_msg91_template_name st = '''', ''MSG91_WHATSAPP_TEMPLATE_NAME must be set in production.''),
          (otp \<and> st_msg91_namespace st = '''', ''MSG91_WHATSAPP_TEMPLATE_NAMESPACE must be set in production.''),
          (whatsapp \<and> st_msg91_notification_template st = '''',
           ''MSG91_WHATSAPP_NOTIFICATION_TEMPLATE_NAME must be set in production.''),
          (whatsapp \<and> st_msg91_webhook_secret st = '''', ''MSG91_WEBHOOK_SECRET must be set in production.''),
          (st_require_turnstile st \<and> st_turnstile_secret st = '''',
           ''TURNSTILE_SECRET_KEY must be set when OTP CAPTCHA protection is enabled.''),
          (ends_with ''FirebaseAdminAuthProvider'' (st_otp_provider st) \<and>
             \<not> (env_set e ''FIREBASE_CREDENTIALS_JSON'' \<or> env_set e ''GOOGLE_APPLICATION_CREDENTIALS''),
           ''Firebase Admin credentials must be configured server-side in production.'')])"

fun first_refusal :: "(bool \<times> string) list \<Rightarrow> string option" where
  "first_refusal [] = None"
| "first_refusal ((refused, msg) # cs) = (if refused then Some msg else first_refusal cs)"

definition production_settings :: "environ \<Rightarrow> env_reader \<Rightarrow> string + site" where
  "production_settings e r =
     (case base_settings e r of
        Inl msg \<Rightarrow> Inl msg
      | Inr st \<Rightarrow>
          let pst = production_site r st in
          case first_refusal (production_refusals e r pst) of
            Some msg \<Rightarrow> Inl msg
          | None \<Rightarrow> Inr pst)"

definition with_entries :: "string list \<Rightarrow> string list \<Rightarrow> string list" where
  "with_entries extra xs = fold (\<lambda>x ys. if x \<in> set ys then ys else ys @ [x]) extra xs"

definition local_settings :: "environ \<Rightarrow> env_reader \<Rightarrow> string + site" where
  "local_settings e r =
     (case base_settings e r of
        Inl msg \<Rightarrow> Inl msg
      | Inr st \<Rightarrow>
          (case bool_env e [''DJANGO_DEBUG'', ''DEBUG''] True of
             Inl msg \<Rightarrow> Inl msg
           | Inr debug \<Rightarrow>
               let origins = [''http://localhost:3000'', ''http://127.0.0.1:3000''] in
               Inr (st\<lparr>st_debug := debug,
                       st_allowed_hosts := with_entries [''localhost'', ''127.0.0.1''] (st_allowed_hosts st),
                       st_cors_origins := with_entries origins (st_cors_origins st),
                       st_csrf_origins := with_entries origins (st_csrf_origins st)\<rparr>)))"

text \<open>The prefixes that \<open>urls.py\<close> serves.\<close>

definition url_prefixes :: "site \<Rightarrow> string list" where
  "url_prefixes st =
     [''api/v1/''] @ (if st_django_admin st then [''admin/''] else []) @
     (if st_show_api_docs st then [''api/schema/'', ''api/docs/'', ''api/redoc/''] else []) @
     (if st_debug st then [''media/''] else [])"

section \<open>The settings an administrator sees: \<open>AdminSettingsView\<close>\<close>

definition admin_settings :: "string \<Rightarrow> site \<Rightarrow> json" where
  "admin_settings firebase_credentials st =
     JObj [(''debug'', JBool (st_debug st)),
           (''allowed_hosts'', JList (map JStr (st_allowed_hosts st))),
           (''cors_allowed_origins'', JList (map JStr (st_cors_origins st))),
           (''csrf_trusted_origins'', JList (map JStr (st_csrf_origins st))),
           (''otp_provider'', JStr (st_otp_provider st)),
           (''notification_provider'', JStr (st_notification_provider st)),
           (''razorpay_configured'',
            JBool (st_razorpay_key_id st \<noteq> '''' \<and> st_razorpay_key_secret st \<noteq> '''')),
           (''msg91_configured'',
            JBool (st_msg91_auth_key st \<noteq> '''' \<and> st_msg91_template_id st \<noteq> '''' \<and> st_msg91_number st \<noteq> '''' \<and>
                   st_msg91_template_name st \<noteq> '''' \<and> st_msg91_namespace st \<noteq> '''')),
           (''firebase_configured'', JBool (firebase_credentials \<noteq> '''')),
           (''cloudinary_media_enabled'', JBool (st_use_cloudinary st)),
           (''cloudinary_media_configured'',
            JBool (st_cloudinary_url st \<noteq> '''' \<or>
                   (st_cloudinary_name st \<noteq> '''' \<and> st_cloudinary_key st \<noteq> '''' \<and> st_cloudinary_secret st \<noteq> ''''))),
           (''booking_require_balance_before_completion'', JBool (st_require_balance st))]"

section \<open>Lemmas\<close>

lemma first_refusal_None: "first_refusal cs = None \<longleftrightarrow> list_all (\<lambda>c. \<not> fst c) cs"
  by (induction cs rule: first_refusal.induct) (simp_all split: if_splits)

lemma production_settingsD:
  assumes "production_settings e r = Inr pst"
  obtains st where "base_settings e r = Inr st" "pst = production_site r st"
    "list_all (\<lambda>c. \<not> fst c) (production_refusals e r pst)"
  using assms by (auto simp: production_settings_def Let_def first_refusal_None split: sum.splits option.splits)

definition sample_environ :: environ where
  "sample_environ = map_of
     [(''DJANGO_SECRET_KEY'', ''s''), (''DJANGO_ALLOWED_HOSTS'', ''a.example, b.example''),
      (''CORS_ALLOWED_ORIGINS'', ''https://a.example/''), (''CSRF_TRUSTED_ORIGINS'', ''https://a.example''),
      (''DATABASE_URL'', ''postgres://db''), (''REDIS_URL'', ''redis://cache''), (''JWT_SIGNING_KEY'', ''j''),
      (''RAZORPAY_KEY_ID'', ''rzp_live''),
      (''RAZORPAY_ADAPTER'', ''apps.payments.providers.RazorpayApiAdapter''), (''CLOUDINARY_URL'', ''c'')]"

definition sample_reader :: env_reader where
  "sample_reader =
     \<lparr>er_str = (\<lambda>name d. case sample_environ name of None \<Rightarrow> d | Some x \<Rightarrow> x),
      er_bool = (\<lambda>name d. case sample_environ name of None \<Rightarrow> d | Some x \<Rightarrow> x = ''true'')\<rparr>"

section \<open>Properties\<close>

text \<open>C24: What production starts with: debugging is off, the cookies are secure, neither the framework's
  administration pages nor the media files are served, the secret key is not the one of development,
  the tokens are signed with a key of their own, the lists of hosts and origins are not empty, payments
  do not go through the local adapter, and a required security challenge has its secret.\<close>

theorem production_is_locked_down:
  assumes "production_settings e r = Inr st"
  shows "\<not> st_debug st \<and> st_secure_cookies st \<and>
         ''admin/'' \<notin> set (url_prefixes st) \<and> ''media/'' \<notin> set (url_prefixes st) \<and>
         st_secret_key st \<noteq> ''unsafe-local-development-key'' \<and>
         st_signing_key st \<noteq> '''' \<and> st_signing_key st \<noteq> st_secret_key st \<and>
         st_allowed_hosts st \<noteq> [] \<and> st_cors_origins st \<noteq> [] \<and> st_csrf_origins st \<noteq> [] \<and>
         \<not> ends_with ''LocalRazorpayAdapter'' (st_razorpay_adapter st) \<and>
         (st_require_turnstile st \<longrightarrow> st_turnstile_secret st \<noteq> '''')"
proof -
  from assms obtain b where st: "st = production_site r b"
    and ok: "list_all (\<lambda>c. \<not> fst c) (production_refusals e r st)"
    by (rule production_settingsD)
  from st have "st_secure_cookies st" "\<not> st_django_admin st" by (simp_all add: production_site_def)
  with ok show ?thesis by (simp add: production_refusals_def Let_def url_prefixes_def)
qed

theorem production_is_locked_down_witness:
  "\<exists>st. production_settings sample_environ sample_reader = Inr st \<and> \<not> st_debug st"
proof -
  have "\<not> isl (production_settings sample_environ sample_reader)" by code_simp
  then obtain st where "production_settings sample_environ sample_reader = Inr st"
    by (cases "production_settings sample_environ sample_reader") auto
  with production_is_locked_down [OF this] show ?thesis by blast
qed

text \<open>Production starts with the payment secrets of the tests: the defaults of the two Razorpay secrets
  are not empty, so a deployment that sets neither passes every refusal and verifies payments and
  webhooks with secrets that are in the repository; only the deployment check, when it is run, names
  them.\<close>

theorem production_accepts_test_secrets:
  "case production_settings sample_environ sample_reader of
     Inl msg \<Rightarrow> False
   | Inr st \<Rightarrow>
       sample_environ ''RAZORPAY_KEY_SECRET'' = None \<and> sample_environ ''RAZORPAY_WEBHOOK_SECRET'' = None \<and>
       st_razorpay_key_secret st = ''test_razorpay_secret'' \<and>
       st_razorpay_webhook_secret st = ''test_razorpay_webhook_secret'' \<and>
       provider_secret_checks (st_debug st) (st_razorpay_key_secret st) (st_razorpay_webhook_secret st)
         (st_cors_origins st) = [''purple_squad.E001'', ''purple_squad.E002'']"
  by code_simp

text \<open>The page of settings shows an administrator no secret: two sites that agree on the public
  settings, and on which of the keys and secrets are set at all, show the same page.\<close>

definition public_settings :: "site \<Rightarrow> bool \<times> string list \<times> string list \<times> string list \<times> string \<times> string \<times> bool \<times> bool" where
  "public_settings st =
     (st_debug st, st_allowed_hosts st, st_cors_origins st, st_csrf_origins st, st_otp_provider st,
      st_notification_provider st, st_use_cloudinary st, st_require_balance st)"

definition secrets_set :: "site \<Rightarrow> bool list" where
  "secrets_set st =
     map (\<lambda>f. f st \<noteq> '''')
       [st_razorpay_key_id, st_razorpay_key_secret, st_msg91_auth_key, st_msg91_template_id, st_msg91_number,
        st_msg91_template_name, st_msg91_namespace, st_cloudinary_url, st_cloudinary_name, st_cloudinary_key,
        st_cloudinary_secret]"

theorem admin_settings_show_no_secret:
  assumes "public_settings st1 = public_settings st2" and "secrets_set st1 = secrets_set st2"
    and "(f1 = '''') = (f2 = '''')"
  shows "admin_settings f1 st1 = admin_settings f2 st2"
  using assms by (simp add: public_settings_def secrets_set_def admin_settings_def)

theorem admin_settings_show_no_secret_witness:
  "case production_settings sample_environ sample_reader of
     Inl msg \<Rightarrow> False
   | Inr st \<Rightarrow> admin_settings '''' (st\<lparr>st_razorpay_key_secret := ''a''\<rparr>) =
               admin_settings '''' (st\<lparr>st_razorpay_key_secret := ''b''\<rparr>)"
proof -
  have "\<not> isl (production_settings sample_environ sample_reader)" by code_simp
  then obtain st where st: "production_settings sample_environ sample_reader = Inr st"
    by (cases "production_settings sample_environ sample_reader") auto
  have "admin_settings '''' (st\<lparr>st_razorpay_key_secret := ''a''\<rparr>) =
      admin_settings '''' (st\<lparr>st_razorpay_key_secret := ''b''\<rparr>)"
    by (rule admin_settings_show_no_secret) (simp_all add: public_settings_def secrets_set_def)
  with st show ?thesis by simp
qed

end
