(* ===== verification/Map_Provider.thy ===== *)
theory Map_Provider
  imports Locations Settings Patterns
begin

text \<open>
  The client of the map service, \<open>apps/locations/providers.py\<close>: the request with its one retry, what is
  logged of a failure, the normal form of an address, the cache and the fallback, and the two public
  handlers that use it. The HTTP client, the JSON library, the hash, the text of a floating-point number
  and other provider classes are parameters. Coordinates are in units of 1e-7 degrees.
\<close>

section \<open>Parameters and state\<close>

datatype http_outcome = HttpTimeout | HttpError | HttpResponse nat string

record location_error =
  le_message :: string
  le_reason :: string
  le_status :: json
  le_snippet :: string
  le_latency :: "int option"
  le_request_id :: string

text \<open>A line of the log, and the state behind the client: the cache with its expiry, the requests sent.\<close>

record failure_line =
  fl_path :: string
  fl_request_id :: string
  fl_status :: string
  fl_latency :: string
  fl_attempt :: nat
  fl_body :: string

record map_world =
  mw_cache :: "(string \<times> json \<times> timestamp) list"
  mw_requests :: nat
  mw_log :: "failure_line list"

record map_provider =
  pv_reverse :: "int \<Rightarrow> int \<Rightarrow> string \<Rightarrow> map_world \<Rightarrow> (location_error + json) \<times> map_world"
  pv_autocomplete ::
    "string \<Rightarrow> (int \<times> int) option \<Rightarrow> string \<Rightarrow> string \<Rightarrow> map_world \<Rightarrow> (location_error + json) \<times> map_world"

text \<open>\<open>me_http n\<close> is the answer of the service to the n-th request, with its latency in milliseconds.\<close>

record map_env =
  me_api_key :: string
  me_provider :: string
  me_fallback :: string
  me_reverse_seconds :: int
  me_autocomplete_seconds :: int
  me_http :: "nat \<Rightarrow> string \<Rightarrow> (string \<times> string) list \<Rightarrow> http_outcome \<times> int"
  me_loads :: "string \<Rightarrow> json option"
  me_dumps :: "json \<Rightarrow> string"
  me_fixed4 :: "int \<Rightarrow> string"
  me_float :: "int \<Rightarrow> string"
  me_sha :: "string \<Rightarrow> string"
  me_uuid :: string
  me_other :: "string \<Rightarrow> map_provider"

section \<open>The cache\<close>

text \<open>A stored \<open>None\<close> cannot be told from a missing entry.\<close>

definition cache_get :: "string \<Rightarrow> timestamp \<Rightarrow> map_world \<Rightarrow> json option" where
  "cache_get k now w =
     (case map_of (mw_cache w) k of
        Some (v, t) \<Rightarrow> if now < t \<and> v \<noteq> JNull then Some v else None
      | None \<Rightarrow> None)"

definition cache_set :: "string \<Rightarrow> json \<Rightarrow> int \<Rightarrow> timestamp \<Rightarrow> map_world \<Rightarrow> map_world" where
  "cache_set k v seconds now w = w\<lparr>mw_cache := set_item k (v, now + seconds * 1000000) (mw_cache w)\<rparr>"

text \<open>\<open>cache.add\<close> sets only what is not there; \<open>cache.incr\<close> keeps the expiry and fails on a missing key.\<close>

definition cache_add :: "string \<Rightarrow> json \<Rightarrow> int \<Rightarrow> timestamp \<Rightarrow> map_world \<Rightarrow> map_world" where
  "cache_add k v seconds now w =
     (case cache_get k now w of None \<Rightarrow> cache_set k v seconds now w | Some x \<Rightarrow> w)"

definition cache_incr :: "string \<Rightarrow> timestamp \<Rightarrow> map_world \<Rightarrow> (int \<times> map_world) option" where
  "cache_incr k now w =
     (case map_of (mw_cache w) k of
        Some (JNum n, t) \<Rightarrow>
          if now < t then Some (n + 1, w\<lparr>mw_cache := set_item k (JNum (n + 1), t) (mw_cache w)\<rparr>) else None
      | _ \<Rightarrow> None)"

definition month_str :: "timestamp \<Rightarrow> string" where
  "month_str now = take 7 (date_str (utc_date now))"

definition forty_days :: int where
  "forty_days = 3456000"

definition track_provider_call :: "timestamp \<Rightarrow> map_world \<Rightarrow> map_world" where
  "track_provider_call now w =
     (let key = ''location:provider-calls:'' @ month_str now;
          w1 = cache_add key (JNum 0) forty_days now w
      in case cache_incr key now w1 of
           Some (count, w2) \<Rightarrow> w2
         | None \<Rightarrow> cache_set key (JNum 1) forty_days now w1)"

section \<open>What may be logged\<close>

definition request_id_char :: "char \<Rightarrow> bool" where
  "request_id_char c =
     (let n = (of_char c :: nat) in
      is_digit c \<or> (65 \<le> n \<and> n \<le> 90) \<or> (97 \<le> n \<and> n \<le> 122) \<or> c \<in> set ''._-'')"

definition safe_request_id :: "string \<Rightarrow> string \<Rightarrow> string" where
  "safe_request_id uuid value = or_str (take 64 (filter request_id_char value)) uuid"

definition pincode_pattern :: rx where
  "pincode_pattern =
     \<lparr>rx_before = is_digit,
      rx_alts = [[one (\<lambda>c. is_digit c \<and> c \<noteq> CHR ''0''), Item is_digit 5 (Some 5)]],
      rx_after = is_digit\<rparr>"

definition coordinates_pattern :: rx where
  "coordinates_pattern =
     \<lparr>rx_before = is_digit,
      rx_alts = [[Item (\<lambda>c. c = CHR ''-'') 0 (Some 1), Item is_digit 1 (Some 2), one (\<lambda>c. c = CHR ''.''),
                  Item is_digit 3 None, one (\<lambda>c. c = CHR '',''), Item is_space 0 None,
                  Item (\<lambda>c. c = CHR ''-'') 0 (Some 1), Item is_digit 1 (Some 3), one (\<lambda>c. c = CHR ''.''),
                  Item is_digit 3 None]],
      rx_after = is_digit\<rparr>"

text \<open>The double quote is \<open>CHR 34\<close>, the single quote \<open>CHR 39\<close>.\<close>

definition api_key_pattern :: rx where
  "api_key_pattern =
     \<lparr>rx_before = nothing,
      rx_alts = [lit_ci ''api'' @ [Item (\<lambda>c. c \<in> set ''_-'') 0 (Some 1)] @ lit_ci ''key'' @
                 [Item (\<lambda>c. c \<in> set (''=:%20 '' @ [CHR 34, CHR 39])) 1 None,
                  Item (\<lambda>c. c \<notin> set (''&, }'' @ [CHR 34, CHR 39])) 1 None]],
      rx_after = nothing\<rparr>"

definition quoted_field :: "string \<Rightarrow> rx_item list" where
  "quoted_field name =
     lit [CHR 34] @ lit_ci name @ lit [CHR 34] @
     [Item is_space 0 None, one (\<lambda>c. c = CHR '':''), Item is_space 0 None, one (\<lambda>c. c = CHR 34),
      Item (\<lambda>c. c \<noteq> CHR 34) 0 None]"

definition query_pattern :: rx where
  "query_pattern =
     \<lparr>rx_before = nothing, rx_alts = map quoted_field [''input'', ''address'', ''latlng''], rx_after = nothing\<rparr>"

definition redact_last :: "string list \<Rightarrow> string" where
  "redact_last segs = concat (butlast segs) @ ''<redacted>''"

definition redact_query :: "string \<Rightarrow> string" where
  "redact_query x = rx_replace query_pattern redact_last (rx_replace api_key_pattern redact_last x)"

definition redact_pincodes :: "string \<Rightarrow> string" where
  "redact_pincodes x = rx_replace pincode_pattern (\<lambda>_. ''<redacted-pincode>'') x"

definition redact_coordinates :: "string \<Rightarrow> string" where
  "redact_coordinates x = rx_replace coordinates_pattern (\<lambda>_. ''<redacted-coordinates>'') x"

definition join_words :: "string \<Rightarrow> string" where
  "join_words x = join_str '' '' (split_words x)"

text \<open>The keys of an answer that are kept, in the order of the code.\<close>

definition safe_payload :: "(string \<times> json) list \<Rightarrow> json" where
  "safe_payload kvs =
     JObj (concat (map (\<lambda>k. case map_of kvs k of None \<Rightarrow> [] | Some v \<Rightarrow> [(k, v)])
                       [''status'', ''error_message'', ''message'', ''info_messages'']))"

definition raw_snippet :: "map_env \<Rightarrow> string \<Rightarrow> string" where
  "raw_snippet env body =
     (let raw = take 2000 body in
      case me_loads env raw of
        None \<Rightarrow> take 500 raw
      | Some (JObj kvs) \<Rightarrow> take 500 (me_dumps env (safe_payload kvs))
      | Some v \<Rightarrow> ''<non-object response>'')"

definition safe_body_snippet :: "map_env \<Rightarrow> string \<Rightarrow> string" where
  "safe_body_snippet env body =
     join_words (redact_coordinates (redact_pincodes (redact_query (raw_snippet env body))))"

definition log_failure :: "string \<Rightarrow> location_error \<Rightarrow> nat \<Rightarrow> map_world \<Rightarrow> map_world" where
  "log_failure path e attempt w =
     w\<lparr>mw_log := mw_log w @
         [\<lparr>fl_path = path, fl_request_id = le_request_id e,
           fl_status = py_str (json_or (le_status e) (JStr ''misconfigured'')),
           fl_latency = (case le_latency e of None \<Rightarrow> ''n/a'' | Some ms \<Rightarrow> int_str ms),
           fl_attempt = attempt, fl_body = or_str (le_snippet e) ''<empty>''\<rparr>]\<rparr>"

section \<open>The request\<close>

definition unavailable_message :: string where
  "unavailable_message = ''Address lookup is temporarily unavailable.''"

definition blank_error :: "string \<Rightarrow> location_error" where
  "blank_error request_id =
     \<lparr>le_message = unavailable_message, le_reason = ''unavailable'', le_status = JNull, le_snippet = '''',
      le_latency = None, le_request_id = request_id\<rparr>"

definition misconfigured :: "location_error \<Rightarrow> location_error" where
  "misconfigured e = e\<lparr>le_message := ''Address lookup is not configured.'', le_reason := ''misconfigured''\<rparr>"

definition malformed_error :: "string \<Rightarrow> int option \<Rightarrow> string \<Rightarrow> nat \<Rightarrow> location_error" where
  "malformed_error request_id latency snippet status =
     (blank_error request_id)\<lparr>le_status := JNum (int status), le_snippet := snippet, le_latency := latency\<rparr>"

definition provider_timeout :: "int \<Rightarrow> int" where
  "provider_timeout seconds = min (max seconds 1) 15"

text \<open>
  What one answer means: the payload, or an error with whether a second attempt is worth while.
\<close>

definition read_answer ::
  "map_env \<Rightarrow> string \<Rightarrow> http_outcome \<times> int \<Rightarrow> (location_error \<times> bool) + json" where
  "read_answer env rid answer =
     (let err = (blank_error rid)\<lparr>le_latency := Some (snd answer)\<rparr> in
      case fst answer of
        HttpTimeout \<Rightarrow> Inl (err\<lparr>le_status := JStr ''timeout''\<rparr>, True)
      | HttpError \<Rightarrow> Inl (err\<lparr>le_status := JStr ''network_error''\<rparr>, False)
      | HttpResponse status text \<Rightarrow>
          (let snippet = safe_body_snippet env text;
               answered = err\<lparr>le_status := JNum (int status), le_snippet := snippet\<rparr>
           in if status = 401 \<or> status = 403 then Inl (misconfigured answered, False)
              else if status = 429 \<or> status \<ge> 500 then Inl (answered, status \<ge> 500)
              else if status \<ge> 400 then Inl (answered, False)
              else case me_loads env text of
                     Some (JObj kvs) \<Rightarrow> Inr (JObj kvs)
                   | _ \<Rightarrow> Inl (malformed_error rid (Some (snd answer)) snippet status, False)))"

text \<open>The loop \<open>for attempt in range(2)\<close> over the attempts that are left; \<open>continue\<close> goes on with the rest.\<close>

fun get_attempts ::
  "map_env \<Rightarrow> string \<Rightarrow> (string \<times> string) list \<Rightarrow> string \<Rightarrow> nat list \<Rightarrow> map_world \<Rightarrow>
     (location_error + json) \<times> map_world" where
  "get_attempts env path params rid [] w = (Inl (blank_error rid), w)"
| "get_attempts env path params rid (attempt # rest) w =
     (let answer = me_http env (mw_requests w) path (params @ [(''api_key'', strip_str (me_api_key env))]);
          w1 = w\<lparr>mw_requests := Suc (mw_requests w)\<rparr>
      in case read_answer env rid answer of
           Inr payload \<Rightarrow> (Inr payload, w1)
         | Inl (e, retry) \<Rightarrow>
             (let w2 = log_failure path e (attempt + 1) w1 in
              if retry \<and> attempt = 0 then get_attempts env path params rid rest w2 else (Inl e, w2)))"

definition get_payload ::
  "map_env \<Rightarrow> string \<Rightarrow> (string \<times> string) list \<Rightarrow> string \<Rightarrow> timestamp \<Rightarrow> map_world \<Rightarrow>
     (location_error + json) \<times> map_world" where
  "get_payload env path params request_id now w =
     (let rid = safe_request_id (me_uuid env) request_id in
      if strip_str (me_api_key env) = ''''
      then (let e = misconfigured (blank_error rid) in (Inl e, log_failure path e 1 w))
      else get_attempts env path params rid [0, 1] (track_provider_call now w))"

section \<open>The normal form of a place\<close>

text \<open>\<open>x in container\<close> for a text \<open>x\<close>: membership, a part of a text, a key; other values have no \<open>in\<close>.\<close>

definition py_in :: "string \<Rightarrow> json \<Rightarrow> error + bool" where
  "py_in x container =
     (case container of
        JList vs \<Rightarrow> Inr (JStr x \<in> set vs)
      | JStr t \<Rightarrow> Inr (contains_str x t)
      | JObj kvs \<Rightarrow> Inr (x \<in> fst ` set kvs)
      | _ \<Rightarrow> Inl (TypeError ''argument is not iterable''))"

fun any_in :: "string list \<Rightarrow> json \<Rightarrow> error + bool" where
  "any_in [] container = Inr False"
| "any_in (x # xs) container =
     (case py_in x container of
        Inl e \<Rightarrow> Inl e
      | Inr found \<Rightarrow> if found then Inr True else any_in xs container)"

text \<open>The text of the first component of one of the given types.\<close>

fun place_component :: "string list \<Rightarrow> json list \<Rightarrow> error + string" where
  "place_component types [] = Inr ''''"
| "place_component types (JObj kvs # items) =
     (case any_in types (json_or (item ''types'' (JObj kvs)) (JList [])) of
        Inl e \<Rightarrow> Inl e
      | Inr found \<Rightarrow>
          if found
          then Inr (py_str (json_or (json_or (item ''long_name'' (JObj kvs)) (item ''short_name'' (JObj kvs))) (JStr '''')))
          else place_component types items)"
| "place_component types (v # items) = place_component types items"

definition city_from_text :: "string \<Rightarrow> string" where
  "city_from_text text =
     (let folded = lower_str text in
      if contains_str ''chennai'' folded then ''Chennai''
      else if contains_str ''coimbatore'' folded then ''Coimbatore'' else '''')"

definition pincode_from_text :: "string \<Rightarrow> string" where
  "pincode_from_text text = (case rx_search pincode_pattern None text of None \<Rightarrow> '''' | Some segs \<Rightarrow> concat segs)"

definition supported_cities :: "string list" where
  "supported_cities = [''chennai'', ''coimbatore'']"

definition area_matches :: "string \<Rightarrow> string \<Rightarrow> service_area \<Rightarrow> bool" where
  "area_matches city pincode a =
     (ar_active a \<and> ((pincode \<noteq> '''' \<and> ar_postal_code a = pincode) \<or>
                      (city \<noteq> '''' \<and> lower_str (ar_city a) = lower_str city)))"

definition serviceability :: "string \<Rightarrow> string \<Rightarrow> 'x locations_db_scheme \<Rightarrow> bool \<times> bool" where
  "serviceability city pincode s =
     (strip_str (lower_str city) \<in> set supported_cities, list_ex (area_matches city pincode) (service_areas s))"

text \<open>\<open>a or b\<close> where computing the first text may raise.\<close>

definition or_text :: "error + string \<Rightarrow> error + string \<Rightarrow> error + string" where
  "or_text a b = (case a of Inl e \<Rightarrow> Inl e | Inr x \<Rightarrow> if x = '''' then b else Inr x)"

definition place_text :: "json \<Rightarrow> string" where
  "place_text v = py_str (json_or v (JStr ''''))"

definition place_point :: "(string \<times> json) list \<Rightarrow> (string \<times> json) list" where
  "place_point kvs =
     (let geometry = json_or (item ''geometry'' (JObj kvs)) (JObj []);
          location = (case geometry of
                        JObj g \<Rightarrow> json_or (item ''location'' geometry) geometry
                      | _ \<Rightarrow> JObj [])
      in case location of JObj l \<Rightarrow> l | _ \<Rightarrow> [])"

definition place_components :: "(string \<times> json) list \<Rightarrow> json list" where
  "place_components kvs =
     (case json_or (item ''address_components'' (JObj kvs)) (JList []) of JList vs \<Rightarrow> vs | _ \<Rightarrow> [])"

record place_parts =
  pp_house :: string
  pp_street :: string
  pp_locality :: string
  pp_city :: string
  pp_pincode :: string
  pp_state :: string
  pp_country :: string

text \<open>The texts of the components; an ill-typed component raises.\<close>

definition place_parts_of :: "(string \<times> json) list \<Rightarrow> string \<Rightarrow> error + place_parts" where
  "place_parts_of kvs formatted =
     (let component = (\<lambda>types. place_component types (place_components kvs)) in
      case component [''street_number'', ''premise'', ''subpremise''] of Inl e \<Rightarrow> Inl e | Inr house \<Rightarrow>
      (case or_text (component [''street_address'', ''route'']) (Inr (place_text (item ''name'' (JObj kvs)))) of
         Inl e \<Rightarrow> Inl e | Inr street \<Rightarrow>
      (case component [''sublocality_level_1'', ''sublocality'', ''neighborhood''] of Inl e \<Rightarrow> Inl e | Inr loc \<Rightarrow>
      (case component [''locality'', ''administrative_area_level_2'', ''administrative_area_level_3''] of
         Inl e \<Rightarrow> Inl e | Inr component_city \<Rightarrow>
       let city = or_str (city_from_text formatted) component_city in
      (case or_text (component [''postal_code'']) (Inr (pincode_from_text formatted)) of
         Inl e \<Rightarrow> Inl e | Inr pincode \<Rightarrow>
      (case or_text (component [''administrative_area_level_1''])
              (Inr (if lower_str city \<in> set supported_cities then ''Tamil Nadu'' else '''')) of
         Inl e \<Rightarrow> Inl e | Inr state \<Rightarrow>
      (case or_text (component [''country'']) (Inr ''India'') of
         Inl e \<Rightarrow> Inl e | Inr country \<Rightarrow>
       Inr \<lparr>pp_house = house, pp_street = street, pp_locality = loc, pp_city = city, pp_pincode = pincode,
            pp_state = state, pp_country = country\<rparr>)))))))"

definition normalise_place ::
  "json \<Rightarrow> json \<Rightarrow> json \<Rightarrow> 'x locations_db_scheme \<Rightarrow> error + (string \<times> json) list" where
  "normalise_place fallback_lat fallback_lng place s =
     (case place of
        JObj kvs \<Rightarrow>
          let formatted = place_text (json_or (item ''formatted_address'' place) (item ''description'' place));
              point = place_point kvs
          in (case place_parts_of kvs formatted of
                Inl e \<Rightarrow> Inl e
              | Inr p \<Rightarrow>
                  let (supported, serviceable) = serviceability (pp_city p) (pp_pincode p) s in
                  Inr [(''formatted_address'', JStr formatted), (''house_number'', JStr (pp_house p)),
                       (''street'', JStr (pp_street p)), (''locality'', JStr (pp_locality p)),
                       (''city'', JStr (pp_city p)), (''state'', JStr (pp_state p)),
                       (''pincode'', JStr (pp_pincode p)), (''country'', JStr (pp_country p)),
                       (''latitude'', case map_of point ''lat'' of None \<Rightarrow> fallback_lat | Some v \<Rightarrow> v),
                       (''longitude'', case map_of point ''lng'' of None \<Rightarrow> fallback_lng | Some v \<Rightarrow> v),
                       (''supported_city'', JBool supported), (''serviceable'', JBool serviceable)])
      | _ \<Rightarrow> Inl (AttributeError ''get''))"

definition normalise_suggestion :: "json \<Rightarrow> 'x locations_db_scheme \<Rightarrow> error + json" where
  "normalise_suggestion place s =
     (let structured = (case json_or (item ''structured_formatting'' place) (JObj []) of
                          JObj d \<Rightarrow> JObj d | _ \<Rightarrow> JObj [])
      in case normalise_place JNull JNull place s of
           Inl e \<Rightarrow> Inl e
         | Inr normalized \<Rightarrow>
             let description = place_text (json_or (item ''description'' place)
                   (json_or (item ''formatted_address'' (JObj normalized)) (item ''main_text'' structured)))
             in Inr (JObj
                  ([(''id'', JStr (py_str (json_or (json_or (item ''place_id'' place) (item ''reference'' place))
                                                   (JStr description)))),
                    (''description'', JStr description),
                    (''main_text'', JStr (py_str (json_or (json_or (item ''main_text'' structured) (item ''name'' place))
                                                          (JStr description)))),
                    (''secondary_text'', JStr (place_text (item ''secondary_text'' structured)))] @ normalized)))"

fun normalise_suggestions :: "json list \<Rightarrow> 'x locations_db_scheme \<Rightarrow> error + json list" where
  "normalise_suggestions [] s = Inr []"
| "normalise_suggestions (JObj kvs # vs) s =
     (case normalise_suggestion (JObj kvs) s of
        Inl e \<Rightarrow> Inl e
      | Inr v \<Rightarrow> (case normalise_suggestions vs s of Inl e \<Rightarrow> Inl e | Inr rest \<Rightarrow> Inr (v # rest)))"
| "normalise_suggestions (v # vs) s = normalise_suggestions vs s"

section \<open>The provider and its two lookups\<close>

definition reverse_path :: string where
  "reverse_path = ''/places/v1/reverse-geocode''"

definition autocomplete_path :: string where
  "autocomplete_path = ''/places/v1/autocomplete''"

definition point_text :: "map_env \<Rightarrow> int \<Rightarrow> int \<Rightarrow> string" where
  "point_text env lat lng = me_float env lat @ '','' @ me_float env lng"

text \<open>The list under one of two keys; \<open>None\<close> when it is missing or not a list.\<close>

definition result_list :: "string \<Rightarrow> string \<Rightarrow> json \<Rightarrow> json list option" where
  "result_list k1 k2 payload =
     (case payload of
        JObj kvs \<Rightarrow>
          if k1 \<notin> fst ` set kvs \<and> k2 \<notin> fst ` set kvs then None
          else (case json_or (json_or (item k1 payload) (item k2 payload)) (JList []) of
                  JList vs \<Rightarrow> Some vs
                | _ \<Rightarrow> None)
      | _ \<Rightarrow> None)"

definition get_reverse_geocode ::
  "map_env \<Rightarrow> timestamp \<Rightarrow> 'x locations_db_scheme \<Rightarrow> int \<Rightarrow> int \<Rightarrow> string \<Rightarrow> map_world \<Rightarrow>
     (location_error + json) \<times> map_world" where
  "get_reverse_geocode env now s lat lng request_id w =
     (let malformed = malformed_error request_id None '''' 200 in
      case get_payload env reverse_path [(''latlng'', point_text env lat lng), (''language'', ''en'')] request_id now w of
        (Inl e, w1) \<Rightarrow> (Inl e, w1)
      | (Inr payload, w1) \<Rightarrow>
          (case result_list ''results'' ''geocodingResults'' payload of
             None \<Rightarrow> (Inl malformed, w1)
           | Some [] \<Rightarrow> (Inl (blank_error request_id), w1)
           | Some (place # rest) \<Rightarrow>
               (case normalise_place (PyObj (me_float env lat)) (PyObj (me_float env lng)) place s of
                  Inl e \<Rightarrow> (Inl malformed, w1)
                | Inr r \<Rightarrow> (Inr (JObj r), w1))))"

definition autocomplete_params :: "map_env \<Rightarrow> string \<Rightarrow> (int \<times> int) option \<Rightarrow> string \<Rightarrow> (string \<times> string) list" where
  "autocomplete_params env query point city =
     (case point of
        Some (lat, lng) \<Rightarrow> [(''input'', query), (''language'', ''en''), (''location'', point_text env lat lng)]
      | None \<Rightarrow>
          [(''input'', if city \<noteq> '''' \<and> \<not> contains_str (lower_str city) (lower_str query)
                      then query @ '', '' @ city else query),
           (''language'', ''en'')])"

definition get_autocomplete ::
  "map_env \<Rightarrow> timestamp \<Rightarrow> 'x locations_db_scheme \<Rightarrow> string \<Rightarrow> (int \<times> int) option \<Rightarrow> string \<Rightarrow> string \<Rightarrow>
     map_world \<Rightarrow> (location_error + json) \<times> map_world" where
  "get_autocomplete env now s query point city request_id w =
     (let malformed = malformed_error request_id None '''' 200 in
      case get_payload env autocomplete_path (autocomplete_params env query point city) request_id now w of
        (Inl e, w1) \<Rightarrow> (Inl e, w1)
      | (Inr payload, w1) \<Rightarrow>
          (case result_list ''predictions'' ''results'' payload of
             None \<Rightarrow> (Inl malformed, w1)
           | Some vs \<Rightarrow>
               (case normalise_suggestions (take 8 vs) s of
                  Inl e \<Rightarrow> (Inl malformed, w1)
                | Inr rs \<Rightarrow> (Inr (JList rs), w1))))"

definition ola_path :: string where
  "ola_path = ''apps.locations.providers.OlaMapsLocationProvider''"

definition get_location_provider ::
  "map_env \<Rightarrow> timestamp \<Rightarrow> 'x locations_db_scheme \<Rightarrow> string \<Rightarrow> map_provider" where
  "get_location_provider env now s path =
     (let p = or_str path (me_provider env) in
      if p = ola_path
      then \<lparr>pv_reverse = get_reverse_geocode env now s, pv_autocomplete = get_autocomplete env now s\<rparr>
      else me_other env p)"

definition call_with_optional_fallback ::
  "map_env \<Rightarrow> timestamp \<Rightarrow> 'x locations_db_scheme \<Rightarrow>
     (map_provider \<Rightarrow> map_world \<Rightarrow> (location_error + json) \<times> map_world) \<Rightarrow> map_world \<Rightarrow>
     (location_error + json) \<times> map_world" where
  "call_with_optional_fallback env now s call w =
     (case call (get_location_provider env now s '''') w of
        (Inr v, w1) \<Rightarrow> (Inr v, w1)
      | (Inl e, w1) \<Rightarrow>
          if me_fallback env = '''' then (Inl e, w1)
          else call (get_location_provider env now s (me_fallback env)) w1)"

text \<open>A lookup through the cache.\<close>

definition cached_lookup ::
  "string \<Rightarrow> int \<Rightarrow> timestamp \<Rightarrow> (map_world \<Rightarrow> (location_error + json) \<times> map_world) \<Rightarrow> map_world \<Rightarrow>
     (location_error + json) \<times> map_world" where
  "cached_lookup key seconds now lookup w =
     (case cache_get key now w of
        Some v \<Rightarrow> (Inr v, w)
      | None \<Rightarrow>
          (case lookup w of
             (Inl e, w1) \<Rightarrow> (Inl e, w1)
           | (Inr v, w1) \<Rightarrow> (Inr v, cache_set key v seconds now w1)))"

definition reverse_key :: "map_env \<Rightarrow> int \<Rightarrow> int \<Rightarrow> string" where
  "reverse_key env lat lng = ''location:reverse:'' @ me_fixed4 env lat @ '':'' @ me_fixed4 env lng"

definition reverse_geocode ::
  "map_env \<Rightarrow> timestamp \<Rightarrow> 'x locations_db_scheme \<Rightarrow> int \<Rightarrow> int \<Rightarrow> string \<Rightarrow> map_world \<Rightarrow>
     (location_error + json) \<times> map_world" where
  "reverse_geocode env now s lat lng request_id w =
     cached_lookup (reverse_key env lat lng) (me_reverse_seconds env) now
       (call_with_optional_fallback env now s (\<lambda>p. pv_reverse p lat lng request_id)) w"

definition autocomplete_key :: "map_env \<Rightarrow> string \<Rightarrow> (int \<times> int) option \<Rightarrow> string \<Rightarrow> string" where
  "autocomplete_key env query point city =
     (let normalized_query = join_words (lower_str query);
          bias = (case point of
                    Some (lat, lng) \<Rightarrow> me_fixed4 env lat @ '':'' @ me_fixed4 env lng
                  | None \<Rightarrow> strip_str (lower_str city))
      in ''location:autocomplete:'' @ take 24 (me_sha env (normalized_query @ ''|'' @ bias)))"

definition autocomplete ::
  "map_env \<Rightarrow> timestamp \<Rightarrow> 'x locations_db_scheme \<Rightarrow> string \<Rightarrow> (int \<times> int) option \<Rightarrow> string \<Rightarrow> string \<Rightarrow>
     map_world \<Rightarrow> (location_error + json) \<times> map_world" where
  "autocomplete env now s query point city request_id w =
     cached_lookup (autocomplete_key env query point city) (me_autocomplete_seconds env) now
       (call_with_optional_fallback env now s (\<lambda>p. pv_autocomplete p query point city request_id)) w"

section \<open>The handlers: \<open>views.py\<close>, and the command that checks the provider\<close>

definition location_provider_error :: "location_error \<Rightarrow> error" where
  "location_provider_error e =
     ErrorResponse 503 (if le_reason e = ''misconfigured'' then ''LOCATION_PROVIDER_MISCONFIGURED''
                        else ''LOCATION_PROVIDER_UNAVAILABLE'')"

definition degree :: int where
  "degree = 10000000"

definition check_coordinate :: "string \<Rightarrow> int \<Rightarrow> int \<Rightarrow> error option" where
  "check_coordinate field bound x =
     (if x < - bound * degree
      then Some (FieldError field (''Ensure this value is greater than or equal to -'' @ int_str bound @ ''.''))
      else if x > bound * degree
      then Some (FieldError field (''Ensure this value is less than or equal to '' @ int_str bound @ ''.''))
      else None)"

definition check_point :: "int \<Rightarrow> int \<Rightarrow> error option" where
  "check_point lat lng =
     (case check_coordinate ''lat'' 90 lat of
        Some e \<Rightarrow> Some e
      | None \<Rightarrow> check_coordinate ''lng'' 180 lng)"

definition provider_response ::
  "(location_error + json) \<times> map_world \<Rightarrow> (json \<Rightarrow> json) \<Rightarrow> (error + json) \<times> map_world" where
  "provider_response r f =
     (case fst r of Inl e \<Rightarrow> Inl (location_provider_error e) | Inr v \<Rightarrow> Inr (f v), snd r)"

definition reverse_geocode_location ::
  "map_env \<Rightarrow> timestamp \<Rightarrow> 'x locations_db_scheme \<Rightarrow> int \<Rightarrow> int \<Rightarrow> string \<Rightarrow> map_world \<Rightarrow>
     (error + json) \<times> map_world" where
  "reverse_geocode_location env now s lat lng request_id w =
     (case check_point lat lng of
        Some e \<Rightarrow> (Inl e, w)
      | None \<Rightarrow> provider_response (reverse_geocode env now s lat lng request_id w) (\<lambda>v. v))"

definition check_autocomplete_query ::
  "string \<Rightarrow> int option \<Rightarrow> int option \<Rightarrow> string \<Rightarrow> error + (string \<times> (int \<times> int) option \<times> string)" where
  "check_autocomplete_query inp lat lng city =
     (let query = strip_str inp; c = strip_str city in
      if length query < 3 then Inl (FieldError ''input'' ''Ensure this field has at least 3 characters.'')
      else if length query > 160 then Inl (FieldError ''input'' ''Ensure this field has no more than 160 characters.'')
      else case check_point (given 0 lat) (given 0 lng) of
        Some e \<Rightarrow> Inl e
      | None \<Rightarrow>
          if length c > 80 then Inl (FieldError ''city'' ''Ensure this field has no more than 80 characters.'')
          else case (lat, lng) of
            (Some x, Some y) \<Rightarrow> Inr (query, Some (x, y), c)
          | (None, None) \<Rightarrow> Inr (query, None, c)
          | _ \<Rightarrow> Inl (ValidationError ''lat and lng must be supplied together.''))"

definition autocomplete_location ::
  "map_env \<Rightarrow> timestamp \<Rightarrow> 'x locations_db_scheme \<Rightarrow> string \<Rightarrow> int option \<Rightarrow> int option \<Rightarrow> string \<Rightarrow> string \<Rightarrow>
     map_world \<Rightarrow> (error + json) \<times> map_world" where
  "autocomplete_location env now s inp lat lng city request_id w =
     (case check_autocomplete_query inp lat lng city of
        Inl e \<Rightarrow> (Inl e, w)
      | Inr (query, point, c) \<Rightarrow>
          provider_response (autocomplete env now s query point c request_id w)
            (\<lambda>v. JObj [(''suggestions'', v)]))"

text \<open>The command looks up a fixed text and a fixed point, both in any case, and fails if one of them did.\<close>

definition check_location_provider ::
  "map_env \<Rightarrow> timestamp \<Rightarrow> 'x locations_db_scheme \<Rightarrow> string \<Rightarrow> string \<Rightarrow> map_world \<Rightarrow>
     (string + unit) \<times> map_world" where
  "check_location_provider env now s rid1 rid2 w =
     (let p = get_location_provider env now s '''';
          (r1, w1) = pv_autocomplete p ''avadi'' None ''Chennai'' rid1 w;
          (r2, w2) = pv_reverse p 130827000 802707000 rid2 w1
      in (if isl r1 \<or> isl r2
          then Inl ''One or more location-provider checks failed. See the sanitized diagnostics above.''
          else Inr (), w2))"

section \<open>Lemmas: what is logged\<close>

definition is_pincode :: "string \<Rightarrow> bool" where
  "is_pincode r = (length r = 6 \<and> hd r \<noteq> CHR ''0'')"

lemma match_five:
  "match_items is_digit [Item is_digit 5 (Some 5)] s =
     (if length (takeWhile is_digit s) = 5 then Some [take 5 s] else None)"
proof (cases "5 \<le> length (takeWhile is_digit s)")
  case False
  then show ?thesis by (auto simp: counts_def most_def)
next
  case True
  let ?r = "takeWhile is_digit s"
  have s: "s = ?r @ dropWhile is_digit s" by simp
  have "head_in is_digit (drop 5 s) \<longleftrightarrow> 5 < length ?r"
  proof (cases "5 < length ?r")
    case True
    then have "drop 5 s = drop 5 ?r @ dropWhile is_digit s"
      by (subst s, subst drop_append) simp
    moreover have "drop 5 ?r \<noteq> [] \<and> hd (drop 5 ?r) \<in> set ?r"
      using True by (simp add: hd_drop_conv_nth)
    ultimately show ?thesis
      using True by (cases "drop 5 ?r") (auto simp: head_in_def dest: set_takeWhileD)
  next
    case False
    with \<open>5 \<le> length ?r\<close> have "length ?r = 5" by simp
    then have "drop 5 s = dropWhile is_digit s" by (metis append_eq_conv_conj s)
    with False show ?thesis
      by (auto simp: head_in_def dropWhile_eq_Cons_conv split: list.splits)
  qed
  with True show ?thesis by (auto simp: counts_def most_def)
qed

lemma match_pincode:
  "match_here pincode_pattern prev s =
     (if \<not> prev_in is_digit prev \<and> is_pincode (takeWhile is_digit s)
      then Some [[hd s], take 5 (tl s)] else None)"
  by (cases s) (auto simp: match_here_def pincode_pattern_def match_items_one match_five is_pincode_def
      simp del: match_items.simps)

lemma pincode_sub_digits:
  "list_all is_digit d \<Longrightarrow> prev_in is_digit prev \<Longrightarrow>
     rx_sub pincode_pattern rep prev (d @ rest) =
       d @ rx_sub pincode_pattern rep (if d = [] then prev else Some (last d)) rest"
  by (induction d arbitrary: prev) (auto simp: match_pincode prev_in_def)

lemma pincode_sub_outside:
  "\<not> head_in is_digit rest \<Longrightarrow>
     rx_sub pincode_pattern rep prev rest =
       (case rest of [] \<Rightarrow> [] | e # es \<Rightarrow> e # rx_sub pincode_pattern rep (Some e) es)"
  by (cases rest) (auto simp: match_pincode is_pincode_def head_in_def)

text \<open>After the substitution no run of digits is a postal code.\<close>

lemma pincodes_gone:
  "\<not> prev_in is_digit prev \<Longrightarrow>
     list_all (\<lambda>r. \<not> is_pincode r)
       (pieces is_digit (rx_sub pincode_pattern (\<lambda>_. ''<redacted-pincode>'') prev s))"
proof (induction "length s" arbitrary: s prev rule: less_induct)
  case less
  let ?sub = "rx_sub pincode_pattern (\<lambda>_. ''<redacted-pincode>'')"
  show ?case
  proof (cases s)
    case Nil
    then show ?thesis by simp
  next
    case (Cons c cs)
    let ?r = "takeWhile is_digit s" and ?rest = "dropWhile is_digit s"
    have rest: "\<not> head_in is_digit ?rest"
      by (auto simp: head_in_def dropWhile_eq_Cons_conv split: list.split)
    have after: "list_all (\<lambda>r. \<not> is_pincode r) (pieces is_digit (?sub q ?rest))" for q
    proof (cases ?rest)
      case (Cons e es)
      then have e: "\<not> is_digit e" using rest by (simp add: head_in_def)
      have "length es < length s"
        using length_dropWhile_le [of is_digit s] Cons by (simp del: length_dropWhile_le)
      then have "list_all (\<lambda>r. \<not> is_pincode r) (pieces is_digit (?sub (Some e) es))"
        using e by (intro less.hyps) (simp_all add: prev_in_def)
      then show ?thesis unfolding pincode_sub_outside [OF rest] using Cons e by simp
    next
      case Nil
      show ?thesis unfolding pincode_sub_outside [OF rest] Nil by simp
    qed
    show ?thesis
    proof (cases "is_digit c")
      case False
      then have "?sub prev s = c # ?sub (Some c) cs"
        using Cons by (simp add: match_pincode is_pincode_def)
      moreover have "list_all (\<lambda>r. \<not> is_pincode r) (pieces is_digit (?sub (Some c) cs))"
        using Cons False by (intro less.hyps) (simp_all add: prev_in_def)
      ultimately show ?thesis using False by simp
    next
      case True
      then have r: "?r \<noteq> []" "list_all is_digit ?r"
        using Cons by (auto simp: list_all_iff dest: set_takeWhileD)
      show ?thesis
      proof (cases "is_pincode ?r")
        case True
        have len: "length ?r = 6" using True by (simp add: is_pincode_def)
        have "[hd s] @ take 5 (tl s) = take 6 s" using Cons by simp
        also have "\<dots> = ?r" using len by (metis takeWhile_eq_take)
        finally have w: "concat [[hd s], take 5 (tl s)] = ?r" by simp
        have "drop (length ?r) s = ?rest" by (simp add: dropWhile_eq_drop)
        then have "?sub prev s = ''<redacted-pincode>'' @ ?sub (Some (last ?r)) ?rest"
          using Cons True less.prems r w by (simp add: match_pincode Let_def)
        moreover have "list_all (\<lambda>x. \<not> is_digit x) ''<redacted-pincode>''" by code_simp
        ultimately show ?thesis using after by (simp only: pieces_none)
      next
        case False
        have "?sub prev s = c # ?sub (Some c) cs"
          using Cons False less.prems by (simp add: match_pincode)
        also have "cs = takeWhile is_digit cs @ dropWhile is_digit cs" by simp
        also have "?sub (Some c) (takeWhile is_digit cs @ dropWhile is_digit cs) = takeWhile is_digit cs @
            ?sub (if takeWhile is_digit cs = [] then Some c else Some (last (takeWhile is_digit cs))) (dropWhile is_digit cs)"
          using True by (intro pincode_sub_digits) (auto simp: list_all_iff prev_in_def dest: set_takeWhileD)
        finally obtain q where q: "?sub prev s = ?r @ ?sub q ?rest"
          using Cons True by fastforce
        have "\<not> head_in is_digit (?sub q ?rest)"
          unfolding pincode_sub_outside [OF rest] using rest by (auto simp: head_in_def split: list.split)
        then have "pieces is_digit (?sub prev s) = ?r # pieces is_digit (?sub q ?rest)"
          unfolding q using r by (intro pieces_run)
        with False after show ?thesis by simp
      qed
    qed
  qed
qed

interpretation coordinates: run_keeping is_digit redact_coordinates
proof
  fix x
  have "list_all (\<lambda>c. \<not> is_digit c) ''<redacted-coordinates>''" by code_simp
  then show "set (pieces is_digit (redact_coordinates x)) \<subseteq> set (pieces is_digit x)"
    using rx_sub_pieces [of coordinates_pattern is_digit "\<lambda>_. ''<redacted-coordinates>''" "[]" None x]
    by (simp add: redact_coordinates_def rx_replace_def coordinates_pattern_def ends_in_def)
qed

interpretation words: run_keeping is_digit join_words
proof
  fix x
  have "\<not> is_digit CHR '' ''" by code_simp
  then have "set (pieces is_digit (join_words x)) \<subseteq> (\<Union>w\<in>set (split_words x). set (pieces is_digit w))"
    unfolding join_words_def by (rule pieces_join_words)
  also have "\<dots> \<subseteq> set (pieces is_digit x)"
    unfolding split_words_pieces by (rule pieces_of_words) (rule is_digit_not_space)
  finally show "set (pieces is_digit (join_words x)) \<subseteq> set (pieces is_digit x)" .
qed

lemma snippet_no_pincode: "list_all (\<lambda>r. \<not> is_pincode r) (pieces is_digit (safe_body_snippet env body))"
  unfolding safe_body_snippet_def
  by (intro words.absent coordinates.absent) (simp add: redact_pincodes_def rx_replace_def pincodes_gone prev_in_def)

section \<open>Lemmas: the request\<close>

fun retryable :: "http_outcome \<Rightarrow> bool" where
  "retryable HttpTimeout = True"
| "retryable HttpError = False"
| "retryable (HttpResponse status text) = (status \<ge> 500)"

lemma blank_error_simps [simp]:
  "le_status (misconfigured e) = le_status e" "le_snippet (misconfigured e) = le_snippet e"
  by (simp_all add: misconfigured_def)

lemma read_answer_Inl:
  assumes "read_answer env rid a = Inl (e, again)"
  shows "again = retryable (fst a) \<and> le_status e \<noteq> JNull \<and>
         list_all (\<lambda>r. \<not> is_pincode r) (pieces is_digit (le_snippet e))"
  using assms
  by (cases "fst a")
    (auto simp: read_answer_def Let_def malformed_error_def snippet_no_pincode blank_error_def
      split: if_splits option.splits json.splits)

lemma read_answer_Inr:
  assumes "read_answer env rid a = Inr payload"
  shows "\<not> retryable (fst a) \<and> (\<exists>kvs. payload = JObj kvs)"
  using assms
  by (cases "fst a")
    (auto simp: read_answer_def Let_def split: if_splits option.splits json.splits)

lemma log_failure_requests [simp]: "mw_requests (log_failure path e n w) = mw_requests w"
  by (simp add: log_failure_def)

lemma track_provider_call_frame [simp]:
  "mw_requests (track_provider_call now w) = mw_requests w" "mw_log (track_provider_call now w) = mw_log w"
  by (auto simp: track_provider_call_def Let_def cache_add_def cache_set_def cache_incr_def
      split: option.splits prod.splits json.splits if_splits)

text \<open>The state of the log the client keeps: no line shows a postal code.\<close>

definition log_clean :: "map_world \<Rightarrow> bool" where
  "log_clean w = list_all (\<lambda>l. list_all (\<lambda>r. \<not> is_pincode r) (pieces is_digit (fl_body l))) (mw_log w)"

lemma log_failure_clean:
  assumes "log_clean w" and "list_all (\<lambda>r. \<not> is_pincode r) (pieces is_digit (le_snippet e))"
  shows "log_clean (log_failure path e n w)"
proof -
  have "pieces is_digit ''<empty>'' = []" by code_simp
  with assms show ?thesis by (simp add: log_clean_def log_failure_def or_str_def)
qed

lemma get_attempts_clean: "log_clean w \<Longrightarrow> log_clean (snd (get_attempts env path params rid as w))"
proof (induction as arbitrary: w)
  case (Cons a as)
  let ?a = "me_http env (mw_requests w) path (params @ [(''api_key'', strip_str (me_api_key env))])"
  have w1: "log_clean (w\<lparr>mw_requests := Suc (mw_requests w)\<rparr>)" using Cons.prems by (simp add: log_clean_def)
  show ?case
  proof (cases "read_answer env rid ?a")
    case (Inl x)
    obtain e again where x: "x = (e, again)" by (cases x)
    from Inl x have "log_clean (log_failure path e (a + 1) (w\<lparr>mw_requests := Suc (mw_requests w)\<rparr>))"
      using w1 read_answer_Inl by (intro log_failure_clean) blast+
    with Inl x Cons.IH show ?thesis by (auto simp: Let_def)
  next
    case (Inr p)
    with w1 show ?thesis by (simp add: Let_def)
  qed
qed simp

lemma answeredE:
  assumes "case x of (Inl e, w) \<Rightarrow> False | (Inr v, w) \<Rightarrow> P v"
  obtains v w where "x = (Inr v, w)" and "P v"
  using assms by (auto split: prod.splits sum.splits)

lemma cache_get_set:
  "cache_get k t (cache_set k2 v seconds now w) =
     (if k = k2 then (if t < now + seconds * 1000000 \<and> v \<noteq> JNull then Some v else None) else cache_get k t w)"
  by (simp add: cache_get_def cache_set_def map_of_set_item)

text \<open>A lookup that was not answered by the cache is answered by it until it expires.\<close>

lemma cached_lookup_twice:
  assumes "cached_lookup key seconds now f w = (Inr v, w1)" and "cache_get key now w = None"
    and "v \<noteq> JNull" and "t < now + seconds * 1000000"
  shows "cached_lookup key seconds t g w1 = (Inr v, w1)"
  using assms by (auto simp: cached_lookup_def cache_get_set split: prod.splits sum.splits)

lemma area_check_agrees:
  assumes "get_active_service_area code s = Some a" and "code \<noteq> ''''" and "normalize_postal_code code = code"
  shows "snd (serviceability city code s)"
  using get_active_service_areaD [OF assms(1)] assms(2,3)
  by (auto simp: serviceability_def area_matches_def list_ex_iff)

lemma normalise_placeD:
  assumes "normalise_place lat lng place s = Inr r"
  shows "\<exists>p :: place_parts. item ''pincode'' (JObj r) = JStr (pp_pincode p) \<and>
    item ''serviceable'' (JObj r) = JBool (snd (serviceability (pp_city p) (pp_pincode p) s))"
proof (cases place)
  case (JObj kvs)
  let ?parts = "place_parts_of kvs (place_text (json_or (item ''formatted_address'' place) (item ''description'' place)))"
  show ?thesis
  proof (cases ?parts)
    case (Inl e)
    with assms JObj show ?thesis by (simp add: normalise_place_def Let_def)
  next
    case (Inr p)
    with assms JObj show ?thesis
      by (intro exI [of _ p]) (auto simp: normalise_place_def Let_def item_def split: prod.splits)
  qed
qed (use assms in \<open>simp_all add: normalise_place_def\<close>)

lemma search_pincode:
  "rx_search pincode_pattern prev str = Some segs \<Longrightarrow>
     is_pincode (concat segs) \<and> list_all is_digit (concat segs)"
proof (induction str arbitrary: prev)
  case Nil
  then show ?case by (simp add: match_pincode is_pincode_def)
next
  case (Cons c cs)
  show ?case
  proof (cases "match_here pincode_pattern prev (c # cs)")
    case None
    with Cons show ?thesis by simp
  next
    case (Some segs2)
    let ?r = "takeWhile is_digit (c # cs)"
    have r: "is_pincode ?r" "segs = [[c], take 5 cs]"
      using Some Cons.prems by (auto simp: match_pincode split: if_splits)
    then have "length ?r = 6" by (simp add: is_pincode_def)
    then have "concat segs = ?r"
      using r(2) takeWhile_eq_take [of is_digit "c # cs"] by simp
    moreover have "list_all is_digit ?r" by (auto simp: list_all_iff dest: set_takeWhileD)
    ultimately show ?thesis using r(1) by simp
  qed
qed

section \<open>Properties\<close>

text \<open>C26: The retry loop of the map client ends with an answer: without a key no request is sent; with one,
  the client sends one request, or two when the first timed out or was answered with a server error, and
  then either has a dictionary or raises the error of the last request; the error after the loop is
  never reached.\<close>

theorem map_request_is_retried_once:
  assumes "get_payload env path params request_id now w = (r, w')"
  shows "(strip_str (me_api_key env) = '''' \<longrightarrow> isl r \<and> mw_requests w' = mw_requests w) \<and>
         (strip_str (me_api_key env) \<noteq> '''' \<longrightarrow>
            mw_requests w' = mw_requests w +
              (if retryable (fst (me_http env (mw_requests w) path
                    (params @ [(''api_key'', strip_str (me_api_key env))]))) then 2 else 1) \<and>
            (case r of Inl e \<Rightarrow> le_status e \<noteq> JNull | Inr payload \<Rightarrow> \<exists>kvs. payload = JObj kvs))"
proof (cases "strip_str (me_api_key env) = ''''")
  case True
  with assms show ?thesis by (auto simp: get_payload_def Let_def)
next
  case False
  let ?rid = "safe_request_id (me_uuid env) request_id" and ?ps = "params @ [(''api_key'', strip_str (me_api_key env))]"
  let ?a = "me_http env (mw_requests w) path ?ps" and ?b = "me_http env (Suc (mw_requests w)) path ?ps"
  show ?thesis
  proof (cases "read_answer env ?rid ?a")
    case (Inr p)
    with False assms read_answer_Inr [OF Inr] show ?thesis by (auto simp: get_payload_def Let_def)
  next
    case (Inl x)
    obtain e again where x: "x = (e, again)" by (cases x)
    note first = read_answer_Inl [OF Inl [unfolded x]]
    show ?thesis
    proof (cases "read_answer env ?rid ?b")
      case (Inr p)
      with Inl x False assms first read_answer_Inr [OF Inr] show ?thesis
        by (auto simp: get_payload_def Let_def split: if_splits)
    next
      fix y assume y: "read_answer env ?rid ?b = Inl y"
      obtain e2 again2 where y2: "y = (e2, again2)" by (cases y)
      with y Inl x False assms first read_answer_Inl [OF y [unfolded y2]] show ?thesis
        by (auto simp: get_payload_def Let_def split: if_splits)
    qed
  qed
qed

definition sample_map_env :: map_env where
  "sample_map_env =
     \<lparr>me_api_key = ''key'', me_provider = ola_path, me_fallback = '''', me_reverse_seconds = 86400,
      me_autocomplete_seconds = 300,
      me_http = (\<lambda>n path params. (if n = 0 then HttpResponse 503 ''at 600001'' else HttpResponse 200 ''ok'', 12)),
      me_loads = (\<lambda>x. if x = ''ok''
        then Some (JObj [(''results'', JList [JObj [(''formatted_address'', JStr ''1 Road, Pune 411001'')]])])
        else None),
      me_dumps = py_repr, me_fixed4 = (\<lambda>x. int_str (x div degree)), me_float = (\<lambda>x. int_str (x div degree)), me_sha = (\<lambda>x. x), me_uuid = ''u'',
      me_other = (\<lambda>p. \<lparr>pv_reverse = (\<lambda>a b r w. (Inl (blank_error r), w)),
                        pv_autocomplete = (\<lambda>q p c r w. (Inl (blank_error r), w))\<rparr>)\<rparr>"

definition sample_world :: map_world where
  "sample_world = \<lparr>mw_cache = [], mw_requests = 0, mw_log = []\<rparr>"

theorem map_request_is_retried_once_witness:
  "mw_requests (snd (get_payload sample_map_env reverse_path [] ''r'' 0 sample_world)) = 2"
proof -
  obtain r w' where run: "get_payload sample_map_env reverse_path [] ''r'' 0 sample_world = (r, w')"
    by (cases "get_payload sample_map_env reverse_path [] ''r'' 0 sample_world")
  have key: "strip_str (me_api_key sample_map_env) \<noteq> ''''" by code_simp
  have first: "retryable (fst (me_http sample_map_env (mw_requests sample_world) reverse_path
      ([] @ [(''api_key'', strip_str (me_api_key sample_map_env))])))" by code_simp
  from map_request_is_retried_once [OF run] key first run show ?thesis by (simp add: sample_world_def)
qed

text \<open>No line the map client logs shows a postal code, whatever the service answers: in the body of
  every line, as in the snippet of every error it raises, no run of digits is a postal code, although the
  substitution of coordinates and the joining of words come after that of the codes.\<close>

theorem logged_answers_show_no_pincode:
  assumes "log_clean w" and "get_payload env path params request_id now w = (r, w')"
  shows "log_clean w' \<and>
         (case r of
            Inl e \<Rightarrow> list_all (\<lambda>d. \<not> is_pincode d) (pieces is_digit (le_snippet e))
          | Inr payload \<Rightarrow> True)"
proof -
  have none: "pieces is_digit '''' = []" by simp
  let ?rid = "safe_request_id (me_uuid env) request_id"
  have "log_clean (track_provider_call now w)" using assms(1) by (simp add: log_clean_def)
  then have "log_clean w'"
    using assms get_attempts_clean [of "track_provider_call now w" env path params ?rid "[0, 1]"]
    by (auto simp: get_payload_def Let_def blank_error_def none intro!: log_failure_clean
        simp del: get_attempts.simps split: if_splits)
  moreover have "list_all (\<lambda>d. \<not> is_pincode d) (pieces is_digit (le_snippet e))" if "r = Inl e" for e
    using assms(2) that
    by (auto simp: get_payload_def Let_def blank_error_def none dest!: read_answer_Inl
        split: if_splits sum.splits)
  ultimately show ?thesis by (cases r) simp_all
qed

theorem logged_answers_show_no_pincode_witness:
  "log_clean (snd (get_payload sample_map_env reverse_path [] ''r'' 0 sample_world)) \<and>
   map fl_body (mw_log (snd (get_payload sample_map_env reverse_path [] ''r'' 0 sample_world))) =
     [''at <redacted-pincode>'']"
proof -
  obtain r w' where run: "get_payload sample_map_env reverse_path [] ''r'' 0 sample_world = (r, w')"
    by (cases "get_payload sample_map_env reverse_path [] ''r'' 0 sample_world")
  have "log_clean sample_world" by code_simp
  from logged_answers_show_no_pincode [OF this run] run
  have "log_clean (snd (get_payload sample_map_env reverse_path [] ''r'' 0 sample_world))" by simp
  moreover have "map fl_body (mw_log (snd (get_payload sample_map_env reverse_path [] ''r'' 0 sample_world))) =
     [''at <redacted-pincode>'']" by code_simp
  ultimately show ?thesis by (rule conjI)
qed

text \<open>A point that was looked up is answered from the cache for a day: the same point, and every point
  that agrees with it to four decimal places, gets the same answer without a request and without a change
  of the state, whatever has happened to the service areas meanwhile; so an answer that says the place is
  served may be a day old.\<close>

theorem looked_up_point_is_cached:
  assumes "reverse_geocode env now s lat lng rid w = (Inr v, w1)" and "v \<noteq> JNull"
    and "cache_get (reverse_key env lat lng) now w = None"
    and "me_fixed4 env lat2 = me_fixed4 env lat" and "me_fixed4 env lng2 = me_fixed4 env lng"
    and "later < now + me_reverse_seconds env * 1000000"
  shows "reverse_geocode env later s2 lat2 lng2 rid2 w1 = (Inr v, w1)"
proof -
  have key: "reverse_key env lat2 lng2 = reverse_key env lat lng" using assms(4,5) by (simp add: reverse_key_def)
  show ?thesis
    using assms(1) unfolding reverse_geocode_def key
    by (rule cached_lookup_twice) (use assms in auto)
qed

definition sample_lookup :: "(location_error + json) \<times> map_world" where
  "sample_lookup = reverse_geocode sample_map_env 0 sample_locations_db 185000000 738000000 ''r'' sample_world"

theorem looked_up_point_is_cached_witness:
  "\<exists>v w1. sample_lookup = (Inr v, w1) \<and>
     reverse_geocode sample_map_env 1000000 (sample_locations_db\<lparr>service_areas := []\<rparr>) 185000000 738000000 ''q'' w1 = (Inr v, w1)"
proof -
  have "case sample_lookup of (Inl e, w1) \<Rightarrow> False | (Inr v, w1) \<Rightarrow> v \<noteq> JNull" by code_simp
  then obtain v w1 where run: "sample_lookup = (Inr v, w1)" "v \<noteq> JNull" by (rule answeredE)
  have "cache_get (reverse_key sample_map_env 185000000 738000000) 0 sample_world = None" by code_simp
  note again = looked_up_point_is_cached [OF run [unfolded sample_lookup_def] this refl refl,
    of 1000000 "sample_locations_db\<lparr>service_areas := []\<rparr>" "''q''"]
  have "1000000 < 0 + me_reverse_seconds sample_map_env * 1000000" by code_simp
  from again [OF this] run(1) show ?thesis by blast
qed

text \<open>The map lookup and the check of a postal code agree: when the normal form of a place is not
  serviceable, the public check of its postal code finds no area; and a postal code that was read out of
  the address text, and not from a component, is six digits of which the first is not zero.\<close>

theorem unserviceable_place_has_no_area:
  assumes "normalise_place lat lng place s = Inr r" and "item ''serviceable'' (JObj r) = JBool False"
    and "item ''pincode'' (JObj r) = JStr code"
  shows "(normalize_postal_code code = code \<longrightarrow> get_active_service_area code s = None \<or> code = '''') \<and>
         (pincode_from_text address = '''' \<or>
          (is_pincode (pincode_from_text address) \<and> list_all is_digit (pincode_from_text address)))"
proof -
  obtain p :: place_parts where p: "code = pp_pincode p" "snd (serviceability (pp_city p) (pp_pincode p) s) = False"
    using normalise_placeD [OF assms(1)] assms(2,3) by auto
  then have "get_active_service_area code s = None \<or> code = ''''" if "normalize_postal_code code = code"
    using that area_check_agrees by (metis not_None_eq)
  moreover have "pincode_from_text address = '''' \<or>
      (is_pincode (pincode_from_text address) \<and> list_all is_digit (pincode_from_text address))"
    using search_pincode [of None address] by (auto simp: pincode_from_text_def split: option.split)
  ultimately show ?thesis by blast
qed

theorem unserviceable_place_has_no_area_witness:
  "case normalise_place JNull JNull (JObj [(''formatted_address'', JStr ''X 600001'')]) sample_locations_db of
     Inl e \<Rightarrow> False
   | Inr r \<Rightarrow> item ''pincode'' (JObj r) = JStr ''600001'' \<and> get_active_service_area ''600001'' sample_locations_db = None"
proof -
  let ?run = "normalise_place JNull JNull (JObj [(''formatted_address'', JStr ''X 600001'')]) sample_locations_db"
  have ok: "case ?run of Inl e \<Rightarrow> False
    | Inr r \<Rightarrow> item ''serviceable'' (JObj r) = JBool False \<and> item ''pincode'' (JObj r) = JStr ''600001''" by code_simp
  then obtain r where r: "?run = Inr r" by (cases ?run) auto
  have "normalize_postal_code ''600001'' = ''600001''" by code_simp
  with ok r unserviceable_place_has_no_area [OF r, of "''600001''"] show ?thesis by simp
qed

end
