(* ===== verification/Accounts_Views.thy ===== *)
theory Accounts_Views
  imports Settings Patterns
begin

text \<open>
  The handlers of \<open>apps/accounts/views.py\<close> around the services of \<open>Accounts\<close>: the checks of the
  request serializers, the challenge before a code is sent, the guards of the development login, logout,
  and the administration of staff with its audit events; the commands \<open>ensure_superuser\<close> and
  \<open>setup_staff_groups\<close>. The token library is a parameter.
\<close>

section \<open>Checks of the requests\<close>

text \<open>\<open>CharField\<close> trims the value, and a blank one is refused; a length is checked after trimming.\<close>

definition char_field :: "string \<Rightarrow> string \<Rightarrow> error + string" where
  "char_field field raw =
     (let x = strip_str raw in
      if x = '''' then Inl (FieldError field ''This field may not be blank.'') else Inr x)"

definition check_length :: "string \<Rightarrow> nat \<Rightarrow> nat \<Rightarrow> string \<Rightarrow> error option" where
  "check_length field low high x =
     (if length x > high
      then Some (FieldError field (''Ensure this field has no more than '' @ nat_str high @ '' characters.''))
      else if length x < low
      then Some (FieldError field (''Ensure this field has at least '' @ nat_str low @ '' characters.''))
      else None)"

text \<open>\<open>^\d{4,8}$\<close>\<close>

definition otp_field :: "string \<Rightarrow> error + string" where
  "otp_field raw =
     (case char_field ''otp'' raw of
        Inl e \<Rightarrow> Inl e
      | Inr x \<Rightarrow>
          if 4 \<le> length x \<and> length x \<le> 8 \<and> list_all is_digit x then Inr x
          else Inl (FieldError ''otp'' ''This value does not match the required pattern.''))"

definition channel_field :: "string \<Rightarrow> string option \<Rightarrow> error + string" where
  "channel_field d sent =
     (let x = given d sent in
      if x \<in> set [''SMS'', ''WHATSAPP''] then Inr x
      else Inl (FieldError ''channel'' (CHR 34 # x @ CHR 34 # '' is not a valid choice.'')))"

section \<open>Sending and verifying codes\<close>

text \<open>\<open>send\<close> is the provider's \<open>send_otp\<close>, \<open>post\<close> the HTTP request to the challenge service.\<close>

definition otp_send_view ::
  "site \<Rightarrow> http_post \<Rightarrow>
     (string \<Rightarrow> string \<Rightarrow> 'x accounts_db_scheme \<Rightarrow> error + (string \<times> 'x accounts_db_scheme)) \<Rightarrow> string \<Rightarrow>
     string \<Rightarrow> string option \<Rightarrow> string \<Rightarrow> 'x accounts_db_scheme \<Rightarrow>
     error + ((string \<times> string \<times> string) \<times> 'x accounts_db_scheme)" where
  "otp_send_view st post send remote_ip phone channel captcha s =
     (case char_field ''phone_number'' phone of
        Inl e \<Rightarrow> Inl e
      | Inr p \<Rightarrow>
          (case channel_field ''SMS'' channel of
             Inl e \<Rightarrow> Inl e
           | Inr c \<Rightarrow>
               (case verify_turnstile (st_require_turnstile st) (st_turnstile_secret st) post (strip_str captcha)
                       remote_ip ''otp_send'' of
                  Some e \<Rightarrow> Inl e
                | None \<Rightarrow> send_login_otp send p c False s)))"

definition otp_verify_view ::
  "(string \<Rightarrow> string) \<Rightarrow> timestamp \<Rightarrow> string \<Rightarrow> string \<Rightarrow> 'x accounts_db_scheme \<Rightarrow>
     (error + login) \<times> 'x accounts_db_scheme" where
  "otp_verify_view hash now phone otp s =
     (case char_field ''phone_number'' phone of
        Inl e \<Rightarrow> (Inl e, s)
      | Inr p \<Rightarrow>
          (case otp_field otp of
             Inl e \<Rightarrow> (Inl e, s)
           | Inr code \<Rightarrow> authenticate_with_otp hash now p code s))"

definition admin_mfa_verify_view ::
  "(string \<Rightarrow> string) \<Rightarrow> timestamp \<Rightarrow> string \<Rightarrow> string \<Rightarrow> 'x accounts_db_scheme \<Rightarrow>
     error + (login \<times> 'x accounts_db_scheme)" where
  "admin_mfa_verify_view hash now challenge otp s =
     (case parse_key challenge of
        None \<Rightarrow> Inl (FieldError ''challenge_id'' ''Must be a valid UUID.'')
      | Some k \<Rightarrow>
          (case otp_field otp of
             Inl e \<Rightarrow> Inl e
           | Inr code \<Rightarrow> complete_admin_mfa hash now k code s))"

section \<open>Logging in and out\<close>

text \<open>\<open>allowed\<close> is \<open>DEV_PHONE_LOGIN_ALLOWED_NUMBERS\<close>.\<close>

definition dev_phone_login_view ::
  "site \<Rightarrow> string list \<Rightarrow> string \<Rightarrow> 'x accounts_db_scheme \<Rightarrow> error + (login \<times> 'x accounts_db_scheme)" where
  "dev_phone_login_view st allowed phone s =
     (if \<not> st_debug st \<or> \<not> st_dev_phone_login st then Inl (ErrorResponse 404 ''DEV_LOGIN_DISABLED'')
      else case char_field ''phone_number'' phone of
        Inl e \<Rightarrow> Inl e
      | Inr p \<Rightarrow>
          if p \<notin> set allowed then Inl (ErrorResponse 403 ''DEV_LOGIN_NOT_ALLOWED'')
          else authenticate_dev_phone (st_debug st) p s)"

definition customer_access_view ::
  "string \<Rightarrow> string \<Rightarrow> 'x accounts_db_scheme \<Rightarrow> error + (login \<times> 'x accounts_db_scheme)" where
  "customer_access_view name phone s =
     (case char_field ''name'' name of
        Inl e \<Rightarrow> Inl e
      | Inr n \<Rightarrow>
          (case check_length ''name'' 2 150 n of
             Some e \<Rightarrow> Inl e
           | None \<Rightarrow>
               (case char_field ''phone_number'' phone of
                  Inl e \<Rightarrow> Inl e
                | Inr p \<Rightarrow> authenticate_customer_access n p s)))"

text \<open>The password is not trimmed, but a blank one is refused all the same.\<close>

definition password_field :: "nat \<Rightarrow> nat \<Rightarrow> string \<Rightarrow> error option" where
  "password_field low high pw =
     (if strip_str pw = '''' then Some (FieldError ''password'' ''This field may not be blank.'')
      else check_length ''password'' low high pw)"

definition optional_name :: "string \<Rightarrow> string option \<Rightarrow> error option" where
  "optional_name field x = check_length field 0 150 (strip_str (given '''' x))"

text \<open>\<open>valid_email\<close> is the library's check of an address.\<close>

definition email_field :: "(string \<Rightarrow> bool) \<Rightarrow> string option option \<Rightarrow> error option" where
  "email_field valid_email email =
     (case email of
        Some (Some x) \<Rightarrow>
          if strip_str x = '''' \<or> valid_email (strip_str x) then None
          else Some (FieldError ''email'' ''Enter a valid email address.'')
      | _ \<Rightarrow> None)"

fun first_error :: "error option list \<Rightarrow> error option" where
  "first_error [] = None"
| "first_error (e # es) = (case e of Some x \<Rightarrow> Some x | None \<Rightarrow> first_error es)"

definition password_signup_view ::
  "(string \<Rightarrow> bool) \<Rightarrow> (string \<Rightarrow> user \<Rightarrow> error option) \<Rightarrow> (string \<Rightarrow> string) \<Rightarrow> string \<Rightarrow> string \<Rightarrow>
     string option \<Rightarrow> string option \<Rightarrow> string option option \<Rightarrow> 'x accounts_db_scheme \<Rightarrow>
     error + (login \<times> 'x accounts_db_scheme)" where
  "password_signup_view valid_email validate hasher phone pw fname lname email s =
     (case char_field ''phone_number'' phone of
        Inl e \<Rightarrow> Inl e
      | Inr p \<Rightarrow>
          (case first_error [password_field 8 128 pw, optional_name ''first_name'' fname,
                             optional_name ''last_name'' lname, email_field valid_email email] of
             Some e \<Rightarrow> Inl e
           | None \<Rightarrow>
               register_with_password validate hasher p pw (map_option strip_str fname)
                 (map_option strip_str lname) (map_option (map_option strip_str) email) s))"

definition password_login_view ::
  "(string \<Rightarrow> string \<Rightarrow> bool) \<Rightarrow>
     (string \<Rightarrow> string \<Rightarrow> 'x accounts_db_scheme \<Rightarrow> error + (string \<times> 'x accounts_db_scheme)) \<Rightarrow>
     site \<Rightarrow> int \<Rightarrow> timestamp \<Rightarrow> string \<Rightarrow> string \<Rightarrow> string option \<Rightarrow> 'x accounts_db_scheme \<Rightarrow>
     error + (login_answer \<times> 'x accounts_db_scheme)" where
  "password_login_view check send st ttl now phone pw channel s =
     (case char_field ''phone_number'' phone of
        Inl e \<Rightarrow> Inl e
      | Inr p \<Rightarrow>
          if strip_str pw = '''' then Inl (FieldError ''password'' ''This field may not be blank.'')
          else case channel_field ''WHATSAPP'' channel of
            Inl e \<Rightarrow> Inl e
          | Inr c \<Rightarrow> authenticate_with_password check send (st_admin_mfa_enabled st) ttl now p pw c s)"

text \<open>\<open>blacklist\<close> is the token library: the tokens it refuses are not blacklisted.\<close>

definition logout_view ::
  "(string \<Rightarrow> bool) \<Rightarrow> string \<Rightarrow> string list \<Rightarrow> error + string list" where
  "logout_view valid_token refresh blacklisted =
     (if refresh = '''' then Inl (ErrorResponse 400 ''VALIDATION_ERROR'')
      else if valid_token refresh \<and> refresh \<notin> set blacklisted then Inr (blacklisted @ [refresh])
      else Inl (ErrorResponse 400 ''AUTH_INVALID_TOKEN''))"

definition update_me_view ::
  "(string \<Rightarrow> bool) \<Rightarrow> nat \<Rightarrow> string option \<Rightarrow> string option \<Rightarrow> string option option \<Rightarrow> string option \<Rightarrow>
     string option \<Rightarrow> 'x accounts_db_scheme \<Rightarrow> error + (user \<times> 'x accounts_db_scheme)" where
  "update_me_view valid_email me fname lname email display alternate s =
     (case first_error [optional_name ''first_name'' fname, optional_name ''last_name'' lname,
                        email_field valid_email email,
                        check_length ''display_name'' 0 255 (strip_str (given '''' display)),
                        check_length ''alternate_phone'' 0 16 (strip_str (given '''' alternate))] of
        Some e \<Rightarrow> Inl e
      | None \<Rightarrow>
          update_profile me (map_option strip_str fname) (map_option strip_str lname)
            (map_option (map_option strip_str) email) (map_option strip_str display)
            (map_option strip_str alternate) s)"

section \<open>Staff\<close>

definition list_staff :: "string \<Rightarrow> 'x accounts_db_scheme \<Rightarrow> user list" where
  "list_staff search s =
     (let term = strip_str search;
          matches = (\<lambda>x. contains_str (lower_str term) (lower_str x))
      in sort_before (\<lambda>u v. ord_class.lexordp (map of_char (u_phone u) :: nat list) (map of_char (u_phone v)))
           (filter (\<lambda>u. u_staff u \<and>
              (search = '''' \<or> matches (u_phone u) \<or> matches (u_first_name u) \<or> matches (u_last_name u)))
              (users s)))"

definition create_staff_view ::
  "(string \<Rightarrow> bool) \<Rightarrow> (string \<Rightarrow> string) \<Rightarrow> string \<Rightarrow> string \<Rightarrow> string option \<Rightarrow> string \<Rightarrow> string \<Rightarrow>
     user_role option \<Rightarrow> string list \<Rightarrow> user option \<Rightarrow> request option \<Rightarrow> 'x accounts_db_scheme \<Rightarrow>
     error + (user \<times> 'x accounts_db_scheme)" where
  "create_staff_view valid_email hasher phone pw email fname lname role groups who rq s =
     (case who of
        None \<Rightarrow> Inl PermissionDenied
      | Some me \<Rightarrow>
          if \<not> is_super_admin_role who then Inl PermissionDenied
          else case first_error [password_field 8 128 pw, email_field valid_email (Some email),
                                 optional_name ''first_name'' (Some fname), optional_name ''last_name'' (Some lname)] of
            Some e \<Rightarrow> Inl e
          | None \<Rightarrow>
              create_staff hasher phone pw (map_option strip_str email) (strip_str fname) (strip_str lname)
                (given ADMIN role) groups (u_id me) rq s)"

datatype update_method = PUT | PATCH

text \<open>The names of the fields that were sent, in the order of the serializer.\<close>

definition sent_fields :: "staff_update \<Rightarrow> string list" where
  "sent_fields a =
     map fst (filter snd
       [(''email'', su_email a \<noteq> None), (''first_name'', su_first_name a \<noteq> None),
        (''last_name'', su_last_name a \<noteq> None), (''role'', su_role a \<noteq> None),
        (''is_verified'', su_verified a \<noteq> None), (''is_active'', su_active a \<noteq> None),
        (''is_staff'', su_staff a \<noteq> None), (''group_ids'', su_groups a \<noteq> None)])"

text \<open>
  \<open>partial_update\<close> is overridden and audited; \<open>PUT\<close> is served by the \<open>update\<close> of the framework's mixin,
  which saves the same serializer.
\<close>

definition update_staff_view ::
  "update_method \<Rightarrow> user option \<Rightarrow> request option \<Rightarrow> nat \<Rightarrow> staff_update \<Rightarrow> 'x accounts_db_scheme \<Rightarrow>
     error + (user \<times> 'x accounts_db_scheme)" where
  "update_staff_view m who rq k a s =
     (case who of
        None \<Rightarrow> Inl PermissionDenied
      | Some me \<Rightarrow>
          if \<not> is_super_admin_role who then Inl PermissionDenied
          else case update_staff (u_id me) k a s of
            Inl e \<Rightarrow> Inl e
          | Inr (u, s1) \<Rightarrow>
              Inr (u, case m of
                        PUT \<Rightarrow> s1
                      | PATCH \<Rightarrow> audit_event AA_STAFF_UPDATED ''staff'' (nat_str (u_id u)) (Some (u_id me)) rq
                                  (JObj [(''fields'', JList (map JStr (sent_fields a)))]) s1))"

section \<open>The commands\<close>

text \<open>\<open>get_or_create\<close> on the number as it stands in the environment, then the fields that are saved.\<close>

definition ensure_superuser ::
  "environ \<Rightarrow> (string \<Rightarrow> string) \<Rightarrow> 'x accounts_db_scheme \<Rightarrow> string + (user \<times> 'x accounts_db_scheme)" where
  "ensure_superuser e hasher s =
     (let phone = strip_str (given '''' (e ''DJANGO_SUPERUSER_PHONE_NUMBER''));
          pw = given '''' (e ''DJANGO_SUPERUSER_PASSWORD'');
          email = strip_str (given '''' (e ''DJANGO_SUPERUSER_EMAIL''))
      in if phone = '''' then Inl ''DJANGO_SUPERUSER_PHONE_NUMBER is required.''
         else if pw = '''' then Inl ''DJANGO_SUPERUSER_PASSWORD is required.''
         else
           let u = (case user_by_phone phone s of Some u \<Rightarrow> u | None \<Rightarrow> new_user phone (new_id s));
               u2 = u\<lparr>u_email := (if email = '''' then None else Some email), u_role := SUPER_ADMIN,
                      u_staff := True, u_superuser := True, u_verified := True, u_active := True,
                      u_password := Hashed (hasher pw)\<rparr>
           in Inr (u2, if user_by_phone phone s = None then bump_id (insert_user u2 s) else save_user u2 s))"

text \<open>The permissions of each group, by application.\<close>

definition catalogue_permissions :: "(string \<times> string list) list" where
  "catalogue_permissions =
     [(''catalogue'',
       [''add_service'', ''change_service'', ''delete_service'', ''view_service'',
        ''add_servicecategory'', ''change_servicecategory'', ''delete_servicecategory'', ''view_servicecategory'',
        ''add_serviceimage'', ''change_serviceimage'', ''delete_serviceimage'', ''view_serviceimage'']),
      (''operations'',
       [''add_homepagebanner'', ''change_homepagebanner'', ''delete_homepagebanner'', ''view_homepagebanner'',
        ''add_faq'', ''change_faq'', ''delete_faq'', ''view_faq''])]"

definition group_permissions :: "(string \<times> (string \<times> string list) list) list" where
  "group_permissions =
     [(''Operations Admin'',
       [(''accounts'', [''view_user'', ''view_customerprofile'']),
        (''bookings'', [''add_booking'', ''change_booking'', ''view_booking'', ''view_bookingstatushistory'']),
        (''catalogue'', [''view_service'', ''view_servicecategory'']),
        (''locations'', [''add_address'', ''change_address'', ''view_address'', ''view_servicearea'']),
        (''notifications'', [''change_notification'', ''view_notification'']),
        (''operations'', [''add_lead'', ''change_lead'', ''view_lead'', ''view_leadstatushistory'']),
        (''payments'', [''view_payment'']),
        (''technicians'', [''change_technicianprofile'', ''view_technicianprofile''])]),
      (''Customer Support'',
       [(''accounts'', [''view_user'', ''view_customerprofile'']),
        (''bookings'', [''view_booking'']),
        (''locations'', [''view_address'']),
        (''notifications'', [''change_notification'', ''view_notification'']),
        (''operations'', [''add_lead'', ''change_lead'', ''view_lead'', ''view_leadstatushistory''])]),
      (''Catalogue Manager'', catalogue_permissions),
      (''Finance'', [(''bookings'', [''view_booking'']), (''payments'', [''view_payment''])]),
      (''Technician Coordinator'',
       [(''accounts'', [''view_user'']),
        (''bookings'', [''change_booking'', ''view_booking'', ''view_bookingstatushistory'']),
        (''technicians'', [''change_technicianprofile'', ''view_technicianprofile''])])]"

text \<open>
  A permission is its application and its name; \<open>known\<close> are those of the framework's table. The state is
  the table of groups.
\<close>

type_synonym group_table = "(string \<times> (string \<times> string) list) list"

definition permissions_of :: "(string \<times> string) list \<Rightarrow> (string \<times> string list) list \<Rightarrow> (string \<times> string) list" where
  "permissions_of known apps =
     concat (map (\<lambda>(app, names). filter (\<lambda>(a, n). a = app \<and> n \<in> set names) known) apps)"

definition setup_staff_groups :: "(string \<times> string) list \<Rightarrow> group_table \<Rightarrow> group_table" where
  "setup_staff_groups known groups =
     fold (\<lambda>(name, apps). set_item name (permissions_of known apps)) group_permissions
       (set_item ''Super Admin'' known groups)"

text \<open>What the staff page shows of the groups.\<close>

definition group_descriptions :: "(string \<times> string) list" where
  "group_descriptions =
     [(''Operations Admin'', ''Manage daily leads, customers, bookings, work orders, technicians, schedules, and service areas.''),
      (''Customer Support'', ''Handle customers and leads, view bookings, and manage customer notifications.''),
      (''Catalogue Manager'', ''Manage categories, services, packages, FAQs, banners, and homepage carousel content.''),
      (''Finance'', ''View bookings, manage payments and refunds, and access financial reports.''),
      (''Technician Coordinator'', ''Coordinate technicians, assignments, work orders, leave, and booking schedules.'')]"

definition list_staff_groups :: "group_table \<Rightarrow> (string \<times> string) list" where
  "list_staff_groups groups =
     map (\<lambda>name. (name, given ''Custom staff permission group.'' (map_of group_descriptions name)))
       (sort_before (\<lambda>x y. ord_class.lexordp (map of_char x :: nat list) (map of_char y)) (map fst groups))"

section \<open>Lemmas\<close>

text \<open>A request to the staff administration, made with a token of an active user.\<close>

inductive staff_step :: "'x accounts_db_scheme \<Rightarrow> 'x accounts_db_scheme \<Rightarrow> bool" where
  Create: "get_user i s = Some me \<Longrightarrow> u_active me \<Longrightarrow>
    create_staff_view valid_email hasher phone pw email fname lname role groups (Some me) rq s = Inr (u, s') \<Longrightarrow>
    staff_step s s'"
| Update: "get_user i s = Some me \<Longrightarrow> u_active me \<Longrightarrow>
    update_staff_view m (Some me) rq k a s = Inr (u, s') \<Longrightarrow> staff_step s s'"

inductive_cases staff_stepE: "staff_step s s'"

definition is_active_super_admin :: "user \<Rightarrow> bool" where
  "is_active_super_admin u = (u_role u = SUPER_ADMIN \<and> u_active u)"

definition has_super_admin :: "'x accounts_db_scheme \<Rightarrow> bool" where
  "has_super_admin s = (\<exists>i u. get_user i s = Some u \<and> is_active_super_admin u)"

lemma get_user_audit [simp]: "get_user i (audit_event act rt rid actor rq m s) = get_user i s"
  by (simp add: get_user_def audit_event_def register_hook_def)

lemma created_staff_keeps:
  assumes "create_staff hasher phone pw email fname lname role groups actor rq s = Inr (u, s')"
    and "get_user i s = Some v"
  shows "get_user i s' = Some v"
  using assms user_table.get_ins_old [OF assms(2)]
  by (auto simp: create_staff_def Let_def get_user_def insert_user_def bump_id_def audit_event_def register_hook_def
      split: sum.splits if_splits option.splits)

lemma updated_staff_keeps:
  assumes "update_staff (u_id me) k a s = Inr (u, s')" and "get_user i s = Some me" and "is_active_super_admin me"
  shows "\<exists>v. get_user i s' = Some v \<and> is_active_super_admin v"
proof -
  have me: "u_id me = i" using user_table.get_key [OF assms(2)] .
  obtain old where old: "get_user k s = Some old" and s': "s' = save_user u s" and key: "u_id u = u_id old"
    and ok: "validate_staff_update (u_id me) old a = None"
    and u: "u_role u = given (u_role old) (su_role a)" "u_active u = given (u_active old) (su_active a)"
    using assms(1) by (auto simp: update_staff_def Let_def split: option.splits if_splits)
  have k: "u_id old = k" using user_table.get_key [OF old] .
  show ?thesis
  proof (cases "i = k")
    case True
    then have "get_user i s' = Some u"
      using user_table.get_save_same [of u s old] old key k s' by simp
    moreover have "is_active_super_admin u"
      using ok me True k u by (auto simp: validate_staff_update_def is_active_super_admin_def Let_def split: if_splits)
    ultimately show ?thesis by blast
  next
    case False
    then show ?thesis using user_table.get_save_other [of i u s] assms(2,3) s' key k by auto
  qed
qed

lemma staff_step_keeps: "staff_step s s' \<Longrightarrow> has_super_admin s'"
proof (erule staff_stepE)
  fix i me valid_email hasher phone pw email fname lname role groups rq u
  assume me: "get_user i s = Some me" "u_active me"
    and run: "create_staff_view valid_email hasher phone pw email fname lname role groups (Some me) rq s = Inr (u, s')"
  then have "is_active_super_admin me"
    by (auto simp: create_staff_view_def is_super_admin_role_def is_active_super_admin_def split: if_splits)
  moreover have "get_user i s' = Some me"
    using run me(1) by (auto simp: create_staff_view_def split: if_splits option.splits intro: created_staff_keeps)
  ultimately show "has_super_admin s'" by (auto simp: has_super_admin_def)
next
  fix i me m rq k a u
  assume me: "get_user i s = Some me" "u_active me"
    and run: "update_staff_view m (Some me) rq k a s = Inr (u, s')"
  then have admin: "is_active_super_admin me"
    by (auto simp: update_staff_view_def is_super_admin_role_def is_active_super_admin_def split: if_splits)
  from run obtain s1 where upd: "update_staff (u_id me) k a s = Inr (u, s1)"
    and "\<And>j. get_user j s' = get_user j s1"
    by (auto simp: update_staff_view_def split: if_splits sum.splits update_method.splits)
  with updated_staff_keeps [OF upd me(1) admin] show "has_super_admin s'"
    by (auto simp: has_super_admin_def)
qed

section \<open>Properties\<close>

text \<open>C23: Once there is an active super administrator there always is one: whatever requests to the staff
  administration are served, in whatever order and by whomever, somebody who can manage staff is left,
  because nobody can demote or deactivate themselves and only a super administrator gets this far.\<close>

theorem a_super_administrator_remains:
  assumes "staff_step\<^sup>*\<^sup>* s s'" and "has_super_admin s"
  shows "has_super_admin s'"
  using assms by (induction rule: rtranclp_induct) (auto intro: staff_step_keeps)

definition demotion :: staff_update where
  "demotion =
     \<lparr>su_email = None, su_first_name = None, su_last_name = None, su_role = Some CUSTOMER, su_verified = None,
      su_active = None, su_staff = None, su_groups = None\<rparr>"

definition two_super_admins :: accounts_db where
  "two_super_admins = sample_accounts_db
     [(sample_user 1 SUPER_ADMIN [])\<lparr>u_phone := ''+919876543211''\<rparr>, (sample_user 2 SUPER_ADMIN [])\<lparr>u_phone := ''+919876543212''\<rparr>]"

theorem a_super_administrator_remains_witness:
  "\<exists>s'. staff_step\<^sup>*\<^sup>* two_super_admins s' \<and> map_option u_role (get_user 2 s') = Some CUSTOMER \<and> has_super_admin s'"
proof -
  let ?run = "update_staff_view PATCH (get_user 1 two_super_admins) None 2 demotion two_super_admins"
  have ok: "case ?run of Inl e \<Rightarrow> False | Inr (u, s') \<Rightarrow> map_option u_role (get_user 2 s') = Some CUSTOMER"
    "case get_user 1 two_super_admins of None \<Rightarrow> False | Some u \<Rightarrow> is_active_super_admin u" by code_simp+
  then obtain u s' me where run: "?run = Inr (u, s')" and me: "get_user 1 two_super_admins = Some me"
    and admin: "is_active_super_admin me"
    by (auto split: sum.splits prod.splits option.splits)
  have "staff_step two_super_admins s'"
    using Update [OF me] run me admin by (auto simp: is_active_super_admin_def)
  then have "staff_step\<^sup>*\<^sup>* two_super_admins s'" by blast
  moreover have "has_super_admin two_super_admins" using me admin by (auto simp: has_super_admin_def)
  ultimately show ?thesis using a_super_administrator_remains [of two_super_admins s'] ok(1) run by auto
qed

lemma turnstile_passed:
  "verify_turnstile True secret post tok remote_ip ''otp_send'' = None \<Longrightarrow>
     tok \<noteq> '''' \<and>
     (\<exists>status kvs.
        post (JObj [(''secret'', JStr secret), (''response'', JStr tok), (''remoteip'', JStr remote_ip)]) =
          Inr (status, Some (JObj kvs)) \<and>
        status < 400 \<and> truthy (item ''success'' (JObj kvs)) \<and>
        item ''action'' (JObj kvs) \<in> {JNull, JStr '''', JStr ''otp_send''})"
  by (auto simp: verify_turnstile_def Let_def split: if_splits sum.splits option.splits json.splits)

text \<open>Two providers are told apart only behind the challenge.\<close>

lemma otp_send_view_sends:
  assumes "otp_send_view st post send remote_ip phone channel captcha s \<noteq>
           otp_send_view st post send2 remote_ip phone channel captcha s"
  shows "verify_turnstile (st_require_turnstile st) (st_turnstile_secret st) post (strip_str captcha) remote_ip
           ''otp_send'' = None"
  using assms by (auto simp: otp_send_view_def split: sum.splits option.splits)

lemma otp_send_view_Inr:
  assumes "otp_send_view st post send remote_ip phone channel captcha s = Inr (r, s')"
  shows "verify_turnstile (st_require_turnstile st) (st_turnstile_secret st) post (strip_str captcha) remote_ip
           ''otp_send'' = None \<and>
         (case user_by_phone (fst r) s of None \<Rightarrow> True | Some u \<Rightarrow> \<not> is_admin u)"
  using assms by (auto simp: otp_send_view_def send_login_otp_def split: sum.splits if_splits option.splits)

lemma password_login_view_sends:
  assumes "password_login_view check send st ttl now phone pw channel s \<noteq>
           password_login_view check send2 st ttl now phone pw channel s"
  shows "\<exists>sent p u. char_field ''phone_number'' phone = Inr sent \<and> normalize_phone_number sent = Inr p \<and>
           user_by_phone p s = Some u \<and> is_admin u \<and> u_active u \<and> check_password check pw u \<and>
           st_admin_mfa_enabled st"
  using assms
  by (auto simp: password_login_view_def authenticate_with_password_def Let_def
      split: sum.splits option.splits if_splits)

text \<open>C28: Where the challenge is required, the endpoint that sends codes calls the provider, and answers
  with a code sent, only if the request carried a token and the challenge service confirmed it for this
  purpose; and the number is then not an administrator's. The one other request that sends a code, the
  login with a password, asks for no token; but its answer depends on the provider only if the number
  is an active administrator's, the password is right and multi-factor login is on.\<close>

theorem no_code_without_challenge:
  assumes "st_require_turnstile st"
  shows "(otp_send_view st post send remote_ip phone channel captcha s = Inr (r, s') \<or>
          otp_send_view st post send remote_ip phone channel captcha s \<noteq>
            otp_send_view st post send2 remote_ip phone channel captcha s \<longrightarrow>
          strip_str captcha \<noteq> '''' \<and>
          (\<exists>status kvs.
             post (JObj [(''secret'', JStr (st_turnstile_secret st)), (''response'', JStr (strip_str captcha)),
                         (''remoteip'', JStr remote_ip)]) = Inr (status, Some (JObj kvs)) \<and>
             status < 400 \<and> truthy (item ''success'' (JObj kvs)) \<and>
             item ''action'' (JObj kvs) \<in> {JNull, JStr '''', JStr ''otp_send''})) \<and>
         (otp_send_view st post send remote_ip phone channel captcha s = Inr (r, s') \<longrightarrow>
          (case user_by_phone (fst r) s of None \<Rightarrow> True | Some u \<Rightarrow> \<not> is_admin u)) \<and>
         (password_login_view check send st ttl now phone pw channel s \<noteq>
            password_login_view check send2 st ttl now phone pw channel s \<longrightarrow>
          (\<exists>sent p u. char_field ''phone_number'' phone = Inr sent \<and> normalize_phone_number sent = Inr p \<and>
             user_by_phone p s = Some u \<and> is_admin u \<and> u_active u \<and> check_password check pw u \<and>
             st_admin_mfa_enabled st))"
proof -
  have "verify_turnstile True (st_turnstile_secret st) post (strip_str captcha) remote_ip ''otp_send'' = None"
    if "otp_send_view st post send remote_ip phone channel captcha s = Inr (r, s') \<or>
        otp_send_view st post send remote_ip phone channel captcha s \<noteq>
          otp_send_view st post send2 remote_ip phone channel captcha s"
    using that assms otp_send_view_Inr [of st post send remote_ip phone channel captcha s r s']
      otp_send_view_sends [of st post send remote_ip phone channel captcha s send2] by auto
  note checked = this
  show ?thesis
    by (rule conjI [OF impI conjI [OF impI impI]], rule turnstile_passed [OF checked], assumption,
        rule otp_send_view_Inr [THEN conjunct2], assumption, rule password_login_view_sends, assumption)
qed

definition guarded_site :: site where
  "guarded_site = (projr (production_settings sample_environ sample_reader))
     \<lparr>st_require_turnstile := True, st_turnstile_secret := ''k''\<rparr>"

definition passed_challenge :: http_post where
  "passed_challenge = (\<lambda>body. Inr (200, Some (JObj [(''success'', JBool True), (''action'', JStr ''otp_send'')])))"

theorem no_code_without_challenge_witness:
  "\<exists>r s'. otp_send_view guarded_site passed_challenge (\<lambda>m c s. Inr (''r1'', s)) ''1.2.3.4'' ''+919876543210'' None
       ''token'' (sample_accounts_db []) = Inr (r, s') \<and> strip_str ''token'' \<noteq> ''''"
proof -
  let ?run = "otp_send_view guarded_site passed_challenge (\<lambda>m c s. Inr (''r1'', s)) ''1.2.3.4'' ''+919876543210'' None
       ''token'' (sample_accounts_db [])"
  have "\<not> isl ?run" by code_simp
  then obtain r s' where run: "?run = Inr (r, s')" by (blast dest: result_cases)
  have "st_require_turnstile guarded_site" by (simp add: guarded_site_def)
  from no_code_without_challenge [OF this, THEN conjunct1] run show ?thesis by blast
qed

text \<open>The login for development is off in production: whatever the environment, once the settings of
  production have been accepted, the handler answers every number with 404 and logs nobody in.\<close>

theorem development_login_is_off_in_production:
  assumes "production_settings e r = Inr st"
  shows "dev_phone_login_view st allowed phone s = Inl (ErrorResponse 404 ''DEV_LOGIN_DISABLED'')"
proof -
  obtain b where "list_all (\<lambda>c. \<not> fst c) (production_refusals e r st)"
    using production_settingsD [OF assms] by blast
  then have "\<not> st_debug st" by (simp add: production_refusals_def Let_def)
  then show ?thesis by (simp add: dev_phone_login_view_def)
qed

theorem development_login_is_off_in_production_witness:
  "\<exists>st. production_settings sample_environ sample_reader = Inr st \<and>
     dev_phone_login_view st [''+919876543210''] ''+919876543210'' (sample_accounts_db []) =
       Inl (ErrorResponse 404 ''DEV_LOGIN_DISABLED'')"
proof -
  have "\<not> isl (production_settings sample_environ sample_reader)" by code_simp
  then obtain st where "production_settings sample_environ sample_reader = Inr st"
    by (cases "production_settings sample_environ sample_reader") auto
  with development_login_is_off_in_production [OF this] show ?thesis by blast
qed

text \<open>A change of staff leaves a trace only when it is sent as PATCH: the same change sent as PUT is made
  in the same way, but no audit event is registered for it.\<close>

theorem staff_put_is_not_audited:
  assumes "update_staff_view PATCH who rq k a s = Inr (u, s1)"
  shows "\<exists>s2. update_staff_view PUT who rq k a s = Inr (u, s2) \<and> users s2 = users s1 \<and>
           on_commit s2 = on_commit s \<and> length (on_commit s1) = length (on_commit s) + 1"
  using assms
  by (auto simp: update_staff_view_def update_staff_def save_user_def audit_event_def register_hook_def Let_def
      split: option.splits if_splits sum.splits)

theorem staff_put_is_not_audited_witness:
  "\<exists>u s2. update_staff_view PUT (get_user 1 two_super_admins) None 2 demotion two_super_admins = Inr (u, s2) \<and>
     on_commit s2 = []"
proof -
  let ?run = "update_staff_view PATCH (get_user 1 two_super_admins) None 2 demotion two_super_admins"
  have "\<not> isl ?run" "on_commit two_super_admins = []" by code_simp+
  then obtain u s1 where "?run = Inr (u, s1)" by (blast dest: result_cases)
  from staff_put_is_not_audited [OF this] \<open>on_commit two_super_admins = []\<close> show ?thesis by auto
qed

text \<open>The command that makes the superuser stores the number as the environment gives it: if that is not
  in the international form, the account exists but no login with a password ever reaches it, and an
  attempt with that very number is refused.\<close>

theorem superuser_number_must_be_international:
  assumes "ensure_superuser e hasher s = Inr (u, s')" and "\<not> e164 (remove_spaces (u_phone u))"
  shows "u \<in> set (users s') \<and>
         isl (authenticate_with_password check send mfa ttl now (u_phone u) pw channel s') \<and>
         (\<forall>phone lo s2. authenticate_with_password check send mfa ttl now phone pw channel s' = Inr (LoggedIn lo, s2) \<longrightarrow>
            lo_user lo \<noteq> u)"
proof (intro conjI allI impI notI)
  let ?phone = "strip_str (given '''' (e ''DJANGO_SUPERUSER_PHONE_NUMBER''))"
  show "u \<in> set (users s')"
  proof (cases "user_by_phone ?phone s")
    case None
    with assms(1) show ?thesis by (auto simp: ensure_superuser_def Let_def insert_user_def bump_id_def split: if_splits)
  next
    case (Some y)
    then have y: "y \<in> set (users s)" by (auto simp: user_by_phone_def dest: first_row_SomeD)
    from Some assms(1) have "s' = save_user u s" "u_id u = u_id y"
      by (auto simp: ensure_superuser_def Let_def split: if_splits)
    with y show ?thesis by (force simp: save_user_def save_row_def)
  qed
  show "isl (authenticate_with_password check send mfa ttl now (u_phone u) pw channel s')"
    using assms(2) by (simp add: authenticate_with_password_def normalize_phone_number_def Let_def)
next
  fix phone lo s2
  assume run: "authenticate_with_password check send mfa ttl now phone pw channel s' = Inr (LoggedIn lo, s2)"
    and lo: "lo_user lo = u"
  then obtain p where "normalize_phone_number phone = Inr p" "user_by_phone p s' = Some u"
    by (auto simp: authenticate_with_password_def login_result_def Let_def
        split: sum.splits option.splits if_splits prod.splits)
  then have "e164 (u_phone u)"
    by (auto simp: normalize_phone_number_def user_by_phone_def Let_def split: if_splits dest: first_row_SomeD)
  moreover have "remove_spaces (u_phone u) = u_phone u" if "e164 (u_phone u)"
  proof -
    have plus: "\<not> is_space (CHR ''+'')" by code_simp
    have "\<not> is_space c" if "c \<in> set (u_phone u)" for c
      using \<open>e164 (u_phone u)\<close> that is_digit_not_space plus
      by (auto simp: e164_def list_all_iff split: list.splits)
    then show ?thesis by (simp add: remove_spaces_id list_all_iff)
  qed
  ultimately show False using assms(2) by simp
qed

definition local_number_environ :: environ where
  "local_number_environ = map_of
     [(''DJANGO_SUPERUSER_PHONE_NUMBER'', ''98765 43210''), (''DJANGO_SUPERUSER_PASSWORD'', ''long password'')]"

theorem superuser_number_must_be_international_witness:
  "\<exists>u s'. ensure_superuser local_number_environ (\<lambda>x. x) (sample_accounts_db []) = Inr (u, s') \<and>
     isl (authenticate_with_password (=) (\<lambda>m c s. Inr ('''', s)) False 5 0 ''98765 43210'' ''long password'' ''SMS'' s')"
proof -
  let ?run = "ensure_superuser local_number_environ (\<lambda>x. x) (sample_accounts_db [])"
  have ok: "case ?run of Inl e \<Rightarrow> False
    | Inr (u, s') \<Rightarrow> u_phone u = ''98765 43210'' \<and> \<not> e164 (remove_spaces (u_phone u))" by code_simp
  then obtain u s' where run: "?run = Inr (u, s')" by (cases ?run) auto
  with ok superuser_number_must_be_international [OF run, of "(=)" "\<lambda>m c s. Inr ('''', s)" False 5 0 "''long password''" "''SMS''"]
  show ?thesis by auto
qed

text \<open>The groups the command makes are the ones the access rules know: every group it makes besides
  the super administrators' has an access profile with a description, so none of its members is
  let through everywhere, and running the command again changes nothing.\<close>

theorem staff_groups_match_profiles:
  "setup_staff_groups known (setup_staff_groups known groups) = setup_staff_groups known groups \<and>
   map fst group_permissions = map fst staff_access_profiles \<and>
   map fst group_permissions = map fst group_descriptions"
proof -
  let ?items = "(''Super Admin'', known) # map (\<lambda>(name, apps). (name, permissions_of known apps)) group_permissions"
  have items: "setup_staff_groups known g = fold (\<lambda>(k, v). set_item k v) ?items g" for g
    by (simp add: setup_staff_groups_def group_permissions_def)
  have keys: "distinct (map fst ?items)" by (simp add: group_permissions_def)
  have "map fst group_permissions = map fst staff_access_profiles" "map fst group_permissions = map fst group_descriptions"
    by code_simp+
  then show ?thesis unfolding items set_items_twice [OF keys] by (intro conjI refl)
qed

end
