(* ===== verification/Spec2Isabelle.thy ===== *)
theory Spec2Isabelle
  imports Lifecycle Payment_Life Data_Migrations Row_Json Map_Provider Accounts_Views
begin

text \<open>
  A model of the backend of a home-service platform: a Django application under \<open>src/apps\<close> in which
  customers sign in with one-time codes, put services into a cart, book a slot, pay an advance through a
  payment gateway and are served by technicians, while administrators run leads, work orders, refunds and
  invoices. This file imports every other theory and describes them.

  \<^bold>\<open>How the code is read.\<close> The database is one record, and each component extends it by its tables
  (\<open>base_db\<close> in \<open>Prelude\<close> up to \<open>technicians_db\<close> and \<open>reviews_db\<close>), so that a function of a component
  works on every larger database. A table is the list of its rows in the order of insertion; a row is a
  record with the columns of the Django model; \<open>get_\<dots>\<close>, \<open>save_\<dots>\<close> and \<open>insert_\<dots>\<close> are the manager
  calls, and the locale \<open>row_table\<close> is their contract, interpreted for every table. Primary keys are
  natural numbers from a supply that never repeats, in the place of random UUIDs. A function decorated with
  \<open>transaction.atomic\<close> has the type \<open>\<dots> \<Rightarrow> 's \<Rightarrow> error + ('a \<times> 's)\<close>: a raise is an \<open>Inl\<close> and leaves nothing
  behind. A function that commits and then raises, or a handler that is not one transaction, has the type
  \<open>\<dots> \<Rightarrow> 's \<Rightarrow> (error + 'a) \<times> 's\<close>. \<open>transaction.on_commit\<close> appends to the queue \<open>on_commit\<close>, and
  \<open>commit\<close> runs the queue. \<open>select_for_update\<close> has no effect on the state: the calls are taken one after
  the other, which is what the row locks are for.

  Amounts are integers in paise (\<open>Decimals\<close> has the decimal arithmetic with the rounding of Python's
  \<open>quantize\<close>, half to even); a \<open>timestamp\<close> counts microseconds, a \<open>date\<close> days since 1970-01-01; the time
  zone is UTC+5:30. Every handler reads the clock once (\<open>now\<close>). Strings are Latin-1. Dictionaries that
  reach the outside (payloads, metadata, snapshots) are values of the datatype \<open>json\<close>. Of several field
  errors that the framework reports together the model reports the first. Every definition is total and
  there is no fuel: the loops of the code recurse over lists, the retry of the map client over the attempts
  that are left, and the replacement of patterns, the cutting of texts and the reader of the export are
  functions with a termination proof by the length of what is left. Where the code orders rows by their
  time of creation the model uses the order of the table; where it shows or filters by that time, the times
  of creation and change are the arguments \<open>created\<close> and \<open>updated\<close>.

  \<^bold>\<open>The theories\<close>, in the order of their imports:

  \<^item> \<open>Prelude\<close>: errors, transactions, tables, text, dates. \<open>Json\<close>, \<open>Decimals\<close>: values of payloads and
    amounts, \<open>str\<close> and \<open>repr\<close> of them, redaction of sensitive keys.
  \<^item> \<open>Patterns\<close>: the regular expressions the code uses, with a backtracking matcher, search and
    substitution.
    \<open>Web\<close> (\<open>src/common\<close>): the error envelope, request
    ids, throttle keys, the filter of log lines, the security challenge, the health and secret checks.
    \<open>Settings\<close> (\<open>src/config/settings\<close>): the readers of the environment, the settings the code uses, what
    production refuses, the settings page.
  \<^item> \<open>Audit_Log\<close> (\<open>apps/audit\<close>): \<open>audit_event\<close>, the redacted metadata, the
    client address.
  \<^item> \<open>Notifications\<close> (\<open>apps/notifications\<close>): events queued with the transaction, delivery by the provider,
    the delivery callback, retry and cancellation.
  \<^item> \<open>Accounts\<close> (\<open>apps/accounts\<close>): phone numbers, one-time codes and their providers, the login paths,
    the second factor of administrators, the access profiles of staff, changes of staff and profiles.
    \<open>Accounts_Views\<close> (\<open>views.py\<close>, \<open>serializers.py\<close>, the commands \<open>ensure_superuser\<close> and
    \<open>setup_staff_groups\<close>): the handlers, the fields they accept, staff administration.
  \<^item> \<open>Catalogue\<close> (\<open>apps/catalogue\<close>): categories, services, packages, their validation, the advance.
    \<open>Catalogue_Views\<close> (\<open>views.py\<close>, \<open>serializers.py\<close>): the public lists and their filters, images, the
    administrators' handlers, deletion with its cascades.
  \<^item> \<open>Locations\<close> (\<open>apps/locations\<close>): service areas, addresses and the default among them, the check of a
    postal code. \<open>Map_Provider\<close> (\<open>providers.py\<close>, \<open>check_location_provider\<close>): the client of the map service.
  \<^item> \<open>Booking_Model\<close>, \<open>Scheduling\<close> (\<open>apps/scheduling\<close>): the rows of bookings; slots, closures, the daily
    windows, capacity, reservation.
  \<^item> \<open>Payment_Model\<close>: the rows of payments, webhook deliveries and invoices, with the unique constraints
    that a write checks.
  \<^item> \<open>Leads\<close> (\<open>apps/operations\<close>, the part that bookings call): upserting a lead, the ranks of funnel and
    payment, linking a booking, the payment of a lead.
  \<^item> \<open>Bookings\<close> (\<open>apps/bookings/services.py\<close>): numbers, amounts, creation on a locked slot, every service
    that changes the status, the collection of the balance.
  \<^item> \<open>Technicians\<close> (\<open>apps/technicians\<close>): working hours, leaves, eligibility, assignments, the jobs.
  \<^item> \<open>Lifecycle\<close>: the services of bookings, technicians and slots together, as a step relation.
  \<^item> \<open>Reviews\<close> (\<open>apps/reviews\<close>).
  \<^item> \<open>Payments\<close> (\<open>apps/payments/services.py\<close>, \<open>providers.py\<close>, \<open>tasks.py\<close>): orders, verification,
    refunds, reconciliation, the webhook. \<open>Invoices\<close> (\<open>invoices.py\<close>). \<open>Payment_Views\<close> (\<open>views.py\<close>).
  \<^item> \<open>Cart\<close> (\<open>apps/bookings/cart.py\<close>, \<open>idempotency.py\<close>, \<open>views.py\<close>, \<open>common/idempotency.py\<close>): the cart,
    the checkout and its idempotency key, the handlers of bookings.
  \<^item> \<open>Operations\<close> (\<open>apps/operations/services.py\<close>, \<open>views.py\<close>): payment links, work orders from leads,
    manual payments, contacts, reminders, banners. \<open>Payment_Life\<close>: every request that writes the payments
    table, of three applications, as a step relation, with the invariant of the table. \<open>Reports\<close> (\<open>views.py\<close>): the filtered list of leads and
    its export, the dashboard and its cache, search, reports, the handlers of banners.
  \<^item> \<open>Admin_Lists\<close>: the JSON of bookings and the lists of bookings, payments, notifications, reviews,
    customers, technicians, leaves, slots and areas (\<open>views.py\<close> of each application). \<open>Row_Json\<close>
    (\<open>serializers.py\<close>): the JSON of reviews, payments, notifications, audit events, leaves, leads, areas,
    addresses, slots, closures, users and customers.
  \<^item> \<open>Seed_Data\<close>, \<open>Seeds\<close> (\<open>seed_catalogue\<close>, \<open>seed_service_areas\<close>): the launch data and the commands that
    load it, row by row by the natural key.
  \<^item> \<open>Admin_Site\<close> (\<open>admin.py\<close>): what the application adds to the framework's administration pages.
  \<^item> \<open>Data_Migrations\<close> (\<open>apps/*/migrations\<close>): the migrations that change data.

  \<^bold>\<open>What is shown.\<close> \<open>Lifecycle\<close> proves an invariant of all reachable states (no slot overbooked, the
  history of a booking replays to its status, the crew agrees with the assignments, no balance collected
  beyond what is due), that statuses only move along the edges of the lifecycle, and that the calls, each
  of them, implement an abstract view of the slots in which only capacities and places taken are left.
  \<open>Payments\<close> proves that a payment is confirmed only by the key's signature and a wrong one is recorded,
  that verification, orders, refunds and webhook deliveries are idempotent, and that refunds stay within the
  payment; \<open>Payment_Life\<close> that the payments table stays a sound ledger over all requests; \<open>Cart\<close> that a
  checkout is made once for its key; \<open>Invoices\<close> that numbers never clash and an invoice is issued once.
  \<open>Accounts\<close> proves that a code is used once, that guesses are bounded at the login with a code (and not
  at the second factor), and that administrators need the second factor, the development login aside; \<open>Leads\<close> and \<open>Operations\<close> how leads are merged, converted and paid. Each component also
  states the invariant of its tables. \<open>Accounts_Views\<close> proves that a super administrator always remains
  and that no code is sent without the challenge or an administrator's password; \<open>Settings\<close> what production cannot start with; \<open>Web\<close> and
  \<open>Map_Provider\<close> that log lines carry no secrets and no postal codes, and that the map client ends after at
  most two requests; \<open>Catalogue_Views\<close> and \<open>Admin_Lists\<close> that what is listed, services and technicians, is
  what booking and assigning accept (but for a percentage service without a value), and that deletions leave no dangling reference; \<open>Reports\<close> that
  the export can be read back and the dashboard is fresh; \<open>Seeds\<close> that loading the data ends and what it
  leaves; \<open>Admin_Site\<close> that actions on selected rows are recorded and a suspended technician gets no jobs;
  \<open>Data_Migrations\<close> that the payments meet their constraints after the migration that adds these.
  Contracts shared by several operations are locales: \<open>row_table\<close>,
  \<open>audited_service\<close> (a service makes one audited write of a booking), \<open>serial_source\<close> (booking and
  invoice numbers), \<open>ranked_max\<close> (the funnel and the payment step of a lead), \<open>natural_upsert\<close> (a row
  written by its slug or place), \<open>group_repair\<close> (duplicates of payments), and others in their theories, all interpreted on the model's own definitions.

  Some theorems state behaviour that is probably not meant: a late payment can overbook a slot, a payment
  that was refunded can be verified again, guesses of the second factor are not counted, a failed
  refund reopens finished work, a manual payment cannot be recorded beside an online one, a technician can
  be double booked by rescheduling, the failure of a delivery is undone with its transaction, production
  starts with the payment secrets of the tests, a search by city hides services that can be booked,
  customers read the notes of administrators, reports add refunds to the revenue, loading the launch data
  again leaves an advance that is not the percentage of the price, actions on a filtered list of
  technicians are not audited, the page of a service with a percentage cannot be saved as it is shown, the
  total of a booked lead has the training fee twice, and the public reviews show phone numbers.

  \<^bold>\<open>Parameters.\<close> The payment gateway, the notification provider, the one-time-code provider, the map
  service and every other HTTP request, the message authentication code, the hash, the JSON parser and
  printer, the password hash and the token library, the validator of e-mail addresses, the reader of the
  environment, the framework's own answer to an exception, the text of floating-point numbers and the media
  storage are arguments of the definitions that use them: they are libraries or services outside \<open>src/\<close>. No law is
  assumed of them.

  \<^bold>\<open>Not modelled.\<close> The drawing of the invoice; the content and storage of images; the descriptive texts of
  services; the counting of throttled requests, pagination and the issue of tokens, which are the
  framework's; the declarations of its administration pages (columns, filters, previews, forms), the forms of
  questions, and the migrations generated from the models; settings that only configure the framework; the
  formats of the e-mail address and the link of a lead, which its validation checks with the library's
  validators (the lengths of its columns and the size of its amounts are checked);
  concurrency below the level of whole transactions.
\<close>

end
